(* ===== verification/Prelude.thy ===== *)
theory Prelude
  imports Main "HOL-Library.Multiset" "HOL-Library.AList" "HOL-Library.Char_ord" "HOL-Library.List_Lexorder"
begin

text \<open>
  The vocabulary every component shares: JavaScript's errors as values, its insertion-ordered
  \<open>Map\<close> as an association list, truthiness and ordering of strings, stable sorting by a key,
  and the lemma collections that carry the component proofs.
\<close>

section \<open>Errors and effectful results\<close>

text \<open>
  What the code can throw.  \<open>DomainError\<close> is the class of \<open>src/core/domain-error.ts\<close> (status
  code, code, message; the \<open>details\<close> value is only rendered for the caller and is left out).
  \<open>ZodError\<close> is thrown by a schema's \<open>parse\<close>, \<open>RangeError\<close> by \<open>BigInt\<close> and
  \<open>toISOString\<close>, \<open>JsError\<close> is a plain \<open>Error\<close> and \<open>NamedError\<close> an instance of a subclass of
  \<open>Error\<close>, with the name of its class.
\<close>

datatype js_error =
    DomainError int string string
  | ZodError string
  | RangeError string
  | JsError string
  | NamedError string string

definition isDomainError :: "js_error \<Rightarrow> bool" where
  "isDomainError e = (case e of DomainError _ _ _ \<Rightarrow> True | _ \<Rightarrow> False)"

fun error_message :: "js_error \<Rightarrow> string" where
  "error_message (DomainError _ _ m) = m"
| "error_message (ZodError m) = m"
| "error_message (RangeError m) = m"
| "error_message (JsError m) = m"
| "error_message (NamedError _ m) = m"

fun error_code :: "js_error \<Rightarrow> string" where
  "error_code (DomainError _ c _) = c"
| "error_code _ = ''''"

text \<open>
  A method of an object: it takes the object's state and returns the outcome together with the
  state it leaves.  A throw does not undo the writes made before it, so the state is returned on
  the error side too.
\<close>

type_synonym ('s, 'a) act = "'s \<Rightarrow> (js_error + 'a) \<times> 's"

definition ret :: "'a \<Rightarrow> ('s, 'a) act" where
  "ret x s = (Inr x, s)"

definition throw :: "js_error \<Rightarrow> ('s, 'a) act" where
  "throw e s = (Inl e, s)"

definition and_then :: "('s, 'a) act \<Rightarrow> ('a \<Rightarrow> ('s, 'b) act) \<Rightarrow> ('s, 'b) act" where
  "and_then m f s = (case m s of (Inl e, s') \<Rightarrow> (Inl e, s') | (Inr x, s') \<Rightarrow> f x s')"

definition lift_result :: "js_error + 'a \<Rightarrow> ('s, 'a) act" where
  "lift_result r s = (r, s)"

definition fails :: "js_error + 'a \<Rightarrow> bool" where
  "fails r = (case r of Inl _ \<Rightarrow> True | Inr _ \<Rightarrow> False)"

named_theorems act_defs "the combinators of effectful results"

declare ret_def [act_defs] throw_def [act_defs] and_then_def [act_defs] lift_result_def [act_defs]

lemma fails_simps [simp]: "fails (Inl e)" "\<not> fails (Inr x)"
  by (simp_all add: fails_def)

lemma and_then_ret [simp]: "and_then (ret x) f = f x"
  by (simp add: fun_eq_iff act_defs)

lemma and_then_throw [simp]: "and_then (throw e) f = throw e"
  by (simp add: fun_eq_iff act_defs)

lemma and_then_assoc: "and_then (and_then m f) g = and_then m (\<lambda>x. and_then (f x) g)"
  by (auto simp: fun_eq_iff and_then_def split: prod.splits sum.splits)

lemma and_then_Inr: "m s = (Inr x, s') \<Longrightarrow> and_then m f s = f x s'"
  by (simp add: and_then_def)

lemma and_then_Inl: "m s = (Inl e, s') \<Longrightarrow> and_then m f s = (Inl e, s')"
  by (simp add: and_then_def)

text \<open>A relation that every step of a method keeps is kept by the sequence.\<close>

definition keeps :: "('s \<Rightarrow> 's \<Rightarrow> bool) \<Rightarrow> ('s, 'a) act \<Rightarrow> bool" where
  "keeps R m = (\<forall>s. R s (snd (m s)))"

lemma keepsD: "keeps R m \<Longrightarrow> R s (snd (m s))"
  by (simp add: keeps_def)

lemma keeps_and_then:
  assumes "transp R" and "keeps R m" and "\<And>x. keeps R (f x)"
  shows "keeps R (and_then m f)"
  unfolding keeps_def
proof
  fix s
  obtain r s' where m: "m s = (r, s')" by (cases "m s")
  from \<open>keeps R m\<close> m have R1: "R s s'" by (metis keepsD snd_conv)
  show "R s (snd (and_then m f s))"
  proof (cases r)
    case (Inl e)
    with m R1 show ?thesis by (simp add: and_then_def)
  next
    case (Inr x)
    have "R s' (snd (f x s'))" using assms(3) by (rule keepsD)
    with R1 m Inr show ?thesis using \<open>transp R\<close> by (auto simp: and_then_def dest: transpD)
  qed
qed

section \<open>Strings and optional values\<close>

text \<open>
  A JavaScript value in a boolean position: the empty string and \<open>undefined\<close> are falsy.
\<close>

definition truthy_str :: "string \<Rightarrow> bool" where
  "truthy_str s = (s \<noteq> '''')"

definition truthy :: "string option \<Rightarrow> bool" where
  "truthy x = (case x of None \<Rightarrow> False | Some s \<Rightarrow> truthy_str s)"

lemma truthy_simps [simp]: "\<not> truthy None" "truthy (Some s) = (s \<noteq> [])"
  by (simp_all add: truthy_def truthy_str_def)

text \<open>\<open>a ?? b\<close>.\<close>

definition coalesce :: "'a option \<Rightarrow> 'a \<Rightarrow> 'a" where
  "coalesce x d = (case x of None \<Rightarrow> d | Some v \<Rightarrow> v)"

lemma coalesce_simps [simp]: "coalesce None d = d" "coalesce (Some v) d = v"
  by (simp_all add: coalesce_def)

definition coalesce_opt :: "'a option \<Rightarrow> 'a option \<Rightarrow> 'a option" where
  "coalesce_opt x d = (case x of None \<Rightarrow> d | Some v \<Rightarrow> Some v)"

lemma coalesce_opt_simps [simp]: "coalesce_opt None d = d" "coalesce_opt (Some v) d = Some v"
  by (simp_all add: coalesce_opt_def)

text \<open>\<open>s.slice(0, n)\<close> and \<open>xs.slice(0, n)\<close> for a limit that may be negative: a negative end
  counts from the end of the list.\<close>

definition slice0 :: "int \<Rightarrow> 'a list \<Rightarrow> 'a list" where
  "slice0 n xs = (if 0 \<le> n then take (nat n) xs else take (nat (int (length xs) + n)) xs)"

lemma set_slice0: "set (slice0 n xs) \<subseteq> set xs"
  by (auto simp: slice0_def dest: in_set_takeD)

lemma length_slice0_le: "0 \<le> n \<Longrightarrow> int (length (slice0 n xs)) \<le> n"
  by (simp add: slice0_def)

lemma slice0_is_take: "\<exists>m. slice0 n xs = take m xs"
  by (auto simp: slice0_def)

definition upper_char :: "char \<Rightarrow> char" where
  "upper_char c = (if CHR ''a'' \<le> c \<and> c \<le> CHR ''z'' then char_of (of_char c - 32 :: nat) else c)"

definition toUpperCase :: "string \<Rightarrow> string" where
  "toUpperCase s = map upper_char s"

definition is_space :: "char \<Rightarrow> bool" where
  "is_space c = (c \<in> {CHR '' '', CHR 0x09, CHR 0x0A, CHR 0x0B, CHR 0x0C, CHR 0x0D})"

definition trim :: "string \<Rightarrow> string" where
  "trim s = rev (dropWhile is_space (rev (dropWhile is_space s)))"

fun includes_str :: "string \<Rightarrow> string \<Rightarrow> bool" where
  "includes_str [] p = (p = [])"
| "includes_str (c # s) p = (take (length p) (c # s) = p \<or> includes_str s p)"

definition startsWith :: "string \<Rightarrow> string \<Rightarrow> bool" where
  "startsWith s p = (take (length p) s = p)"

fun join_with :: "string \<Rightarrow> string list \<Rightarrow> string" where
  "join_with sep [] = ''''"
| "join_with sep [x] = x"
| "join_with sep (x # y # xs) = x @ sep @ join_with sep (y # xs)"

text \<open>\<open>Number.MAX_SAFE_INTEGER\<close>.\<close>

definition MAX_SAFE_INTEGER :: int where
  "MAX_SAFE_INTEGER = 9007199254740991"

section \<open>JavaScript's Map\<close>

text \<open>
  \<open>Map\<close> keeps its entries in insertion order; \<open>set\<close> on a present key overwrites the value in
  place and on a new key appends.  An association list with \<^const>\<open>AList.update\<close> is exactly that.
\<close>

type_synonym 'v jsmap = "(string \<times> 'v) list"

definition map_get :: "'v jsmap \<Rightarrow> string \<Rightarrow> 'v option" where
  "map_get m k = map_of m k"

definition map_set :: "string \<Rightarrow> 'v \<Rightarrow> 'v jsmap \<Rightarrow> 'v jsmap" where
  "map_set k v m = AList.update k v m"

definition map_delete :: "string \<Rightarrow> 'v jsmap \<Rightarrow> 'v jsmap" where
  "map_delete k m = AList.delete k m"

definition map_values :: "'v jsmap \<Rightarrow> 'v list" where
  "map_values m = map snd m"

definition map_keys :: "'v jsmap \<Rightarrow> string set" where
  "map_keys m = fst ` set m"

text \<open>A well-formed \<open>Map\<close> has one entry per key.\<close>

definition map_wf :: "'v jsmap \<Rightarrow> bool" where
  "map_wf m = distinct (map fst m)"

named_theorems jsmap "laws of the Map operations"

lemma map_get_Nil [simp, jsmap]: "map_get [] k = None"
  by (simp add: map_get_def)

lemma map_get_set [simp, jsmap]:
  "map_get (map_set k v m) k' = (if k' = k then Some v else map_get m k')"
  by (simp add: map_get_def map_set_def update_conv)

lemma map_get_delete [simp, jsmap]:
  "map_get (map_delete k m) k' = (if k' = k then None else map_get m k')"
  by (simp add: map_get_def map_delete_def delete_conv)

lemma map_wf_Nil [simp, jsmap]: "map_wf []"
  by (simp add: map_wf_def)

lemma map_wf_set [simp, jsmap]: "map_wf m \<Longrightarrow> map_wf (map_set k v m)"
  by (simp add: map_wf_def map_set_def distinct_update)

lemma map_wf_delete [simp, jsmap]: "map_wf m \<Longrightarrow> map_wf (map_delete k m)"
  by (simp add: map_wf_def map_delete_def distinct_delete)

lemma map_values_Nil [simp]: "map_values [] = []"
  by (simp add: map_values_def)

lemma map_values_get: "map_get m k = Some v \<Longrightarrow> v \<in> set (map_values m)"
  by (force simp: map_get_def map_values_def dest: map_of_SomeD)

lemma map_get_values: "map_wf m \<Longrightarrow> v \<in> set (map_values m) \<Longrightarrow> \<exists>k. map_get m k = Some v"
  by (auto simp: map_wf_def map_get_def map_values_def)

lemma map_keys_set [simp, jsmap]: "map_keys (map_set k v m) = insert k (map_keys m)"
  by (simp add: map_keys_def map_set_def dom_update)

lemma map_keys_get: "k \<in> map_keys m \<longleftrightarrow> map_get m k \<noteq> None"
  by (force simp: map_keys_def map_get_def map_of_eq_None_iff)

lemma map_get_keys: "map_get m k = Some v \<Longrightarrow> k \<in> map_keys m"
  by (simp add: map_keys_get)

lemma map_set_new: "map_get m k = None \<Longrightarrow> map_set k v m = m @ [(k, v)]"
  by (induction m) (auto simp: map_get_def map_set_def split: if_splits)

text \<open>
  A loop \<open>for (const x of chosen) x.field = ...\<close> over objects that a \<open>Map\<close> holds writes to the
  entries of the chosen keys.
\<close>

definition write_entries :: "string list \<Rightarrow> ('v \<Rightarrow> 'v) \<Rightarrow> 'v jsmap \<Rightarrow> 'v jsmap" where
  "write_entries ks f m = map (\<lambda>(k, v). (k, if k \<in> set ks then f v else v)) m"

lemma map_get_write_entries [simp, jsmap]:
  "map_get (write_entries ks f m) k = (if k \<in> set ks then map_option f (map_get m k) else map_get m k)"
  by (induction m) (auto simp: write_entries_def map_get_def)

lemma map_wf_write_entries [simp, jsmap]: "map_wf (write_entries ks f m) = map_wf m"
  by (simp add: map_wf_def write_entries_def case_prod_unfold comp_def)

lemma map_keys_write_entries [simp, jsmap]: "map_keys (write_entries ks f m) = map_keys m"
  by (force simp: map_keys_def write_entries_def image_image)

lemma length_write_entries [simp]: "length (write_entries ks f m) = length m"
  by (simp add: write_entries_def)

lemma map_get_entry: "map_wf m \<Longrightarrow> (k, v) \<in> set m \<Longrightarrow> map_get m k = Some v"
  by (simp add: map_wf_def map_get_def)

lemma map_get_in: "map_get m k = Some v \<Longrightarrow> (k, v) \<in> set m"
  by (simp add: map_get_def map_of_SomeD)

text \<open>An optional query field: absent (or, for a string, empty) means no restriction.\<close>

fun matches :: "'a option \<Rightarrow> 'a \<Rightarrow> bool" where
  "matches None x = True"
| "matches (Some v) x = (x = v)"

definition matches_str :: "string option \<Rightarrow> string \<Rightarrow> bool" where
  "matches_str q x = (truthy q \<longrightarrow> q = Some x)"

section \<open>Sums over the values of a Map\<close>

definition sum_vals :: "('v \<Rightarrow> int) \<Rightarrow> 'v jsmap \<Rightarrow> int" where
  "sum_vals f m = sum_list (map f (map_values m))"

definition val_or0 :: "('v \<Rightarrow> int) \<Rightarrow> 'v option \<Rightarrow> int" where
  "val_or0 f x = (case x of None \<Rightarrow> 0 | Some v \<Rightarrow> f v)"

lemma val_or0_simps [simp]: "val_or0 f None = 0" "val_or0 f (Some v) = f v"
  by (simp_all add: val_or0_def)

lemma sum_vals_Nil [simp]: "sum_vals f [] = 0"
  by (simp add: sum_vals_def)

lemma sum_vals_set [jsmap]:
  "sum_vals f (map_set k v m) = sum_vals f m - val_or0 f (map_get m k) + f v"
  by (induction m) (auto simp: sum_vals_def map_values_def map_set_def map_get_def)

lemma sum_vals_nonneg: "(\<And>v. v \<in> set (map_values m) \<Longrightarrow> 0 \<le> f v) \<Longrightarrow> 0 \<le> sum_vals f m"
  unfolding sum_vals_def by (rule sum_list_nonneg) auto

lemma sum_vals_member_le:
  assumes "map_get m k = Some v" and "\<And>x. x \<in> set (map_values m) \<Longrightarrow> 0 \<le> f x"
  shows "f v \<le> sum_vals f m"
proof -
  from assms(1) have "v \<in> set (map_values m)" by (rule map_values_get)
  then have "f v \<in> set (map f (map_values m))" by simp
  then show ?thesis unfolding sum_vals_def
    using assms(2) by (intro member_le_sum_list) auto
qed

lemma sum_vals_cong: "(\<And>v. v \<in> set (map_values m) \<Longrightarrow> f v = g v) \<Longrightarrow> sum_vals f m = sum_vals g m"
  by (auto simp: sum_vals_def intro!: arg_cong [where f = sum_list])

lemma sum_vals_filter:
  "sum_list (map f (filter P (map_values m))) = sum_vals (\<lambda>v. if P v then f v else 0) m"
  by (simp add: sum_vals_def sum_list_map_filter')

section \<open>Stable sorting of query results\<close>

text \<open>
  \<open>Array.prototype.sort\<close> is stable.  The code sorts by a timestamp or key with
  \<open>left.localeCompare(right)\<close>; on the fixed-width ISO-8601 strings the code stores, that is the
  lexicographic order of \<open>HOL-Library.List_Lexorder\<close>.  A descending stable sort keeps equal
  elements in their original order, so it is a sort of the reversed list, reversed.
\<close>

definition sort_asc :: "('a \<Rightarrow> 'k::linorder) \<Rightarrow> 'a list \<Rightarrow> 'a list" where
  "sort_asc k xs = sort_key k xs"

definition sort_desc :: "('a \<Rightarrow> 'k::linorder) \<Rightarrow> 'a list \<Rightarrow> 'a list" where
  "sort_desc k xs = rev (sort_key k (rev xs))"

lemma set_sort_asc [simp]: "set (sort_asc k xs) = set xs"
  by (simp add: sort_asc_def)

lemma set_sort_desc [simp]: "set (sort_desc k xs) = set xs"
  by (simp add: sort_desc_def)

lemma length_sort_asc [simp]: "length (sort_asc k xs) = length xs"
  by (simp add: sort_asc_def)

lemma length_sort_desc [simp]: "length (sort_desc k xs) = length xs"
  by (simp add: sort_desc_def)

lemma sorted_sort_asc: "sorted (map k (sort_asc k xs))"
  by (simp add: sort_asc_def)

lemma sorted_sort_desc: "sorted (rev (map k (sort_desc k xs)))"
  by (simp add: sort_desc_def rev_map)

lemma distinct_sort_asc: "distinct (map f (sort_asc k xs)) = distinct (map f xs)"
proof -
  have "mset (map f (sort_asc k xs)) = mset (map f xs)"
    by (simp add: sort_asc_def)
  then show ?thesis by (metis mset_eq_imp_distinct_iff)
qed

text \<open>A selection as the queries make it: filter the entries, sort them, cut the list.\<close>

lemma selected_entry:
  assumes "e \<in> set (slice0 n (sort_asc key (filter P m)))"
  shows "e \<in> set m" "P e"
  using assms subsetD [OF set_slice0] by fastforce+

lemma distinct_slice0: "distinct (map f xs) \<Longrightarrow> distinct (map f (slice0 n xs))"
proof -
  assume d: "distinct (map f xs)"
  obtain m where "slice0 n xs = take m xs" using slice0_is_take by blast
  with d show ?thesis by (simp add: take_map [symmetric])
qed

lemma distinct_selected:
  assumes "map_wf m"
  shows "distinct (map fst (slice0 n (sort_asc key (filter P m))))"
  using assms by (intro distinct_slice0)
    (simp add: distinct_sort_asc map_wf_def distinct_map_filter)

section \<open>Reachability\<close>

text \<open>
  A machine is an initial state and a step relation; an invariant of every step is an invariant
  of every reachable state.  Components instantiate the locale with their own steps.
\<close>

locale invariant_system =
  fixes init :: "'s \<Rightarrow> bool"
    and step :: "'s \<Rightarrow> 's \<Rightarrow> bool"
    and inv :: "'s \<Rightarrow> bool"
  assumes inv_init: "init s \<Longrightarrow> inv s"
    and inv_step: "step s t \<Longrightarrow> inv s \<Longrightarrow> inv t"
begin

lemma inv_steps: "step\<^sup>*\<^sup>* s t \<Longrightarrow> inv s \<Longrightarrow> inv t"
  by (induction rule: rtranclp_induct) (auto intro: inv_step)

lemma inv_reachable: "init s \<Longrightarrow> step\<^sup>*\<^sup>* s t \<Longrightarrow> inv t"
  by (blast intro: inv_init inv_steps)

end

end
