(* ===== verification/LedgerTypes.thy ===== *)
theory LedgerTypes
  imports Prelude
begin

text \<open>
  The data of the ledger: the interfaces of \<open>src/ledger/types.ts\<close> as records and its string
  unions as datatypes, in the order of the file.  A field marked \<open>?\<close> in the source is an option,
  a \<open>bigint\<close> or an integral \<open>number\<close> is an \<open>int\<close>, a timestamp is the ISO-8601 string the code
  stores.  Field names carry a short prefix, as HOL's record selectors are global constants.
\<close>

section \<open>Accounts, bindings, transactions, deposits\<close>

datatype transaction_type =
  TT_deposit | TT_withdraw | TT_payment | TT_internal_transfer_in | TT_internal_transfer_out

datatype transaction_status = TS_pending | TS_confirmed | TS_failed

record account =
  acc_userId :: string
  acc_walletAddress :: "string option"
  acc_balance :: int
  acc_lockedBalance :: int
  acc_updatedAt :: string

record wallet_binding =
  wb_userId :: string
  wb_walletAddress :: string
  wb_createdAt :: string

record ledger_transaction =
  tx_txId :: string
  tx_userId :: string
  tx_type :: transaction_type
  tx_amount :: int
  tx_status :: transaction_status
  tx_blockTx :: "string option"
  tx_relatedUserId :: "string option"
  tx_idempotencyKey :: "string option"
  tx_createdAt :: string

datatype deposit_status = DS_DETECTED | DS_CONFIRMED | DS_CREDITED | DS_COMPLETED

record deposit =
  dep_depositId :: string
  dep_userId :: string
  dep_txHash :: string
  dep_amount :: int
  dep_status :: deposit_status
  dep_blockNumber :: int
  dep_createdAt :: string

record external_credit =
  ec_creditId :: string
  ec_userId :: string
  ec_amount :: int
  ec_currencyCode :: string
  ec_journalType :: string
  ec_referenceType :: string
  ec_referenceId :: string
  ec_duplicated :: bool
  ec_createdAt :: string

section \<open>Withdrawals\<close>

datatype withdrawal_status =
    LEDGER_RESERVED
  | PENDING_ADMIN
  | ADMIN_APPROVED
  | TX_BROADCASTED
  | COMPLETED
  | FAILED
  | REJECTED

datatype risk_level = RL_low | RL_medium | RL_high

record withdrawal =
  wd_withdrawalId :: string
  wd_userId :: string
  wd_amount :: int
  wd_toAddress :: string
  wd_status :: withdrawal_status
  wd_txHash :: "string option"
  wd_idempotencyKey :: string
  wd_ledgerTxId :: string
  wd_createdAt :: string
  wd_approvedAt :: "string option"
  wd_broadcastedAt :: "string option"
  wd_confirmedAt :: "string option"
  wd_failedAt :: "string option"
  wd_failReason :: "string option"
  wd_riskLevel :: risk_level
  wd_riskScore :: int
  wd_riskFlags :: "string list"
  wd_requiredApprovals :: int
  wd_approvalCount :: int
  wd_clientIp :: "string option"
  wd_deviceId :: "string option"
  wd_reviewRequiredAt :: "string option"
  wd_externalAuthProvider :: "string option"
  wd_externalAuthRequestId :: "string option"
  wd_externalAuthConfirmedAt :: "string option"

datatype actor_type = AT_admin | AT_system | AT_user

datatype approval_reason =
    manual_review_passed
  | high_value_verified
  | trusted_destination_verified
  | account_activity_verified
  | ops_override

record withdrawal_approval =
  wa_approvalId :: string
  wa_withdrawalId :: string
  wa_adminId :: string
  wa_actorType :: actor_type
  wa_reasonCode :: approval_reason
  wa_note :: "string option"
  wa_createdAt :: string

record approval_decision =
  ad_withdrawal :: withdrawal
  ad_approval :: withdrawal_approval
  ad_finalized :: bool

section \<open>Jobs, audit, sweeps, fees\<close>

datatype job_type =
  withdraw_dispatch | withdraw_reconcile | withdraw_external_sync | withdraw_manual_review | sweep_plan

datatype job_status = JS_pending | JS_running | JS_done | JS_failed

record tx_job =
  job_jobId :: string
  job_type :: job_type
  job_payload :: "(string \<times> string) list"
  job_status :: job_status
  job_retryCount :: int
  job_createdAt :: string

datatype entity_type = ET_withdrawal | ET_sweep | ET_system

record audit_log =
  al_auditId :: string
  al_entityType :: entity_type
  al_entityId :: string
  al_action :: string
  al_actorType :: actor_type
  al_actorId :: string
  al_metadata :: "(string \<times> string) list"
  al_createdAt :: string

datatype sweep_status = SW_planned | SW_queued | SW_broadcasted | SW_confirmed | SW_failed | SW_skipped

datatype network = mainnet | testnet

record sweep_record =
  sw_sweepId :: string
  sw_sourceWalletCode :: string
  sw_sourceAddress :: string
  sw_targetAddress :: string
  sw_currencyId :: "int option"
  sw_network :: "network option"
  sw_amount :: int
  sw_status :: sweep_status
  sw_externalRef :: "string option"
  sw_txHash :: "string option"
  sw_note :: "string option"
  sw_attemptCount :: int
  sw_createdAt :: string
  sw_queuedAt :: "string option"
  sw_lastAttemptAt :: "string option"
  sw_broadcastedAt :: "string option"
  sw_confirmedAt :: "string option"

datatype fee_reference = FR_withdrawal | FR_sweep

record network_fee_receipt =
  nf_feeReceiptId :: string
  nf_referenceType :: fee_reference
  nf_referenceId :: string
  nf_txHash :: string
  nf_feeSun :: int
  nf_energyUsed :: int
  nf_bandwidthUsed :: int
  nf_confirmedAt :: string
  nf_createdAt :: string

text \<open>The \<open>networkFee\<close> argument of \<open>confirmWithdrawal\<close> and \<open>confirmSweep\<close>.\<close>

record network_fee =
  fee_txHash :: string
  fee_feeSun :: int
  fee_energyUsed :: int
  fee_bandwidthUsed :: int

text \<open>The inline value type of the \<open>networkFeeJournals\<close> map.\<close>

record network_fee_journal =
  nj_snapshotDate :: string
  nj_referenceType :: fee_reference
  nj_feeSun :: int
  nj_createdAt :: string

record fee_by_reference =
  fr_ledgerFeeSun :: int
  fr_actualFeeSun :: int
  fr_ledgerFeeCount :: int
  fr_actualFeeCount :: int

record network_fee_snapshot =
  fs_snapshotDate :: string
  fs_ledgerFeeSun :: int
  fs_actualFeeSun :: int
  fs_gapFeeSun :: int
  fs_ledgerFeeCount :: int
  fs_actualFeeCount :: int
  fs_withdrawal :: fee_by_reference
  fs_sweep :: fee_by_reference

section \<open>Outbox and event consumers\<close>

text \<open>
  A \<open>Record<string, unknown>\<close> payload: the JavaScript values that occur in one.
  \<open>JUndef\<close> is a key that is present with the value \<open>undefined\<close>.
\<close>

datatype jsval =
    JUndef
  | JNull
  | JBool bool
  | JNum int
  | JStr string
  | JArr "jsval list"
  | JObj "(string \<times> jsval) list"

datatype outbox_status = OB_pending | OB_processing | OB_published | OB_dead_lettered

datatype dead_letter_category =
  DC_external_dependency | DC_validation | DC_state_conflict | DC_network | DC_unknown

record outbox_event =
  ob_outboxEventId :: string
  ob_eventType :: string
  ob_aggregateType :: string
  ob_aggregateId :: string
  ob_payload :: "(string \<times> jsval) list"
  ob_status :: outbox_status
  ob_attempts :: int
  ob_availableAt :: string
  ob_createdAt :: string
  ob_processingStartedAt :: "string option"
  ob_publishedAt :: "string option"
  ob_deadLetteredAt :: "string option"
  ob_deadLetterAcknowledgedAt :: "string option"
  ob_deadLetterAcknowledgedBy :: "string option"
  ob_deadLetterNote :: "string option"
  ob_deadLetterCategory :: "dead_letter_category option"
  ob_incidentRef :: "string option"
  ob_lastError :: "string option"

record outbox_summary =
  os_pendingCount :: nat
  os_processingCount :: nat
  os_publishedCount :: nat
  os_deadLetteredCount :: nat
  os_deadLetterAcknowledgedCount :: nat
  os_deadLetterUnacknowledgedCount :: nat
  os_oldestPendingCreatedAt :: "string option"
  os_oldestDeadLetteredAt :: "string option"

datatype attempt_status = AS_succeeded | AS_failed

record consumer_attempt =
  ca_attemptId :: string
  ca_eventKey :: string
  ca_eventType :: string
  ca_consumerName :: string
  ca_status :: attempt_status
  ca_attemptNumber :: int
  ca_aggregateId :: "string option"
  ca_errorMessage :: "string option"
  ca_durationMs :: int
  ca_createdAt :: string

record consumer_dead_letter =
  cd_deadLetterId :: string
  cd_eventKey :: string
  cd_eventType :: string
  cd_consumerName :: string
  cd_aggregateId :: "string option"
  cd_payload :: "(string \<times> jsval) list"
  cd_errorMessage :: string
  cd_failedAt :: string

datatype checkpoint_status = CS_succeeded | CS_dead_lettered

record consumer_checkpoint =
  cc_consumerName :: string
  cc_eventKey :: string
  cc_eventType :: string
  cc_aggregateId :: "string option"
  cc_lastStatus :: checkpoint_status
  cc_firstProcessedAt :: string
  cc_lastProcessedAt :: string

record ledger_summary =
  ls_accountCount :: nat
  ls_availableBalance :: int
  ls_lockedBalance :: int
  ls_liabilityBalance :: int
  ls_confirmedDepositCount :: nat
  ls_activeWithdrawalCount :: nat

section \<open>Operation results\<close>

record deposit_apply_result =
  dr_deposit :: deposit
  dr_duplicated :: bool

record transfer_result =
  tr_fromTx :: ledger_transaction
  tr_toTx :: ledger_transaction
  tr_duplicated :: bool

record withdrawal_request_result =
  wr_withdrawal :: withdrawal
  wr_duplicated :: bool

section \<open>The life-cycle order of withdrawal statuses\<close>

text \<open>
  Statuses are ordered by how far a withdrawal has come.  The three final ones share the top of the
  life cycle; the order lists them as the source does, which makes it linear.
\<close>

fun status_rank :: "withdrawal_status \<Rightarrow> nat" where
  "status_rank LEDGER_RESERVED = 0"
| "status_rank PENDING_ADMIN = 1"
| "status_rank ADMIN_APPROVED = 2"
| "status_rank TX_BROADCASTED = 3"
| "status_rank COMPLETED = 4"
| "status_rank FAILED = 5"
| "status_rank REJECTED = 6"

lemma status_rank_inj: "status_rank a = status_rank b \<Longrightarrow> a = b"
  by (cases a; cases b) simp_all

instantiation withdrawal_status :: linorder
begin

definition less_eq_withdrawal_status :: "withdrawal_status \<Rightarrow> withdrawal_status \<Rightarrow> bool" where
  "less_eq_withdrawal_status a b = (status_rank a \<le> status_rank b)"

definition less_withdrawal_status :: "withdrawal_status \<Rightarrow> withdrawal_status \<Rightarrow> bool" where
  "less_withdrawal_status a b = (status_rank a < status_rank b)"

instance
  by intro_classes
    (auto simp: less_eq_withdrawal_status_def less_withdrawal_status_def intro: status_rank_inj)

end

end
