(* ===== verification/JsNumber.thy ===== *)
theory JsNumber
  imports Complex_Main LedgerTypes
begin

text \<open>
  JavaScript's \<open>number\<close>: IEEE-754 binary64 with round to nearest, ties to even, as an integer
  significand and a power of two.  Only what the code does with amounts is here: the nearest
  double of a decimal, multiplication, \<open>Math.round\<close> and a comparison.  The sign of zero is not
  kept (no amount depends on it).  \<open>num_val\<close> reads a finite double as a rational, for the proofs.
\<close>

datatype js_number = JsNaN | JsInf bool | JsFin int int

section \<open>Rounding a ratio to binary64\<close>

function bits :: "int \<Rightarrow> int" where
  "bits n = (if n \<le> 0 then 0 else 1 + bits (n div 2))"
  by pat_completeness auto
termination
  by (relation "measure nat") auto

declare bits.simps [simp del]

definition pow2i :: "int \<Rightarrow> int" where
  "pow2i e = 2 ^ nat e"

definition round_half_even :: "int \<Rightarrow> int \<Rightarrow> int" where
  "round_half_even n d =
     (let f = n div d; r = n mod d in
      if 2 * r < d then f else if d < 2 * r then f + 1 else if even f then f else f + 1)"

text \<open>\<open>ge_pow2 p q e\<close> decides \<open>p / q \<ge> 2 ^ e\<close>.\<close>

definition ge_pow2 :: "int \<Rightarrow> int \<Rightarrow> int \<Rightarrow> bool" where
  "ge_pow2 p q e = (if 0 \<le> e then q * pow2i e \<le> p else q \<le> p * pow2i (- e))"

definition ratio_exp :: "int \<Rightarrow> int \<Rightarrow> int" where
  "ratio_exp p q = (let e0 = bits p - bits q in if ge_pow2 p q e0 then e0 else e0 - 1)"

definition ulp_exp :: "int \<Rightarrow> int \<Rightarrow> int" where
  "ulp_exp p q = max (ratio_exp p q - 52) (- 1074)"

definition significand :: "int \<Rightarrow> int \<Rightarrow> int" where
  "significand p q =
     (let u = ulp_exp p q
      in round_half_even (p * pow2i (- u)) (q * pow2i u))"

definition fl_pos :: "int \<Rightarrow> int \<Rightarrow> js_number" where
  "fl_pos p q =
     (let u = ulp_exp p q; m = significand p q
      in if 0 \<le> u \<and> 2 ^ 1024 \<le> m * pow2i u then JsInf False else JsFin m u)"

fun js_neg :: "js_number \<Rightarrow> js_number" where
  "js_neg JsNaN = JsNaN"
| "js_neg (JsInf b) = JsInf (\<not> b)"
| "js_neg (JsFin m e) = JsFin (- m) e"

text \<open>The double nearest to \<open>p / q\<close> (\<open>q > 0\<close>).\<close>

definition fl :: "int \<Rightarrow> int \<Rightarrow> js_number" where
  "fl p q = (if p = 0 then JsFin 0 0 else if 0 < p then fl_pos p q else js_neg (fl_pos (- p) q))"

definition fin_mul :: "int \<Rightarrow> int \<Rightarrow> int \<Rightarrow> js_number" where
  "fin_mul m e k = fl (m * k * pow2i e) (pow2i (- e))"

text \<open>\<open>Math.round\<close>: the nearest integer, a tie goes up.\<close>

definition math_round :: "int \<Rightarrow> int \<Rightarrow> int" where
  "math_round m e = (2 * m * pow2i e + pow2i (- e)) div (2 * pow2i (- e))"

text \<open>\<open>Math.abs(m * 2^e - r) > 0.000001\<close>; the literal is the double nearest to a millionth.\<close>

definition off_by_more_than_tol :: "int \<Rightarrow> int \<Rightarrow> int \<Rightarrow> bool" where
  "off_by_more_than_tol m e r =
     (case fl 1 1000000 of
        JsFin tm te \<Rightarrow> tm * pow2i te * pow2i (- e) < \<bar>m * pow2i e - r * pow2i (- e)\<bar> * pow2i (- te)
      | _ \<Rightarrow> False)"

definition num_val :: "int \<Rightarrow> int \<Rightarrow> rat" where
  "num_val m e = of_int (m * pow2i e) / of_int (pow2i (- e))"

section \<open>The rounding error\<close>

lemma pow2i_pos [simp]: "0 < pow2i e"
  by (simp add: pow2i_def)

lemma pow2i_nonzero [simp]: "pow2i e \<noteq> 0"
  by (simp add: pow2i_def)

lemma bits_nonneg [simp]: "0 \<le> bits n"
proof (induction n rule: bits.induct)
  case (1 n)
  then show ?case by (simp add: bits.simps [of n])
qed

lemma bits_pos: "0 < n \<Longrightarrow> 0 < bits n"
  using bits_nonneg [of "n div 2"] by (simp add: bits.simps [of n] del: bits_nonneg)

lemma bits_bounds: "0 < n \<Longrightarrow> 2 ^ nat (bits n) \<le> 2 * n \<and> n < 2 ^ nat (bits n)"
proof (induction n rule: bits.induct)
  case (1 n)
  show ?case
  proof (cases "n div 2 \<le> 0")
    case True
    with 1 have "n = 1" by simp
    then show ?thesis by (simp add: bits.simps [of 1] bits.simps [of 0])
  next
    case False
    with 1 have IH: "2 ^ nat (bits (n div 2)) \<le> 2 * (n div 2)" "n div 2 < 2 ^ nat (bits (n div 2))"
      by auto
    from False have "0 < bits (n div 2)" by (simp add: bits_pos)
    with \<open>0 < n\<close> have "nat (bits n) = Suc (nat (bits (n div 2)))"
      by (simp add: bits.simps [of n] nat_add_distrib)
    then have "(2::int) ^ nat (bits n) = 2 * 2 ^ nat (bits (n div 2))" by simp
    with IH show ?thesis by linarith
  qed
qed

lemma round_half_even_error:
  assumes "0 < d"
  shows "2 * \<bar>round_half_even n d * d - n\<bar> \<le> d"
proof -
  define f r where "f = n div d" and "r = n mod d"
  have n: "n = f * d + r" by (simp add: f_def r_def)
  have r: "0 \<le> r" "r < d" using assms by (auto simp: r_def)
  have split: "round_half_even n d
      = (if 2 * r < d then f else if d < 2 * r then f + 1 else if even f then f else f + 1)"
    by (simp add: round_half_even_def Let_def f_def r_def)
  have down: "f * d - n = - r" and up: "(f + 1) * d - n = d - r"
    using n by (simp_all only: distrib_right)
  consider "round_half_even n d = f" "2 * r \<le> d" | "round_half_even n d = f + 1" "d \<le> 2 * r"
    unfolding split using r by (cases "2 * r" d rule: linorder_cases; cases "even f") simp_all
  then show ?thesis
  proof cases
    case 1
    with r show ?thesis by (simp only: down abs_minus_cancel abs_of_nonneg)
  next
    case 2
    with r show ?thesis by (simp only: up) simp
  qed
qed

lemma num_val_powi: "num_val m e = of_int m * 2 powi e"
proof (cases "0 \<le> e")
  case True
  then show ?thesis by (simp add: num_val_def pow2i_def power_int_def)
next
  case False
  then have "(2::rat) powi e = inverse (2 ^ nat (- e))"
    by (simp only: power_int_def if_False power_inverse)
  moreover from False have "pow2i e = 1" by (simp add: pow2i_def)
  moreover have "(of_int (pow2i (- e)) :: rat) = 2 ^ nat (- e)" by (simp only: pow2i_def of_int_power of_int_numeral)
  ultimately show ?thesis by (simp only: num_val_def divide_inverse mult_1_right)
qed

lemma powi_split: "(2::rat) powi e = of_int (pow2i e) / of_int (pow2i (- e))"
  using num_val_powi [of 1 e] by (simp add: num_val_def)

lemma ge_pow2_iff:
  assumes "0 < q"
  shows "ge_pow2 p q e \<longleftrightarrow> (2::rat) powi e \<le> of_int p / of_int q"
proof (cases "0 \<le> e")
  case True
  then have "(2::rat) powi e = of_int (pow2i e)" by (simp add: powi_split pow2i_def [of "- e"])
  moreover have "(of_int (pow2i e) :: rat) \<le> of_int p / of_int q
      \<longleftrightarrow> (of_int (pow2i e * q) :: rat) \<le> of_int p"
    using assms by (simp add: pos_le_divide_eq)
  ultimately show ?thesis using True by (simp add: ge_pow2_def mult.commute del: of_int_mult)
next
  case False
  then have "(2::rat) powi e = 1 / of_int (pow2i (- e))" by (simp add: powi_split pow2i_def [of e])
  moreover have "(1::rat) / of_int (pow2i (- e)) \<le> of_int p / of_int q
      \<longleftrightarrow> (of_int q :: rat) \<le> of_int (p * pow2i (- e))"
    using assms by (simp add: field_simps)
  ultimately show ?thesis using False by (simp add: ge_pow2_def del: of_int_mult)
qed

lemma bits_powi:
  assumes "0 < n"
  shows "(2::rat) powi (bits n - 1) \<le> of_int n" "of_int n < (2::rat) powi (bits n)"
proof -
  have b: "0 < bits n" using assms by (rule bits_pos)
  have "(2::rat) powi (bits n) = of_int (2 ^ nat (bits n))"
    by (simp add: power_int_def)
  moreover have "(of_int (2 ^ nat (bits n)) :: rat) \<le> of_int (2 * n)"
      "(of_int n :: rat) < of_int (2 ^ nat (bits n))"
    using bits_bounds [OF assms] by (simp_all only: of_int_le_iff of_int_less_iff)
  moreover have "(2::rat) powi (bits n - 1) = 2 powi (bits n) / 2"
    by (simp add: power_int_diff)
  ultimately show "(2::rat) powi (bits n - 1) \<le> of_int n" "of_int n < (2::rat) powi (bits n)"
    by simp_all
qed

text \<open>The exponent is exact: \<open>2 ^ ratio_exp \<le> p / q < 2 ^ (ratio_exp + 1)\<close>.\<close>

lemma ratio_exp_bounds:
  assumes "0 < p" and "0 < q"
  shows "(2::rat) powi (ratio_exp p q) \<le> of_int p / of_int q"
    and "of_int p / of_int q < (2::rat) powi (ratio_exp p q + 1)"
proof -
  let ?e = "bits p - bits q" and ?r = "(of_int p :: rat) / of_int q"
  note bp = bits_powi [OF assms(1)] and bq = bits_powi [OF assms(2)]
  have q0: "(0::rat) < of_int q" using assms(2) by simp
  have "?r < 2 powi (bits p) / 2 powi (bits q - 1)"
    using bp(2) bq(1) q0 by (intro frac_less) (use assms in auto)
  then have up: "?r < 2 powi (?e + 1)"
    by (simp add: power_int_diff power_int_add)
  have "2 powi (bits p - 1) / 2 powi (bits q) \<le> ?r"
    using bp(1) bq(2) q0 assms by (intro frac_le) auto
  then have lo: "2 powi (?e - 1) \<le> ?r"
    by (simp add: power_int_diff)
  show "(2::rat) powi (ratio_exp p q) \<le> ?r"
    using lo ge_pow2_iff [OF assms(2), of p ?e] by (auto simp: ratio_exp_def Let_def)
  show "?r < 2 powi (ratio_exp p q + 1)"
    using up ge_pow2_iff [OF assms(2), of p ?e] by (auto simp: ratio_exp_def Let_def not_le)
qed

lemma ratio_exp_less:
  assumes "0 < p" and "0 < q" and "of_int p / of_int q < (2::rat) powi t"
  shows "ratio_exp p q < t"
proof (rule ccontr)
  assume "\<not> ratio_exp p q < t"
  then have "(2::rat) powi t \<le> 2 powi (ratio_exp p q)" by (intro power_int_increasing) auto
  with ratio_exp_bounds(1) [OF assms(1,2)] assms(3) show False by linarith
qed

lemma ratio_exp_ge:
  assumes "0 < p" and "0 < q" and "(2::rat) powi t \<le> of_int p / of_int q"
  shows "t \<le> ratio_exp p q"
proof (rule ccontr)
  assume "\<not> t \<le> ratio_exp p q"
  then have "(2::rat) powi (ratio_exp p q + 1) \<le> 2 powi t" by (intro power_int_increasing) auto
  with ratio_exp_bounds(2) [OF assms(1,2)] assms(3) show False by linarith
qed

lemma significand_error:
  assumes "0 < q"
  shows "\<bar>num_val (significand p q) (ulp_exp p q) - of_int p / of_int q\<bar> \<le> 2 powi (ulp_exp p q) / 2"
proof -
  let ?u = "ulp_exp p q" and ?m = "significand p q"
  have d: "0 < q * pow2i ?u" using assms by simp
  have "2 * \<bar>?m * (q * pow2i ?u) - p * pow2i (- ?u)\<bar> \<le> q * pow2i ?u"
    unfolding significand_def Let_def using d by (rule round_half_even_error)
  then have "(of_int (2 * \<bar>?m * (q * pow2i ?u) - p * pow2i (- ?u)\<bar>) :: rat) \<le> of_int (q * pow2i ?u)"
    by (simp only: of_int_le_iff)
  then have A: "2 * \<bar>of_int ?m * (of_int q * of_int (pow2i ?u)) - of_int p * of_int (pow2i (- ?u))\<bar>
      \<le> (of_int q * of_int (pow2i ?u) :: rat)"
    by simp
  let ?c = "(of_int q * of_int (pow2i (- ?u)) :: rat)"
  have c: "0 < ?c" using assms by simp
  have "num_val ?m ?u - of_int p / of_int q
      = (of_int ?m * (of_int q * of_int (pow2i ?u)) - of_int p * of_int (pow2i (- ?u))) / ?c"
    using assms by (simp add: num_val_def field_simps)
  then have "\<bar>num_val ?m ?u - of_int p / of_int q\<bar>
      = \<bar>of_int ?m * (of_int q * of_int (pow2i ?u)) - of_int p * of_int (pow2i (- ?u))\<bar> / ?c"
    using c by (simp only: abs_divide abs_of_pos)
  also have "\<dots> \<le> (of_int q * of_int (pow2i ?u)) / 2 / ?c"
    using A c by (intro divide_right_mono) auto
  also have "\<dots> = 2 powi ?u / 2"
    using assms by (simp add: powi_split)
  finally show ?thesis .
qed

end
