(* ===== verification/Money.thy ===== *)
theory Money
  imports JsNumber
begin

text \<open>
  \<open>src/core/money.ts\<close> and \<open>src/core/tron.ts\<close>: amounts in units of a millionth of a KORI, their
  decimal rendering, the parser for stored decimals and the parser for request amounts.
\<close>

definition KORI_DECIMALS :: nat where
  "KORI_DECIMALS = 6"

definition KORI_SCALE :: int where
  "KORI_SCALE = 1000000"

section \<open>Decimal digits\<close>

definition digit_char :: "nat \<Rightarrow> char" where
  "digit_char d = char_of (48 + d)"

definition is_digit :: "char \<Rightarrow> bool" where
  "is_digit c = (CHR ''0'' \<le> c \<and> c \<le> CHR ''9'')"

definition digit_val :: "char \<Rightarrow> int" where
  "digit_val c = int (of_char c) - 48"

text \<open>\<open>BigInt.prototype.toString\<close> of a non-negative value.\<close>

fun dec :: "nat \<Rightarrow> string" where
  "dec n = (if n < 10 then [digit_char n] else dec (n div 10) @ [digit_char (n mod 10)])"

declare dec.simps [simp del]

text \<open>\<open>BigInt(s)\<close> of a string of digits.\<close>

definition digits_val :: "string \<Rightarrow> int" where
  "digits_val s = foldl (\<lambda>acc c. 10 * acc + digit_val c) 0 s"

definition padStart0 :: "nat \<Rightarrow> string \<Rightarrow> string" where
  "padStart0 n s = replicate (n - length s) (CHR ''0'') @ s"

definition padEnd0 :: "nat \<Rightarrow> string \<Rightarrow> string" where
  "padEnd0 n s = s @ replicate (n - length s) (CHR ''0'')"

section \<open>The functions of money.ts\<close>

definition formatKoriAmount :: "int \<Rightarrow> string" where
  "formatKoriAmount units =
     (let sign = (if units < 0 then ''-'' else '''');
          abs = (if units < 0 then - units else units);
          intPart = abs div KORI_SCALE;
          fracPart = padStart0 KORI_DECIMALS (dec (nat (abs mod KORI_SCALE)))
      in sign @ dec (nat intPart) @ ''.'' @ fracPart)"

text \<open>The regular expression \<open>^-?\d+(\.\d{1,6})?$\<close>.\<close>

definition stored_amount_pattern :: "string \<Rightarrow> bool" where
  "stored_amount_pattern s =
     (let u = (if startsWith s ''-'' then drop 1 s else s);
          ds = takeWhile is_digit u;
          rest = dropWhile is_digit u
      in ds \<noteq> [] \<and>
         (case rest of [] \<Rightarrow> True
          | c # fr \<Rightarrow> c = CHR ''.'' \<and> list_all is_digit fr \<and> 1 \<le> length fr \<and> length fr \<le> 6))"

definition parseStoredKoriAmount :: "string \<Rightarrow> js_error + int" where
  "parseStoredKoriAmount amount =
     (let normalized = trim amount in
      if \<not> stored_amount_pattern normalized
      then Inl (DomainError 500 ''STATE_CORRUPTED'' (''invalid stored KORI amount: '' @ normalized))
      else
        let sign = (if startsWith normalized ''-'' then - 1 else 1);
            unsigned = (if startsWith normalized ''-'' then drop 1 normalized else normalized);
            intPart = takeWhile (\<lambda>c. c \<noteq> CHR ''.'') unsigned;
            fracPart = drop (Suc (length intPart)) unsigned;
            units = digits_val intPart * KORI_SCALE + digits_val (padEnd0 KORI_DECIMALS fracPart)
        in Inr (units * sign))"

definition parseKoriAmount :: "js_number \<Rightarrow> js_error + int" where
  "parseKoriAmount amount =
     (case amount of
        JsFin m e \<Rightarrow>
          if m \<le> 0 then Inl (DomainError 400 ''VALIDATION_ERROR'' ''amount must be a positive number'')
          else (case fin_mul m e KORI_SCALE of
            JsFin ms es \<Rightarrow>
              (let rounded = math_round ms es in
               if off_by_more_than_tol ms es rounded
               then Inl (DomainError 400 ''VALIDATION_ERROR'' ''amount supports up to 6 decimals'')
               else Inr rounded)
          | _ \<Rightarrow> Inl (RangeError ''The number Infinity cannot be converted to a BigInt''))
      | _ \<Rightarrow> Inl (DomainError 400 ''VALIDATION_ERROR'' ''amount must be a positive number''))"

definition sumBigInt :: "int list \<Rightarrow> int" where
  "sumBigInt values = foldl (\<lambda>acc value. acc + value) 0 values"

text \<open>\<open>/^T[1-9A-HJ-NP-Za-km-z]{33}$/\<close> of \<open>src/core/tron.ts\<close>.\<close>

definition base58_char :: "char \<Rightarrow> bool" where
  "base58_char c =
     ((CHR ''1'' \<le> c \<and> c \<le> CHR ''9'') \<or> (CHR ''A'' \<le> c \<and> c \<le> CHR ''H'') \<or>
      (CHR ''J'' \<le> c \<and> c \<le> CHR ''N'') \<or> (CHR ''P'' \<le> c \<and> c \<le> CHR ''Z'') \<or>
      (CHR ''a'' \<le> c \<and> c \<le> CHR ''k'') \<or> (CHR ''m'' \<le> c \<and> c \<le> CHR ''z''))"

definition isValidTronAddress :: "string \<Rightarrow> bool" where
  "isValidTronAddress value =
     (case value of [] \<Rightarrow> False
      | c # rest \<Rightarrow> c = CHR ''T'' \<and> length rest = 33 \<and> list_all base58_char rest)"

section \<open>Sums\<close>

lemma sumBigInt_sum_list: "sumBigInt xs = sum_list xs"
proof -
  have "foldl (\<lambda>acc value. acc + value) a xs = a + sum_list xs" for a :: int
    by (induction xs arbitrary: a) auto
  then show ?thesis by (simp add: sumBigInt_def)
qed

lemma sumBigInt_vals: "sumBigInt (map f (map_values m)) = sum_vals f m"
  by (simp add: sumBigInt_sum_list sum_vals_def)

section \<open>Rendering and reading back\<close>

lemma of_char_digit: "d < 10 \<Longrightarrow> of_char (digit_char d) = 48 + d"
  by (simp add: digit_char_def)

lemma is_digit_digit_char [simp]: "d < 10 \<Longrightarrow> is_digit (digit_char d)"
  by (simp add: is_digit_def less_eq_char_def of_char_digit)

lemma digit_val_digit_char [simp]: "d < 10 \<Longrightarrow> digit_val (digit_char d) = int d"
  by (simp add: digit_val_def of_char_digit)

lemma is_digit_zero [simp]: "is_digit (CHR ''0'')"
  by (simp add: is_digit_def)

lemma digit_val_zero [simp]: "digit_val (CHR ''0'') = 0"
  by (simp add: digit_val_def)

lemma dec_digits: "list_all is_digit (dec n)"
proof (induction n rule: dec.induct)
  case (1 n)
  then show ?case by (cases "n < 10") (simp_all add: dec.simps [of n])
qed

lemma dec_nonempty: "dec n \<noteq> []"
  by (simp add: dec.simps [of n])

lemma digits_val_snoc: "digits_val (s @ [c]) = 10 * digits_val s + digit_val c"
  by (simp add: digits_val_def)

lemma digits_val_dec: "digits_val (dec n) = int n"
proof (induction n rule: dec.induct)
  case (1 n)
  show ?case
  proof (cases "n < 10")
    case True
    then show ?thesis by (simp add: dec.simps [of n] digits_val_def)
  next
    case False
    with 1 have "digits_val (dec n) = 10 * int (n div 10) + int (n mod 10)"
      by (simp add: dec.simps [of n] digits_val_snoc)
    also have "\<dots> = int n" by presburger
    finally show ?thesis .
  qed
qed

lemma length_dec_less: "n < 10 ^ k \<Longrightarrow> 0 < k \<Longrightarrow> length (dec n) \<le> k"
proof (induction k arbitrary: n)
  case 0
  then show ?case by simp
next
  case (Suc k)
  show ?case
  proof (cases "n < 10")
    case True
    then show ?thesis by (simp add: dec.simps [of n])
  next
    case False
    with Suc.prems have "0 < k" by (cases k) auto
    moreover from Suc.prems have "n div 10 < 10 ^ k" by (simp add: less_mult_imp_div_less)
    ultimately have "length (dec (n div 10)) \<le> k" by (rule Suc.IH [rotated])
    with False show ?thesis by (simp add: dec.simps [of n])
  qed
qed

lemma digits_val_zeros: "digits_val (replicate k (CHR ''0'') @ s) = digits_val s"
proof -
  have "foldl (\<lambda>acc c. 10 * acc + digit_val c) 0 (replicate k (CHR ''0'')) = 0"
    by (induction k) simp_all
  then show ?thesis by (simp add: digits_val_def)
qed

lemma padStart0_dec:
  assumes "n < 1000000"
  shows "length (padStart0 6 (dec n)) = 6" "list_all is_digit (padStart0 6 (dec n))"
    "digits_val (padStart0 6 (dec n)) = int n"
proof -
  have "length (dec n) \<le> 6" using assms by (intro length_dec_less) simp_all
  then show "length (padStart0 6 (dec n)) = 6" by (simp add: padStart0_def)
  show "list_all is_digit (padStart0 6 (dec n))"
    using dec_digits [of n] by (auto simp: padStart0_def list_all_iff)
  show "digits_val (padStart0 6 (dec n)) = int n"
    by (simp add: padStart0_def digits_val_zeros digits_val_dec)
qed

lemma digit_not_special:
  assumes "is_digit c"
  shows "c \<noteq> CHR ''.''" "c \<noteq> CHR ''-''" "\<not> is_space c"
  using assms by (auto simp: is_digit_def is_space_def less_eq_char_def)

lemma takeWhile_digits: "list_all is_digit ds \<Longrightarrow> takeWhile is_digit (ds @ CHR ''.'' # fr) = ds"
  by (induction ds) (auto simp: is_digit_def less_eq_char_def)

lemma dropWhile_digits: "list_all is_digit ds \<Longrightarrow> dropWhile is_digit (ds @ CHR ''.'' # fr) = CHR ''.'' # fr"
  by (induction ds) (auto simp: is_digit_def less_eq_char_def)

lemma takeWhile_not_dot:
  "list_all is_digit ds \<Longrightarrow> takeWhile (\<lambda>c. c \<noteq> CHR ''.'') (ds @ CHR ''.'' # fr) = ds"
  by (induction ds) (auto dest: digit_not_special)

lemma trim_id:
  assumes "s \<noteq> []" and "\<not> is_space (hd s)" and "\<not> is_space (last s)"
  shows "trim s = s"
proof -
  have "dropWhile is_space s = s" using assms(1,2) by (cases s) auto
  moreover have "dropWhile is_space (rev s) = rev s"
    using assms(1,3) by (cases s rule: rev_cases) auto
  ultimately show ?thesis by (simp add: trim_def)
qed

text \<open>A rendered amount: optional sign, digits, dot, six digits.\<close>

lemma parseStored_shape:
  assumes "list_all is_digit ds" "ds \<noteq> []" "list_all is_digit fr" "length fr = 6"
  shows "parseStoredKoriAmount ((if neg then ''-'' else '''') @ ds @ ''.'' @ fr)
       = Inr ((digits_val ds * KORI_SCALE + digits_val fr) * (if neg then - 1 else 1))"
proof -
  let ?s = "(if neg then ''-'' else '''') @ ds @ ''.'' @ fr"
  obtain d ds' where d: "ds = d # ds'" using assms(2) by (cases ds) auto
  with assms(1) have dd: "is_digit d" by simp
  have fr0: "fr \<noteq> []" using assms(4) by auto
  with assms(3) have "is_digit (last fr)" by (simp add: list_all_iff)
  with dd have "trim ?s = ?s"
    by (intro trim_id) (auto simp: d fr0 is_space_def dest: digit_not_special)
  moreover have "startsWith ?s ''-'' = neg"
    using dd by (auto simp: startsWith_def d dest: digit_not_special)
  moreover have "stored_amount_pattern ?s"
    using assms \<open>startsWith ?s ''-'' = neg\<close>
    by (simp add: stored_amount_pattern_def Let_def takeWhile_digits dropWhile_digits)
  ultimately show ?thesis
    using assms by (simp add: parseStoredKoriAmount_def Let_def takeWhile_not_dot padEnd0_def KORI_DECIMALS_def)
qed

lemma parse_format: "parseStoredKoriAmount (formatKoriAmount units) = Inr units"
proof -
  define a where "a = (if units < 0 then - units else units)"
  have a0: "0 \<le> a" by (simp add: a_def)
  let ?fr = "padStart0 6 (dec (nat (a mod KORI_SCALE)))"
  have "nat (a mod KORI_SCALE) < 1000000" by (simp add: KORI_SCALE_def nat_less_iff)
  note fr = padStart0_dec [OF this]
  have "formatKoriAmount units
      = (if units < 0 then ''-'' else '''') @ dec (nat (a div KORI_SCALE)) @ ''.'' @ ?fr"
    by (simp add: formatKoriAmount_def a_def Let_def KORI_DECIMALS_def)
  then have "parseStoredKoriAmount (formatKoriAmount units)
      = Inr ((digits_val (dec (nat (a div KORI_SCALE))) * KORI_SCALE + digits_val ?fr)
             * (if units < 0 then - 1 else 1))"
    using parseStored_shape [OF dec_digits dec_nonempty fr(2,1)] by simp
  moreover have "digits_val (dec (nat (a div KORI_SCALE))) = a div KORI_SCALE"
    using a0 by (simp add: digits_val_dec KORI_SCALE_def pos_imp_zdiv_nonneg_iff)
  moreover have "digits_val ?fr = a mod KORI_SCALE"
    unfolding fr(3) by (simp add: KORI_SCALE_def)
  ultimately show ?thesis by (simp add: a_def)
qed

lemma format_inject: "formatKoriAmount a = formatKoriAmount b \<Longrightarrow> a = b"
  by (metis parse_format sum.inject(2))

text \<open>
  The regular expression \<open>^-?[0-9]+\.[0-9]{6}$\<close> that the ledger contracts put on an amount, and
  that a rendered amount matches it.
\<close>

definition contract_amount_pattern :: "string \<Rightarrow> bool" where
  "contract_amount_pattern s =
     (let u = (if startsWith s ''-'' then drop 1 s else s);
          rest = dropWhile is_digit u
      in takeWhile is_digit u \<noteq> [] \<and>
         (case rest of [] \<Rightarrow> False
          | c # fr \<Rightarrow> c = CHR ''.'' \<and> list_all is_digit fr \<and> length fr = 6))"

lemma format_matches_contract: "contract_amount_pattern (formatKoriAmount units)"
proof -
  define a where "a = (if units < 0 then - units else units)"
  define ds where "ds = dec (nat (a div KORI_SCALE))"
  define fr where "fr = padStart0 6 (dec (nat (a mod KORI_SCALE)))"
  have ds: "list_all is_digit ds" "ds \<noteq> []" by (simp_all add: ds_def dec_digits dec_nonempty)
  have "nat (a mod KORI_SCALE) < 1000000" by (simp add: KORI_SCALE_def nat_less_iff)
  note f = padStart0_dec [OF this, folded fr_def]
  obtain d ds' where d: "ds = d # ds'" using ds(2) by (cases ds) auto
  with ds(1) have "d \<noteq> CHR ''-''" using digit_not_special by auto
  moreover have "formatKoriAmount units = (if units < 0 then ''-'' else '''') @ ds @ ''.'' @ fr"
    by (simp add: formatKoriAmount_def a_def ds_def fr_def Let_def KORI_DECIMALS_def)
  moreover have "takeWhile is_digit (ds @ ''.'' @ fr) = ds" "dropWhile is_digit (ds @ ''.'' @ fr) = ''.'' @ fr"
    using takeWhile_digits [OF ds(1)] dropWhile_digits [OF ds(1)] by simp_all
  ultimately show ?thesis using ds(2) f
    by (cases "units < 0") (simp_all add: contract_amount_pattern_def Let_def startsWith_def d)
qed

section \<open>Request amounts\<close>

lemma tolerance_value: "fl 1 1000000 = JsFin 4722366482869645 (- 72)"
  by (simp add: fl_def fl_pos_def significand_def ulp_exp_def ratio_exp_def ge_pow2_def bits.simps
      round_half_even_def pow2i_def Let_def)

lemma abs_pow2i [simp]: "\<bar>of_int (pow2i e) :: rat\<bar> = of_int (pow2i e)"
  by (simp add: abs_of_pos)

definition tol :: rat where
  "tol = num_val 4722366482869645 (- 72)"

lemma frac_less_iff:
  fixes a b t d :: rat
  assumes "0 < t" and "0 < d"
  shows "a / t < b / d \<longleftrightarrow> a * d < b * t"
  using assms by (simp add: field_simps)

lemma off_by_iff:
  assumes "e \<le> 0"
  shows "off_by_more_than_tol m e r \<longleftrightarrow> tol < \<bar>num_val m e - of_int r\<bar>"
proof -
  let ?d = "(of_int (pow2i (- e)) :: rat)" and ?t = "(of_int (pow2i 72) :: rat)"
  have d: "0 < ?d" and t: "0 < ?t" by simp_all
  have p: "pow2i e = 1" using assms by (simp add: pow2i_def)
  have "num_val m e - of_int r = (of_int (m - r * pow2i (- e)) :: rat) / ?d"
    by (simp add: num_val_def p field_simps)
  then have A: "\<bar>num_val m e - of_int r\<bar> = of_int \<bar>m - r * pow2i (- e)\<bar> / ?d"
    by (simp add: abs_divide)
  have T: "tol = of_int 4722366482869645 / ?t" by (simp add: tol_def num_val_def pow2i_def)
  have "tol < \<bar>num_val m e - of_int r\<bar>
      \<longleftrightarrow> of_int 4722366482869645 * ?d < of_int \<bar>m - r * pow2i (- e)\<bar> * ?t"
    unfolding A T by (rule frac_less_iff [OF t d])
  also have "\<dots> \<longleftrightarrow> 4722366482869645 * pow2i (- e) < \<bar>m - r * pow2i (- e)\<bar> * pow2i 72"
    by (simp only: of_int_mult [symmetric] of_int_less_iff)
  finally show ?thesis
    by (simp add: off_by_more_than_tol_def tolerance_value p) (simp add: pow2i_def)
qed

lemma math_round_near:
  assumes "e \<le> 0" and "2 * \<bar>num_val m e - of_int k\<bar> < 1"
  shows "math_round m e = k"
proof -
  let ?D = "pow2i (- e)"
  have p: "pow2i e = 1" using assms(1) by (simp add: pow2i_def)
  have "num_val m e - of_int k = (of_int (m - k * ?D) :: rat) / of_int ?D"
    by (simp add: num_val_def p field_simps)
  with assms(2) have "2 * \<bar>of_int (m - k * ?D) :: rat\<bar> < of_int ?D"
    by (simp add: abs_divide pos_divide_less_eq)
  then have "(of_int (2 * \<bar>m - k * ?D\<bar>) :: rat) < of_int ?D" by simp
  then have "2 * \<bar>m - k * ?D\<bar> < ?D" by (simp only: of_int_less_iff)
  then have "k * (2 * ?D) \<le> 2 * m + ?D" "2 * m + ?D < (k + 1) * (2 * ?D)"
    by (auto simp: algebra_simps abs_if split: if_splits)
  then have "(2 * m + ?D) div (2 * ?D) = k"
    by (intro int_div_pos_eq [where r = "2 * m + ?D - k * (2 * ?D)"]) (auto simp: algebra_simps)
  then show ?thesis by (simp add: math_round_def p)
qed

lemma math_round_nonneg: "0 \<le> m \<Longrightarrow> 0 \<le> math_round m e"
  unfolding math_round_def by (intro pos_imp_zdiv_nonneg_iff [THEN iffD2]) (simp_all add: less_imp_le)

lemma significand_nonneg: "0 < p \<Longrightarrow> 0 < q \<Longrightarrow> 0 \<le> significand p q"
proof -
  have "0 \<le> round_half_even n d" if "0 \<le> n" "0 < d" for n d
  proof -
    have "0 \<le> n div d" using that by (simp add: pos_imp_zdiv_nonneg_iff)
    then show ?thesis by (simp add: round_half_even_def Let_def)
  qed
  then show "0 < p \<Longrightarrow> 0 < q \<Longrightarrow> 0 \<le> significand p q"
    by (simp add: significand_def Let_def less_imp_le)
qed

text \<open>An accepted amount is never negative; it can be zero, see below.\<close>

lemma parseKoriAmount_nonneg:
  assumes "parseKoriAmount a = Inr n"
  shows "0 \<le> n"
proof -
  from assms obtain m e where a: "a = JsFin m e" and m: "0 < m"
    by (auto simp: parseKoriAmount_def split: js_number.splits if_splits)
  with assms obtain ms es where f: "fin_mul m e KORI_SCALE = JsFin ms es" and n: "n = math_round ms es"
    by (auto simp: parseKoriAmount_def Let_def split: js_number.splits if_splits)
  have "0 < m * KORI_SCALE * pow2i e" using m by (simp add: KORI_SCALE_def)
  with f have "ms = significand (m * KORI_SCALE * pow2i e) (pow2i (- e))"
    by (auto simp: fin_mul_def fl_def fl_pos_def Let_def split: if_splits)
  then have "0 \<le> ms" using \<open>0 < m * KORI_SCALE * pow2i e\<close> by (simp add: significand_nonneg)
  then show ?thesis unfolding n by (rule math_round_nonneg)
qed

lemma parseKoriAmount_error_code:
  "parseKoriAmount a = Inl e \<Longrightarrow> e = DomainError 400 ''VALIDATION_ERROR'' (error_message e) \<or>
     e = RangeError ''The number Infinity cannot be converted to a BigInt''"
  by (auto simp: parseKoriAmount_def Let_def split: js_number.splits if_splits)

text \<open>
  Below 2^53 and above 2^-900 a positive ratio rounds to a finite double with a negative or
  zero exponent, within half a unit in the last place.
\<close>

lemma fl_moderate:
  assumes "0 < p" "0 < q" "(2::rat) powi (- 900) \<le> of_int p / of_int q" "of_int p / of_int q < (2::rat) powi t"
    and "t \<le> 53"
  shows "fl p q = JsFin (significand p q) (ulp_exp p q)" "ulp_exp p q \<le> t - 53"
    "\<bar>num_val (significand p q) (ulp_exp p q) - of_int p / of_int q\<bar> \<le> 2 powi (t - 54)"
proof -
  have "ratio_exp p q < t" using assms by (intro ratio_exp_less)
  moreover have "- 900 \<le> ratio_exp p q" using assms by (intro ratio_exp_ge)
  ultimately have u: "ulp_exp p q \<le> t - 53" by (simp add: ulp_exp_def)
  with \<open>t \<le> 53\<close> have "ulp_exp p q \<le> 0" by simp
  then show "fl p q = JsFin (significand p q) (ulp_exp p q)"
  proof (cases "ulp_exp p q = 0")
    case True
    have "\<bar>num_val (significand p q) 0 - of_int p / of_int q\<bar> \<le> 2 powi 0 / 2"
      using significand_error [OF assms(2), of p] True by simp
    moreover have "of_int p / of_int q < (2::rat) powi 53"
      using assms(4) power_int_increasing [OF \<open>t \<le> 53\<close>, of "2::rat"] by linarith
    ultimately have "(of_int (significand p q) :: rat) < of_int (2 ^ 1024)"
      by (simp add: num_val_def pow2i_def power_int_def abs_if split: if_splits)
    then have "significand p q < 2 ^ 1024" by (simp only: of_int_less_iff)
    then show ?thesis using assms(1) True by (simp add: fl_def fl_pos_def Let_def pow2i_def)
  qed (use assms(1) in \<open>simp add: fl_def fl_pos_def Let_def\<close>)
  show "ulp_exp p q \<le> t - 53" by (rule u)
  have "(2::rat) powi (ulp_exp p q) / 2 \<le> 2 powi (t - 53) / 2"
    using power_int_increasing [OF u, of "2::rat"] by simp
  also have "\<dots> = 2 powi (t - 54)" using power_int_diff [of "2::rat" "t - 53" 1] by simp
  finally show "\<bar>num_val (significand p q) (ulp_exp p q) - of_int p / of_int q\<bar> \<le> 2 powi (t - 54)"
    using significand_error [OF assms(2), of p] by linarith
qed

lemma parse_decimal_amount:
  assumes "0 < k" and "k < 8192 * KORI_SCALE"
  shows "parseKoriAmount (fl k KORI_SCALE) = Inr k"
proof -
  define m u where "m = significand k KORI_SCALE" and "u = ulp_exp k KORI_SCALE"
  define y where "y = (of_int (m * KORI_SCALE * pow2i u) :: rat) / of_int (pow2i (- u))"
  have S: "(of_int KORI_SCALE :: rat) = 1000000" by (simp add: KORI_SCALE_def)
  have k1: "(1::rat) \<le> of_int k" and k2: "(of_int k :: rat) < 8192000000"
    using assms by (simp_all add: KORI_SCALE_def)
  have x1: "(2::rat) powi (- 900) \<le> of_int k / of_int KORI_SCALE"
  proof -
    have "(2::rat) powi (- 900) \<le> 2 powi (- 20)" by (intro power_int_increasing) auto
    also have "\<dots> \<le> 1 / 1000000" by (simp add: power_int_def power_one_over)
    also have "\<dots> \<le> of_int k / of_int KORI_SCALE" using k1 by (simp add: S divide_right_mono)
    finally show ?thesis .
  qed
  have x2: "of_int k / of_int KORI_SCALE < (2::rat) powi 13"
    using k2 by (simp add: S power_int_def power_one_over divide_less_eq)
  have "\<bar>num_val m u - of_int k / of_int KORI_SCALE\<bar> \<le> 2 powi (- 41)"
    using fl_moderate(3) [of k KORI_SCALE 13] assms(1) x1 x2 by (simp add: m_def u_def KORI_SCALE_def)
  moreover have "y = num_val m u * 1000000"
    by (simp add: y_def num_val_def S)
  ultimately have ye: "\<bar>y - of_int k\<bar> \<le> 2 powi (- 41) * 1000000"
    by (simp add: S abs_if field_simps split: if_splits)
  have e41: "(2::rat) powi (- 41) * 1000000 = 1000000 / 2199023255552"
    by (simp add: power_int_def power_one_over)
  have y1: "1 / 2 < y" and y2: "y < 2 powi 33"
    using ye k1 k2 by (simp_all add: e41 power_int_def power_one_over abs_if split: if_splits)
  have u0: "u \<le> 0"
    using fl_moderate(2) [of k KORI_SCALE 13] assms(1) x1 x2 by (simp add: u_def KORI_SCALE_def)
  have fl1: "fl k KORI_SCALE = JsFin m u"
    using fl_moderate(1) [of k KORI_SCALE 13] assms(1) x1 x2 by (simp add: m_def u_def KORI_SCALE_def)
  define P Q where "P = m * KORI_SCALE * pow2i u" and "Q = pow2i (- u)"
  have Q: "0 < Q" by (simp add: Q_def)
  have yPQ: "y = of_int P / of_int Q" by (simp add: y_def P_def Q_def)
  have P: "0 < P"
  proof -
    have "(0::rat) < of_int P / of_int Q" using y1 unfolding yPQ [symmetric] by linarith
    with Q have "(0::rat) < of_int P" by (simp add: zero_less_divide_iff)
    then show ?thesis by simp
  qed
  then have m: "0 < m" using pow2i_pos [of u] by (auto simp: P_def KORI_SCALE_def zero_less_mult_iff simp del: pow2i_pos)
  have y0: "(2::rat) powi (- 900) \<le> of_int P / of_int Q"
  proof -
    have "(2::rat) powi (- 900) \<le> 2 powi (- 1)" by (intro power_int_increasing) auto
    also have "\<dots> = 1 / 2" by (simp add: power_int_def)
    also have "\<dots> \<le> of_int P / of_int Q" using y1 unfolding yPQ [symmetric] by linarith
    finally show ?thesis .
  qed
  define ms es where "ms = significand P Q" and "es = ulp_exp P Q"
  note mod = fl_moderate [OF P Q y0, of 33, folded yPQ, OF y2, folded ms_def es_def]
  have fl2: "fin_mul m u KORI_SCALE = JsFin ms es"
    using mod(1) by (simp add: fin_mul_def P_def Q_def)
  have es: "es \<le> 0" using mod(2) by simp
  have "\<bar>num_val ms es - y\<bar> \<le> 2 powi (- 21)" using mod(3) by simp
  then have d: "\<bar>num_val ms es - of_int k\<bar> \<le> 2 powi (- 21) + 1000000 / 2199023255552"
    using ye unfolding e41 by linarith
  have small: "(2::rat) powi (- 21) + 1000000 / 2199023255552 \<le> tol"
    by (simp add: tol_def num_val_def pow2i_def power_int_def power_one_over)
  from d small have dt: "\<bar>num_val ms es - of_int k\<bar> \<le> tol" by (rule order_trans)
  then have "2 * \<bar>num_val ms es - of_int k\<bar> \<le> 2 * tol" by (intro mult_left_mono) simp_all
  also have "2 * tol < 1" by (simp add: tol_def num_val_def pow2i_def)
  finally have "math_round ms es = k" by (rule math_round_near [OF es])
  moreover have "\<not> off_by_more_than_tol ms es k"
    using dt by (simp add: off_by_iff [OF es] not_less)
  ultimately show ?thesis
    using m by (simp add: parseKoriAmount_def fl1 fl2 Let_def)
qed

text \<open>The double nearest to 16384.01 is rejected, although it has two decimals.\<close>

lemma parse_rejects_16384_01:
  "parseKoriAmount (fl 16384010000 KORI_SCALE)
     = Inl (DomainError 400 ''VALIDATION_ERROR'' ''amount supports up to 6 decimals'')"
  by code_simp

text \<open>A positive amount far below one unit is accepted and becomes zero units.\<close>

lemma parse_accepts_zero_units: "parseKoriAmount (fl 1 10000000000000) = Inr 0"
  by code_simp

end
