(* ===== verification/JsDate.thy ===== *)
theory JsDate
  imports Money
begin

text \<open>
  JavaScript's \<open>Date\<close>, as far as the code uses it: \<open>toISOString\<close> of a time in milliseconds since
  the epoch and \<open>Date.parse\<close> of such a string (the only format the code stores), over the proleptic
  Gregorian calendar.  An unparsable string is \<open>None\<close> (\<open>NaN\<close> in JavaScript).
\<close>

definition days_from_civil :: "int \<Rightarrow> int \<Rightarrow> int \<Rightarrow> int" where
  "days_from_civil y0 m d =
     (let y = (if m \<le> 2 then y0 - 1 else y0);
          era = y div 400;
          yoe = y - era * 400;
          doy = (153 * (m + (if 2 < m then - 3 else 9)) + 2) div 5 + d - 1;
          doe = yoe * 365 + yoe div 4 - yoe div 100 + doy
      in era * 146097 + doe - 719468)"

definition civil_from_days :: "int \<Rightarrow> int \<times> int \<times> int" where
  "civil_from_days z0 =
     (let z = z0 + 719468;
          era = z div 146097;
          doe = z mod 146097;
          yoe = (doe - doe div 1460 + doe div 36524 - doe div 146096) div 365;
          doy = doe - (365 * yoe + yoe div 4 - yoe div 100);
          mp = (5 * doy + 2) div 153;
          d = doy - (153 * mp + 2) div 5 + 1;
          m = (if mp < 10 then mp + 3 else mp - 9);
          y = yoe + era * 400 + (if m \<le> 2 then 1 else 0)
      in (y, m, d))"

definition pad_dec :: "nat \<Rightarrow> int \<Rightarrow> string" where
  "pad_dec n i = padStart0 n (dec (nat i))"

text \<open>Years 0 to 9999; JavaScript writes other years in a six-digit form the code never meets.\<close>

definition toISOString :: "int \<Rightarrow> string" where
  "toISOString ms =
     (let days = ms div 86400000; t = ms mod 86400000;
          (y, m, d) = civil_from_days days
      in pad_dec 4 y @ ''-'' @ pad_dec 2 m @ ''-'' @ pad_dec 2 d @ ''T'' @
         pad_dec 2 (t div 3600000) @ '':'' @ pad_dec 2 (t div 60000 mod 60) @ '':'' @
         pad_dec 2 (t div 1000 mod 60) @ ''.'' @ pad_dec 3 (t mod 1000) @ ''Z'')"

definition iso_shape :: "string \<Rightarrow> bool" where
  "iso_shape s =
     (length s = 24 \<and>
      list_all2 (\<lambda>c p. if p = CHR ''0'' then is_digit c else c = p) s ''0000-00-00T00:00:00.000Z'')"

definition iso_field :: "nat \<Rightarrow> nat \<Rightarrow> string \<Rightarrow> int" where
  "iso_field i n s = digits_val (take n (drop i s))"

definition date_parse :: "string \<Rightarrow> int option" where
  "date_parse s =
     (if \<not> iso_shape s then None
      else
        let y = iso_field 0 4 s; m = iso_field 5 2 s; d = iso_field 8 2 s;
            hh = iso_field 11 2 s; mi = iso_field 14 2 s; ss = iso_field 17 2 s;
            ms = iso_field 20 3 s
        in if 1 \<le> m \<and> m \<le> 12 \<and> 1 \<le> d \<and> d \<le> 31 \<and> hh \<le> 23 \<and> mi \<le> 59 \<and> ss \<le> 59
           then Some (days_from_civil y m d * 86400000 + hh * 3600000 + mi * 60000 + ss * 1000 + ms)
           else None)"

text \<open>\<open>nowIso.slice(0, 10)\<close>: the calendar day of a timestamp.\<close>

definition iso_day :: "string \<Rightarrow> string" where
  "iso_day s = take 10 s"

lemma date_parse_epoch: "date_parse ''1970-01-01T00:00:00.000Z'' = Some 0"
  by code_simp

lemma toISOString_sample: "toISOString 1773317100000 = ''2026-03-12T12:05:00.000Z''"
  by code_simp

lemma date_parse_sample: "date_parse ''2026-03-12T12:05:00.000Z'' = Some 1773317100000"
  by code_simp

end
