(* ===== verification/LedgerContracts.thy ===== *)
theory LedgerContracts
  imports JsDate
begin

text \<open>
  \<open>src/contracts/ledger-contracts.ts\<close>: the signed event contracts the ledger puts in its outbox.
  Outside the model, as parameters: the HMAC (\<open>node:crypto\<close>), the system id and secret of the
  environment, and zod's \<open>datetime()\<close> check.  They are the fields of \<open>ledger_cfg\<close>, together with
  the constructor argument of \<open>InMemoryLedger\<close> (the withdrawal limits) and the supply of
  \<open>randomUUID\<close>.
\<close>

record ledger_cfg =
  singleLimit :: int
  dailyLimit :: int
  uuid :: "nat \<Rightarrow> string"
  systemId :: string
  hmac :: "string \<Rightarrow> string"
  isDatetime :: "string \<Rightarrow> bool"

definition LEDGER_SCHEMA_VERSION :: string where
  "LEDGER_SCHEMA_VERSION = ''1.0.0''"

section \<open>Schemas\<close>

text \<open>
  The zod checks the schemas use.  \<open>z.string().min(a).max(b)\<close>, a literal, an enumeration, the two
  regular expressions, \<open>datetime()\<close>, integers with a lower bound, and \<open>optional()\<close>.
\<close>

datatype zcheck =
    ZLiteral string
  | ZString nat nat
  | ZHex64
  | ZAmount
  | ZEnum "string list"
  | ZDatetime
  | ZIntMin int
  | ZOptional zcheck
  | ZStringMax nat
  | ZArray nat zcheck
  | ZStrictObject "(string \<times> zcheck) list"

definition is_hex64 :: "string \<Rightarrow> bool" where
  "is_hex64 s =
     (length s = 64 \<and>
      list_all (\<lambda>c. (CHR ''0'' \<le> c \<and> c \<le> CHR ''9'') \<or> (CHR ''a'' \<le> c \<and> c \<le> CHR ''f'')) s)"

definition field_of :: "(string \<times> jsval) list \<Rightarrow> string \<Rightarrow> jsval" where
  "field_of obj k = (case map_of obj k of None \<Rightarrow> JUndef | Some v \<Rightarrow> v)"

text \<open>
  \<open>ZStrictObject\<close> is \<open>z.object({...}).strict()\<close>: every field checks and no other key is present.
\<close>

fun z_ok :: "ledger_cfg \<Rightarrow> zcheck \<Rightarrow> jsval \<Rightarrow> bool" where
  "z_ok cfg (ZLiteral l) (JStr s) = (s = l)"
| "z_ok cfg (ZString a b) (JStr s) = (a \<le> length s \<and> length s \<le> b)"
| "z_ok cfg (ZStringMax b) (JStr s) = (length s \<le> b)"
| "z_ok cfg ZHex64 (JStr s) = is_hex64 s"
| "z_ok cfg ZAmount (JStr s) = contract_amount_pattern s"
| "z_ok cfg (ZEnum es) (JStr s) = (s \<in> set es)"
| "z_ok cfg ZDatetime (JStr s) = isDatetime cfg s"
| "z_ok cfg (ZIntMin a) (JNum n) = (a \<le> n)"
| "z_ok cfg (ZOptional c) v = (v = JUndef \<or> z_ok cfg c v)"
| "z_ok cfg (ZArray n c) (JArr vs) = (n \<le> length vs \<and> list_all (z_ok cfg c) vs)"
| "z_ok cfg (ZStrictObject fs) (JObj obj) =
     (list_all (\<lambda>(k, c). z_ok cfg c (field_of obj k)) fs \<and>
      list_all (\<lambda>(k, v). k \<in> set (map fst fs)) obj)"
| "z_ok cfg _ _ = False"

definition z_parse :: "ledger_cfg \<Rightarrow> (string \<times> zcheck) list \<Rightarrow> (string \<times> jsval) list
    \<Rightarrow> js_error + (string \<times> jsval) list" where
  "z_parse cfg schema obj =
     (if z_ok cfg (ZStrictObject schema) (JObj obj) then Inr obj
      else Inl (ZodError ''invalid ledger contract''))"

definition withdrawalLedgerStatusSchema :: "string list" where
  "withdrawalLedgerStatusSchema =
     [''REQUESTED'', ''LEDGER_RESERVED'', ''PENDING_ADMIN'', ''ADMIN_APPROVED'', ''TX_BROADCASTED'',
      ''ONCHAIN_CONFIRMED'', ''COMPLETED'', ''FAILED'', ''REJECTED'']"

definition depositStateChangedContractSchema :: "(string \<times> zcheck) list" where
  "depositStateChangedContractSchema =
     [(''schemaVersion'', ZLiteral LEDGER_SCHEMA_VERSION),
      (''eventType'', ZLiteral ''deposit.state.changed''),
      (''issuer'', ZString 1 64),
      (''signature'', ZHex64),
      (''depositId'', ZString 1 64),
      (''userId'', ZString 1 64),
      (''walletAddress'', ZString 1 128),
      (''txHash'', ZString 8 128),
      (''toAddress'', ZString 1 128),
      (''status'', ZEnum [''DETECTED'', ''CONFIRMED'', ''CREDITED'', ''COMPLETED'']),
      (''amount'', ZAmount),
      (''currency'', ZLiteral ''KORI''),
      (''blockNumber'', ZIntMin 0),
      (''occurredAt'', ZDatetime)]"

definition journalPostingContractSchema :: "(string \<times> zcheck) list" where
  "journalPostingContractSchema =
     [(''accountCode'', ZString 1 128),
      (''accountType'', ZEnum [''asset'', ''liability'', ''equity'', ''revenue'', ''expense'', ''control'']),
      (''side'', ZEnum [''debit'', ''credit'']),
      (''amount'', ZAmount)]"

definition journalEntryContractSchema :: "(string \<times> zcheck) list" where
  "journalEntryContractSchema =
     [(''schemaVersion'', ZLiteral LEDGER_SCHEMA_VERSION),
      (''eventType'', ZLiteral ''ledger.journal.recorded''),
      (''issuer'', ZString 1 64),
      (''signature'', ZHex64),
      (''journalType'', ZString 1 64),
      (''referenceType'', ZString 1 64),
      (''referenceId'', ZString 1 64),
      (''currency'', ZEnum [''KORI'', ''TRX'']),
      (''description'', ZOptional (ZStringMax 500)),
      (''postings'', ZArray 2 (ZStrictObject journalPostingContractSchema)),
      (''occurredAt'', ZDatetime)]"

definition withdrawalStateChangedContractSchema :: "(string \<times> zcheck) list" where
  "withdrawalStateChangedContractSchema =
     [(''schemaVersion'', ZLiteral LEDGER_SCHEMA_VERSION),
      (''eventType'', ZLiteral ''withdrawal.state.changed''),
      (''issuer'', ZString 1 64),
      (''signature'', ZHex64),
      (''withdrawalId'', ZString 1 64),
      (''userId'', ZString 1 64),
      (''status'', ZEnum withdrawalLedgerStatusSchema),
      (''amount'', ZAmount),
      (''currency'', ZLiteral ''KORI''),
      (''toAddress'', ZString 1 128),
      (''txHash'', ZOptional (ZString 8 128)),
      (''approvalCount'', ZIntMin 0),
      (''requiredApprovals'', ZIntMin 1),
      (''externalAuthProvider'', ZOptional (ZString 1 64)),
      (''externalAuthRequestId'', ZOptional (ZString 1 128)),
      (''occurredAt'', ZDatetime)]"

section \<open>Canonical form and signature\<close>

text \<open>
  \<open>sortValue\<close> orders the keys of every nested object.  \<open>localeCompare\<close> is taken as the
  lexicographic order; only its being a total order on the keys matters below.
\<close>

fun sortValue :: "jsval \<Rightarrow> jsval" where
  "sortValue (JArr vs) = JArr (map sortValue vs)"
| "sortValue (JObj kvs) = JObj (sort_key fst (map (\<lambda>(k, v). (k, sortValue v)) kvs))"
| "sortValue v = v"

definition json_escape :: "string \<Rightarrow> string" where
  "json_escape s = concat (map (\<lambda>c. if c = CHR 0x22 then [CHR 0x5C, CHR 0x22]
      else if c = CHR 0x5C then [CHR 0x5C, CHR 0x5C]
      else if c = CHR 0x0A then [CHR 0x5C, CHR ''n''] else [c]) s)"

definition json_quote :: "string \<Rightarrow> string" where
  "json_quote s = [CHR 0x22] @ json_escape s @ [CHR 0x22]"

definition json_int :: "int \<Rightarrow> string" where
  "json_int n = (if n < 0 then ''-'' @ dec (nat (- n)) else dec (nat n))"

text \<open>\<open>JSON.stringify\<close>: a key whose value is \<open>undefined\<close> is left out of an object.\<close>

fun json_stringify :: "jsval \<Rightarrow> string" where
  "json_stringify JUndef = ''null''"
| "json_stringify JNull = ''null''"
| "json_stringify (JBool b) = (if b then ''true'' else ''false'')"
| "json_stringify (JNum n) = json_int n"
| "json_stringify (JStr s) = json_quote s"
| "json_stringify (JArr vs) = ''['' @ join_with '','' (map json_stringify vs) @ '']''"
| "json_stringify (JObj kvs) =
     ''{'' @ join_with '','' (map (\<lambda>(k, v). json_quote k @ '':'' @ json_stringify v)
        (filter (\<lambda>(k, v). v \<noteq> JUndef) kvs)) @ ''}''"

definition signLedgerContractPayload :: "ledger_cfg \<Rightarrow> (string \<times> jsval) list \<Rightarrow> string" where
  "signLedgerContractPayload cfg payload = hmac cfg (json_stringify (sortValue (JObj payload)))"

definition attachLedgerEnvelope :: "ledger_cfg \<Rightarrow> (string \<times> jsval) list \<Rightarrow> (string \<times> jsval) list" where
  "attachLedgerEnvelope cfg payload =
     (let unsigned = AList.update ''issuer'' (JStr (systemId cfg)) payload
      in AList.update ''signature'' (JStr (signLedgerContractPayload cfg unsigned)) unsigned)"

definition verifyLedgerContractSignature :: "ledger_cfg \<Rightarrow> (string \<times> jsval) list \<Rightarrow> bool" where
  "verifyLedgerContractSignature cfg payload =
     (let signature = field_of payload ''signature'';
          unsigned = AList.delete ''signature'' payload;
          expected = signLedgerContractPayload cfg unsigned
      in signature = JStr expected)"

section \<open>The contracts\<close>

fun deposit_status_name :: "deposit_status \<Rightarrow> string" where
  "deposit_status_name DS_DETECTED = ''DETECTED''"
| "deposit_status_name DS_CONFIRMED = ''CONFIRMED''"
| "deposit_status_name DS_CREDITED = ''CREDITED''"
| "deposit_status_name DS_COMPLETED = ''COMPLETED''"

definition deposit_payload :: "string \<Rightarrow> string \<Rightarrow> string \<Rightarrow> string \<Rightarrow> string \<Rightarrow> deposit_status \<Rightarrow> int \<Rightarrow> int
    \<Rightarrow> string \<Rightarrow> (string \<times> jsval) list" where
  "deposit_payload depositId userId walletAddress txHash toAddress status amount blockNumber occurredAt =
     [(''schemaVersion'', JStr LEDGER_SCHEMA_VERSION),
      (''eventType'', JStr ''deposit.state.changed''),
      (''depositId'', JStr depositId),
      (''userId'', JStr userId),
      (''walletAddress'', JStr walletAddress),
      (''txHash'', JStr txHash),
      (''toAddress'', JStr toAddress),
      (''status'', JStr (deposit_status_name status)),
      (''amount'', JStr (formatKoriAmount amount)),
      (''currency'', JStr ''KORI''),
      (''blockNumber'', JNum blockNumber),
      (''occurredAt'', JStr occurredAt)]"

definition buildDepositStateChangedContract :: "ledger_cfg \<Rightarrow> string \<Rightarrow> string \<Rightarrow> string \<Rightarrow> string \<Rightarrow> string
    \<Rightarrow> deposit_status \<Rightarrow> int \<Rightarrow> int \<Rightarrow> string \<Rightarrow> js_error + (string \<times> jsval) list" where
  "buildDepositStateChangedContract cfg depositId userId walletAddress txHash toAddress status amount
      blockNumber occurredAt =
     z_parse cfg depositStateChangedContractSchema
       (attachLedgerEnvelope cfg (deposit_payload depositId userId walletAddress txHash toAddress status
          amount blockNumber occurredAt))"

record journal_posting =
  jp_accountCode :: string
  jp_accountType :: string
  jp_side :: string
  jp_amount :: string

definition posting_value :: "journal_posting \<Rightarrow> jsval" where
  "posting_value p = JObj
     [(''accountCode'', JStr (jp_accountCode p)), (''accountType'', JStr (jp_accountType p)),
      (''side'', JStr (jp_side p)), (''amount'', JStr (jp_amount p))]"

definition buildJournalEntryContract :: "ledger_cfg \<Rightarrow> string \<Rightarrow> string \<Rightarrow> string \<Rightarrow> string option
    \<Rightarrow> string option \<Rightarrow> journal_posting list \<Rightarrow> string \<Rightarrow> js_error + (string \<times> jsval) list" where
  "buildJournalEntryContract cfg journalType referenceType referenceId currency description postings occurredAt =
     z_parse cfg journalEntryContractSchema
       (attachLedgerEnvelope cfg
         [(''schemaVersion'', JStr LEDGER_SCHEMA_VERSION),
          (''eventType'', JStr ''ledger.journal.recorded''),
          (''journalType'', JStr journalType),
          (''referenceType'', JStr referenceType),
          (''referenceId'', JStr referenceId),
          (''currency'', JStr (coalesce currency ''KORI'')),
          (''description'', (case description of None \<Rightarrow> JUndef | Some d \<Rightarrow> JStr d)),
          (''postings'', JArr (map posting_value postings)),
          (''occurredAt'', JStr occurredAt)])"

fun mapWithdrawalStatusToLedgerContract :: "withdrawal_status \<Rightarrow> string" where
  "mapWithdrawalStatusToLedgerContract LEDGER_RESERVED = ''LEDGER_RESERVED''"
| "mapWithdrawalStatusToLedgerContract PENDING_ADMIN = ''PENDING_ADMIN''"
| "mapWithdrawalStatusToLedgerContract ADMIN_APPROVED = ''ADMIN_APPROVED''"
| "mapWithdrawalStatusToLedgerContract TX_BROADCASTED = ''TX_BROADCASTED''"
| "mapWithdrawalStatusToLedgerContract COMPLETED = ''COMPLETED''"
| "mapWithdrawalStatusToLedgerContract FAILED = ''FAILED''"
| "mapWithdrawalStatusToLedgerContract REJECTED = ''REJECTED''"

definition opt_str :: "string option \<Rightarrow> jsval" where
  "opt_str x = (case x of None \<Rightarrow> JUndef | Some s \<Rightarrow> JStr s)"

definition withdrawal_payload :: "withdrawal \<Rightarrow> string \<Rightarrow> (string \<times> jsval) list" where
  "withdrawal_payload w occurredAt =
     [(''schemaVersion'', JStr LEDGER_SCHEMA_VERSION),
      (''eventType'', JStr ''withdrawal.state.changed''),
      (''withdrawalId'', JStr (wd_withdrawalId w)),
      (''userId'', JStr (wd_userId w)),
      (''status'', JStr (mapWithdrawalStatusToLedgerContract (wd_status w))),
      (''amount'', JStr (formatKoriAmount (wd_amount w))),
      (''currency'', JStr ''KORI''),
      (''toAddress'', JStr (wd_toAddress w)),
      (''txHash'', opt_str (wd_txHash w)),
      (''approvalCount'', JNum (wd_approvalCount w)),
      (''requiredApprovals'', JNum (wd_requiredApprovals w)),
      (''externalAuthProvider'', opt_str (wd_externalAuthProvider w)),
      (''externalAuthRequestId'', opt_str (wd_externalAuthRequestId w)),
      (''occurredAt'', JStr occurredAt)]"

definition buildWithdrawalStateChangedContract :: "ledger_cfg \<Rightarrow> withdrawal \<Rightarrow> string
    \<Rightarrow> js_error + (string \<times> jsval) list" where
  "buildWithdrawalStateChangedContract cfg w occurredAt =
     z_parse cfg withdrawalStateChangedContractSchema
       (attachLedgerEnvelope cfg (withdrawal_payload w occurredAt))"

definition parseLedgerContract :: "ledger_cfg \<Rightarrow> (string \<times> jsval) list \<Rightarrow> js_error + (string \<times> jsval) list" where
  "parseLedgerContract cfg payload =
     (if field_of payload ''eventType'' = JStr ''deposit.state.changed''
      then z_parse cfg depositStateChangedContractSchema payload
      else if field_of payload ''eventType'' = JStr ''ledger.journal.recorded''
      then z_parse cfg journalEntryContractSchema payload
      else if field_of payload ''eventType'' = JStr ''withdrawal.state.changed''
      then z_parse cfg withdrawalStateChangedContractSchema payload
      else Inl (JsError ''unsupported ledger contract event type''))"

section \<open>Laws\<close>

lemma verify_attach:
  assumes "''signature'' \<notin> fst ` set payload"
  shows "verifyLedgerContractSignature cfg (attachLedgerEnvelope cfg payload)"
proof -
  let ?u = "AList.update ''issuer'' (JStr (systemId cfg)) payload"
  have "''signature'' \<notin> fst ` set ?u" using assms by (simp add: dom_update)
  then have "AList.delete ''signature'' (AList.update ''signature'' v ?u) = ?u" for v
    by (simp add: update_Some_unfold delete_update_same [symmetric] del: delete_update_same)
       (simp add: delete_update_same delete_id)
  then show ?thesis
    by (simp add: verifyLedgerContractSignature_def attachLedgerEnvelope_def Let_def field_of_def update_conv')
qed

text \<open>The signature does not depend on the order of the keys, as \<open>sortValue\<close> is canonical.\<close>

lemma sort_key_canonical:
  assumes "distinct (map fst xs)" and "mset xs = mset ys"
  shows "sort_key fst xs = sort_key fst (ys :: (string \<times> 'b) list)"
  using assms by (intro sort_key_inj_key_eq) (auto simp: distinct_map)

lemma sign_mset:
  assumes "distinct (map fst p)" and "mset p = mset q"
  shows "signLedgerContractPayload cfg p = signLedgerContractPayload cfg q"
proof -
  let ?g = "\<lambda>(k :: string, v). (k, sortValue v)"
  have "map fst (map ?g p) = map fst p" by (induction p) auto
  with assms(1) have "distinct (map fst (map ?g p))" by (simp only:)
  moreover have "mset (map ?g p) = mset (map ?g q)" using assms(2) by simp
  ultimately have "sort_key fst (map ?g p) = sort_key fst (map ?g q)" by (rule sort_key_canonical)
  then show ?thesis by (simp add: signLedgerContractPayload_def)
qed

text \<open>
  What each contract needs to validate, in terms of the values of its fields.  \<open>cfg_ok\<close> collects
  the documented facts about the parameters: the digest is 64 lower-case hex digits and the system
  id has between 1 and 64 characters.
\<close>

definition cfg_ok :: "ledger_cfg \<Rightarrow> bool" where
  "cfg_ok cfg = ((\<forall>m. is_hex64 (hmac cfg m)) \<and> 1 \<le> length (systemId cfg) \<and> length (systemId cfg) \<le> 64)"

lemma deposit_status_name_ok:
  "deposit_status_name st \<in> {''DETECTED'', ''CONFIRMED'', ''CREDITED'', ''COMPLETED''}"
  by (cases st) simp_all

lemma withdrawal_status_name_ok:
  "mapWithdrawalStatusToLedgerContract st \<in> set withdrawalLedgerStatusSchema"
  by (cases st) (simp_all add: withdrawalLedgerStatusSchema_def)

end
