(* ===== verification/LedgerState.thy ===== *)
theory LedgerState
  imports LedgerContracts
begin

text \<open>
  The state of \<open>InMemoryLedger\<close> (\<open>src/ledger/in-memory-ledger.ts\<close>), one record field per private
  \<open>Map\<close>, and the private helpers its methods share.  Every stored object is held by exactly one of
  the maps and methods hand out copies, so values stand for the objects.  \<open>withLock\<close> queues the
  methods on one promise, so each runs alone: an operation of the model is one atomic step.
  \<open>uuidCount\<close> counts the calls of \<open>randomUUID\<close>.
\<close>

record transfer_idempotency =
  ti_fromTxId :: string
  ti_toTxId :: string

record ledger =
  accounts :: "account jsmap"
  walletBindingsByUserId :: "wallet_binding jsmap"
  userIdByWalletAddress :: "string jsmap"
  transactions :: "ledger_transaction jsmap"
  depositsByTxHash :: "deposit jsmap"
  externalCreditsByReference :: "external_credit jsmap"
  withdrawals :: "withdrawal jsmap"
  withdrawalByIdempotencyKey :: "string jsmap"
  transferByIdempotencyKey :: "transfer_idempotency jsmap"
  jobs :: "tx_job jsmap"
  approvalsByWithdrawalId :: "withdrawal_approval list jsmap"
  auditLogs :: "audit_log jsmap"
  sweepRecords :: "sweep_record jsmap"
  networkFeeReceipts :: "network_fee_receipt jsmap"
  networkFeeJournals :: "network_fee_journal jsmap"
  outboxEvents :: "outbox_event jsmap"
  eventConsumerAttempts :: "consumer_attempt jsmap"
  eventConsumerDeadLetters :: "consumer_dead_letter jsmap"
  eventConsumerCheckpoints :: "consumer_checkpoint jsmap"
  uuidCount :: nat

definition empty_ledger :: ledger where
  "empty_ledger =
     \<lparr>accounts = [], walletBindingsByUserId = [], userIdByWalletAddress = [], transactions = [],
      depositsByTxHash = [], externalCreditsByReference = [], withdrawals = [],
      withdrawalByIdempotencyKey = [], transferByIdempotencyKey = [], jobs = [],
      approvalsByWithdrawalId = [], auditLogs = [], sweepRecords = [], networkFeeReceipts = [],
      networkFeeJournals = [], outboxEvents = [], eventConsumerAttempts = [],
      eventConsumerDeadLetters = [], eventConsumerCheckpoints = [], uuidCount = 0\<rparr>"

definition ACTIVE_WITHDRAWAL_STATUSES :: "withdrawal_status list" where
  "ACTIVE_WITHDRAWAL_STATUSES = [LEDGER_RESERVED, PENDING_ADMIN, ADMIN_APPROVED, TX_BROADCASTED]"

definition DAILY_LIMIT_WITHDRAWAL_STATUSES :: "withdrawal_status list" where
  "DAILY_LIMIT_WITHDRAWAL_STATUSES = ACTIVE_WITHDRAWAL_STATUSES @ [COMPLETED]"

section \<open>Private helpers\<close>

definition createEmptyAccount :: "string \<Rightarrow> string \<Rightarrow> ledger \<Rightarrow> account" where
  "createEmptyAccount userId nowIso s =
     \<lparr>acc_userId = userId,
      acc_walletAddress = map_option wb_walletAddress (map_get (walletBindingsByUserId s) userId),
      acc_balance = 0, acc_lockedBalance = 0, acc_updatedAt = nowIso\<rparr>"

text \<open>\<open>getMutableAccount\<close>: the account, and the state in which it is present.\<close>

definition getMutableAccount :: "string \<Rightarrow> string \<Rightarrow> ledger \<Rightarrow> account \<times> ledger" where
  "getMutableAccount userId nowIso s =
     (case map_get (accounts s) userId of
        Some existing \<Rightarrow> (existing, s)
      | None \<Rightarrow>
          let created = createEmptyAccount userId nowIso s
          in (created, s\<lparr>accounts := map_set userId created (accounts s)\<rparr>))"

text \<open>Writing to the fields of an account object that is in the map.\<close>

definition write_account :: "string \<Rightarrow> account \<Rightarrow> ledger \<Rightarrow> ledger" where
  "write_account userId a s = s\<lparr>accounts := map_set userId a (accounts s)\<rparr>"

definition enrichAccount :: "account \<Rightarrow> ledger \<Rightarrow> account" where
  "enrichAccount a s =
     a\<lparr>acc_walletAddress := map_option wb_walletAddress (map_get (walletBindingsByUserId s) (acc_userId a))\<rparr>"

definition enqueueOutboxEvent :: "ledger_cfg \<Rightarrow> string \<Rightarrow> string \<Rightarrow> string \<Rightarrow> (string \<times> jsval) list
    \<Rightarrow> string \<Rightarrow> ledger \<Rightarrow> ledger" where
  "enqueueOutboxEvent cfg eventType aggregateType aggregateId payload occurredAt s =
     (let outboxEventId = uuid cfg (uuidCount s)
      in s\<lparr>uuidCount := Suc (uuidCount s),
           outboxEvents := map_set outboxEventId
             \<lparr>ob_outboxEventId = outboxEventId, ob_eventType = eventType,
              ob_aggregateType = aggregateType, ob_aggregateId = aggregateId,
              ob_payload = payload, ob_status = OB_pending, ob_attempts = 0,
              ob_availableAt = occurredAt, ob_createdAt = occurredAt,
              ob_processingStartedAt = None, ob_publishedAt = None, ob_deadLetteredAt = None,
              ob_deadLetterAcknowledgedAt = None, ob_deadLetterAcknowledgedBy = None,
              ob_deadLetterNote = None, ob_deadLetterCategory = None, ob_incidentRef = None,
              ob_lastError = None\<rparr>
             (outboxEvents s)\<rparr>)"

text \<open>
  Every withdrawal operation ends by building the state-changed contract and putting it in the
  outbox.  The contract's schema may reject it; the throw then leaves the earlier writes in place.
\<close>

definition publishWithdrawal :: "ledger_cfg \<Rightarrow> string \<Rightarrow> withdrawal \<Rightarrow> string \<Rightarrow> 'a \<Rightarrow> (ledger, 'a) act" where
  "publishWithdrawal cfg withdrawalId w occurredAt result s =
     (case buildWithdrawalStateChangedContract cfg w occurredAt of
        Inl e \<Rightarrow> (Inl e, s)
      | Inr payload \<Rightarrow>
          (Inr result,
           enqueueOutboxEvent cfg ''withdrawal.state.changed'' ''withdrawal'' withdrawalId payload occurredAt s))"

definition getMutableWithdrawal :: "string \<Rightarrow> ledger \<Rightarrow> js_error + withdrawal" where
  "getMutableWithdrawal withdrawalId s =
     (case map_get (withdrawals s) withdrawalId of
        None \<Rightarrow> Inl (DomainError 404 ''NOT_FOUND'' ''withdrawal not found'')
      | Some w \<Rightarrow> Inr w)"

definition getMutableSweep :: "string \<Rightarrow> ledger \<Rightarrow> js_error + sweep_record" where
  "getMutableSweep sweepId s =
     (case map_get (sweepRecords s) sweepId of
        None \<Rightarrow> Inl (DomainError 404 ''NOT_FOUND'' ''sweep not found'')
      | Some w \<Rightarrow> Inr w)"

definition write_withdrawal :: "string \<Rightarrow> withdrawal \<Rightarrow> ledger \<Rightarrow> ledger" where
  "write_withdrawal withdrawalId w s = s\<lparr>withdrawals := map_set withdrawalId w (withdrawals s)\<rparr>"

definition getDailyRequestedWithdrawalAmount :: "string \<Rightarrow> string \<Rightarrow> ledger \<Rightarrow> int" where
  "getDailyRequestedWithdrawalAmount userId nowIso s =
     (let day = iso_day nowIso in
      sumBigInt (map wd_amount
        (filter (\<lambda>w. wd_status w \<in> set DAILY_LIMIT_WITHDRAWAL_STATUSES)
          (filter (\<lambda>w. iso_day (wd_createdAt w) = day)
            (filter (\<lambda>w. wd_userId w = userId) (map_values (withdrawals s)))))))"

text \<open>
  The part of the state that carries money: what \<open>core\<close> reads is untouched by the operations on
  jobs, audit logs, sweeps, fees, the outbox and the consumer bookkeeping.
\<close>

definition core :: "ledger \<Rightarrow> account jsmap \<times> ledger_transaction jsmap \<times> deposit jsmap \<times> external_credit jsmap
    \<times> withdrawal jsmap \<times> string jsmap \<times> transfer_idempotency jsmap \<times> withdrawal_approval list jsmap" where
  "core s = (accounts s, transactions s, depositsByTxHash s, externalCreditsByReference s, withdrawals s,
     withdrawalByIdempotencyKey s, transferByIdempotencyKey s, approvalsByWithdrawalId s)"

text \<open>An operation outside the core: it leaves the core alone and never takes an id back.\<close>

definition same_core :: "ledger \<Rightarrow> ledger \<Rightarrow> bool" where
  "same_core s t = (core t = core s \<and> uuidCount s \<le> uuidCount t)"

lemma same_core_refl [simp]: "same_core s s"
  by (simp add: same_core_def)

lemma same_core_trans: "same_core s t \<Longrightarrow> same_core t u \<Longrightarrow> same_core s u"
  by (simp add: same_core_def)

lemma transp_same_core: "transp same_core"
  by (rule transpI) (rule same_core_trans)

lemma same_core_enqueue [simp]: "same_core s (enqueueOutboxEvent cfg et aty aid p t s)"
  by (simp add: same_core_def core_def enqueueOutboxEvent_def Let_def)

lemma getMutableAccount_fst:
  "fst (getMutableAccount u now s)
     = (case map_get (accounts s) u of Some a \<Rightarrow> a | None \<Rightarrow> createEmptyAccount u now s)"
  by (simp add: getMutableAccount_def Let_def split: option.split)

text \<open>\<open>write_account\<close> of a mutable account overwrites the entry either way.\<close>

lemma map_set_set [simp]: "map_set k v (map_set k w m) = map_set k v m"
  by (simp add: map_set_def)

lemma write_getMutableAccount [simp]:
  "write_account u a (snd (getMutableAccount u now s)) = write_account u a s"
  by (simp add: getMutableAccount_def write_account_def Let_def split: option.split)

section \<open>Queries over the account map\<close>

definition balance_of :: "ledger \<Rightarrow> string \<Rightarrow> int" where
  "balance_of s u = val_or0 acc_balance (map_get (accounts s) u)"

definition locked_of :: "ledger \<Rightarrow> string \<Rightarrow> int" where
  "locked_of s u = val_or0 acc_lockedBalance (map_get (accounts s) u)"

definition liability :: "ledger \<Rightarrow> int" where
  "liability s = sum_vals (\<lambda>a. acc_balance a + acc_lockedBalance a) (accounts s)"

end
