(* ===== verification/LedgerAccounts.thy ===== *)
theory LedgerAccounts
  imports LedgerState
begin

text \<open>
  Accounts, wallet bindings, deposits, external credits and internal transfers of
  \<open>InMemoryLedger\<close>.  \<open>nowIso\<close> stands for \<open>input.nowIso ?? new Date().toISOString()\<close>.
\<close>

section \<open>Accounts and bindings\<close>

definition getAccount :: "string \<Rightarrow> string \<Rightarrow> (ledger, account) act" where
  "getAccount userId nowIso s =
     (let account = coalesce (map_get (accounts s) userId) (createEmptyAccount userId nowIso s);
          s' = write_account userId account s
      in (Inr (enrichAccount account s'), s'))"

definition bindWalletAddress :: "string \<Rightarrow> string \<Rightarrow> string \<Rightarrow> (ledger, wallet_binding) act" where
  "bindWalletAddress userId walletAddress nowIso s =
     (let existingUserId = map_get (userIdByWalletAddress s) walletAddress in
      if truthy existingUserId \<and> existingUserId \<noteq> Some userId
      then (Inl (DomainError 409 ''WALLET_ADDRESS_IN_USE'' ''wallet address is already bound to another user''), s)
      else
        let previousBinding = map_get (walletBindingsByUserId s) userId;
            byAddress = (case previousBinding of
                None \<Rightarrow> userIdByWalletAddress s
              | Some p \<Rightarrow> if wb_walletAddress p \<noteq> walletAddress
                          then map_delete (wb_walletAddress p) (userIdByWalletAddress s)
                          else userIdByWalletAddress s);
            binding = \<lparr>wb_userId = userId, wb_walletAddress = walletAddress,
                       wb_createdAt = coalesce (map_option wb_createdAt previousBinding) nowIso\<rparr>;
            s1 = s\<lparr>walletBindingsByUserId := map_set userId binding (walletBindingsByUserId s),
                   userIdByWalletAddress := map_set walletAddress userId byAddress\<rparr>;
            s2 = (case map_get (accounts s1) userId of
                None \<Rightarrow> s1
              | Some account \<Rightarrow> write_account userId (account\<lparr>acc_walletAddress := Some walletAddress\<rparr>) s1)
        in (Inr binding, s2))"

definition getWalletBinding :: "string option \<Rightarrow> string option \<Rightarrow> ledger \<Rightarrow> js_error + wallet_binding option" where
  "getWalletBinding userId walletAddress s =
     (if truthy userId then Inr (map_get (walletBindingsByUserId s) (the userId))
      else if truthy walletAddress then
        (let boundUserId = map_get (userIdByWalletAddress s) (the walletAddress) in
         if \<not> truthy boundUserId then Inr None
         else Inr (map_get (walletBindingsByUserId s) (the boundUserId)))
      else Inl (DomainError 400 ''VALIDATION_ERROR'' ''userId or walletAddress is required''))"

definition resolveUserId :: "string option \<Rightarrow> string option \<Rightarrow> ledger \<Rightarrow> js_error + string" where
  "resolveUserId userId walletAddress s =
     (if truthy userId \<and> truthy walletAddress then
        (let boundUserId = map_get (userIdByWalletAddress s) (the walletAddress) in
         if truthy boundUserId \<and> boundUserId \<noteq> userId
         then Inl (DomainError 409 ''ACCOUNT_REFERENCE_CONFLICT''
                ''userId and walletAddress point to different accounts'')
         else Inr (the userId))
      else if truthy userId then Inr (the userId)
      else if truthy walletAddress then
        (let boundUserId = map_get (userIdByWalletAddress s) (the walletAddress) in
         if \<not> truthy boundUserId
         then Inl (DomainError 404 ''WALLET_ADDRESS_NOT_FOUND'' ''wallet address is not bound to any user'')
         else Inr (the boundUserId))
      else Inl (DomainError 400 ''VALIDATION_ERROR'' ''userId or walletAddress is required''))"

definition getAccountByWalletAddress :: "string \<Rightarrow> string \<Rightarrow> (ledger, account) act" where
  "getAccountByWalletAddress walletAddress nowIso s =
     (case resolveUserId None (Some walletAddress) s of
        Inl e \<Rightarrow> (Inl e, s)
      | Inr userId \<Rightarrow> getAccount userId nowIso s)"

section \<open>Deposits\<close>

record deposit_input =
  di_userId :: string
  di_amount :: int
  di_txHash :: string
  di_toAddress :: "string option"
  di_walletAddress :: "string option"
  di_blockNumber :: int

definition applyDeposit :: "ledger_cfg \<Rightarrow> deposit_input \<Rightarrow> string \<Rightarrow> (ledger, deposit_apply_result) act" where
  "applyDeposit cfg inp nowIso s =
     (case map_get (depositsByTxHash s) (di_txHash inp) of
        Some existing \<Rightarrow> (Inr \<lparr>dr_deposit = existing, dr_duplicated = True\<rparr>, s)
      | None \<Rightarrow>
          let (account, s1) = getMutableAccount (di_userId inp) nowIso s;
              s2 = write_account (di_userId inp)
                     (account\<lparr>acc_balance := acc_balance account + di_amount inp,
                              acc_updatedAt := nowIso\<rparr>) s1;
              txId = uuid cfg (uuidCount s2);
              depositId = uuid cfg (uuidCount s2 + 1);
              dep = \<lparr>dep_depositId = depositId, dep_userId = di_userId inp, dep_txHash = di_txHash inp,
                     dep_amount = di_amount inp, dep_status = DS_CREDITED,
                     dep_blockNumber = di_blockNumber inp, dep_createdAt = nowIso\<rparr>;
              s3 = s2\<lparr>uuidCount := uuidCount s2 + 2,
                      transactions := map_set txId
                        \<lparr>tx_txId = txId, tx_userId = di_userId inp, tx_type = TT_deposit,
                         tx_amount = di_amount inp, tx_status = TS_confirmed,
                         tx_blockTx = Some (di_txHash inp), tx_relatedUserId = None,
                         tx_idempotencyKey = None, tx_createdAt = nowIso\<rparr> (transactions s2),
                      depositsByTxHash := map_set (di_txHash inp) dep (depositsByTxHash s2)\<rparr>
          in (case buildDepositStateChangedContract cfg depositId (di_userId inp)
                     (coalesce (di_walletAddress inp) (coalesce (di_toAddress inp) ''''))
                     (di_txHash inp) (coalesce (di_toAddress inp) '''') DS_CREDITED (di_amount inp)
                     (di_blockNumber inp) nowIso of
                Inl e \<Rightarrow> (Inl e, s3)
              | Inr payload \<Rightarrow>
                  (Inr \<lparr>dr_deposit = dep, dr_duplicated = False\<rparr>,
                   enqueueOutboxEvent cfg ''deposit.state.changed'' ''deposit'' depositId payload nowIso s3)))"

text \<open>\<open>Array.from(this.depositsByTxHash.values()).find(...)\<close>, with the key of the found object.\<close>

definition find_deposit :: "string \<Rightarrow> ledger \<Rightarrow> (string \<times> deposit) option" where
  "find_deposit depositId s = find (\<lambda>(k, d). dep_depositId d = depositId) (depositsByTxHash s)"

definition completeDeposit :: "string \<Rightarrow> (ledger, deposit) act" where
  "completeDeposit depositId s =
     (case find_deposit depositId s of
        None \<Rightarrow> (Inl (DomainError 404 ''NOT_FOUND'' ''deposit not found''), s)
      | Some (k, d) \<Rightarrow>
          if dep_status d = DS_COMPLETED then (Inr d, s)
          else let d' = d\<lparr>dep_status := DS_COMPLETED\<rparr>
               in (Inr d', s\<lparr>depositsByTxHash := map_set k d' (depositsByTxHash s)\<rparr>))"

definition listDepositsByUser :: "string \<Rightarrow> int \<Rightarrow> ledger \<Rightarrow> deposit list" where
  "listDepositsByUser userId limit s =
     slice0 limit (sort_desc dep_createdAt
       (filter (\<lambda>d. dep_userId d = userId) (map_values (depositsByTxHash s))))"

section \<open>External credits\<close>

record credit_input =
  ci_userId :: string
  ci_amount :: int
  ci_currencyCode :: string
  ci_journalType :: string
  ci_referenceType :: string
  ci_referenceId :: string

definition credit_key :: "string \<Rightarrow> string \<Rightarrow> string" where
  "credit_key referenceType referenceId = referenceType @ '':'' @ referenceId"

definition applyExternalCredit :: "credit_input \<Rightarrow> string \<Rightarrow> (ledger, external_credit) act" where
  "applyExternalCredit inp nowIso s =
     (if ci_amount inp \<le> 0
      then (Inl (DomainError 400 ''VALIDATION_ERROR'' ''external credit amount must be positive''), s)
      else
        let referenceKey = credit_key (ci_referenceType inp) (ci_referenceId inp) in
        case map_get (externalCreditsByReference s) referenceKey of
          Some existing \<Rightarrow> (Inr (existing\<lparr>ec_duplicated := True\<rparr>), s)
        | None \<Rightarrow>
            let (account, s1) = getMutableAccount (ci_userId inp) nowIso s;
                s2 = write_account (ci_userId inp)
                       (account\<lparr>acc_balance := acc_balance account + ci_amount inp,
                                acc_updatedAt := nowIso\<rparr>) s1;
                credit = \<lparr>ec_creditId = ci_referenceId inp, ec_userId = ci_userId inp,
                          ec_amount = ci_amount inp,
                          ec_currencyCode = toUpperCase (trim (ci_currencyCode inp)),
                          ec_journalType = ci_journalType inp,
                          ec_referenceType = ci_referenceType inp,
                          ec_referenceId = ci_referenceId inp,
                          ec_duplicated = False, ec_createdAt = nowIso\<rparr>
            in (Inr credit,
                s2\<lparr>externalCreditsByReference :=
                     map_set referenceKey credit (externalCreditsByReference s2)\<rparr>))"

section \<open>Internal transfers\<close>

definition transfer :: "ledger_cfg \<Rightarrow> string \<Rightarrow> string \<Rightarrow> int \<Rightarrow> string \<Rightarrow> string \<Rightarrow> (ledger, transfer_result) act" where
  "transfer cfg fromUserId toUserId amount idempotencyKey nowIso s =
     (case map_get (transferByIdempotencyKey s) idempotencyKey of
        Some existing \<Rightarrow>
          (case (map_get (transactions s) (ti_fromTxId existing), map_get (transactions s) (ti_toTxId existing)) of
             (Some fromTx, Some toTx) \<Rightarrow>
               (Inr \<lparr>tr_fromTx = fromTx, tr_toTx = toTx, tr_duplicated = True\<rparr>, s)
           | _ \<Rightarrow> (Inl (DomainError 500 ''STATE_CORRUPTED'' ''transfer idempotency state is invalid''), s))
      | None \<Rightarrow>
          if fromUserId = toUserId
          then (Inl (DomainError 400 ''VALIDATION_ERROR'' ''fromUserId and toUserId must be different''), s)
          else
            let (from_acc, s1) = getMutableAccount fromUserId nowIso s;
                (to_acc, s2) = getMutableAccount toUserId nowIso s1
            in if acc_balance from_acc < amount
               then (Inl (DomainError 400 ''INSUFFICIENT_BALANCE'' ''insufficient balance for transfer''), s2)
               else
                 let s3 = write_account fromUserId
                            (from_acc\<lparr>acc_balance := acc_balance from_acc - amount, acc_updatedAt := nowIso\<rparr>) s2;
                     s4 = write_account toUserId
                            (to_acc\<lparr>acc_balance := acc_balance to_acc + amount, acc_updatedAt := nowIso\<rparr>) s3;
                     fromTxId = uuid cfg (uuidCount s4);
                     toTxId = uuid cfg (uuidCount s4 + 1);
                     fromTx = \<lparr>tx_txId = fromTxId, tx_userId = fromUserId, tx_type = TT_internal_transfer_out,
                               tx_amount = amount, tx_status = TS_confirmed, tx_blockTx = None,
                               tx_relatedUserId = Some toUserId, tx_idempotencyKey = Some idempotencyKey,
                               tx_createdAt = nowIso\<rparr>;
                     toTx = \<lparr>tx_txId = toTxId, tx_userId = toUserId, tx_type = TT_internal_transfer_in,
                             tx_amount = amount, tx_status = TS_confirmed, tx_blockTx = None,
                             tx_relatedUserId = Some fromUserId, tx_idempotencyKey = Some idempotencyKey,
                             tx_createdAt = nowIso\<rparr>
                 in (Inr \<lparr>tr_fromTx = fromTx, tr_toTx = toTx, tr_duplicated = False\<rparr>,
                     s4\<lparr>uuidCount := uuidCount s4 + 2,
                        transactions := map_set toTxId toTx (map_set fromTxId fromTx (transactions s4)),
                        transferByIdempotencyKey := map_set idempotencyKey
                          \<lparr>ti_fromTxId = fromTxId, ti_toTxId = toTxId\<rparr> (transferByIdempotencyKey s4)\<rparr>))"

definition listTransactionsByUser :: "string \<Rightarrow> transaction_type list option \<Rightarrow> int \<Rightarrow> ledger \<Rightarrow> ledger_transaction list" where
  "listTransactionsByUser userId types limit s =
     slice0 limit (sort_desc tx_createdAt
       (filter (\<lambda>t. case types of None \<Rightarrow> True | Some ts \<Rightarrow> tx_type t \<in> set ts)
         (filter (\<lambda>t. tx_userId t = userId) (map_values (transactions s)))))"

section \<open>Summary\<close>

definition getLedgerSummary :: "ledger \<Rightarrow> ledger_summary" where
  "getLedgerSummary s =
     (let accs = map_values (accounts s);
          availableBalance = sumBigInt (map acc_balance accs);
          lockedBalance = sumBigInt (map acc_lockedBalance accs)
      in \<lparr>ls_accountCount = length accs,
          ls_availableBalance = availableBalance,
          ls_lockedBalance = lockedBalance,
          ls_liabilityBalance = availableBalance + lockedBalance,
          ls_confirmedDepositCount = length (depositsByTxHash s),
          ls_activeWithdrawalCount =
            length (filter (\<lambda>w. wd_status w \<in> set ACTIVE_WITHDRAWAL_STATUSES) (map_values (withdrawals s)))\<rparr>)"

definition rebuildAccountProjections :: "ledger \<Rightarrow> nat" where
  "rebuildAccountProjections s = length (accounts s)"

end
