(* ===== verification/LedgerWithdrawals.thy ===== *)
theory LedgerWithdrawals
  imports LedgerAccounts
begin

text \<open>
  The withdrawal operations of \<open>InMemoryLedger\<close>: request with the limits and the reservation of
  the amount, external authentication, approval by distinct administrators, broadcast, confirmation
  and failure, and the queries.
\<close>

section \<open>Request\<close>

record withdrawal_input =
  wi_userId :: string
  wi_amount :: int
  wi_toAddress :: string
  wi_idempotencyKey :: string
  wi_riskLevel :: "risk_level option"
  wi_riskScore :: "int option"
  wi_riskFlags :: "string list option"
  wi_requiredApprovals :: "int option"
  wi_clientIp :: "string option"
  wi_deviceId :: "string option"

definition new_withdrawal :: "withdrawal_input \<Rightarrow> string \<Rightarrow> string \<Rightarrow> string \<Rightarrow> withdrawal" where
  "new_withdrawal inp withdrawalId ledgerTxId nowIso =
     \<lparr>wd_withdrawalId = withdrawalId, wd_userId = wi_userId inp, wd_amount = wi_amount inp,
      wd_toAddress = wi_toAddress inp, wd_status = LEDGER_RESERVED, wd_txHash = None,
      wd_idempotencyKey = wi_idempotencyKey inp, wd_ledgerTxId = ledgerTxId, wd_createdAt = nowIso,
      wd_approvedAt = None, wd_broadcastedAt = None, wd_confirmedAt = None, wd_failedAt = None,
      wd_failReason = None,
      wd_riskLevel = coalesce (wi_riskLevel inp) RL_low,
      wd_riskScore = coalesce (wi_riskScore inp) 0,
      wd_riskFlags = coalesce (wi_riskFlags inp) [],
      wd_requiredApprovals = coalesce (wi_requiredApprovals inp) 1,
      wd_approvalCount = 0, wd_clientIp = wi_clientIp inp, wd_deviceId = wi_deviceId inp,
      wd_reviewRequiredAt = None, wd_externalAuthProvider = None, wd_externalAuthRequestId = None,
      wd_externalAuthConfirmedAt = None\<rparr>"

definition requestWithdrawal :: "ledger_cfg \<Rightarrow> withdrawal_input \<Rightarrow> string \<Rightarrow> (ledger, withdrawal_request_result) act" where
  "requestWithdrawal cfg inp nowIso s =
     (let existingId = map_get (withdrawalByIdempotencyKey s) (wi_idempotencyKey inp) in
      if truthy existingId then
        (case map_get (withdrawals s) (the existingId) of
           None \<Rightarrow> (Inl (DomainError 500 ''STATE_CORRUPTED'' ''withdraw idempotency state is invalid''), s)
         | Some existing \<Rightarrow> (Inr \<lparr>wr_withdrawal = existing, wr_duplicated = True\<rparr>, s))
      else if singleLimit cfg < wi_amount inp
      then (Inl (DomainError 400 ''LIMIT_EXCEEDED'' ''single withdrawal limit exceeded''), s)
      else if dailyLimit cfg < getDailyRequestedWithdrawalAmount (wi_userId inp) nowIso s + wi_amount inp
      then (Inl (DomainError 400 ''LIMIT_EXCEEDED'' ''daily withdrawal limit exceeded''), s)
      else
        let (account, s1) = getMutableAccount (wi_userId inp) nowIso s in
        if acc_balance account < wi_amount inp
        then (Inl (DomainError 400 ''INSUFFICIENT_BALANCE'' ''insufficient balance for withdrawal''), s1)
        else
          let s2 = write_account (wi_userId inp)
                     (account\<lparr>acc_balance := acc_balance account - wi_amount inp,
                              acc_lockedBalance := acc_lockedBalance account + wi_amount inp,
                              acc_updatedAt := nowIso\<rparr>) s1;
              ledgerTxId = uuid cfg (uuidCount s2);
              withdrawalId = uuid cfg (uuidCount s2 + 1);
              w = new_withdrawal inp withdrawalId ledgerTxId nowIso;
              s3 = s2\<lparr>uuidCount := uuidCount s2 + 2,
                      transactions := map_set ledgerTxId
                        \<lparr>tx_txId = ledgerTxId, tx_userId = wi_userId inp, tx_type = TT_withdraw,
                         tx_amount = wi_amount inp, tx_status = TS_pending, tx_blockTx = None,
                         tx_relatedUserId = None, tx_idempotencyKey = Some (wi_idempotencyKey inp),
                         tx_createdAt = nowIso\<rparr> (transactions s2),
                      withdrawals := map_set withdrawalId w (withdrawals s2),
                      withdrawalByIdempotencyKey :=
                        map_set (wi_idempotencyKey inp) withdrawalId (withdrawalByIdempotencyKey s2),
                      approvalsByWithdrawalId := map_set withdrawalId [] (approvalsByWithdrawalId s2)\<rparr>
          in publishWithdrawal cfg withdrawalId w nowIso \<lparr>wr_withdrawal = w, wr_duplicated = False\<rparr> s3)"

section \<open>External authentication, review, approval\<close>

definition confirmWithdrawalExternalAuth :: "ledger_cfg \<Rightarrow> string \<Rightarrow> string \<Rightarrow> string \<Rightarrow> string
    \<Rightarrow> (ledger, withdrawal) act" where
  "confirmWithdrawalExternalAuth cfg withdrawalId provider requestId nowIso s =
     (case getMutableWithdrawal withdrawalId s of
        Inl e \<Rightarrow> (Inl e, s)
      | Inr w \<Rightarrow>
          if wd_status w = LEDGER_RESERVED then
            (let w' = w\<lparr>wd_status := PENDING_ADMIN, wd_externalAuthProvider := Some provider,
                        wd_externalAuthRequestId := Some requestId,
                        wd_externalAuthConfirmedAt := Some nowIso\<rparr>
             in publishWithdrawal cfg withdrawalId w' nowIso w' (write_withdrawal withdrawalId w' s))
          else if wd_externalAuthRequestId w = Some requestId \<and> wd_externalAuthProvider w = Some provider
          then (Inr w, s)
          else (Inl (DomainError 409 ''INVALID_STATE''
                 ''withdrawal external auth cannot be confirmed in current state''), s))"

definition markWithdrawalReviewRequired :: "string \<Rightarrow> string \<Rightarrow> (ledger, withdrawal) act" where
  "markWithdrawalReviewRequired withdrawalId nowIso s =
     (case getMutableWithdrawal withdrawalId s of
        Inl e \<Rightarrow> (Inl e, s)
      | Inr w \<Rightarrow>
          if wd_status w \<noteq> PENDING_ADMIN then (Inr w, s)
          else let w' = w\<lparr>wd_reviewRequiredAt := Some nowIso\<rparr>
               in (Inr w', write_withdrawal withdrawalId w' s))"

record approval_input =
  ai_adminId :: string
  ai_actorType :: actor_type
  ai_reasonCode :: "approval_reason option"
  ai_note :: "string option"

definition approveWithdrawal :: "ledger_cfg \<Rightarrow> string \<Rightarrow> approval_input \<Rightarrow> string \<Rightarrow> (ledger, approval_decision) act" where
  "approveWithdrawal cfg withdrawalId inp nowIso s =
     (case getMutableWithdrawal withdrawalId s of
        Inl e \<Rightarrow> (Inl e, s)
      | Inr w \<Rightarrow>
          if wd_status w \<noteq> PENDING_ADMIN
          then (Inl (DomainError 409 ''INVALID_STATE'' ''withdrawal must be pending admin approval''), s)
          else
            let approvals = coalesce (map_get (approvalsByWithdrawalId s) withdrawalId) [] in
            if list_ex (\<lambda>a. wa_adminId a = ai_adminId inp) approvals
            then (Inl (DomainError 409 ''ALREADY_APPROVED'' ''admin already approved this withdrawal''), s)
            else
              let approval = \<lparr>wa_approvalId = uuid cfg (uuidCount s), wa_withdrawalId = withdrawalId,
                     wa_adminId = ai_adminId inp, wa_actorType = ai_actorType inp,
                     wa_reasonCode = coalesce (ai_reasonCode inp) manual_review_passed,
                     wa_note = ai_note inp, wa_createdAt = nowIso\<rparr>;
                  approvals' = approvals @ [approval];
                  finalized = (wd_requiredApprovals w \<le> int (length approvals'));
                  w1 = w\<lparr>wd_approvalCount := int (length approvals')\<rparr>;
                  w2 = (if finalized
                        then w1\<lparr>wd_status := ADMIN_APPROVED, wd_approvedAt := Some nowIso\<rparr> else w1);
                  s1 = write_withdrawal withdrawalId w2
                         (s\<lparr>uuidCount := uuidCount s + 1,
                            approvalsByWithdrawalId :=
                              map_set withdrawalId approvals' (approvalsByWithdrawalId s)\<rparr>)
              in publishWithdrawal cfg withdrawalId w2 nowIso
                   \<lparr>ad_withdrawal = w2, ad_approval = approval, ad_finalized = finalized\<rparr> s1)"

section \<open>Broadcast, confirmation, failure\<close>

definition broadcastWithdrawal :: "ledger_cfg \<Rightarrow> string \<Rightarrow> string \<Rightarrow> string \<Rightarrow> (ledger, withdrawal) act" where
  "broadcastWithdrawal cfg withdrawalId txHash nowIso s =
     (case getMutableWithdrawal withdrawalId s of
        Inl e \<Rightarrow> (Inl e, s)
      | Inr w \<Rightarrow>
          if wd_status w \<noteq> ADMIN_APPROVED
          then (Inl (DomainError 409 ''INVALID_STATE'' ''withdrawal must be admin approved''), s)
          else
            let w' = w\<lparr>wd_status := TX_BROADCASTED, wd_txHash := Some txHash,
                       wd_broadcastedAt := Some nowIso\<rparr>
            in publishWithdrawal cfg withdrawalId w' nowIso w' (write_withdrawal withdrawalId w' s))"

text \<open>Recording a network fee: the receipt and its journal entry, under the same key.\<close>

definition record_fee :: "string \<Rightarrow> fee_reference \<Rightarrow> string \<Rightarrow> network_fee \<Rightarrow> string \<Rightarrow> ledger \<Rightarrow> ledger" where
  "record_fee feeReceiptId refType refId fee nowIso s =
     s\<lparr>networkFeeReceipts := map_set feeReceiptId
         \<lparr>nf_feeReceiptId = feeReceiptId, nf_referenceType = refType, nf_referenceId = refId,
          nf_txHash = fee_txHash fee, nf_feeSun = fee_feeSun fee, nf_energyUsed = fee_energyUsed fee,
          nf_bandwidthUsed = fee_bandwidthUsed fee, nf_confirmedAt = nowIso, nf_createdAt = nowIso\<rparr>
         (networkFeeReceipts s),
       networkFeeJournals := map_set feeReceiptId
         \<lparr>nj_snapshotDate = iso_day nowIso, nj_referenceType = refType,
          nj_feeSun = fee_feeSun fee, nj_createdAt = nowIso\<rparr>
         (networkFeeJournals s)\<rparr>"

definition fee_key :: "string \<Rightarrow> string \<Rightarrow> string" where
  "fee_key refId txHash = refId @ '':'' @ txHash"

definition confirmWithdrawal :: "ledger_cfg \<Rightarrow> string \<Rightarrow> network_fee option \<Rightarrow> string \<Rightarrow> (ledger, withdrawal) act" where
  "confirmWithdrawal cfg withdrawalId networkFee nowIso s =
     (case getMutableWithdrawal withdrawalId s of
        Inl e \<Rightarrow> (Inl e, s)
      | Inr w \<Rightarrow>
          if wd_status w \<noteq> TX_BROADCASTED
          then (Inl (DomainError 409 ''INVALID_STATE'' ''withdrawal must be tx broadcasted''), s)
          else
            let (account, s1) = getMutableAccount (wd_userId w) nowIso s in
            if acc_lockedBalance account < wd_amount w
            then (Inl (DomainError 500 ''STATE_CORRUPTED'' ''locked balance underflow''), s1)
            else
              let s2 = write_account (wd_userId w)
                         (account\<lparr>acc_lockedBalance := acc_lockedBalance account - wd_amount w,
                                  acc_updatedAt := nowIso\<rparr>) s1
              in case map_get (transactions s2) (wd_ledgerTxId w) of
                   None \<Rightarrow> (Inl (DomainError 500 ''STATE_CORRUPTED'' ''withdraw transaction missing''), s2)
                 | Some tx \<Rightarrow>
                     let w' = w\<lparr>wd_status := COMPLETED, wd_confirmedAt := Some nowIso\<rparr>;
                         s3 = write_withdrawal withdrawalId w'
                                (s2\<lparr>transactions := map_set (wd_ledgerTxId w)
                                     (tx\<lparr>tx_status := TS_confirmed, tx_blockTx := wd_txHash w\<rparr>)
                                     (transactions s2)\<rparr>);
                         s4 = (case networkFee of
                                 Some fee \<Rightarrow>
                                   if truthy (wd_txHash w)
                                   then record_fee (fee_key withdrawalId (the (wd_txHash w)))
                                          FR_withdrawal withdrawalId fee nowIso s3
                                   else s3
                               | None \<Rightarrow> s3)
                     in publishWithdrawal cfg withdrawalId w' nowIso w' s4)"

definition failWithdrawal :: "ledger_cfg \<Rightarrow> string \<Rightarrow> string \<Rightarrow> string \<Rightarrow> (ledger, withdrawal) act" where
  "failWithdrawal cfg withdrawalId reason nowIso s =
     (case getMutableWithdrawal withdrawalId s of
        Inl e \<Rightarrow> (Inl e, s)
      | Inr w \<Rightarrow>
          if wd_status w \<notin> {LEDGER_RESERVED, PENDING_ADMIN, ADMIN_APPROVED, TX_BROADCASTED}
          then (Inl (DomainError 409 ''INVALID_STATE'' ''withdrawal cannot be failed in current state''), s)
          else
            let (account, s1) = getMutableAccount (wd_userId w) nowIso s in
            if acc_lockedBalance account < wd_amount w
            then (Inl (DomainError 500 ''STATE_CORRUPTED'' ''locked balance underflow''), s1)
            else
              let s2 = write_account (wd_userId w)
                         (account\<lparr>acc_lockedBalance := acc_lockedBalance account - wd_amount w,
                                  acc_balance := acc_balance account + wd_amount w,
                                  acc_updatedAt := nowIso\<rparr>) s1
              in case map_get (transactions s2) (wd_ledgerTxId w) of
                   None \<Rightarrow> (Inl (DomainError 500 ''STATE_CORRUPTED'' ''withdraw transaction missing''), s2)
                 | Some tx \<Rightarrow>
                     let w' = w\<lparr>wd_status := FAILED, wd_failedAt := Some nowIso,
                                wd_failReason := Some reason\<rparr>;
                         s3 = write_withdrawal withdrawalId w'
                                (s2\<lparr>transactions := map_set (wd_ledgerTxId w)
                                     (tx\<lparr>tx_status := TS_failed\<rparr>) (transactions s2)\<rparr>)
                     in publishWithdrawal cfg withdrawalId w' nowIso w' s3)"

section \<open>Queries\<close>

definition getWithdrawal :: "string \<Rightarrow> ledger \<Rightarrow> withdrawal option" where
  "getWithdrawal withdrawalId s = map_get (withdrawals s) withdrawalId"

definition listWithdrawalsByUser :: "string \<Rightarrow> int \<Rightarrow> ledger \<Rightarrow> withdrawal list" where
  "listWithdrawalsByUser userId limit s =
     slice0 limit (sort_desc wd_createdAt
       (filter (\<lambda>w. wd_userId w = userId) (map_values (withdrawals s))))"

definition listWithdrawalsByStatuses :: "withdrawal_status list \<Rightarrow> ledger \<Rightarrow> withdrawal list" where
  "listWithdrawalsByStatuses statuses s =
     filter (\<lambda>w. wd_status w \<in> set statuses) (map_values (withdrawals s))"

definition listPendingApprovalWithdrawals :: "ledger \<Rightarrow> withdrawal list" where
  "listPendingApprovalWithdrawals s =
     filter (\<lambda>w. wd_approvalCount w < wd_requiredApprovals w)
       (filter (\<lambda>w. wd_status w = PENDING_ADMIN) (map_values (withdrawals s)))"

definition listWithdrawalApprovals :: "string \<Rightarrow> ledger \<Rightarrow> withdrawal_approval list" where
  "listWithdrawalApprovals withdrawalId s =
     coalesce (map_get (approvalsByWithdrawalId s) withdrawalId) []"

text \<open>A comparison with an unparsable date is false, as with \<open>NaN\<close>.\<close>

definition listStuckWithdrawals :: "int \<Rightarrow> string \<Rightarrow> ledger \<Rightarrow> withdrawal list" where
  "listStuckWithdrawals timeoutSec nowIso s =
     filter (\<lambda>w. case (date_parse nowIso, date_parse (wd_createdAt w)) of
               (Some now, Some created) \<Rightarrow> created \<le> now - timeoutSec * 1000
             | _ \<Rightarrow> False)
       (filter (\<lambda>w. wd_status w \<in> {LEDGER_RESERVED, PENDING_ADMIN, ADMIN_APPROVED, TX_BROADCASTED})
         (map_values (withdrawals s)))"

end
