(* ===== verification/LedgerInvariant.thy ===== *)
theory LedgerInvariant
  imports LedgerWithdrawals
begin

text \<open>
  The invariant of the money-carrying part of the ledger and its preservation by every operation on
  accounts, deposits, credits, transfers and withdrawals.  The statement about all reachable states
  is in \<open>LedgerMachine\<close>.
\<close>

section \<open>The invariant\<close>

definition active_status :: "withdrawal_status \<Rightarrow> bool" where
  "active_status st = (st \<in> set ACTIVE_WITHDRAWAL_STATUSES)"

definition daily_status :: "withdrawal_status \<Rightarrow> bool" where
  "daily_status st = (st \<in> set DAILY_LIMIT_WITHDRAWAL_STATUSES)"

text \<open>What is assumed of \<open>randomUUID\<close>: never the same value twice, never empty.\<close>

definition uuid_ok :: "ledger_cfg \<Rightarrow> bool" where
  "uuid_ok cfg = (inj (uuid cfg) \<and> (\<forall>n. uuid cfg n \<noteq> ''''))"

definition accounts_ok :: "ledger \<Rightarrow> bool" where
  "accounts_ok s =
     (map_wf (accounts s) \<and>
      (\<forall>u a. map_get (accounts s) u = Some a \<longrightarrow>
         acc_userId a = u \<and> 0 \<le> acc_balance a \<and> 0 \<le> acc_lockedBalance a))"

text \<open>The amount reserved by the active withdrawals of a user.\<close>

definition reserved :: "ledger \<Rightarrow> string \<Rightarrow> int" where
  "reserved s u =
     sum_vals (\<lambda>w. if wd_userId w = u \<and> active_status (wd_status w) then wd_amount w else 0) (withdrawals s)"

definition locks_ok :: "ledger \<Rightarrow> bool" where
  "locks_ok s = (\<forall>u. locked_of s u = reserved s u)"

fun mirror_status :: "withdrawal_status \<Rightarrow> transaction_status" where
  "mirror_status COMPLETED = TS_confirmed"
| "mirror_status FAILED = TS_failed"
| "mirror_status REJECTED = TS_failed"
| "mirror_status _ = TS_pending"

definition mirrors :: "ledger_transaction \<Rightarrow> withdrawal \<Rightarrow> bool" where
  "mirrors tx w =
     (tx_type tx = TT_withdraw \<and> tx_userId tx = wd_userId w \<and> tx_amount tx = wd_amount w \<and>
      tx_idempotencyKey tx = Some (wd_idempotencyKey w) \<and> tx_status tx = mirror_status (wd_status w))"

definition withdrawals_ok :: "ledger \<Rightarrow> bool" where
  "withdrawals_ok s =
     (map_wf (withdrawals s) \<and>
      (\<forall>i w. map_get (withdrawals s) i = Some w \<longrightarrow>
         wd_withdrawalId w = i \<and> 0 \<le> wd_amount w \<and>
         map_get (withdrawalByIdempotencyKey s) (wd_idempotencyKey w) = Some i \<and>
         (\<exists>tx. map_get (transactions s) (wd_ledgerTxId w) = Some tx \<and> mirrors tx w)))"

definition index_ok :: "ledger \<Rightarrow> bool" where
  "index_ok s =
     ((\<forall>k i. map_get (withdrawalByIdempotencyKey s) k = Some i \<longrightarrow>
         i \<noteq> '''' \<and> (\<exists>w. map_get (withdrawals s) i = Some w \<and> wd_idempotencyKey w = k)) \<and>
      (\<forall>k r. map_get (transferByIdempotencyKey s) k = Some r \<longrightarrow>
         map_get (transactions s) (ti_fromTxId r) \<noteq> None \<and> map_get (transactions s) (ti_toTxId r) \<noteq> None))"

definition ids_ok :: "ledger_cfg \<Rightarrow> ledger \<Rightarrow> bool" where
  "ids_ok cfg s = (map_keys (transactions s) \<union> map_keys (withdrawals s) \<subseteq> uuid cfg ` {..<uuidCount s})"

definition approved_status :: "withdrawal_status \<Rightarrow> bool" where
  "approved_status st = (st \<in> {ADMIN_APPROVED, TX_BROADCASTED, COMPLETED})"

definition approvals_fit :: "withdrawal \<Rightarrow> withdrawal_approval list \<Rightarrow> bool" where
  "approvals_fit w as =
     (distinct (map wa_adminId as) \<and> wd_approvalCount w = int (length as) \<and>
      (\<forall>a \<in> set as. wa_withdrawalId a = wd_withdrawalId w) \<and>
      (approved_status (wd_status w) \<longrightarrow> wd_requiredApprovals w \<le> int (length as)) \<and>
      (wd_status w = LEDGER_RESERVED \<longrightarrow> as = []))"

definition approvals_ok :: "ledger \<Rightarrow> bool" where
  "approvals_ok s =
     (\<forall>i w. map_get (withdrawals s) i = Some w \<longrightarrow>
        (\<exists>as. map_get (approvalsByWithdrawalId s) i = Some as \<and> approvals_fit w as))"

definition requested_on :: "ledger \<Rightarrow> string \<Rightarrow> string \<Rightarrow> int" where
  "requested_on s u day =
     sum_vals (\<lambda>w. if wd_userId w = u \<and> iso_day (wd_createdAt w) = day \<and> daily_status (wd_status w)
                  then wd_amount w else 0) (withdrawals s)"

definition daily_ok :: "ledger_cfg \<Rightarrow> ledger \<Rightarrow> bool" where
  "daily_ok cfg s = (\<forall>u day. requested_on s u day \<le> max 0 (dailyLimit cfg))"

definition paid_out :: "ledger \<Rightarrow> int" where
  "paid_out s = sum_vals (\<lambda>w. if wd_status w = COMPLETED then wd_amount w else 0) (withdrawals s)"

definition deposited :: "ledger \<Rightarrow> int" where
  "deposited s = sum_vals dep_amount (depositsByTxHash s)"

definition credited :: "ledger \<Rightarrow> int" where
  "credited s = sum_vals ec_amount (externalCreditsByReference s)"

definition money_ok :: "ledger \<Rightarrow> bool" where
  "money_ok s = (map_wf (depositsByTxHash s) \<and> liability s = deposited s + credited s - paid_out s)"

named_theorems inv_defs "the parts of the ledger invariant"

declare accounts_ok_def [inv_defs] locks_ok_def [inv_defs] withdrawals_ok_def [inv_defs]
  index_ok_def [inv_defs] ids_ok_def [inv_defs] approvals_ok_def [inv_defs] daily_ok_def [inv_defs]
  money_ok_def [inv_defs] reserved_def [inv_defs] requested_on_def [inv_defs] paid_out_def [inv_defs]
  deposited_def [inv_defs] credited_def [inv_defs] liability_def [inv_defs] locked_of_def [inv_defs]
  write_account_def [inv_defs] write_withdrawal_def [inv_defs]

definition ledger_inv :: "ledger_cfg \<Rightarrow> ledger \<Rightarrow> bool" where
  "ledger_inv cfg s =
     (accounts_ok s \<and> locks_ok s \<and> withdrawals_ok s \<and> index_ok s \<and> ids_ok cfg s \<and> approvals_ok s \<and>
      daily_ok cfg s \<and> money_ok s)"

lemma ledger_invI:
  "accounts_ok s \<Longrightarrow> locks_ok s \<Longrightarrow> withdrawals_ok s \<Longrightarrow> index_ok s \<Longrightarrow> ids_ok cfg s \<Longrightarrow>
   approvals_ok s \<Longrightarrow> daily_ok cfg s \<Longrightarrow> money_ok s \<Longrightarrow> ledger_inv cfg s"
  by (simp add: ledger_inv_def)

lemma ledger_invD:
  assumes "ledger_inv cfg s"
  shows "accounts_ok s" "locks_ok s" "withdrawals_ok s" "index_ok s" "ids_ok cfg s" "approvals_ok s"
    "daily_ok cfg s" "money_ok s"
  using assms by (simp_all add: ledger_inv_def)

lemma ledger_inv_empty: "ledger_inv cfg empty_ledger"
  by (simp add: ledger_inv_def inv_defs empty_ledger_def map_keys_def)

section \<open>Frame\<close>

lemma ledger_inv_same_core:
  assumes "ledger_inv cfg s" and "same_core s t"
  shows "ledger_inv cfg t"
proof -
  from assms(2) have eqs: "accounts t = accounts s" "transactions t = transactions s"
      "depositsByTxHash t = depositsByTxHash s" "externalCreditsByReference t = externalCreditsByReference s"
      "withdrawals t = withdrawals s" "withdrawalByIdempotencyKey t = withdrawalByIdempotencyKey s"
      "transferByIdempotencyKey t = transferByIdempotencyKey s"
      "approvalsByWithdrawalId t = approvalsByWithdrawalId s"
    and n: "uuidCount s \<le> uuidCount t"
    by (simp_all add: same_core_def core_def)
  have "ids_ok cfg t"
    using ledger_invD(5) [OF assms(1)] n by (fastforce simp: ids_ok_def eqs)
  with assms(1) show ?thesis
    by (simp add: ledger_inv_def inv_defs eqs)
qed

lemma same_core_publish [simp]: "same_core s (snd (publishWithdrawal cfg i w t r s))"
  by (simp add: publishWithdrawal_def split: sum.split)

lemma ledger_inv_publish: "ledger_inv cfg s \<Longrightarrow> ledger_inv cfg (snd (publishWithdrawal cfg i w t r s))"
  by (rule ledger_inv_same_core [OF _ same_core_publish])

lemma map_set_same [simp]: "map_get m k = Some v \<Longrightarrow> map_set k v m = m"
  by (induction m) (auto simp: map_get_def map_set_def split: if_splits)

section \<open>Accounts\<close>

lemma account_of:
  "fst (getMutableAccount u now s)
     = coalesce (map_get (accounts s) u) (createEmptyAccount u now s)"
  by (simp add: getMutableAccount_def Let_def coalesce_def split: option.split)

text \<open>The account a method works on: the stored one or an empty one.\<close>

definition account_for :: "string \<Rightarrow> string \<Rightarrow> ledger \<Rightarrow> account" where
  "account_for u now s = coalesce (map_get (accounts s) u) (createEmptyAccount u now s)"

lemma getMutableAccount_eq:
  "getMutableAccount u now s
     = (account_for u now s,
        case map_get (accounts s) u of None \<Rightarrow> write_account u (account_for u now s) s | Some _ \<Rightarrow> s)"
  by (simp add: getMutableAccount_def account_for_def write_account_def Let_def split: option.split)

lemma getMutableAccount_write:
  "getMutableAccount u now s = (account_for u now s, write_account u (account_for u now s) s)"
  by (simp add: getMutableAccount_eq account_for_def write_account_def split: option.split)

lemma account_for_values [simp]:
  "acc_balance (account_for u now s) = balance_of s u"
  "acc_lockedBalance (account_for u now s) = locked_of s u"
  by (simp_all add: account_for_def balance_of_def locked_of_def createEmptyAccount_def coalesce_def
      split: option.split)

lemma account_for_userId: "accounts_ok s \<Longrightarrow> acc_userId (account_for u now s) = u"
  by (auto simp: account_for_def accounts_ok_def createEmptyAccount_def coalesce_def split: option.split)

lemma balance_nonneg: "accounts_ok s \<Longrightarrow> 0 \<le> balance_of s u"
  by (auto simp: accounts_ok_def balance_of_def val_or0_def split: option.split)

lemma locked_nonneg: "accounts_ok s \<Longrightarrow> 0 \<le> locked_of s u"
  by (auto simp: accounts_ok_def locked_of_def val_or0_def split: option.split)

lemma write_account_sel [simp]:
  "transactions (write_account u a s) = transactions s"
  "depositsByTxHash (write_account u a s) = depositsByTxHash s"
  "externalCreditsByReference (write_account u a s) = externalCreditsByReference s"
  "withdrawals (write_account u a s) = withdrawals s"
  "withdrawalByIdempotencyKey (write_account u a s) = withdrawalByIdempotencyKey s"
  "transferByIdempotencyKey (write_account u a s) = transferByIdempotencyKey s"
  "approvalsByWithdrawalId (write_account u a s) = approvalsByWithdrawalId s"
  "accounts (write_account u a s) = map_set u a (accounts s)"
  "uuidCount (write_account u a s) = uuidCount s"
  "outboxEvents (write_account u a s) = outboxEvents s"
  by (simp_all add: write_account_def)

text \<open>The effect of a write on the sums, for any state with the written account map.\<close>

lemma balance_of_set:
  "accounts t = map_set u a (accounts s) \<Longrightarrow> balance_of t v = (if v = u then acc_balance a else balance_of s v)"
  by (simp add: balance_of_def)

lemma locked_of_set:
  "accounts t = map_set u a (accounts s) \<Longrightarrow> locked_of t v = (if v = u then acc_lockedBalance a else locked_of s v)"
  by (simp add: locked_of_def)

lemma liability_set:
  "accounts t = map_set u a (accounts s) \<Longrightarrow>
     liability t = liability s - (balance_of s u + locked_of s u) + (acc_balance a + acc_lockedBalance a)"
  by (simp add: liability_def balance_of_def locked_of_def sum_vals_set val_or0_def split: option.split)

lemma accounts_ok_set:
  assumes "accounts_ok s" and "accounts t = map_set u a (accounts s)"
    and "acc_userId a = u" and "0 \<le> acc_balance a" and "0 \<le> acc_lockedBalance a"
  shows "accounts_ok t"
  using assms by (auto simp: accounts_ok_def split: if_splits)

section \<open>Operations that keep the withdrawals\<close>

text \<open>
  The states an account operation may lead to: the withdrawals and their index are the same, the
  transactions only grow, new transaction ids come from \<open>randomUUID\<close>, and a new transfer entry
  names transactions that exist.
\<close>

definition same_withdrawals :: "ledger_cfg \<Rightarrow> ledger \<Rightarrow> ledger \<Rightarrow> bool" where
  "same_withdrawals cfg s t =
     (withdrawals t = withdrawals s \<and>
      withdrawalByIdempotencyKey t = withdrawalByIdempotencyKey s \<and>
      approvalsByWithdrawalId t = approvalsByWithdrawalId s \<and>
      (\<forall>k tx. map_get (transactions s) k = Some tx \<longrightarrow> map_get (transactions t) k = Some tx) \<and>
      map_keys (transactions t) \<subseteq> map_keys (transactions s) \<union> uuid cfg ` {..<uuidCount t} \<and>
      uuidCount s \<le> uuidCount t \<and>
      (\<forall>k r. map_get (transferByIdempotencyKey t) k = Some r \<longrightarrow>
         map_get (transferByIdempotencyKey s) k = Some r \<or>
         map_get (transactions t) (ti_fromTxId r) \<noteq> None \<and> map_get (transactions t) (ti_toTxId r) \<noteq> None))"

lemma ledger_inv_accounts:
  assumes inv: "ledger_inv cfg s" and w: "same_withdrawals cfg s t"
    and a: "accounts_ok t" and l: "\<And>u. locked_of t u = locked_of s u"
    and m: "liability t - (deposited t + credited t) = liability s - (deposited s + credited s)"
    and d: "map_wf (depositsByTxHash t)"
  shows "ledger_inv cfg t"
proof (rule ledger_invI)
  note I = ledger_invD [OF inv]
  from w have eqs: "withdrawals t = withdrawals s" "withdrawalByIdempotencyKey t = withdrawalByIdempotencyKey s"
      "approvalsByWithdrawalId t = approvalsByWithdrawalId s"
    and ext: "\<And>k tx. map_get (transactions s) k = Some tx \<Longrightarrow> map_get (transactions t) k = Some tx"
    and keys: "map_keys (transactions t) \<subseteq> map_keys (transactions s) \<union> uuid cfg ` {..<uuidCount t}"
    and n: "uuidCount s \<le> uuidCount t"
    by (simp_all add: same_withdrawals_def)
  show "accounts_ok t" by (rule a)
  show "locks_ok t" using I(2) by (simp add: locks_ok_def l reserved_def eqs)
  show "withdrawals_ok t" using I(3) ext by (fastforce simp: withdrawals_ok_def eqs)
  have grow: "map_get (transactions s) k \<noteq> None \<Longrightarrow> map_get (transactions t) k \<noteq> None" for k
    using ext by fastforce
  show "index_ok t" using I(4) w grow unfolding index_ok_def same_withdrawals_def eqs by blast
  have "uuid cfg ` {..<uuidCount s} \<subseteq> uuid cfg ` {..<uuidCount t}" using n by auto
  then show "ids_ok cfg t" using I(5) keys unfolding ids_ok_def eqs by blast
  show "approvals_ok t" using I(6) by (simp add: approvals_ok_def eqs)
  show "daily_ok cfg t" using I(7) by (simp add: daily_ok_def requested_on_def eqs)
  show "money_ok t" using I(8) m d by (simp add: money_ok_def paid_out_def eqs)
qed

lemma same_withdrawals_refl: "same_withdrawals cfg s s"
  by (simp add: same_withdrawals_def)

lemma ledger_inv_touch:
  assumes "ledger_inv cfg s"
  shows "ledger_inv cfg (write_account u (account_for u now s) s)"
proof (rule ledger_inv_accounts [OF assms])
  let ?t = "write_account u (account_for u now s) s"
  note I = ledger_invD [OF assms]
  show "same_withdrawals cfg s ?t" by (simp add: same_withdrawals_def)
  show "accounts_ok ?t"
    by (rule accounts_ok_set [OF I(1), of _ u "account_for u now s"]) (simp_all add: account_for_userId I balance_nonneg locked_nonneg)
  show "locked_of ?t v = locked_of s v" for v
    by (simp add: locked_of_set [of ?t u "account_for u now s" s])
  show "liability ?t - (deposited ?t + credited ?t) = liability s - (deposited s + credited s)"
    by (simp add: liability_set [of ?t u "account_for u now s" s] deposited_def credited_def)
  show "map_wf (depositsByTxHash ?t)" using I(8) by (simp add: money_ok_def)
qed

lemma ledger_inv_getAccount:
  assumes "ledger_inv cfg s"
  shows "ledger_inv cfg (snd (getAccount u now s))"
  using ledger_inv_touch [OF assms, of u now] by (simp add: getAccount_def Let_def account_for_def)

lemma ledger_inv_getAccountByWalletAddress:
  "ledger_inv cfg s \<Longrightarrow> ledger_inv cfg (snd (getAccountByWalletAddress a now s))"
  by (simp add: getAccountByWalletAddress_def ledger_inv_getAccount split: sum.split)

lemma fresh_uuid:
  assumes "ids_ok cfg s" and "uuid_ok cfg" and "uuidCount s \<le> n"
  shows "uuid cfg n \<notin> map_keys (transactions s)" "uuid cfg n \<notin> map_keys (withdrawals s)"
    "map_get (transactions s) (uuid cfg n) = None" "map_get (withdrawals s) (uuid cfg n) = None"
proof -
  have "uuid cfg n \<notin> uuid cfg ` {..<uuidCount s}"
    using assms(2,3) by (auto simp: uuid_ok_def dest: injD)
  then show a: "uuid cfg n \<notin> map_keys (transactions s)" and b: "uuid cfg n \<notin> map_keys (withdrawals s)"
    using assms(1) by (auto simp: ids_ok_def)
  show "map_get (transactions s) (uuid cfg n) = None" using a by (simp add: map_keys_get)
  show "map_get (withdrawals s) (uuid cfg n) = None" using b by (simp add: map_keys_get)
qed

lemma ledger_inv_bind:
  assumes "ledger_inv cfg s"
  shows "ledger_inv cfg (snd (bindWalletAddress u addr now s))"
proof -
  let ?t = "snd (bindWalletAddress u addr now s)"
  note I = ledger_invD [OF assms]
  have "transactions ?t = transactions s \<and> depositsByTxHash ?t = depositsByTxHash s \<and>
      externalCreditsByReference ?t = externalCreditsByReference s \<and> withdrawals ?t = withdrawals s \<and>
      withdrawalByIdempotencyKey ?t = withdrawalByIdempotencyKey s \<and>
      transferByIdempotencyKey ?t = transferByIdempotencyKey s \<and>
      approvalsByWithdrawalId ?t = approvalsByWithdrawalId s \<and> uuidCount ?t = uuidCount s"
    by (simp add: bindWalletAddress_def Let_def split: option.split)
  note f = this
  have acc: "accounts ?t = accounts s \<or>
      (\<exists>a. map_get (accounts s) u = Some a \<and>
        accounts ?t = map_set u (a\<lparr>acc_walletAddress := Some addr\<rparr>) (accounts s))"
    by (auto simp: bindWalletAddress_def Let_def split: option.split)
  show ?thesis
  proof (rule ledger_inv_accounts [OF assms])
    show "same_withdrawals cfg s ?t" using f by (simp add: same_withdrawals_def)
    from acc show "accounts_ok ?t"
    proof
      assume "accounts ?t = accounts s"
      then show ?thesis using I(1) by (simp add: accounts_ok_def)
    next
      assume "\<exists>a. map_get (accounts s) u = Some a \<and>
        accounts ?t = map_set u (a\<lparr>acc_walletAddress := Some addr\<rparr>) (accounts s)"
      then obtain a where a: "map_get (accounts s) u = Some a"
          and t: "accounts ?t = map_set u (a\<lparr>acc_walletAddress := Some addr\<rparr>) (accounts s)" by blast
      from I(1) a show ?thesis
        by (intro accounts_ok_set [OF I(1) t]) (auto simp: accounts_ok_def)
    qed
    show "locked_of ?t v = locked_of s v" for v
      using acc by (auto simp: locked_of_def)
    have "liability ?t = liability s"
      using acc by (auto simp: liability_def sum_vals_set)
    then show "liability ?t - (deposited ?t + credited ?t) = liability s - (deposited s + credited s)"
      using f by (simp add: deposited_def credited_def)
    show "map_wf (depositsByTxHash ?t)" using I(8) f by (simp add: money_ok_def)
  qed
qed

text \<open>Crediting an account, by a deposit or an external credit.\<close>

lemma ledger_inv_credit:
  assumes inv: "ledger_inv cfg s" and amt: "0 \<le> amt" and w: "same_withdrawals cfg s t"
    and acc: "accounts t = map_set u
        ((account_for u now s)\<lparr>acc_balance := balance_of s u + amt, acc_updatedAt := now\<rparr>) (accounts s)"
    and src: "deposited t + credited t = deposited s + credited s + amt"
    and d: "map_wf (depositsByTxHash t)"
  shows "ledger_inv cfg t"
proof (rule ledger_inv_accounts [OF inv w])
  note I = ledger_invD [OF inv]
  show "accounts_ok t"
    by (rule accounts_ok_set [OF I(1) acc])
      (simp_all add: account_for_userId I balance_nonneg locked_nonneg amt)
  show "locked_of t v = locked_of s v" for v
    by (simp add: locked_of_set [OF acc])
  show "liability t - (deposited t + credited t) = liability s - (deposited s + credited s)"
    by (simp add: liability_set [OF acc] src)
qed (rule d)

lemma ledger_inv_applyDeposit:
  assumes inv: "ledger_inv cfg s" and u: "uuid_ok cfg" and amt: "0 \<le> di_amount inp"
  shows "ledger_inv cfg (snd (applyDeposit cfg inp now s))"
proof (cases "map_get (depositsByTxHash s) (di_txHash inp)")
  case (Some d)
  with inv show ?thesis by (simp add: applyDeposit_def)
next
  case None
  note I = ledger_invD [OF inv]
  let ?u = "di_userId inp" and ?n = "uuidCount s"
  let ?a = "(account_for ?u now s)\<lparr>acc_balance := balance_of s ?u + di_amount inp, acc_updatedAt := now\<rparr>"
  let ?dep = "\<lparr>dep_depositId = uuid cfg (?n + 1), dep_userId = ?u, dep_txHash = di_txHash inp,
      dep_amount = di_amount inp, dep_status = DS_CREDITED, dep_blockNumber = di_blockNumber inp,
      dep_createdAt = now\<rparr>"
  let ?tx = "\<lparr>tx_txId = uuid cfg ?n, tx_userId = ?u, tx_type = TT_deposit, tx_amount = di_amount inp,
      tx_status = TS_confirmed, tx_blockTx = Some (di_txHash inp), tx_relatedUserId = None,
      tx_idempotencyKey = None, tx_createdAt = now\<rparr>"
  define t where "t = (write_account ?u ?a s)\<lparr>uuidCount := ?n + 2,
      transactions := map_set (uuid cfg ?n) ?tx (transactions s),
      depositsByTxHash := map_set (di_txHash inp) ?dep (depositsByTxHash s)\<rparr>"
  have "same_core t (snd (applyDeposit cfg inp now s))"
    using None
    by (simp add: applyDeposit_def getMutableAccount_write Let_def t_def write_account_def split: sum.split)
  moreover have "ledger_inv cfg t"
  proof (rule ledger_inv_credit [OF inv amt])
    have "uuid cfg ?n \<in> uuid cfg ` {..<?n + 2}" by simp
    then show "same_withdrawals cfg s t"
      using fresh_uuid(3) [OF I(5) u le_refl] by (auto simp: same_withdrawals_def t_def)
    show "accounts t = map_set ?u ?a (accounts s)" by (simp add: t_def)
    show "deposited t + credited t = deposited s + credited s + di_amount inp"
      using None by (simp add: deposited_def credited_def t_def sum_vals_set)
    show "map_wf (depositsByTxHash t)" using I(8) by (simp add: t_def money_ok_def)
  qed
  ultimately show ?thesis by (rule ledger_inv_same_core [rotated])
qed

lemma find_deposit_get:
  assumes "map_wf (depositsByTxHash s)" and "find_deposit i s = Some (k, d)"
  shows "map_get (depositsByTxHash s) k = Some d" "dep_depositId d = i"
proof -
  from assms(2) have "(k, d) \<in> set (depositsByTxHash s) \<and> dep_depositId d = i"
    by (force simp: find_deposit_def find_Some_iff in_set_conv_nth)
  with assms(1) show "map_get (depositsByTxHash s) k = Some d" "dep_depositId d = i"
    by (simp_all add: map_wf_def map_get_def)
qed

lemma ledger_inv_completeDeposit:
  assumes inv: "ledger_inv cfg s"
  shows "ledger_inv cfg (snd (completeDeposit i s))"
proof (cases "find_deposit i s")
  case None
  with inv show ?thesis by (simp add: completeDeposit_def)
next
  case (Some kd)
  then obtain k d where f: "find_deposit i s = Some (k, d)" by (cases kd) auto
  note I = ledger_invD [OF inv]
  have wf: "map_wf (depositsByTxHash s)" using I(8) by (simp add: money_ok_def)
  let ?t = "s\<lparr>depositsByTxHash := map_set k (d\<lparr>dep_status := DS_COMPLETED\<rparr>) (depositsByTxHash s)\<rparr>"
  have "ledger_inv cfg ?t"
  proof (rule ledger_inv_accounts [OF inv])
    show "same_withdrawals cfg s ?t" by (simp add: same_withdrawals_def)
    show "accounts_ok ?t" using I(1) by (simp add: accounts_ok_def)
    show "locked_of ?t u = locked_of s u" for u by (simp add: locked_of_def)
    show "liability ?t - (deposited ?t + credited ?t) = liability s - (deposited s + credited s)"
      using find_deposit_get [OF wf f]
      by (simp add: liability_def deposited_def credited_def sum_vals_set)
    show "map_wf (depositsByTxHash ?t)" using wf by simp
  qed
  with inv f show ?thesis by (simp add: completeDeposit_def Let_def)
qed

lemma ledger_inv_applyExternalCredit:
  assumes inv: "ledger_inv cfg s"
  shows "ledger_inv cfg (snd (applyExternalCredit inp now s))"
proof -
  note I = ledger_invD [OF inv]
  let ?key = "credit_key (ci_referenceType inp) (ci_referenceId inp)" and ?u = "ci_userId inp"
  let ?t = "snd (applyExternalCredit inp now s)"
  consider "?t = s" | "0 < ci_amount inp" "map_get (externalCreditsByReference s) ?key = None"
    using not_le by (fastforce simp: applyExternalCredit_def Let_def split: option.split)
  then show ?thesis
  proof cases
    case 1
    with inv show ?thesis by simp
  next
    case 2
    then show ?thesis
    proof (intro ledger_inv_credit [OF inv, of "ci_amount inp" _ ?u now])
      show "same_withdrawals cfg s ?t"
        using 2 by (simp add: applyExternalCredit_def Let_def getMutableAccount_write same_withdrawals_def)
      show "map_wf (depositsByTxHash ?t)"
        using 2 I(8) by (simp add: applyExternalCredit_def Let_def getMutableAccount_write money_ok_def)
    qed (simp_all add: applyExternalCredit_def Let_def getMutableAccount_write deposited_def credited_def sum_vals_set)
  qed
qed

text \<open>A transfer with sufficient balance.\<close>

definition transfer_state :: "ledger_cfg \<Rightarrow> string \<Rightarrow> string \<Rightarrow> int \<Rightarrow> string \<Rightarrow> string \<Rightarrow> ledger \<Rightarrow> ledger" where
  "transfer_state cfg f g amount key now s =
     (write_account g ((account_for g now s)\<lparr>acc_balance := balance_of s g + amount, acc_updatedAt := now\<rparr>)
       (write_account f ((account_for f now s)\<lparr>acc_balance := balance_of s f - amount, acc_updatedAt := now\<rparr>)
         (write_account g (account_for g now s) (write_account f (account_for f now s) s))))
     \<lparr>uuidCount := uuidCount s + 2,
      transactions :=
        map_set (uuid cfg (uuidCount s + 1))
          \<lparr>tx_txId = uuid cfg (uuidCount s + 1), tx_userId = g, tx_type = TT_internal_transfer_in,
           tx_amount = amount, tx_status = TS_confirmed, tx_blockTx = None, tx_relatedUserId = Some f,
           tx_idempotencyKey = Some key, tx_createdAt = now\<rparr>
          (map_set (uuid cfg (uuidCount s))
            \<lparr>tx_txId = uuid cfg (uuidCount s), tx_userId = f, tx_type = TT_internal_transfer_out,
             tx_amount = amount, tx_status = TS_confirmed, tx_blockTx = None, tx_relatedUserId = Some g,
             tx_idempotencyKey = Some key, tx_createdAt = now\<rparr> (transactions s)),
      transferByIdempotencyKey := map_set key
        \<lparr>ti_fromTxId = uuid cfg (uuidCount s), ti_toTxId = uuid cfg (uuidCount s + 1)\<rparr>
        (transferByIdempotencyKey s)\<rparr>"

lemma account_for_write [simp]:
  "account_for u now (write_account v a s) = (if u = v then a else account_for u now s)"
  by (simp add: account_for_def createEmptyAccount_def write_account_def)

lemma balance_of_write [simp]:
  "balance_of (write_account u a s) v = (if v = u then acc_balance a else balance_of s v)"
  by (simp add: balance_of_def)

lemma locked_of_write [simp]:
  "locked_of (write_account u a s) v = (if v = u then acc_lockedBalance a else locked_of s v)"
  by (simp add: locked_of_def)

lemma transfer_ok_state:
  assumes "map_get (transferByIdempotencyKey s) key = None" and "f \<noteq> g" and "amount \<le> balance_of s f"
  shows "snd (transfer cfg f g amount key now s) = transfer_state cfg f g amount key now s"
    "\<not> fails (fst (transfer cfg f g amount key now s))"
  using assms by (simp_all add: transfer_def getMutableAccount_write Let_def transfer_state_def)

lemma transfer_other_state:
  assumes "map_get (transferByIdempotencyKey s) key \<noteq> None \<or> f = g \<or> balance_of s f < amount"
  shows "snd (transfer cfg f g amount key now s) = s \<or>
     snd (transfer cfg f g amount key now s)
       = write_account g (account_for g now s) (write_account f (account_for f now s) s)"
  using assms
  by (auto simp: transfer_def getMutableAccount_write Let_def split: option.split)

lemma liability_write:
  "liability (write_account u a s)
     = liability s - (balance_of s u + locked_of s u) + (acc_balance a + acc_lockedBalance a)"
  by (rule liability_set) simp

lemma accounts_ok_write:
  assumes "accounts_ok s" and "acc_userId a = u" and "0 \<le> acc_balance a" and "0 \<le> acc_lockedBalance a"
  shows "accounts_ok (write_account u a s)"
  by (rule accounts_ok_set [OF assms(1) _ assms(2,3,4)]) simp

lemma ledger_inv_transfer_state:
  assumes inv: "ledger_inv cfg s" and u: "uuid_ok cfg" and ne: "f \<noteq> g"
    and amt: "0 \<le> amount" "amount \<le> balance_of s f"
  shows "ledger_inv cfg (transfer_state cfg f g amount key now s)" (is "ledger_inv cfg ?t")
proof (rule ledger_inv_accounts [OF inv])
  note I = ledger_invD [OF inv]
  let ?w = "write_account g ((account_for g now s)\<lparr>acc_balance := balance_of s g + amount, acc_updatedAt := now\<rparr>)
       (write_account f ((account_for f now s)\<lparr>acc_balance := balance_of s f - amount, acc_updatedAt := now\<rparr>)
         (write_account g (account_for g now s) (write_account f (account_for f now s) s)))"
  have acc: "accounts ?t = accounts ?w" by (simp add: transfer_state_def)
  have new: "uuid cfg (uuidCount s) \<noteq> uuid cfg (uuidCount s + 1)"
    using u by (auto simp: uuid_ok_def dest: injD)
  have "uuid cfg (uuidCount s) \<in> uuid cfg ` {..<uuidCount s + 2}"
      "uuid cfg (uuidCount s + 1) \<in> uuid cfg ` {..<uuidCount s + 2}" by auto
  then show "same_withdrawals cfg s ?t"
    using fresh_uuid(3) [OF I(5) u, of "uuidCount s"] fresh_uuid(3) [OF I(5) u, of "uuidCount s + 1"] new
    by (auto simp: same_withdrawals_def transfer_state_def)
  have "accounts_ok ?w"
    using amt by (intro accounts_ok_write I(1)) (simp_all add: account_for_userId I balance_nonneg locked_nonneg)
  then show "accounts_ok ?t" unfolding accounts_ok_def acc .
  have "locked_of ?t v = locked_of ?w v" for v unfolding locked_of_def acc ..
  then show "locked_of ?t v = locked_of s v" for v by simp
  have "liability ?t = liability ?w" unfolding liability_def acc ..
  also have "\<dots> = liability s" using ne by (simp add: liability_write)
  finally show "liability ?t - (deposited ?t + credited ?t) = liability s - (deposited s + credited s)"
    by (simp add: deposited_def credited_def transfer_state_def)
  show "map_wf (depositsByTxHash ?t)" using I(8) by (simp add: transfer_state_def money_ok_def)
qed

lemma ledger_inv_transfer:
  assumes inv: "ledger_inv cfg s" and u: "uuid_ok cfg" and amt: "0 \<le> amount"
  shows "ledger_inv cfg (snd (transfer cfg f g amount key now s))"
proof (cases "map_get (transferByIdempotencyKey s) key \<noteq> None \<or> f = g \<or> balance_of s f < amount")
  case True
  from transfer_other_state [OF this, of cfg now] inv show ?thesis
    using ledger_inv_touch [OF ledger_inv_touch [OF inv, of f now], of g now]
    by (cases "f = g") auto
next
  case False
  with ledger_inv_transfer_state [OF inv u _ amt] show ?thesis
    by (simp add: transfer_ok_state)
qed

end
