(* ===== verification/WithdrawalInvariant.thy ===== *)
theory WithdrawalInvariant
  imports LedgerInvariant
begin

text \<open>
  The ledger invariant is kept by the withdrawal operations.  Three shapes of change cover them: the
  reservation of a new withdrawal, a change of status among the active ones, and the settlement of
  an active withdrawal (completed or failed).
\<close>

section \<open>Reservation\<close>

definition request_state :: "ledger_cfg \<Rightarrow> withdrawal_input \<Rightarrow> string \<Rightarrow> ledger \<Rightarrow> ledger" where
  "request_state cfg inp now s =
     (let u = wi_userId inp; n = uuidCount s; w = new_withdrawal inp (uuid cfg (n + 1)) (uuid cfg n) now
      in (write_account u
            ((account_for u now s)\<lparr>acc_balance := balance_of s u - wi_amount inp,
               acc_lockedBalance := locked_of s u + wi_amount inp, acc_updatedAt := now\<rparr>) s)
         \<lparr>uuidCount := n + 2,
          transactions := map_set (uuid cfg n)
            \<lparr>tx_txId = uuid cfg n, tx_userId = u, tx_type = TT_withdraw, tx_amount = wi_amount inp,
             tx_status = TS_pending, tx_blockTx = None, tx_relatedUserId = None,
             tx_idempotencyKey = Some (wi_idempotencyKey inp), tx_createdAt = now\<rparr> (transactions s),
          withdrawals := map_set (uuid cfg (n + 1)) w (withdrawals s),
          withdrawalByIdempotencyKey :=
            map_set (wi_idempotencyKey inp) (uuid cfg (n + 1)) (withdrawalByIdempotencyKey s),
          approvalsByWithdrawalId := map_set (uuid cfg (n + 1)) [] (approvalsByWithdrawalId s)\<rparr>)"

text \<open>The checks a request passes before it reserves.\<close>

definition request_admitted :: "ledger_cfg \<Rightarrow> withdrawal_input \<Rightarrow> string \<Rightarrow> ledger \<Rightarrow> bool" where
  "request_admitted cfg inp now s =
     (\<not> truthy (map_get (withdrawalByIdempotencyKey s) (wi_idempotencyKey inp)) \<and>
      wi_amount inp \<le> singleLimit cfg \<and>
      getDailyRequestedWithdrawalAmount (wi_userId inp) now s + wi_amount inp \<le> dailyLimit cfg \<and>
      wi_amount inp \<le> balance_of s (wi_userId inp))"

lemma write_account_write [simp]: "write_account u a (write_account u b s) = write_account u a s"
  by (simp add: write_account_def)

lemma request_admitted_result:
  assumes "request_admitted cfg inp now s"
  shows "requestWithdrawal cfg inp now s =
    (let w = new_withdrawal inp (uuid cfg (uuidCount s + 1)) (uuid cfg (uuidCount s)) now
     in publishWithdrawal cfg (uuid cfg (uuidCount s + 1)) w now
          \<lparr>wr_withdrawal = w, wr_duplicated = False\<rparr> (request_state cfg inp now s))"
  using assms
  by (simp add: requestWithdrawal_def request_admitted_def getMutableAccount_write Let_def request_state_def
      not_less)

lemma request_not_admitted_state:
  assumes "\<not> request_admitted cfg inp now s"
  shows "snd (requestWithdrawal cfg inp now s) = s \<or>
    snd (requestWithdrawal cfg inp now s)
      = write_account (wi_userId inp) (account_for (wi_userId inp) now s) s"
  using assms
  by (auto simp: requestWithdrawal_def request_admitted_def getMutableAccount_write Let_def
      split: option.split)

lemma daily_amount_eq: "getDailyRequestedWithdrawalAmount u now s = requested_on s u (iso_day now)"
  unfolding getDailyRequestedWithdrawalAmount_def Let_def sumBigInt_sum_list filter_filter
    sum_vals_filter requested_on_def
  by (rule sum_vals_cong) (auto simp: daily_status_def)

lemma new_withdrawal_sel [simp]:
  "wd_withdrawalId (new_withdrawal inp i t now) = i" "wd_userId (new_withdrawal inp i t now) = wi_userId inp"
  "wd_amount (new_withdrawal inp i t now) = wi_amount inp"
  "wd_status (new_withdrawal inp i t now) = LEDGER_RESERVED"
  "wd_idempotencyKey (new_withdrawal inp i t now) = wi_idempotencyKey inp"
  "wd_ledgerTxId (new_withdrawal inp i t now) = t" "wd_createdAt (new_withdrawal inp i t now) = now"
  "wd_approvalCount (new_withdrawal inp i t now) = 0"
  by (simp_all add: new_withdrawal_def)

lemma active_status_simps [simp]:
  "active_status LEDGER_RESERVED" "active_status PENDING_ADMIN" "active_status ADMIN_APPROVED"
  "active_status TX_BROADCASTED" "\<not> active_status COMPLETED" "\<not> active_status FAILED"
  "\<not> active_status REJECTED"
  by (simp_all add: active_status_def ACTIVE_WITHDRAWAL_STATUSES_def)

lemma daily_status_simps [simp]: "daily_status st \<longleftrightarrow> active_status st \<or> st = COMPLETED"
  by (cases st) (simp_all add: daily_status_def DAILY_LIMIT_WITHDRAWAL_STATUSES_def ACTIVE_WITHDRAWAL_STATUSES_def)

lemma ledger_inv_request_state:
  assumes inv: "ledger_inv cfg s" and u: "uuid_ok cfg" and amt: "0 \<le> wi_amount inp"
    and ok: "request_admitted cfg inp now s"
  shows "ledger_inv cfg (request_state cfg inp now s)" (is "ledger_inv cfg ?t")
proof (rule ledger_invI)
  note I = ledger_invD [OF inv]
  let ?n = "uuidCount s" and ?u = "wi_userId inp"
  let ?i = "uuid cfg (?n + 1)" and ?x = "uuid cfg ?n"
  let ?w = "new_withdrawal inp ?i ?x now"
  let ?a = "(account_for ?u now s)\<lparr>acc_balance := balance_of s ?u - wi_amount inp,
               acc_lockedBalance := locked_of s ?u + wi_amount inp, acc_updatedAt := now\<rparr>"
  have acc: "accounts ?t = map_set ?u ?a (accounts s)" by (simp add: request_state_def Let_def)
  have wds: "withdrawals ?t = map_set ?i ?w (withdrawals s)" by (simp add: request_state_def Let_def)
  have fresh: "map_get (withdrawals s) ?i = None" "map_get (transactions s) ?x = None"
    using fresh_uuid [OF I(5) u] by simp_all
  have key: "map_get (withdrawalByIdempotencyKey s) (wi_idempotencyKey inp) = None"
    using ok I(4) by (fastforce simp: request_admitted_def index_ok_def truthy_def truthy_str_def
        split: option.splits)
  have ne: "?i \<noteq> ''''" using u by (simp add: uuid_ok_def)
  show "accounts_ok ?t"
    using ok by (intro accounts_ok_set [OF I(1) acc])
      (simp_all add: account_for_userId I locked_nonneg amt request_admitted_def)
  show "locks_ok ?t"
    using I(2) fresh(1) by (auto simp: locks_ok_def locked_of_set [OF acc] reserved_def wds sum_vals_set)
  have old: "map_get (withdrawals s) i = Some w \<Longrightarrow> wd_idempotencyKey w \<noteq> wi_idempotencyKey inp \<and>
      wd_ledgerTxId w \<noteq> ?x" for i w
    using I(3) key fresh(2) by (fastforce simp: withdrawals_ok_def)
  have txs: "transactions ?t = map_set ?x
        \<lparr>tx_txId = ?x, tx_userId = ?u, tx_type = TT_withdraw, tx_amount = wi_amount inp,
         tx_status = TS_pending, tx_blockTx = None, tx_relatedUserId = None,
         tx_idempotencyKey = Some (wi_idempotencyKey inp), tx_createdAt = now\<rparr> (transactions s)"
    by (simp add: request_state_def Let_def)
  have idx: "withdrawalByIdempotencyKey ?t
        = map_set (wi_idempotencyKey inp) ?i (withdrawalByIdempotencyKey s)"
      "transferByIdempotencyKey ?t = transferByIdempotencyKey s"
      "approvalsByWithdrawalId ?t = map_set ?i [] (approvalsByWithdrawalId s)"
      "depositsByTxHash ?t = depositsByTxHash s"
      "externalCreditsByReference ?t = externalCreditsByReference s" "uuidCount ?t = ?n + 2"
    by (simp_all add: request_state_def Let_def)
  show "withdrawals_ok ?t"
    using I(3) old amt by (auto simp: withdrawals_ok_def wds txs idx mirrors_def)
  show "index_ok ?t"
    using I(4) fresh ne key by (fastforce simp: index_ok_def wds txs idx)
  have "uuid cfg ` {..<?n} \<subseteq> uuid cfg ` {..<?n + 2}" "?i \<in> uuid cfg ` {..<?n + 2}"
      "?x \<in> uuid cfg ` {..<?n + 2}" by auto
  then show "ids_ok cfg ?t"
    using I(5) unfolding ids_ok_def txs wds idx map_keys_set by blast
  show "approvals_ok ?t"
    using I(6) fresh(1) by (auto simp: approvals_ok_def wds idx approvals_fit_def approved_status_def)
  show "daily_ok cfg ?t" unfolding daily_ok_def
  proof (intro allI)
    fix v day
    have "requested_on ?t v day
        = requested_on s v day + (if ?u = v \<and> iso_day now = day then wi_amount inp else 0)"
      using fresh(1) by (simp add: requested_on_def wds sum_vals_set)
    moreover have "requested_on s v day \<le> max 0 (dailyLimit cfg)" using I(7) by (simp add: daily_ok_def)
    moreover have "requested_on s ?u (iso_day now) + wi_amount inp \<le> dailyLimit cfg"
      using ok by (simp add: request_admitted_def daily_amount_eq)
    ultimately show "requested_on ?t v day \<le> max 0 (dailyLimit cfg)" by auto
  qed
  have "liability ?t = liability s" by (simp add: liability_set [OF acc])
  moreover have "paid_out ?t = paid_out s"
    using fresh(1) by (simp add: paid_out_def wds sum_vals_set)
  ultimately show "money_ok ?t"
    using I(8) by (simp add: money_ok_def deposited_def credited_def idx)
qed

lemma ledger_inv_request:
  assumes "ledger_inv cfg s" and "uuid_ok cfg" and "0 \<le> wi_amount inp"
  shows "ledger_inv cfg (snd (requestWithdrawal cfg inp now s))"
proof (cases "request_admitted cfg inp now s")
  case True
  then show ?thesis
    unfolding request_admitted_result [OF True] Let_def
    by (intro ledger_inv_publish ledger_inv_request_state assms)
next
  case False
  from request_not_admitted_state [OF this] assms(1) show ?thesis
    using ledger_inv_touch [OF assms(1)] by auto
qed

end
