(* ===== verification/WithdrawalTransitions.thy ===== *)
theory WithdrawalTransitions
  imports WithdrawalInvariant
begin

text \<open>
  The ledger invariant is kept by the operations that change a stored withdrawal: a change among the
  active statuses (external authentication, review, approval, broadcast) and the settlement of an
  active withdrawal (confirmation, failure).  Under the invariant neither settlement can run into
  its \<open>STATE_CORRUPTED\<close> branches.
\<close>

section \<open>Changes of a stored withdrawal\<close>

text \<open>What a status change leaves alone.\<close>

definition same_identity :: "withdrawal \<Rightarrow> withdrawal \<Rightarrow> bool" where
  "same_identity w v =
     (wd_withdrawalId v = wd_withdrawalId w \<and> wd_userId v = wd_userId w \<and> wd_amount v = wd_amount w \<and>
      wd_idempotencyKey v = wd_idempotencyKey w \<and> wd_ledgerTxId v = wd_ledgerTxId w \<and>
      wd_createdAt v = wd_createdAt w)"

lemma stored_withdrawal:
  assumes "withdrawals_ok s" and "map_get (withdrawals s) i = Some w"
  obtains tx where "wd_withdrawalId w = i" "0 \<le> wd_amount w"
    "map_get (withdrawalByIdempotencyKey s) (wd_idempotencyKey w) = Some i"
    "map_get (transactions s) (wd_ledgerTxId w) = Some tx" "mirrors tx w"
  using assms by (auto simp: withdrawals_ok_def)

text \<open>Two stored withdrawals never share their ledger transaction.\<close>

lemma ledgerTx_inj:
  assumes ok: "withdrawals_ok s" and i: "map_get (withdrawals s) i = Some w"
    and j: "map_get (withdrawals s) j = Some v" and tx: "wd_ledgerTxId w = wd_ledgerTxId v"
  shows "i = j"
proof -
  from stored_withdrawal [OF ok i] obtain t where
    "map_get (withdrawalByIdempotencyKey s) (wd_idempotencyKey w) = Some i"
    "map_get (transactions s) (wd_ledgerTxId w) = Some t" "mirrors t w" by metis
  moreover from stored_withdrawal [OF ok j] obtain t' where
    "map_get (withdrawalByIdempotencyKey s) (wd_idempotencyKey v) = Some j"
    "map_get (transactions s) (wd_ledgerTxId v) = Some t'" "mirrors t' v" by metis
  ultimately show ?thesis by (simp add: tx mirrors_def)
qed

text \<open>
  The common part: the withdrawal \<open>w\<close> under \<open>i\<close> becomes \<open>v\<close>, its transaction becomes one that
  mirrors \<open>v\<close>, its approvals become \<open>as\<close>; the accounts are accounted for separately.
\<close>

lemma ledger_inv_change:
  assumes inv: "ledger_inv cfg s" and w: "map_get (withdrawals s) i = Some w"
    and id: "same_identity w v"
    and wds: "withdrawals t = map_set i v (withdrawals s)"
    and txs: "transactions t = map_set (wd_ledgerTxId w) tx (transactions s)" and mir: "mirrors tx v"
    and apps: "approvalsByWithdrawalId t = map_set i as (approvalsByWithdrawalId s)"
    and fit: "approvals_fit v as"
    and same: "withdrawalByIdempotencyKey t = withdrawalByIdempotencyKey s"
      "transferByIdempotencyKey t = transferByIdempotencyKey s" "depositsByTxHash t = depositsByTxHash s"
      "externalCreditsByReference t = externalCreditsByReference s" and n: "uuidCount s \<le> uuidCount t"
    and daily: "daily_status (wd_status v) \<Longrightarrow> daily_status (wd_status w)"
    and a: "accounts_ok t"
    and lock: "\<And>u. locked_of t u = locked_of s u
        + (if u = wd_userId w
           then (if active_status (wd_status v) then wd_amount w else 0)
              - (if active_status (wd_status w) then wd_amount w else 0) else 0)"
    and money: "liability t = liability s
        + (if wd_status w = COMPLETED then wd_amount w else 0)
        - (if wd_status v = COMPLETED then wd_amount w else 0)"
  shows "ledger_inv cfg t"
proof (rule ledger_invI)
  note I = ledger_invD [OF inv]
  obtain old where o: "wd_withdrawalId w = i" "0 \<le> wd_amount w"
    "map_get (withdrawalByIdempotencyKey s) (wd_idempotencyKey w) = Some i"
    "map_get (transactions s) (wd_ledgerTxId w) = Some old"
    using stored_withdrawal [OF I(3) w] by metis
  have v: "wd_withdrawalId v = i" "wd_userId v = wd_userId w" "wd_amount v = wd_amount w"
      "wd_idempotencyKey v = wd_idempotencyKey w" "wd_ledgerTxId v = wd_ledgerTxId w"
      "wd_createdAt v = wd_createdAt w"
    using id o(1) by (simp_all add: same_identity_def)
  show "accounts_ok t" by (rule a)
  show "locks_ok t"
    using I(2) w by (auto simp: locks_ok_def lock reserved_def wds sum_vals_set v)
  have other: "map_get (withdrawals s) j = Some x \<Longrightarrow> j \<noteq> i \<Longrightarrow> wd_ledgerTxId x \<noteq> wd_ledgerTxId w" for j x
    using ledgerTx_inj [OF I(3) w, of j x] by metis
  show "withdrawals_ok t" unfolding withdrawals_ok_def
  proof (intro conjI allI impI)
    show "map_wf (withdrawals t)" using I(3) by (simp add: withdrawals_ok_def wds)
    fix j x assume j: "map_get (withdrawals t) j = Some x"
    show "wd_withdrawalId x = j" "0 \<le> wd_amount x"
      "map_get (withdrawalByIdempotencyKey t) (wd_idempotencyKey x) = Some j"
      using j I(3) v o by (auto simp: wds withdrawals_ok_def same split: if_splits)
    show "\<exists>tx. map_get (transactions t) (wd_ledgerTxId x) = Some tx \<and> mirrors tx x"
    proof (cases "j = i")
      case True
      with j have "x = v" by (simp add: wds)
      with mir v(5) show ?thesis by (simp add: txs)
    next
      case False
      with j I(3) other [of j x] show ?thesis by (auto simp: wds txs withdrawals_ok_def)
    qed
  qed
  show "index_ok t" using I(4) w v(4) by (fastforce simp: index_ok_def same wds txs)
  have "map_keys (transactions t) \<union> map_keys (withdrawals t) = map_keys (transactions s) \<union> map_keys (withdrawals s)"
    using map_get_keys [OF w] map_get_keys [OF o(4)] by (auto simp: txs wds)
  moreover have "uuid cfg ` {..<uuidCount s} \<subseteq> uuid cfg ` {..<uuidCount t}" using n by auto
  ultimately show "ids_ok cfg t" using I(5) unfolding ids_ok_def by blast
  show "approvals_ok t" using I(6) fit by (auto simp: approvals_ok_def wds apps)
  have "requested_on t u day \<le> requested_on s u day" for u day
    using w o(2) daily by (auto simp: requested_on_def wds sum_vals_set v)
  then show "daily_ok cfg t" using I(7) unfolding daily_ok_def by (meson order_trans)
  have "paid_out t = paid_out s - (if wd_status w = COMPLETED then wd_amount w else 0)
      + (if wd_status v = COMPLETED then wd_amount w else 0)"
    using w by (simp add: paid_out_def wds sum_vals_set v)
  then show "money_ok t" using I(8) money by (simp add: money_ok_def deposited_def credited_def same)
qed

lemma getMutableWithdrawal_Some:
  "map_get (withdrawals s) i = Some w \<Longrightarrow> getMutableWithdrawal i s = Inr w"
  by (simp add: getMutableWithdrawal_def)

lemma getMutableWithdrawal_None:
  "map_get (withdrawals s) i = None \<Longrightarrow>
     getMutableWithdrawal i s = Inl (DomainError 404 ''NOT_FOUND'' ''withdrawal not found'')"
  by (simp add: getMutableWithdrawal_def)

lemma write_withdrawal_sel [simp]:
  "accounts (write_withdrawal i w s) = accounts s"
  "transactions (write_withdrawal i w s) = transactions s"
  "depositsByTxHash (write_withdrawal i w s) = depositsByTxHash s"
  "externalCreditsByReference (write_withdrawal i w s) = externalCreditsByReference s"
  "withdrawals (write_withdrawal i w s) = map_set i w (withdrawals s)"
  "withdrawalByIdempotencyKey (write_withdrawal i w s) = withdrawalByIdempotencyKey s"
  "transferByIdempotencyKey (write_withdrawal i w s) = transferByIdempotencyKey s"
  "approvalsByWithdrawalId (write_withdrawal i w s) = approvalsByWithdrawalId s"
  "uuidCount (write_withdrawal i w s) = uuidCount s"
  by (simp_all add: write_withdrawal_def)

section \<open>Among the active statuses\<close>

lemma mirror_active: "active_status st \<Longrightarrow> mirror_status st = TS_pending"
  by (cases st) simp_all

lemma ledger_inv_active:
  assumes inv: "ledger_inv cfg s" and w: "map_get (withdrawals s) i = Some w"
    and id: "same_identity w v" and act: "active_status (wd_status w)" "active_status (wd_status v)"
    and fit: "approvals_fit v as" and n: "uuidCount s \<le> n"
  shows "ledger_inv cfg (write_withdrawal i v
    (s\<lparr>uuidCount := n, approvalsByWithdrawalId := map_set i as (approvalsByWithdrawalId s)\<rparr>))"
    (is "ledger_inv cfg ?t")
proof -
  note I = ledger_invD [OF inv]
  obtain tx where tx: "map_get (transactions s) (wd_ledgerTxId w) = Some tx" "mirrors tx w"
    using stored_withdrawal [OF I(3) w] by metis
  have "mirrors tx v"
    using tx(2) id act by (simp add: mirrors_def same_identity_def mirror_active)
  moreover have "accounts ?t = accounts s" by simp
  ultimately show ?thesis
    using I(1) act n tx(1) fit
    by (intro ledger_inv_change [OF inv w id, where tx = tx and as = as])
      (auto simp: accounts_ok_def locked_of_def liability_def)
qed

text \<open>The same with the approvals and the counter unchanged.\<close>

lemma ledger_inv_active_status:
  assumes inv: "ledger_inv cfg s" and w: "map_get (withdrawals s) i = Some w"
    and id: "same_identity w v" and act: "active_status (wd_status w)" "active_status (wd_status v)"
    and fit: "\<And>as. approvals_fit w as \<Longrightarrow> approvals_fit v as"
  shows "ledger_inv cfg (write_withdrawal i v s)"
proof -
  obtain as where as: "map_get (approvalsByWithdrawalId s) i = Some as" "approvals_fit w as"
    using ledger_invD(6) [OF inv] w by (auto simp: approvals_ok_def)
  from ledger_inv_active [OF inv w id act fit [OF as(2)] le_refl] as(1) show ?thesis by simp
qed

lemma ledger_inv_externalAuth:
  assumes "ledger_inv cfg s"
  shows "ledger_inv cfg (snd (confirmWithdrawalExternalAuth cfg i p r now s))"
proof (cases "map_get (withdrawals s) i")
  case None
  with assms show ?thesis by (simp add: confirmWithdrawalExternalAuth_def getMutableWithdrawal_None)
next
  case (Some w)
  show ?thesis
  proof (cases "wd_status w = LEDGER_RESERVED")
    case False
    with assms Some show ?thesis
      by (simp add: confirmWithdrawalExternalAuth_def getMutableWithdrawal_Some)
  next
    case True
    then show ?thesis
      unfolding confirmWithdrawalExternalAuth_def getMutableWithdrawal_Some [OF Some] Let_def
      by (auto intro!: ledger_inv_publish ledger_inv_active_status [OF assms Some]
          simp: same_identity_def approvals_fit_def approved_status_def)
  qed
qed

lemma ledger_inv_review:
  assumes "ledger_inv cfg s"
  shows "ledger_inv cfg (snd (markWithdrawalReviewRequired i now s))"
proof (cases "map_get (withdrawals s) i")
  case None
  with assms show ?thesis by (simp add: markWithdrawalReviewRequired_def getMutableWithdrawal_None)
next
  case (Some w)
  then show ?thesis
    using assms ledger_inv_active_status [OF assms Some, of "w\<lparr>wd_reviewRequiredAt := Some now\<rparr>"]
    by (cases "wd_status w = PENDING_ADMIN")
      (simp_all add: markWithdrawalReviewRequired_def getMutableWithdrawal_Some Let_def
        same_identity_def approvals_fit_def)
qed

lemma ledger_inv_broadcast:
  assumes "ledger_inv cfg s"
  shows "ledger_inv cfg (snd (broadcastWithdrawal cfg i h now s))"
proof (cases "map_get (withdrawals s) i")
  case None
  with assms show ?thesis by (simp add: broadcastWithdrawal_def getMutableWithdrawal_None)
next
  case (Some w)
  show ?thesis
  proof (cases "wd_status w = ADMIN_APPROVED")
    case False
    with assms Some show ?thesis by (simp add: broadcastWithdrawal_def getMutableWithdrawal_Some)
  next
    case True
    then show ?thesis
      unfolding broadcastWithdrawal_def getMutableWithdrawal_Some [OF Some] Let_def
      by (auto intro!: ledger_inv_publish ledger_inv_active_status [OF assms Some]
          simp: same_identity_def approvals_fit_def approved_status_def)
  qed
qed

lemma ledger_inv_approve:
  assumes "ledger_inv cfg s"
  shows "ledger_inv cfg (snd (approveWithdrawal cfg i inp now s))"
proof (cases "map_get (withdrawals s) i")
  case None
  with assms show ?thesis by (simp add: approveWithdrawal_def getMutableWithdrawal_None)
next
  case (Some w)
  obtain as where as: "map_get (approvalsByWithdrawalId s) i = Some as" "approvals_fit w as"
    using ledger_invD(6) [OF assms] Some by (auto simp: approvals_ok_def)
  have i: "wd_withdrawalId w = i" using stored_withdrawal [OF ledger_invD(3) [OF assms] Some] by metis
  show ?thesis
  proof (cases "wd_status w = PENDING_ADMIN \<and> (\<forall>a \<in> set as. wa_adminId a \<noteq> ai_adminId inp)")
    case False
    then have "wd_status w = PENDING_ADMIN \<Longrightarrow> list_ex (\<lambda>a. wa_adminId a = ai_adminId inp) as"
      by (auto simp: list_ex_iff)
    then show ?thesis
      using assms as(1) by (simp add: approveWithdrawal_def getMutableWithdrawal_Some [OF Some] Let_def)
  next
    case True
    then have no: "\<not> list_ex (\<lambda>a. wa_adminId a = ai_adminId inp) as" by (auto simp: list_ex_iff)
    let ?as = "as @ [\<lparr>wa_approvalId = uuid cfg (uuidCount s), wa_withdrawalId = i, wa_adminId = ai_adminId inp,
        wa_actorType = ai_actorType inp, wa_reasonCode = coalesce (ai_reasonCode inp) manual_review_passed,
        wa_note = ai_note inp, wa_createdAt = now\<rparr>]"
    let ?w1 = "w\<lparr>wd_approvalCount := int (length ?as)\<rparr>"
    let ?v = "if wd_requiredApprovals w \<le> int (length ?as)
      then ?w1\<lparr>wd_status := ADMIN_APPROVED, wd_approvedAt := Some now\<rparr> else ?w1"
    have "approvals_fit ?v ?as"
      using True as(2) i by (auto simp: approvals_fit_def approved_status_def)
    then have "ledger_inv cfg (write_withdrawal i ?v
        (s\<lparr>uuidCount := uuidCount s + 1, approvalsByWithdrawalId := map_set i ?as (approvalsByWithdrawalId s)\<rparr>))"
      using True by (intro ledger_inv_active [OF assms Some]) (simp_all add: same_identity_def)
    then show ?thesis
      unfolding approveWithdrawal_def getMutableWithdrawal_Some [OF Some] as(1) Let_def sum.case coalesce_simps
      using True no by (simp only: ledger_inv_publish if_False not_True_eq_False simp_thms)
  qed
qed

section \<open>Settlement\<close>

text \<open>An active withdrawal's amount is locked, so neither underflow nor a missing transaction can occur.\<close>

lemma locked_covers:
  assumes inv: "ledger_inv cfg s" and w: "map_get (withdrawals s) i = Some w"
    and act: "active_status (wd_status w)"
  shows "wd_amount w \<le> locked_of s (wd_userId w)"
proof -
  note I = ledger_invD [OF inv]
  have nn: "0 \<le> wd_amount x" if "x \<in> set (map_values (withdrawals s))" for x
    using map_get_values [OF _ that] I(3) by (auto simp: withdrawals_ok_def)
  have "wd_amount w \<le> reserved s (wd_userId w)"
    using sum_vals_member_le [OF w, of "\<lambda>x. if wd_userId x = wd_userId w \<and> active_status (wd_status x) then wd_amount x else 0"]
      nn act by (simp add: reserved_def)
  then show ?thesis using I(2) by (simp add: locks_ok_def)
qed

lemma ledger_inv_settle:
  assumes inv: "ledger_inv cfg s" and w: "map_get (withdrawals s) i = Some w"
    and id: "same_identity w v" and act: "active_status (wd_status w)"
    and st: "wd_status v = COMPLETED \<and> refund = 0 \<or> wd_status v = FAILED \<and> refund = wd_amount w"
    and fit: "\<And>as. approvals_fit w as \<Longrightarrow> approvals_fit v as"
    and mir: "mirrors tx v"
    and acc: "accounts t = map_set (wd_userId w)
        ((account_for (wd_userId w) now s)\<lparr>acc_lockedBalance := locked_of s (wd_userId w) - wd_amount w,
           acc_balance := balance_of s (wd_userId w) + refund, acc_updatedAt := now\<rparr>) (accounts s)"
    and wds: "withdrawals t = map_set i v (withdrawals s)"
    and txs: "transactions t = map_set (wd_ledgerTxId w) tx (transactions s)"
    and same: "withdrawalByIdempotencyKey t = withdrawalByIdempotencyKey s"
      "transferByIdempotencyKey t = transferByIdempotencyKey s" "depositsByTxHash t = depositsByTxHash s"
      "externalCreditsByReference t = externalCreditsByReference s"
      "approvalsByWithdrawalId t = approvalsByWithdrawalId s" and n: "uuidCount t = uuidCount s"
  shows "ledger_inv cfg t"
proof -
  note I = ledger_invD [OF inv]
  obtain as where as: "map_get (approvalsByWithdrawalId s) i = Some as" "approvals_fit w as"
    using I(6) w by (auto simp: approvals_ok_def)
  have "0 \<le> wd_amount w" using stored_withdrawal [OF I(3) w] by metis
  then have "accounts_ok t"
    using st locked_covers [OF inv w act] balance_nonneg [OF I(1), of "wd_userId w"]
    by (intro accounts_ok_set [OF I(1) acc]) (auto simp: account_for_userId I)
  then show ?thesis
    using act st as fit
    by (intro ledger_inv_change [OF inv w id wds txs mir, where as = as])
      (auto simp: same n locked_of_set [OF acc] liability_set [OF acc])
qed

lemma account_for_same_balance [simp]:
  "(account_for u now s)\<lparr>acc_lockedBalance := l, acc_balance := balance_of s u, acc_updatedAt := now\<rparr>
     = (account_for u now s)\<lparr>acc_lockedBalance := l, acc_updatedAt := now\<rparr>"
  by (rule account.equality) simp_all

lemma same_core_record_fee [simp]: "same_core s (record_fee k rt ri f now s)"
  by (simp add: same_core_def core_def record_fee_def)

lemma ledger_inv_confirm:
  assumes "ledger_inv cfg s"
  shows "ledger_inv cfg (snd (confirmWithdrawal cfg i fee now s))"
proof (cases "map_get (withdrawals s) i")
  case None
  with assms show ?thesis by (simp add: confirmWithdrawal_def getMutableWithdrawal_None)
next
  case (Some w)
  show ?thesis
  proof (cases "wd_status w = TX_BROADCASTED")
    case False
    with assms Some show ?thesis by (simp add: confirmWithdrawal_def getMutableWithdrawal_Some)
  next
    case True
    note I = ledger_invD [OF assms]
    obtain tx where tx: "map_get (transactions s) (wd_ledgerTxId w) = Some tx" "mirrors tx w"
      using stored_withdrawal [OF I(3) Some] by metis
    have cov: "wd_amount w \<le> locked_of s (wd_userId w)" using locked_covers [OF assms Some] True by simp
    let ?v = "w\<lparr>wd_status := COMPLETED, wd_confirmedAt := Some now\<rparr>"
    let ?tx = "tx\<lparr>tx_status := TS_confirmed, tx_blockTx := wd_txHash w\<rparr>"
    let ?t = "write_withdrawal i ?v ((write_account (wd_userId w)
        ((account_for (wd_userId w) now s)\<lparr>acc_lockedBalance := locked_of s (wd_userId w) - wd_amount w,
           acc_updatedAt := now\<rparr>) s)\<lparr>transactions := map_set (wd_ledgerTxId w) ?tx (transactions s)\<rparr>)"
    have "ledger_inv cfg ?t"
      using True tx(2)
      by (intro ledger_inv_settle [OF assms Some, where v = "?v" and refund = 0 and now = now and tx = "?tx"])
        (auto simp: same_identity_def mirrors_def approvals_fit_def approved_status_def write_account_def)
    then show ?thesis
      using True tx(1) cov
      by (auto simp: confirmWithdrawal_def getMutableWithdrawal_Some [OF Some] getMutableAccount_write Let_def
          not_less split: option.split intro!: ledger_inv_publish intro: ledger_inv_same_core)
  qed
qed

lemma ledger_inv_fail:
  assumes "ledger_inv cfg s"
  shows "ledger_inv cfg (snd (failWithdrawal cfg i reason now s))"
proof (cases "map_get (withdrawals s) i")
  case None
  with assms show ?thesis by (simp add: failWithdrawal_def getMutableWithdrawal_None)
next
  case (Some w)
  show ?thesis
  proof (cases "active_status (wd_status w)")
    case False
    then show ?thesis using assms
      by (cases "wd_status w") (simp_all add: failWithdrawal_def getMutableWithdrawal_Some [OF Some])
  next
    case True
    note I = ledger_invD [OF assms]
    obtain tx where tx: "map_get (transactions s) (wd_ledgerTxId w) = Some tx" "mirrors tx w"
      using stored_withdrawal [OF I(3) Some] by metis
    have cov: "\<not> locked_of s (wd_userId w) < wd_amount w" using locked_covers [OF assms Some True] by simp
    have st: "wd_status w \<in> {LEDGER_RESERVED, PENDING_ADMIN, ADMIN_APPROVED, TX_BROADCASTED}"
      using True by (cases "wd_status w") simp_all
    let ?v = "w\<lparr>wd_status := FAILED, wd_failedAt := Some now, wd_failReason := Some reason\<rparr>"
    let ?tx = "tx\<lparr>tx_status := TS_failed\<rparr>"
    let ?t = "write_withdrawal i ?v ((write_account (wd_userId w)
        ((account_for (wd_userId w) now s)\<lparr>acc_lockedBalance := locked_of s (wd_userId w) - wd_amount w,
           acc_balance := balance_of s (wd_userId w) + wd_amount w, acc_updatedAt := now\<rparr>) s)
        \<lparr>transactions := map_set (wd_ledgerTxId w) ?tx (transactions s)\<rparr>)"
    have "ledger_inv cfg ?t"
      using True tx(2)
      by (intro ledger_inv_settle [OF assms Some, where v = "?v" and refund = "wd_amount w" and now = now and tx = "?tx"])
        (auto simp: same_identity_def mirrors_def approvals_fit_def approved_status_def)
    then show ?thesis
      unfolding failWithdrawal_def getMutableWithdrawal_Some [OF Some] getMutableAccount_write
      using st tx(1) cov by (simp add: Let_def ledger_inv_publish)
  qed
qed

end
