(* ===== verification/LedgerJobs.thy ===== *)
theory LedgerJobs
  imports LedgerState
begin

text \<open>The job queue and the audit log of \<open>InMemoryLedger\<close>.\<close>

section \<open>Jobs\<close>

definition enqueueJob :: "ledger_cfg \<Rightarrow> job_type \<Rightarrow> (string \<times> string) list \<Rightarrow> string \<Rightarrow> ledger \<Rightarrow> tx_job \<times> ledger" where
  "enqueueJob cfg ty payload nowIso s =
     (let job = \<lparr>job_jobId = uuid cfg (uuidCount s), job_type = ty, job_payload = payload,
                job_status = JS_pending, job_retryCount = 0, job_createdAt = nowIso\<rparr>
      in (job, s\<lparr>uuidCount := Suc (uuidCount s), jobs := map_set (job_jobId job) job (jobs s)\<rparr>))"

definition claimPendingJobs :: "job_type list \<Rightarrow> int \<Rightarrow> ledger \<Rightarrow> tx_job list \<times> ledger" where
  "claimPendingJobs types limit s =
     (if types = [] \<or> limit \<le> 0 then ([], s)
      else
        let claimed = slice0 limit (sort_asc (\<lambda>e. job_createdAt (snd e))
              (filter (\<lambda>e. job_status (snd e) = JS_pending \<and> job_type (snd e) \<in> set types) (jobs s)));
            run = (\<lambda>job. job\<lparr>job_status := JS_running\<rparr>)
        in (map (\<lambda>e. run (snd e)) claimed,
            s\<lparr>jobs := write_entries (map fst claimed) run (jobs s)\<rparr>))"

definition set_job_status :: "job_status \<Rightarrow> string \<Rightarrow> ledger \<Rightarrow> ledger" where
  "set_job_status st jobId s =
     (case map_get (jobs s) jobId of
        None \<Rightarrow> s
      | Some job \<Rightarrow> s\<lparr>jobs := map_set jobId (job\<lparr>job_status := st\<rparr>) (jobs s)\<rparr>)"

definition markJobDone :: "string \<Rightarrow> ledger \<Rightarrow> ledger" where
  "markJobDone jobId s = set_job_status JS_done jobId s"

definition markJobFailed :: "string \<Rightarrow> ledger \<Rightarrow> ledger" where
  "markJobFailed jobId s = set_job_status JS_failed jobId s"

definition retryJob :: "string \<Rightarrow> ledger \<Rightarrow> tx_job option \<times> ledger" where
  "retryJob jobId s =
     (case map_get (jobs s) jobId of
        None \<Rightarrow> (None, s)
      | Some job \<Rightarrow>
          let job' = job\<lparr>job_retryCount := job_retryCount job + 1, job_status := JS_pending\<rparr>
          in (Some job', s\<lparr>jobs := map_set jobId job' (jobs s)\<rparr>))"

section \<open>Audit log\<close>

record audit_input =
  au_entityType :: entity_type
  au_entityId :: string
  au_action :: string
  au_actorType :: actor_type
  au_actorId :: string
  au_metadata :: "(string \<times> string) list"

definition appendAuditLog :: "ledger_cfg \<Rightarrow> audit_input \<Rightarrow> string \<Rightarrow> ledger \<Rightarrow> audit_log \<times> ledger" where
  "appendAuditLog cfg inp nowIso s =
     (let log = \<lparr>al_auditId = uuid cfg (uuidCount s), al_entityType = au_entityType inp,
                al_entityId = au_entityId inp, al_action = au_action inp, al_actorType = au_actorType inp,
                al_actorId = au_actorId inp, al_metadata = au_metadata inp, al_createdAt = nowIso\<rparr>
      in (log, s\<lparr>uuidCount := Suc (uuidCount s), auditLogs := map_set (al_auditId log) log (auditLogs s)\<rparr>))"

record audit_query =
  aq_entityType :: "entity_type option"
  aq_entityId :: "string option"
  aq_actorId :: "string option"
  aq_action :: "string option"
  aq_createdFrom :: "string option"
  aq_createdTo :: "string option"
  aq_limit :: "int option"

definition listAuditLogs :: "audit_query \<Rightarrow> ledger \<Rightarrow> audit_log list" where
  "listAuditLogs q s =
     slice0 (coalesce (aq_limit q) 100)
       (sort_desc al_createdAt
         (filter (\<lambda>l. truthy (aq_createdTo q) \<longrightarrow> al_createdAt l \<le> the (aq_createdTo q))
         (filter (\<lambda>l. truthy (aq_createdFrom q) \<longrightarrow> the (aq_createdFrom q) \<le> al_createdAt l)
         (filter (\<lambda>l. matches_str (aq_action q) (al_action l))
         (filter (\<lambda>l. matches_str (aq_actorId q) (al_actorId l))
         (filter (\<lambda>l. matches_str (aq_entityId q) (al_entityId l))
         (filter (\<lambda>l. matches (aq_entityType q) (al_entityType l)) (map_values (auditLogs s)))))))))"

section \<open>Laws\<close>

lemma same_core_jobs [simp]:
  "same_core s (snd (enqueueJob cfg ty p now s))" "same_core s (snd (claimPendingJobs tys n s))"
  "same_core s (markJobDone i s)" "same_core s (markJobFailed i s)" "same_core s (snd (retryJob i s))"
  "same_core s (snd (appendAuditLog cfg inp now s))"
  by (simp_all add: same_core_def core_def enqueueJob_def claimPendingJobs_def markJobDone_def
      markJobFailed_def set_job_status_def retryJob_def appendAuditLog_def Let_def split: option.split)

text \<open>A claimed job was pending and of a requested type; it is now running, and nothing else changed.\<close>

lemma claimed_job:
  assumes wf: "map_wf (jobs s)" and c: "claimPendingJobs types limit s = (js, t)"
    and old: "map_get (jobs s) i = Some job" and new: "map_get (jobs t) i \<noteq> Some job"
  shows "job_status job = JS_pending \<and> job_type job \<in> set types \<and>
    map_get (jobs t) i = Some (job\<lparr>job_status := JS_running\<rparr>) \<and> job\<lparr>job_status := JS_running\<rparr> \<in> set js"
proof -
  let ?P = "\<lambda>e. job_status (snd e) = JS_pending \<and> job_type (snd e) \<in> set types"
  let ?cl = "slice0 limit (sort_asc (\<lambda>e. job_createdAt (snd e)) (filter ?P (jobs s)))"
  let ?run = "\<lambda>job. job\<lparr>job_status := JS_running\<rparr>"
  have go: "\<not> (types = [] \<or> limit \<le> 0)" using c old new by (auto simp: claimPendingJobs_def)
  then have t: "jobs t = write_entries (map fst ?cl) ?run (jobs s)" and js: "js = map (\<lambda>e. ?run (snd e)) ?cl"
    using c by (auto simp: claimPendingJobs_def Let_def)
  have i: "i \<in> set (map fst ?cl)" using old new by (auto simp: t split: if_splits)
  then obtain v where e: "(i, v) \<in> set ?cl" by force
  have "(i, v) \<in> set (jobs s)" "?P (i, v)" using selected_entry [OF e] by auto
  moreover from this have "v = job" using map_get_entry [OF wf] old by fastforce
  moreover have "?run v \<in> set js" using e by (force simp: js)
  ultimately show ?thesis using i old by (simp add: t)
qed

lemma claimed_jobs_bound:
  assumes "claimPendingJobs types limit s = (js, t)"
  shows "int (length js) \<le> max 0 limit"
  using assms length_slice0_le [of limit]
  by (auto simp: claimPendingJobs_def Let_def split: if_splits)

lemma claimed_jobs_running:
  assumes "claimPendingJobs types limit s = (js, t)" and "job \<in> set js"
  shows "job_status job = JS_running \<and> job_type job \<in> set types"
proof -
  have go: "\<not> (types = [] \<or> limit \<le> 0)" using assms by (auto simp: claimPendingJobs_def)
  let ?P = "\<lambda>e. job_status (snd e) = JS_pending \<and> job_type (snd e) \<in> set types"
  let ?cl = "slice0 limit (sort_asc (\<lambda>e. job_createdAt (snd e)) (filter ?P (jobs s)))"
  have "js = map (\<lambda>e. (snd e)\<lparr>job_status := JS_running\<rparr>) ?cl"
    using assms(1) go by (auto simp: claimPendingJobs_def Let_def)
  with assms(2) obtain e where "e \<in> set ?cl" "job = (snd e)\<lparr>job_status := JS_running\<rparr>" by auto
  with selected_entry(2) [OF this(1)] show ?thesis by simp
qed

end
