(* ===== verification/LedgerSweeps.thy ===== *)
theory LedgerSweeps
  imports LedgerWithdrawals
begin

text \<open>The sweep records and the network-fee books of \<open>InMemoryLedger\<close>.\<close>

section \<open>Sweeps\<close>

record sweep_input =
  si_sourceWalletCode :: string
  si_sourceAddress :: string
  si_targetAddress :: string
  si_currencyId :: "int option"
  si_network :: "network option"
  si_amount :: int
  si_externalRef :: "string option"
  si_note :: "string option"

definition createSweepRecord :: "ledger_cfg \<Rightarrow> sweep_input \<Rightarrow> string \<Rightarrow> ledger \<Rightarrow> sweep_record \<times> ledger" where
  "createSweepRecord cfg inp nowIso s =
     (let sweep = \<lparr>sw_sweepId = uuid cfg (uuidCount s), sw_sourceWalletCode = si_sourceWalletCode inp,
            sw_sourceAddress = si_sourceAddress inp, sw_targetAddress = si_targetAddress inp,
            sw_currencyId = si_currencyId inp, sw_network = si_network inp, sw_amount = si_amount inp,
            sw_status = SW_planned, sw_externalRef = si_externalRef inp, sw_txHash = None,
            sw_note = si_note inp, sw_attemptCount = 0, sw_createdAt = nowIso, sw_queuedAt = None,
            sw_lastAttemptAt = None, sw_broadcastedAt = None, sw_confirmedAt = None\<rparr>
      in (sweep, s\<lparr>uuidCount := Suc (uuidCount s),
                   sweepRecords := map_set (sw_sweepId sweep) sweep (sweepRecords s)\<rparr>))"

definition listSweepRecords :: "int \<Rightarrow> ledger \<Rightarrow> sweep_record list" where
  "listSweepRecords limit s = slice0 limit (sort_desc sw_createdAt (map_values (sweepRecords s)))"

definition listSweepRecordsByStatuses :: "sweep_status list \<Rightarrow> int \<Rightarrow> ledger \<Rightarrow> sweep_record list" where
  "listSweepRecordsByStatuses statuses limit s =
     slice0 limit (sort_desc sw_createdAt
       (filter (\<lambda>w. sw_status w \<in> set statuses) (map_values (sweepRecords s))))"

definition findSweepByExternalRef :: "string \<Rightarrow> ledger \<Rightarrow> sweep_record option" where
  "findSweepByExternalRef externalRef s =
     find (\<lambda>w. sw_externalRef w = Some externalRef) (map_values (sweepRecords s))"

text \<open>
  The shape of the five updates: look the sweep up, check its status, write it.  Each method below
  gives its own accepted statuses, error message and writes.
\<close>

definition update_sweep :: "string \<Rightarrow> sweep_status set \<Rightarrow> string \<Rightarrow> (sweep_record \<Rightarrow> sweep_record)
    \<Rightarrow> (ledger, sweep_record) act" where
  "update_sweep sweepId accepted msg f s =
     (case getMutableSweep sweepId s of
        Inl e \<Rightarrow> (Inl e, s)
      | Inr sweep \<Rightarrow>
          if sw_status sweep \<notin> accepted then (Inl (DomainError 409 ''INVALID_STATE'' msg), s)
          else (Inr (f sweep), s\<lparr>sweepRecords := map_set sweepId (f sweep) (sweepRecords s)\<rparr>))"

definition markSweepQueued :: "string \<Rightarrow> string option \<Rightarrow> string \<Rightarrow> (ledger, sweep_record) act" where
  "markSweepQueued sweepId note nowIso =
     update_sweep sweepId {SW_planned} ''sweep must be planned''
       (\<lambda>w. w\<lparr>sw_status := SW_queued, sw_note := coalesce_opt note (sw_note w),
              sw_queuedAt := coalesce_opt (sw_queuedAt w) (Some nowIso)\<rparr>)"

definition recordSweepAttempt :: "string \<Rightarrow> string option \<Rightarrow> string \<Rightarrow> (ledger, sweep_record) act" where
  "recordSweepAttempt sweepId note nowIso =
     update_sweep sweepId {SW_queued} ''sweep must be queued''
       (\<lambda>w. w\<lparr>sw_attemptCount := sw_attemptCount w + 1, sw_lastAttemptAt := Some nowIso,
              sw_note := coalesce_opt note (sw_note w)\<rparr>)"

definition markSweepBroadcasted :: "string \<Rightarrow> string \<Rightarrow> string option \<Rightarrow> string \<Rightarrow> (ledger, sweep_record) act" where
  "markSweepBroadcasted sweepId txHash note nowIso =
     update_sweep sweepId {SW_planned, SW_queued} ''sweep must be planned or queued''
       (\<lambda>w. w\<lparr>sw_status := SW_broadcasted, sw_txHash := Some txHash,
              sw_note := coalesce_opt note (sw_note w), sw_broadcastedAt := Some nowIso\<rparr>)"

text \<open>The argument of \<open>confirmSweep\<close>, with a bare string already read as a note.\<close>

record sweep_confirmation =
  sf_note :: "string option"
  sf_networkFee :: "network_fee option"

definition confirmSweep :: "string \<Rightarrow> sweep_confirmation option \<Rightarrow> string \<Rightarrow> (ledger, sweep_record) act" where
  "confirmSweep sweepId payload nowIso s =
     (case update_sweep sweepId {SW_planned, SW_broadcasted} ''sweep must be planned or broadcasted''
             (\<lambda>w. w\<lparr>sw_status := SW_confirmed,
                    sw_note := coalesce_opt (Option.bind payload sf_note) (sw_note w),
                    sw_confirmedAt := Some nowIso\<rparr>) s of
        (Inl e, s') \<Rightarrow> (Inl e, s')
      | (Inr sweep, s') \<Rightarrow>
          (Inr sweep,
           case Option.bind payload sf_networkFee of
             Some fee \<Rightarrow>
               if truthy (sw_txHash sweep)
               then record_fee (fee_key sweepId (the (sw_txHash sweep))) FR_sweep sweepId fee nowIso s'
               else s'
           | None \<Rightarrow> s'))"

definition failSweep :: "string \<Rightarrow> string \<Rightarrow> string \<Rightarrow> (ledger, sweep_record) act" where
  "failSweep sweepId reason nowIso =
     update_sweep sweepId {SW_planned, SW_queued, SW_broadcasted} ''sweep must be planned, queued or broadcasted''
       (\<lambda>w. w\<lparr>sw_status := SW_failed, sw_note := Some reason, sw_confirmedAt := Some nowIso\<rparr>)"

section \<open>Network fees\<close>

definition listNetworkFeeReceipts :: "fee_reference option \<Rightarrow> string option \<Rightarrow> int option \<Rightarrow> ledger
    \<Rightarrow> network_fee_receipt list" where
  "listNetworkFeeReceipts refType refId limit s =
     slice0 (coalesce limit 100) (sort_desc nf_createdAt
       (filter (\<lambda>r. matches_str refId (nf_referenceId r))
         (filter (\<lambda>r. matches refType (nf_referenceType r)) (map_values (networkFeeReceipts s)))))"

definition empty_by_reference :: fee_by_reference where
  "empty_by_reference = \<lparr>fr_ledgerFeeSun = 0, fr_actualFeeSun = 0, fr_ledgerFeeCount = 0, fr_actualFeeCount = 0\<rparr>"

definition ensureSnapshot :: "string \<Rightarrow> network_fee_snapshot jsmap \<Rightarrow> network_fee_snapshot" where
  "ensureSnapshot snapshotDate m =
     coalesce (map_get m snapshotDate)
       \<lparr>fs_snapshotDate = snapshotDate, fs_ledgerFeeSun = 0, fs_actualFeeSun = 0, fs_gapFeeSun = 0,
        fs_ledgerFeeCount = 0, fs_actualFeeCount = 0, fs_withdrawal = empty_by_reference,
        fs_sweep = empty_by_reference\<rparr>"

fun on_reference :: "fee_reference \<Rightarrow> (fee_by_reference \<Rightarrow> fee_by_reference) \<Rightarrow> network_fee_snapshot
    \<Rightarrow> network_fee_snapshot" where
  "on_reference FR_withdrawal f x = x\<lparr>fs_withdrawal := f (fs_withdrawal x)\<rparr>"
| "on_reference FR_sweep f x = x\<lparr>fs_sweep := f (fs_sweep x)\<rparr>"

definition add_actual :: "network_fee_snapshot jsmap \<Rightarrow> network_fee_receipt \<Rightarrow> network_fee_snapshot jsmap" where
  "add_actual m r =
     (let day = iso_day (nf_confirmedAt r); x = ensureSnapshot day m
      in map_set day
           (on_reference (nf_referenceType r)
              (\<lambda>b. b\<lparr>fr_actualFeeSun := fr_actualFeeSun b + nf_feeSun r,
                     fr_actualFeeCount := fr_actualFeeCount b + 1\<rparr>)
              (x\<lparr>fs_actualFeeSun := fs_actualFeeSun x + nf_feeSun r,
                 fs_actualFeeCount := fs_actualFeeCount x + 1\<rparr>)) m)"

definition add_journal :: "network_fee_snapshot jsmap \<Rightarrow> network_fee_journal \<Rightarrow> network_fee_snapshot jsmap" where
  "add_journal m j =
     (let day = nj_snapshotDate j; x = ensureSnapshot day m
      in map_set day
           (on_reference (nj_referenceType j)
              (\<lambda>b. b\<lparr>fr_ledgerFeeSun := fr_ledgerFeeSun b + nj_feeSun j,
                     fr_ledgerFeeCount := fr_ledgerFeeCount b + 1\<rparr>)
              (x\<lparr>fs_ledgerFeeSun := fs_ledgerFeeSun x + nj_feeSun j,
                 fs_ledgerFeeCount := fs_ledgerFeeCount x + 1\<rparr>)) m)"

definition listNetworkFeeDailySnapshots :: "int option \<Rightarrow> ledger \<Rightarrow> network_fee_snapshot list" where
  "listNetworkFeeDailySnapshots days s =
     (let dayLimit = coalesce days 7;
          actual = foldl add_actual [] (map_values (networkFeeReceipts s));
          both = foldl add_journal actual (map_values (networkFeeJournals s))
      in slice0 dayLimit (sort_desc fs_snapshotDate
           (map (\<lambda>x. x\<lparr>fs_gapFeeSun := fs_actualFeeSun x - fs_ledgerFeeSun x\<rparr>) (map_values both))))"

section \<open>Laws of the sweep updates\<close>

lemma update_sweep_cases:
  obtains (missing) "map_get (sweepRecords s) i = None"
      "update_sweep i acc msg f s = (Inl (DomainError 404 ''NOT_FOUND'' ''sweep not found''), s)"
  | (refused) w where "map_get (sweepRecords s) i = Some w" "sw_status w \<notin> acc"
      "update_sweep i acc msg f s = (Inl (DomainError 409 ''INVALID_STATE'' msg), s)"
  | (updated) w where "map_get (sweepRecords s) i = Some w" "sw_status w \<in> acc"
      "update_sweep i acc msg f s = (Inr (f w), s\<lparr>sweepRecords := map_set i (f w) (sweepRecords s)\<rparr>)"
  by (cases "map_get (sweepRecords s) i") (auto simp: update_sweep_def getMutableSweep_def)

lemma same_core_update_sweep [simp]: "same_core s (snd (update_sweep i acc msg f s))"
  by (rule update_sweep_cases [of s i acc msg f]) (simp_all add: same_core_def core_def)

lemma same_core_fee [simp]: "same_core s (record_fee k rt ri fee now t) = same_core s t"
  by (simp add: same_core_def core_def record_fee_def)

lemma same_core_sweeps [simp]:
  "same_core s (snd (createSweepRecord cfg inp now s))" "same_core s (snd (markSweepQueued i note now s))"
  "same_core s (snd (recordSweepAttempt i note now s))"
  "same_core s (snd (markSweepBroadcasted i h note now s))" "same_core s (snd (failSweep i reason now s))"
  by (simp_all add: createSweepRecord_def markSweepQueued_def recordSweepAttempt_def
      markSweepBroadcasted_def failSweep_def Let_def)
    (simp add: same_core_def core_def)

lemma same_core_confirmSweep [simp]: "same_core s (snd (confirmSweep i p now s))"
proof -
  obtain r t where u: "update_sweep i {SW_planned, SW_broadcasted} ''sweep must be planned or broadcasted''
      (\<lambda>w. w\<lparr>sw_status := SW_confirmed, sw_note := coalesce_opt (Option.bind p sf_note) (sw_note w),
             sw_confirmedAt := Some now\<rparr>) s = (r, t)" (is "?u = _") by (cases ?u)
  have "same_core s (snd ?u)" by (rule same_core_update_sweep)
  then have "same_core s t" unfolding u by simp
  then show ?thesis by (simp add: confirmSweep_def u split: sum.split option.split)
qed

end
