(* ===== verification/LedgerOutbox.thy ===== *)
theory LedgerOutbox
  imports LedgerState
begin

text \<open>
  The transactional outbox of \<open>InMemoryLedger\<close>: claiming, publishing, retrying, dead-lettering,
  replaying and acknowledging events.  Timestamps are compared as strings, as the code compares them.
\<close>

section \<open>Operations\<close>

definition claim_event :: "string \<Rightarrow> outbox_event \<Rightarrow> outbox_event" where
  "claim_event nowIso e =
     e\<lparr>ob_status := OB_processing, ob_attempts := ob_attempts e + 1, ob_processingStartedAt := Some nowIso\<rparr>"

definition claimed_entries :: "int \<Rightarrow> string \<Rightarrow> ledger \<Rightarrow> outbox_event jsmap" where
  "claimed_entries limit nowIso s =
     slice0 limit (sort_asc (\<lambda>x. ob_createdAt (snd x))
       (filter (\<lambda>x. ob_status (snd x) = OB_pending \<and> ob_availableAt (snd x) \<le> nowIso) (outboxEvents s)))"

definition claimPendingOutboxEvents :: "int \<Rightarrow> string \<Rightarrow> ledger \<Rightarrow> outbox_event list \<times> ledger" where
  "claimPendingOutboxEvents limit nowIso s =
     (let claimed = claimed_entries limit nowIso s
      in (map (\<lambda>x. claim_event nowIso (snd x)) claimed,
          s\<lparr>outboxEvents := write_entries (map fst claimed) (claim_event nowIso) (outboxEvents s)\<rparr>))"

definition publish_event :: "string \<Rightarrow> outbox_event \<Rightarrow> outbox_event" where
  "publish_event nowIso e =
     e\<lparr>ob_status := OB_published, ob_processingStartedAt := None, ob_publishedAt := Some nowIso,
       ob_deadLetteredAt := None, ob_lastError := None\<rparr>"

definition reschedule_event :: "string \<Rightarrow> string \<Rightarrow> outbox_event \<Rightarrow> outbox_event" where
  "reschedule_event err availableAt e =
     e\<lparr>ob_status := OB_pending, ob_availableAt := availableAt, ob_processingStartedAt := None,
       ob_lastError := Some err\<rparr>"

definition dead_letter_event :: "string \<Rightarrow> string \<Rightarrow> outbox_event \<Rightarrow> outbox_event" where
  "dead_letter_event err deadLetteredAt e =
     e\<lparr>ob_status := OB_dead_lettered, ob_processingStartedAt := None,
       ob_deadLetteredAt := Some deadLetteredAt, ob_deadLetterAcknowledgedAt := None,
       ob_deadLetterAcknowledgedBy := None, ob_deadLetterNote := None, ob_deadLetterCategory := None,
       ob_incidentRef := None, ob_lastError := Some err\<rparr>"

text \<open>The three \<open>mark\<close> methods look the event up and return silently when it is missing.\<close>

definition update_event :: "string \<Rightarrow> (outbox_event \<Rightarrow> outbox_event) \<Rightarrow> ledger \<Rightarrow> ledger" where
  "update_event outboxEventId f s =
     (case map_get (outboxEvents s) outboxEventId of
        None \<Rightarrow> s
      | Some e \<Rightarrow> s\<lparr>outboxEvents := map_set outboxEventId (f e) (outboxEvents s)\<rparr>)"

definition markOutboxEventPublished :: "string \<Rightarrow> string \<Rightarrow> ledger \<Rightarrow> ledger" where
  "markOutboxEventPublished outboxEventId nowIso s = update_event outboxEventId (publish_event nowIso) s"

definition rescheduleOutboxEvent :: "string \<Rightarrow> string \<Rightarrow> string \<Rightarrow> ledger \<Rightarrow> ledger" where
  "rescheduleOutboxEvent outboxEventId err availableAt s =
     update_event outboxEventId (reschedule_event err availableAt) s"

definition deadLetterOutboxEvent :: "string \<Rightarrow> string \<Rightarrow> string \<Rightarrow> ledger \<Rightarrow> ledger" where
  "deadLetterOutboxEvent outboxEventId err deadLetteredAt s =
     update_event outboxEventId (dead_letter_event err deadLetteredAt) s"

definition listOutboxEvents :: "outbox_status option \<Rightarrow> int option \<Rightarrow> ledger \<Rightarrow> outbox_event list" where
  "listOutboxEvents status limit s =
     slice0 (coalesce limit 100) (sort_desc ob_createdAt
       (filter (\<lambda>e. matches status (ob_status e)) (map_values (outboxEvents s))))"

definition first_of :: "'a list \<Rightarrow> 'a option" where
  "first_of xs = (case xs of [] \<Rightarrow> None | x # _ \<Rightarrow> Some x)"

definition getOutboxEventSummary :: "ledger \<Rightarrow> outbox_summary" where
  "getOutboxEventSummary s =
     (let events = map_values (outboxEvents s);
          count = (\<lambda>P. length (filter P events))
      in \<lparr>os_pendingCount = count (\<lambda>e. ob_status e = OB_pending),
          os_processingCount = count (\<lambda>e. ob_status e = OB_processing),
          os_publishedCount = count (\<lambda>e. ob_status e = OB_published),
          os_deadLetteredCount = count (\<lambda>e. ob_status e = OB_dead_lettered),
          os_deadLetterAcknowledgedCount =
            count (\<lambda>e. ob_status e = OB_dead_lettered \<and> truthy (ob_deadLetterAcknowledgedAt e)),
          os_deadLetterUnacknowledgedCount =
            count (\<lambda>e. ob_status e = OB_dead_lettered \<and> \<not> truthy (ob_deadLetterAcknowledgedAt e)),
          os_oldestPendingCreatedAt =
            map_option ob_createdAt (first_of (sort_asc ob_createdAt
              (filter (\<lambda>e. ob_status e = OB_pending) events))),
          os_oldestDeadLetteredAt =
            Option.bind (first_of (sort_asc (\<lambda>e. coalesce (ob_deadLetteredAt e) '''')
              (filter (\<lambda>e. ob_status e = OB_dead_lettered) events))) ob_deadLetteredAt\<rparr>)"

text \<open>\<open>input.limit ?? (idSet?.size ?? 100)\<close>.\<close>

definition selection_limit :: "int option \<Rightarrow> string list option \<Rightarrow> int" where
  "selection_limit limit ids =
     coalesce limit (case ids of Some xs \<Rightarrow> int (card (set xs)) | None \<Rightarrow> 100)"

definition replay_event :: "string \<Rightarrow> outbox_event \<Rightarrow> outbox_event" where
  "replay_event nowIso e =
     e\<lparr>ob_status := OB_pending, ob_availableAt := nowIso, ob_processingStartedAt := None,
       ob_deadLetteredAt := None, ob_deadLetterAcknowledgedAt := None, ob_deadLetterAcknowledgedBy := None,
       ob_deadLetterNote := None, ob_deadLetterCategory := None, ob_incidentRef := None\<rparr>"

definition replayOutboxEvents :: "string list option \<Rightarrow> outbox_status option \<Rightarrow> int option \<Rightarrow> string \<Rightarrow> ledger
    \<Rightarrow> nat \<times> ledger" where
  "replayOutboxEvents ids status limit nowIso s =
     (let candidates = slice0 (selection_limit limit ids) (sort_asc (\<lambda>x. ob_createdAt (snd x))
            (filter (\<lambda>x. case ids of Some xs \<Rightarrow> ob_outboxEventId (snd x) \<in> set xs | None \<Rightarrow> True)
              (filter (\<lambda>x. matches status (ob_status (snd x))) (outboxEvents s))))
      in (length candidates,
          s\<lparr>outboxEvents := write_entries (map fst candidates) (replay_event nowIso) (outboxEvents s)\<rparr>))"

definition recover_event :: "string \<Rightarrow> outbox_event \<Rightarrow> outbox_event" where
  "recover_event nowIso e =
     e\<lparr>ob_status := OB_pending, ob_availableAt := nowIso, ob_processingStartedAt := None,
       ob_lastError := coalesce_opt (ob_lastError e) (Some ''processing timeout recovered'')\<rparr>"

definition stale_event :: "string \<Rightarrow> outbox_event \<Rightarrow> bool" where
  "stale_event threshold e =
     (ob_status e = OB_processing \<and> truthy (ob_processingStartedAt e) \<and>
      the (ob_processingStartedAt e) \<le> threshold)"

text \<open>An unparsable clock makes \<open>toISOString\<close> throw before the lock is taken.\<close>

definition recoverStaleProcessingOutboxEvents :: "int \<Rightarrow> string \<Rightarrow> (ledger, nat) act" where
  "recoverStaleProcessingOutboxEvents timeoutSec nowIso s =
     (case date_parse nowIso of
        None \<Rightarrow> (Inl (RangeError ''Invalid time value''), s)
      | Some now \<Rightarrow>
          let threshold = toISOString (now - timeoutSec * 1000);
              candidates = filter (\<lambda>x. stale_event threshold (snd x)) (outboxEvents s)
          in (Inr (length candidates),
              s\<lparr>outboxEvents := write_entries (map fst candidates) (recover_event nowIso) (outboxEvents s)\<rparr>))"

record acknowledge_input =
  ak_outboxEventIds :: "string list option"
  ak_limit :: "int option"
  ak_actorId :: string
  ak_note :: "string option"
  ak_category :: "dead_letter_category option"
  ak_incidentRef :: "string option"

definition acknowledge_event :: "acknowledge_input \<Rightarrow> string \<Rightarrow> outbox_event \<Rightarrow> outbox_event" where
  "acknowledge_event inp nowIso e =
     e\<lparr>ob_deadLetterAcknowledgedAt := Some nowIso, ob_deadLetterAcknowledgedBy := Some (ak_actorId inp),
       ob_deadLetterNote := ak_note inp, ob_deadLetterCategory := ak_category inp,
       ob_incidentRef := ak_incidentRef inp\<rparr>"

definition acknowledgeDeadLetterOutboxEvents :: "acknowledge_input \<Rightarrow> string \<Rightarrow> ledger \<Rightarrow> nat \<times> ledger" where
  "acknowledgeDeadLetterOutboxEvents inp nowIso s =
     (let candidates = slice0 (selection_limit (ak_limit inp) (ak_outboxEventIds inp))
            (sort_asc (\<lambda>x. ob_createdAt (snd x))
              (filter (\<lambda>x. case ak_outboxEventIds inp of
                             Some xs \<Rightarrow> ob_outboxEventId (snd x) \<in> set xs | None \<Rightarrow> True)
                (filter (\<lambda>x. \<not> truthy (ob_deadLetterAcknowledgedAt (snd x)))
                  (filter (\<lambda>x. ob_status (snd x) = OB_dead_lettered) (outboxEvents s)))))
      in (length candidates,
          s\<lparr>outboxEvents := write_entries (map fst candidates) (acknowledge_event inp nowIso)
                              (outboxEvents s)\<rparr>))"

section \<open>Laws\<close>

named_theorems outbox_defs "the outbox operations"

declare claimPendingOutboxEvents_def [outbox_defs] markOutboxEventPublished_def [outbox_defs]
  rescheduleOutboxEvent_def [outbox_defs] deadLetterOutboxEvent_def [outbox_defs]
  replayOutboxEvents_def [outbox_defs] recoverStaleProcessingOutboxEvents_def [outbox_defs]
  acknowledgeDeadLetterOutboxEvents_def [outbox_defs] Let_def [outbox_defs]

lemma update_event_get [simp]:
  "map_get (outboxEvents (update_event i f s)) j
     = (if j = i then map_option f (map_get (outboxEvents s) i) else map_get (outboxEvents s) j)"
  by (auto simp: update_event_def split: option.split)

lemma same_core_update_event [simp]: "same_core s (update_event i f s)"
  by (simp add: update_event_def same_core_def core_def split: option.split)

lemma same_core_outbox [simp]:
  "same_core s (snd (claimPendingOutboxEvents n now s))" "same_core s (markOutboxEventPublished i now s)"
  "same_core s (rescheduleOutboxEvent i err av s)" "same_core s (deadLetterOutboxEvent i err av s)"
  "same_core s (snd (replayOutboxEvents ids st lm now s))"
  "same_core s (snd (recoverStaleProcessingOutboxEvents tmo now s))"
  "same_core s (snd (acknowledgeDeadLetterOutboxEvents inp now s))"
  by (simp_all add: outbox_defs split: option.split) (simp_all add: same_core_def core_def)

text \<open>Every event is stored under its own id.\<close>

definition outbox_ok :: "ledger \<Rightarrow> bool" where
  "outbox_ok s =
     (map_wf (outboxEvents s) \<and> (\<forall>i e. map_get (outboxEvents s) i = Some e \<longrightarrow> ob_outboxEventId e = i))"

lemma event_steps_id [simp]:
  "ob_outboxEventId (claim_event now e) = ob_outboxEventId e"
  "ob_outboxEventId (publish_event now e) = ob_outboxEventId e"
  "ob_outboxEventId (reschedule_event err av e) = ob_outboxEventId e"
  "ob_outboxEventId (dead_letter_event err av e) = ob_outboxEventId e"
  "ob_outboxEventId (replay_event now e) = ob_outboxEventId e"
  "ob_outboxEventId (recover_event now e) = ob_outboxEventId e"
  "ob_outboxEventId (acknowledge_event inp now e) = ob_outboxEventId e"
  by (simp_all add: claim_event_def publish_event_def reschedule_event_def dead_letter_event_def
      replay_event_def recover_event_def acknowledge_event_def)

text \<open>What a claim returns and what it writes.\<close>

lemma claimed_entry:
  assumes ok: "outbox_ok s" and x: "x \<in> set (claimed_entries n now s)"
  shows "map_get (outboxEvents s) (fst x) = Some (snd x)" "ob_outboxEventId (snd x) = fst x"
    "ob_status (snd x) = OB_pending" "ob_availableAt (snd x) \<le> now"
proof -
  note sel = selected_entry [OF x [unfolded claimed_entries_def]]
  show g: "map_get (outboxEvents s) (fst x) = Some (snd x)"
    using sel(1) ok by (intro map_get_entry) (simp_all add: outbox_ok_def)
  then show "ob_outboxEventId (snd x) = fst x" using ok by (simp add: outbox_ok_def)
  show "ob_status (snd x) = OB_pending" "ob_availableAt (snd x) \<le> now" using sel(2) by simp_all
qed

lemma claimed_event:
  assumes ok: "outbox_ok s" and c: "claimPendingOutboxEvents n now s = (es, t)" and e: "e \<in> set es"
  obtains e0 where "map_get (outboxEvents s) (ob_outboxEventId e) = Some e0" "ob_status e0 = OB_pending"
    "ob_availableAt e0 \<le> now" "e = claim_event now e0"
    "map_get (outboxEvents t) (ob_outboxEventId e) = Some e"
proof -
  from c e obtain x where x: "x \<in> set (claimed_entries n now s)" and e': "e = claim_event now (snd x)"
    by (auto simp: claimPendingOutboxEvents_def Let_def)
  note X = claimed_entry [OF ok x]
  have t: "outboxEvents t = write_entries (map fst (claimed_entries n now s)) (claim_event now) (outboxEvents s)"
    using c by (auto simp: claimPendingOutboxEvents_def Let_def)
  have "fst x \<in> set (map fst (claimed_entries n now s))" unfolding set_map by (rule imageI) (rule x)
  then have "map_get (outboxEvents t) (fst x) = Some e"
    using X(1) e' by (simp only: t map_get_write_entries if_True option.map)
  then show ?thesis using that [of "snd x"] X e' by simp
qed

lemma claimed_ids:
  assumes ok: "outbox_ok s" and c: "claimPendingOutboxEvents n now s = (es, t)"
  shows "map ob_outboxEventId es = map fst (claimed_entries n now s)"
  using c claimed_entry(2) [OF ok] by (auto simp: claimPendingOutboxEvents_def Let_def)

lemma claimed_ids_distinct:
  assumes "outbox_ok s" and "claimPendingOutboxEvents n now s = (es, t)"
  shows "distinct (map ob_outboxEventId es)"
  using assms(1) unfolding claimed_ids [OF assms] claimed_entries_def
  by (intro distinct_selected) (simp add: outbox_ok_def)

lemma unclaimed_event:
  assumes "outbox_ok s" and "claimPendingOutboxEvents n now s = (es, t)"
    and "i \<notin> ob_outboxEventId ` set es"
  shows "map_get (outboxEvents t) i = map_get (outboxEvents s) i"
proof -
  have "ob_outboxEventId ` set es = set (map fst (claimed_entries n now s))"
    using claimed_ids [OF assms(1,2)] by (metis set_map)
  with assms(2,3) show ?thesis by (auto simp: claimPendingOutboxEvents_def Let_def)
qed

lemma outbox_ok_write:
  assumes "outbox_ok s" and "outboxEvents t = write_entries ks f (outboxEvents s)"
    and "\<And>e. ob_outboxEventId (f e) = ob_outboxEventId e"
  shows "outbox_ok t"
  using assms by (auto simp: outbox_ok_def split: if_splits)

lemma outbox_ok_update [simp]:
  assumes "outbox_ok s" and "\<And>e. ob_outboxEventId (f e) = ob_outboxEventId e"
  shows "outbox_ok (update_event i f s)"
  using assms by (auto simp: outbox_ok_def update_event_def split: option.splits if_splits)

lemma outbox_ok_ops [simp]:
  assumes "outbox_ok s"
  shows "outbox_ok (snd (claimPendingOutboxEvents n now s))" "outbox_ok (markOutboxEventPublished i now s)"
    "outbox_ok (rescheduleOutboxEvent i err av s)" "outbox_ok (deadLetterOutboxEvent i err av s)"
    "outbox_ok (snd (replayOutboxEvents ids st lm now s))"
    "outbox_ok (snd (recoverStaleProcessingOutboxEvents tmo now s))"
    "outbox_ok (snd (acknowledgeDeadLetterOutboxEvents inp now s))"
  using assms by (auto simp: outbox_defs intro: outbox_ok_write split: option.split)

end
