(* ===== verification/LedgerConsumers.thy ===== *)
theory LedgerConsumers
  imports LedgerState
begin

text \<open>
  The bookkeeping of event consumers in \<open>InMemoryLedger\<close>: one attempt record per execution, dead
  letters, and a checkpoint per consumer and event that remembers the last outcome.
\<close>

record attempt_input =
  at_eventKey :: string
  at_eventType :: string
  at_consumerName :: string
  at_status :: attempt_status
  at_attemptNumber :: int
  at_aggregateId :: "string option"
  at_errorMessage :: "string option"
  at_durationMs :: int

definition appendEventConsumerAttempt :: "ledger_cfg \<Rightarrow> attempt_input \<Rightarrow> string \<Rightarrow> ledger \<Rightarrow> ledger" where
  "appendEventConsumerAttempt cfg inp nowIso s =
     (let attempt = \<lparr>ca_attemptId = uuid cfg (uuidCount s), ca_eventKey = at_eventKey inp,
            ca_eventType = at_eventType inp, ca_consumerName = at_consumerName inp,
            ca_status = at_status inp, ca_attemptNumber = at_attemptNumber inp,
            ca_aggregateId = at_aggregateId inp, ca_errorMessage = at_errorMessage inp,
            ca_durationMs = at_durationMs inp, ca_createdAt = nowIso\<rparr>
      in s\<lparr>uuidCount := Suc (uuidCount s),
           eventConsumerAttempts := map_set (ca_attemptId attempt) attempt (eventConsumerAttempts s)\<rparr>)"

record dead_letter_input =
  dl_eventKey :: string
  dl_eventType :: string
  dl_consumerName :: string
  dl_aggregateId :: "string option"
  dl_payload :: "(string \<times> jsval) list"
  dl_errorMessage :: string

definition appendEventConsumerDeadLetter :: "ledger_cfg \<Rightarrow> dead_letter_input \<Rightarrow> string \<Rightarrow> ledger \<Rightarrow> ledger" where
  "appendEventConsumerDeadLetter cfg inp nowIso s =
     (let deadLetter = \<lparr>cd_deadLetterId = uuid cfg (uuidCount s), cd_eventKey = dl_eventKey inp,
            cd_eventType = dl_eventType inp, cd_consumerName = dl_consumerName inp,
            cd_aggregateId = dl_aggregateId inp, cd_payload = dl_payload inp,
            cd_errorMessage = dl_errorMessage inp, cd_failedAt = nowIso\<rparr>
      in s\<lparr>uuidCount := Suc (uuidCount s),
           eventConsumerDeadLetters :=
             map_set (cd_deadLetterId deadLetter) deadLetter (eventConsumerDeadLetters s)\<rparr>)"

definition listEventConsumerAttempts :: "string option \<Rightarrow> string option \<Rightarrow> attempt_status option \<Rightarrow> int option
    \<Rightarrow> ledger \<Rightarrow> consumer_attempt list" where
  "listEventConsumerAttempts consumerName eventType status limit s =
     slice0 (coalesce limit 100) (sort_desc ca_createdAt
       (filter (\<lambda>x. matches status (ca_status x))
         (filter (\<lambda>x. matches_str eventType (ca_eventType x))
           (filter (\<lambda>x. matches_str consumerName (ca_consumerName x)) (map_values (eventConsumerAttempts s))))))"

definition listEventConsumerDeadLetters :: "string option \<Rightarrow> string option \<Rightarrow> int option
    \<Rightarrow> ledger \<Rightarrow> consumer_dead_letter list" where
  "listEventConsumerDeadLetters consumerName eventType limit s =
     slice0 (coalesce limit 100) (sort_desc cd_failedAt
       (filter (\<lambda>x. matches_str eventType (cd_eventType x))
         (filter (\<lambda>x. matches_str consumerName (cd_consumerName x)) (map_values (eventConsumerDeadLetters s)))))"

definition checkpoint_key :: "string \<Rightarrow> string \<Rightarrow> string" where
  "checkpoint_key consumerName eventKey = consumerName @ '':'' @ eventKey"

definition hasSucceededEventConsumerCheckpoint :: "string \<Rightarrow> string \<Rightarrow> ledger \<Rightarrow> bool" where
  "hasSucceededEventConsumerCheckpoint consumerName eventKey s =
     (map_option cc_lastStatus (map_get (eventConsumerCheckpoints s) (checkpoint_key consumerName eventKey))
        = Some CS_succeeded)"

definition upsertEventConsumerCheckpoint :: "string \<Rightarrow> string \<Rightarrow> string \<Rightarrow> string option \<Rightarrow> checkpoint_status
    \<Rightarrow> string \<Rightarrow> ledger \<Rightarrow> ledger" where
  "upsertEventConsumerCheckpoint consumerName eventKey eventType aggregateId lastStatus nowIso s =
     (let key = checkpoint_key consumerName eventKey;
          existing = map_get (eventConsumerCheckpoints s) key
      in s\<lparr>eventConsumerCheckpoints := map_set key
             \<lparr>cc_consumerName = consumerName, cc_eventKey = eventKey, cc_eventType = eventType,
              cc_aggregateId = aggregateId, cc_lastStatus = lastStatus,
              cc_firstProcessedAt = coalesce (map_option cc_firstProcessedAt existing) nowIso,
              cc_lastProcessedAt = nowIso\<rparr>
             (eventConsumerCheckpoints s)\<rparr>)"

section \<open>Laws\<close>

lemma same_core_consumers [simp]:
  "same_core s (appendEventConsumerAttempt cfg a now s)"
  "same_core s (appendEventConsumerDeadLetter cfg d now s)"
  "same_core s (upsertEventConsumerCheckpoint c k ty ag st now s)"
  by (simp_all add: same_core_def core_def appendEventConsumerAttempt_def appendEventConsumerDeadLetter_def
      upsertEventConsumerCheckpoint_def Let_def)

lemma hasSucceeded_upsert [simp]:
  "hasSucceededEventConsumerCheckpoint c k (upsertEventConsumerCheckpoint c k ty ag st now s) = (st = CS_succeeded)"
  by (simp add: hasSucceededEventConsumerCheckpoint_def upsertEventConsumerCheckpoint_def Let_def)

lemma hasSucceeded_append [simp]:
  "hasSucceededEventConsumerCheckpoint c k (appendEventConsumerAttempt cfg a now s)
     = hasSucceededEventConsumerCheckpoint c k s"
  "hasSucceededEventConsumerCheckpoint c k (appendEventConsumerDeadLetter cfg d now s)
     = hasSucceededEventConsumerCheckpoint c k s"
  by (simp_all add: hasSucceededEventConsumerCheckpoint_def appendEventConsumerAttempt_def
      appendEventConsumerDeadLetter_def Let_def)

text \<open>
  The attempts and dead letters of a consumer for an event, in the order they were made.  An append
  adds one at the end, as long as \<open>randomUUID\<close> does not repeat a stored id.
\<close>

definition attempts_of :: "string \<Rightarrow> string \<Rightarrow> ledger \<Rightarrow> (attempt_status \<times> int) list" where
  "attempts_of c k s =
     map (\<lambda>a. (ca_status a, ca_attemptNumber a))
       (filter (\<lambda>a. ca_consumerName a = c \<and> ca_eventKey a = k) (map_values (eventConsumerAttempts s)))"

definition dead_letters_of :: "string \<Rightarrow> string \<Rightarrow> ledger \<Rightarrow> consumer_dead_letter list" where
  "dead_letters_of c k s =
     filter (\<lambda>d. cd_consumerName d = c \<and> cd_eventKey d = k) (map_values (eventConsumerDeadLetters s))"

definition consumer_ids_ok :: "ledger_cfg \<Rightarrow> ledger \<Rightarrow> bool" where
  "consumer_ids_ok cfg s =
     (map_keys (eventConsumerAttempts s) \<union> map_keys (eventConsumerDeadLetters s)
        \<subseteq> uuid cfg ` {..<uuidCount s})"

lemma fresh_consumer_id:
  assumes "consumer_ids_ok cfg s" and "inj (uuid cfg)"
  shows "map_get (eventConsumerAttempts s) (uuid cfg (uuidCount s)) = None"
    "map_get (eventConsumerDeadLetters s) (uuid cfg (uuidCount s)) = None"
proof -
  have "uuid cfg (uuidCount s) \<notin> uuid cfg ` {..<uuidCount s}"
    using assms(2) by (auto dest: injD)
  with assms(1) have "uuid cfg (uuidCount s) \<notin> map_keys (eventConsumerAttempts s)"
      "uuid cfg (uuidCount s) \<notin> map_keys (eventConsumerDeadLetters s)"
    by (auto simp: consumer_ids_ok_def)
  then show "map_get (eventConsumerAttempts s) (uuid cfg (uuidCount s)) = None"
    "map_get (eventConsumerDeadLetters s) (uuid cfg (uuidCount s)) = None"
    by (simp_all add: map_keys_get)
qed

lemma attempts_of_append:
  assumes "consumer_ids_ok cfg s" and "inj (uuid cfg)"
  shows "attempts_of c k (appendEventConsumerAttempt cfg a now s)
    = attempts_of c k s @ (if at_consumerName a = c \<and> at_eventKey a = k
                           then [(at_status a, at_attemptNumber a)] else [])"
  using fresh_consumer_id(1) [OF assms]
  by (simp add: attempts_of_def appendEventConsumerAttempt_def Let_def map_set_new map_values_def)

lemma attempts_of_other [simp]:
  "attempts_of c k (appendEventConsumerDeadLetter cfg d now s) = attempts_of c k s"
  "attempts_of c k (upsertEventConsumerCheckpoint c' k' ty ag st now s) = attempts_of c k s"
  by (simp_all add: attempts_of_def appendEventConsumerDeadLetter_def upsertEventConsumerCheckpoint_def Let_def)

lemma dead_letters_of_other [simp]:
  "dead_letters_of c k (appendEventConsumerAttempt cfg a now s) = dead_letters_of c k s"
  "dead_letters_of c k (upsertEventConsumerCheckpoint c' k' ty ag st now s) = dead_letters_of c k s"
  by (simp_all add: dead_letters_of_def appendEventConsumerAttempt_def upsertEventConsumerCheckpoint_def Let_def)

lemma length_dead_letters_append:
  assumes "consumer_ids_ok cfg s" and "inj (uuid cfg)"
  shows "length (dead_letters_of c k (appendEventConsumerDeadLetter cfg d now s))
    = length (dead_letters_of c k s) + (if dl_consumerName d = c \<and> dl_eventKey d = k then 1 else 0)"
  using fresh_consumer_id(2) [OF assms]
  by (simp add: dead_letters_of_def appendEventConsumerDeadLetter_def Let_def map_set_new map_values_def)

lemma consumer_ids_ok_ops [simp]:
  assumes "consumer_ids_ok cfg s"
  shows "consumer_ids_ok cfg (appendEventConsumerAttempt cfg a now s)"
    "consumer_ids_ok cfg (appendEventConsumerDeadLetter cfg d now s)"
    "consumer_ids_ok cfg (upsertEventConsumerCheckpoint c k ty ag st now s)"
  using assms by (auto simp: consumer_ids_ok_def appendEventConsumerAttempt_def
      appendEventConsumerDeadLetter_def upsertEventConsumerCheckpoint_def Let_def lessThan_Suc)

end
