(* ===== verification/LedgerMachine.thy ===== *)
theory LedgerMachine
  imports WithdrawalTransitions LedgerJobs LedgerSweeps LedgerOutbox LedgerConsumers
begin

text \<open>
  The ledger as a state machine: one rule per method that changes state, run one at a time because
  \<open>withLock\<close> serialises them.  Every reachable state satisfies the ledger invariant, and the life
  of a withdrawal follows the edges of \<open>status_edge\<close>.  Amounts are non-negative, which is what
  \<open>parseKoriAmount\<close> guarantees of the values the services pass in (\<open>Money.parseKoriAmount_nonneg\<close>).
\<close>

section \<open>The machine\<close>

inductive ledger_step :: "ledger_cfg \<Rightarrow> ledger \<Rightarrow> ledger \<Rightarrow> bool" for cfg where
  step_getAccount: "ledger_step cfg s (snd (getAccount u now s))"
| step_getAccountByWalletAddress: "ledger_step cfg s (snd (getAccountByWalletAddress a now s))"
| step_bindWalletAddress: "u \<noteq> '''' \<Longrightarrow> ledger_step cfg s (snd (bindWalletAddress u a now s))"
| step_applyDeposit: "0 \<le> di_amount dinp \<Longrightarrow> ledger_step cfg s (snd (applyDeposit cfg dinp now s))"
| step_completeDeposit: "ledger_step cfg s (snd (completeDeposit i s))"
| step_applyExternalCredit: "ledger_step cfg s (snd (applyExternalCredit cinp now s))"
| step_transfer: "0 \<le> amount \<Longrightarrow> ledger_step cfg s (snd (transfer cfg f g amount key now s))"
| step_request: "0 \<le> wi_amount winp \<Longrightarrow> ledger_step cfg s (snd (requestWithdrawal cfg winp now s))"
| step_externalAuth: "ledger_step cfg s (snd (confirmWithdrawalExternalAuth cfg i p r now s))"
| step_review: "ledger_step cfg s (snd (markWithdrawalReviewRequired i now s))"
| step_approve: "ledger_step cfg s (snd (approveWithdrawal cfg i ainp now s))"
| step_broadcast: "ledger_step cfg s (snd (broadcastWithdrawal cfg i h now s))"
| step_confirm: "ledger_step cfg s (snd (confirmWithdrawal cfg i fee now s))"
| step_fail: "ledger_step cfg s (snd (failWithdrawal cfg i reason now s))"
| step_enqueueJob: "ledger_step cfg s (snd (enqueueJob cfg ty p' now s))"
| step_claimPendingJobs: "ledger_step cfg s (snd (claimPendingJobs tys n s))"
| step_markJobDone: "ledger_step cfg s (markJobDone i s)"
| step_markJobFailed: "ledger_step cfg s (markJobFailed i s)"
| step_retryJob: "ledger_step cfg s (snd (retryJob i s))"
| step_appendAuditLog: "ledger_step cfg s (snd (appendAuditLog cfg auinp now s))"
| step_createSweepRecord: "ledger_step cfg s (snd (createSweepRecord cfg sinp now s))"
| step_markSweepQueued: "ledger_step cfg s (snd (markSweepQueued i note now s))"
| step_recordSweepAttempt: "ledger_step cfg s (snd (recordSweepAttempt i note now s))"
| step_markSweepBroadcasted: "ledger_step cfg s (snd (markSweepBroadcasted i h note now s))"
| step_confirmSweep: "ledger_step cfg s (snd (confirmSweep i sc now s))"
| step_failSweep: "ledger_step cfg s (snd (failSweep i reason now s))"
| step_claimOutbox: "ledger_step cfg s (snd (claimPendingOutboxEvents n now s))"
| step_publishedOutbox: "ledger_step cfg s (markOutboxEventPublished i now s)"
| step_rescheduleOutbox: "ledger_step cfg s (rescheduleOutboxEvent i err av s)"
| step_deadLetterOutbox: "ledger_step cfg s (deadLetterOutboxEvent i err av s)"
| step_replayOutbox: "ledger_step cfg s (snd (replayOutboxEvents ids st lm now s))"
| step_recoverOutbox: "ledger_step cfg s (snd (recoverStaleProcessingOutboxEvents tmo now s))"
| step_acknowledgeOutbox: "ledger_step cfg s (snd (acknowledgeDeadLetterOutboxEvents akinp now s))"
| step_consumerAttempt: "ledger_step cfg s (appendEventConsumerAttempt cfg atinp now s)"
| step_consumerDeadLetter: "ledger_step cfg s (appendEventConsumerDeadLetter cfg dlinp now s)"
| step_consumerCheckpoint: "ledger_step cfg s (upsertEventConsumerCheckpoint c k et ag cst now s)"

lemmas core_steps = same_core_jobs same_core_sweeps same_core_confirmSweep same_core_outbox same_core_consumers

lemmas inv_steps = ledger_inv_getAccount ledger_inv_getAccountByWalletAddress ledger_inv_bind
  ledger_inv_applyDeposit ledger_inv_completeDeposit ledger_inv_applyExternalCredit ledger_inv_transfer
  ledger_inv_request ledger_inv_externalAuth ledger_inv_review ledger_inv_approve ledger_inv_broadcast
  ledger_inv_confirm ledger_inv_fail

lemma ledger_inv_step:
  assumes "ledger_step cfg s t" and "uuid_ok cfg" and "ledger_inv cfg s"
  shows "ledger_inv cfg t"
  using assms by cases
    (blast intro: inv_steps core_steps ledger_inv_same_core)+

interpretation lm: invariant_system "\<lambda>s. s = empty_ledger"
    "\<lambda>s t. uuid_ok cfg \<and> ledger_step cfg s t" "ledger_inv cfg" for cfg
  by unfold_locales (auto intro: ledger_inv_empty ledger_inv_step)

definition ledger_steps :: "ledger_cfg \<Rightarrow> ledger \<Rightarrow> ledger \<Rightarrow> bool" where
  "ledger_steps cfg = (ledger_step cfg)\<^sup>*\<^sup>*"

lemma ledger_steps_trans: "ledger_steps cfg s t \<Longrightarrow> ledger_steps cfg t u \<Longrightarrow> ledger_steps cfg s u"
  unfolding ledger_steps_def by (rule rtranclp_trans)

definition reachable_ledger :: "ledger_cfg \<Rightarrow> ledger \<Rightarrow> bool" where
  "reachable_ledger cfg s = (uuid_ok cfg \<and> ledger_steps cfg empty_ledger s)"

lemma reachable_inv: "reachable_ledger cfg s \<Longrightarrow> ledger_inv cfg s"
  using lm.inv_reachable [OF refl, of cfg s] by (auto simp: reachable_ledger_def ledger_steps_def)

lemma reachable_step: "reachable_ledger cfg s \<Longrightarrow> ledger_step cfg s t \<Longrightarrow> reachable_ledger cfg t"
  by (auto simp: reachable_ledger_def ledger_steps_def intro: rtranclp.rtrancl_into_rtrancl)

lemma reachable_uuid: "reachable_ledger cfg s \<Longrightarrow> uuid_ok cfg"
  by (simp add: reachable_ledger_def)

section \<open>The life of a withdrawal\<close>

inductive status_edge :: "withdrawal_status \<Rightarrow> withdrawal_status \<Rightarrow> bool" where
  edge_auth: "status_edge LEDGER_RESERVED PENDING_ADMIN"
| edge_approve: "status_edge PENDING_ADMIN ADMIN_APPROVED"
| edge_broadcast: "status_edge ADMIN_APPROVED TX_BROADCASTED"
| edge_confirm: "status_edge TX_BROADCASTED COMPLETED"
| edge_fail: "active_status st \<Longrightarrow> status_edge st FAILED"

inductive_simps status_edge_simps [simp]:
  "status_edge LEDGER_RESERVED st" "status_edge PENDING_ADMIN st" "status_edge ADMIN_APPROVED st"
  "status_edge TX_BROADCASTED st" "status_edge COMPLETED st" "status_edge FAILED st"
  "status_edge REJECTED st"

inductive_cases status_edge_to_completed: "status_edge st COMPLETED"

lemma status_edge_less: "status_edge a b \<Longrightarrow> a < b"
  by (induction rule: status_edge.induct)
    (auto simp: less_withdrawal_status_def active_status_def ACTIVE_WITHDRAWAL_STATUSES_def)

lemma status_edge_active: "status_edge a b \<Longrightarrow> active_status a"
  by (induction rule: status_edge.induct) simp_all

text \<open>
  How one step may treat a stored withdrawal: it stays, keeps its identity, follows at most one edge,
  and is frozen once it has reached a final status.
\<close>

definition follows :: "withdrawal \<Rightarrow> withdrawal \<Rightarrow> bool" where
  "follows w v =
     (same_identity w v \<and> (wd_status v = wd_status w \<or> status_edge (wd_status w) (wd_status v)) \<and>
      (\<not> active_status (wd_status w) \<longrightarrow> v = w))"

definition evolves :: "ledger \<Rightarrow> ledger \<Rightarrow> bool" where
  "evolves s t =
     (\<forall>i w. map_get (withdrawals s) i = Some w \<longrightarrow> (\<exists>v. map_get (withdrawals t) i = Some v \<and> follows w v))"

lemma follows_refl [simp]: "follows w w"
  by (simp add: follows_def same_identity_def)

lemma evolves_same: "withdrawals t = withdrawals s \<Longrightarrow> evolves s t"
  by (simp add: evolves_def)

lemma evolves_same_core: "same_core s t \<Longrightarrow> evolves s t"
  by (rule evolves_same) (simp add: same_core_def core_def)

lemma publish_withdrawals [simp]:
  "withdrawals (snd (publishWithdrawal cfg i w t r s)) = withdrawals s"
  using same_core_publish [of s cfg i w t r] by (simp add: same_core_def core_def)

lemma fee_withdrawals [simp]: "withdrawals (record_fee k rt ri fee now s) = withdrawals s"
  by (simp add: record_fee_def)

lemma account_steps_withdrawals:
  "withdrawals (snd (getAccount u now s)) = withdrawals s"
  "withdrawals (snd (getAccountByWalletAddress a now s)) = withdrawals s"
  "withdrawals (snd (bindWalletAddress u a now s)) = withdrawals s"
  "withdrawals (snd (completeDeposit i s)) = withdrawals s"
  "withdrawals (snd (applyExternalCredit cinp now s)) = withdrawals s"
  by (simp_all add: getAccountByWalletAddress_def getAccount_def bindWalletAddress_def completeDeposit_def
      applyExternalCredit_def getMutableAccount_write Let_def split: sum.split option.split prod.split)

lemma deposit_withdrawals: "withdrawals (snd (applyDeposit cfg inp now s)) = withdrawals s"
  by (simp add: applyDeposit_def getMutableAccount_write Let_def enqueueOutboxEvent_def
      split: option.split sum.split)

lemma transfer_withdrawals: "withdrawals (snd (transfer cfg f g amount key now s)) = withdrawals s"
  by (simp add: transfer_def getMutableAccount_write Let_def split: option.split)

lemma evolves_request:
  assumes "ledger_inv cfg s" and "uuid_ok cfg"
  shows "evolves s (snd (requestWithdrawal cfg inp now s))"
proof (cases "request_admitted cfg inp now s")
  case True
  have "map_get (withdrawals s) (uuid cfg (uuidCount s + 1)) = None"
    using fresh_uuid [OF ledger_invD(5) [OF assms(1)] assms(2)] by simp
  then show ?thesis
    unfolding request_admitted_result [OF True] Let_def
    by (auto simp: evolves_def request_state_def Let_def)
next
  case False
  from request_not_admitted_state [OF False] show ?thesis by (auto intro: evolves_same)
qed

text \<open>The six updates change the withdrawal they name and nothing else.\<close>

lemma evolves_at:
  assumes "\<And>j. j \<noteq> i \<Longrightarrow> map_get (withdrawals t) j = map_get (withdrawals s) j"
    and "\<And>w. map_get (withdrawals s) i = Some w \<Longrightarrow> \<exists>v. map_get (withdrawals t) i = Some v \<and> follows w v"
  shows "evolves s t"
  unfolding evolves_def using assms by (metis follows_refl)

named_theorems wd_ops "the operations on a stored withdrawal"

declare confirmWithdrawalExternalAuth_def [wd_ops] markWithdrawalReviewRequired_def [wd_ops]
  approveWithdrawal_def [wd_ops] broadcastWithdrawal_def [wd_ops] confirmWithdrawal_def [wd_ops]
  failWithdrawal_def [wd_ops] getMutableWithdrawal_def [wd_ops]
  getMutableAccount_write [wd_ops] Let_def [wd_ops]

lemma evolves_externalAuth: "evolves s (snd (confirmWithdrawalExternalAuth cfg i p r now s))"
  by (rule evolves_at [of i]) (auto simp: wd_ops follows_def same_identity_def split: option.splits)

lemma evolves_review: "evolves s (snd (markWithdrawalReviewRequired i now s))"
  by (rule evolves_at [of i]) (auto simp: wd_ops follows_def same_identity_def split: option.splits)

lemma evolves_broadcast: "evolves s (snd (broadcastWithdrawal cfg i h now s))"
  by (rule evolves_at [of i]) (auto simp: wd_ops follows_def same_identity_def split: option.splits)

lemma evolves_approve: "evolves s (snd (approveWithdrawal cfg i inp now s))"
  by (rule evolves_at [of i]) (auto simp: wd_ops follows_def same_identity_def split: option.splits)

lemma evolves_confirm: "evolves s (snd (confirmWithdrawal cfg i fee now s))"
  by (rule evolves_at [of i]) (auto simp: wd_ops follows_def same_identity_def split: option.splits)

lemma evolves_fail: "evolves s (snd (failWithdrawal cfg i reason now s))"
  by (rule evolves_at [of i]) (auto simp: wd_ops follows_def same_identity_def split: option.splits)

lemmas evolve_steps = evolves_request evolves_externalAuth evolves_review evolves_approve evolves_broadcast
  evolves_confirm evolves_fail

lemma evolves_step:
  assumes "ledger_step cfg s t" and "uuid_ok cfg" and "ledger_inv cfg s"
  shows "evolves s t"
  using assms by cases
    (blast intro: evolve_steps core_steps evolves_same_core evolves_same account_steps_withdrawals
       deposit_withdrawals transfer_withdrawals)+

text \<open>Along any run from a reachable state.\<close>

lemma withdrawal_life:
  assumes "ledger_steps cfg s t" and "reachable_ledger cfg s" and "map_get (withdrawals s) i = Some w"
  shows "reachable_ledger cfg t \<and> (\<exists>v. map_get (withdrawals t) i = Some v \<and> same_identity w v \<and>
    status_edge\<^sup>*\<^sup>* (wd_status w) (wd_status v) \<and> (\<not> active_status (wd_status w) \<longrightarrow> v = w))"
  using assms(1) unfolding ledger_steps_def
proof (induction rule: rtranclp_induct)
  case base
  then show ?case using assms by (auto simp: same_identity_def)
next
  case (step t t')
  then obtain v where t: "reachable_ledger cfg t" and v: "map_get (withdrawals t) i = Some v"
      "same_identity w v" "status_edge\<^sup>*\<^sup>* (wd_status w) (wd_status v)"
      "\<not> active_status (wd_status w) \<longrightarrow> v = w" by blast
  have "evolves t t'" using evolves_step step.hyps(2) t reachable_inv reachable_uuid by blast
  with v(1) obtain v' where v': "map_get (withdrawals t') i = Some v'" "follows v v'"
    by (auto simp: evolves_def)
  have "status_edge\<^sup>*\<^sup>* (wd_status w) (wd_status v')"
    using v(3) v'(2) by (auto simp: follows_def intro: rtranclp.rtrancl_into_rtrancl)
  moreover have "same_identity w v'" using v(2) v'(2) by (simp add: follows_def same_identity_def)
  moreover have "\<not> active_status (wd_status w) \<longrightarrow> v' = w" using v(4) v'(2) by (auto simp: follows_def)
  moreover have "reachable_ledger cfg t'" using t step.hyps(2) by (rule reachable_step)
  ultimately show ?case using v'(1) by blast
qed

lemma status_edges_le: "status_edge\<^sup>*\<^sup>* a b \<Longrightarrow> a \<le> b"
  by (induction rule: rtranclp_induct) (auto dest: status_edge_less)

end
