(* ===== verification/LedgerStores.thy ===== *)
theory LedgerStores
  imports LedgerMachine
begin

text \<open>
  The invariant of the stores around the money: jobs, sweeps, audit entries and outbox events are
  kept under their own ids, and the two network-fee books agree entry by entry.  With it, the life of
  a sweep record, and the daily fee snapshots computed from the two books.
\<close>

section \<open>The invariant\<close>

definition keyed :: "('v \<Rightarrow> string) \<Rightarrow> 'v jsmap \<Rightarrow> bool" where
  "keyed f m = (map_wf m \<and> (\<forall>k v. map_get m k = Some v \<longrightarrow> f v = k))"

lemma keyed_Nil [simp]: "keyed f []"
  by (simp add: keyed_def)

lemma keyed_set [simp]: "keyed f m \<Longrightarrow> f v = k \<Longrightarrow> keyed f (map_set k v m)"
  by (simp add: keyed_def)

lemma keyed_write [simp]: "keyed f m \<Longrightarrow> (\<And>v. f (g v) = f v) \<Longrightarrow> keyed f (write_entries ks g m)"
  by (auto simp: keyed_def split: if_splits)

lemma keyed_get: "keyed f m \<Longrightarrow> map_get m k = Some v \<Longrightarrow> f v = k"
  by (simp add: keyed_def)

lemma outbox_ok_keyed: "outbox_ok s = keyed ob_outboxEventId (outboxEvents s)"
  by (simp add: outbox_ok_def keyed_def)

text \<open>Sweep ids come from \<open>randomUUID\<close>.\<close>

definition sweep_ids_ok :: "ledger_cfg \<Rightarrow> ledger \<Rightarrow> bool" where
  "sweep_ids_ok cfg s = (map_keys (sweepRecords s) \<subseteq> uuid cfg ` {..<uuidCount s})"

text \<open>The two fee books, entry by entry: key, day, kind and amount.\<close>

definition receipt_lines :: "ledger \<Rightarrow> (string \<times> string \<times> fee_reference \<times> int) list" where
  "receipt_lines s = map (\<lambda>(k, r). (k, iso_day (nf_confirmedAt r), nf_referenceType r, nf_feeSun r)) (networkFeeReceipts s)"

definition journal_lines :: "ledger \<Rightarrow> (string \<times> string \<times> fee_reference \<times> int) list" where
  "journal_lines s = map (\<lambda>(k, j). (k, nj_snapshotDate j, nj_referenceType j, nj_feeSun j)) (networkFeeJournals s)"

definition stores_ok :: "ledger_cfg \<Rightarrow> ledger \<Rightarrow> bool" where
  "stores_ok cfg s =
     (outbox_ok s \<and> keyed job_jobId (jobs s) \<and> keyed sw_sweepId (sweepRecords s) \<and>
      keyed al_auditId (auditLogs s) \<and> consumer_ids_ok cfg s \<and> sweep_ids_ok cfg s \<and> receipt_lines s = journal_lines s)"

lemma stores_ok_empty: "stores_ok cfg empty_ledger"
  by (simp add: stores_ok_def outbox_ok_keyed empty_ledger_def consumer_ids_ok_def sweep_ids_ok_def map_keys_def
      receipt_lines_def journal_lines_def)

text \<open>Operations that leave these stores alone.\<close>

definition same_stores :: "ledger \<Rightarrow> ledger \<Rightarrow> bool" where
  "same_stores s t =
     (outboxEvents t = outboxEvents s \<and> jobs t = jobs s \<and> sweepRecords t = sweepRecords s \<and>
      auditLogs t = auditLogs s \<and> eventConsumerAttempts t = eventConsumerAttempts s \<and>
      eventConsumerDeadLetters t = eventConsumerDeadLetters s \<and>
      networkFeeReceipts t = networkFeeReceipts s \<and> networkFeeJournals t = networkFeeJournals s \<and>
      uuidCount s \<le> uuidCount t)"

lemma same_stores_refl [simp]: "same_stores s s"
  by (simp add: same_stores_def)

lemma stores_ok_same:
  assumes "stores_ok cfg s" and "same_stores s t"
  shows "stores_ok cfg t"
proof -
  have "{..<uuidCount s} \<subseteq> {..<uuidCount t}" using assms(2) by (auto simp: same_stores_def)
  then have "uuid cfg ` {..<uuidCount s} \<subseteq> uuid cfg ` {..<uuidCount t}" by (rule image_mono)
  then have "consumer_ids_ok cfg t" "sweep_ids_ok cfg t"
    using assms unfolding stores_ok_def same_stores_def consumer_ids_ok_def sweep_ids_ok_def by auto
  with assms show ?thesis
    by (simp add: stores_ok_def same_stores_def outbox_ok_def receipt_lines_def journal_lines_def)
qed

lemma stores_ok_enqueue:
  assumes "stores_ok cfg s"
  shows "stores_ok cfg (enqueueOutboxEvent cfg et at' ai p now s)"
  using assms
  by (auto simp: stores_ok_def enqueueOutboxEvent_def Let_def outbox_ok_keyed consumer_ids_ok_def sweep_ids_ok_def
      receipt_lines_def journal_lines_def lessThan_Suc)

lemma stores_ok_publish: "stores_ok cfg s \<Longrightarrow> stores_ok cfg (snd (publishWithdrawal cfg i w now r s))"
  by (simp add: publishWithdrawal_def stores_ok_enqueue split: sum.split)

lemma same_stores_write [simp]:
  "same_stores s (write_account u a t) = same_stores s t"
  "same_stores s (write_withdrawal i w t) = same_stores s t"
  by (simp_all add: same_stores_def write_account_def write_withdrawal_def)

lemma same_stores_update [simp]:
  "same_stores s (t\<lparr>transactions := x1\<rparr>) = same_stores s t"
  "same_stores s (t\<lparr>depositsByTxHash := x2\<rparr>) = same_stores s t"
  "same_stores s (t\<lparr>externalCreditsByReference := x3\<rparr>) = same_stores s t"
  "same_stores s (t\<lparr>withdrawals := x4\<rparr>) = same_stores s t"
  "same_stores s (t\<lparr>withdrawalByIdempotencyKey := x5\<rparr>) = same_stores s t"
  "same_stores s (t\<lparr>transferByIdempotencyKey := x6\<rparr>) = same_stores s t"
  "same_stores s (t\<lparr>approvalsByWithdrawalId := x7\<rparr>) = same_stores s t"
  "same_stores s (t\<lparr>walletBindingsByUserId := x8\<rparr>) = same_stores s t"
  "same_stores s (t\<lparr>userIdByWalletAddress := x9\<rparr>) = same_stores s t"
  "same_stores s (t\<lparr>eventConsumerCheckpoints := x10\<rparr>) = same_stores s t"
  by (simp_all add: same_stores_def)

lemma same_stores_uuid [simp]: "uuidCount s \<le> n \<Longrightarrow> same_stores s t \<Longrightarrow> same_stores s (t\<lparr>uuidCount := n\<rparr>)"
  by (simp add: same_stores_def)

lemma same_stores_accounts:
  "same_stores s (snd (getAccount u now s))" "same_stores s (snd (getAccountByWalletAddress a now s))"
  "same_stores s (snd (bindWalletAddress u a now s))" "same_stores s (snd (completeDeposit i s))"
  "same_stores s (snd (applyExternalCredit cinp now s))" "same_stores s (snd (transfer cfg f g amount key now s))"
  by (simp_all add: getAccountByWalletAddress_def getAccount_def bindWalletAddress_def completeDeposit_def
      applyExternalCredit_def transfer_def getMutableAccount_write Let_def
      split: sum.split option.split prod.split)

lemma stores_ok_deposit:
  assumes "stores_ok cfg s" shows "stores_ok cfg (snd (applyDeposit cfg inp now s))"
  unfolding applyDeposit_def getMutableAccount_write Let_def
  by (auto split: option.split sum.split intro!: stores_ok_enqueue intro: assms stores_ok_same [OF assms])

lemma stores_ok_request:
  assumes "stores_ok cfg s" shows "stores_ok cfg (snd (requestWithdrawal cfg inp now s))"
  unfolding requestWithdrawal_def getMutableAccount_write Let_def
  by (auto split: option.split intro!: stores_ok_publish intro: assms stores_ok_same [OF assms])

lemma stores_ok_withdrawal:
  assumes "stores_ok cfg s"
  shows "stores_ok cfg (snd (confirmWithdrawalExternalAuth cfg i p r now s))"
    "stores_ok cfg (snd (markWithdrawalReviewRequired i now s))"
    "stores_ok cfg (snd (approveWithdrawal cfg i ainp now s))"
    "stores_ok cfg (snd (broadcastWithdrawal cfg i h now s))"
    "stores_ok cfg (snd (failWithdrawal cfg i reason now s))"
  unfolding wd_ops
  by (auto split: option.split sum.split intro!: stores_ok_publish intro: assms stores_ok_same [OF assms])

section \<open>The fee books\<close>

lemma map_set_lines:
  assumes "map (\<lambda>(k, r). (k, f r)) m = map (\<lambda>(k, j). (k, g j)) n" and "f r = g j"
  shows "map (\<lambda>(k, r). (k, f r)) (map_set k r m) = map (\<lambda>(k, j). (k, g j)) (map_set k j n)"
  using assms by (induction m arbitrary: n) (auto simp: map_set_def)

lemma stores_ok_fee:
  assumes "stores_ok cfg s" shows "stores_ok cfg (record_fee k rt ri fee now s)"
proof -
  let ?t = "record_fee k rt ri fee now s"
  have "receipt_lines ?t = journal_lines ?t"
    using assms map_set_lines [of "\<lambda>r. (iso_day (nf_confirmedAt r), nf_referenceType r, nf_feeSun r)"
      "networkFeeReceipts s" "\<lambda>j. (nj_snapshotDate j, nj_referenceType j, nj_feeSun j)" "networkFeeJournals s"]
    by (simp add: stores_ok_def receipt_lines_def journal_lines_def record_fee_def)
  with assms show ?thesis
    by (simp add: stores_ok_def outbox_ok_def consumer_ids_ok_def sweep_ids_ok_def) (simp add: record_fee_def)
qed

lemma stores_ok_confirm:
  assumes "stores_ok cfg s" shows "stores_ok cfg (snd (confirmWithdrawal cfg i fee now s))"
  unfolding wd_ops
  by (auto split: option.split sum.split intro!: stores_ok_publish stores_ok_fee
      intro: assms stores_ok_same [OF assms])

lemma stores_ok_sweeps_write:
  assumes "stores_ok cfg s" and "keyed sw_sweepId m" and "map_keys m \<subseteq> uuid cfg ` {..<uuidCount s}"
  shows "stores_ok cfg (s\<lparr>sweepRecords := m\<rparr>)"
  using assms by (simp add: stores_ok_def outbox_ok_def consumer_ids_ok_def sweep_ids_ok_def receipt_lines_def journal_lines_def)

lemma stores_ok_update_sweep:
  assumes s: "stores_ok cfg s" and f: "\<And>w. sw_sweepId (f w) = sw_sweepId w"
  shows "stores_ok cfg (snd (update_sweep i acc msg f s))"
proof (rule update_sweep_cases [of s i acc msg f])
  fix w assume w: "map_get (sweepRecords s) i = Some w"
    and u: "update_sweep i acc msg f s = (Inr (f w), s\<lparr>sweepRecords := map_set i (f w) (sweepRecords s)\<rparr>)"
  have k: "keyed sw_sweepId (sweepRecords s)" using s by (simp add: stores_ok_def)
  with w have "sw_sweepId w = i" by (simp add: keyed_get)
  moreover have "i \<in> uuid cfg ` {..<uuidCount s}" "map_keys (sweepRecords s) \<subseteq> uuid cfg ` {..<uuidCount s}"
    using s map_get_keys [OF w] by (auto simp: stores_ok_def sweep_ids_ok_def)
  ultimately show ?thesis using k f s by (simp add: u stores_ok_sweeps_write)
qed (simp_all add: s)

lemma stores_ok_sweeps:
  assumes "stores_ok cfg s"
  shows "stores_ok cfg (snd (markSweepQueued i note now s))" "stores_ok cfg (snd (recordSweepAttempt i note now s))"
    "stores_ok cfg (snd (markSweepBroadcasted i h note now s))" "stores_ok cfg (snd (failSweep i reason now s))"
  using assms by (simp_all add: markSweepQueued_def recordSweepAttempt_def markSweepBroadcasted_def
      failSweep_def stores_ok_update_sweep)

lemma stores_ok_confirmSweep:
  assumes "stores_ok cfg s" shows "stores_ok cfg (snd (confirmSweep i p now s))"
proof -
  obtain r t where u: "update_sweep i {SW_planned, SW_broadcasted} ''sweep must be planned or broadcasted''
      (\<lambda>w. w\<lparr>sw_status := SW_confirmed, sw_note := coalesce_opt (Option.bind p sf_note) (sw_note w),
             sw_confirmedAt := Some now\<rparr>) s = (r, t)" (is "?u = _") by (cases ?u)
  have "stores_ok cfg (snd ?u)" using assms by (rule stores_ok_update_sweep) simp
  then have "stores_ok cfg t" unfolding u by simp
  then show ?thesis by (simp add: confirmSweep_def u stores_ok_fee split: sum.split option.split)
qed

lemma stores_ok_createSweep:
  assumes "stores_ok cfg s" shows "stores_ok cfg (snd (createSweepRecord cfg inp now s))"
  using assms by (auto simp: createSweepRecord_def Let_def stores_ok_def outbox_ok_def consumer_ids_ok_def sweep_ids_ok_def
      receipt_lines_def journal_lines_def lessThan_Suc)

lemma stores_ok_jobs:
  assumes "stores_ok cfg s"
  shows "stores_ok cfg (snd (enqueueJob cfg ty p now s))" "stores_ok cfg (snd (claimPendingJobs tys n s))"
    "stores_ok cfg (markJobDone i s)" "stores_ok cfg (markJobFailed i s)" "stores_ok cfg (snd (retryJob i s))"
    "stores_ok cfg (snd (appendAuditLog cfg auinp now s))"
  using assms
  by (auto simp: enqueueJob_def claimPendingJobs_def markJobDone_def markJobFailed_def set_job_status_def
      retryJob_def appendAuditLog_def Let_def stores_ok_def outbox_ok_def consumer_ids_ok_def sweep_ids_ok_def
      receipt_lines_def journal_lines_def lessThan_Suc keyed_get split: option.split)

lemma stores_ok_events: "stores_ok cfg s \<Longrightarrow> keyed ob_outboxEventId (outboxEvents s)"
  by (simp add: stores_ok_def outbox_ok_keyed)

lemma stores_ok_outbox_write:
  "stores_ok cfg s \<Longrightarrow> keyed ob_outboxEventId m \<Longrightarrow> stores_ok cfg (s\<lparr>outboxEvents := m\<rparr>)"
  by (simp add: stores_ok_def outbox_ok_keyed consumer_ids_ok_def sweep_ids_ok_def receipt_lines_def journal_lines_def)

lemma stores_ok_entries:
  "stores_ok cfg s \<Longrightarrow> (\<And>e. ob_outboxEventId (f e) = ob_outboxEventId e) \<Longrightarrow>
     stores_ok cfg (s\<lparr>outboxEvents := write_entries ks f (outboxEvents s)\<rparr>)"
  by (intro stores_ok_outbox_write keyed_write stores_ok_events)

lemma stores_ok_update_event:
  assumes s: "stores_ok cfg s" and f: "\<And>e. ob_outboxEventId (f e) = ob_outboxEventId e"
  shows "stores_ok cfg (update_event i f s)"
proof (cases "map_get (outboxEvents s) i")
  case None
  with s show ?thesis by (simp add: update_event_def)
next
  case (Some e)
  have "ob_outboxEventId e = i" using stores_ok_events [OF s] Some by (rule keyed_get)
  then have "keyed ob_outboxEventId (map_set i (f e) (outboxEvents s))"
    using stores_ok_events [OF s] f by simp
  with s Some show ?thesis by (simp add: update_event_def stores_ok_outbox_write)
qed

lemma stores_ok_outbox:
  assumes s: "stores_ok cfg s"
  shows "stores_ok cfg (snd (claimPendingOutboxEvents n now s))" "stores_ok cfg (markOutboxEventPublished i now s)"
    "stores_ok cfg (rescheduleOutboxEvent i err av s)" "stores_ok cfg (deadLetterOutboxEvent i err av s)"
    "stores_ok cfg (snd (replayOutboxEvents ids st lm now s))"
    "stores_ok cfg (snd (recoverStaleProcessingOutboxEvents tmo now s))"
    "stores_ok cfg (snd (acknowledgeDeadLetterOutboxEvents inp now s))"
  unfolding outbox_defs
  by (simp_all add: s stores_ok_update_event [OF s] stores_ok_entries [OF s] split: option.split)

lemma stores_ok_consumers:
  assumes "stores_ok cfg s"
  shows "stores_ok cfg (appendEventConsumerAttempt cfg a now s)"
    "stores_ok cfg (appendEventConsumerDeadLetter cfg d now s)"
    "stores_ok cfg (upsertEventConsumerCheckpoint c k ty ag st now s)"
  using assms consumer_ids_ok_ops [of cfg s]
  by (simp_all add: stores_ok_def)
    (auto simp: appendEventConsumerAttempt_def appendEventConsumerDeadLetter_def sweep_ids_ok_def
      upsertEventConsumerCheckpoint_def Let_def outbox_ok_def receipt_lines_def journal_lines_def lessThan_Suc)

lemma stores_ok_step:
  assumes "ledger_step cfg s t" and "stores_ok cfg s"
  shows "stores_ok cfg t"
  using assms by cases
    (blast intro: stores_ok_same same_stores_accounts stores_ok_deposit stores_ok_request stores_ok_withdrawal
      stores_ok_confirm stores_ok_jobs stores_ok_sweeps stores_ok_confirmSweep stores_ok_createSweep
      stores_ok_outbox stores_ok_consumers)+

interpretation ls: invariant_system "\<lambda>s. s = empty_ledger" "ledger_step cfg" "stores_ok cfg" for cfg
  by unfold_locales (auto intro: stores_ok_empty stores_ok_step)

lemma reachable_stores: "reachable_ledger cfg s \<Longrightarrow> stores_ok cfg s"
  using ls.inv_reachable [OF refl, of cfg s] by (simp add: reachable_ledger_def ledger_steps_def)

end
