(* ===== verification/LedgerReports.thy ===== *)
theory LedgerReports
  imports LedgerStores
begin

text \<open>
  What follows from the two invariants for the queries and the life cycles around the money: sweep
  records only move along their edges, the daily fee snapshots of the two books have no gap, and the
  outbox summary partitions the events.
\<close>

section \<open>The life of a sweep record\<close>

inductive sweep_edge :: "sweep_status \<Rightarrow> sweep_status \<Rightarrow> bool" where
  sweep_queue: "sweep_edge SW_planned SW_queued"
| sweep_broadcast: "st \<in> {SW_planned, SW_queued} \<Longrightarrow> sweep_edge st SW_broadcasted"
| sweep_confirm: "st \<in> {SW_planned, SW_broadcasted} \<Longrightarrow> sweep_edge st SW_confirmed"
| sweep_fail: "st \<in> {SW_planned, SW_queued, SW_broadcasted} \<Longrightarrow> sweep_edge st SW_failed"

definition sweep_final :: "sweep_status \<Rightarrow> bool" where
  "sweep_final st = (st \<in> {SW_confirmed, SW_failed, SW_skipped})"

inductive_simps sweep_edge_simps [simp]:
  "sweep_edge SW_planned st" "sweep_edge SW_queued st" "sweep_edge SW_broadcasted st"
  "sweep_edge SW_confirmed st" "sweep_edge SW_failed st" "sweep_edge SW_skipped st"

text \<open>What never changes in a sweep record, and how one step may change the rest.\<close>

definition same_sweep :: "sweep_record \<Rightarrow> sweep_record \<Rightarrow> bool" where
  "same_sweep w v =
     (sw_sweepId v = sw_sweepId w \<and> sw_sourceWalletCode v = sw_sourceWalletCode w \<and>
      sw_sourceAddress v = sw_sourceAddress w \<and> sw_targetAddress v = sw_targetAddress w \<and>
      sw_amount v = sw_amount w \<and> sw_externalRef v = sw_externalRef w \<and>
      sw_createdAt v = sw_createdAt w \<and> sw_attemptCount w \<le> sw_attemptCount v)"

definition sweep_follows :: "sweep_record \<Rightarrow> sweep_record \<Rightarrow> bool" where
  "sweep_follows w v =
     (same_sweep w v \<and> (sw_status v = sw_status w \<or> sweep_edge (sw_status w) (sw_status v)) \<and>
      (sweep_final (sw_status w) \<longrightarrow> v = w))"

definition sweeps_evolve :: "ledger \<Rightarrow> ledger \<Rightarrow> bool" where
  "sweeps_evolve s t =
     (\<forall>i w. map_get (sweepRecords s) i = Some w \<longrightarrow>
        (\<exists>v. map_get (sweepRecords t) i = Some v \<and> sweep_follows w v))"

lemma sweep_follows_refl [simp]: "sweep_follows w w"
  by (simp add: sweep_follows_def same_sweep_def)

lemma sweeps_evolve_same: "sweepRecords t = sweepRecords s \<Longrightarrow> sweeps_evolve s t"
  by (simp add: sweeps_evolve_def)

lemma sweeps_evolve_stores: "same_stores s t \<Longrightarrow> sweeps_evolve s t"
  by (rule sweeps_evolve_same) (simp add: same_stores_def)

lemma sweeps_evolve_update:
  assumes "\<And>w. sw_status w \<in> acc \<Longrightarrow> sweep_follows w (f w)"
  shows "sweeps_evolve s (snd (update_sweep i acc msg f s))"
  by (rule update_sweep_cases [of s i acc msg f]) (auto simp: sweeps_evolve_def assms)

lemma sweeps_evolve_ops:
  "sweeps_evolve s (snd (markSweepQueued i note now s))" "sweeps_evolve s (snd (recordSweepAttempt i note now s))"
  "sweeps_evolve s (snd (markSweepBroadcasted i h note now s))" "sweeps_evolve s (snd (failSweep i reason now s))"
  unfolding markSweepQueued_def recordSweepAttempt_def markSweepBroadcasted_def failSweep_def
  by (rule sweeps_evolve_update, auto simp: sweep_follows_def same_sweep_def sweep_final_def)+

lemma sweeps_evolve_confirm: "sweeps_evolve s (snd (confirmSweep i p now s))"
proof -
  obtain r t where u: "update_sweep i {SW_planned, SW_broadcasted} ''sweep must be planned or broadcasted''
      (\<lambda>w. w\<lparr>sw_status := SW_confirmed, sw_note := coalesce_opt (Option.bind p sf_note) (sw_note w),
             sw_confirmedAt := Some now\<rparr>) s = (r, t)" (is "?u = _") by (cases ?u)
  have "sweeps_evolve s (snd ?u)"
    by (rule sweeps_evolve_update) (auto simp: sweep_follows_def same_sweep_def sweep_final_def)
  then have "sweeps_evolve s t" unfolding u by simp
  then show ?thesis
    by (simp add: confirmSweep_def u sweeps_evolve_def record_fee_def split: sum.split option.split)
qed

lemma sweeps_evolve_create:
  assumes "map_get (sweepRecords s) (uuid cfg (uuidCount s)) = None"
  shows "sweeps_evolve s (snd (createSweepRecord cfg inp now s))"
  using assms by (auto simp: sweeps_evolve_def createSweepRecord_def Let_def)

lemma fresh_sweep:
  assumes "sweep_ids_ok cfg s" and "uuid_ok cfg"
  shows "map_get (sweepRecords s) (uuid cfg (uuidCount s)) = None"
proof -
  have "uuid cfg (uuidCount s) \<notin> uuid cfg ` {..<uuidCount s}"
    using assms(2) by (auto simp: uuid_ok_def dest: injD)
  with assms(1) have "uuid cfg (uuidCount s) \<notin> map_keys (sweepRecords s)" by (auto simp: sweep_ids_ok_def)
  then show ?thesis by (simp add: map_keys_get)
qed

text \<open>Every step either keeps the sweep map or is one of the sweep operations.\<close>

lemma enqueue_sweeps [simp]: "sweepRecords (enqueueOutboxEvent cfg et aty ai p now s) = sweepRecords s"
  by (simp add: enqueueOutboxEvent_def Let_def)

lemma publish_sweeps [simp]: "sweepRecords (snd (publishWithdrawal cfg i w now r s)) = sweepRecords s"
  by (simp add: publishWithdrawal_def split: sum.split)

lemma write_sweeps [simp]:
  "sweepRecords (write_account u a s) = sweepRecords s" "sweepRecords (write_withdrawal i w s) = sweepRecords s"
  "sweepRecords (record_fee k rt ri fee now s) = sweepRecords s"
  "sweepRecords (update_event i f s) = sweepRecords s"
  by (simp_all add: write_account_def write_withdrawal_def record_fee_def update_event_def split: option.split)

lemma money_ops_sweeps:
  "sweepRecords (snd (applyDeposit cfg dinp now s)) = sweepRecords s"
  "sweepRecords (snd (requestWithdrawal cfg winp now s)) = sweepRecords s"
  "sweepRecords (snd (confirmWithdrawalExternalAuth cfg i p r now s)) = sweepRecords s"
  "sweepRecords (snd (markWithdrawalReviewRequired i now s)) = sweepRecords s"
  "sweepRecords (snd (approveWithdrawal cfg i ainp now s)) = sweepRecords s"
  "sweepRecords (snd (broadcastWithdrawal cfg i h now s)) = sweepRecords s"
  "sweepRecords (snd (confirmWithdrawal cfg i fee now s)) = sweepRecords s"
  "sweepRecords (snd (failWithdrawal cfg i reason now s)) = sweepRecords s"
  by (simp_all add: applyDeposit_def requestWithdrawal_def wd_ops split: option.split sum.split)

lemma other_ops_sweeps:
  "sweepRecords (snd (enqueueJob cfg ty p now s)) = sweepRecords s"
  "sweepRecords (snd (claimPendingJobs tys n s)) = sweepRecords s" "sweepRecords (markJobDone i s) = sweepRecords s"
  "sweepRecords (markJobFailed i s) = sweepRecords s" "sweepRecords (snd (retryJob i s)) = sweepRecords s"
  "sweepRecords (snd (appendAuditLog cfg auinp now s)) = sweepRecords s"
  "sweepRecords (snd (claimPendingOutboxEvents n now s)) = sweepRecords s"
  "sweepRecords (markOutboxEventPublished i now s) = sweepRecords s"
  "sweepRecords (rescheduleOutboxEvent i err av s) = sweepRecords s"
  "sweepRecords (deadLetterOutboxEvent i err av s) = sweepRecords s"
  "sweepRecords (snd (replayOutboxEvents ids st lm now s)) = sweepRecords s"
  "sweepRecords (snd (recoverStaleProcessingOutboxEvents tmo now s)) = sweepRecords s"
  "sweepRecords (snd (acknowledgeDeadLetterOutboxEvents ak now s)) = sweepRecords s"
  "sweepRecords (appendEventConsumerAttempt cfg a now s) = sweepRecords s"
  "sweepRecords (appendEventConsumerDeadLetter cfg d now s) = sweepRecords s"
  "sweepRecords (upsertEventConsumerCheckpoint c k ty' ag cst now s) = sweepRecords s"
  by (simp_all add: enqueueJob_def claimPendingJobs_def markJobDone_def markJobFailed_def set_job_status_def
      retryJob_def appendAuditLog_def outbox_defs appendEventConsumerAttempt_def
      appendEventConsumerDeadLetter_def upsertEventConsumerCheckpoint_def split: option.split)

lemma sweeps_evolve_step:
  assumes "ledger_step cfg s t" and "uuid_ok cfg" and "sweep_ids_ok cfg s"
  shows "sweeps_evolve s t"
  using assms(1)
proof cases
  case (step_createSweepRecord sinp now)
  then show ?thesis using assms(2,3) by (simp add: sweeps_evolve_create fresh_sweep)
qed (blast intro: sweeps_evolve_stores same_stores_accounts sweeps_evolve_same money_ops_sweeps
    other_ops_sweeps sweeps_evolve_ops sweeps_evolve_confirm)+

lemma sweep_life:
  assumes "ledger_steps cfg s t" and "reachable_ledger cfg s" and "map_get (sweepRecords s) i = Some w"
  shows "reachable_ledger cfg t \<and> (\<exists>v. map_get (sweepRecords t) i = Some v \<and> same_sweep w v \<and>
    sweep_edge\<^sup>*\<^sup>* (sw_status w) (sw_status v) \<and> (sweep_final (sw_status w) \<longrightarrow> v = w))"
  using assms(1) unfolding ledger_steps_def
proof (induction rule: rtranclp_induct)
  case base
  then show ?case using assms by (auto simp: same_sweep_def)
next
  case (step t t')
  then obtain v where t: "reachable_ledger cfg t" and v: "map_get (sweepRecords t) i = Some v" "same_sweep w v"
      "sweep_edge\<^sup>*\<^sup>* (sw_status w) (sw_status v)" "sweep_final (sw_status w) \<longrightarrow> v = w" by blast
  have "sweep_ids_ok cfg t" using reachable_stores [OF t] by (simp add: stores_ok_def)
  then have "sweeps_evolve t t'" using sweeps_evolve_step [OF step.hyps(2) reachable_uuid [OF t]] by blast
  with v(1) obtain v' where v': "map_get (sweepRecords t') i = Some v'" "sweep_follows v v'"
    by (auto simp: sweeps_evolve_def)
  have "sweep_edge\<^sup>*\<^sup>* (sw_status w) (sw_status v')"
    using v(3) v'(2) by (auto simp: sweep_follows_def intro: rtranclp.rtrancl_into_rtrancl)
  moreover have "same_sweep w v'" using v(2) v'(2) by (simp add: sweep_follows_def same_sweep_def)
  moreover have "sweep_final (sw_status w) \<longrightarrow> v' = w" using v(4) v'(2) by (auto simp: sweep_follows_def)
  moreover have "reachable_ledger cfg t'" using t step.hyps(2) by (rule reachable_step)
  ultimately show ?case using v'(1) by blast
qed

section \<open>Daily fee snapshots\<close>

definition on_day :: "(network_fee_snapshot \<Rightarrow> int) \<Rightarrow> network_fee_snapshot jsmap \<Rightarrow> string \<Rightarrow> int" where
  "on_day f m day = val_or0 f (map_get m day)"

definition snapshots_ok :: "network_fee_snapshot jsmap \<Rightarrow> bool" where
  "snapshots_ok m = keyed fs_snapshotDate m"

lemma on_reference_sel [simp]:
  "fs_snapshotDate (on_reference ty f x) = fs_snapshotDate x" "fs_actualFeeSun (on_reference ty f x) = fs_actualFeeSun x"
  "fs_ledgerFeeSun (on_reference ty f x) = fs_ledgerFeeSun x"
  "fs_actualFeeCount (on_reference ty f x) = fs_actualFeeCount x"
  "fs_ledgerFeeCount (on_reference ty f x) = fs_ledgerFeeCount x"
  by (cases ty; simp)+

lemma ensureSnapshot_sel:
  "fs_actualFeeSun (ensureSnapshot day m) = on_day fs_actualFeeSun m day"
  "fs_ledgerFeeSun (ensureSnapshot day m) = on_day fs_ledgerFeeSun m day"
  "fs_actualFeeCount (ensureSnapshot day m) = on_day fs_actualFeeCount m day"
  "fs_ledgerFeeCount (ensureSnapshot day m) = on_day fs_ledgerFeeCount m day"
  by (simp_all add: ensureSnapshot_def on_day_def val_or0_def coalesce_def split: option.split)

lemma ensureSnapshot_date: "snapshots_ok m \<Longrightarrow> fs_snapshotDate (ensureSnapshot day m) = day"
  by (auto simp: ensureSnapshot_def snapshots_ok_def keyed_def coalesce_def split: option.split)

lemma snapshots_ok_adds:
  "snapshots_ok m \<Longrightarrow> snapshots_ok (add_actual m r)" "snapshots_ok m \<Longrightarrow> snapshots_ok (add_journal m j)"
  using ensureSnapshot_date [of m] by (simp_all add: add_actual_def add_journal_def Let_def snapshots_ok_def)

lemma on_day_set: "on_day f (map_set k x m) day = (if day = k then f x else on_day f m day)"
  by (simp add: on_day_def)

lemma actual_fold:
  "on_day fs_actualFeeSun (foldl add_actual m rs) day
     = on_day fs_actualFeeSun m day + sum_list (map nf_feeSun (filter (\<lambda>r. iso_day (nf_confirmedAt r) = day) rs))"
  "on_day fs_actualFeeCount (foldl add_actual m rs) day
     = on_day fs_actualFeeCount m day + int (length (filter (\<lambda>r. iso_day (nf_confirmedAt r) = day) rs))"
  "on_day fs_ledgerFeeSun (foldl add_actual m rs) day = on_day fs_ledgerFeeSun m day"
  "on_day fs_ledgerFeeCount (foldl add_actual m rs) day = on_day fs_ledgerFeeCount m day"
  by (induction rs arbitrary: m) (auto simp: add_actual_def Let_def on_day_set ensureSnapshot_sel)

lemma journal_fold:
  "on_day fs_ledgerFeeSun (foldl add_journal m js) day
     = on_day fs_ledgerFeeSun m day + sum_list (map nj_feeSun (filter (\<lambda>j. nj_snapshotDate j = day) js))"
  "on_day fs_ledgerFeeCount (foldl add_journal m js) day
     = on_day fs_ledgerFeeCount m day + int (length (filter (\<lambda>j. nj_snapshotDate j = day) js))"
  "on_day fs_actualFeeSun (foldl add_journal m js) day = on_day fs_actualFeeSun m day"
  "on_day fs_actualFeeCount (foldl add_journal m js) day = on_day fs_actualFeeCount m day"
  by (induction js arbitrary: m) (auto simp: add_journal_def Let_def on_day_set ensureSnapshot_sel)

lemma folds_ok:
  "snapshots_ok m \<Longrightarrow> snapshots_ok (foldl add_actual m rs)" "snapshots_ok m \<Longrightarrow> snapshots_ok (foldl add_journal m js)"
  by (induction rs arbitrary: m, simp_all add: snapshots_ok_adds)
    (induction js arbitrary: m, simp_all add: snapshots_ok_adds)

lemma lines_sum:
  assumes "map (\<lambda>(k, r). (k, d r, ty r, a r)) m = map (\<lambda>(k, j). (k, d' j, ty' j, a' j)) n"
  shows "sum_list (map a (filter (\<lambda>r. d r = day) (map_values m)))
           = (sum_list (map a' (filter (\<lambda>j. d' j = day) (map_values n))) :: int) \<and>
         length (filter (\<lambda>r. d r = day) (map_values m)) = length (filter (\<lambda>j. d' j = day) (map_values n))"
  using assms by (induction m arbitrary: n) (auto simp: map_values_def)

definition snapshot_books :: "ledger \<Rightarrow> network_fee_snapshot jsmap" where
  "snapshot_books s =
     foldl add_journal (foldl add_actual [] (map_values (networkFeeReceipts s))) (map_values (networkFeeJournals s))"

text \<open>The fees of a day, straight from the receipts.\<close>

definition receipts_on :: "ledger \<Rightarrow> string \<Rightarrow> network_fee_receipt list" where
  "receipts_on s day = filter (\<lambda>r. iso_day (nf_confirmedAt r) = day) (map_values (networkFeeReceipts s))"

lemma snapshot_values:
  assumes st: "stores_ok cfg s" and x: "x \<in> set (listNetworkFeeDailySnapshots days s)"
  shows "fs_gapFeeSun x = 0 \<and> fs_actualFeeSun x = sum_list (map nf_feeSun (receipts_on s (fs_snapshotDate x))) \<and>
    fs_ledgerFeeSun x = fs_actualFeeSun x \<and> fs_ledgerFeeCount x = fs_actualFeeCount x \<and>
    fs_actualFeeCount x = int (length (receipts_on s (fs_snapshotDate x)))"
proof -
  have "x \<in> (\<lambda>x. x\<lparr>fs_gapFeeSun := fs_actualFeeSun x - fs_ledgerFeeSun x\<rparr>) ` set (map_values (snapshot_books s))"
    using x subsetD [OF set_slice0]
    by (fastforce simp: listNetworkFeeDailySnapshots_def Let_def snapshot_books_def)
  then obtain y where y: "y \<in> set (map_values (snapshot_books s))"
      and xy: "x = y\<lparr>fs_gapFeeSun := fs_actualFeeSun y - fs_ledgerFeeSun y\<rparr>" by blast
  have ok: "snapshots_ok (snapshot_books s)"
    unfolding snapshot_books_def by (intro folds_ok) (simp add: snapshots_ok_def)
  obtain day where d: "map_get (snapshot_books s) day = Some y"
    using map_get_values [OF _ y] ok by (auto simp: snapshots_ok_def keyed_def)
  then have date: "fs_snapshotDate y = day" using ok by (simp add: snapshots_ok_def keyed_get)
  have val: "f y = on_day f (snapshot_books s) day" for f by (simp add: on_day_def d)
  have empty: "on_day f [] day = 0" for f by (simp add: on_day_def)
  have "receipt_lines s = journal_lines s" using st by (simp add: stores_ok_def)
  from lines_sum [OF this [unfolded receipt_lines_def journal_lines_def], of day]
  show ?thesis
    unfolding xy by (simp add: val date receipts_on_def)
      (simp add: snapshot_books_def actual_fold journal_fold empty)
qed

section \<open>The outbox summary\<close>

lemma count_statuses:
  "length (filter (\<lambda>e. ob_status e = OB_pending) es) + length (filter (\<lambda>e. ob_status e = OB_processing) es) +
   length (filter (\<lambda>e. ob_status e = OB_published) es) + length (filter (\<lambda>e. ob_status e = OB_dead_lettered) es)
     = length es"
proof (induction es)
  case (Cons e es)
  then show ?case by (cases "ob_status e") simp_all
qed simp

lemma count_split: "length (filter (\<lambda>e. P e \<and> Q e) es) + length (filter (\<lambda>e. P e \<and> \<not> Q e) es) = length (filter P es)"
  by (induction es) auto

lemma first_of_sorted: "first_of (sort_asc k es) = Some e \<Longrightarrow> e \<in> set es \<and> (\<forall>x \<in> set es. k e \<le> k x)"
proof -
  assume f: "first_of (sort_asc k es) = Some e"
  then obtain rest where r: "sort_asc k es = e # rest" by (auto simp: first_of_def split: list.splits)
  have "sorted (map k (sort_asc k es))" by (rule sorted_sort_asc)
  then have "\<forall>x \<in> set (sort_asc k es). k e \<le> k x" unfolding r by auto
  moreover have "e \<in> set (sort_asc k es)" unfolding r by simp
  ultimately show ?thesis by simp
qed

end
