(* ===== verification/LedgerBindings.thy ===== *)
theory LedgerBindings
  imports LedgerReports
begin

text \<open>
  Wallet bindings: in every reachable state the two maps \<open>walletBindingsByUserId\<close> and
  \<open>userIdByWalletAddress\<close> are inverse to each other, and the address cached in an account is the
  bound one.  The routes accept no empty user id (\<open>walletBindSchema\<close>), as the step rule says.
\<close>

definition bound_address :: "ledger \<Rightarrow> string \<Rightarrow> string option" where
  "bound_address s u = map_option wb_walletAddress (map_get (walletBindingsByUserId s) u)"

definition bindings_ok :: "ledger \<Rightarrow> bool" where
  "bindings_ok s =
     (keyed wb_userId (walletBindingsByUserId s) \<and> bound_address s '''' = None \<and>
      (\<forall>a u. map_get (userIdByWalletAddress s) a = Some u \<longleftrightarrow> bound_address s u = Some a))"

definition cached_ok :: "ledger \<Rightarrow> bool" where
  "cached_ok s = (\<forall>u a. map_get (accounts s) u = Some a \<longrightarrow> acc_walletAddress a = bound_address s u)"

lemma bindings_ok_bind:
  assumes ok: "bindings_ok s" and u: "u \<noteq> ''''"
  shows "bindings_ok (snd (bindWalletAddress u a now s))"
proof (cases "fails (fst (bindWalletAddress u a now s))")
  case True
  with ok show ?thesis by (simp add: bindWalletAddress_def Let_def split: if_splits)
next
  case False
  let ?t = "snd (bindWalletAddress u a now s)"
  let ?prev = "map_get (walletBindingsByUserId s) u"
  let ?byAddress = "case ?prev of None \<Rightarrow> userIdByWalletAddress s
    | Some p \<Rightarrow> if wb_walletAddress p \<noteq> a then map_delete (wb_walletAddress p) (userIdByWalletAddress s)
               else userIdByWalletAddress s"
  let ?b = "\<lparr>wb_userId = u, wb_walletAddress = a, wb_createdAt = coalesce (map_option wb_createdAt ?prev) now\<rparr>"
  have B: "walletBindingsByUserId ?t = map_set u ?b (walletBindingsByUserId s)"
    and U: "userIdByWalletAddress ?t = map_set a u ?byAddress"
    using False by (auto simp: bindWalletAddress_def Let_def write_account_def split: option.split if_splits)
  have inv: "map_get (userIdByWalletAddress s) a' = Some v \<longleftrightarrow> bound_address s v = Some a'" for a' v
    using ok by (simp add: bindings_ok_def)
  have free: "bound_address s v = Some a \<Longrightarrow> v = u" for v
  proof -
    assume "bound_address s v = Some a"
    then have g: "map_get (userIdByWalletAddress s) a = Some v" by (simp add: inv)
    moreover from this have "v \<noteq> ''''" using ok inv [of a "''''"] by (auto simp: bindings_ok_def)
    ultimately show "v = u" using False by (simp add: bindWalletAddress_def Let_def split: if_splits)
  qed
  have new: "bound_address ?t v = (if v = u then Some a else bound_address s v)" for v
    by (simp add: bound_address_def B)
  have "map_get (userIdByWalletAddress ?t) a' = Some v \<longleftrightarrow> bound_address ?t v = Some a'" for a' v
  proof (cases "a' = a")
    case True
    then show ?thesis using free [of v] by (auto simp: U new)
  next
    case F: False
    have "map_get ?byAddress a' = Some v \<longleftrightarrow> bound_address s v = Some a' \<and> v \<noteq> u"
    proof (cases ?prev)
      case None
      then have "bound_address s u = None" by (simp add: bound_address_def)
      with None inv [of a' v] show ?thesis by auto
    next
      case (Some p)
      then have p: "bound_address s u = Some (wb_walletAddress p)" by (simp add: bound_address_def)
      with Some inv [of a' v] inv [of a' u] F show ?thesis by auto
    qed
    then show ?thesis using F by (auto simp: U new)
  qed
  moreover have "bound_address ?t '''' = None" using ok u by (simp add: new bindings_ok_def)
  moreover have "keyed wb_userId (walletBindingsByUserId ?t)" using ok by (simp add: B bindings_ok_def)
  ultimately show ?thesis unfolding bindings_ok_def by blast
qed

text \<open>Every other step keeps the two maps.\<close>

definition same_bindings :: "ledger \<Rightarrow> ledger \<Rightarrow> bool" where
  "same_bindings s t =
     (walletBindingsByUserId t = walletBindingsByUserId s \<and> userIdByWalletAddress t = userIdByWalletAddress s \<and>
      (cached_ok s \<longrightarrow> cached_ok t))"

lemma same_bindings_refl [simp]: "same_bindings s s"
  by (simp add: same_bindings_def)

lemma same_bindings_trans: "same_bindings s t \<Longrightarrow> same_bindings t u \<Longrightarrow> same_bindings s u"
  by (simp add: same_bindings_def)

lemma account_for_address: "cached_ok s \<Longrightarrow> acc_walletAddress (account_for u now s) = bound_address s u"
  by (auto simp: account_for_def cached_ok_def createEmptyAccount_def bound_address_def coalesce_def split: option.split)

lemma same_bindings_write [simp]:
  "(cached_ok s \<Longrightarrow> acc_walletAddress a = bound_address s u) \<Longrightarrow> same_bindings s (write_account u a s)"
  by (auto simp: same_bindings_def write_account_def cached_ok_def bound_address_def)

lemma same_bindings_eq:
  assumes "walletBindingsByUserId t = walletBindingsByUserId s" and "userIdByWalletAddress t = userIdByWalletAddress s"
    and "accounts t = accounts s"
  shows "same_bindings s t"
  using assms by (simp add: same_bindings_def cached_ok_def bound_address_def)

text \<open>A state in which an account was written, then other maps.\<close>

lemma same_bindings_after_write:
  assumes "same_bindings s (write_account u a s)" and "accounts t = map_set u a (accounts s)"
    and "walletBindingsByUserId t = walletBindingsByUserId s" and "userIdByWalletAddress t = userIdByWalletAddress s"
  shows "same_bindings s t"
  using assms by (simp add: same_bindings_def cached_ok_def bound_address_def)

lemma write_sel_bindings [simp]:
  "walletBindingsByUserId (write_account u a s) = walletBindingsByUserId s"
  "userIdByWalletAddress (write_account u a s) = userIdByWalletAddress s"
  "walletBindingsByUserId (write_withdrawal i w s) = walletBindingsByUserId s"
  "userIdByWalletAddress (write_withdrawal i w s) = userIdByWalletAddress s"
  "walletBindingsByUserId (record_fee k rt ri fee now s) = walletBindingsByUserId s"
  "userIdByWalletAddress (record_fee k rt ri fee now s) = userIdByWalletAddress s"
  "accounts (record_fee k rt ri fee now s) = accounts s"
  "walletBindingsByUserId (enqueueOutboxEvent cfg et aty ai p now s) = walletBindingsByUserId s"
  "userIdByWalletAddress (enqueueOutboxEvent cfg et aty ai p now s) = userIdByWalletAddress s"
  "accounts (enqueueOutboxEvent cfg et aty ai p now s) = accounts s"
  "walletBindingsByUserId (update_event i f s) = walletBindingsByUserId s"
  "userIdByWalletAddress (update_event i f s) = userIdByWalletAddress s"
  by (simp_all add: write_account_def write_withdrawal_def record_fee_def enqueueOutboxEvent_def Let_def
      update_event_def split: option.split)

lemma publish_sel_bindings [simp]:
  "walletBindingsByUserId (snd (publishWithdrawal cfg i w now r s)) = walletBindingsByUserId s"
  "userIdByWalletAddress (snd (publishWithdrawal cfg i w now r s)) = userIdByWalletAddress s"
  "accounts (snd (publishWithdrawal cfg i w now r s)) = accounts s"
  by (simp_all add: publishWithdrawal_def split: sum.split)

text \<open>Two accounts may be written in a transfer.\<close>

lemma same_bindings_accounts:
  assumes "walletBindingsByUserId t = walletBindingsByUserId s" and "userIdByWalletAddress t = userIdByWalletAddress s"
    and "\<And>u a. cached_ok s \<Longrightarrow> map_get (accounts t) u = Some a \<Longrightarrow> acc_walletAddress a = bound_address s u"
  shows "same_bindings s t"
proof -
  have "cached_ok t" if "cached_ok s"
    unfolding cached_ok_def bound_address_def assms(1) using assms(3) [OF that] by (simp add: bound_address_def)
  then show ?thesis by (simp add: same_bindings_def assms(1,2))
qed

lemma cached_get: "cached_ok s \<Longrightarrow> map_get (accounts s) u = Some a \<Longrightarrow> acc_walletAddress a = bound_address s u"
  by (simp add: cached_ok_def)

lemma bindings_getAccount: "same_bindings s (snd (getAccount u now s))"
  by (simp add: getAccount_def Let_def account_for_def [symmetric] account_for_address)

lemma bindings_getAccountByWalletAddress: "same_bindings s (snd (getAccountByWalletAddress a now s))"
  by (simp add: getAccountByWalletAddress_def bindings_getAccount split: sum.split)

lemma bindings_completeDeposit: "same_bindings s (snd (completeDeposit i s))"
  by (rule same_bindings_eq) (simp_all add: completeDeposit_def Let_def split: option.split)

lemma bindings_credit: "same_bindings s (snd (applyExternalCredit cinp now s))"
  by (rule same_bindings_accounts)
    (auto simp: applyExternalCredit_def getMutableAccount_write Let_def cached_get account_for_address
      split: option.splits if_splits)

lemma bindings_deposit: "same_bindings s (snd (applyDeposit cfg dinp now s))"
proof (cases "map_get (depositsByTxHash s) (di_txHash dinp)")
  case (Some d)
  then show ?thesis by (simp add: applyDeposit_def)
next
  case None
  let ?u = "di_userId dinp"
  let ?a = "(account_for ?u now s)\<lparr>acc_balance := balance_of s ?u + di_amount dinp, acc_updatedAt := now\<rparr>"
  have eqs: "accounts (snd (applyDeposit cfg dinp now s)) = map_set ?u ?a (accounts s)"
    "walletBindingsByUserId (snd (applyDeposit cfg dinp now s)) = walletBindingsByUserId s"
    "userIdByWalletAddress (snd (applyDeposit cfg dinp now s)) = userIdByWalletAddress s"
    by (simp_all add: applyDeposit_def None getMutableAccount_write Let_def split: sum.split)
  have "same_bindings s (write_account ?u ?a s)" by (simp add: account_for_address)
  then show ?thesis using eqs by (rule same_bindings_after_write)
qed

lemma bindings_transfer: "same_bindings s (snd (transfer cfg f g amount key now s))"
proof (cases "map_get (transferByIdempotencyKey s) key \<noteq> None \<or> f = g \<or> balance_of s f < amount")
  case True
  from transfer_other_state [OF True, of cfg now] show ?thesis
    by (auto intro!: same_bindings_accounts simp: cached_get account_for_address split: if_splits)
next
  case False
  then show ?thesis
    by (auto intro!: same_bindings_accounts simp: transfer_ok_state transfer_state_def cached_get
        account_for_address split: if_splits)
qed

lemma bindings_withdrawals:
  "same_bindings s (snd (requestWithdrawal cfg winp now s))"
  "same_bindings s (snd (confirmWithdrawalExternalAuth cfg i p r now s))"
  "same_bindings s (snd (markWithdrawalReviewRequired i now s))"
  "same_bindings s (snd (approveWithdrawal cfg i ainp now s))"
  "same_bindings s (snd (broadcastWithdrawal cfg i h now s))"
  "same_bindings s (snd (confirmWithdrawal cfg i fee now s))"
  "same_bindings s (snd (failWithdrawal cfg i reason now s))"
  by (rule same_bindings_accounts;
      auto simp: requestWithdrawal_def wd_ops cached_get account_for_address split: option.splits if_splits)+

text \<open>The operations outside the money core.\<close>

lemma update_sweep_bindings [simp]:
  "walletBindingsByUserId (snd (update_sweep i acc msg f s)) = walletBindingsByUserId s"
  "userIdByWalletAddress (snd (update_sweep i acc msg f s)) = userIdByWalletAddress s"
  by (rule update_sweep_cases [of s i acc msg f]; simp)+

lemma confirmSweep_bindings [simp]:
  "walletBindingsByUserId (snd (confirmSweep i p now s)) = walletBindingsByUserId s \<and>
   userIdByWalletAddress (snd (confirmSweep i p now s)) = userIdByWalletAddress s"
proof -
  obtain r t where u: "update_sweep i {SW_planned, SW_broadcasted} ''sweep must be planned or broadcasted''
      (\<lambda>w. w\<lparr>sw_status := SW_confirmed, sw_note := coalesce_opt (Option.bind p sf_note) (sw_note w),
             sw_confirmedAt := Some now\<rparr>) s = (r, t)" (is "?u = _") by (cases ?u)
  have "walletBindingsByUserId (snd ?u) = walletBindingsByUserId s"
    "userIdByWalletAddress (snd ?u) = userIdByWalletAddress s" by (rule update_sweep_bindings)+
  then have "walletBindingsByUserId t = walletBindingsByUserId s"
    "userIdByWalletAddress t = userIdByWalletAddress s" unfolding u by simp_all
  then show ?thesis by (simp add: confirmSweep_def u split: sum.split option.split)
qed

definition bindings_of :: "ledger \<Rightarrow> wallet_binding jsmap \<times> string jsmap" where
  "bindings_of s = (walletBindingsByUserId s, userIdByWalletAddress s)"

lemma bindings_of_others:
  "bindings_of (snd (enqueueJob cfg ty p now s)) = bindings_of s"
  "bindings_of (snd (claimPendingJobs tys n s)) = bindings_of s" "bindings_of (markJobDone i s) = bindings_of s"
  "bindings_of (markJobFailed i s) = bindings_of s" "bindings_of (snd (retryJob i s)) = bindings_of s"
  "bindings_of (snd (appendAuditLog cfg auinp now s)) = bindings_of s"
  "bindings_of (snd (createSweepRecord cfg sinp now s)) = bindings_of s"
  "bindings_of (snd (markSweepQueued i note now s)) = bindings_of s"
  "bindings_of (snd (recordSweepAttempt i note now s)) = bindings_of s"
  "bindings_of (snd (markSweepBroadcasted i h note now s)) = bindings_of s"
  "bindings_of (snd (confirmSweep i sc now s)) = bindings_of s"
  "bindings_of (snd (failSweep i reason now s)) = bindings_of s"
  "bindings_of (snd (claimPendingOutboxEvents n now s)) = bindings_of s"
  "bindings_of (markOutboxEventPublished i now s) = bindings_of s"
  "bindings_of (rescheduleOutboxEvent i err av s) = bindings_of s"
  "bindings_of (deadLetterOutboxEvent i err av s) = bindings_of s"
  "bindings_of (snd (replayOutboxEvents ids st lm now s)) = bindings_of s"
  "bindings_of (snd (recoverStaleProcessingOutboxEvents tmo now s)) = bindings_of s"
  "bindings_of (snd (acknowledgeDeadLetterOutboxEvents ak now s)) = bindings_of s"
  "bindings_of (appendEventConsumerAttempt cfg a now s) = bindings_of s"
  "bindings_of (appendEventConsumerDeadLetter cfg d now s) = bindings_of s"
  "bindings_of (upsertEventConsumerCheckpoint c k ty' ag cst now s) = bindings_of s"
  by (simp_all add: bindings_of_def enqueueJob_def claimPendingJobs_def markJobDone_def markJobFailed_def
      set_job_status_def retryJob_def appendAuditLog_def createSweepRecord_def markSweepQueued_def
      recordSweepAttempt_def markSweepBroadcasted_def failSweep_def outbox_defs
      appendEventConsumerAttempt_def appendEventConsumerDeadLetter_def upsertEventConsumerCheckpoint_def
      split: option.split)

lemma bindings_core: "same_core s t \<Longrightarrow> bindings_of t = bindings_of s \<Longrightarrow> same_bindings s t"
  by (rule same_bindings_eq) (simp_all add: same_core_def core_def bindings_of_def)

lemma cached_bind:
  assumes "cached_ok s"
  shows "cached_ok (snd (bindWalletAddress u a now s))"
  using assms
  by (auto simp: bindWalletAddress_def Let_def cached_ok_def bound_address_def write_account_def
      split: option.splits if_splits)

definition wallets_ok :: "ledger \<Rightarrow> bool" where
  "wallets_ok s = (bindings_ok s \<and> cached_ok s)"

lemma wallets_ok_same: "wallets_ok s \<Longrightarrow> same_bindings s t \<Longrightarrow> wallets_ok t"
  by (simp add: wallets_ok_def same_bindings_def bindings_ok_def bound_address_def)

lemma wallets_ok_bind: "wallets_ok s \<Longrightarrow> u \<noteq> '''' \<Longrightarrow> wallets_ok (snd (bindWalletAddress u a now s))"
  by (simp add: wallets_ok_def bindings_ok_bind cached_bind)

lemma wallets_ok_step:
  assumes "ledger_step cfg s t" and "wallets_ok s"
  shows "wallets_ok t"
  using assms by cases
    (blast intro: wallets_ok_bind wallets_ok_same bindings_getAccount bindings_getAccountByWalletAddress
       bindings_completeDeposit bindings_credit bindings_deposit bindings_transfer bindings_withdrawals
       bindings_core core_steps bindings_of_others)+

lemma wallets_ok_empty: "wallets_ok empty_ledger"
  by (simp add: wallets_ok_def bindings_ok_def cached_ok_def bound_address_def empty_ledger_def)

interpretation lw: invariant_system "\<lambda>s. s = empty_ledger" "ledger_step cfg" wallets_ok for cfg
  by unfold_locales (auto intro: wallets_ok_empty wallets_ok_step)

lemma reachable_wallets: "reachable_ledger cfg s \<Longrightarrow> wallets_ok s"
  using lw.inv_reachable [OF refl, of cfg s] by (simp add: reachable_ledger_def ledger_steps_def)

end
