(* ===== verification/LedgerDemo.thy ===== *)
theory LedgerDemo
  imports LedgerBindings
begin

text \<open>
  A concrete configuration and a concrete run of the ledger: a deposit, a withdrawal that two
  administrators approve, its broadcast and confirmation, and a second one that fails.  The
  witnesses of the properties are stated on these states.
\<close>

definition demo_cfg :: ledger_cfg where
  "demo_cfg =
     \<lparr>singleLimit = 4000000, dailyLimit = 6000000, uuid = (\<lambda>n. CHR ''u'' # dec n), systemId = ''coin'',
      hmac = (\<lambda>m. replicate 64 (CHR ''a'')), isDatetime = iso_shape\<rparr>"

lemma dec_inject: "dec m = dec n \<Longrightarrow> m = n"
  by (metis digits_val_dec of_nat_eq_iff)

lemma demo_uuid_ok: "uuid_ok demo_cfg"
  by (auto simp: uuid_ok_def demo_cfg_def inj_def dest: dec_inject)

definition demo_now :: string where
  "demo_now = ''2026-03-12T12:05:00.000Z''"

definition demo_deposit :: deposit_input where
  "demo_deposit =
     \<lparr>di_userId = ''alice'', di_amount = 5000000, di_txHash = ''0xdeposit1'', di_toAddress = Some ''TDeposit'',
      di_walletAddress = None, di_blockNumber = 10\<rparr>"

definition demo_request :: "int \<Rightarrow> string \<Rightarrow> withdrawal_input" where
  "demo_request amount key =
     \<lparr>wi_userId = ''alice'', wi_amount = amount, wi_toAddress = ''TDest'', wi_idempotencyKey = key,
      wi_riskLevel = Some RL_medium, wi_riskScore = Some 40, wi_riskFlags = Some [''new_destination''],
      wi_requiredApprovals = Some 2, wi_clientIp = None, wi_deviceId = None\<rparr>"

definition demo_approval :: "string \<Rightarrow> approval_input" where
  "demo_approval admin = \<lparr>ai_adminId = admin, ai_actorType = AT_admin, ai_reasonCode = None, ai_note = None\<rparr>"

definition demo_deposited :: ledger where
  "demo_deposited = snd (applyDeposit demo_cfg demo_deposit demo_now empty_ledger)"

definition demo_requested :: ledger where
  "demo_requested = snd (requestWithdrawal demo_cfg (demo_request 2000000 ''key-1'') demo_now demo_deposited)"

definition demo_pending :: ledger where
  "demo_pending = snd (confirmWithdrawalExternalAuth demo_cfg ''u4'' ''otp'' ''req-1'' demo_now demo_requested)"

definition demo_approved1 :: ledger where
  "demo_approved1 = snd (approveWithdrawal demo_cfg ''u4'' (demo_approval ''admin-1'') demo_now demo_pending)"

definition demo_approved :: ledger where
  "demo_approved = snd (approveWithdrawal demo_cfg ''u4'' (demo_approval ''admin-2'') demo_now demo_approved1)"

definition demo_broadcasted :: ledger where
  "demo_broadcasted = snd (broadcastWithdrawal demo_cfg ''u4'' ''0xabcdef12'' demo_now demo_approved)"

definition demo_fee :: network_fee where
  "demo_fee = \<lparr>fee_txHash = ''0xabcdef12'', fee_feeSun = 345000, fee_energyUsed = 64000, fee_bandwidthUsed = 345\<rparr>"

definition demo_completed :: ledger where
  "demo_completed = snd (confirmWithdrawal demo_cfg ''u4'' (Some demo_fee) demo_now demo_broadcasted)"

lemma demo_steps:
  "ledger_steps demo_cfg empty_ledger demo_deposited" "ledger_steps demo_cfg demo_deposited demo_requested"
  "ledger_steps demo_cfg demo_requested demo_pending" "ledger_steps demo_cfg demo_pending demo_approved1"
  "ledger_steps demo_cfg demo_approved1 demo_approved" "ledger_steps demo_cfg demo_approved demo_broadcasted"
  "ledger_steps demo_cfg demo_broadcasted demo_completed"
  by (simp_all add: ledger_steps_def r_into_rtranclp step_applyDeposit step_request step_externalAuth
      step_approve step_broadcast step_confirm demo_deposited_def demo_requested_def demo_pending_def
      demo_approved1_def demo_approved_def demo_broadcasted_def demo_completed_def demo_deposit_def demo_request_def)

lemma demo_reachable:
  "reachable_ledger demo_cfg demo_deposited" "reachable_ledger demo_cfg demo_requested"
  "reachable_ledger demo_cfg demo_pending" "reachable_ledger demo_cfg demo_approved1"
  "reachable_ledger demo_cfg demo_approved" "reachable_ledger demo_cfg demo_broadcasted"
  "reachable_ledger demo_cfg demo_completed"
  using demo_steps demo_uuid_ok unfolding reachable_ledger_def by (blast intro: ledger_steps_trans)+

text \<open>The withdrawal of the run at its stages.\<close>

lemma demo_uuid [simp]: "uuid demo_cfg n = CHR ''u'' # dec n"
  by (simp add: demo_cfg_def)

lemma demo_admitted:
  "request_admitted demo_cfg (demo_request 2000000 ''key-1'') demo_now demo_deposited"
  by code_simp

lemma demo_count: "uuidCount demo_deposited = 3"
  by code_simp

lemma dec_small [simp]: "dec 0 = ''0''" "dec 3 = ''3''" "dec 4 = ''4''"
  by code_simp+

definition demo_w :: withdrawal where
  "demo_w = new_withdrawal (demo_request 2000000 ''key-1'') ''u4'' ''u3'' demo_now"

lemma demo_requested_w: "map_get (withdrawals demo_requested) ''u4'' = Some demo_w"
  by (simp add: demo_requested_def request_admitted_result [OF demo_admitted] request_state_def Let_def
      demo_count demo_w_def)


lemma demo_w_sel [simp]:
  "wd_status demo_w = LEDGER_RESERVED" "wd_userId demo_w = ''alice''" "wd_amount demo_w = 2000000"
  "wd_ledgerTxId demo_w = ''u3''" "wd_requiredApprovals demo_w = 2" "wd_withdrawalId demo_w = ''u4''"
  "wd_idempotencyKey demo_w = ''key-1''" "wd_createdAt demo_w = demo_now"
  by (simp_all add: demo_w_def demo_request_def new_withdrawal_def)

definition demo_w_pending :: withdrawal where
  "demo_w_pending = demo_w\<lparr>wd_status := PENDING_ADMIN, wd_externalAuthProvider := Some ''otp'',
     wd_externalAuthRequestId := Some ''req-1'', wd_externalAuthConfirmedAt := Some demo_now\<rparr>"

lemma demo_pending_w: "map_get (withdrawals demo_pending) ''u4'' = Some demo_w_pending"
  by (simp add: demo_pending_def confirmWithdrawalExternalAuth_def getMutableWithdrawal_def demo_requested_w
      demo_w_pending_def Let_def)

lemma publish_approvals [simp]:
  "approvalsByWithdrawalId (snd (publishWithdrawal cfg i w now r s)) = approvalsByWithdrawalId s"
  using same_core_publish [of s cfg i w now r] by (simp add: same_core_def core_def)

lemma demo_pending_approvals: "map_get (approvalsByWithdrawalId demo_pending) ''u4'' = Some []"
  by (simp add: demo_pending_def confirmWithdrawalExternalAuth_def getMutableWithdrawal_def demo_requested_w Let_def)
    (simp add: demo_requested_def request_admitted_result [OF demo_admitted] request_state_def Let_def demo_count)

definition demo_w_approved1 :: withdrawal where
  "demo_w_approved1 = demo_w_pending\<lparr>wd_approvalCount := 1\<rparr>"

lemma demo_approved1_w:
  "map_get (withdrawals demo_approved1) ''u4'' = Some demo_w_approved1"
  "map_option (map wa_adminId) (map_get (approvalsByWithdrawalId demo_approved1) ''u4'') = Some [''admin-1'']"
  by (simp_all add: demo_approved1_def approveWithdrawal_def getMutableWithdrawal_def demo_pending_w
      demo_pending_approvals demo_w_approved1_def demo_w_pending_def Let_def demo_approval_def)

definition demo_w_approved :: withdrawal where
  "demo_w_approved = demo_w_approved1\<lparr>wd_approvalCount := 2, wd_status := ADMIN_APPROVED, wd_approvedAt := Some demo_now\<rparr>"

lemma demo_approved_w: "map_get (withdrawals demo_approved) ''u4'' = Some demo_w_approved"
proof -
  obtain a where "map_get (approvalsByWithdrawalId demo_approved1) ''u4'' = Some [a]" "wa_adminId a = ''admin-1''"
    using demo_approved1_w(2) by auto
  then show ?thesis
    by (simp add: demo_approved_def approveWithdrawal_def getMutableWithdrawal_def demo_approved1_w(1)
        demo_w_approved_def demo_w_approved1_def demo_w_pending_def Let_def demo_approval_def)
qed

definition demo_w_broadcasted :: withdrawal where
  "demo_w_broadcasted = demo_w_approved\<lparr>wd_status := TX_BROADCASTED, wd_txHash := Some ''0xabcdef12'',
     wd_broadcastedAt := Some demo_now\<rparr>"

lemma demo_broadcasted_w: "map_get (withdrawals demo_broadcasted) ''u4'' = Some demo_w_broadcasted"
  by (simp add: demo_broadcasted_def broadcastWithdrawal_def getMutableWithdrawal_def demo_approved_w
      demo_w_broadcasted_def demo_w_approved_def Let_def)

lemma demo_status:
  "wd_status demo_w_pending = PENDING_ADMIN" "wd_status demo_w_approved = ADMIN_APPROVED"
  "wd_status demo_w_broadcasted = TX_BROADCASTED"
  by (simp_all add: demo_w_pending_def demo_w_approved_def demo_w_broadcasted_def)

end
