(* ===== verification/LedgerProperties.thy ===== *)
theory LedgerProperties
  imports LedgerDemo
begin

text \<open>
  The properties of the ledger: money, limits, idempotency, the lives of withdrawals and sweeps, the
  approvals, the wallet bindings and the stores, each over every reachable state of the machine in
  \<open>LedgerMachine\<close>.  A witness applies a property to the run of \<open>LedgerDemo\<close>.
\<close>

section \<open>Auxiliary facts\<close>

lemma summary_liability: "ls_liabilityBalance (getLedgerSummary s) = liability s"
  by (simp add: getLedgerSummary_def Let_def sumBigInt_vals liability_def)
    (simp add: sum_vals_def sum_list_addf)

lemma liability_same_core: "same_core s t \<Longrightarrow> liability t = liability s"
  by (simp add: same_core_def core_def liability_def)

lemma balances_same_core:
  "same_core s t \<Longrightarrow> balance_of t u = balance_of s u" "same_core s t \<Longrightarrow> locked_of t u = locked_of s u"
  by (simp_all add: same_core_def core_def balance_of_def locked_of_def)

lemma paid_out_same_core: "same_core s t \<Longrightarrow> paid_out t = paid_out s"
  by (simp add: same_core_def core_def paid_out_def)

lemma publish_result:
  "fst (publishWithdrawal cfg i w now r s) = Inr r \<or> fst (publishWithdrawal cfg i w now r s) = Inl (ZodError ''invalid ledger contract'')"
  by (auto simp: publishWithdrawal_def buildWithdrawalStateChangedContract_def z_parse_def)

text \<open>What a confirmation and a failure do when their status guard holds.\<close>

lemma confirm_effect:
  assumes "ledger_inv cfg s" and "map_get (withdrawals s) i = Some w" and "wd_status w = TX_BROADCASTED"
  obtains s4 where "confirmWithdrawal cfg i fee now s
      = publishWithdrawal cfg i (w\<lparr>wd_status := COMPLETED, wd_confirmedAt := Some now\<rparr>) now
          (w\<lparr>wd_status := COMPLETED, wd_confirmedAt := Some now\<rparr>) s4"
    "withdrawals s4 = map_set i (w\<lparr>wd_status := COMPLETED, wd_confirmedAt := Some now\<rparr>) (withdrawals s)"
    "accounts s4 = map_set (wd_userId w) ((account_for (wd_userId w) now s)
       \<lparr>acc_lockedBalance := locked_of s (wd_userId w) - wd_amount w, acc_updatedAt := now\<rparr>) (accounts s)"
proof -
  note I = ledger_invD [OF assms(1)]
  obtain tx where tx: "map_get (transactions s) (wd_ledgerTxId w) = Some tx"
    using stored_withdrawal [OF I(3) assms(2)] by metis
  let ?v = "w\<lparr>wd_status := COMPLETED, wd_confirmedAt := Some now\<rparr>"
  let ?s3 = "write_withdrawal i ?v ((write_account (wd_userId w) ((account_for (wd_userId w) now s)
       \<lparr>acc_lockedBalance := locked_of s (wd_userId w) - wd_amount w, acc_updatedAt := now\<rparr>) s)
       \<lparr>transactions := map_set (wd_ledgerTxId w) (tx\<lparr>tx_status := TS_confirmed, tx_blockTx := wd_txHash w\<rparr>)
          (transactions s)\<rparr>)"
  have "\<not> locked_of s (wd_userId w) < wd_amount w"
    using locked_covers [OF assms(1,2)] assms(3) by simp
  then have c: "confirmWithdrawal cfg i fee now s
      = (case fee of
           None \<Rightarrow> publishWithdrawal cfg i ?v now ?v ?s3
         | Some f \<Rightarrow> publishWithdrawal cfg i ?v now ?v
             (if truthy (wd_txHash w)
              then record_fee (fee_key i (the (wd_txHash w))) FR_withdrawal i f now ?s3 else ?s3))"
    using assms(3) tx
    by (simp add: confirmWithdrawal_def getMutableWithdrawal_Some [OF assms(2)] getMutableAccount_write
        Let_def split: option.split)
  show ?thesis
  proof (cases fee)
    case None
    with c show ?thesis by (intro that [of ?s3]) simp_all
  next
    case (Some f)
    with c show ?thesis
      by (intro that [of "if truthy (wd_txHash w)
          then record_fee (fee_key i (the (wd_txHash w))) FR_withdrawal i f now ?s3 else ?s3"])
        (simp_all add: record_fee_def)
  qed
qed

lemma fail_effect:
  assumes "ledger_inv cfg s" and "map_get (withdrawals s) i = Some w" and "active_status (wd_status w)"
  obtains s4 where "failWithdrawal cfg i reason now s
      = publishWithdrawal cfg i (w\<lparr>wd_status := FAILED, wd_failedAt := Some now, wd_failReason := Some reason\<rparr>) now
          (w\<lparr>wd_status := FAILED, wd_failedAt := Some now, wd_failReason := Some reason\<rparr>) s4"
    "withdrawals s4 = map_set i (w\<lparr>wd_status := FAILED, wd_failedAt := Some now, wd_failReason := Some reason\<rparr>)
       (withdrawals s)"
    "accounts s4 = map_set (wd_userId w) ((account_for (wd_userId w) now s)
       \<lparr>acc_lockedBalance := locked_of s (wd_userId w) - wd_amount w,
        acc_balance := balance_of s (wd_userId w) + wd_amount w, acc_updatedAt := now\<rparr>) (accounts s)"
proof -
  note I = ledger_invD [OF assms(1)]
  obtain tx where tx: "map_get (transactions s) (wd_ledgerTxId w) = Some tx"
    using stored_withdrawal [OF I(3) assms(2)] by metis
  let ?s3 = "write_withdrawal i (w\<lparr>wd_status := FAILED, wd_failedAt := Some now, wd_failReason := Some reason\<rparr>)
      ((write_account (wd_userId w) ((account_for (wd_userId w) now s)
       \<lparr>acc_lockedBalance := locked_of s (wd_userId w) - wd_amount w,
        acc_balance := balance_of s (wd_userId w) + wd_amount w, acc_updatedAt := now\<rparr>) s)
       \<lparr>transactions := map_set (wd_ledgerTxId w) (tx\<lparr>tx_status := TS_failed\<rparr>) (transactions s)\<rparr>)"
  have "\<not> locked_of s (wd_userId w) < wd_amount w"
    using locked_covers [OF assms] by simp
  moreover have "wd_status w \<in> {LEDGER_RESERVED, PENDING_ADMIN, ADMIN_APPROVED, TX_BROADCASTED}"
    using assms(3) by (cases "wd_status w") simp_all
  ultimately show ?thesis
    using tx by (intro that [of ?s3]) (simp_all add: failWithdrawal_def getMutableWithdrawal_Some [OF assms(2)]
        getMutableAccount_write Let_def)
qed

lemma liability_transfer_state:
  assumes "f \<noteq> g"
  shows "liability (transfer_state cfg f g amount key now s) = liability s"
proof -
  let ?w = "write_account g ((account_for g now s)\<lparr>acc_balance := balance_of s g + amount, acc_updatedAt := now\<rparr>)
       (write_account f ((account_for f now s)\<lparr>acc_balance := balance_of s f - amount, acc_updatedAt := now\<rparr>)
         (write_account g (account_for g now s) (write_account f (account_for f now s) s)))"
  have "liability (transfer_state cfg f g amount key now s) = liability ?w"
    by (simp add: liability_def transfer_state_def)
  also have "\<dots> = liability s" using assms by (simp add: liability_write)
  finally show ?thesis .
qed

section \<open>Money\<close>

text \<open>C2. In every reachable state what the ledger owes its users, the liability of the summary, is what
  was deposited plus what was credited minus what completed withdrawals paid out.\<close>

theorem ledger_conservation:
  assumes "reachable_ledger cfg s"
  shows "ls_liabilityBalance (getLedgerSummary s) = deposited s + credited s - paid_out s"
  using ledger_invD(8) [OF reachable_inv [OF assms]] by (simp add: summary_liability money_ok_def)

theorem ledger_conservation_witness:
  "ls_liabilityBalance (getLedgerSummary demo_completed)
     = deposited demo_completed + credited demo_completed - paid_out demo_completed"
  by (rule ledger_conservation [OF demo_reachable(7)])

text \<open>C5. In every reachable state no balance is negative and the locked balance of a user is exactly
  the sum of the amounts of the user's active withdrawals.\<close>

theorem locked_is_reserved:
  assumes "reachable_ledger cfg s"
  shows "0 \<le> balance_of s u \<and> 0 \<le> locked_of s u \<and>
    locked_of s u = sum_list (map wd_amount (filter (\<lambda>w. wd_userId w = u \<and>
       wd_status w \<in> set ACTIVE_WITHDRAWAL_STATUSES) (map_values (withdrawals s))))"
proof -
  note I = ledger_invD [OF reachable_inv [OF assms]]
  have "locked_of s u = reserved s u" using I(2) by (simp add: locks_ok_def)
  with balance_nonneg [OF I(1), of u] locked_nonneg [OF I(1), of u] show ?thesis
    unfolding sum_vals_filter reserved_def active_status_def by blast
qed

theorem locked_is_reserved_witness:
  "locked_of demo_pending ''alice'' = sum_list (map wd_amount (filter (\<lambda>w. wd_userId w = ''alice'' \<and>
     wd_status w \<in> set ACTIVE_WITHDRAWAL_STATUSES) (map_values (withdrawals demo_pending))))"
  using locked_is_reserved [OF demo_reachable(3), of "''alice''"] by blast

text \<open>C24. Confirming a broadcast withdrawal never meets corrupted state: it completes the withdrawal,
  takes its amount out of the locked balance, leaves the available balance, and pays it out.\<close>

theorem confirm_settles:
  assumes "reachable_ledger cfg s" and "map_get (withdrawals s) i = Some w" and "wd_status w = TX_BROADCASTED"
    and "confirmWithdrawal cfg i fee now s = (r, t)"
  shows "r \<noteq> Inl (DomainError 500 ''STATE_CORRUPTED'' ''locked balance underflow'') \<and>
    r \<noteq> Inl (DomainError 500 ''STATE_CORRUPTED'' ''withdraw transaction missing'') \<and>
    map_get (withdrawals t) i = Some (w\<lparr>wd_status := COMPLETED, wd_confirmedAt := Some now\<rparr>) \<and>
    locked_of t (wd_userId w) = locked_of s (wd_userId w) - wd_amount w \<and>
    balance_of t (wd_userId w) = balance_of s (wd_userId w) \<and> paid_out t = paid_out s + wd_amount w"
proof -
  note inv = reachable_inv [OF assms(1)]
  obtain s4 where c: "confirmWithdrawal cfg i fee now s
      = publishWithdrawal cfg i (w\<lparr>wd_status := COMPLETED, wd_confirmedAt := Some now\<rparr>) now
          (w\<lparr>wd_status := COMPLETED, wd_confirmedAt := Some now\<rparr>) s4" (is "_ = ?p")
    and ws: "withdrawals s4 = map_set i (w\<lparr>wd_status := COMPLETED, wd_confirmedAt := Some now\<rparr>) (withdrawals s)"
    and acc: "accounts s4 = map_set (wd_userId w) ((account_for (wd_userId w) now s)
       \<lparr>acc_lockedBalance := locked_of s (wd_userId w) - wd_amount w, acc_updatedAt := now\<rparr>) (accounts s)"
    using confirm_effect [OF inv assms(2,3)] by blast
  have p: "?p = (r, t)" using c assms(4) by simp
  have f: "same_core s4 t" using same_core_publish by (metis p snd_conv)
  have "r = Inr (w\<lparr>wd_status := COMPLETED, wd_confirmedAt := Some now\<rparr>) \<or> r = Inl (ZodError ''invalid ledger contract'')"
    using publish_result by (metis p fst_conv)
  moreover have "withdrawals t = withdrawals s4" using f by (simp add: same_core_def core_def)
  moreover have "paid_out s4 = paid_out s + wd_amount w"
    using assms(2,3) by (simp add: paid_out_def ws sum_vals_set)
  ultimately show ?thesis
    by (auto simp: balances_same_core [OF f] paid_out_same_core [OF f] balance_of_set [OF acc]
        locked_of_set [OF acc] ws)
qed

theorem confirm_settles_witness:
  "locked_of demo_completed ''alice'' = locked_of demo_broadcasted ''alice'' - 2000000 \<and>
   paid_out demo_completed = paid_out demo_broadcasted + 2000000"
  using confirm_settles [OF demo_reachable(6) demo_broadcasted_w demo_status(3) surjective_pairing,
      of "Some demo_fee" demo_now]
  by (simp add: demo_completed_def demo_w_broadcasted_def demo_w_approved_def demo_w_approved1_def demo_w_pending_def)

text \<open>C25. Failing an active withdrawal gives the whole amount back: it moves from the locked to the
  available balance, the liability does not change, and no corrupted state is met.\<close>

theorem fail_refunds:
  assumes "reachable_ledger cfg s" and "map_get (withdrawals s) i = Some w"
    and "wd_status w \<in> set ACTIVE_WITHDRAWAL_STATUSES" and "failWithdrawal cfg i reason now s = (r, t)"
  shows "balance_of t (wd_userId w) = balance_of s (wd_userId w) + wd_amount w \<and>
    locked_of t (wd_userId w) = locked_of s (wd_userId w) - wd_amount w \<and> liability t = liability s \<and>
    map_get (withdrawals t) i
      = Some (w\<lparr>wd_status := FAILED, wd_failedAt := Some now, wd_failReason := Some reason\<rparr>) \<and>
    (\<forall>m. r \<noteq> Inl (DomainError 500 ''STATE_CORRUPTED'' m))"
proof -
  note inv = reachable_inv [OF assms(1)]
  have act: "active_status (wd_status w)" using assms(3) by (simp add: active_status_def)
  let ?v = "w\<lparr>wd_status := FAILED, wd_failedAt := Some now, wd_failReason := Some reason\<rparr>"
  obtain s4 where c: "failWithdrawal cfg i reason now s = publishWithdrawal cfg i ?v now ?v s4" (is "_ = ?p")
    and ws: "withdrawals s4 = map_set i ?v (withdrawals s)"
    and acc: "accounts s4 = map_set (wd_userId w) ((account_for (wd_userId w) now s)
       \<lparr>acc_lockedBalance := locked_of s (wd_userId w) - wd_amount w,
        acc_balance := balance_of s (wd_userId w) + wd_amount w, acc_updatedAt := now\<rparr>) (accounts s)"
    using fail_effect [OF inv assms(2) act] by blast
  have p: "?p = (r, t)" using c assms(4) by simp
  have f: "same_core s4 t" using same_core_publish by (metis p snd_conv)
  have "r = Inr ?v \<or> r = Inl (ZodError ''invalid ledger contract'')" using publish_result by (metis p fst_conv)
  moreover have "withdrawals t = withdrawals s4" using f by (simp add: same_core_def core_def)
  ultimately show ?thesis
    by (auto simp: balances_same_core [OF f] liability_same_core [OF f] liability_set [OF acc]
        balance_of_set [OF acc] locked_of_set [OF acc] ws)
qed

theorem fail_refunds_witness:
  "balance_of (snd (failWithdrawal demo_cfg ''u4'' ''rejected by chain'' demo_now demo_broadcasted)) ''alice''
     = balance_of demo_broadcasted ''alice'' + 2000000"
  using fail_refunds [OF demo_reachable(6) demo_broadcasted_w _ surjective_pairing, of "''rejected by chain''" demo_now]
  by (simp add: demo_status ACTIVE_WITHDRAWAL_STATUSES_def)
    (simp add: demo_w_broadcasted_def demo_w_approved_def demo_w_approved1_def demo_w_pending_def)


section \<open>Requests and their limits\<close>

text \<open>C26. A withdrawal request that is accepted as new is within the single limit, the daily limit and the
  available balance; it moves the amount from the available to the locked balance and stores a
  withdrawal in status \<open>LEDGER_RESERVED\<close> under its idempotency key.\<close>

theorem request_reserves:
  assumes "reachable_ledger cfg s" and "requestWithdrawal cfg inp now s = (Inr r, t)" and "\<not> wr_duplicated r"
  shows "wi_amount inp \<le> singleLimit cfg \<and>
    getDailyRequestedWithdrawalAmount (wi_userId inp) now s + wi_amount inp \<le> dailyLimit cfg \<and>
    wi_amount inp \<le> balance_of s (wi_userId inp) \<and>
    balance_of t (wi_userId inp) = balance_of s (wi_userId inp) - wi_amount inp \<and>
    locked_of t (wi_userId inp) = locked_of s (wi_userId inp) + wi_amount inp \<and>
    wd_status (wr_withdrawal r) = LEDGER_RESERVED \<and>
    map_get (withdrawals t) (wd_withdrawalId (wr_withdrawal r)) = Some (wr_withdrawal r) \<and>
    map_get (withdrawalByIdempotencyKey t) (wi_idempotencyKey inp) = Some (wd_withdrawalId (wr_withdrawal r))"
proof -
  have ok: "request_admitted cfg inp now s"
    using assms(2,3) by (auto simp: requestWithdrawal_def request_admitted_def getMutableAccount_write Let_def
        split: option.splits if_splits)
  let ?w = "new_withdrawal inp (uuid cfg (uuidCount s + 1)) (uuid cfg (uuidCount s)) now"
  have p: "publishWithdrawal cfg (uuid cfg (uuidCount s + 1)) ?w now \<lparr>wr_withdrawal = ?w, wr_duplicated = False\<rparr>
      (request_state cfg inp now s) = (Inr r, t)"
    using assms(2) by (simp add: request_admitted_result [OF ok] Let_def)
  have f: "same_core (request_state cfg inp now s) t" using same_core_publish by (metis p snd_conv)
  have r: "r = \<lparr>wr_withdrawal = ?w, wr_duplicated = False\<rparr>"
    using p by (auto simp: publishWithdrawal_def split: sum.splits)
  have "withdrawals t = withdrawals (request_state cfg inp now s)"
    "withdrawalByIdempotencyKey t = withdrawalByIdempotencyKey (request_state cfg inp now s)"
    using f by (simp_all add: same_core_def core_def)
  moreover have acc: "accounts (request_state cfg inp now s) = map_set (wi_userId inp)
      ((account_for (wi_userId inp) now s)\<lparr>acc_balance := balance_of s (wi_userId inp) - wi_amount inp,
         acc_lockedBalance := locked_of s (wi_userId inp) + wi_amount inp, acc_updatedAt := now\<rparr>) (accounts s)"
    "map_get (withdrawals (request_state cfg inp now s)) (wd_withdrawalId ?w) = Some ?w"
    "map_get (withdrawalByIdempotencyKey (request_state cfg inp now s)) (wi_idempotencyKey inp) = Some (wd_withdrawalId ?w)"
    by (simp_all add: request_state_def Let_def)
  ultimately show ?thesis
    using ok by (simp add: r balances_same_core [OF f] request_admitted_def balance_of_set [OF acc(1)]
        locked_of_set [OF acc(1)] del: new_withdrawal_sel(1))
qed

theorem request_reserves_witness:
  "wi_amount (demo_request 2000000 ''key-1'') \<le> singleLimit demo_cfg \<and>
   locked_of demo_requested ''alice'' = locked_of demo_deposited ''alice'' + 2000000"
proof -
  obtain r where r: "requestWithdrawal demo_cfg (demo_request 2000000 ''key-1'') demo_now demo_deposited
      = (Inr r, demo_requested)" "\<not> wr_duplicated r"
  proof -
    have "\<not> fails (fst (requestWithdrawal demo_cfg (demo_request 2000000 ''key-1'') demo_now demo_deposited))"
      by code_simp
    then obtain r where "requestWithdrawal demo_cfg (demo_request 2000000 ''key-1'') demo_now demo_deposited
        = (Inr r, demo_requested)"
      unfolding demo_requested_def
      by (cases "requestWithdrawal demo_cfg (demo_request 2000000 ''key-1'') demo_now demo_deposited")
        (auto simp: fails_def split: sum.splits)
    moreover from this have "\<not> wr_duplicated r"
      by (auto simp: request_admitted_result [OF demo_admitted] Let_def publishWithdrawal_def split: sum.splits)
    ultimately show ?thesis by (rule that)
  qed
  show ?thesis
    using request_reserves [OF demo_reachable(1) r] by (simp add: demo_request_def)
qed

text \<open>C27. The withdrawals of a user that count towards a calendar day, which are the active and the
  completed ones, never sum to more than the daily limit.\<close>

theorem daily_limit_respected:
  assumes "reachable_ledger cfg s"
  shows "getDailyRequestedWithdrawalAmount u now s \<le> max 0 (dailyLimit cfg)"
  using ledger_invD(7) [OF reachable_inv [OF assms]] by (simp add: daily_amount_eq daily_ok_def)

theorem daily_limit_respected_witness:
  "getDailyRequestedWithdrawalAmount ''alice'' demo_now demo_completed \<le> 6000000"
  using daily_limit_respected [OF demo_reachable(7), of "''alice''" demo_now] by (simp add: demo_cfg_def)

section \<open>Idempotency\<close>

text \<open>A request under a known idempotency key changes nothing and answers with the stored withdrawal
  as a duplicate; the index never points into the void.\<close>

theorem duplicate_request:
  assumes "reachable_ledger cfg s" and "map_get (withdrawalByIdempotencyKey s) (wi_idempotencyKey inp) = Some i"
  shows "\<exists>w. map_get (withdrawals s) i = Some w \<and> wd_idempotencyKey w = wi_idempotencyKey inp \<and>
    requestWithdrawal cfg inp now s = (Inr \<lparr>wr_withdrawal = w, wr_duplicated = True\<rparr>, s)"
proof -
  have "index_ok s" using ledger_invD(4) [OF reachable_inv [OF assms(1)]] .
  then obtain w where "i \<noteq> ''''" "map_get (withdrawals s) i = Some w" "wd_idempotencyKey w = wi_idempotencyKey inp"
    using assms(2) unfolding index_ok_def by blast
  then show ?thesis using assms(2) by (simp add: requestWithdrawal_def)
qed

theorem duplicate_request_witness:
  "requestWithdrawal demo_cfg (demo_request 1 ''key-1'') demo_now demo_requested
     = (Inr \<lparr>wr_withdrawal = demo_w, wr_duplicated = True\<rparr>, demo_requested)"
proof -
  have "map_get (withdrawalByIdempotencyKey demo_requested) (wi_idempotencyKey (demo_request 1 ''key-1'')) = Some ''u4''"
    by (simp add: demo_requested_def request_admitted_result [OF demo_admitted] Let_def demo_count)
      (simp add: request_state_def Let_def demo_count demo_request_def publishWithdrawal_def enqueueOutboxEvent_def
        split: sum.split)
  from duplicate_request [OF demo_reachable(2) this] show ?thesis
    by (simp add: demo_requested_w)
qed

text \<open>A transaction hash is credited once: after a deposit, any deposit under the same hash leaves the
  state as it is and answers with the stored deposit.\<close>

theorem deposit_credited_once:
  "\<exists>d. applyDeposit cfg (inp'\<lparr>di_txHash := di_txHash inp\<rparr>) now' (snd (applyDeposit cfg inp now s))
     = (Inr \<lparr>dr_deposit = d, dr_duplicated = True\<rparr>, snd (applyDeposit cfg inp now s))"
proof -
  have "map_get (depositsByTxHash (snd (applyDeposit cfg inp now s))) (di_txHash inp) \<noteq> None"
    by (cases "map_get (depositsByTxHash s) (di_txHash inp)")
      (simp_all add: applyDeposit_def getMutableAccount_write Let_def enqueueOutboxEvent_def split: sum.split)
  then obtain d where "map_get (depositsByTxHash (snd (applyDeposit cfg inp now s))) (di_txHash inp) = Some d"
    by blast
  then show ?thesis by (simp add: applyDeposit_def)
qed

text \<open>C33. A transfer conserves the liability, and repeating its key, with whatever other arguments, answers
  with the same two transactions and moves nothing.\<close>

theorem transfer_conserves_and_is_idempotent:
  assumes "reachable_ledger cfg s" and "transfer cfg f g amount key now s = (Inr r, t)"
  shows "liability t = liability s \<and>
    transfer cfg f' g' amount' key now' t = (Inr (r\<lparr>tr_duplicated := True\<rparr>), t)"
proof (cases "map_get (transferByIdempotencyKey s) key")
  case (Some e)
  with assms(2) have "t = s" "r = r\<lparr>tr_duplicated := True\<rparr>"
    by (auto simp: transfer_def split: option.splits)
  moreover have "fst (transfer cfg f' g' amount' key now' s) = fst (transfer cfg f g amount key now s)"
      "snd (transfer cfg f' g' amount' key now' s) = snd (transfer cfg f g amount key now s)"
    by (simp_all add: transfer_def Some split: option.split)
  ultimately show ?thesis using assms(2) by (metis prod.collapse)
next
  case None
  have ne: "f \<noteq> g" and bal: "amount \<le> balance_of s f"
    using assms(2) None by (auto simp: transfer_def getMutableAccount_write Let_def split: if_splits)
  have t: "t = transfer_state cfg f g amount key now s"
    using transfer_ok_state(1) [OF None ne bal, of cfg now] assms(2) by simp
  have "liability t = liability s"
    unfolding t by (rule liability_transfer_state [OF ne])
  moreover have "uuid cfg (uuidCount s) \<noteq> uuid cfg (uuidCount s + 1)"
    using reachable_uuid [OF assms(1)] by (auto simp: uuid_ok_def dest: injD)
  then have "transfer cfg f' g' amount' key now' t = (Inr (r\<lparr>tr_duplicated := True\<rparr>), t)"
    using assms(2) None ne bal
    by (auto simp: transfer_def [of cfg f' g'] t) (auto simp: transfer_def getMutableAccount_write Let_def transfer_state_def)
  ultimately show ?thesis ..
qed


theorem transfer_conserves_and_is_idempotent_witness:
  "liability (snd (transfer demo_cfg ''alice'' ''bob'' 1000000 ''t-1'' demo_now demo_deposited)) = liability demo_deposited"
proof -
  have "map_get (transferByIdempotencyKey demo_deposited) ''t-1'' = None" by code_simp
  moreover have "1000000 \<le> balance_of demo_deposited ''alice''" by code_simp
  ultimately have "\<not> fails (fst (transfer demo_cfg ''alice'' ''bob'' 1000000 ''t-1'' demo_now demo_deposited))"
    by (intro transfer_ok_state(2)) simp_all
  then obtain r where "transfer demo_cfg ''alice'' ''bob'' 1000000 ''t-1'' demo_now demo_deposited
      = (Inr r, snd (transfer demo_cfg ''alice'' ''bob'' 1000000 ''t-1'' demo_now demo_deposited))"
    by (cases "transfer demo_cfg ''alice'' ''bob'' 1000000 ''t-1'' demo_now demo_deposited")
      (auto simp: fails_def split: sum.splits)
  from transfer_conserves_and_is_idempotent [OF demo_reachable(1) this] show ?thesis by blast
qed

section \<open>The lives of withdrawals and sweeps\<close>

text \<open>C15. Along any run a withdrawal keeps its user, amount, key and ledger transaction, its status only
  moves forward along the edges reserved, pending, approved, broadcast, completed (or from an active
  status to failed), and once it has left the active statuses the record never changes again.\<close>

theorem withdrawal_life_cycle:
  assumes "reachable_ledger cfg s" and "ledger_steps cfg s t" and "map_get (withdrawals s) i = Some w"
  shows "\<exists>v. map_get (withdrawals t) i = Some v \<and> same_identity w v \<and>
    status_edge\<^sup>*\<^sup>* (wd_status w) (wd_status v) \<and> wd_status w \<le> wd_status v \<and>
    (wd_status w \<notin> set ACTIVE_WITHDRAWAL_STATUSES \<longrightarrow> v = w)"
  using withdrawal_life [OF assms(2,1,3)] status_edges_le unfolding active_status_def by blast

theorem withdrawal_life_cycle_witness:
  "\<exists>v. map_get (withdrawals demo_broadcasted) ''u4'' = Some v \<and> same_identity demo_w_approved v \<and>
    ADMIN_APPROVED \<le> wd_status v"
  using withdrawal_life_cycle [OF demo_reachable(5) demo_steps(6) demo_approved_w] by (auto simp: demo_status)

text \<open>A withdrawal that is approved, broadcast or completed has approvals by at least the required
  number of distinct administrators, and its approval counter is their number.\<close>

theorem approved_by_distinct_admins:
  assumes "reachable_ledger cfg s" and "getWithdrawal i s = Some w"
    and "wd_status w \<in> {ADMIN_APPROVED, TX_BROADCASTED, COMPLETED}"
  shows "distinct (map wa_adminId (listWithdrawalApprovals i s)) \<and>
    wd_requiredApprovals w \<le> int (length (listWithdrawalApprovals i s)) \<and>
    wd_approvalCount w = int (length (listWithdrawalApprovals i s)) \<and>
    (\<forall>a \<in> set (listWithdrawalApprovals i s). wa_withdrawalId a = i)"
proof -
  note I = ledger_invD [OF reachable_inv [OF assms(1)]]
  have w: "map_get (withdrawals s) i = Some w" using assms(2) by (simp add: getWithdrawal_def)
  obtain as where as: "map_get (approvalsByWithdrawalId s) i = Some as" "approvals_fit w as"
    using I(6) w unfolding approvals_ok_def by blast
  have "wd_withdrawalId w = i" using stored_withdrawal [OF I(3) w] by metis
  then show ?thesis
    using as assms(3) by (auto simp: listWithdrawalApprovals_def approvals_fit_def approved_status_def)
qed

theorem approved_by_distinct_admins_witness:
  "distinct (map wa_adminId (listWithdrawalApprovals ''u4'' demo_approved)) \<and>
   2 \<le> length (listWithdrawalApprovals ''u4'' demo_approved)"
  using approved_by_distinct_admins [OF demo_reachable(5), of "''u4''" demo_w_approved] demo_approved_w
  by (simp add: getWithdrawal_def demo_status)
    (simp add: demo_w_approved_def demo_w_approved1_def demo_w_pending_def)

text \<open>Along any run a sweep record keeps its addresses, amount and reference, its attempts never
  decrease, its status moves along the sweep edges only, and a confirmed or failed record is frozen.\<close>

theorem sweep_life_cycle:
  assumes "reachable_ledger cfg s" and "ledger_steps cfg s t" and "map_get (sweepRecords s) i = Some w"
  shows "\<exists>v. map_get (sweepRecords t) i = Some v \<and> same_sweep w v \<and>
    sweep_edge\<^sup>*\<^sup>* (sw_status w) (sw_status v) \<and> (sweep_final (sw_status w) \<longrightarrow> v = w)"
  using sweep_life [OF assms(2,1,3)] by blast

definition demo_sweep :: ledger where
  "demo_sweep = snd (createSweepRecord demo_cfg
     \<lparr>si_sourceWalletCode = ''user'', si_sourceAddress = ''TSrc'', si_targetAddress = ''THot'',
      si_currencyId = None, si_network = None, si_amount = 7, si_externalRef = None, si_note = None\<rparr>
     demo_now empty_ledger)"

theorem sweep_life_cycle_witness:
  "\<exists>w v. map_get (sweepRecords demo_sweep) ''u0'' = Some w \<and> sw_status w = SW_planned \<and>
     map_get (sweepRecords (snd (markSweepQueued ''u0'' None demo_now demo_sweep))) ''u0'' = Some v \<and>
     sweep_edge\<^sup>*\<^sup>* (sw_status w) (sw_status v)"
proof -
  have r: "reachable_ledger demo_cfg demo_sweep"
    using demo_uuid_ok step_createSweepRecord unfolding reachable_ledger_def ledger_steps_def demo_sweep_def
    by (blast intro: r_into_rtranclp)
  obtain w where w: "map_get (sweepRecords demo_sweep) ''u0'' = Some w" "sw_status w = SW_planned"
    by (simp add: demo_sweep_def createSweepRecord_def Let_def empty_ledger_def)
  have "ledger_steps demo_cfg demo_sweep (snd (markSweepQueued ''u0'' None demo_now demo_sweep))"
    unfolding ledger_steps_def by (rule r_into_rtranclp) (rule step_markSweepQueued)
  from sweep_life_cycle [OF r this w(1)] w show ?thesis by blast
qed

section \<open>Bindings, stores, reports\<close>

text \<open>Wallet bindings are one-to-one: a wallet address resolves to a user exactly when the binding of
  that user is that address.\<close>

theorem binding_bijection:
  assumes "reachable_ledger cfg s" and "a \<noteq> ''''"
  shows "resolveUserId None (Some a) s = Inr u \<longleftrightarrow>
    u \<noteq> '''' \<and> (\<exists>b. getWalletBinding (Some u) None s = Inr (Some b) \<and> wb_walletAddress b = a \<and> wb_userId b = u)"
proof -
  have b: "bindings_ok s" using reachable_wallets [OF assms(1)] by (simp add: wallets_ok_def)
  have inv: "map_get (userIdByWalletAddress s) a = Some v \<longleftrightarrow> bound_address s v = Some a" for v
    using b by (simp add: bindings_ok_def)
  have ne: "bound_address s v = Some a \<Longrightarrow> v \<noteq> []" for v using b by (auto simp: bindings_ok_def)
  have "resolveUserId None (Some a) s = Inr u \<longleftrightarrow> bound_address s u = Some a"
  proof (cases "map_get (userIdByWalletAddress s) a")
    case None
    then show ?thesis using inv [of u] assms(2) by (simp add: resolveUserId_def)
  next
    case (Some v)
    then show ?thesis using inv [of u] inv [of v] ne [of v] assms(2) by (auto simp: resolveUserId_def)
  qed
  moreover have "bound_address s u = Some a \<longleftrightarrow>
      (\<exists>b. map_get (walletBindingsByUserId s) u = Some b \<and> wb_walletAddress b = a \<and> wb_userId b = u)"
    using b by (auto simp: bound_address_def bindings_ok_def keyed_def)
  ultimately show ?thesis
    using \<open>bound_address s u = Some a \<Longrightarrow> u \<noteq> ''''\<close> by (auto simp: getWalletBinding_def)
qed

definition demo_bound :: ledger where
  "demo_bound = snd (bindWalletAddress ''alice'' ''TAlice'' demo_now empty_ledger)"

theorem binding_bijection_witness:
  "resolveUserId None (Some ''TAlice'') demo_bound = Inr ''alice'' \<and>
   (\<exists>b. getWalletBinding (Some ''alice'') None demo_bound = Inr (Some b) \<and> wb_walletAddress b = ''TAlice'')"
proof -
  have r: "reachable_ledger demo_cfg demo_bound"
    using demo_uuid_ok step_bindWalletAddress [of "''alice''" demo_cfg empty_ledger "''TAlice''" demo_now]
    unfolding reachable_ledger_def ledger_steps_def demo_bound_def by (auto intro: r_into_rtranclp)
  have "resolveUserId None (Some ''TAlice'') demo_bound = Inr ''alice''" by code_simp
  with binding_bijection [OF r, of "''TAlice''" "''alice''"] show ?thesis by auto
qed

text \<open>The daily fee snapshots of the two fee books agree: no snapshot shows a gap, and its actual fee
  and count are those of the receipts confirmed on its day.\<close>

theorem fee_snapshots_have_no_gap:
  assumes "reachable_ledger cfg s" and "x \<in> set (listNetworkFeeDailySnapshots days s)"
  shows "fs_gapFeeSun x = 0 \<and> fs_ledgerFeeSun x = fs_actualFeeSun x \<and>
    fs_actualFeeSun x = sum_list (map nf_feeSun (filter (\<lambda>r. iso_day (nf_confirmedAt r) = fs_snapshotDate x)
      (map_values (networkFeeReceipts s)))) \<and>
    fs_actualFeeCount x = int (length (filter (\<lambda>r. iso_day (nf_confirmedAt r) = fs_snapshotDate x)
      (map_values (networkFeeReceipts s)))) \<and> fs_ledgerFeeCount x = fs_actualFeeCount x"
  using snapshot_values [OF reachable_stores [OF assms(1)] assms(2)] by (simp add: receipts_on_def)

definition demo_swept :: ledger where
  "demo_swept = snd (confirmSweep ''u0'' (Some \<lparr>sf_note = None, sf_networkFee = Some demo_fee\<rparr>) demo_now
     (snd (markSweepBroadcasted ''u0'' ''0xsweep'' None demo_now demo_sweep)))"

theorem fee_snapshots_have_no_gap_witness:
  "\<exists>x. listNetworkFeeDailySnapshots None demo_swept = [x] \<and> fs_gapFeeSun x = 0 \<and> fs_ledgerFeeSun x = fs_actualFeeSun x"
proof -
  have "reachable_ledger demo_cfg demo_sweep"
    using demo_uuid_ok step_createSweepRecord unfolding reachable_ledger_def ledger_steps_def demo_sweep_def
    by (blast intro: r_into_rtranclp)
  then have r: "reachable_ledger demo_cfg demo_swept"
    unfolding demo_swept_def by (intro reachable_step [OF _ step_confirmSweep] reachable_step [OF _ step_markSweepBroadcasted])
  have "length (listNetworkFeeDailySnapshots None demo_swept) = 1" by code_simp
  then obtain x where x: "listNetworkFeeDailySnapshots None demo_swept = [x]" by (auto simp: length_Suc_conv)
  from fee_snapshots_have_no_gap [OF r, of x None] x show ?thesis by simp
qed

text \<open>C34. Claiming outbox events hands out each event at most once: what a claim returns was pending and
  due, is now being processed with one more attempt, exceeds no non-negative limit, and a second claim
  at any time returns none of it.\<close>

theorem outbox_claims_are_exclusive:
  assumes "reachable_ledger cfg s" and "claimPendingOutboxEvents n now s = (es, t)" and "0 \<le> n"
    and "claimPendingOutboxEvents n' now' t = (es', t')"
  shows "int (length es) \<le> n \<and> distinct (map ob_outboxEventId (es @ es')) \<and>
    (\<forall>e \<in> set es. \<exists>e0. map_get (outboxEvents s) (ob_outboxEventId e) = Some e0 \<and>
       ob_status e0 = OB_pending \<and> ob_availableAt e0 \<le> now \<and> ob_status e = OB_processing \<and>
       ob_attempts e = ob_attempts e0 + 1 \<and> map_get (outboxEvents t) (ob_outboxEventId e) = Some e)"
proof (intro conjI ballI)
  have ok: "outbox_ok s" using reachable_stores [OF assms(1)] by (simp add: stores_ok_def)
  have ok': "outbox_ok t" using outbox_ok_ops(1) [OF ok, of n now] assms(2) by simp
  show "int (length es) \<le> n"
    using assms(2) length_slice0_le [OF assms(3)]
    by (auto simp: claimPendingOutboxEvents_def Let_def claimed_entries_def)
  have "ob_outboxEventId e \<noteq> ob_outboxEventId e'" if mem: "e \<in> set es" "e' \<in> set es'" for e e'
  proof
    assume eq: "ob_outboxEventId e = ob_outboxEventId e'"
    obtain e1 where "e = claim_event now e1" "map_get (outboxEvents t) (ob_outboxEventId e) = Some e"
      using claimed_event [OF ok assms(2) mem(1)] by metis
    moreover obtain e2 where "map_get (outboxEvents t) (ob_outboxEventId e') = Some e2" "ob_status e2 = OB_pending"
      using claimed_event [OF ok' assms(4) mem(2)] by metis
    ultimately show False using eq by (simp add: claim_event_def)
  qed
  then show "distinct (map ob_outboxEventId (es @ es'))"
    using claimed_ids_distinct [OF ok assms(2)] claimed_ids_distinct [OF ok' assms(4)] by auto
  fix e assume "e \<in> set es"
  then obtain e0 where "map_get (outboxEvents s) (ob_outboxEventId e) = Some e0" "ob_status e0 = OB_pending"
      "ob_availableAt e0 \<le> now" "e = claim_event now e0" "map_get (outboxEvents t) (ob_outboxEventId e) = Some e"
    using claimed_event [OF ok assms(2)] by metis
  then show "\<exists>e0. map_get (outboxEvents s) (ob_outboxEventId e) = Some e0 \<and>
       ob_status e0 = OB_pending \<and> ob_availableAt e0 \<le> now \<and> ob_status e = OB_processing \<and>
       ob_attempts e = ob_attempts e0 + 1 \<and> map_get (outboxEvents t) (ob_outboxEventId e) = Some e"
    by (intro exI [of _ e0]) (simp add: claim_event_def)
qed


theorem outbox_claims_are_exclusive_witness:
  "distinct (map ob_outboxEventId (fst (claimPendingOutboxEvents 10 demo_now demo_completed) @
     fst (claimPendingOutboxEvents 10 demo_now (snd (claimPendingOutboxEvents 10 demo_now demo_completed)))))"
  using outbox_claims_are_exclusive [OF demo_reachable(7) surjective_pairing _ surjective_pairing,
      of 10 demo_now 10 demo_now] by simp

text \<open>The outbox summary is a partition: its four status counts add up to the number of stored events,
  the acknowledged and unacknowledged dead letters add up to the dead letters, and the oldest pending
  time is a lower bound of the creation times of the pending events.\<close>

theorem outbox_summary_partitions:
  "os_pendingCount (getOutboxEventSummary s) + os_processingCount (getOutboxEventSummary s) +
   os_publishedCount (getOutboxEventSummary s) + os_deadLetteredCount (getOutboxEventSummary s)
     = length (outboxEvents s) \<and>
   os_deadLetterAcknowledgedCount (getOutboxEventSummary s) + os_deadLetterUnacknowledgedCount (getOutboxEventSummary s)
     = os_deadLetteredCount (getOutboxEventSummary s) \<and>
   {e \<in> set (map_values (outboxEvents s)). ob_status e = OB_pending \<and>
      (case os_oldestPendingCreatedAt (getOutboxEventSummary s) of None \<Rightarrow> True | Some t \<Rightarrow> ob_createdAt e < t)} = {}"
proof -
  let ?es = "map_values (outboxEvents s)"
  have "length ?es = length (outboxEvents s)" by (simp add: map_values_def)
  moreover have "{e \<in> set ?es. ob_status e = OB_pending \<and>
      (case os_oldestPendingCreatedAt (getOutboxEventSummary s) of None \<Rightarrow> True | Some t \<Rightarrow> ob_createdAt e < t)} = {}"
  proof (cases "first_of (sort_asc ob_createdAt (filter (\<lambda>e. ob_status e = OB_pending) ?es))")
    case None
    then have "sort_asc ob_createdAt (filter (\<lambda>e. ob_status e = OB_pending) ?es) = []"
      by (simp add: first_of_def split: list.splits)
    then have "filter (\<lambda>e. ob_status e = OB_pending) ?es = []" by (metis length_0_conv length_sort_asc)
    then show ?thesis by (auto simp: filter_empty_conv)
  next
    case (Some e)
    with first_of_sorted [OF Some] show ?thesis by (auto simp: getOutboxEventSummary_def Let_def)
  qed
  ultimately show ?thesis
    using count_statuses [of ?es] count_split [of "\<lambda>e. ob_status e = OB_dead_lettered" _ ?es]
    by (simp add: getOutboxEventSummary_def Let_def)
qed

text \<open>Claiming jobs hands out at most the limit, only jobs of the requested types, all of them marked
  running; every other job is left alone, and a job whose entry changed had been pending.\<close>

theorem job_claims_are_bounded:
  assumes "reachable_ledger cfg s" and "claimPendingJobs types limit s = (js, t)"
  shows "int (length js) \<le> max 0 limit \<and>
    list_all (\<lambda>job. job_status job = JS_running \<and> job_type job \<in> set types) js \<and>
    {i. \<exists>job. map_get (jobs s) i = Some job \<and> map_get (jobs t) i \<noteq> Some job \<and>
       \<not> (job_status job = JS_pending \<and> job_type job \<in> set types \<and>
          map_get (jobs t) i = Some (job\<lparr>job_status := JS_running\<rparr>) \<and> job\<lparr>job_status := JS_running\<rparr> \<in> set js)} = {}"
proof -
  have "map_wf (jobs s)" using reachable_stores [OF assms(1)] by (simp add: stores_ok_def keyed_def)
  then show ?thesis
    using claimed_job [OF _ assms(2)] claimed_jobs_bound [OF assms(2)] claimed_jobs_running [OF assms(2)]
    unfolding list_all_iff by blast
qed

theorem job_claims_are_bounded_witness:
  "int (length (fst (claimPendingJobs [sweep_plan] 3 demo_completed))) \<le> 3"
  using job_claims_are_bounded [OF demo_reachable(7) surjective_pairing, of "[sweep_plan]" 3] by simp

section \<open>Errors\<close>

text \<open>C39. A rejected deposit is credited all the same.  Whenever \<open>applyDeposit\<close> answers a new transaction hash
  with an error, whatever the cause, the error is the event schema's (a hash, an identifier, an amount or
  an address the contract does not admit), and by then the balance has grown and the deposit is stored,
  while the outbox got no event for it.  A retry is answered as a duplicate and publishes nothing either.\<close>

theorem rejected_deposit_is_credited:
  assumes "map_get (depositsByTxHash s) (di_txHash inp) = None"
    and "applyDeposit cfg inp now s = (Inl e, t)"
  shows "e = ZodError ''invalid ledger contract'' \<and>
    balance_of t (di_userId inp) = balance_of s (di_userId inp) + di_amount inp \<and> outboxEvents t = outboxEvents s \<and>
    (\<exists>d. map_get (depositsByTxHash t) (di_txHash inp) = Some d \<and> dep_userId d = di_userId inp \<and>
       dep_amount d = di_amount inp \<and> dep_status d = DS_CREDITED \<and>
       applyDeposit cfg inp now' t = (Inr \<lparr>dr_deposit = d, dr_duplicated = True\<rparr>, t))"
proof -
  have zod: "buildDepositStateChangedContract cfg d u w h a st amt bl now = Inl x \<Longrightarrow> x = ZodError ''invalid ledger contract''"
    for d u w h a st amt bl x
    by (simp add: buildDepositStateChangedContract_def z_parse_def split: if_splits)
  have stored: "map_get (depositsByTxHash t) (di_txHash inp) = Some d \<Longrightarrow>
      applyDeposit cfg inp now' t = (Inr \<lparr>dr_deposit = d, dr_duplicated = True\<rparr>, t)" for d
    by (simp add: applyDeposit_def)
  show ?thesis
    using assms(2) stored
    by (auto simp: applyDeposit_def [of cfg inp now s] assms(1) getMutableAccount_write Let_def balance_of_def
        write_account_def dest: zod split: sum.splits)
qed

theorem rejected_deposit_is_credited_witness:
  "balance_of (snd (applyDeposit demo_cfg (demo_deposit\<lparr>di_txHash := ''0x1''\<rparr>) demo_now empty_ledger)) ''alice'' = 5000000 \<and>
   outboxEvents (snd (applyDeposit demo_cfg (demo_deposit\<lparr>di_txHash := ''0x1''\<rparr>) demo_now empty_ledger)) = []"
proof -
  have "fails (fst (applyDeposit demo_cfg (demo_deposit\<lparr>di_txHash := ''0x1''\<rparr>) demo_now empty_ledger))" by code_simp
  then obtain e where "applyDeposit demo_cfg (demo_deposit\<lparr>di_txHash := ''0x1''\<rparr>) demo_now empty_ledger
      = (Inl e, snd (applyDeposit demo_cfg (demo_deposit\<lparr>di_txHash := ''0x1''\<rparr>) demo_now empty_ledger))"
    by (auto simp: fails_def prod_eq_iff split: sum.splits)
  from rejected_deposit_is_credited [OF _ this] show ?thesis
    by (simp add: demo_deposit_def empty_ledger_def balance_of_def)
qed

section \<open>Amounts and contracts\<close>

text \<open>C40. The decimal rendering of an amount parses back to the amount, whatever its sign and size, and
  is accepted by the amount pattern of the event contracts.\<close>

theorem stored_amount_round_trip:
  "parseStoredKoriAmount (formatKoriAmount units) = Inr units \<and> contract_amount_pattern (formatKoriAmount units)"
  by (simp add: parse_format format_matches_contract)

text \<open>Request amounts arrive as binary floating point.  Every amount of whole millionths below 8192
  KORI is accepted exactly: the double nearest to the decimal is parsed to its number of units.\<close>

theorem request_amount_exact_below_8192:
  assumes "0 < k" and "k < 8192 * KORI_SCALE"
  shows "parseKoriAmount (fl k KORI_SCALE) = Inr k"
  using assms by (rule parse_decimal_amount)

theorem request_amount_exact_below_8192_witness: "parseKoriAmount (fl 12345678 KORI_SCALE) = Inr 12345678"
  by (rule request_amount_exact_below_8192) (simp_all add: KORI_SCALE_def)

text \<open>Above that bound valid amounts are refused: 16384.01 KORI has two decimals, yet the tolerance of
  the decimal-places check is below the spacing of doubles there and the request fails; and a positive
  amount far below a millionth of a millionth is accepted as zero units.\<close>

theorem request_amount_misjudged:
  "fails (parseKoriAmount (fl 16384010000 KORI_SCALE)) \<and> parseKoriAmount (fl 1 10000000000000) = Inr 0"
  using parse_rejects_16384_01 parse_accepts_zero_units by (simp add: fails_def split: sum.splits)

text \<open>What the withdrawal contract builder returns carries a signature that verifies, and it still
  verifies when the fields arrive in any other order.\<close>

theorem contract_signature_verifies:
  assumes "buildWithdrawalStateChangedContract cfg w now = Inr c" and "mset c' = mset c"
  shows "verifyLedgerContractSignature cfg c'"
proof -
  have c: "c = attachLedgerEnvelope cfg (withdrawal_payload w now)"
    using assms(1) by (simp add: buildWithdrawalStateChangedContract_def z_parse_def split: if_splits)
  have d: "distinct (map fst c)"
    unfolding c attachLedgerEnvelope_def Let_def
    by (intro distinct_update) (simp add: withdrawal_payload_def)
  then have d': "distinct (map fst c')" by (metis assms(2) mset_map mset_eq_imp_distinct_iff)
  have "map_of c' = map_of c"
    using map_of_inject_set [OF d' d] mset_eq_setD [OF assms(2)] by simp
  then have f: "field_of c' k = field_of c k" for k by (simp add: field_of_def)
  have "mset (AList.delete ''signature'' c') = mset (AList.delete ''signature'' c)"
    by (simp add: AList.delete_eq mset_filter assms(2))
  moreover have "distinct (map fst (AList.delete ''signature'' c))" using d by (rule distinct_delete)
  ultimately have "signLedgerContractPayload cfg (AList.delete ''signature'' c')
      = signLedgerContractPayload cfg (AList.delete ''signature'' c)"
    by (metis sign_mset)
  moreover have "verifyLedgerContractSignature cfg c"
    unfolding c by (rule verify_attach) (simp add: withdrawal_payload_def)
  ultimately show ?thesis by (simp add: verifyLedgerContractSignature_def Let_def f)
qed


theorem contract_signature_verifies_witness:
  "verifyLedgerContractSignature demo_cfg (rev (attachLedgerEnvelope demo_cfg (withdrawal_payload demo_w demo_now)))"
proof -
  have "\<not> fails (buildWithdrawalStateChangedContract demo_cfg demo_w demo_now)" by code_simp
  then have "buildWithdrawalStateChangedContract demo_cfg demo_w demo_now
      = Inr (attachLedgerEnvelope demo_cfg (withdrawal_payload demo_w demo_now))"
    by (simp add: buildWithdrawalStateChangedContract_def z_parse_def fails_def split: if_splits)
  then show ?thesis by (rule contract_signature_verifies) simp
qed

end
