(* ===== verification/Effects.thy ===== *)
theory Effects
  imports LedgerMachine
begin

text \<open>
  What the services add to the vocabulary of \<open>Prelude\<close>: reading and updating a state, running a
  method of one component on the state of a larger system, \<open>try\<close>/\<open>catch\<close>, loops with effects, and
  the relations that every step of a run keeps.  The locale \<open>run_relation\<close> states the one contract
  such a relation needs (it is reflexive and transitive) and proves the rules for the combinators;
  \<open>ledger_runs\<close> is its instance: a service only moves the ledger along \<open>ledger_step\<close>.
\<close>

section \<open>Combinators\<close>

definition ask :: "('s \<Rightarrow> 'a) \<Rightarrow> ('s, 'a) act" where
  "ask f s = (Inr (f s), s)"

definition modify :: "('s \<Rightarrow> 's) \<Rightarrow> ('s, unit) act" where
  "modify f s = (Inr (), f s)"

text \<open>A pure result that may be an error, computed from the state.\<close>

definition inspect :: "('s \<Rightarrow> js_error + 'a) \<Rightarrow> ('s, 'a) act" where
  "inspect f s = (f s, s)"

text \<open>A method that always returns: its result and the state it leaves.\<close>

definition total :: "('s \<Rightarrow> 'a \<times> 's) \<Rightarrow> ('s, 'a) act" where
  "total f s = (case f s of (x, s') \<Rightarrow> (Inr x, s'))"

definition zoom :: "('s \<Rightarrow> 't) \<Rightarrow> ('t \<Rightarrow> 's \<Rightarrow> 's) \<Rightarrow> ('t, 'a) act \<Rightarrow> ('s, 'a) act" where
  "zoom get put m s = (case m (get s) of (r, t) \<Rightarrow> (r, put t s))"

text \<open>\<open>try { m } catch (e) { h(e) }\<close>.\<close>

definition catching :: "('s, 'a) act \<Rightarrow> (js_error \<Rightarrow> ('s, 'a) act) \<Rightarrow> ('s, 'a) act" where
  "catching m h s = (case m s of (Inl e, s') \<Rightarrow> h e s' | (Inr x, s') \<Rightarrow> (Inr x, s'))"

text \<open>The outcome of \<open>m\<close> as a value.\<close>

definition attempt :: "('s, 'a) act \<Rightarrow> ('s, js_error + 'a) act" where
  "attempt m s = (case m s of (r, s') \<Rightarrow> (Inr r, s'))"

definition when_do :: "bool \<Rightarrow> ('s, unit) act \<Rightarrow> ('s, unit) act" where
  "when_do b m = (if b then m else ret ())"

text \<open>\<open>port?.method(...)\<close>: nothing happens when the port is not configured.\<close>

definition optionally :: "'p option \<Rightarrow> ('p \<Rightarrow> ('s, unit) act) \<Rightarrow> ('s, unit) act" where
  "optionally p f = (case p of None \<Rightarrow> ret () | Some x \<Rightarrow> f x)"

primrec for_each :: "('a \<Rightarrow> ('s, unit) act) \<Rightarrow> 'a list \<Rightarrow> ('s, unit) act" where
  "for_each f [] = ret ()"
| "for_each f (x # xs) = and_then (f x) (\<lambda>_. for_each f xs)"

text \<open>A loop that collects into an accumulator.\<close>

primrec fold_act :: "('a \<Rightarrow> 'b \<Rightarrow> ('s, 'b) act) \<Rightarrow> 'a list \<Rightarrow> 'b \<Rightarrow> ('s, 'b) act" where
  "fold_act f [] acc = ret acc"
| "fold_act f (x # xs) acc = and_then (f x acc) (\<lambda>acc'. fold_act f xs acc')"

declare ask_def [act_defs] modify_def [act_defs] inspect_def [act_defs] total_def [act_defs]
  zoom_def [act_defs] catching_def [act_defs] attempt_def [act_defs] when_do_def [act_defs]
  optionally_def [act_defs]

lemma run_ret [simp]: "ret x s = (Inr x, s)"
  by (simp add: ret_def)

lemma run_throw [simp]: "throw e s = (Inl e, s)"
  by (simp add: throw_def)

lemma run_ask [simp]: "ask f s = (Inr (f s), s)"
  by (simp add: ask_def)

lemma run_modify [simp]: "modify f s = (Inr (), f s)"
  by (simp add: modify_def)

lemma run_inspect [simp]: "inspect f s = (f s, s)"
  by (simp add: inspect_def)

lemma run_when_do [simp]: "when_do True m = m" "when_do False m = ret ()"
  by (simp_all add: when_do_def)

lemma run_optionally [simp]: "optionally None f = ret ()" "optionally (Some p) f = f p"
  by (simp_all add: optionally_def)

lemma snd_zoom: "snd (zoom g p m s) = p (snd (m (g s))) s"
  by (simp add: zoom_def split: prod.split)

lemma fst_zoom: "fst (zoom g p m s) = fst (m (g s))"
  by (simp add: zoom_def split: prod.split)

lemma catching_Inr: "m s = (Inr x, s') \<Longrightarrow> catching m h s = (Inr x, s')"
  by (simp add: catching_def)

lemma catching_Inl: "m s = (Inl e, s') \<Longrightarrow> catching m h s = h e s'"
  by (simp add: catching_def)

text \<open>The successful outcomes of a sequence, and of a guarded one.\<close>

lemma and_then_succeeds:
  "and_then m f s = (Inr y, t) \<longleftrightarrow> (\<exists>x s'. m s = (Inr x, s') \<and> f x s' = (Inr y, t))"
  by (auto simp: and_then_def split: prod.splits sum.splits)

lemma and_then_fails:
  "and_then m f s = (Inl e, t) \<longleftrightarrow> m s = (Inl e, t) \<or> (\<exists>x s'. m s = (Inr x, s') \<and> f x s' = (Inl e, t))"
  by (auto simp: and_then_def split: prod.splits sum.splits)

section \<open>Relations kept by every step\<close>

locale run_relation =
  fixes R :: "'s \<Rightarrow> 's \<Rightarrow> bool"
  assumes R_refl: "R s s"
    and R_trans: "R s t \<Longrightarrow> R t u \<Longrightarrow> R s u"
begin

lemma keep_ret: "keeps R (ret x)"
  by (simp add: keeps_def R_refl)

lemma keep_throw: "keeps R (throw e)"
  by (simp add: keeps_def R_refl)

lemma keep_ask: "keeps R (ask f)"
  by (simp add: keeps_def R_refl)

lemma keep_inspect: "keeps R (inspect f)"
  by (simp add: keeps_def R_refl)

lemma keep_bind: "keeps R m \<Longrightarrow> (\<And>x. keeps R (f x)) \<Longrightarrow> keeps R (and_then m f)"
  using R_trans by (intro keeps_and_then) (auto intro: transpI)

text \<open>The continuation only has to keep \<open>R\<close> for the results \<open>m\<close> can return.\<close>

lemma keep_bind_result:
  assumes "keeps R m" and "\<And>x s s'. m s = (Inr x, s') \<Longrightarrow> keeps R (f x)"
  shows "keeps R (and_then m f)"
  unfolding keeps_def
proof
  fix s
  obtain r s' where m: "m s = (r, s')" by (cases "m s")
  have *: "R s s'" using keepsD [OF assms(1), of s] m by simp
  show "R s (snd (and_then m f s))"
  proof (cases r)
    case (Inr x)
    with m have "keeps R (f x)" by (blast intro: assms(2))
    then show ?thesis using m Inr * by (auto simp: and_then_def dest: keepsD intro: R_trans)
  qed (use m * in \<open>simp add: and_then_def\<close>)
qed

lemma keep_catch:
  assumes "keeps R m" and "\<And>e. keeps R (h e)"
  shows "keeps R (catching m h)"
  unfolding keeps_def
proof
  fix s
  obtain r s' where m: "m s = (r, s')" by (cases "m s")
  have *: "R s s'" using keepsD [OF assms(1), of s] m by simp
  show "R s (snd (catching m h s))"
  proof (cases r)
    case (Inl e)
    then have "catching m h s = h e s'" using m by (simp add: catching_def)
    then show ?thesis using R_trans [OF * keepsD [OF assms(2)]] by simp
  qed (use m * in \<open>simp add: catching_def\<close>)
qed

lemma keep_attempt: "keeps R m \<Longrightarrow> keeps R (attempt m)"
  unfolding keeps_def attempt_def by (simp add: split_beta)

lemma keep_when: "keeps R m \<Longrightarrow> keeps R (when_do b m)"
  by (cases b) (simp_all add: keep_ret)

lemma keep_optionally: "(\<And>x. p = Some x \<Longrightarrow> keeps R (f x)) \<Longrightarrow> keeps R (optionally p f)"
  by (cases p) (simp_all add: keep_ret)

lemma keep_for_each: "(\<And>x. keeps R (f x)) \<Longrightarrow> keeps R (for_each f xs)"
  by (induction xs) (simp_all add: keep_ret keep_bind)

lemma keep_fold: "(\<And>x acc. keeps R (f x acc)) \<Longrightarrow> keeps R (fold_act f xs acc)"
  by (induction xs arbitrary: acc) (simp_all add: keep_ret keep_bind)

lemma keep_if: "(b \<Longrightarrow> keeps R m) \<Longrightarrow> (\<not> b \<Longrightarrow> keeps R n) \<Longrightarrow> keeps R (if b then m else n)"
  by simp

lemma keep_option:
  "(x = None \<Longrightarrow> keeps R m) \<Longrightarrow> (\<And>y. x = Some y \<Longrightarrow> keeps R (f y)) \<Longrightarrow>
     keeps R (case x of None \<Rightarrow> m | Some y \<Rightarrow> f y)"
  by (cases x) simp_all

lemma keep_sum:
  "(\<And>e. x = Inl e \<Longrightarrow> keeps R (f e)) \<Longrightarrow> (\<And>y. x = Inr y \<Longrightarrow> keeps R (g y)) \<Longrightarrow>
     keeps R (case x of Inl e \<Rightarrow> f e | Inr y \<Rightarrow> g y)"
  by (cases x) simp_all

lemma keep_prod: "(\<And>a b. keeps R (f a b)) \<Longrightarrow> keeps R (case p of (a, b) \<Rightarrow> f a b)"
  by (cases p) simp

lemma keep_let: "keeps R (f x) \<Longrightarrow> keeps R (Let x f)"
  by simp

lemmas keep_rules = keep_ret keep_throw keep_ask keep_inspect keep_bind keep_catch keep_attempt
  keep_when keep_optionally keep_for_each keep_fold keep_if keep_option keep_sum keep_prod keep_let

end

text \<open>A relation on a component, read through the projection.\<close>

definition through :: "('s \<Rightarrow> 't) \<Rightarrow> ('t \<Rightarrow> 't \<Rightarrow> bool) \<Rightarrow> 's \<Rightarrow> 's \<Rightarrow> bool" where
  "through get R s t = R (get s) (get t)"

lemma keeps_zoom:
  "keeps R m \<Longrightarrow> (\<And>t s. get (put t s) = t) \<Longrightarrow> keeps (through get R) (zoom get put m)"
  by (simp add: keeps_def through_def snd_zoom)

section \<open>Runs of the ledger\<close>

definition ledger_runs :: "ledger_cfg \<Rightarrow> ('s \<Rightarrow> ledger) \<Rightarrow> 's \<Rightarrow> 's \<Rightarrow> bool" where
  "ledger_runs cfg get = through get (ledger_steps cfg)"

interpretation lr: run_relation "ledger_runs cfg get" for cfg and get :: "'s \<Rightarrow> ledger"
  by unfold_locales (auto simp: ledger_runs_def through_def ledger_steps_def)

lemma ledger_steps_refl [simp]: "ledger_steps cfg s s"
  by (simp add: ledger_steps_def)

lemma ledger_runs_same [simp]: "get t = get s \<Longrightarrow> ledger_runs cfg get s t"
  by (simp add: ledger_runs_def through_def)

lemma ledger_step_runs: "ledger_step cfg (get s) (get t) \<Longrightarrow> ledger_runs cfg get s t"
  by (simp add: ledger_runs_def through_def ledger_steps_def)

lemma reachable_steps: "reachable_ledger cfg s \<Longrightarrow> ledger_steps cfg s t \<Longrightarrow> reachable_ledger cfg t"
  by (auto simp: reachable_ledger_def ledger_steps_def)

end
