(* ===== verification/VirtualWallets.thy ===== *)
theory VirtualWallets
  imports Effects
begin

text \<open>
  Virtual wallets: the types of \<open>src/domain/virtual-wallet/types.ts\<close> and the in-memory repository
  (\<open>src/infrastructure/persistence/in-memory-virtual-wallet-repository.ts\<close>), which binds every wallet
  it creates in the ledger.  Its four maps hold references to the same mutable objects; here
  \<open>walletById\<close> is the object store and the other maps hold the ids of the objects, so a write through
  one map is seen through all.  The methods run on the ledger and the repository together.
\<close>

datatype vw_status = VW_active | VW_retired | VW_disabled

datatype activation_status =
  VA_pending_trx_grant | VA_trx_granted | VA_reclaim_pending | VA_reclaimed | VA_failed

datatype resource_status =
  VR_idle | VR_delegate_pending | VR_delegated | VR_release_pending | VR_released | VR_failed

fun vw_status_name :: "vw_status \<Rightarrow> string" where
  "vw_status_name VW_active = ''active''"
| "vw_status_name VW_retired = ''retired''"
| "vw_status_name VW_disabled = ''disabled''"

fun activation_status_name :: "activation_status \<Rightarrow> string" where
  "activation_status_name VA_pending_trx_grant = ''pending_trx_grant''"
| "activation_status_name VA_trx_granted = ''trx_granted''"
| "activation_status_name VA_reclaim_pending = ''reclaim_pending''"
| "activation_status_name VA_reclaimed = ''reclaimed''"
| "activation_status_name VA_failed = ''failed''"

record virtual_wallet =
  vw_virtualWalletId :: string
  vw_userId :: string
  vw_currencyId :: int
  vw_network :: network
  vw_walletAddress :: string
  vw_sweepTargetAddress :: string
  vw_issuedBy :: string
  vw_status :: vw_status
  vw_activationStatus :: activation_status
  vw_activationGrantTxHash :: "string option"
  vw_activationGrantedAt :: "string option"
  vw_activationReclaimTxHash :: "string option"
  vw_activationReclaimedAt :: "string option"
  vw_activationLastError :: "string option"
  vw_resourceStatus :: resource_status
  vw_resourceDelegatedAt :: "string option"
  vw_resourceReleasedAt :: "string option"
  vw_resourceLastError :: "string option"
  vw_createdAt :: string
  vw_retiredAt :: "string option"
  vw_disabledAt :: "string option"
  vw_replacedByVirtualWalletId :: "string option"

text \<open>\<open>StoredVirtualWalletBinding extends VirtualWalletBinding\<close>.\<close>

record stored_wallet = virtual_wallet +
  sv_privateKey :: string
  sv_encryptedPrivateKey :: string
  sv_idempotencyKey :: string

record wallet_issue_result =
  vi_binding :: virtual_wallet
  vi_duplicated :: bool

record wallet_repo =
  walletsByUserId :: "string list jsmap"
  walletByAddress :: "string jsmap"
  walletById :: "stored_wallet jsmap"
  walletByIdempotencyKey :: "string jsmap"
  walletUuidCount :: nat

definition empty_wallet_repo :: wallet_repo where
  "empty_wallet_repo = \<lparr>walletsByUserId = [], walletByAddress = [], walletById = [],
     walletByIdempotencyKey = [], walletUuidCount = 0\<rparr>"

record issue_input =
  ii_userId :: string
  ii_currencyId :: int
  ii_network :: network
  ii_walletAddress :: string
  ii_privateKey :: string
  ii_encryptedPrivateKey :: string
  ii_sweepTargetAddress :: string
  ii_idempotencyKey :: string

section \<open>Lookups\<close>

definition toPublicBinding :: "stored_wallet \<Rightarrow> virtual_wallet" where
  "toPublicBinding b =
     \<lparr>vw_virtualWalletId = vw_virtualWalletId b, vw_userId = vw_userId b, vw_currencyId = vw_currencyId b,
      vw_network = vw_network b, vw_walletAddress = vw_walletAddress b,
      vw_sweepTargetAddress = vw_sweepTargetAddress b, vw_issuedBy = vw_issuedBy b, vw_status = vw_status b,
      vw_activationStatus = vw_activationStatus b,
      vw_activationGrantTxHash = vw_activationGrantTxHash b,
      vw_activationGrantedAt = vw_activationGrantedAt b,
      vw_activationReclaimTxHash = vw_activationReclaimTxHash b,
      vw_activationReclaimedAt = vw_activationReclaimedAt b,
      vw_activationLastError = vw_activationLastError b,
      vw_resourceStatus = vw_resourceStatus b, vw_resourceDelegatedAt = vw_resourceDelegatedAt b,
      vw_resourceReleasedAt = vw_resourceReleasedAt b, vw_resourceLastError = vw_resourceLastError b,
      vw_createdAt = vw_createdAt b, vw_retiredAt = vw_retiredAt b, vw_disabledAt = vw_disabledAt b,
      vw_replacedByVirtualWalletId = vw_replacedByVirtualWalletId b\<rparr>"

text \<open>Following a reference.  References are never dangling (\<open>wallets_stored\<close> below).\<close>

definition wallet_at :: "wallet_repo \<Rightarrow> string option \<Rightarrow> stored_wallet option" where
  "wallet_at r i = Option.bind i (map_get (walletById r))"

definition wallets_of :: "wallet_repo \<Rightarrow> string \<Rightarrow> stored_wallet list" where
  "wallets_of r userId =
     List.map_filter (map_get (walletById r)) (coalesce (map_get (walletsByUserId r) userId) [])"

definition last_of :: "'a list \<Rightarrow> 'a option" where
  "last_of xs = (if xs = [] then None else Some (last xs))"

definition getCurrentWalletByUserId :: "string \<Rightarrow> wallet_repo \<Rightarrow> stored_wallet option" where
  "getCurrentWalletByUserId userId r =
     (let wallets = wallets_of r userId
      in coalesce_opt (find (\<lambda>b. vw_status b = VW_active) wallets) (last_of wallets))"

definition getActiveWallet :: "string \<Rightarrow> int \<Rightarrow> wallet_repo \<Rightarrow> stored_wallet option" where
  "getActiveWallet userId currencyId r =
     find (\<lambda>b. vw_currencyId b = currencyId \<and> vw_status b = VW_active) (wallets_of r userId)"

definition requireBinding :: "string \<Rightarrow> wallet_repo \<Rightarrow> js_error + stored_wallet" where
  "requireBinding virtualWalletId r =
     (case map_get (walletById r) virtualWalletId of
        None \<Rightarrow> Inl (DomainError 404 ''NOT_FOUND'' ''virtual wallet not found'')
      | Some b \<Rightarrow> Inr b)"

definition getVirtualWallet :: "string option \<Rightarrow> string option \<Rightarrow> wallet_repo
    \<Rightarrow> js_error + virtual_wallet option" where
  "getVirtualWallet userId walletAddress r =
     (if truthy userId then Inr (map_option toPublicBinding (getCurrentWalletByUserId (the userId) r))
      else if truthy walletAddress
      then Inr (map_option toPublicBinding (wallet_at r (map_get (walletByAddress r) (the walletAddress))))
      else Inl (DomainError 400 ''VALIDATION_ERROR'' ''userId or walletAddress is required''))"

text \<open>The objects \<open>walletByAddress\<close> holds, in the order of the map.\<close>

definition address_values :: "wallet_repo \<Rightarrow> stored_wallet list" where
  "address_values r = List.map_filter (map_get (walletById r)) (map_values (walletByAddress r))"

definition listVirtualWalletsByActivationStatus :: "activation_status \<Rightarrow> int \<Rightarrow> wallet_repo \<Rightarrow> virtual_wallet list" where
  "listVirtualWalletsByActivationStatus status limit r =
     map toPublicBinding (slice0 limit (sort_asc vw_createdAt
       (filter (\<lambda>b. vw_status b = VW_active \<and> vw_activationStatus b = status) (address_values r))))"

record watch_address =
  wt_userId :: string
  wt_currencyId :: int
  wt_address :: string
  wt_network :: string

definition listWatchAddresses :: "network \<Rightarrow> wallet_repo \<Rightarrow> watch_address list" where
  "listWatchAddresses network r =
     map (\<lambda>b. \<lparr>wt_userId = vw_userId b, wt_currencyId = vw_currencyId b, wt_address = vw_walletAddress b,
               wt_network = ''TRON''\<rparr>)
       (filter (\<lambda>b. vw_network b = network \<and> vw_status b = VW_active) (address_values r))"

record wallet_signer =
  ws_userId :: string
  ws_currencyId :: int
  ws_address :: string
  ws_privateKey :: string

definition getWalletSignerByAddress :: "string \<Rightarrow> int \<Rightarrow> network option \<Rightarrow> wallet_repo \<Rightarrow> wallet_signer option" where
  "getWalletSignerByAddress address currencyId network r =
     (case wallet_at r (map_get (walletByAddress r) address) of
        None \<Rightarrow> None
      | Some b \<Rightarrow>
          if vw_currencyId b \<noteq> currencyId \<or> vw_status b \<noteq> VW_active then None
          else if \<not> matches network (vw_network b) then None
          else Some \<lparr>ws_userId = vw_userId b, ws_currencyId = vw_currencyId b, ws_address = vw_walletAddress b,
                     ws_privateKey = sv_privateKey b\<rparr>)"

section \<open>Creation\<close>

type_synonym 'a wallet_act = "(ledger \<times> wallet_repo, 'a) act"

definition new_wallet :: "issue_input \<Rightarrow> string \<Rightarrow> string \<Rightarrow> stored_wallet" where
  "new_wallet inp virtualWalletId nowIso =
     \<lparr>vw_virtualWalletId = virtualWalletId, vw_userId = ii_userId inp, vw_currencyId = ii_currencyId inp,
      vw_network = ii_network inp, vw_walletAddress = ii_walletAddress inp,
      vw_sweepTargetAddress = ii_sweepTargetAddress inp, vw_issuedBy = ''hot_wallet'',
      vw_status = VW_active, vw_activationStatus = VA_pending_trx_grant, vw_activationGrantTxHash = None,
      vw_activationGrantedAt = None, vw_activationReclaimTxHash = None, vw_activationReclaimedAt = None,
      vw_activationLastError = None, vw_resourceStatus = VR_idle, vw_resourceDelegatedAt = None,
      vw_resourceReleasedAt = None, vw_resourceLastError = None, vw_createdAt = nowIso,
      vw_retiredAt = None, vw_disabledAt = None, vw_replacedByVirtualWalletId = None,
      sv_privateKey = ii_privateKey inp, sv_encryptedPrivateKey = ii_encryptedPrivateKey inp,
      sv_idempotencyKey = ii_idempotencyKey inp\<rparr>"

text \<open>\<open>randomUUID\<close> is the parameter \<open>newId\<close>; \<open>nowIso\<close> is \<open>input.nowIso ?? new Date().toISOString()\<close>.\<close>

definition createWallet :: "(nat \<Rightarrow> string) \<Rightarrow> issue_input \<Rightarrow> stored_wallet option \<Rightarrow> string
    \<Rightarrow> wallet_issue_result wallet_act" where
  "createWallet newId inp replacedWallet nowIso st =
     (let (l, r) = st;
          stored = new_wallet inp (newId (walletUuidCount r)) nowIso;
          r1 = r\<lparr>walletUuidCount := Suc (walletUuidCount r)\<rparr>;
          r2 = (case replacedWallet of
                  None \<Rightarrow> r1
                | Some old \<Rightarrow> r1\<lparr>walletById := map_set (vw_virtualWalletId old)
                     (old\<lparr>vw_status := VW_retired, vw_retiredAt := Some nowIso,
                          vw_replacedByVirtualWalletId := Some (vw_virtualWalletId stored)\<rparr>) (walletById r1)\<rparr>);
          wallets = coalesce (map_get (walletsByUserId r2) (vw_userId stored)) [];
          r3 = r2\<lparr>walletsByUserId := map_set (vw_userId stored) (wallets @ [vw_virtualWalletId stored]) (walletsByUserId r2),
                  walletById := map_set (vw_virtualWalletId stored) stored (walletById r2),
                  walletByAddress := map_set (vw_walletAddress stored) (vw_virtualWalletId stored) (walletByAddress r2),
                  walletByIdempotencyKey := map_set (sv_idempotencyKey stored) (vw_virtualWalletId stored) (walletByIdempotencyKey r2)\<rparr>
      in case bindWalletAddress (vw_userId stored) (vw_walletAddress stored) (vw_createdAt stored) l of
           (Inl e, l') \<Rightarrow> (Inl e, (l', r3))
         | (Inr _, l') \<Rightarrow> (Inr \<lparr>vi_binding = toPublicBinding stored, vi_duplicated = False\<rparr>, (l', r3)))"

definition issueVirtualWallet :: "(nat \<Rightarrow> string) \<Rightarrow> issue_input \<Rightarrow> string \<Rightarrow> wallet_issue_result wallet_act" where
  "issueVirtualWallet newId inp nowIso st =
     (let (l, r) = st in
      case wallet_at r (map_get (walletByIdempotencyKey r) (ii_idempotencyKey inp)) of
        Some b \<Rightarrow> (Inr \<lparr>vi_binding = toPublicBinding b, vi_duplicated = True\<rparr>, st)
      | None \<Rightarrow>
          (case getActiveWallet (ii_userId inp) (ii_currencyId inp) r of
             Some b \<Rightarrow> (Inr \<lparr>vi_binding = toPublicBinding b, vi_duplicated = True\<rparr>, st)
           | None \<Rightarrow>
               (case getWalletBinding (Some (ii_userId inp)) None l of
                  Inl e \<Rightarrow> (Inl e, st)
                | Inr (Some _) \<Rightarrow>
                    (Inl (DomainError 409 ''USER_ALREADY_HAS_BOUND_WALLET_ADDRESS''
                       ''user already has a wallet address bound outside virtual wallet issuance''), st)
                | Inr None \<Rightarrow>
                    (case wallet_at r (map_get (walletByAddress r) (ii_walletAddress inp)) of
                       Some other \<Rightarrow>
                         if vw_userId other \<noteq> ii_userId inp
                         then (Inl (DomainError 409 ''WALLET_ADDRESS_IN_USE''
                                ''wallet address is already bound to another user''), st)
                         else createWallet newId inp None nowIso st
                     | None \<Rightarrow> createWallet newId inp None nowIso st))))"

definition reissueVirtualWallet :: "(nat \<Rightarrow> string) \<Rightarrow> issue_input \<Rightarrow> string \<Rightarrow> wallet_issue_result wallet_act" where
  "reissueVirtualWallet newId inp nowIso st =
     (let (l, r) = st in
      case wallet_at r (map_get (walletByIdempotencyKey r) (ii_idempotencyKey inp)) of
        Some b \<Rightarrow> (Inr \<lparr>vi_binding = toPublicBinding b, vi_duplicated = True\<rparr>, st)
      | None \<Rightarrow>
          createWallet newId inp (getActiveWallet (ii_userId inp) (ii_currencyId inp) r) nowIso st)"

section \<open>Updates of a wallet\<close>

definition write_wallet :: "string \<Rightarrow> stored_wallet \<Rightarrow> wallet_repo \<Rightarrow> wallet_repo" where
  "write_wallet i b r = r\<lparr>walletById := map_set i b (walletById r)\<rparr>"

text \<open>The shape of the mark methods: the wallet must exist, then its object is written.\<close>

definition update_wallet :: "string \<Rightarrow> (stored_wallet \<Rightarrow> stored_wallet) \<Rightarrow> (wallet_repo, virtual_wallet) act" where
  "update_wallet virtualWalletId f r =
     (case requireBinding virtualWalletId r of
        Inl e \<Rightarrow> (Inl e, r)
      | Inr b \<Rightarrow> (Inr (toPublicBinding (f b)), write_wallet virtualWalletId (f b) r))"

definition retireVirtualWallet :: "string \<Rightarrow> string option \<Rightarrow> string \<Rightarrow> (wallet_repo, virtual_wallet) act" where
  "retireVirtualWallet virtualWalletId replacedBy nowIso =
     update_wallet virtualWalletId
       (\<lambda>b. if vw_status b \<noteq> VW_active then b
            else b\<lparr>vw_status := VW_retired, vw_retiredAt := Some nowIso,
                   vw_replacedByVirtualWalletId := replacedBy\<rparr>)"

definition disableVirtualWallet :: "string \<Rightarrow> string \<Rightarrow> (wallet_repo, virtual_wallet) act" where
  "disableVirtualWallet virtualWalletId nowIso =
     update_wallet virtualWalletId
       (\<lambda>b. if vw_status b = VW_disabled then b
            else b\<lparr>vw_status := VW_disabled, vw_disabledAt := Some nowIso\<rparr>)"

definition markActivationGranted :: "string \<Rightarrow> string option \<Rightarrow> string \<Rightarrow> (wallet_repo, virtual_wallet) act" where
  "markActivationGranted virtualWalletId txHash nowIso =
     update_wallet virtualWalletId
       (\<lambda>b. b\<lparr>vw_activationStatus := VA_trx_granted, vw_activationGrantTxHash := txHash,
              vw_activationGrantedAt := Some nowIso, vw_activationLastError := None\<rparr>)"

definition markActivationReclaimPending :: "string \<Rightarrow> string option \<Rightarrow> (wallet_repo, virtual_wallet) act" where
  "markActivationReclaimPending virtualWalletId txHash =
     update_wallet virtualWalletId
       (\<lambda>b. b\<lparr>vw_activationStatus := VA_reclaim_pending, vw_activationReclaimTxHash := txHash,
              vw_activationLastError := None\<rparr>)"

definition markActivationReclaimed :: "string \<Rightarrow> string option \<Rightarrow> string \<Rightarrow> (wallet_repo, virtual_wallet) act" where
  "markActivationReclaimed virtualWalletId txHash nowIso =
     update_wallet virtualWalletId
       (\<lambda>b. b\<lparr>vw_activationStatus := VA_reclaimed, vw_activationReclaimTxHash := txHash,
              vw_activationReclaimedAt := Some nowIso, vw_activationLastError := None\<rparr>)"

definition markActivationFailed :: "string \<Rightarrow> string \<Rightarrow> (wallet_repo, virtual_wallet) act" where
  "markActivationFailed virtualWalletId message =
     update_wallet virtualWalletId
       (\<lambda>b. b\<lparr>vw_activationStatus := VA_failed, vw_activationLastError := Some message\<rparr>)"

definition markResourceDelegatePending :: "string \<Rightarrow> (wallet_repo, virtual_wallet) act" where
  "markResourceDelegatePending virtualWalletId =
     update_wallet virtualWalletId
       (\<lambda>b. b\<lparr>vw_resourceStatus := VR_delegate_pending, vw_resourceLastError := None\<rparr>)"

definition markResourceDelegated :: "string \<Rightarrow> string \<Rightarrow> (wallet_repo, virtual_wallet) act" where
  "markResourceDelegated virtualWalletId nowIso =
     update_wallet virtualWalletId
       (\<lambda>b. b\<lparr>vw_resourceStatus := VR_delegated, vw_resourceDelegatedAt := Some nowIso,
              vw_resourceLastError := None\<rparr>)"

definition markResourceReleasePending :: "string \<Rightarrow> (wallet_repo, virtual_wallet) act" where
  "markResourceReleasePending virtualWalletId =
     update_wallet virtualWalletId
       (\<lambda>b. b\<lparr>vw_resourceStatus := VR_release_pending, vw_resourceLastError := None\<rparr>)"

definition markResourceReleased :: "string \<Rightarrow> string \<Rightarrow> (wallet_repo, virtual_wallet) act" where
  "markResourceReleased virtualWalletId nowIso =
     update_wallet virtualWalletId
       (\<lambda>b. b\<lparr>vw_resourceStatus := VR_released, vw_resourceReleasedAt := Some nowIso,
              vw_resourceLastError := None\<rparr>)"

definition markResourceFailed :: "string \<Rightarrow> string \<Rightarrow> (wallet_repo, virtual_wallet) act" where
  "markResourceFailed virtualWalletId message =
     update_wallet virtualWalletId
       (\<lambda>b. b\<lparr>vw_resourceStatus := VR_failed, vw_resourceLastError := Some message\<rparr>)"

section \<open>The invariant of the repository\<close>

text \<open>
  Every reference leads to the object it should: an id list to wallets of that user, an address to a
  wallet with that address, an idempotency key to the wallet created under it; every wallet is listed
  under its user; and a user has at most one active wallet per currency.
\<close>

definition one_active :: "wallet_repo \<Rightarrow> bool" where
  "one_active r =
     (\<forall>i j b c. map_get (walletById r) i = Some b \<longrightarrow> map_get (walletById r) j = Some c \<longrightarrow>
        vw_status b = VW_active \<longrightarrow> vw_status c = VW_active \<longrightarrow>
        vw_userId b = vw_userId c \<longrightarrow> vw_currencyId b = vw_currencyId c \<longrightarrow> i = j)"

definition listed :: "wallet_repo \<Rightarrow> string \<Rightarrow> string set" where
  "listed r u = set (coalesce (map_get (walletsByUserId r) u) [])"

definition repo_ok :: "(nat \<Rightarrow> string) \<Rightarrow> wallet_repo \<Rightarrow> bool" where
  "repo_ok newId r =
     ((\<forall>i b. map_get (walletById r) i = Some b \<longrightarrow>
         vw_virtualWalletId b = i \<and> i \<in> newId ` {..<walletUuidCount r} \<and> i \<in> listed r (vw_userId b)) \<and>
      (\<forall>u i. i \<in> listed r u \<longrightarrow> (\<exists>b. map_get (walletById r) i = Some b \<and> vw_userId b = u)) \<and>
      (\<forall>a i. map_get (walletByAddress r) a = Some i \<longrightarrow>
         (\<exists>b. map_get (walletById r) i = Some b \<and> vw_walletAddress b = a)) \<and>
      (\<forall>k i. map_get (walletByIdempotencyKey r) k = Some i \<longrightarrow>
         (\<exists>b. map_get (walletById r) i = Some b \<and> sv_idempotencyKey b = k)) \<and>
      one_active r \<and> map_wf (walletByAddress r))"

lemma repo_okD:
  assumes "repo_ok newId r"
  shows "map_get (walletById r) i = Some b \<Longrightarrow> vw_virtualWalletId b = i"
    "map_get (walletById r) i = Some b \<Longrightarrow> i \<in> newId ` {..<walletUuidCount r}"
    "map_get (walletById r) i = Some b \<Longrightarrow> i \<in> listed r (vw_userId b)"
    "i \<in> listed r u \<Longrightarrow> \<exists>b. map_get (walletById r) i = Some b \<and> vw_userId b = u"
    "map_get (walletByAddress r) a = Some i \<Longrightarrow> \<exists>b. map_get (walletById r) i = Some b \<and> vw_walletAddress b = a"
    "map_get (walletByIdempotencyKey r) k = Some i \<Longrightarrow> \<exists>b. map_get (walletById r) i = Some b \<and> sv_idempotencyKey b = k"
    "one_active r" "map_wf (walletByAddress r)"
  using assms unfolding repo_ok_def by blast+

lemma repo_ok_empty: "repo_ok newId empty_wallet_repo"
  by (simp add: repo_ok_def empty_wallet_repo_def one_active_def listed_def)

text \<open>What may happen to a stored wallet: it keeps its identity and never becomes active again.\<close>

definition same_wallet :: "stored_wallet \<Rightarrow> stored_wallet \<Rightarrow> bool" where
  "same_wallet b c =
     (vw_virtualWalletId c = vw_virtualWalletId b \<and> vw_userId c = vw_userId b \<and>
      vw_currencyId c = vw_currencyId b \<and> vw_network c = vw_network b \<and>
      vw_walletAddress c = vw_walletAddress b \<and> vw_sweepTargetAddress c = vw_sweepTargetAddress b \<and>
      vw_createdAt c = vw_createdAt b \<and> sv_privateKey c = sv_privateKey b \<and>
      sv_encryptedPrivateKey c = sv_encryptedPrivateKey b \<and> sv_idempotencyKey c = sv_idempotencyKey b)"

definition wallet_follows :: "stored_wallet \<Rightarrow> stored_wallet \<Rightarrow> bool" where
  "wallet_follows b c =
     (same_wallet b c \<and> (vw_status c = VW_active \<longrightarrow> vw_status b = VW_active) \<and>
      (vw_status b = VW_disabled \<longrightarrow> vw_status c = VW_disabled))"

definition wallets_evolve :: "wallet_repo \<Rightarrow> wallet_repo \<Rightarrow> bool" where
  "wallets_evolve r r' =
     (\<forall>i b. map_get (walletById r) i = Some b \<longrightarrow> (\<exists>c. map_get (walletById r') i = Some c \<and> wallet_follows b c))"

lemma wallet_follows_refl [simp]: "wallet_follows b b"
  by (simp add: wallet_follows_def same_wallet_def)

lemma same_wallet_trans: "same_wallet b c \<Longrightarrow> same_wallet c d \<Longrightarrow> same_wallet b d"
  unfolding same_wallet_def by (elim conjE, intro conjI; erule trans, assumption)

lemma wallet_follows_trans: "wallet_follows b c \<Longrightarrow> wallet_follows c d \<Longrightarrow> wallet_follows b d"
  unfolding wallet_follows_def by (blast intro: same_wallet_trans)

lemma wallets_evolve_refl [simp]: "wallets_evolve r r"
  by (simp add: wallets_evolve_def)

lemma wallets_evolve_trans: "wallets_evolve r s \<Longrightarrow> wallets_evolve s t \<Longrightarrow> wallets_evolve r t"
  unfolding wallets_evolve_def by (meson wallet_follows_trans)

section \<open>Writing one wallet\<close>

lemma write_wallet_sel [simp]:
  "walletById (write_wallet i b r) = map_set i b (walletById r)"
  "walletByAddress (write_wallet i b r) = walletByAddress r"
  "walletByIdempotencyKey (write_wallet i b r) = walletByIdempotencyKey r"
  "walletUuidCount (write_wallet i b r) = walletUuidCount r"
  "walletsByUserId (write_wallet i b r) = walletsByUserId r"
  "listed (write_wallet i b r) = listed r"
  by (simp_all add: write_wallet_def listed_def fun_eq_iff)

lemma repo_ok_write:
  assumes ok: "repo_ok newId r" and b: "map_get (walletById r) i = Some b" and f: "wallet_follows b c"
  shows "repo_ok newId (write_wallet i c r)"
proof -
  have id: "vw_userId c = vw_userId b" "vw_virtualWalletId c = vw_virtualWalletId b" "vw_walletAddress c = vw_walletAddress b"
      "sv_idempotencyKey c = sv_idempotencyKey b" "vw_currencyId c = vw_currencyId b"
    using f by (simp_all add: wallet_follows_def same_wallet_def)
  have "one_active (write_wallet i c r)"
    unfolding one_active_def
  proof (intro allI impI)
    fix j k d e
    assume d: "map_get (walletById (write_wallet i c r)) j = Some d"
      and e: "map_get (walletById (write_wallet i c r)) k = Some e"
      and act: "vw_status d = VW_active" "vw_status e = VW_active"
      and eq: "vw_userId d = vw_userId e" "vw_currencyId d = vw_currencyId e"
    have old: "\<exists>x. map_get (walletById r) j = Some x \<and> vw_status x = VW_active \<and>
        vw_userId x = vw_userId d \<and> vw_currencyId x = vw_currencyId d"
      if "map_get (walletById (write_wallet i c r)) j = Some d" "vw_status d = VW_active" for j d
      using that b f id by (auto simp: wallet_follows_def split: if_splits)
    from old [OF d act(1)] old [OF e act(2)] eq repo_okD(7) [OF ok]
    show "j = k" unfolding one_active_def by metis
  qed
  moreover have "vw_virtualWalletId d = j \<and> j \<in> newId ` {..<walletUuidCount r} \<and> j \<in> listed r (vw_userId d)"
    if "map_get (map_set i c (walletById r)) j = Some d" for j d
    using that id b repo_okD(1-3) [OF ok, of j] by (cases "j = i") auto
  moreover have "\<exists>d. map_get (map_set i c (walletById r)) j = Some d \<and> vw_userId d = u" if "j \<in> listed r u" for j u
    using that id b repo_okD(4) [OF ok that] by (cases "j = i") auto
  moreover have "\<exists>d. map_get (map_set i c (walletById r)) j = Some d \<and> vw_walletAddress d = a"
    if "map_get (walletByAddress r) a = Some j" for j a
    using that id b repo_okD(5) [OF ok that] by (cases "j = i") auto
  moreover have "\<exists>d. map_get (map_set i c (walletById r)) j = Some d \<and> sv_idempotencyKey d = k"
    if "map_get (walletByIdempotencyKey r) k = Some j" for j k
    using that id b repo_okD(6) [OF ok that] by (cases "j = i") auto
  ultimately show ?thesis using repo_okD(8) [OF ok] unfolding repo_ok_def by simp
qed

lemma update_wallet_state:
  "snd (update_wallet i f r) = (case map_get (walletById r) i of None \<Rightarrow> r | Some b \<Rightarrow> write_wallet i (f b) r)"
  by (simp add: update_wallet_def requireBinding_def split: option.split)

lemma repo_ok_update:
  assumes "repo_ok newId r" and "\<And>b. wallet_follows b (f b)"
  shows "repo_ok newId (snd (update_wallet i f r))"
  using assms by (auto simp: update_wallet_state intro: repo_ok_write split: option.split)

lemma evolve_update:
  assumes "\<And>b. wallet_follows b (f b)"
  shows "wallets_evolve r (snd (update_wallet i f r))"
  using assms by (auto simp: update_wallet_state wallets_evolve_def split: option.split)

text \<open>The wallets reached through \<open>walletByAddress\<close> are stored, each once.\<close>

lemma address_values_stored:
  assumes "repo_ok newId r"
  shows "b \<in> set (address_values r) \<Longrightarrow> map_get (walletById r) (vw_virtualWalletId b) = Some b"
    and "distinct (map vw_virtualWalletId (address_values r))"
proof -
  have step: "\<exists>i b. map_get (walletById r) i = Some b \<and> p = (vw_walletAddress b, i) \<and> vw_virtualWalletId b = i"
    if "p \<in> set (walletByAddress r)" for p
  proof -
    have "map_get (walletByAddress r) (fst p) = Some (snd p)"
      using that repo_okD(8) [OF assms] unfolding map_get_def map_wf_def by (simp add: map_of_is_SomeI)
    then show ?thesis
      using repo_okD(5) [OF assms, of "fst p" "snd p"] repo_okD(1) [OF assms, of "snd p"]
      by (metis prod.collapse)
  qed
  show "map_get (walletById r) (vw_virtualWalletId b) = Some b" if "b \<in> set (address_values r)"
    using that step by (fastforce simp: address_values_def map_filter_def map_values_def)
  have "distinct (map vw_virtualWalletId (List.map_filter (map_get (walletById r)) (map snd m))) \<and>
      vw_virtualWalletId ` set (List.map_filter (map_get (walletById r)) (map snd m)) \<subseteq> snd ` set m"
    if "set m \<subseteq> set (walletByAddress r)" "distinct (map fst m)" for m
    using that
  proof (induction m)
    case (Cons p m)
    obtain b where b: "map_get (walletById r) (snd p) = Some b" "fst p = vw_walletAddress b" "vw_virtualWalletId b = snd p"
      using step [of p] Cons.prems(1) by force
    have "snd p \<notin> snd ` set m"
    proof
      assume "snd p \<in> snd ` set m"
      then obtain q where q: "q \<in> set m" "snd q = snd p" by auto
      moreover from q(1) Cons.prems(1) have "q \<in> set (walletByAddress r)" by auto
      ultimately have "fst q = fst p" using step [of q] b(1,2) by force
      with q(1) Cons.prems(2) show False by (metis distinct.simps(2) image_eqI list.simps(9) set_map)
    qed
    with Cons.IH Cons.prems b show ?case by (auto simp: List.map_filter_simps)
  qed (simp add: List.map_filter_simps)
  from this [of "walletByAddress r"] repo_okD(8) [OF assms]
  show "distinct (map vw_virtualWalletId (address_values r))"
    by (simp add: address_values_def map_values_def map_wf_def)
qed

section \<open>Creation keeps the invariant\<close>

lemma wallets_of_iff:
  assumes ok: "repo_ok newId r"
  shows "b \<in> set (wallets_of r u) \<longleftrightarrow> map_get (walletById r) (vw_virtualWalletId b) = Some b \<and> vw_userId b = u"
proof
  assume "b \<in> set (wallets_of r u)"
  then obtain i where i: "i \<in> listed r u" "map_get (walletById r) i = Some b"
    by (auto simp: wallets_of_def listed_def map_filter_def)
  from repo_okD(4) [OF ok i(1)] i(2) repo_okD(1) [OF ok i(2)]
  show "map_get (walletById r) (vw_virtualWalletId b) = Some b \<and> vw_userId b = u" by auto
next
  assume b: "map_get (walletById r) (vw_virtualWalletId b) = Some b \<and> vw_userId b = u"
  then have "vw_virtualWalletId b \<in> listed r u" using repo_okD(3) [OF ok] by auto
  with b show "b \<in> set (wallets_of r u)"
    by (force simp: wallets_of_def listed_def map_filter_def)
qed

lemma getActiveWallet_Some:
  assumes ok: "repo_ok newId r" and g: "getActiveWallet u c r = Some b"
  shows "map_get (walletById r) (vw_virtualWalletId b) = Some b" "vw_userId b = u" "vw_currencyId b = c"
    "vw_status b = VW_active"
  using g wallets_of_iff [OF ok, of b u] by (auto simp: getActiveWallet_def find_Some_iff in_set_conv_nth)

lemma getActiveWallet_None:
  assumes ok: "repo_ok newId r" and g: "getActiveWallet u c r = None"
    and b: "map_get (walletById r) i = Some b" "vw_userId b = u" "vw_currencyId b = c"
  shows "vw_status b \<noteq> VW_active"
  using g wallets_of_iff [OF ok, of b u] b repo_okD(1) [OF ok b(1)]
  by (auto simp: getActiveWallet_def find_None_iff)

text \<open>The repository part of \<open>createWallet\<close>: retire the replaced wallet, then add the new one.\<close>

definition add_wallet :: "stored_wallet \<Rightarrow> wallet_repo \<Rightarrow> wallet_repo" where
  "add_wallet b r = r\<lparr>walletUuidCount := Suc (walletUuidCount r),
     walletsByUserId := map_set (vw_userId b)
       (coalesce (map_get (walletsByUserId r) (vw_userId b)) [] @ [vw_virtualWalletId b]) (walletsByUserId r),
     walletById := map_set (vw_virtualWalletId b) b (walletById r),
     walletByAddress := map_set (vw_walletAddress b) (vw_virtualWalletId b) (walletByAddress r),
     walletByIdempotencyKey := map_set (sv_idempotencyKey b) (vw_virtualWalletId b) (walletByIdempotencyKey r)\<rparr>"

definition retired_for :: "string \<Rightarrow> string \<Rightarrow> stored_wallet option \<Rightarrow> wallet_repo \<Rightarrow> wallet_repo" where
  "retired_for newWalletId nowIso old r =
     (case old of None \<Rightarrow> r
      | Some b \<Rightarrow> write_wallet (vw_virtualWalletId b)
          (b\<lparr>vw_status := VW_retired, vw_retiredAt := Some nowIso,
             vw_replacedByVirtualWalletId := Some newWalletId\<rparr>) r)"

lemma createWallet_state:
  "snd (createWallet newId inp old now (l, r)) =
     (snd (bindWalletAddress (ii_userId inp) (ii_walletAddress inp) now l),
      add_wallet (new_wallet inp (newId (walletUuidCount r)) now) (retired_for (newId (walletUuidCount r)) now old r))"
  by (simp add: createWallet_def Let_def add_wallet_def retired_for_def write_wallet_def new_wallet_def split_beta
      split: option.split sum.split)

lemma new_wallet_sel [simp]:
  "vw_userId (new_wallet inp i now) = ii_userId inp" "vw_virtualWalletId (new_wallet inp i now) = i"
  "vw_walletAddress (new_wallet inp i now) = ii_walletAddress inp" "vw_status (new_wallet inp i now) = VW_active"
  "vw_currencyId (new_wallet inp i now) = ii_currencyId inp" "sv_idempotencyKey (new_wallet inp i now) = ii_idempotencyKey inp"
  by (simp_all add: new_wallet_def)

lemma repo_ok_add:
  assumes ok: "repo_ok newId r" and inj: "inj newId"
    and id: "vw_virtualWalletId b = newId (walletUuidCount r)"
    and none: "\<And>i c. map_get (walletById r) i = Some c \<Longrightarrow> vw_userId c = vw_userId b \<Longrightarrow>
      vw_currencyId c = vw_currencyId b \<Longrightarrow> vw_status c \<noteq> VW_active"
  shows "repo_ok newId (add_wallet b r)"
proof -
  let ?r = "add_wallet b r" and ?i = "newId (walletUuidCount r)"
  have fresh: "map_get (walletById r) ?i = None"
    using repo_okD(2) [OF ok, of ?i] inj by (cases "map_get (walletById r) ?i") (auto dest: injD)
  have get: "map_get (walletById ?r) j = (if j = ?i then Some b else map_get (walletById r) j)" for j
    by (simp add: add_wallet_def id)
  have listed: "listed ?r u = (if u = vw_userId b then insert ?i (listed r u) else listed r u)" for u
    by (auto simp: listed_def add_wallet_def id)
  have "one_active ?r"
    using repo_okD(7) [OF ok] none unfolding one_active_def get by (metis option.inject)
  moreover have "\<exists>c. map_get (walletById ?r) j = Some c \<and> vw_userId c = u" if "j \<in> listed ?r u" for j u
    using that repo_okD(4) [OF ok, of j u] fresh by (auto simp: get listed split: if_splits)
  moreover have "\<exists>c. map_get (walletById ?r) j = Some c \<and> vw_walletAddress c = a"
    if "map_get (walletByAddress ?r) a = Some j" for a j
    using that repo_okD(5) [OF ok, of a j] fresh unfolding get by (auto simp: add_wallet_def id split: if_splits)
  moreover have "\<exists>c. map_get (walletById ?r) j = Some c \<and> sv_idempotencyKey c = k"
    if "map_get (walletByIdempotencyKey ?r) k = Some j" for k j
    using that repo_okD(6) [OF ok, of k j] fresh unfolding get by (auto simp: add_wallet_def id split: if_splits)
  moreover have "vw_virtualWalletId c = j \<and> j \<in> newId ` {..<walletUuidCount ?r} \<and> j \<in> listed ?r (vw_userId c)"
    if "map_get (walletById ?r) j = Some c" for j c
    using that repo_okD(1-3) [OF ok, of j c] id unfolding get listed
    by (auto simp: add_wallet_def lessThan_Suc split: if_splits)
  moreover have "map_wf (walletByAddress ?r)" using repo_okD(8) [OF ok] by (simp add: add_wallet_def)
  ultimately show ?thesis unfolding repo_ok_def by blast
qed

lemma retired_for_count [simp]: "walletUuidCount (retired_for i now old r) = walletUuidCount r"
  by (simp add: retired_for_def split: option.split)

lemma repo_ok_create:
  assumes ok: "repo_ok newId r" and inj: "inj newId" and old: "old = getActiveWallet (ii_userId inp) (ii_currencyId inp) r"
  shows "repo_ok newId (snd (snd (createWallet newId inp old now (l, r))))"
proof -
  let ?i = "newId (walletUuidCount r)" and ?r = "retired_for (newId (walletUuidCount r)) now old r"
  have ok': "repo_ok newId ?r"
    using ok old getActiveWallet_Some [OF ok]
    by (auto simp: retired_for_def wallet_follows_def same_wallet_def intro!: repo_ok_write split: option.split)
  have none: "vw_status c \<noteq> VW_active"
    if c: "map_get (walletById ?r) j = Some c" "vw_userId c = ii_userId inp" "vw_currencyId c = ii_currencyId inp" for j c
  proof (cases old)
    case None
    then show ?thesis using c getActiveWallet_None [OF ok] old by (auto simp: retired_for_def)
  next
    case (Some b)
    note B = getActiveWallet_Some [OF ok, of "ii_userId inp" "ii_currencyId inp" b]
    have "map_get (walletById r) (vw_virtualWalletId b) = Some b" "vw_userId b = ii_userId inp"
        "vw_currencyId b = ii_currencyId inp" "vw_status b = VW_active"
      using B Some old by auto
    then show ?thesis using c Some repo_okD(7) [OF ok] unfolding one_active_def
      by (auto simp: retired_for_def split: if_splits)
  qed
  from repo_ok_add [OF ok' inj, of "new_wallet inp ?i now"] none show ?thesis
    by (simp add: createWallet_state)
qed

lemma evolve_create:
  assumes ok: "repo_ok newId r" and inj: "inj newId" and old: "old = getActiveWallet (ii_userId inp) (ii_currencyId inp) r"
  shows "wallets_evolve r (snd (snd (createWallet newId inp old now (l, r))))"
proof -
  let ?i = "newId (walletUuidCount r)"
  have "map_get (walletById r) ?i = None"
    using repo_okD(2) [OF ok, of ?i] inj by (cases "map_get (walletById r) ?i") (auto dest: injD)
  moreover have "wallets_evolve r (retired_for ?i now old r)"
    using old getActiveWallet_Some [OF ok]
    by (auto simp: retired_for_def wallets_evolve_def wallet_follows_def same_wallet_def split: option.split)
  ultimately show ?thesis
    by (auto simp: createWallet_state wallets_evolve_def add_wallet_def)
qed

text \<open>\<open>issue\<close> and \<open>reissue\<close> either leave the repository alone or create.\<close>

lemma issue_cases:
  "snd (issueVirtualWallet newId inp now (l, r)) = (l, r) \<or>
   getActiveWallet (ii_userId inp) (ii_currencyId inp) r = None \<and>
   issueVirtualWallet newId inp now (l, r) = createWallet newId inp None now (l, r)"
  by (simp add: issueVirtualWallet_def split: option.split sum.split)

lemma reissue_cases:
  "snd (reissueVirtualWallet newId inp now (l, r)) = (l, r) \<or>
   reissueVirtualWallet newId inp now (l, r)
     = createWallet newId inp (getActiveWallet (ii_userId inp) (ii_currencyId inp) r) now (l, r)"
  by (simp add: reissueVirtualWallet_def split: option.split)

lemma repo_ok_issue:
  assumes "repo_ok newId r" and "inj newId"
  shows "repo_ok newId (snd (snd (issueVirtualWallet newId inp now (l, r))))"
  using issue_cases [of newId inp now l r] assms repo_ok_create [OF assms, of None inp now l] by auto

lemma repo_ok_reissue:
  assumes "repo_ok newId r" and "inj newId"
  shows "repo_ok newId (snd (snd (reissueVirtualWallet newId inp now (l, r))))"
  using reissue_cases [of newId inp now l r] assms repo_ok_create [OF assms refl, of inp now l] by auto

lemma evolve_issue:
  assumes "repo_ok newId r" and "inj newId"
  shows "wallets_evolve r (snd (snd (issueVirtualWallet newId inp now (l, r))))"
  using issue_cases [of newId inp now l r] assms evolve_create [OF assms, of None inp now l] by auto

lemma evolve_reissue:
  assumes "repo_ok newId r" and "inj newId"
  shows "wallets_evolve r (snd (snd (reissueVirtualWallet newId inp now (l, r))))"
  using reissue_cases [of newId inp now l r] assms evolve_create [OF assms refl, of inp now l] by auto

end
