(* ===== verification/WithdrawPolicy.thy ===== *)
theory WithdrawPolicy
  imports Effects
begin

text \<open>
  Address policies for withdrawals: the in-memory repository
  (\<open>src/infrastructure/persistence/in-memory-withdraw-policy-repository.ts\<close>), a \<open>Map\<close> from
  \<open>address:policyType\<close> to the policy, and the service that blocks destinations
  (\<open>src/application/services/withdraw-policy-service.ts\<close>).  What the service needs of a repository
  is the locale \<open>policy_store\<close>.
\<close>

datatype policy_type = PT_blacklist | PT_whitelist | PT_internal_blocked

fun policy_type_name :: "policy_type \<Rightarrow> string" where
  "policy_type_name PT_blacklist = ''blacklist''"
| "policy_type_name PT_whitelist = ''whitelist''"
| "policy_type_name PT_internal_blocked = ''internal_blocked''"

record address_policy =
  ap_address :: string
  ap_policyType :: policy_type
  ap_reason :: "string option"
  ap_createdBy :: string
  ap_createdAt :: string
  ap_updatedAt :: string

section \<open>The in-memory repository\<close>

definition buildKey :: "string \<Rightarrow> policy_type \<Rightarrow> string" where
  "buildKey address policyType = address @ '':'' @ policy_type_name policyType"

definition upsertAddressPolicy :: "string \<Rightarrow> policy_type \<Rightarrow> string option \<Rightarrow> string \<Rightarrow> string
    \<Rightarrow> address_policy jsmap \<Rightarrow> address_policy \<times> address_policy jsmap" where
  "upsertAddressPolicy address policyType reason createdBy nowIso m =
     (let existing = map_get m (buildKey address policyType);
          policy = \<lparr>ap_address = address, ap_policyType = policyType, ap_reason = reason,
                    ap_createdBy = coalesce (map_option ap_createdBy existing) createdBy,
                    ap_createdAt = coalesce (map_option ap_createdAt existing) nowIso,
                    ap_updatedAt = nowIso\<rparr>
      in (policy, map_set (buildKey address policyType) policy m))"

definition getAddressPolicies :: "string \<Rightarrow> address_policy jsmap \<Rightarrow> address_policy list" where
  "getAddressPolicies address m = filter (\<lambda>p. ap_address p = address) (map_values m)"

definition listAddressPolicies :: "string option \<Rightarrow> policy_type option \<Rightarrow> int option \<Rightarrow> address_policy jsmap
    \<Rightarrow> address_policy list" where
  "listAddressPolicies address policyType limit m =
     slice0 (coalesce limit 100) (sort_desc ap_updatedAt
       (filter (\<lambda>p. matches policyType (ap_policyType p))
         (filter (\<lambda>p. matches_str address (ap_address p)) (map_values m))))"

definition deleteAddressPolicy :: "string \<Rightarrow> policy_type \<Rightarrow> address_policy jsmap \<Rightarrow> bool \<times> address_policy jsmap" where
  "deleteAddressPolicy address policyType m =
     (let key = buildKey address policyType in (map_get m key \<noteq> None, map_delete key m))"

section \<open>The service\<close>

definition BLOCKING_POLICY_TYPES :: "policy_type list" where
  "BLOCKING_POLICY_TYPES = [PT_blacklist, PT_internal_blocked]"

definition assertAddressAllowed :: "address_policy list \<Rightarrow> js_error + unit" where
  "assertAddressAllowed policies =
     (case find (\<lambda>p. ap_policyType p \<in> set BLOCKING_POLICY_TYPES) policies of
        None \<Rightarrow> Inr ()
      | Some _ \<Rightarrow> Inl (DomainError 400 ''WITHDRAW_DESTINATION_BLOCKED''
          ''withdraw destination is blocked by policy''))"

section \<open>The contract of a policy store\<close>

text \<open>
  \<open>lookup\<close> is what a store knows about an address and a policy type.  An upsert sets one entry and
  keeps who created it; a delete removes one; nothing else changes.
\<close>

locale policy_store =
  fixes ok :: "'r \<Rightarrow> bool"
    and policies :: "string \<Rightarrow> 'r \<Rightarrow> address_policy list"
    and upsert :: "string \<Rightarrow> policy_type \<Rightarrow> string option \<Rightarrow> string \<Rightarrow> string \<Rightarrow> 'r \<Rightarrow> address_policy \<times> 'r"
    and remove :: "string \<Rightarrow> policy_type \<Rightarrow> 'r \<Rightarrow> bool \<times> 'r"
  assumes upsert_ok: "ok r \<Longrightarrow> ok (snd (upsert a ty reason by now r))"
    and remove_ok: "ok r \<Longrightarrow> ok (snd (remove a ty r))"
    and types_upsert: "ok r \<Longrightarrow> ap_policyType ` set (policies b (snd (upsert a ty reason by now r)))
      = ap_policyType ` set (policies b r) \<union> (if b = a then {ty} else {})"
    and types_remove: "ok r \<Longrightarrow> ap_policyType ` set (policies b (snd (remove a ty r)))
      = ap_policyType ` set (policies b r) - (if b = a then {ty} else {})"
begin

definition blocked :: "string \<Rightarrow> 'r \<Rightarrow> bool" where
  "blocked a r = fails (assertAddressAllowed (policies a r))"

lemma blocked_iff: "blocked a r \<longleftrightarrow> ap_policyType ` set (policies a r) \<inter> {PT_blacklist, PT_internal_blocked} \<noteq> {}"
  by (auto simp: blocked_def assertAddressAllowed_def BLOCKING_POLICY_TYPES_def find_None_iff
      split: option.split dest!: find_Some_iff [THEN iffD1]) (force simp: in_set_conv_nth)+

lemma blocked_upsert:
  assumes "ok r"
  shows "blocked b (snd (upsert a ty reason by now r)) \<longleftrightarrow> blocked b r \<or> b = a \<and> ty \<noteq> PT_whitelist"
  unfolding blocked_iff types_upsert [OF assms] by (cases ty) auto

lemma blocked_remove:
  assumes "ok r" and "ap_policyType ` set (policies a r) \<subseteq> {ty, PT_whitelist}"
  shows "\<not> blocked a (snd (remove a ty r))"
  using assms(2) unfolding blocked_iff types_remove [OF assms(1)] by auto

lemma blocked_remove_other: "ok r \<Longrightarrow> b \<noteq> a \<Longrightarrow> blocked b (snd (remove a ty r)) \<longleftrightarrow> blocked b r"
  unfolding blocked_iff by (simp add: types_remove)

end

text \<open>Every policy is stored under its own key.\<close>

definition policies_ok :: "address_policy jsmap \<Rightarrow> bool" where
  "policies_ok m =
     (map_wf m \<and> (\<forall>k p. map_get m k = Some p \<longrightarrow> k = buildKey (ap_address p) (ap_policyType p)))"

lemma buildKey_inject: "buildKey a s = buildKey b t \<longleftrightarrow> a = b \<and> s = t"
  by (cases s; cases t) (auto simp: buildKey_def append_eq_append_conv2 append_eq_Cons_conv Cons_eq_append_conv)

lemma policy_member:
  assumes "policies_ok m"
  shows "p \<in> set (getAddressPolicies a m) \<longleftrightarrow> map_get m (buildKey a (ap_policyType p)) = Some p"
proof
  assume "p \<in> set (getAddressPolicies a m)"
  then show "map_get m (buildKey a (ap_policyType p)) = Some p"
    using assms map_get_values [of m p] by (auto simp: getAddressPolicies_def policies_ok_def)
next
  assume g: "map_get m (buildKey a (ap_policyType p)) = Some p"
  then have "buildKey a (ap_policyType p) = buildKey (ap_address p) (ap_policyType p)"
    using assms by (simp add: policies_ok_def)
  with g show "p \<in> set (getAddressPolicies a m)"
    by (auto simp: getAddressPolicies_def buildKey_inject intro: map_values_get)
qed

lemma policy_types:
  assumes "policies_ok m"
  shows "ty \<in> ap_policyType ` set (getAddressPolicies a m) \<longleftrightarrow> map_get m (buildKey a ty) \<noteq> None"
proof
  assume "ty \<in> ap_policyType ` set (getAddressPolicies a m)"
  then obtain p where "p \<in> set (getAddressPolicies a m)" "ty = ap_policyType p" by blast
  then show "map_get m (buildKey a ty) \<noteq> None" using policy_member [OF assms] by simp
next
  assume "map_get m (buildKey a ty) \<noteq> None"
  then obtain p where p: "map_get m (buildKey a ty) = Some p" by blast
  then have "buildKey a ty = buildKey (ap_address p) (ap_policyType p)" using assms by (simp add: policies_ok_def)
  then have "ty = ap_policyType p" by (simp add: buildKey_inject)
  with p show "ty \<in> ap_policyType ` set (getAddressPolicies a m)" using policy_member [OF assms] by blast
qed

lemma policies_ok_ops:
  assumes "policies_ok m"
  shows "policies_ok (snd (upsertAddressPolicy a ty reason by' now m))" "policies_ok (snd (deleteAddressPolicy a ty m))"
  using assms by (auto simp: policies_ok_def upsertAddressPolicy_def deleteAddressPolicy_def Let_def split: if_splits)

interpretation mp: policy_store policies_ok getAddressPolicies upsertAddressPolicy deleteAddressPolicy
proof
  fix m :: "address_policy jsmap" and a b :: string and ty and reason and by' now
  assume ok: "policies_ok m"
  show "policies_ok (snd (upsertAddressPolicy a ty reason by' now m))" "policies_ok (snd (deleteAddressPolicy a ty m))"
    using ok by (rule policies_ok_ops)+
  note T = policy_types [OF ok] policy_types [OF policies_ok_ops(1) [OF ok]] policy_types [OF policies_ok_ops(2) [OF ok]]
  show "ap_policyType ` set (getAddressPolicies b (snd (upsertAddressPolicy a ty reason by' now m)))
      = ap_policyType ` set (getAddressPolicies b m) \<union> (if b = a then {ty} else {})"
    by (auto simp: set_eq_iff T) (auto simp: upsertAddressPolicy_def Let_def buildKey_inject split: if_splits)
  show "ap_policyType ` set (getAddressPolicies b (snd (deleteAddressPolicy a ty m)))
      = ap_policyType ` set (getAddressPolicies b m) - (if b = a then {ty} else {})"
    by (auto simp: set_eq_iff T) (auto simp: deleteAddressPolicy_def Let_def buildKey_inject split: if_splits)
qed

end
