(* ===== verification/RuntimeSettings.thy ===== *)
theory RuntimeSettings
  imports Prelude
begin

text \<open>
  \<open>src/config/runtime-settings.ts\<close>: the contract profile an operator can switch at run time, and the
  network the application is effectively on.  The addresses and URLs come from the environment
  (\<open>src/config/env.ts\<close>) and are the fields of \<open>contract_env\<close>; the module's \<open>state\<close> is
  \<open>contract_state\<close>.
\<close>

datatype contract_profile = CP_runtime | CP_mainnet | CP_testnet | CP_custom

datatype effective_network = EN_mainnet | EN_testnet | EN_unknown

record contract_env =
  ce_tronApiUrl :: string
  ce_mainnetTronApiUrl :: string
  ce_testnetTronApiUrl :: string
  ce_koriTokenContractAddress :: "string option"
  ce_mainnetKoriTokenContractAddress :: "string option"
  ce_testnetKoriTokenContractAddress :: "string option"

record contract_state =
  cs_activeProfile :: contract_profile
  cs_customContractAddress :: "string option"

definition initial_contract_state :: "contract_env \<Rightarrow> contract_state" where
  "initial_contract_state env =
     \<lparr>cs_activeProfile = CP_runtime, cs_customContractAddress = ce_koriTokenContractAddress env\<rparr>"

definition getActiveContractAddress :: "contract_env \<Rightarrow> contract_state \<Rightarrow> string option" where
  "getActiveContractAddress env s =
     (case cs_activeProfile s of
        CP_mainnet \<Rightarrow> ce_mainnetKoriTokenContractAddress env
      | CP_testnet \<Rightarrow> ce_testnetKoriTokenContractAddress env
      | CP_custom \<Rightarrow> cs_customContractAddress s
      | CP_runtime \<Rightarrow> ce_koriTokenContractAddress env)"

definition getActiveTronApiUrl :: "contract_env \<Rightarrow> contract_state \<Rightarrow> string" where
  "getActiveTronApiUrl env s =
     (case cs_activeProfile s of
        CP_mainnet \<Rightarrow> ce_mainnetTronApiUrl env
      | CP_testnet \<Rightarrow> ce_testnetTronApiUrl env
      | _ \<Rightarrow> ce_tronApiUrl env)"

definition setRuntimeContractProfile :: "contract_profile \<Rightarrow> string option \<Rightarrow> contract_state \<Rightarrow> contract_state" where
  "setRuntimeContractProfile profile customContractAddress s =
     (let s1 = s\<lparr>cs_activeProfile := profile\<rparr>
      in if profile = CP_custom then s1\<lparr>cs_customContractAddress := customContractAddress\<rparr> else s1)"

definition getEffectiveBlockchainNetwork :: "contract_env \<Rightarrow> contract_state \<Rightarrow> effective_network" where
  "getEffectiveBlockchainNetwork env s =
     (case cs_activeProfile s of
        CP_mainnet \<Rightarrow> EN_mainnet
      | CP_testnet \<Rightarrow> EN_testnet
      | CP_custom \<Rightarrow> EN_unknown
      | CP_runtime \<Rightarrow>
          let activeTronApiUrl = getActiveTronApiUrl env s;
              activeContractAddress = getActiveContractAddress env s
          in if activeTronApiUrl = ce_testnetTronApiUrl env
                \<or> activeContractAddress = ce_testnetKoriTokenContractAddress env then EN_testnet
             else if activeTronApiUrl = ce_mainnetTronApiUrl env
                \<or> activeContractAddress = ce_mainnetKoriTokenContractAddress env then EN_mainnet
             else EN_unknown)"

lemma effective_after_set:
  "getEffectiveBlockchainNetwork env (setRuntimeContractProfile CP_mainnet c s) = EN_mainnet"
  "getEffectiveBlockchainNetwork env (setRuntimeContractProfile CP_testnet c s) = EN_testnet"
  "getEffectiveBlockchainNetwork env (setRuntimeContractProfile CP_custom c s) = EN_unknown"
  by (simp_all add: getEffectiveBlockchainNetwork_def setRuntimeContractProfile_def)

end
