(* ===== verification/Alerts.thy ===== *)
theory Alerts
  imports LedgerContracts
begin

text \<open>
  \<open>AlertService\<close> (\<open>src/application/services/alert-service.ts\<close>): what each notification says and under
  which key it is deduplicated, and \<open>send\<close>, which drops an alert that repeats the last delivered one
  of its key.  The notifier (Telegram) is a parameter: an action on the outside world that may throw.
  A \<open>notify\<close> definition gives the argument its method passes to \<open>send\<close>.
\<close>

record alert =
  alert_title :: string
  alert_body :: string
  alert_dedupeKey :: "string option"
  alert_cooldownSec :: "int option"

definition newline :: string where
  "newline = [CHR 0x0A]"

definition js_bool :: "bool \<Rightarrow> string" where
  "js_bool b = (if b then ''true'' else ''false'')"

fun risk_level_name :: "risk_level \<Rightarrow> string" where
  "risk_level_name RL_low = ''low''"
| "risk_level_name RL_medium = ''medium''"
| "risk_level_name RL_high = ''high''"

fun network_name :: "network \<Rightarrow> string" where
  "network_name mainnet = ''mainnet''"
| "network_name testnet = ''testnet''"

section \<open>Delivery\<close>

record sent_alert =
  sent_signature :: string
  sent_atMs :: int

type_synonym alert_memory = "sent_alert jsmap"

type_synonym 'w notifier = "alert \<Rightarrow> ('w, unit) act"

definition alert_signature :: "alert \<Rightarrow> string" where
  "alert_signature a = alert_title a @ newline @ alert_body a"

text \<open>Whether \<open>send\<close> returns before it calls the notifier.\<close>

definition suppressed :: "int \<Rightarrow> alert_memory \<Rightarrow> alert \<Rightarrow> bool" where
  "suppressed nowMs m a =
     (case alert_dedupeKey a of
        None \<Rightarrow> False
      | Some key \<Rightarrow>
          truthy_str key \<and>
          (case map_get m key of
             None \<Rightarrow> False
           | Some previous \<Rightarrow>
               sent_signature previous = alert_signature a \<and>
               (case alert_cooldownSec a of
                  Some cooldownSec \<Rightarrow> nowMs - sent_atMs previous < cooldownSec * 1000
                | None \<Rightarrow> True)))"

text \<open>A failed delivery is logged and forgotten, so the same alert is tried again the next time.\<close>

definition send :: "'w notifier option \<Rightarrow> int \<Rightarrow> alert \<Rightarrow> alert_memory \<times> 'w \<Rightarrow> alert_memory \<times> 'w" where
  "send notifier nowMs a st =
     (case notifier of
        None \<Rightarrow> st
      | Some sendMessage \<Rightarrow>
          let (m, w) = st in
          if suppressed nowMs m a then (m, w)
          else
            (case sendMessage a w of
               (Inl e, w') \<Rightarrow> (m, w')
             | (Inr _, w') \<Rightarrow>
                 (if truthy (alert_dedupeKey a)
                  then map_set (the (alert_dedupeKey a))
                         \<lparr>sent_signature = alert_signature a, sent_atMs = nowMs\<rparr> m
                  else m, w')))"

section \<open>The notifications\<close>

definition sendTestMessage :: "string option \<Rightarrow> alert" where
  "sendTestMessage message =
     \<lparr>alert_title = ''[KORION] Telegram Test'',
      alert_body = (if truthy (map_option trim message) then trim (the message)
                    else ''coin_manage telegram notifier is configured.''),
      alert_dedupeKey = None, alert_cooldownSec = None\<rparr>"

text \<open>With no alerts the memory of the key is cleared, so the next alert is delivered again.\<close>

definition notifyReconciliationAlerts :: "'w notifier option \<Rightarrow> int \<Rightarrow> int \<Rightarrow> string list \<Rightarrow> string \<Rightarrow> string
    \<Rightarrow> alert_memory \<times> 'w \<Rightarrow> alert_memory \<times> 'w" where
  "notifyReconciliationAlerts notifier cooldownSec nowMs alerts hotWalletBalance hotWalletTrx st =
     (if alerts = [] then (map_delete ''reconciliation'' (fst st), snd st)
      else send notifier nowMs
             \<lparr>alert_title = ''[KORION] Hot Wallet Alert'',
              alert_body = join_with newline
                [''alerts='' @ join_with '','' alerts, ''kori='' @ hotWalletBalance, ''trx='' @ hotWalletTrx],
              alert_dedupeKey = Some ''reconciliation'', alert_cooldownSec = Some cooldownSec\<rparr> st)"

definition notifyExternalEvent :: "string \<Rightarrow> string list \<Rightarrow> string \<Rightarrow> alert" where
  "notifyExternalEvent title bodyLines dedupeKey =
     \<lparr>alert_title = title, alert_body = join_with newline bodyLines,
      alert_dedupeKey = Some (''external-event:'' @ dedupeKey), alert_cooldownSec = None\<rparr>"

definition notifySweepFailure :: "string \<Rightarrow> string \<Rightarrow> string \<Rightarrow> alert" where
  "notifySweepFailure depositId sourceAddress message =
     \<lparr>alert_title = ''[KORION] Sweep Failed'',
      alert_body = join_with newline
          [''depositId='' @ depositId,
           ''source='' @ sourceAddress,
           ''error='' @ message],
      alert_dedupeKey = Some (''sweep-failed:'' @ depositId @ '':'' @ message), alert_cooldownSec = None\<rparr>"

definition notifyWithdrawalRequested :: "string \<Rightarrow> string \<Rightarrow> string \<Rightarrow> string \<Rightarrow> risk_level \<Rightarrow> int \<Rightarrow> alert" where
  "notifyWithdrawalRequested withdrawalId userId amount toAddress riskLevel requiredApprovals =
     \<lparr>alert_title = ''[KORION] Withdrawal Requested'',
      alert_body = join_with newline
          [''withdrawalId='' @ withdrawalId,
           ''userId='' @ userId,
           ''amount='' @ amount,
           ''toAddress='' @ toAddress,
           ''riskLevel='' @ risk_level_name riskLevel,
           ''requiredApprovals='' @ json_int requiredApprovals],
      alert_dedupeKey = Some (''withdraw-requested:'' @ withdrawalId), alert_cooldownSec = None\<rparr>"

definition notifyWithdrawalApproved :: "string \<Rightarrow> string \<Rightarrow> int \<Rightarrow> int \<Rightarrow> alert" where
  "notifyWithdrawalApproved withdrawalId adminId approvalCount requiredApprovals =
     \<lparr>alert_title = ''[KORION] Withdrawal Approved'',
      alert_body = join_with newline
          [''withdrawalId='' @ withdrawalId,
           ''adminId='' @ adminId,
           ''approvalCount='' @ json_int approvalCount,
           ''requiredApprovals='' @ json_int requiredApprovals],
      alert_dedupeKey = Some (''withdraw-approved:'' @ withdrawalId @ '':'' @ json_int approvalCount), alert_cooldownSec = None\<rparr>"

definition notifyWithdrawalDispatchRetry :: "string \<Rightarrow> int \<Rightarrow> string \<Rightarrow> alert" where
  "notifyWithdrawalDispatchRetry withdrawalId retryCount reason =
     \<lparr>alert_title = ''[KORION] Withdrawal Dispatch Retry'',
      alert_body = join_with newline
          [''withdrawalId='' @ withdrawalId,
           ''retryCount='' @ json_int retryCount,
           ''reason='' @ reason],
      alert_dedupeKey = Some (''withdraw-dispatch-retry:'' @ withdrawalId @ '':'' @ json_int retryCount @ '':'' @ reason), alert_cooldownSec = None\<rparr>"

definition notifyWithdrawalDispatchFailed :: "string \<Rightarrow> string \<Rightarrow> alert" where
  "notifyWithdrawalDispatchFailed withdrawalId reason =
     \<lparr>alert_title = ''[KORION] Withdrawal Dispatch Failed'',
      alert_body = join_with newline
          [''withdrawalId='' @ withdrawalId,
           ''reason='' @ reason],
      alert_dedupeKey = Some (''withdraw-dispatch-failed:'' @ withdrawalId @ '':'' @ reason), alert_cooldownSec = None\<rparr>"

definition notifyWithdrawalExternalSyncFailed :: "string \<Rightarrow> string \<Rightarrow> string \<Rightarrow> alert" where
  "notifyWithdrawalExternalSyncFailed withdrawalId status reason =
     \<lparr>alert_title = ''[KORION] Withdrawal Callback Sync Failed'',
      alert_body = join_with newline
          [''withdrawalId='' @ withdrawalId,
           ''status='' @ status,
           ''reason='' @ reason],
      alert_dedupeKey = Some (''withdraw-callback-sync-failed:'' @ withdrawalId @ '':'' @ status @ '':'' @ reason), alert_cooldownSec = None\<rparr>"

definition notifyOfflinePaySettlementConsumerFailure :: "string \<Rightarrow> string \<Rightarrow> string \<Rightarrow> string \<Rightarrow> alert" where
  "notifyOfflinePaySettlementConsumerFailure settlementId batchId stage reason =
     \<lparr>alert_title = ''[KORION] Offline Pay Settlement Consumer Failure'',
      alert_body = join_with newline
          [''settlementId='' @ settlementId,
           ''batchId='' @ batchId,
           ''stage='' @ stage,
           ''reason='' @ reason],
      alert_dedupeKey = Some (''offline-pay-settlement-consumer-failure:'' @ settlementId @ '':'' @ stage @ '':'' @ reason), alert_cooldownSec = None\<rparr>"

definition notifyOfflinePaySettlementCircuitOpened :: "int \<Rightarrow> int \<Rightarrow> string \<Rightarrow> alert" where
  "notifyOfflinePaySettlementCircuitOpened consecutiveFailures cooldownRemainingMs reason =
     \<lparr>alert_title = ''[KORION] Offline Pay Settlement Circuit Open'',
      alert_body = join_with newline
          [''consecutiveFailures='' @ json_int consecutiveFailures,
           ''cooldownRemainingMs='' @ json_int cooldownRemainingMs,
           ''reason='' @ reason],
      alert_dedupeKey = Some (''offline-pay-settlement-circuit-open:'' @ reason), alert_cooldownSec = None\<rparr>"

definition notifyOfflinePaySettlementCircuitRecovered :: "int \<Rightarrow> alert" where
  "notifyOfflinePaySettlementCircuitRecovered consecutiveFailures =
     \<lparr>alert_title = ''[KORION] Offline Pay Settlement Circuit Recovered'',
      alert_body = join_with newline
          [''consecutiveFailures='' @ json_int consecutiveFailures],
      alert_dedupeKey = Some (''offline-pay-settlement-circuit-recovered''), alert_cooldownSec = None\<rparr>"

definition notifyOfflinePaySettlementDeadLetter :: "string \<Rightarrow> string \<Rightarrow> bool \<Rightarrow> int \<Rightarrow> alert" where
  "notifyOfflinePaySettlementDeadLetter settlementId batchId circuitOpen consecutiveFailures =
     \<lparr>alert_title = ''[KORION] Offline Pay Settlement Dead Letter'',
      alert_body = join_with newline
          [''settlementId='' @ settlementId,
           ''batchId='' @ batchId,
           ''circuitOpen='' @ js_bool circuitOpen,
           ''consecutiveFailures='' @ json_int consecutiveFailures],
      alert_dedupeKey = Some (''offline-pay-settlement-dead-letter:'' @ settlementId), alert_cooldownSec = None\<rparr>"

definition notifyWithdrawalResourceLow :: "string \<Rightarrow> string \<Rightarrow> string \<Rightarrow> int \<Rightarrow> int \<Rightarrow> string \<Rightarrow> int \<Rightarrow> int \<Rightarrow> alert" where
  "notifyWithdrawalResourceLow withdrawalId hotWalletAddress trxBalanceSun availableBandwidth availableEnergy minTrxSun minBandwidth minEnergy =
     \<lparr>alert_title = ''[KORION] Withdrawal Resource Low'',
      alert_body = join_with newline
          [''withdrawalId='' @ withdrawalId,
           ''hotWallet='' @ hotWalletAddress,
           ''trxBalanceSun='' @ trxBalanceSun,
           ''availableBandwidth='' @ json_int availableBandwidth,
           ''availableEnergy='' @ json_int availableEnergy,
           ''minTrxSun='' @ minTrxSun,
           ''minBandwidth='' @ json_int minBandwidth,
           ''minEnergy='' @ json_int minEnergy],
      alert_dedupeKey = Some (''withdraw-resource-low:'' @ withdrawalId @ '':'' @ hotWalletAddress), alert_cooldownSec = None\<rparr>"

definition notifySweepResourceLow :: "string \<Rightarrow> string \<Rightarrow> network \<Rightarrow> string \<Rightarrow> int \<Rightarrow> int \<Rightarrow> int \<Rightarrow> alert" where
  "notifySweepResourceLow depositId sourceAddress network trxBalance availableEnergy availableBandwidth attemptCount =
     \<lparr>alert_title = ''[KORION] Sweep Resource Low'',
      alert_body = join_with newline
          [''depositId='' @ depositId,
           ''source='' @ sourceAddress,
           ''network='' @ network_name network,
           ''trx='' @ trxBalance,
           ''availableEnergy='' @ json_int availableEnergy,
           ''availableBandwidth='' @ json_int availableBandwidth,
           ''attemptCount='' @ json_int attemptCount],
      alert_dedupeKey = Some (''sweep-resource-low:'' @ sourceAddress), alert_cooldownSec = None\<rparr>"

definition notifySweepQueueTimeout :: "string \<Rightarrow> string \<Rightarrow> string option \<Rightarrow> int \<Rightarrow> int \<Rightarrow> alert" where
  "notifySweepQueueTimeout depositId sourceAddress queuedAt attemptCount timeoutSec =
     \<lparr>alert_title = ''[KORION] Sweep Queue Timeout'',
      alert_body = join_with newline
          [''depositId='' @ depositId,
           ''source='' @ sourceAddress,
           ''queuedAt='' @ coalesce queuedAt ''unknown'',
           ''attemptCount='' @ json_int attemptCount,
           ''timeoutSec='' @ json_int timeoutSec],
      alert_dedupeKey = Some (''sweep-queue-timeout:'' @ sourceAddress @ '':'' @ depositId), alert_cooldownSec = None\<rparr>"

definition notifyDepositMonitorFailure :: "string \<Rightarrow> alert" where
  "notifyDepositMonitorFailure message =
     \<lparr>alert_title = ''[KORION] Deposit Monitor Failed'',
      alert_body = message,
      alert_dedupeKey = Some (''deposit-monitor:'' @ message), alert_cooldownSec = None\<rparr>"

definition notifyWalletLifecycleGateBlocked :: "string \<Rightarrow> string option \<Rightarrow> string \<Rightarrow> string \<Rightarrow> alert" where
  "notifyWalletLifecycleGateBlocked userId walletAddress operation reason =
     \<lparr>alert_title = ''[KORION] Wallet Lifecycle Gate Blocked'',
      alert_body = join_with newline
          [''userId='' @ userId,
           ''walletAddress='' @ coalesce walletAddress ''-'',
           ''operation='' @ operation,
           ''reason='' @ reason],
      alert_dedupeKey = Some (''wallet-lifecycle-gate:'' @ operation @ '':'' @ userId @ '':'' @ reason), alert_cooldownSec = None\<rparr>"

definition notifyActivationGrantFailure :: "string \<Rightarrow> string \<Rightarrow> string \<Rightarrow> alert" where
  "notifyActivationGrantFailure userId walletAddress message =
     \<lparr>alert_title = ''[KORION] Activation Grant Failed'',
      alert_body = join_with newline
          [''userId='' @ userId,
           ''walletAddress='' @ walletAddress,
           ''error='' @ message],
      alert_dedupeKey = Some (''activation-grant-failed:'' @ userId @ '':'' @ walletAddress @ '':'' @ message), alert_cooldownSec = None\<rparr>"

definition notifyActivationReclaimWaiting :: "string \<Rightarrow> string \<Rightarrow> int \<Rightarrow> string \<Rightarrow> int \<Rightarrow> string \<Rightarrow> alert" where
  "notifyActivationReclaimWaiting userId walletAddress availableBandwidth trxBalanceSun requiredBandwidth requiredTrxSun =
     \<lparr>alert_title = ''[KORION] Activation Reclaim Waiting'',
      alert_body = join_with newline
          [''userId='' @ userId,
           ''walletAddress='' @ walletAddress,
           ''availableBandwidth='' @ json_int availableBandwidth,
           ''trxBalanceSun='' @ trxBalanceSun,
           ''requiredBandwidth='' @ json_int requiredBandwidth,
           ''requiredTrxSun='' @ requiredTrxSun],
      alert_dedupeKey = Some (''activation-reclaim-waiting:'' @ userId @ '':'' @ walletAddress), alert_cooldownSec = None\<rparr>"

definition notifyActivationReclaimFailure :: "string \<Rightarrow> string \<Rightarrow> string \<Rightarrow> alert" where
  "notifyActivationReclaimFailure userId walletAddress message =
     \<lparr>alert_title = ''[KORION] Activation Reclaim Failed'',
      alert_body = join_with newline
          [''userId='' @ userId,
           ''walletAddress='' @ walletAddress,
           ''error='' @ message],
      alert_dedupeKey = Some (''activation-reclaim-failed:'' @ userId @ '':'' @ walletAddress @ '':'' @ message), alert_cooldownSec = None\<rparr>"

definition notifyResourceDelegationWaiting :: "string \<Rightarrow> string \<Rightarrow> string \<Rightarrow> string \<Rightarrow> string \<Rightarrow> alert" where
  "notifyResourceDelegationWaiting userId walletAddress resource requiredSun availableSun =
     \<lparr>alert_title = ''[KORION] Resource Delegation Waiting'',
      alert_body = join_with newline
          [''userId='' @ userId,
           ''walletAddress='' @ walletAddress,
           ''resource='' @ resource,
           ''requiredSun='' @ requiredSun,
           ''availableSun='' @ availableSun],
      alert_dedupeKey = Some (''resource-delegation-waiting:'' @ userId @ '':'' @ walletAddress @ '':'' @ resource), alert_cooldownSec = None\<rparr>"

definition notifyResourceDelegationFailure :: "string \<Rightarrow> string \<Rightarrow> string \<Rightarrow> alert" where
  "notifyResourceDelegationFailure userId walletAddress message =
     \<lparr>alert_title = ''[KORION] Resource Delegation Failed'',
      alert_body = join_with newline
          [''userId='' @ userId,
           ''walletAddress='' @ walletAddress,
           ''error='' @ message],
      alert_dedupeKey = Some (''resource-delegation-failed:'' @ userId @ '':'' @ walletAddress @ '':'' @ message), alert_cooldownSec = None\<rparr>"

definition notifyResourceReleaseFailure :: "string \<Rightarrow> string \<Rightarrow> string \<Rightarrow> alert" where
  "notifyResourceReleaseFailure userId walletAddress message =
     \<lparr>alert_title = ''[KORION] Resource Release Failed'',
      alert_body = join_with newline
          [''userId='' @ userId,
           ''walletAddress='' @ walletAddress,
           ''error='' @ message],
      alert_dedupeKey = Some (''resource-release-failed:'' @ userId @ '':'' @ walletAddress @ '':'' @ message), alert_cooldownSec = None\<rparr>"

definition notifyExternalMonitorFailure :: "string \<Rightarrow> alert" where
  "notifyExternalMonitorFailure message =
     \<lparr>alert_title = ''[KORION] External Alert Monitor Failed'',
      alert_body = message,
      alert_dedupeKey = Some (''external-alert-monitor:'' @ message), alert_cooldownSec = None\<rparr>"

definition notifyFoxyaTokenDepositLedgerSyncFailure :: "string \<Rightarrow> alert" where
  "notifyFoxyaTokenDepositLedgerSyncFailure message =
     \<lparr>alert_title = ''[KORION] Foxya Token Deposit Ledger Sync Failed'',
      alert_body = message,
      alert_dedupeKey = Some (''foxya-token-deposit-ledger-sync:'' @ message), alert_cooldownSec = None\<rparr>"

definition notifyHealthCheckUnhealthy :: "string \<Rightarrow> string \<Rightarrow> string \<Rightarrow> int \<Rightarrow> alert" where
  "notifyHealthCheckUnhealthy targetName targetUrl detail consecutiveFailures =
     \<lparr>alert_title = ''[KORION] Health Down - '' @ targetName,
      alert_body = join_with newline
          [''url='' @ targetUrl,
           ''detail='' @ detail,
           ''consecutiveFailures='' @ json_int consecutiveFailures],
      alert_dedupeKey = Some (''health-unhealthy:'' @ targetName @ '':'' @ targetUrl), alert_cooldownSec = None\<rparr>"

definition notifyHealthCheckRecovered :: "string \<Rightarrow> string \<Rightarrow> alert" where
  "notifyHealthCheckRecovered targetName targetUrl =
     \<lparr>alert_title = ''[KORION] Health Recovered - '' @ targetName,
      alert_body = ''url='' @ targetUrl,
      alert_dedupeKey = Some (''health-recovered:'' @ targetName @ '':'' @ targetUrl), alert_cooldownSec = None\<rparr>"

definition notifyOfflinePayCircuitOpened :: "string \<Rightarrow> string \<Rightarrow> int \<Rightarrow> string \<Rightarrow> alert" where
  "notifyOfflinePayCircuitOpened circuitName settlementId failureCount message =
     \<lparr>alert_title = ''[KORION] Offline Pay Circuit Open - '' @ circuitName,
      alert_body = join_with newline
          [''settlementId='' @ settlementId,
           ''failureCount='' @ json_int failureCount,
           ''message='' @ message],
      alert_dedupeKey = Some (''offline-pay-circuit-open:'' @ circuitName @ '':'' @ settlementId @ '':'' @ message), alert_cooldownSec = None\<rparr>"

definition notifyOfflinePayCircuitRecovered :: "string \<Rightarrow> string \<Rightarrow> string \<Rightarrow> alert" where
  "notifyOfflinePayCircuitRecovered circuitName settlementId message =
     \<lparr>alert_title = ''[KORION] Offline Pay Circuit Recovered - '' @ circuitName,
      alert_body = join_with newline
          [''settlementId='' @ settlementId,
           ''message='' @ message],
      alert_dedupeKey = Some (''offline-pay-circuit-recovered:'' @ circuitName @ '':'' @ settlementId), alert_cooldownSec = None\<rparr>"

definition notifyOfflinePayExecutionFailure :: "string \<Rightarrow> string \<Rightarrow> string \<Rightarrow> alert" where
  "notifyOfflinePayExecutionFailure settlementId proofId message =
     \<lparr>alert_title = ''[KORION] Offline Pay Execution Failed'',
      alert_body = join_with newline
          [''settlementId='' @ settlementId,
           ''proofId='' @ proofId,
           ''message='' @ message],
      alert_dedupeKey = Some (''offline-pay-execution-failed:'' @ settlementId @ '':'' @ proofId @ '':'' @ message), alert_cooldownSec = None\<rparr>"

section \<open>Laws of delivery\<close>

text \<open>After a delivery the same alert is silent: for ever without a cooldown, else until it has passed.\<close>

lemma delivered_then_suppressed:
  assumes "alert_dedupeKey a = Some key" and "key \<noteq> ''''" and "notifier = Some f"
    and "\<not> suppressed t m a" and "f a w = (Inr (), w')" and "send notifier t a (m, w) = (m', w'')"
    and "case alert_cooldownSec a of None \<Rightarrow> True | Some c \<Rightarrow> t' - t < c * 1000"
  shows "w'' = w' \<and> send notifier t' a (m', v) = (m', v)"
  using assms by (auto simp: send_def suppressed_def truthy_str_def split: option.splits)

text \<open>A failed delivery changes no memory.\<close>

lemma failed_delivery_forgotten:
  assumes "notifier = Some f" and "f a w = (Inl e, w')"
  shows "fst (send notifier t a (m, w)) = m"
  using assms by (simp add: send_def)

text \<open>A different signature under the same key is never suppressed.\<close>

lemma changed_alert_delivered:
  assumes "\<And>p. map_get m key = Some p \<Longrightarrow> sent_signature p \<noteq> alert_signature a"
    and "alert_dedupeKey a = Some key"
  shows "\<not> suppressed t m a"
  using assms by (auto simp: suppressed_def split: option.splits)

end
