(* ===== verification/Platform.thy ===== *)
theory Platform
  imports VirtualWallets WithdrawPolicy RuntimeSettings Alerts
begin

text \<open>
  The platform the services run on, as \<open>src/container/create-app-dependencies.ts\<close> wires it with the
  in-memory providers: the state of every stateful component side by side, and the ports to what lies
  outside the repository (clock, chain, signer, notifier, Foxya clients) as fields of \<open>app\<close>.  A port
  is a method of the outside world \<open>'w\<close>: it may do anything to that world and return or throw, and
  it never touches the platform's own state.  Each service call runs without interleaving with others.
\<close>

section \<open>The withdraw job queue\<close>

text \<open>\<open>InMemoryWithdrawJobQueue\<close> (\<open>src/infrastructure/queue/in-memory-withdraw-job-queue.ts\<close>).\<close>

datatype queue_job =
    QJ_dispatch string int
  | QJ_reconcile "string option" int
  | QJ_external_sync string int

record failed_job =
  fj_id :: string
  fj_name :: string
  fj_withdrawalId :: "string option"
  fj_failedReason :: "string option"
  fj_attemptsMade :: int

record job_queue =
  jq_jobs :: "queue_job list"
  jq_failedJobs :: "failed_job list"

definition enqueueDispatch :: "string \<Rightarrow> job_queue \<Rightarrow> job_queue" where
  "enqueueDispatch withdrawalId q = q\<lparr>jq_jobs := jq_jobs q @ [QJ_dispatch withdrawalId 1]\<rparr>"

definition enqueueReconcile :: "string option \<Rightarrow> job_queue \<Rightarrow> job_queue" where
  "enqueueReconcile withdrawalId q = q\<lparr>jq_jobs := jq_jobs q @ [QJ_reconcile withdrawalId 1]\<rparr>"

definition enqueueExternalSync :: "string \<Rightarrow> job_queue \<Rightarrow> job_queue" where
  "enqueueExternalSync withdrawalId q = q\<lparr>jq_jobs := jq_jobs q @ [QJ_external_sync withdrawalId 1]\<rparr>"

definition listFailed :: "int \<Rightarrow> job_queue \<Rightarrow> failed_job list" where
  "listFailed limit q = slice0 limit (jq_failedJobs q)"

section \<open>The state\<close>

record 'w platform =
  pf_ledger :: ledger
  pf_wallets :: wallet_repo
  pf_policies :: "address_policy jsmap"
  pf_alerts :: alert_memory
  pf_queue :: job_queue
  pf_contract :: contract_state
  pf_world :: 'w

section \<open>The ports and settings\<close>

datatype gateway_mode = GM_mock | GM_trc20

datatype signer_mode = SM_hot | SM_offline_stub | SM_hybrid

record guard_options =
  go_tronGatewayMode :: gateway_mode
  go_signerMode :: signer_mode
  go_hotWalletAddress :: string
  go_hotWalletPrivateKey :: string
  go_coldWithdrawMinAmount :: int
  go_minTrxSun :: int
  go_minBandwidth :: int
  go_minEnergy :: int
  go_restrictedDestinationAddresses :: "string list"
  go_policyService :: bool

datatype receipt_status = RS_pending | RS_confirmed | RS_failed

record tron_receipt =
  rc_status :: receipt_status
  rc_feeSun :: int
  rc_energyUsed :: int
  rc_bandwidthUsed :: int

record account_resources =
  ar_trxBalanceSun :: int
  ar_energyLimit :: int
  ar_energyUsed :: int
  ar_bandwidthLimit :: int
  ar_bandwidthUsed :: int

record signing_request =
  sr_withdrawalId :: string
  sr_toAddress :: string
  sr_amount :: int

type_synonym payload = "(string \<times> jsval) list"

text \<open>
  \<open>None\<close> in an optional port is an argument of the constructor that was left out.  \<open>app_publishAsync\<close>
  and \<open>app_publish\<close> are the event publisher; it may call back into the platform, so its methods run on
  the whole state.
\<close>

record 'w app =
  app_cfg :: ledger_cfg
  app_clock :: "'w \<Rightarrow> int \<times> 'w"
  app_sleep :: "int \<Rightarrow> 'w \<Rightarrow> 'w"
  app_sha256 :: "string \<Rightarrow> string"
  app_notifier :: "'w notifier option"
  app_walletId :: "nat \<Rightarrow> string"
  app_contract :: contract_env
  app_guard :: guard_options
  app_fromPrivateKey :: "string \<Rightarrow> js_error + string option"
  app_getAccountResources :: "string \<Rightarrow> ('w, account_resources) act"
  app_getReceipt :: "string \<Rightarrow> ('w, tron_receipt) act"
  app_broadcastTransfer :: "string \<Rightarrow> int \<Rightarrow> ('w, string) act"
  app_signer :: "(signing_request \<Rightarrow> ('w, string) act) option"
  app_isTestUser :: "(string \<Rightarrow> ('w, bool) act) option"
  app_syncWithdrawal :: "(payload \<Rightarrow> ('w, unit) act) option"
  app_lifecyclePolicy :: bool
  app_policyService :: bool
  app_signupWalletCooldownSec :: int
  app_withdrawSingleLimitKori :: js_number
  app_publishAsync :: "(string \<Rightarrow> payload \<Rightarrow> ('w platform, unit) act) option"
  app_publish :: "string \<Rightarrow> payload \<Rightarrow> 'w platform \<Rightarrow> 'w platform"

section \<open>Methods of the components on the platform\<close>

definition on_world :: "('w, 'a) act \<Rightarrow> ('w platform, 'a) act" where
  "on_world m = zoom pf_world (\<lambda>w s. s\<lparr>pf_world := w\<rparr>) m"

definition now_ms :: "'w app \<Rightarrow> ('w platform, int) act" where
  "now_ms app = on_world (total (app_clock app))"

definition now_iso :: "'w app \<Rightarrow> ('w platform, string) act" where
  "now_iso app = and_then (now_ms app) (\<lambda>ms. ret (toISOString ms))"

text \<open>A ledger method; it reads the clock for its \<open>nowIso\<close>.\<close>

definition on_ledger :: "'w app \<Rightarrow> (string \<Rightarrow> (ledger, 'a) act) \<Rightarrow> ('w platform, 'a) act" where
  "on_ledger app m =
     and_then (now_iso app) (\<lambda>nowIso. zoom pf_ledger (\<lambda>l s. s\<lparr>pf_ledger := l\<rparr>) (m nowIso))"

definition ask_ledger :: "(ledger \<Rightarrow> 'a) \<Rightarrow> ('w platform, 'a) act" where
  "ask_ledger f = ask (\<lambda>s. f (pf_ledger s))"

definition inspect_ledger :: "(ledger \<Rightarrow> js_error + 'a) \<Rightarrow> ('w platform, 'a) act" where
  "inspect_ledger f = inspect (\<lambda>s. f (pf_ledger s))"

definition audit :: "'w app \<Rightarrow> audit_input \<Rightarrow> ('w platform, unit) act" where
  "audit app inp =
     and_then (on_ledger app (\<lambda>nowIso. total (appendAuditLog (app_cfg app) inp nowIso))) (\<lambda>_. ret ())"

definition on_wallets :: "(wallet_repo, 'a) act \<Rightarrow> ('w platform, 'a) act" where
  "on_wallets m = zoom pf_wallets (\<lambda>r s. s\<lparr>pf_wallets := r\<rparr>) m"

definition on_wallets_and_ledger :: "'w app \<Rightarrow> (string \<Rightarrow> 'a wallet_act) \<Rightarrow> ('w platform, 'a) act" where
  "on_wallets_and_ledger app m =
     and_then (now_iso app) (\<lambda>nowIso.
       zoom (\<lambda>s. (pf_ledger s, pf_wallets s)) (\<lambda>(l, r) s. s\<lparr>pf_ledger := l, pf_wallets := r\<rparr>) (m nowIso))"

definition on_queue :: "(job_queue \<Rightarrow> job_queue) \<Rightarrow> ('w platform, unit) act" where
  "on_queue f = modify (\<lambda>s. s\<lparr>pf_queue := f (pf_queue s)\<rparr>)"

definition notify :: "'w app \<Rightarrow> alert \<Rightarrow> ('w platform, unit) act" where
  "notify app a =
     and_then (now_ms app) (\<lambda>nowMs.
       modify (\<lambda>s. let (m, w) = send (app_notifier app) nowMs a (pf_alerts s, pf_world s)
                   in s\<lparr>pf_alerts := m, pf_world := w\<rparr>))"

section \<open>Relations the methods keep\<close>

text \<open>
  A relation on platform states that the outside world, the alert memory, the queue and the steps of
  the ledger keep is kept by every service.  The locale \<open>platform_relation\<close> states that contract;
  the services prove inside it, once, that they keep the relation (the collection \<open>run_rules\<close>).
\<close>

named_theorems run_rules "methods that keep a platform relation"

locale platform_relation = run_relation R
  for R :: "'w platform \<Rightarrow> 'w platform \<Rightarrow> bool" +
  fixes app :: "'w app"
  assumes R_world: "R s (s\<lparr>pf_world := w\<rparr>)"
    and R_alerts: "R s (s\<lparr>pf_alerts := m\<rparr>)"
    and R_queue: "R s (s\<lparr>pf_queue := q\<rparr>)"
    and R_ledger: "ledger_step (app_cfg app) (pf_ledger s) l \<Longrightarrow> R s (s\<lparr>pf_ledger := l\<rparr>)"
begin

declare keep_rules [run_rules]

lemma run_on_world [run_rules]: "keeps R (on_world m)"
  by (simp add: keeps_def on_world_def snd_zoom R_world)

lemma run_now_ms [run_rules]: "keeps R (now_ms app)"
  unfolding now_ms_def by (rule run_rules)

lemma run_now_iso [run_rules]: "keeps R (now_iso app)"
  unfolding now_iso_def by (intro run_rules)

lemma run_ask_ledger [run_rules]: "keeps R (ask_ledger f)"
  unfolding ask_ledger_def by (rule run_rules)

lemma run_inspect_ledger [run_rules]: "keeps R (inspect_ledger f)"
  unfolding inspect_ledger_def by (rule run_rules)

lemma run_lift_result [run_rules]: "keeps R (lift_result r)"
  by (simp add: keeps_def lift_result_def R_refl)

lemma run_on_queue [run_rules]: "keeps R (on_queue f)"
  by (simp add: keeps_def on_queue_def R_queue)

lemma run_notify [run_rules]: "keeps R (notify app a)"
proof -
  have "R s (s\<lparr>pf_alerts := m, pf_world := w\<rparr>)" for s m w
    using R_trans [OF R_alerts R_world] .
  then have "keeps R (modify (\<lambda>s. let (m, w) = send (app_notifier app) nowMs a (pf_alerts s, pf_world s)
      in s\<lparr>pf_alerts := m, pf_world := w\<rparr>))" for nowMs
    by (simp add: keeps_def split_beta)
  then show ?thesis unfolding notify_def by (intro run_rules)
qed

lemma run_on_ledger:
  assumes "\<And>now s. ledger_step (app_cfg app) s (snd (m now s))"
  shows "keeps R (on_ledger app m)"
  unfolding on_ledger_def
  by (intro run_rules) (simp add: keeps_def snd_zoom R_ledger assms)

lemma run_audit [run_rules]: "keeps R (audit app inp)"
  unfolding audit_def by (intro run_rules run_on_ledger) (simp add: total_def step_appendAuditLog split_beta)

end

text \<open>The instance for the ledger: it only moves along the steps of its machine.\<close>

abbreviation runs :: "'w app \<Rightarrow> 'w platform \<Rightarrow> 'w platform \<Rightarrow> bool" where
  "runs app \<equiv> ledger_runs (app_cfg app) pf_ledger"

interpretation pl: platform_relation "runs app" app for app :: "'w app"
  by unfold_locales (auto intro: ledger_step_runs)

text \<open>And for everything the services do not own: wallets, policies and the contract profile.\<close>

definition unchanged :: "('s \<Rightarrow> 'b) \<Rightarrow> 's \<Rightarrow> 's \<Rightarrow> bool" where
  "unchanged f s t = (f t = f s)"

interpretation un: run_relation "unchanged f" for f :: "'s \<Rightarrow> 'b"
  by unfold_locales (simp_all add: unchanged_def)

definition config_of :: "'w platform \<Rightarrow> wallet_repo \<times> address_policy jsmap \<times> contract_state" where
  "config_of s = (pf_wallets s, pf_policies s, pf_contract s)"

interpretation pc: platform_relation "unchanged config_of" app for app :: "'w app"
  by unfold_locales (simp_all add: unchanged_def config_of_def)

lemma snd_total: "snd (total f s) = snd (f s)"
  by (simp add: total_def split_beta)

text \<open>The other components, as functions of what a method leaves alone.\<close>

lemma on_world_frame [simp]:
  "pf_ledger (snd (on_world m s)) = pf_ledger s" "pf_wallets (snd (on_world m s)) = pf_wallets s"
  "pf_policies (snd (on_world m s)) = pf_policies s" "pf_queue (snd (on_world m s)) = pf_queue s"
  "pf_alerts (snd (on_world m s)) = pf_alerts s" "pf_contract (snd (on_world m s)) = pf_contract s"
  by (simp_all add: on_world_def snd_zoom)

lemma run_clock: "now_ms app s = (Inr (fst (app_clock app (pf_world s))), s\<lparr>pf_world := snd (app_clock app (pf_world s))\<rparr>)"
  by (simp add: now_ms_def on_world_def zoom_def total_def split_beta)

lemma run_now_iso_eq:
  "now_iso app s = (Inr (toISOString (fst (app_clock app (pf_world s)))), s\<lparr>pf_world := snd (app_clock app (pf_world s))\<rparr>)"
  by (simp add: now_iso_def and_then_def run_clock)

end
