(* ===== verification/WithdrawGuard.thy ===== *)
theory WithdrawGuard
  imports Platform
begin

text \<open>
  \<open>WithdrawGuardService\<close> (\<open>src/application/services/withdraw-guard-service.ts\<close>): which withdrawals may
  be requested and which may be signed by the hot wallet.  \<open>TronWeb.address.fromPrivateKey\<close> and the
  account resources of the chain are ports.
\<close>

section \<open>Options and readiness\<close>

definition PLACEHOLDER_PRIVATE_KEYS :: "string list" where
  "PLACEHOLDER_PRIVATE_KEYS = [''replace-with-private-key'', ''dev-only-private-key-change-me'']"

record hot_wallet_readiness =
  hr_ready :: bool
  hr_signerMode :: signer_mode
  hr_hotSigningEnabled :: bool
  hr_signerHealthy :: bool
  hr_signerAddress :: "string option"
  hr_coldWithdrawMinKori :: string
  hr_trxBalanceSun :: string
  hr_availableBandwidth :: int
  hr_availableEnergy :: int
  hr_minTrxSun :: string
  hr_minBandwidth :: int
  hr_minEnergy :: int
  hr_failures :: "string list"

text \<open>
  The guard's own \<open>formatKoriAmount\<close>: \<open>bigint\<close> division and remainder truncate towards zero, so a
  negative value keeps the sign on both parts.
\<close>

definition guardFormatKoriAmount :: "int \<Rightarrow> string" where
  "guardFormatKoriAmount v =
     (let whole = sgn v * (\<bar>v\<bar> div 1000000);
          rem = sgn v * (\<bar>v\<bar> mod 1000000)
      in json_int whole @ ''.'' @ padStart0 6 (json_int rem))"

definition requiresOfflineSigning :: "guard_options \<Rightarrow> int option \<Rightarrow> bool" where
  "requiresOfflineSigning opts amount =
     (if go_signerMode opts = SM_offline_stub then True
      else if go_signerMode opts \<noteq> SM_hybrid \<or> amount = None then False
      else go_coldWithdrawMinAmount opts \<le> the amount)"

text \<open>A throw of \<open>fromPrivateKey\<close> is caught; an empty address counts as none.\<close>

definition getSignerAddress :: "'w app \<Rightarrow> bool \<times> string option" where
  "getSignerAddress app =
     (let opts = app_guard app in
      if go_hotWalletPrivateKey opts \<in> set PLACEHOLDER_PRIVATE_KEYS then (False, None)
      else
        (case app_fromPrivateKey app (go_hotWalletPrivateKey opts) of
           Inl e \<Rightarrow> (False, None)
         | Inr address \<Rightarrow>
             if \<not> truthy address \<or> address \<noteq> Some (go_hotWalletAddress opts)
             then (False, if truthy address then address else None)
             else (True, address)))"

text \<open>The readiness of a TRC-20 gateway with a hot key, from the signer and the resources of the wallet.\<close>

definition trc20_readiness :: "'w app \<Rightarrow> account_resources \<Rightarrow> hot_wallet_readiness" where
  "trc20_readiness app resources =
     (let opts = app_guard app;
          (healthy, address) = getSignerAddress app;
          availableBandwidth = max 0 (ar_bandwidthLimit resources - ar_bandwidthUsed resources);
          availableEnergy = max 0 (ar_energyLimit resources - ar_energyUsed resources);
          failures = (if \<not> healthy then [''signer_unhealthy''] else []) @
                     (if ar_trxBalanceSun resources < go_minTrxSun opts then [''trx_low''] else []) @
                     (if availableBandwidth < go_minBandwidth opts then [''bandwidth_low''] else []) @
                     (if availableEnergy < go_minEnergy opts then [''energy_low''] else [])
      in \<lparr>hr_ready = (failures = []), hr_signerMode = go_signerMode opts, hr_hotSigningEnabled = True,
          hr_signerHealthy = healthy, hr_signerAddress = address,
          hr_coldWithdrawMinKori = guardFormatKoriAmount (go_coldWithdrawMinAmount opts),
          hr_trxBalanceSun = json_int (ar_trxBalanceSun resources),
          hr_availableBandwidth = availableBandwidth, hr_availableEnergy = availableEnergy,
          hr_minTrxSun = json_int (go_minTrxSun opts), hr_minBandwidth = go_minBandwidth opts,
          hr_minEnergy = go_minEnergy opts, hr_failures = failures\<rparr>)"

definition getHotWalletReadiness :: "'w app \<Rightarrow> ('w platform, hot_wallet_readiness) act" where
  "getHotWalletReadiness app =
     (let opts = app_guard app in
      if go_tronGatewayMode opts \<noteq> GM_trc20 then
        ret \<lparr>hr_ready = True, hr_signerMode = go_signerMode opts,
             hr_hotSigningEnabled = (go_signerMode opts \<noteq> SM_offline_stub), hr_signerHealthy = True,
             hr_signerAddress = Some (go_hotWalletAddress opts),
             hr_coldWithdrawMinKori = guardFormatKoriAmount (go_coldWithdrawMinAmount opts),
             hr_trxBalanceSun = ''0'', hr_availableBandwidth = MAX_SAFE_INTEGER,
             hr_availableEnergy = MAX_SAFE_INTEGER, hr_minTrxSun = json_int (go_minTrxSun opts),
             hr_minBandwidth = go_minBandwidth opts, hr_minEnergy = go_minEnergy opts, hr_failures = []\<rparr>
      else if go_signerMode opts = SM_offline_stub then
        ret \<lparr>hr_ready = False, hr_signerMode = go_signerMode opts, hr_hotSigningEnabled = False,
             hr_signerHealthy = False, hr_signerAddress = Some (go_hotWalletAddress opts),
             hr_coldWithdrawMinKori = guardFormatKoriAmount (go_coldWithdrawMinAmount opts),
             hr_trxBalanceSun = ''0'', hr_availableBandwidth = 0, hr_availableEnergy = 0,
             hr_minTrxSun = json_int (go_minTrxSun opts), hr_minBandwidth = go_minBandwidth opts,
             hr_minEnergy = go_minEnergy opts, hr_failures = [''offline_signing_required'']\<rparr>
      else
        and_then (on_world (app_getAccountResources app (go_hotWalletAddress opts))) (\<lambda>resources.
          ret (trc20_readiness app resources)))"

section \<open>The guards\<close>

definition assertDestinationAllowed :: "guard_options \<Rightarrow> string \<Rightarrow> string option \<Rightarrow> js_error + unit" where
  "assertDestinationAllowed opts toAddress walletAddress =
     (if toAddress \<in> set (filter truthy_str (go_restrictedDestinationAddresses opts))
      then Inl (DomainError 400 ''WITHDRAW_DESTINATION_RESTRICTED''
             ''withdraw destination is a managed system wallet'')
      else if truthy walletAddress \<and> walletAddress = Some toAddress
      then Inl (DomainError 400 ''WITHDRAW_DESTINATION_RESTRICTED''
             ''withdraw destination cannot match the source wallet'')
      else Inr ())"

definition assertHotWalletReady :: "'w app \<Rightarrow> string \<Rightarrow> string \<Rightarrow> ('w platform, unit) act" where
  "assertHotWalletReady app code message =
     and_then (getHotWalletReadiness app) (\<lambda>readiness.
       if hr_ready readiness then ret () else throw (DomainError 503 code message))"

text \<open>\<open>this.options.policyService?.assertAddressAllowed(...)\<close>.\<close>

definition assertPolicies :: "'w app \<Rightarrow> string \<Rightarrow> ('w platform, unit) act" where
  "assertPolicies app toAddress =
     (if go_policyService (app_guard app)
      then inspect (\<lambda>s. assertAddressAllowed (getAddressPolicies toAddress (pf_policies s)))
      else ret ())"

definition assertRequestAllowed :: "'w app \<Rightarrow> string \<Rightarrow> string option \<Rightarrow> int option \<Rightarrow> ('w platform, unit) act" where
  "assertRequestAllowed app toAddress walletAddress amount =
     and_then (lift_result (assertDestinationAllowed (app_guard app) toAddress walletAddress)) (\<lambda>_.
     and_then (assertPolicies app toAddress) (\<lambda>_.
       if requiresOfflineSigning (app_guard app) amount then ret ()
       else assertHotWalletReady app ''WITHDRAW_CIRCUIT_OPEN'' ''withdraw request circuit is open''))"

definition assertBroadcastAllowed :: "'w app \<Rightarrow> string \<Rightarrow> int option \<Rightarrow> ('w platform, unit) act" where
  "assertBroadcastAllowed app toAddress amount =
     and_then (lift_result (assertDestinationAllowed (app_guard app) toAddress None)) (\<lambda>_.
     and_then (assertPolicies app toAddress) (\<lambda>_.
       if requiresOfflineSigning (app_guard app) amount
       then throw (DomainError 409 ''WITHDRAW_OFFLINE_SIGN_REQUIRED'' ''withdrawal requires offline signing'')
       else assertHotWalletReady app ''WITHDRAW_BROADCAST_BLOCKED'' ''hot wallet is not ready for broadcast''))"

section \<open>Laws\<close>

context platform_relation
begin

lemma run_getHotWalletReadiness [run_rules]: "keeps R (getHotWalletReadiness app)"
  unfolding getHotWalletReadiness_def Let_def by (intro run_rules)

lemma run_assertHotWalletReady [run_rules]: "keeps R (assertHotWalletReady app c m)"
  unfolding assertHotWalletReady_def by (intro run_rules)

lemma run_assertPolicies [run_rules]: "keeps R (assertPolicies app a)"
  unfolding assertPolicies_def by (intro run_rules)

lemma run_assertRequestAllowed [run_rules]: "keeps R (assertRequestAllowed app a wa n)"
  unfolding assertRequestAllowed_def by (intro run_rules)

lemma run_assertBroadcastAllowed [run_rules]: "keeps R (assertBroadcastAllowed app a n)"
  unfolding assertBroadcastAllowed_def by (intro run_rules)

end

text \<open>What a guard that returns has checked; \<open>t\<close> differs from \<open>s\<close> only in the outside world.\<close>

definition destination_free :: "'w app \<Rightarrow> 'w platform \<Rightarrow> string \<Rightarrow> bool" where
  "destination_free app s a =
     ((a = '''' \<or> a \<notin> set (go_restrictedDestinationAddresses (app_guard app))) \<and>
      (go_policyService (app_guard app) \<longrightarrow> \<not> mp.blocked a (pf_policies s)))"

definition hot_wallet_ready :: "'w app \<Rightarrow> 'w platform \<Rightarrow> bool" where
  "hot_wallet_ready app s = (\<exists>r t. getHotWalletReadiness app s = (Inr r, t) \<and> hr_ready r)"

lemma lift_result_succeeds: "lift_result r s = (Inr x, t) \<longleftrightarrow> r = Inr x \<and> t = s"
  by (auto simp: lift_result_def)

lemma assertPolicies_succeeds:
  "assertPolicies app a s = (Inr (), t) \<longleftrightarrow> t = s \<and> (go_policyService (app_guard app) \<longrightarrow> \<not> mp.blocked a (pf_policies s))"
  by (cases "assertAddressAllowed (getAddressPolicies a (pf_policies s))")
    (auto simp: assertPolicies_def mp.blocked_def)

lemma assertDestination_succeeds:
  "assertDestinationAllowed opts a wa = Inr () \<longleftrightarrow>
     (a = '''' \<or> a \<notin> set (go_restrictedDestinationAddresses opts)) \<and> (truthy wa \<longrightarrow> wa \<noteq> Some a)"
  by (auto simp: assertDestinationAllowed_def truthy_str_def)

lemma assertReady_succeeds:
  "assertHotWalletReady app c m s = (Inr (), t) \<longleftrightarrow> (\<exists>r. getHotWalletReadiness app s = (Inr r, t) \<and> hr_ready r)"
  unfolding assertHotWalletReady_def and_then_succeeds by auto

lemma request_allowed_iff:
  "fst (assertRequestAllowed app a wa n s) = Inr () \<longleftrightarrow>
     destination_free app s a \<and> (truthy wa \<longrightarrow> wa \<noteq> Some a) \<and>
     (requiresOfflineSigning (app_guard app) n \<or> hot_wallet_ready app s)"
proof -
  have "fst (assertRequestAllowed app a wa n s) = Inr () \<longleftrightarrow> (\<exists>t. assertRequestAllowed app a wa n s = (Inr (), t))"
    by (cases "assertRequestAllowed app a wa n s") auto
  also have "\<dots> \<longleftrightarrow> destination_free app s a \<and> (truthy wa \<longrightarrow> wa \<noteq> Some a) \<and>
     (requiresOfflineSigning (app_guard app) n \<or> hot_wallet_ready app s)"
    unfolding assertRequestAllowed_def and_then_succeeds
    by (auto simp: lift_result_succeeds assertPolicies_succeeds assertDestination_succeeds assertReady_succeeds
        destination_free_def hot_wallet_ready_def)
  finally show ?thesis .
qed

lemma broadcast_allowed_iff:
  "fst (assertBroadcastAllowed app a n s) = Inr () \<longleftrightarrow>
     destination_free app s a \<and> \<not> requiresOfflineSigning (app_guard app) n \<and> hot_wallet_ready app s"
proof -
  have "fst (assertBroadcastAllowed app a n s) = Inr () \<longleftrightarrow> (\<exists>t. assertBroadcastAllowed app a n s = (Inr (), t))"
    by (cases "assertBroadcastAllowed app a n s") auto
  also have "\<dots> \<longleftrightarrow> destination_free app s a \<and> \<not> requiresOfflineSigning (app_guard app) n \<and> hot_wallet_ready app s"
    unfolding assertBroadcastAllowed_def and_then_succeeds
    by (auto simp: lift_result_succeeds assertPolicies_succeeds assertDestination_succeeds assertReady_succeeds
        destination_free_def hot_wallet_ready_def)
  finally show ?thesis .
qed

text \<open>A ready TRC-20 hot wallet has a healthy signer and every resource at its minimum.\<close>

lemma trc20_ready:
  "hr_ready (trc20_readiness app r) \<longleftrightarrow>
     fst (getSignerAddress app) \<and> go_minTrxSun (app_guard app) \<le> ar_trxBalanceSun r \<and>
     go_minBandwidth (app_guard app) \<le> max 0 (ar_bandwidthLimit r - ar_bandwidthUsed r) \<and>
     go_minEnergy (app_guard app) \<le> max 0 (ar_energyLimit r - ar_energyUsed r)"
  by (auto simp: trc20_readiness_def Let_def split_beta)

lemma healthy_signer:
  "fst (getSignerAddress app) \<Longrightarrow>
     app_fromPrivateKey app (go_hotWalletPrivateKey (app_guard app)) = Inr (Some (go_hotWalletAddress (app_guard app))) \<and>
     go_hotWalletPrivateKey (app_guard app) \<notin> set PLACEHOLDER_PRIVATE_KEYS"
  by (auto simp: getSignerAddress_def Let_def split: if_splits sum.splits)

lemma guardFormat_agrees: "0 \<le> v \<Longrightarrow> guardFormatKoriAmount v = formatKoriAmount v"
  by (auto simp: guardFormatKoriAmount_def formatKoriAmount_def Let_def json_int_def KORI_SCALE_def KORI_DECIMALS_def sgn_if)

end
