(* ===== verification/VirtualWalletService.thy ===== *)
theory VirtualWalletService
  imports Platform
begin

text \<open>
  \<open>VirtualWalletService\<close> (\<open>src/application/services/virtual-wallet-service.ts\<close>) and
  \<open>VirtualWalletLifecyclePolicyService\<close>
  (\<open>src/application/services/virtual-wallet-lifecycle-policy-service.ts\<close>).  Account generation
  (TronWeb), the key cipher and the Foxya sync client are arguments.
\<close>

section \<open>The lifecycle gate\<close>

record lifecycle_gate =
  lg_depositAllowed :: bool
  lg_withdrawAllowed :: bool
  lg_reason :: string

text \<open>An unparsable \<open>createdAt\<close> gives \<open>NaN\<close>, and a comparison with \<open>NaN\<close> is false.\<close>

definition evaluate :: "int \<Rightarrow> int \<Rightarrow> virtual_wallet option \<Rightarrow> lifecycle_gate" where
  "evaluate signupWalletCooldownSec nowMs binding =
     (case binding of
        None \<Rightarrow> \<lparr>lg_depositAllowed = True, lg_withdrawAllowed = True, lg_reason = ''no managed virtual wallet''\<rparr>
      | Some b \<Rightarrow>
          if vw_status b \<noteq> VW_active
          then \<lparr>lg_depositAllowed = False, lg_withdrawAllowed = False,
                lg_reason = ''virtual wallet is '' @ vw_status_name (vw_status b)\<rparr>
          else if vw_activationStatus b \<noteq> VA_reclaimed
          then \<lparr>lg_depositAllowed = False, lg_withdrawAllowed = False,
                lg_reason = ''activation not completed: '' @ activation_status_name (vw_activationStatus b)\<rparr>
          else
            (case date_parse (vw_createdAt b) of
               Some createdMs \<Rightarrow>
                 let cooldownUntilMs = createdMs + signupWalletCooldownSec * 1000 in
                 if nowMs < cooldownUntilMs
                 then \<lparr>lg_depositAllowed = False, lg_withdrawAllowed = False,
                       lg_reason = ''signup cooldown active until '' @ toISOString cooldownUntilMs\<rparr>
                 else \<lparr>lg_depositAllowed = True, lg_withdrawAllowed = True, lg_reason = ''ready''\<rparr>
             | None \<Rightarrow> \<lparr>lg_depositAllowed = True, lg_withdrawAllowed = True, lg_reason = ''ready''\<rparr>))"

definition getStatus :: "'w app \<Rightarrow> string option \<Rightarrow> string option
    \<Rightarrow> ('w platform, virtual_wallet option \<times> lifecycle_gate) act" where
  "getStatus app userId walletAddress =
     and_then (inspect (\<lambda>s. getVirtualWallet userId walletAddress (pf_wallets s))) (\<lambda>binding.
     and_then (now_ms app) (\<lambda>nowMs.
       ret (binding, evaluate (app_signupWalletCooldownSec app) nowMs binding)))"

definition canCreditDeposit :: "'w app \<Rightarrow> string option \<Rightarrow> string option
    \<Rightarrow> ('w platform, virtual_wallet option \<times> lifecycle_gate) act" where
  "canCreditDeposit app userId walletAddress =
     and_then (inspect (\<lambda>s. getVirtualWallet userId walletAddress (pf_wallets s))) (\<lambda>binding.
     and_then (now_ms app) (\<lambda>nowMs.
       ret (binding, evaluate (app_signupWalletCooldownSec app) nowMs binding)))"

definition assertWithdrawalAllowed :: "'w app \<Rightarrow> string option \<Rightarrow> string option
    \<Rightarrow> ('w platform, virtual_wallet option) act" where
  "assertWithdrawalAllowed app userId walletAddress =
     and_then (inspect (\<lambda>s. getVirtualWallet userId walletAddress (pf_wallets s))) (\<lambda>binding.
     and_then (now_ms app) (\<lambda>nowMs.
       let gate = evaluate (app_signupWalletCooldownSec app) nowMs binding in
       if \<not> lg_withdrawAllowed gate then throw (DomainError 409 ''WITHDRAWAL_NOT_READY'' (lg_reason gate))
       else ret binding))"

section \<open>The service\<close>

record 'w wallet_ports =
  wp_generateAccount :: "('w, string \<times> string) act"
  wp_encrypt :: "string \<Rightarrow> string"
  wp_hotWalletAddress :: string
  wp_syncVirtualWallet :: "(wallet_signer \<Rightarrow> network \<Rightarrow> ('w, unit) act) option"

definition issueInternal :: "'w app \<Rightarrow> 'w wallet_ports \<Rightarrow> string \<Rightarrow> int \<Rightarrow> network \<Rightarrow> string \<Rightarrow> bool
    \<Rightarrow> ('w platform, wallet_issue_result) act" where
  "issueInternal app ports userId currencyId network idempotencyKey again =
     and_then (on_world (wp_generateAccount ports)) (\<lambda>(address, privateKey).
       if \<not> truthy_str address \<or> \<not> truthy_str privateKey
       then throw (DomainError 500 ''VIRTUAL_WALLET_GENERATION_FAILED'' ''failed to generate virtual wallet account'')
       else
         let inp = \<lparr>ii_userId = userId, ii_currencyId = currencyId, ii_network = network,
                    ii_walletAddress = address, ii_privateKey = privateKey,
                    ii_encryptedPrivateKey = wp_encrypt ports privateKey,
                    ii_sweepTargetAddress = wp_hotWalletAddress ports,
                    ii_idempotencyKey = idempotencyKey\<rparr>;
             issueMethod = (if again then reissueVirtualWallet else issueVirtualWallet)
         in and_then (on_wallets_and_ledger app (issueMethod (app_walletId app) inp)) (\<lambda>issued.
            case wp_syncVirtualWallet ports of
              None \<Rightarrow> ret issued
            | Some sync \<Rightarrow>
                and_then (ask (\<lambda>s. getWalletSignerByAddress (vw_walletAddress (vi_binding issued))
                     (vw_currencyId (vi_binding issued)) (Some (vw_network (vi_binding issued))) (pf_wallets s)))
                  (\<lambda>signer.
                   if \<not> truthy (map_option ws_privateKey signer)
                   then throw (DomainError 500 ''VIRTUAL_WALLET_SIGNER_NOT_FOUND''
                          ''virtual wallet signer could not be loaded after issuance'')
                   else
                     and_then (on_world (sync \<lparr>ws_userId = vw_userId (vi_binding issued),
                          ws_currencyId = vw_currencyId (vi_binding issued),
                          ws_address = ws_address (the signer), ws_privateKey = ws_privateKey (the signer)\<rparr>
                        (vw_network (vi_binding issued))))
                       (\<lambda>_. ret issued))))"

definition issue :: "'w app \<Rightarrow> 'w wallet_ports \<Rightarrow> string \<Rightarrow> int \<Rightarrow> network \<Rightarrow> string
    \<Rightarrow> ('w platform, wallet_issue_result) act" where
  "issue app ports userId currencyId network idempotencyKey =
     issueInternal app ports userId currencyId network idempotencyKey False"

definition reissue :: "'w app \<Rightarrow> 'w wallet_ports \<Rightarrow> string \<Rightarrow> int \<Rightarrow> network \<Rightarrow> string
    \<Rightarrow> ('w platform, wallet_issue_result) act" where
  "reissue app ports userId currencyId network idempotencyKey =
     issueInternal app ports userId currencyId network idempotencyKey True"

definition retire :: "'w app \<Rightarrow> string \<Rightarrow> ('w platform, virtual_wallet) act" where
  "retire app virtualWalletId =
     and_then (now_iso app) (\<lambda>nowIso. on_wallets (retireVirtualWallet virtualWalletId None nowIso))"

definition disable :: "'w app \<Rightarrow> string \<Rightarrow> ('w platform, virtual_wallet) act" where
  "disable app virtualWalletId =
     and_then (now_iso app) (\<lambda>nowIso. on_wallets (disableVirtualWallet virtualWalletId nowIso))"

section \<open>Laws\<close>

text \<open>The gate opens for users without a managed wallet and for activated wallets past the cooldown.\<close>

lemma evaluate_allowed:
  "lg_withdrawAllowed (evaluate cd now b) \<longleftrightarrow>
     (case b of None \<Rightarrow> True
      | Some w \<Rightarrow> vw_status w = VW_active \<and> vw_activationStatus w = VA_reclaimed \<and>
          (\<forall>t. date_parse (vw_createdAt w) = Some t \<longrightarrow> t + cd * 1000 \<le> now))"
  by (auto simp: evaluate_def Let_def split: option.split)

lemma evaluate_both: "lg_depositAllowed (evaluate cd now b) = lg_withdrawAllowed (evaluate cd now b)"
  by (auto simp: evaluate_def Let_def split: option.split)

context platform_relation
begin

lemma run_assertWithdrawalAllowed [run_rules]: "keeps R (assertWithdrawalAllowed app u a)"
  unfolding assertWithdrawalAllowed_def Let_def by (intro run_rules)

lemma run_getStatus [run_rules]: "keeps R (getStatus app u a)"
  unfolding getStatus_def by (intro run_rules)

lemma run_canCreditDeposit [run_rules]: "keeps R (canCreditDeposit app u a)"
  unfolding canCreditDeposit_def by (intro run_rules)

end

text \<open>A method of the wallet repository leaves the ledger alone.\<close>

lemma run_on_wallets: "keeps (runs app) (on_wallets m)"
  by (simp add: keeps_def on_wallets_def snd_zoom)

lemma run_retire: "keeps (runs app) (retire app i)"
  unfolding retire_def by (intro run_rules run_on_wallets)

lemma run_disable: "keeps (runs app) (disable app i)"
  unfolding disable_def by (intro run_rules run_on_wallets)

text \<open>Creating a wallet moves the ledger by the binding of its address.\<close>

lemma createWallet_ledger:
  "ii_userId inp \<noteq> '''' \<Longrightarrow> ledger_steps cfg l (fst (snd (createWallet newId inp old now (l, r))))"
  by (simp add: createWallet_state ledger_steps_def r_into_rtranclp step_bindWalletAddress)

lemma issueVirtualWallet_ledger:
  "ii_userId inp \<noteq> '''' \<Longrightarrow> ledger_steps cfg l (fst (snd (issueVirtualWallet newId inp now (l, r))))"
  using issue_cases [of newId inp now l r] createWallet_ledger by auto

lemma reissueVirtualWallet_ledger:
  "ii_userId inp \<noteq> '''' \<Longrightarrow> ledger_steps cfg l (fst (snd (reissueVirtualWallet newId inp now (l, r))))"
  using reissue_cases [of newId inp now l r] createWallet_ledger by auto

lemma run_on_wallets_and_ledger:
  assumes "\<And>now l r. ledger_steps (app_cfg app) l (fst (snd (m now (l, r))))"
  shows "keeps (runs app) (on_wallets_and_ledger app m)"
  unfolding on_wallets_and_ledger_def
  by (intro run_rules) (simp add: keeps_def snd_zoom split_beta ledger_runs_def through_def assms)

lemma run_issueInternal [run_rules]:
  "userId \<noteq> '''' \<Longrightarrow> keeps (runs app) (issueInternal app ports userId c n k again)"
  unfolding issueInternal_def Let_def
  by (intro run_rules run_on_wallets_and_ledger)
    (auto intro: issueVirtualWallet_ledger reissueVirtualWallet_ledger)

end
