(* ===== verification/WithdrawRisk.thy ===== *)
theory WithdrawRisk
  imports LedgerWithdrawals
begin

text \<open>
  The pure parts of the withdrawal service: the risk assessment of
  \<open>src/application/services/withdraw-service.ts\<close> and the status maps of
  \<open>src/domain/ledger/withdraw-display-status.ts\<close> and \<open>withdraw-sync-status.ts\<close>.
\<close>

section \<open>Comparing and multiplying numbers\<close>

fun js_mul :: "js_number \<Rightarrow> js_number \<Rightarrow> js_number" where
  "js_mul (JsFin m e) (JsFin n f) = fl (m * n * pow2i (e + f)) (pow2i (- (e + f)))"
| "js_mul (JsInf a) (JsInf b) = JsInf (a \<noteq> b)"
| "js_mul (JsInf a) (JsFin n f) = (if n = 0 then JsNaN else JsInf (a \<noteq> (n < 0)))"
| "js_mul (JsFin n f) (JsInf a) = (if n = 0 then JsNaN else JsInf (a \<noteq> (n < 0)))"
| "js_mul _ _ = JsNaN"

text \<open>\<open>a >= b\<close>; the flag of an infinity says that it is negative.\<close>

fun js_ge :: "js_number \<Rightarrow> js_number \<Rightarrow> bool" where
  "js_ge (JsFin m e) (JsFin n f) = (n * pow2i f * pow2i (- e) \<le> m * pow2i e * pow2i (- f))"
| "js_ge (JsInf a) (JsInf b) = (\<not> a \<or> b)"
| "js_ge (JsInf a) (JsFin _ _) = (\<not> a)"
| "js_ge (JsFin _ _) (JsInf b) = b"
| "js_ge _ _ = False"

section \<open>The risk assessment\<close>

record risk_assessment =
  ra_level :: risk_level
  ra_score :: int
  ra_flags :: "string list"
  ra_requiredApprovals :: int

text \<open>The regular expression \<open>^(127\.0\.0\.1|::1|10\.|192\.168\.|172\.(1[6-9]|2\d|3[0-1])\.)\<close>.\<close>

definition isPrivateIp :: "string \<Rightarrow> bool" where
  "isPrivateIp ip =
     list_ex (startsWith ip)
       ([''127.0.0.1'', ''::1'', ''10.'', ''192.168.''] @ map (\<lambda>n. ''172.'' @ dec n @ ''.'') [16..<32])"

text \<open>Each flag goes with its weight: the code pushes the flag and adds the weight together.\<close>

definition risk_flags :: "js_number \<Rightarrow> js_number \<Rightarrow> string \<Rightarrow> string option \<Rightarrow> string option \<Rightarrow> int
    \<Rightarrow> withdrawal list \<Rightarrow> (string \<times> int) list" where
  "risk_flags singleLimitKori amountKori toAddress clientIp deviceId now recentWithdrawals =
     (let recentHourThreshold = toISOString (now - 60 * 60 * 1000);
          recentDayThreshold = toISOString (now - 24 * 60 * 60 * 1000);
          prior = filter (\<lambda>w. wd_toAddress w = toAddress) recentWithdrawals;
          failed = (\<lambda>ws. length (filter (\<lambda>w. wd_status w = FAILED \<and> recentDayThreshold \<le> wd_createdAt w) ws))
      in (if js_ge amountKori (js_mul singleLimitKori (fl 8 10)) then [(''large_amount'', 60)]
          else if js_ge amountKori (js_mul singleLimitKori (fl 25 100)) then [(''medium_amount'', 30)] else []) @
         (if \<not> truthy clientIp then [(''missing_ip'', 20)]
          else if \<not> isPrivateIp (the clientIp) then [(''external_ip'', 10)] else []) @
         (if \<not> truthy deviceId then [(''missing_device'', 20)] else []) @
         (if prior = [] then [(''new_destination'', 15)] else []) @
         (if 1 \<le> failed prior then [(''failed_destination_retry'', 40)] else []) @
         (if 2 \<le> failed recentWithdrawals then [(''repeated_recent_failures'', 25)] else []) @
         (if 3 \<le> length (filter (\<lambda>w. recentHourThreshold \<le> wd_createdAt w) recentWithdrawals)
          then [(''withdrawal_burst'', 25)] else []))"

definition risk_of :: "(string \<times> int) list \<Rightarrow> risk_assessment" where
  "risk_of flags =
     (let score = sum_list (map snd flags);
          level = (if 80 \<le> score then RL_high else if 40 \<le> score then RL_medium else RL_low)
      in \<lparr>ra_level = level, ra_score = score, ra_flags = map fst flags,
          ra_requiredApprovals = (if level = RL_low then 1 else 2)\<rparr>)"

definition assessRisk :: "js_number \<Rightarrow> string \<Rightarrow> js_number \<Rightarrow> string \<Rightarrow> string option \<Rightarrow> string option
    \<Rightarrow> int \<Rightarrow> ledger \<Rightarrow> risk_assessment" where
  "assessRisk singleLimitKori userId amountKori toAddress clientIp deviceId now s =
     risk_of (risk_flags singleLimitKori amountKori toAddress clientIp deviceId now
       (listWithdrawalsByUser userId 100 s))"

section \<open>Statuses shown to others\<close>

datatype display_status = DP_submitted | DP_under_review | DP_approved | DP_sending | DP_completed | DP_failed | DP_rejected

fun mapWithdrawalDisplayStatus :: "withdrawal_status \<Rightarrow> int \<Rightarrow> display_status" where
  "mapWithdrawalDisplayStatus LEDGER_RESERVED n = DP_submitted"
| "mapWithdrawalDisplayStatus PENDING_ADMIN n = (if 0 < n then DP_under_review else DP_submitted)"
| "mapWithdrawalDisplayStatus ADMIN_APPROVED n = DP_approved"
| "mapWithdrawalDisplayStatus TX_BROADCASTED n = DP_sending"
| "mapWithdrawalDisplayStatus COMPLETED n = DP_completed"
| "mapWithdrawalDisplayStatus FAILED n = DP_failed"
| "mapWithdrawalDisplayStatus REJECTED n = DP_rejected"

datatype sync_status = SS_PROCESSING | SS_SENT | SS_COMPLETED | SS_FAILED

fun mapWithdrawalToSyncStatus :: "withdrawal_status \<Rightarrow> sync_status" where
  "mapWithdrawalToSyncStatus TX_BROADCASTED = SS_SENT"
| "mapWithdrawalToSyncStatus COMPLETED = SS_COMPLETED"
| "mapWithdrawalToSyncStatus FAILED = SS_FAILED"
| "mapWithdrawalToSyncStatus REJECTED = SS_FAILED"
| "mapWithdrawalToSyncStatus _ = SS_PROCESSING"

section \<open>Laws\<close>

lemma risk_weights:
  "set (risk_flags sl am a ip dev now ws) \<subseteq>
     {(''large_amount'', 60), (''medium_amount'', 30), (''missing_ip'', 20), (''external_ip'', 10),
      (''missing_device'', 20), (''new_destination'', 15), (''failed_destination_retry'', 40),
      (''repeated_recent_failures'', 25), (''withdrawal_burst'', 25)}"
  by (auto simp: risk_flags_def Let_def)

text \<open>
  Of \<open>large_amount\<close> and \<open>medium_amount\<close>, and of \<open>missing_ip\<close> and \<open>external_ip\<close>, only one is raised,
  and a failed destination is not a new one: the score is at most 190.
\<close>

lemma weights_bound:
  assumes "\<not> (nd \<and> fd)"
  shows "0 \<le> (if la then 60 else if ma then 30 else 0) + (if mi then 20 else if ei then 10 else 0) +
      (if md then 20 else 0) + (if nd then 15 else 0) + (if fd then 40 else 0) + (if rf then 25 else 0) +
      (if wb then 25 else (0::int)) \<and>
    (if la then 60 else if ma then 30 else 0) + (if mi then 20 else if ei then 10 else 0) +
      (if md then 20 else 0) + (if nd then 15 else 0) + (if fd then 40 else 0) + (if rf then 25 else 0) +
      (if wb then 25 else (0::int)) \<le> 190"
  using assms by simp

lemma weight_if: "sum_list (map snd (if b then xs else ys)) = (if b then sum_list (map snd xs) else sum_list (map snd ys))"
  by simp

lemma risk_score_bounds:
  "0 \<le> ra_score (risk_of (risk_flags sl am a ip dev now ws)) \<and>
   ra_score (risk_of (risk_flags sl am a ip dev now ws)) \<le> 190"
  unfolding risk_of_def risk_flags_def Let_def risk_assessment.simps map_append sum_list_append weight_if
    list.map snd_conv sum_list.Cons sum_list.Nil add_0_right add.assoc [symmetric]
  by (rule weights_bound) (auto simp: filter_empty_conv)

lemma risk_level_iff:
  "ra_level (risk_of fs) = RL_low \<longleftrightarrow> ra_score (risk_of fs) < 40"
  "ra_level (risk_of fs) = RL_high \<longleftrightarrow> 80 \<le> ra_score (risk_of fs)"
  "ra_requiredApprovals (risk_of fs) = (if ra_score (risk_of fs) < 40 then 1 else 2)"
  by (simp_all add: risk_of_def Let_def)

lemma sum_ge_member: "x \<in> set xs \<Longrightarrow> (\<And>y. y \<in> set xs \<Longrightarrow> 0 \<le> y) \<Longrightarrow> x \<le> sum_list (xs :: int list)"
  by (rule member_le_sum_list)

lemma risk_flag_weight_le:
  assumes "(f, n) \<in> set (risk_flags sl am a ip dev now ws)"
  shows "n \<le> ra_score (risk_of (risk_flags sl am a ip dev now ws))"
proof -
  have "0 \<le> y" if "y \<in> set (map snd (risk_flags sl am a ip dev now ws))" for y
    using that risk_weights [of sl am a ip dev now ws] by auto
  moreover have "n \<in> set (map snd (risk_flags sl am a ip dev now ws))" using assms by force
  ultimately show ?thesis by (simp only: risk_of_def Let_def risk_assessment.simps) (rule sum_ge_member; simp)
qed

end
