(* ===== verification/WithdrawService.thy ===== *)
theory WithdrawService
  imports WithdrawGuard VirtualWalletService WithdrawRisk
begin

text \<open>
  \<open>WithdrawService\<close> (\<open>src/application/services/withdraw-service.ts\<close>) and
  \<open>WithdrawNetworkPolicyService\<close> (\<open>withdraw-network-policy-service.ts\<close>) on the platform.  Every method
  follows the order of the source: the guards, the ledger method, the publication of the new state,
  the audit log, then queue and alerts; a throw in between leaves what was already done.
\<close>

section \<open>Publishing and external synchronisation\<close>

definition str_of :: "jsval \<Rightarrow> string" where
  "str_of v = (case v of JStr s \<Rightarrow> s | _ \<Rightarrow> '''')"

definition audit_entry :: "entity_type \<Rightarrow> string \<Rightarrow> string \<Rightarrow> actor_type \<Rightarrow> string \<Rightarrow> (string \<times> string) list
    \<Rightarrow> audit_input" where
  "audit_entry entityType entityId action actorType actorId metadata =
     \<lparr>au_entityType = entityType, au_entityId = entityId, au_action = action, au_actorType = actorType,
      au_actorId = actorId, au_metadata = metadata\<rparr>"

definition recordExternalSyncAudit :: "'w app \<Rightarrow> string \<Rightarrow> string \<Rightarrow> (string \<times> string) list
    \<Rightarrow> ('w platform, unit) act" where
  "recordExternalSyncAudit app withdrawalId action metadata =
     catching
       (audit app (audit_entry ET_withdrawal withdrawalId action AT_system ''foxya-withdrawal-sync'' metadata))
       (\<lambda>_. ret ())"

definition enqueueExternalSyncRetry :: "string \<Rightarrow> ('w platform, unit) act" where
  "enqueueExternalSyncRetry withdrawalId = catching (on_queue (enqueueExternalSync withdrawalId)) (\<lambda>_. ret ())"

definition consumeWithdrawalStateChanged :: "'w app \<Rightarrow> payload \<Rightarrow> bool \<Rightarrow> ('w platform, unit) act" where
  "consumeWithdrawalStateChanged app contract enqueueOnFailure =
     (let withdrawalId = str_of (field_of contract ''withdrawalId'');
          status = str_of (field_of contract ''status'');
          metadata = [(''status'', status), (''occurredAt'', str_of (field_of contract ''occurredAt'')),
                      (''txHash'', str_of (field_of contract ''txHash''))]
      in case app_syncWithdrawal app of
           None \<Rightarrow> ret ()
         | Some sync \<Rightarrow>
             catching
               (and_then (on_world (sync contract)) (\<lambda>_.
                recordExternalSyncAudit app withdrawalId ''withdraw.external_sync.succeeded'' metadata))
               (\<lambda>err.
                 let message = take 500 (error_message err) in
                 and_then (recordExternalSyncAudit app withdrawalId ''withdraw.external_sync.failed''
                     (metadata @ [(''error'', message)])) (\<lambda>_.
                 and_then (notify app (notifyWithdrawalExternalSyncFailed withdrawalId status message)) (\<lambda>_.
                 and_then (when_do enqueueOnFailure (enqueueExternalSyncRetry withdrawalId)) (\<lambda>_.
                 throw err)))))"

definition publishWithdrawalStateChange :: "'w app \<Rightarrow> withdrawal \<Rightarrow> string \<Rightarrow> ('w platform, unit) act" where
  "publishWithdrawalStateChange app w occurredAt =
     and_then (lift_result (buildWithdrawalStateChangedContract (app_cfg app) w occurredAt)) (\<lambda>contract.
       case app_publishAsync app of
         Some publishAsync \<Rightarrow> publishAsync ''withdrawal.state.changed'' contract
       | None \<Rightarrow>
           and_then (modify (app_publish app ''withdrawal.state.changed'' contract)) (\<lambda>_.
             if app_syncWithdrawal app \<noteq> None then consumeWithdrawalStateChanged app contract True else ret ()))"

definition publish_now :: "'w app \<Rightarrow> withdrawal \<Rightarrow> ('w platform, unit) act" where
  "publish_now app w = and_then (now_iso app) (\<lambda>occurredAt. publishWithdrawalStateChange app w occurredAt)"

definition syncExternalWithdrawalState :: "'w app \<Rightarrow> withdrawal \<Rightarrow> string \<Rightarrow> bool \<Rightarrow> ('w platform, unit) act" where
  "syncExternalWithdrawalState app w occurredAt enqueueOnFailure =
     and_then (lift_result (buildWithdrawalStateChangedContract (app_cfg app) w occurredAt)) (\<lambda>contract.
       consumeWithdrawalStateChanged app contract enqueueOnFailure)"

definition processExternalSyncRetry :: "'w app \<Rightarrow> string \<Rightarrow> ('w platform, unit) act" where
  "processExternalSyncRetry app withdrawalId =
     and_then (ask_ledger (getWithdrawal withdrawalId)) (\<lambda>w.
       case w of
         None \<Rightarrow> throw (JsError ''withdrawal not found'')
       | Some withdrawal \<Rightarrow>
           and_then (now_iso app) (\<lambda>occurredAt. syncExternalWithdrawalState app withdrawal occurredAt False))"

section \<open>Request\<close>

definition assertUserWithdrawalNetworkAllowed :: "'w app \<Rightarrow> string \<Rightarrow> ('w platform, unit) act" where
  "assertUserWithdrawalNetworkAllowed app userId =
     (case app_isTestUser app of
        None \<Rightarrow> ret ()
      | Some isTestUser \<Rightarrow>
          and_then (on_world (isTestUser userId)) (\<lambda>test.
            if \<not> test then ret ()
            else inspect (\<lambda>s. if getEffectiveBlockchainNetwork (app_contract app) (pf_contract s) \<noteq> EN_testnet
                 then Inl (DomainError 403 ''TEST_USER_MAINNET_WITHDRAW_FORBIDDEN''
                        ''test users can only withdraw on testnet'')
                 else Inr ())))"

record service_request =
  rq_userId :: "string option"
  rq_walletAddress :: "string option"
  rq_amountKori :: js_number
  rq_toAddress :: string
  rq_idempotencyKey :: string
  rq_clientIp :: "string option"
  rq_deviceId :: "string option"

definition announceRequest :: "'w app \<Rightarrow> service_request \<Rightarrow> string \<Rightarrow> withdrawal \<Rightarrow> ('w platform, unit) act" where
  "announceRequest app inp userId w =
     and_then (publishWithdrawalStateChange app w (wd_createdAt w)) (\<lambda>_.
     and_then (audit app (audit_entry ET_withdrawal (wd_withdrawalId w) ''withdraw.requested'' AT_user userId
         [(''riskLevel'', risk_level_name (wd_riskLevel w)), (''riskScore'', json_int (wd_riskScore w)),
          (''requiredApprovals'', json_int (wd_requiredApprovals w)),
          (''clientIp'', coalesce (rq_clientIp inp) ''''), (''deviceId'', coalesce (rq_deviceId inp) '''')])) (\<lambda>_.
       notify app (notifyWithdrawalRequested (wd_withdrawalId w) userId (formatKoriAmount (wd_amount w))
         (wd_toAddress w) (wd_riskLevel w) (wd_requiredApprovals w))))"

definition request :: "'w app \<Rightarrow> service_request \<Rightarrow> ('w platform, withdrawal_request_result) act" where
  "request app inp =
     and_then (inspect_ledger (resolveUserId (rq_userId inp) (rq_walletAddress inp))) (\<lambda>userId.
     and_then (if app_lifecyclePolicy app
               then and_then (assertWithdrawalAllowed app (Some userId) (rq_walletAddress inp)) (\<lambda>_. ret ())
               else ret ()) (\<lambda>_.
     and_then (assertUserWithdrawalNetworkAllowed app userId) (\<lambda>_.
     and_then (lift_result (parseKoriAmount (rq_amountKori inp))) (\<lambda>amount.
     and_then (assertRequestAllowed app (rq_toAddress inp) (rq_walletAddress inp) (Some amount)) (\<lambda>_.
     and_then (now_ms app) (\<lambda>now.
     and_then (ask_ledger (assessRisk (app_withdrawSingleLimitKori app) userId (rq_amountKori inp)
         (rq_toAddress inp) (rq_clientIp inp) (rq_deviceId inp) now)) (\<lambda>risk.
     and_then (on_ledger app (requestWithdrawal (app_cfg app)
         \<lparr>wi_userId = userId, wi_amount = amount, wi_toAddress = rq_toAddress inp,
          wi_idempotencyKey = rq_idempotencyKey inp, wi_riskLevel = Some (ra_level risk),
          wi_riskScore = Some (ra_score risk), wi_riskFlags = Some (ra_flags risk),
          wi_requiredApprovals = Some (ra_requiredApprovals risk), wi_clientIp = rq_clientIp inp,
          wi_deviceId = rq_deviceId inp\<rparr>)) (\<lambda>result.
     and_then (when_do (\<not> wr_duplicated result) (announceRequest app inp userId (wr_withdrawal result))) (\<lambda>_.
     ret result)))))))))"

section \<open>External authentication and approval\<close>

definition confirmExternalAuth :: "'w app \<Rightarrow> string \<Rightarrow> string \<Rightarrow> string \<Rightarrow> string option
    \<Rightarrow> ('w platform, withdrawal) act" where
  "confirmExternalAuth app withdrawalId provider requestId actorId =
     and_then (on_ledger app (confirmWithdrawalExternalAuth (app_cfg app) withdrawalId provider requestId)) (\<lambda>updated.
     and_then (publish_now app updated) (\<lambda>_.
     and_then (audit app (audit_entry ET_withdrawal withdrawalId ''withdraw.external_auth.confirmed'' AT_system
         (coalesce actorId provider) [(''provider'', provider), (''requestId'', requestId)])) (\<lambda>_.
     ret updated)))"

fun approval_reason_name :: "approval_reason \<Rightarrow> string" where
  "approval_reason_name manual_review_passed = ''manual_review_passed''"
| "approval_reason_name high_value_verified = ''high_value_verified''"
| "approval_reason_name trusted_destination_verified = ''trusted_destination_verified''"
| "approval_reason_name account_activity_verified = ''account_activity_verified''"
| "approval_reason_name ops_override = ''ops_override''"

record service_approval =
  sa_adminId :: "string option"
  sa_actorType :: "actor_type option"
  sa_reasonCode :: "approval_reason option"
  sa_note :: "string option"

definition approve :: "'w app \<Rightarrow> string \<Rightarrow> service_approval \<Rightarrow> ('w platform, approval_decision) act" where
  "approve app withdrawalId inp =
     (let reasonCode = coalesce (sa_reasonCode inp) manual_review_passed;
          adminId = coalesce (sa_adminId inp) ''admin-unknown'';
          actorType = coalesce (sa_actorType inp) AT_admin
      in and_then (ask_ledger (getWithdrawal withdrawalId)) (\<lambda>current.
         case current of
           None \<Rightarrow> throw (DomainError 404 ''WITHDRAW_NOT_FOUND'' ''withdrawal not found'')
         | Some w \<Rightarrow>
             and_then (assertUserWithdrawalNetworkAllowed app (wd_userId w)) (\<lambda>_.
             and_then (on_ledger app (approveWithdrawal (app_cfg app) withdrawalId
                 \<lparr>ai_adminId = adminId, ai_actorType = actorType, ai_reasonCode = Some reasonCode,
                  ai_note = sa_note inp\<rparr>)) (\<lambda>result.
             and_then (publishWithdrawalStateChange app (ad_withdrawal result) (wa_createdAt (ad_approval result))) (\<lambda>_.
             and_then (audit app (audit_entry ET_withdrawal withdrawalId
                 (if ad_finalized result then ''withdraw.approved.finalized'' else ''withdraw.approved.partial'')
                 actorType adminId
                 [(''reasonCode'', approval_reason_name reasonCode), (''note'', coalesce (sa_note inp) ''''),
                  (''approvalCount'', json_int (wd_approvalCount (ad_withdrawal result))),
                  (''requiredApprovals'', json_int (wd_requiredApprovals (ad_withdrawal result)))])) (\<lambda>_.
             and_then (when_do (ad_finalized result)
                (and_then (on_queue (enqueueDispatch withdrawalId)) (\<lambda>_.
                 notify app (notifyWithdrawalApproved withdrawalId adminId
                   (wd_approvalCount (ad_withdrawal result)) (wd_requiredApprovals (ad_withdrawal result)))))) (\<lambda>_.
             ret result)))))))"

section \<open>Broadcast\<close>

text \<open>\<open>this.withdrawalSigner ?? { broadcastWithdrawal: ... tronGateway.broadcastTransfer }\<close>.\<close>

definition sign_and_send :: "'w app \<Rightarrow> withdrawal \<Rightarrow> ('w, string) act" where
  "sign_and_send app w =
     (case app_signer app of
        Some signer \<Rightarrow> signer \<lparr>sr_withdrawalId = wd_withdrawalId w, sr_toAddress = wd_toAddress w,
                               sr_amount = wd_amount w\<rparr>
      | None \<Rightarrow> app_broadcastTransfer app (wd_toAddress w) (wd_amount w))"

definition record_broadcast :: "'w app \<Rightarrow> string \<Rightarrow> string \<Rightarrow> ('w platform, withdrawal) act" where
  "record_broadcast app withdrawalId txHash =
     and_then (on_ledger app (broadcastWithdrawal (app_cfg app) withdrawalId txHash)) (\<lambda>updated.
     and_then (publish_now app updated) (\<lambda>_.
     and_then (audit app (audit_entry ET_withdrawal withdrawalId ''withdraw.broadcast'' AT_system ''tron-gateway''
         [(''txHash'', txHash)])) (\<lambda>_.
     ret updated)))"

definition broadcast :: "'w app \<Rightarrow> string \<Rightarrow> ('w platform, withdrawal option) act" where
  "broadcast app withdrawalId =
     and_then (ask_ledger (getWithdrawal withdrawalId)) (\<lambda>current.
       case current of
         None \<Rightarrow> ret None
       | Some w \<Rightarrow>
           and_then (assertUserWithdrawalNetworkAllowed app (wd_userId w)) (\<lambda>_.
           and_then (assertBroadcastAllowed app (wd_toAddress w) (Some (wd_amount w))) (\<lambda>_.
           and_then (on_world (sign_and_send app w)) (\<lambda>txHash.
           and_then (record_broadcast app withdrawalId txHash) (\<lambda>updated.
           ret (Some updated))))))"

definition listOfflineSigningPending :: "'w app \<Rightarrow> ('w platform, withdrawal list) act" where
  "listOfflineSigningPending app =
     and_then (ask_ledger (listWithdrawalsByStatuses [ADMIN_APPROVED])) (\<lambda>ws.
       ret (filter (\<lambda>w. requiresOfflineSigning (app_guard app) (Some (wd_amount w))) ws))"

definition submitOfflineBroadcast :: "'w app \<Rightarrow> string \<Rightarrow> string \<Rightarrow> string option \<Rightarrow> string option
    \<Rightarrow> ('w platform, withdrawal option) act" where
  "submitOfflineBroadcast app withdrawalId txHash note actorId =
     and_then (ask_ledger (getWithdrawal withdrawalId)) (\<lambda>current.
       case current of
         None \<Rightarrow> ret None
       | Some w \<Rightarrow>
           if wd_status w \<noteq> ADMIN_APPROVED
           then throw (DomainError 409 ''WITHDRAW_INVALID_STATE''
                  (''withdrawal is not dispatchable in state '' @ mapWithdrawalStatusToLedgerContract (wd_status w)))
           else if \<not> requiresOfflineSigning (app_guard app) (Some (wd_amount w))
           then throw (DomainError 409 ''WITHDRAW_OFFLINE_SIGN_NOT_REQUIRED''
                  ''withdrawal does not require offline signing'')
           else
             and_then (on_ledger app (broadcastWithdrawal (app_cfg app) withdrawalId txHash)) (\<lambda>updated.
             and_then (publish_now app updated) (\<lambda>_.
             and_then (audit app (audit_entry ET_withdrawal withdrawalId ''withdraw.broadcast.offline_submitted''
                 AT_admin (coalesce actorId ''admin-unknown'')
                 [(''txHash'', txHash), (''note'', coalesce note '''')])) (\<lambda>_.
             ret (Some updated)))))"

section \<open>Confirmation, failure, reconciliation\<close>

definition confirm :: "'w app \<Rightarrow> string \<Rightarrow> network_fee option \<Rightarrow> ('w platform, withdrawal) act" where
  "confirm app withdrawalId networkFee =
     and_then (on_ledger app (confirmWithdrawal (app_cfg app) withdrawalId networkFee)) (\<lambda>updated.
     and_then (publish_now app updated) (\<lambda>_.
     and_then (audit app (audit_entry ET_withdrawal withdrawalId ''withdraw.confirmed'' AT_system ''reconciliation''
         [(''txHash'', coalesce (wd_txHash updated) '''')])) (\<lambda>_.
     ret updated)))"

definition fail :: "'w app \<Rightarrow> string \<Rightarrow> string \<Rightarrow> ('w platform, withdrawal) act" where
  "fail app withdrawalId reason =
     and_then (on_ledger app (failWithdrawal (app_cfg app) withdrawalId reason)) (\<lambda>updated.
     and_then (publish_now app updated) (\<lambda>_.
     and_then (audit app (audit_entry ET_withdrawal withdrawalId ''withdraw.failed'' AT_system ''withdraw-service''
         [(''reason'', reason)])) (\<lambda>_.
     ret updated)))"

record reconcile_result =
  rr_confirmed :: "string list"
  rr_failed :: "string list"
  rr_pending :: "string list"

definition reconcile_one :: "'w app \<Rightarrow> withdrawal \<Rightarrow> reconcile_result \<Rightarrow> ('w platform, reconcile_result) act" where
  "reconcile_one app w acc =
     (if \<not> truthy (wd_txHash w) then ret acc
      else
        and_then (on_world (app_getReceipt app (the (wd_txHash w)))) (\<lambda>receipt.
          case rc_status receipt of
            RS_confirmed \<Rightarrow>
              and_then (confirm app (wd_withdrawalId w)
                  (Some \<lparr>fee_txHash = the (wd_txHash w), fee_feeSun = rc_feeSun receipt,
                         fee_energyUsed = rc_energyUsed receipt, fee_bandwidthUsed = rc_bandwidthUsed receipt\<rparr>)) (\<lambda>_.
              ret (acc\<lparr>rr_confirmed := rr_confirmed acc @ [wd_withdrawalId w]\<rparr>))
          | RS_failed \<Rightarrow>
              and_then (fail app (wd_withdrawalId w) ''on-chain receipt reported failure'') (\<lambda>_.
              ret (acc\<lparr>rr_failed := rr_failed acc @ [wd_withdrawalId w]\<rparr>))
          | RS_pending \<Rightarrow> ret (acc\<lparr>rr_pending := rr_pending acc @ [wd_withdrawalId w]\<rparr>)))"

definition reconcileBroadcasted :: "'w app \<Rightarrow> ('w platform, reconcile_result) act" where
  "reconcileBroadcasted app =
     and_then (ask_ledger (listWithdrawalsByStatuses [TX_BROADCASTED])) (\<lambda>broadcasted.
       fold_act (reconcile_one app) broadcasted \<lparr>rr_confirmed = [], rr_failed = [], rr_pending = []\<rparr>)"

section \<open>Queries and policies\<close>

record polling_state =
  ps_withdrawalId :: string
  ps_status :: sync_status
  ps_txHash :: "string option"
  ps_failedReason :: "string option"
  ps_updatedAt :: string

text \<open>\<open>externalTransferId\<close> is always \<open>null\<close> and left out.\<close>

definition getFoxyaPollingState :: "string \<Rightarrow> ledger \<Rightarrow> polling_state option" where
  "getFoxyaPollingState withdrawalId s =
     map_option (\<lambda>w. \<lparr>ps_withdrawalId = wd_withdrawalId w, ps_status = mapWithdrawalToSyncStatus (wd_status w),
        ps_txHash = wd_txHash w, ps_failedReason = wd_failReason w,
        ps_updatedAt = coalesce (coalesce_opt (wd_confirmedAt w) (coalesce_opt (wd_failedAt w)
          (coalesce_opt (wd_broadcastedAt w) (coalesce_opt (wd_approvedAt w)
          (coalesce_opt (wd_externalAuthConfirmedAt w) (wd_reviewRequiredAt w)))))) (wd_createdAt w)\<rparr>)
       (getWithdrawal withdrawalId s)"

definition serviceUpsertAddressPolicy :: "'w app \<Rightarrow> string \<Rightarrow> policy_type \<Rightarrow> string option \<Rightarrow> string
    \<Rightarrow> ('w platform, address_policy) act" where
  "serviceUpsertAddressPolicy app address policyType reason createdBy =
     (if \<not> app_policyService app then throw (JsError ''withdraw policy service is not configured'')
      else and_then (now_iso app) (\<lambda>nowIso.
        zoom pf_policies (\<lambda>m s. s\<lparr>pf_policies := m\<rparr>)
          (total (upsertAddressPolicy address policyType reason createdBy nowIso))))"

definition serviceListAddressPolicies :: "'w app \<Rightarrow> string option \<Rightarrow> policy_type option \<Rightarrow> int option
    \<Rightarrow> ('w platform, address_policy list) act" where
  "serviceListAddressPolicies app address policyType limit =
     (if \<not> app_policyService app then ret []
      else ask (\<lambda>s. listAddressPolicies address policyType limit (pf_policies s)))"

definition serviceDeleteAddressPolicy :: "'w app \<Rightarrow> string \<Rightarrow> policy_type \<Rightarrow> ('w platform, bool) act" where
  "serviceDeleteAddressPolicy app address policyType =
     (if \<not> app_policyService app then ret False
      else zoom pf_policies (\<lambda>m s. s\<lparr>pf_policies := m\<rparr>) (total (deleteAddressPolicy address policyType)))"

section \<open>The relations the service keeps\<close>

context platform_relation
begin

lemma run_recordExternalSyncAudit [run_rules]: "keeps R (recordExternalSyncAudit app i a m)"
  unfolding recordExternalSyncAudit_def by (intro run_rules)

lemma run_consume [run_rules]: "keeps R (consumeWithdrawalStateChanged app c b)"
  unfolding consumeWithdrawalStateChanged_def enqueueExternalSyncRetry_def Let_def by (intro run_rules)

end

text \<open>
  What the service needs of the event publisher: delivering an event may run consumers on the
  platform, but keeps the relation.  Under this contract every method of the service keeps it, on
  every path, throws included.
\<close>

locale publisher_relation = platform_relation R app
  for R :: "'w platform \<Rightarrow> 'w platform \<Rightarrow> bool" and app :: "'w app" +
  assumes publishAsync_runs: "app_publishAsync app = Some pa \<Longrightarrow> keeps R (pa ty p)"
    and publish_runs: "R s (app_publish app ty p s)"
begin

lemma run_publish: "keeps R (modify (app_publish app ty p))"
  by (simp add: keeps_def publish_runs)

lemma run_publishWithdrawalStateChange [run_rules]: "keeps R (publishWithdrawalStateChange app w t)"
  unfolding publishWithdrawalStateChange_def by (intro run_rules run_publish publishAsync_runs) simp_all

lemma run_publish_now [run_rules]: "keeps R (publish_now app w)"
  unfolding publish_now_def by (intro run_rules)

lemma run_networkAllowed [run_rules]: "keeps R (assertUserWithdrawalNetworkAllowed app u)"
  unfolding assertUserWithdrawalNetworkAllowed_def by (intro run_rules)

lemma run_announceRequest [run_rules]: "keeps R (announceRequest app inp u w)"
  unfolding announceRequest_def by (intro run_rules)

lemma parse_bind:
  assumes "\<And>amount. 0 \<le> amount \<Longrightarrow> keeps R (f amount)"
  shows "keeps R (and_then (lift_result (parseKoriAmount x)) f)"
  by (rule keep_bind_result, rule run_lift_result)
    (use assms parseKoriAmount_nonneg in \<open>auto simp: lift_result_def\<close>)

lemma run_request [run_rules]: "keeps R (request app inp)"
  unfolding request_def
  by (intro run_rules parse_bind run_on_ledger) (simp_all add: step_request)

lemma run_confirmExternalAuth [run_rules]: "keeps R (confirmExternalAuth app i p r a)"
  unfolding confirmExternalAuth_def by (intro run_rules run_on_ledger) (rule step_externalAuth)

lemma run_approve [run_rules]: "keeps R (approve app i inp)"
  unfolding approve_def Let_def by (intro run_rules run_on_ledger) (rule step_approve)

lemma run_record_broadcast [run_rules]: "keeps R (record_broadcast app i h)"
  unfolding record_broadcast_def by (intro run_rules run_on_ledger) (rule step_broadcast)

lemma run_broadcast [run_rules]: "keeps R (broadcast app i)"
  unfolding broadcast_def by (intro run_rules)

lemma run_submitOfflineBroadcast [run_rules]: "keeps R (submitOfflineBroadcast app i h n a)"
  unfolding submitOfflineBroadcast_def by (intro run_rules run_on_ledger) (rule step_broadcast)

lemma run_confirm [run_rules]: "keeps R (confirm app i fee)"
  unfolding confirm_def by (intro run_rules run_on_ledger) (rule step_confirm)

lemma run_fail [run_rules]: "keeps R (fail app i reason)"
  unfolding fail_def by (intro run_rules run_on_ledger) (rule step_fail)

lemma run_reconcileBroadcasted [run_rules]: "keeps R (reconcileBroadcasted app)"
proof -
  have "keeps R (reconcile_one app w acc)" for w acc
    unfolding reconcile_one_def
    by (intro run_rules) (auto split: receipt_status.split intro!: run_rules)
  then show ?thesis unfolding reconcileBroadcasted_def by (intro run_rules)
qed

lemma run_processExternalSyncRetry [run_rules]: "keeps R (processExternalSyncRetry app i)"
  unfolding processExternalSyncRetry_def syncExternalWithdrawalState_def by (intro run_rules)

end

end
