(* ===== verification/WithdrawDispatch.thy ===== *)
theory WithdrawDispatch
  imports WithdrawService
begin

text \<open>
  \<open>WithdrawDispatchWorker\<close> (\<open>src/application/services/withdraw-dispatch-worker.ts\<close>), the loop of the
  in-memory queue that feeds it (\<open>src/infrastructure/queue/in-memory-withdraw-job-queue.ts\<close>) with the
  handlers of \<open>create-app-dependencies.ts\<close>, and \<open>SchedulerService\<close>
  (\<open>src/application/services/scheduler-service.ts\<close>).
\<close>

section \<open>The worker\<close>

definition retryableError :: "string \<Rightarrow> js_error" where
  "retryableError message = NamedError ''RetryableWithdrawDispatchError'' message"

definition manualSigningError :: "string \<Rightarrow> js_error" where
  "manualSigningError message = NamedError ''ManualSigningRequiredError'' message"

fun is_retryable :: "js_error \<Rightarrow> bool" where
  "is_retryable (NamedError n m) = (n = ''RetryableWithdrawDispatchError'')"
| "is_retryable _ = False"

definition handleAttemptFailure :: "'w app \<Rightarrow> string \<Rightarrow> int \<Rightarrow> js_error \<Rightarrow> ('w platform, unit) act" where
  "handleAttemptFailure app withdrawalId attemptNo err =
     (let message = error_message err in
      if is_retryable err then notify app (notifyWithdrawalDispatchRetry withdrawalId attemptNo message)
      else notify app (notifyWithdrawalDispatchFailed withdrawalId message))"

definition ensureHotWalletResources :: "'w app \<Rightarrow> string \<Rightarrow> ('w platform, unit) act" where
  "ensureHotWalletResources app withdrawalId =
     and_then (getHotWalletReadiness app) (\<lambda>readiness.
       if hr_ready readiness then ret ()
       else if ''offline_signing_required'' \<in> set (hr_failures readiness)
       then throw (manualSigningError ''withdrawal requires offline signing'')
       else
         and_then (notify app (notifyWithdrawalResourceLow withdrawalId (go_hotWalletAddress (app_guard app))
             (hr_trxBalanceSun readiness) (hr_availableBandwidth readiness) (hr_availableEnergy readiness)
             (json_int (go_minTrxSun (app_guard app))) (go_minBandwidth (app_guard app))
             (go_minEnergy (app_guard app)))) (\<lambda>_.
           throw (retryableError (''hot wallet is not ready: '' @ join_with '','' (hr_failures readiness)))))"

definition processDispatch :: "'w app \<Rightarrow> string \<Rightarrow> int \<Rightarrow> ('w platform, unit) act" where
  "processDispatch app withdrawalId attemptNo =
     (if \<not> truthy_str withdrawalId then throw (JsError ''withdraw dispatch job requires withdrawalId'')
      else
        and_then (ask_ledger (getWithdrawal withdrawalId)) (\<lambda>found.
          case found of
            None \<Rightarrow> throw (JsError ''withdrawal not found'')
          | Some w \<Rightarrow>
              if wd_status w \<in> {COMPLETED, FAILED, TX_BROADCASTED} then ret ()
              else if wd_status w \<noteq> ADMIN_APPROVED
              then throw (JsError (''withdrawal is not dispatchable in state '' @
                     mapWithdrawalStatusToLedgerContract (wd_status w)))
              else
                catching
                  (and_then (ensureHotWalletResources app withdrawalId) (\<lambda>_.
                   and_then (broadcast app withdrawalId) (\<lambda>_. ret ())))
                  (\<lambda>err. and_then (handleAttemptFailure app withdrawalId attemptNo err) (\<lambda>_. throw err))))"

definition reconcile_checked :: "'w app \<Rightarrow> string option \<Rightarrow> ('w platform, unit) act" where
  "reconcile_checked app withdrawalId =
     and_then (reconcileBroadcasted app) (\<lambda>result.
       if rr_pending result = [] then ret ()
       else if truthy withdrawalId \<and> the withdrawalId \<in> set (rr_pending result)
       then throw (retryableError ''broadcasted withdrawal still pending on-chain'')
       else if \<not> truthy withdrawalId \<and> rr_confirmed result = [] \<and> rr_failed result = []
       then throw (retryableError ''broadcasted withdrawals still pending on-chain'')
       else ret ())"

definition processReconcile :: "'w app \<Rightarrow> string option \<Rightarrow> int \<Rightarrow> ('w platform, unit) act" where
  "processReconcile app withdrawalId attemptNo =
     catching
       (if truthy withdrawalId then
          and_then (ask_ledger (getWithdrawal (the withdrawalId))) (\<lambda>found.
            case found of
              None \<Rightarrow> ret ()
            | Some w \<Rightarrow> if wd_status w \<in> {COMPLETED, FAILED} then ret () else reconcile_checked app withdrawalId)
        else reconcile_checked app withdrawalId)
       (\<lambda>err. and_then (handleAttemptFailure app (coalesce withdrawalId ''-'') attemptNo err) (\<lambda>_. throw err))"

section \<open>The queue\<close>

text \<open>The handlers \<open>create-app-dependencies.ts\<close> gives the queue.\<close>

definition run_job :: "'w app \<Rightarrow> queue_job \<Rightarrow> ('w platform, unit) act" where
  "run_job app job =
     (case job of
        QJ_dispatch withdrawalId attemptNo \<Rightarrow>
          and_then (processDispatch app withdrawalId attemptNo) (\<lambda>_.
            on_queue (enqueueReconcile (Some withdrawalId)))
      | QJ_reconcile withdrawalId attemptNo \<Rightarrow> processReconcile app withdrawalId attemptNo
      | QJ_external_sync withdrawalId attemptNo \<Rightarrow> processExternalSyncRetry app withdrawalId)"

fun job_name :: "queue_job \<Rightarrow> string" where
  "job_name (QJ_dispatch _ _) = ''dispatch''"
| "job_name (QJ_reconcile _ _) = ''reconcile''"
| "job_name (QJ_external_sync _ _) = ''external_sync''"

fun job_withdrawal :: "queue_job \<Rightarrow> string option" where
  "job_withdrawal (QJ_dispatch i _) = Some i"
| "job_withdrawal (QJ_reconcile i _) = i"
| "job_withdrawal (QJ_external_sync i _) = Some i"

fun job_attempt :: "queue_job \<Rightarrow> int" where
  "job_attempt (QJ_dispatch _ n) = n"
| "job_attempt (QJ_reconcile _ n) = n"
| "job_attempt (QJ_external_sync _ n) = n"

definition record_failed :: "'w app \<Rightarrow> queue_job \<Rightarrow> js_error \<Rightarrow> ('w platform, unit) act" where
  "record_failed app job err =
     and_then (now_ms app) (\<lambda>now.
       on_queue (\<lambda>q. q\<lparr>jq_failedJobs :=
         \<lparr>fj_id = job_name job @ '':'' @ coalesce (job_withdrawal job) ''*'' @ '':'' @ json_int now,
          fj_name = job_name job, fj_withdrawalId = job_withdrawal job,
          fj_failedReason = Some (error_message err), fj_attemptsMade = job_attempt job\<rparr> # jq_failedJobs q\<rparr>))"

text \<open>One round of the \<open>while\<close> loop, after \<open>shift\<close> has taken the job off the queue.\<close>

definition process_job :: "'w app \<Rightarrow> queue_job \<Rightarrow> ('w platform, unit) act" where
  "process_job app job =
     catching (run_job app job) (\<lambda>err. and_then (record_failed app job err) (\<lambda>_. throw err))"

definition without_first :: "'w platform \<Rightarrow> 'w platform" where
  "without_first s = s\<lparr>pf_queue := (pf_queue s)\<lparr>jq_jobs := tl (jq_jobs (pf_queue s))\<rparr>\<rparr>"

text \<open>\<open>None\<close> would be a drain that never ends; \<open>drain_returns\<close> in \<open>QueueDrain\<close> excludes it.\<close>

partial_function (option) drain :: "'w app \<Rightarrow> 'w platform \<Rightarrow> ((js_error + unit) \<times> 'w platform) option" where
  "drain app s =
     (if jq_jobs (pf_queue s) = [] then Some (Inr (), s)
      else
        let result = process_job app (hd (jq_jobs (pf_queue s))) (without_first s)
        in if fails (fst result) then Some result else drain app (snd result))"

section \<open>The scheduler\<close>

definition review_one :: "'w app \<Rightarrow> withdrawal \<Rightarrow> nat \<Rightarrow> ('w platform, nat) act" where
  "review_one app w reviewQueued =
     (if wd_status w = PENDING_ADMIN \<and> \<not> truthy (wd_reviewRequiredAt w) then
        and_then (on_ledger app (markWithdrawalReviewRequired (wd_withdrawalId w))) (\<lambda>_.
        and_then (on_ledger app (\<lambda>nowIso. total (enqueueJob (app_cfg app) withdraw_manual_review
            [(''withdrawalId'', wd_withdrawalId w), (''riskLevel'', risk_level_name (wd_riskLevel w))] nowIso))) (\<lambda>_.
        and_then (audit app (audit_entry ET_withdrawal (wd_withdrawalId w) ''withdraw.review_required'' AT_system
            ''scheduler'' [(''riskLevel'', risk_level_name (wd_riskLevel w)),
                           (''requiredApprovals'', json_int (wd_requiredApprovals w))])) (\<lambda>_.
          ret (Suc reviewQueued))))
      else ret reviewQueued)"

record queue_report =
  qr_pendingCount :: nat
  qr_autoApproved :: nat
  qr_reviewQueued :: nat

definition processWithdrawQueue :: "'w app \<Rightarrow> ('w platform, queue_report) act" where
  "processWithdrawQueue app =
     and_then (ask_ledger listPendingApprovalWithdrawals) (\<lambda>pending.
     and_then (fold_act (review_one app) pending 0) (\<lambda>reviewQueued.
     and_then (modify (app_publish app ''scheduler.withdraw.queue.processed''
         [(''pendingCount'', JNum (int (length pending))), (''reviewQueued'', JNum (int reviewQueued))])) (\<lambda>_.
       ret \<lparr>qr_pendingCount = length pending, qr_autoApproved = 0, qr_reviewQueued = reviewQueued\<rparr>)))"

record retry_report =
  ry_stuckCount :: nat
  ry_queuedManualReview :: nat
  ry_reconcile :: reconcile_result

definition requeue_one :: "'w app \<Rightarrow> withdrawal \<Rightarrow> ('w platform, unit) act" where
  "requeue_one app w =
     (if wd_status w = TX_BROADCASTED then ret ()
      else
        and_then (on_ledger app (\<lambda>nowIso. total (enqueueJob (app_cfg app) withdraw_manual_review
            [(''withdrawalId'', wd_withdrawalId w),
             (''status'', mapWithdrawalStatusToLedgerContract (wd_status w))] nowIso))) (\<lambda>_. ret ()))"

definition string_list :: "string list \<Rightarrow> jsval" where
  "string_list xs = JArr (map JStr xs)"

definition retryPending :: "'w app \<Rightarrow> int \<Rightarrow> ('w platform, retry_report) act" where
  "retryPending app timeoutSec =
     and_then (now_iso app) (\<lambda>nowIso.
     and_then (ask_ledger (listStuckWithdrawals timeoutSec nowIso)) (\<lambda>stuck.
     and_then (for_each (requeue_one app) stuck) (\<lambda>_.
     and_then (on_queue (enqueueReconcile None)) (\<lambda>_.
     and_then (reconcileBroadcasted app) (\<lambda>reconcile.
     and_then (modify (app_publish app ''scheduler.pending.retried''
         [(''stuckCount'', JNum (int (length stuck))),
          (''reconcile'', JObj [(''confirmed'', string_list (rr_confirmed reconcile)),
             (''failed'', string_list (rr_failed reconcile)), (''pending'', string_list (rr_pending reconcile))])])) (\<lambda>_.
       ret \<lparr>ry_stuckCount = length stuck,
            ry_queuedManualReview = length (filter (\<lambda>w. wd_status w \<noteq> TX_BROADCASTED) stuck),
            ry_reconcile = reconcile\<rparr>))))))"

section \<open>The relations the worker, the queue and the scheduler keep\<close>

context publisher_relation
begin

lemma run_handleAttemptFailure [run_rules]: "keeps R (handleAttemptFailure app i n e)"
  unfolding handleAttemptFailure_def Let_def by (intro run_rules)

lemma run_processDispatch [run_rules]: "keeps R (processDispatch app i n)"
  unfolding processDispatch_def ensureHotWalletResources_def by (intro run_rules)

lemma run_processReconcile [run_rules]: "keeps R (processReconcile app i n)"
  unfolding processReconcile_def reconcile_checked_def by (intro run_rules)

lemma run_run_job [run_rules]: "keeps R (run_job app j)"
  unfolding run_job_def by (cases j) (auto intro!: run_rules)

lemma run_process_job [run_rules]: "keeps R (process_job app j)"
  unfolding process_job_def record_failed_def by (intro run_rules)

lemma run_drain:
  assumes "drain app s = Some y"
  shows "R s (snd y)"
proof -
  have "app = app \<longrightarrow> R s (snd y)"
  proof (rule drain.raw_induct [of "\<lambda>a s y. a = app \<longrightarrow> R s (snd y)", OF _ assms], intro impI)
    fix drain' a s y
    assume IH: "\<And>a s y. drain' a s = Some y \<Longrightarrow> a = app \<longrightarrow> R s (snd y)"
      and eq: "(if jq_jobs (pf_queue s) = [] then Some (Inr (), s)
        else let result = process_job a (hd (jq_jobs (pf_queue s))) (without_first s)
             in if fails (fst result) then Some result else drain' a (snd result)) = Some y"
      and a: "a = app"
    let ?j = "hd (jq_jobs (pf_queue s))" and ?s = "without_first s"
    have pop: "R s ?s" by (simp add: without_first_def R_queue)
    have job: "R s (snd (process_job app ?j ?s))"
      by (rule R_trans [OF pop]) (rule keepsD [OF run_process_job])
    show "R s (snd y)"
    proof (cases "jq_jobs (pf_queue s) = [] \<or> fails (fst (process_job app ?j ?s))")
      case True
      then show ?thesis using eq a job by (auto simp: Let_def R_refl split: if_splits)
    next
      case False
      then have "drain' app (snd (process_job app ?j ?s)) = Some y" using eq a by (simp add: Let_def)
      with IH have "R (snd (process_job app ?j ?s)) (snd y)" by blast
      then show ?thesis by (rule R_trans [OF job])
    qed
  qed
  then show ?thesis by simp
qed

lemma run_processWithdrawQueue [run_rules]: "keeps R (processWithdrawQueue app)"
proof -
  have "keeps R (review_one app w n)" for w n
    unfolding review_one_def
    by (intro run_rules run_on_ledger) (simp_all add: snd_total step_review step_enqueueJob)
  then show ?thesis unfolding processWithdrawQueue_def by (intro run_rules run_publish)
qed

lemma run_retryPending [run_rules]: "keeps R (retryPending app n)"
proof -
  have "keeps R (requeue_one app w)" for w
    unfolding requeue_one_def
    by (intro run_rules run_on_ledger) (simp_all add: snd_total step_enqueueJob)
  then show ?thesis unfolding retryPending_def by (intro run_rules run_publish)
qed

end

end
