(* ===== verification/ConsumerRunner.thy ===== *)
theory ConsumerRunner
  imports Platform
begin

text \<open>
  \<open>EventConsumerRunner\<close> (\<open>src/application/services/event-consumer-runner.ts\<close>): it runs the handler of
  an event up to \<open>maxAttempts\<close> times, records every attempt, and ends with a checkpoint or a dead
  letter.  What it needs of the ledger is the record \<open>consumer_port\<close>; its laws are the locale
  \<open>consumer_store\<close>, which the in-memory ledger satisfies.
\<close>

section \<open>The event key\<close>

text \<open>
  \<open>JSON.stringify(payload, keys)\<close>: a list as second argument selects and orders the properties of
  every object it meets, at any depth.
\<close>

fun json_pick :: "string list \<Rightarrow> jsval \<Rightarrow> jsval" where
  "json_pick ks (JArr vs) = JArr (map (json_pick ks) vs)"
| "json_pick ks (JObj kvs) =
     JObj (let picked = map (\<lambda>(k, v). (k, json_pick ks v)) kvs
           in List.map_filter (\<lambda>k. map_option (Pair k) (map_of picked k)) ks)"
| "json_pick ks v = v"

definition sort_strings :: "string list \<Rightarrow> string list" where
  "sort_strings ks = sort_key (\<lambda>k. k) ks"

text \<open>\<open>createHash('sha256')\<close> in hexadecimal is the parameter \<open>sha256\<close>.\<close>

definition buildEventKey :: "(string \<Rightarrow> string) \<Rightarrow> string \<Rightarrow> payload \<Rightarrow> string" where
  "buildEventKey sha256 eventType payload =
     (let stable = json_stringify (json_pick (sort_strings (map fst payload)) (JObj payload))
      in sha256 (eventType @ '':'' @ stable))"

section \<open>The runner\<close>

record 's consumer_port =
  cp_sha256 :: "string \<Rightarrow> string"
  cp_now :: "('s, int) act"
  cp_sleep :: "int \<Rightarrow> ('s, unit) act"
  cp_hasSucceeded :: "string \<Rightarrow> string \<Rightarrow> 's \<Rightarrow> bool"
  cp_appendAttempt :: "attempt_input \<Rightarrow> ('s, unit) act"
  cp_appendDeadLetter :: "dead_letter_input \<Rightarrow> ('s, unit) act"
  cp_upsertCheckpoint :: "string \<Rightarrow> string \<Rightarrow> string \<Rightarrow> string option \<Rightarrow> checkpoint_status \<Rightarrow> ('s, unit) act"

record consumer_input =
  ci_consumerName :: string
  ci_eventType :: string
  ci_payload :: payload
  ci_aggregateId :: "string option"
  ci_maxAttempts :: int
  ci_retryBaseDelayMs :: int
  ci_retryMaxDelayMs :: int

definition attempt_record :: "consumer_input \<Rightarrow> string \<Rightarrow> attempt_status \<Rightarrow> int \<Rightarrow> string option \<Rightarrow> int
    \<Rightarrow> attempt_input" where
  "attempt_record inp eventKey status attemptNumber errorMessage durationMs =
     \<lparr>at_eventKey = eventKey, at_eventType = ci_eventType inp, at_consumerName = ci_consumerName inp,
      at_status = status, at_attemptNumber = attemptNumber, at_aggregateId = ci_aggregateId inp,
      at_errorMessage = errorMessage, at_durationMs = durationMs\<rparr>"

text \<open>The body of the \<open>try\<close>: an error of the bookkeeping after the handler counts as a failure too.\<close>

definition try_once :: "'s consumer_port \<Rightarrow> consumer_input \<Rightarrow> string \<Rightarrow> ('s, unit) act \<Rightarrow> int \<Rightarrow> int
    \<Rightarrow> ('s, unit) act" where
  "try_once port inp eventKey handler startedAt attemptNumber =
     and_then handler (\<lambda>_.
     and_then (cp_now port) (\<lambda>now.
     and_then (cp_appendAttempt port (attempt_record inp eventKey AS_succeeded attemptNumber None (now - startedAt))) (\<lambda>_.
       cp_upsertCheckpoint port (ci_consumerName inp) eventKey (ci_eventType inp) (ci_aggregateId inp) CS_succeeded)))"

definition record_failure :: "'s consumer_port \<Rightarrow> consumer_input \<Rightarrow> string \<Rightarrow> string \<Rightarrow> int \<Rightarrow> int
    \<Rightarrow> ('s, unit) act" where
  "record_failure port inp eventKey message startedAt attemptNumber =
     and_then (cp_now port) (\<lambda>now.
       cp_appendAttempt port (attempt_record inp eventKey AS_failed attemptNumber (Some (take 1000 message)) (now - startedAt)))"

definition give_up :: "'s consumer_port \<Rightarrow> consumer_input \<Rightarrow> string \<Rightarrow> string \<Rightarrow> ('s, unit) act option
    \<Rightarrow> ('s, unit) act" where
  "give_up port inp eventKey message onDeadLetter =
     and_then (cp_appendDeadLetter port
         \<lparr>dl_eventKey = eventKey, dl_eventType = ci_eventType inp, dl_consumerName = ci_consumerName inp,
          dl_aggregateId = ci_aggregateId inp, dl_payload = ci_payload inp, dl_errorMessage = take 1000 message\<rparr>) (\<lambda>_.
     and_then (cp_upsertCheckpoint port (ci_consumerName inp) eventKey (ci_eventType inp) (ci_aggregateId inp)
         CS_dead_lettered) (\<lambda>_.
     optionally onDeadLetter (\<lambda>m. m)))"

definition retry_delay :: "consumer_input \<Rightarrow> int \<Rightarrow> int" where
  "retry_delay inp attemptNumber =
     min (ci_retryMaxDelayMs inp) (ci_retryBaseDelayMs inp * 2 ^ nat (attemptNumber - 1))"

text \<open>The \<open>for\<close> loop from \<open>attemptNumber\<close> on.\<close>

function run_from :: "'s consumer_port \<Rightarrow> consumer_input \<Rightarrow> string \<Rightarrow> ('s, unit) act \<Rightarrow> ('s, unit) act option
    \<Rightarrow> int \<Rightarrow> ('s, unit) act" where
  "run_from port inp eventKey handler onDeadLetter attemptNumber =
     (if attemptNumber \<le> ci_maxAttempts inp then
        and_then (cp_now port) (\<lambda>startedAt.
        and_then (attempt (try_once port inp eventKey handler startedAt attemptNumber)) (\<lambda>outcome.
          case outcome of
            Inr _ \<Rightarrow> ret ()
          | Inl err \<Rightarrow>
              and_then (record_failure port inp eventKey (error_message err) startedAt attemptNumber) (\<lambda>_.
                if ci_maxAttempts inp \<le> attemptNumber
                then give_up port inp eventKey (error_message err) onDeadLetter
                else
                  let delayMs = retry_delay inp attemptNumber in
                  and_then (if 0 < delayMs then cp_sleep port delayMs else ret ()) (\<lambda>_.
                    run_from port inp eventKey handler onDeadLetter (attemptNumber + 1)))))
      else ret ())"
  by pat_completeness auto
termination
  by (relation "measure (\<lambda>(port, inp, k, h, d, n). nat (ci_maxAttempts inp + 1 - n))") auto

declare run_from.simps [simp del]

definition run_consumer :: "'s consumer_port \<Rightarrow> consumer_input \<Rightarrow> ('s, unit) act \<Rightarrow> ('s, unit) act option
    \<Rightarrow> ('s, unit) act" where
  "run_consumer port inp handler onDeadLetter =
     (let eventKey = buildEventKey (cp_sha256 port) (ci_eventType inp) (ci_payload inp)
      in and_then (ask (cp_hasSucceeded port (ci_consumerName inp) eventKey)) (\<lambda>succeeded.
           if succeeded then ret ()
           else run_from port inp eventKey handler onDeadLetter 1))"

section \<open>The contract of a consumer store\<close>

text \<open>
  For one consumer and one event: \<open>attempts\<close> are the recorded attempts in order, \<open>dead\<close> the dead
  letters, \<open>hasSucceeded\<close> the checkpoint; \<open>ok\<close> is the store's own invariant.  \<open>quiet\<close> holds of a
  method that does not touch this bookkeeping.
\<close>

locale consumer_store =
  fixes port :: "'s consumer_port"
    and ok :: "'s \<Rightarrow> bool"
    and attempts :: "string \<Rightarrow> string \<Rightarrow> 's \<Rightarrow> (attempt_status \<times> int) list"
    and dead :: "string \<Rightarrow> string \<Rightarrow> 's \<Rightarrow> nat"
  assumes now_quiet: "\<exists>n t. cp_now port s = (Inr n, t) \<and> (ok s \<longrightarrow> ok t) \<and> attempts c k t = attempts c k s \<and>
      dead c k t = dead c k s \<and> cp_hasSucceeded port c k t = cp_hasSucceeded port c k s"
    and sleep_quiet: "\<exists>t. cp_sleep port ms s = (Inr (), t) \<and> (ok s \<longrightarrow> ok t) \<and> attempts c k t = attempts c k s \<and>
      dead c k t = dead c k s \<and> cp_hasSucceeded port c k t = cp_hasSucceeded port c k s"
    and append_attempt: "ok s \<Longrightarrow> \<exists>t. cp_appendAttempt port a s = (Inr (), t) \<and> ok t \<and>
      attempts (at_consumerName a) (at_eventKey a) t
        = attempts (at_consumerName a) (at_eventKey a) s @ [(at_status a, at_attemptNumber a)] \<and>
      dead (at_consumerName a) (at_eventKey a) t = dead (at_consumerName a) (at_eventKey a) s \<and>
      cp_hasSucceeded port (at_consumerName a) (at_eventKey a) t
        = cp_hasSucceeded port (at_consumerName a) (at_eventKey a) s"
    and append_dead: "ok s \<Longrightarrow> \<exists>t. cp_appendDeadLetter port d s = (Inr (), t) \<and> ok t \<and>
      attempts (dl_consumerName d) (dl_eventKey d) t = attempts (dl_consumerName d) (dl_eventKey d) s \<and>
      dead (dl_consumerName d) (dl_eventKey d) t = Suc (dead (dl_consumerName d) (dl_eventKey d) s) \<and>
      cp_hasSucceeded port (dl_consumerName d) (dl_eventKey d) t
        = cp_hasSucceeded port (dl_consumerName d) (dl_eventKey d) s"
    and checkpoint: "ok s \<Longrightarrow> \<exists>t. cp_upsertCheckpoint port c k ty ag st s = (Inr (), t) \<and> ok t \<and>
      attempts c k t = attempts c k s \<and> dead c k t = dead c k s \<and> cp_hasSucceeded port c k t = (st = CS_succeeded)"
begin

definition same_books :: "string \<Rightarrow> string \<Rightarrow> 's \<Rightarrow> 's \<Rightarrow> bool" where
  "same_books c k s t = ((ok s \<longrightarrow> ok t) \<and> attempts c k t = attempts c k s \<and> dead c k t = dead c k s \<and>
     cp_hasSucceeded port c k t = cp_hasSucceeded port c k s)"

definition quiet :: "string \<Rightarrow> string \<Rightarrow> ('s, 'a) act \<Rightarrow> bool" where
  "quiet c k m = keeps (same_books c k) m"

lemma quietD: "quiet c k m \<Longrightarrow> m s = (r, t) \<Longrightarrow> same_books c k s t"
  unfolding quiet_def by (metis keepsD snd_conv)

end

sublocale consumer_store \<subseteq> books: run_relation "same_books c k" for c k
  by unfold_locales (auto simp: same_books_def)

context consumer_store
begin

lemma now_same: obtains n t where "cp_now port s = (Inr n, t)" "same_books c k s t"
  using now_quiet [of s c k] unfolding same_books_def by blast

text \<open>One execution of the \<open>try\<close>: it succeeds and leaves an attempt and a checkpoint, or it fails quietly.\<close>

lemma try_once_outcome:
  assumes "ok s" and "quiet c k handler" and c: "c = ci_consumerName inp"
  obtains t where "try_once port inp k handler started n s = (Inr (), t)" "ok t"
      "attempts c k t = attempts c k s @ [(AS_succeeded, n)]" "dead c k t = dead c k s" "cp_hasSucceeded port c k t"
  | err t where "try_once port inp k handler started n s = (Inl err, t)" "same_books c k s t"
proof -
  obtain r s1 where h: "handler s = (r, s1)" by (cases "handler s")
  have b1: "same_books c k s s1" using assms(2) h by (rule quietD)
  show ?thesis
  proof (cases r)
    case (Inl err)
    with h have "try_once port inp k handler started n s = (Inl err, s1)" by (simp add: try_once_def and_then_def)
    with b1 show ?thesis using that(2) by blast
  next
    case (Inr u)
    obtain m s2 where n: "cp_now port s1 = (Inr m, s2)" "same_books c k s1 s2" by (rule now_same)
    let ?a = "attempt_record inp k AS_succeeded n None (m - started)"
    have ok2: "ok s2" using assms(1) b1 n(2) by (simp add: same_books_def)
    obtain s3 where a: "cp_appendAttempt port ?a s2 = (Inr (), s3)" "ok s3"
        "attempts c k s3 = attempts c k s2 @ [(AS_succeeded, n)]" "dead c k s3 = dead c k s2"
      using append_attempt [OF ok2, of ?a] by (auto simp: attempt_record_def c)
    obtain s4 where "cp_upsertCheckpoint port c k (ci_eventType inp) (ci_aggregateId inp) CS_succeeded s3 = (Inr (), s4)"
        "ok s4" "attempts c k s4 = attempts c k s3" "dead c k s4 = dead c k s3" "cp_hasSucceeded port c k s4"
      using checkpoint [OF a(2), of c k "ci_eventType inp" "ci_aggregateId inp" CS_succeeded] by auto
    moreover from this(1) have "try_once port inp k handler started n s = (Inr (), s4)"
      using h Inr n(1) a(1) c by (simp add: try_once_def and_then_def)
    ultimately show ?thesis using that(1) [of s4] a b1 n(2) by (simp add: same_books_def)
  qed
qed

lemma record_failure_outcome:
  assumes "ok s" and c: "c = ci_consumerName inp"
  obtains t where "record_failure port inp k msg started n s = (Inr (), t)" "ok t"
    "attempts c k t = attempts c k s @ [(AS_failed, n)]" "dead c k t = dead c k s"
    "cp_hasSucceeded port c k t = cp_hasSucceeded port c k s"
proof -
  obtain m s1 where n: "cp_now port s = (Inr m, s1)" "same_books c k s s1" by (rule now_same)
  let ?a = "attempt_record inp k AS_failed n (Some (take 1000 msg)) (m - started)"
  have "ok s1" using assms(1) n(2) by (simp add: same_books_def)
  from append_attempt [OF this, of ?a] obtain t where "cp_appendAttempt port ?a s1 = (Inr (), t)" "ok t"
      "attempts c k t = attempts c k s1 @ [(AS_failed, n)]" "dead c k t = dead c k s1"
      "cp_hasSucceeded port c k t = cp_hasSucceeded port c k s1"
    by (auto simp: attempt_record_def c)
  then show ?thesis using that n by (simp add: record_failure_def and_then_def same_books_def)
qed

lemma give_up_outcome:
  assumes "ok s" and c: "c = ci_consumerName inp" and q: "\<And>m. onDead = Some m \<Longrightarrow> quiet c k m"
  obtains r t where "give_up port inp k msg onDead s = (r, t)" "ok t" "attempts c k t = attempts c k s"
    "dead c k t = Suc (dead c k s)" "\<not> cp_hasSucceeded port c k t"
proof -
  let ?d = "\<lparr>dl_eventKey = k, dl_eventType = ci_eventType inp, dl_consumerName = c,
    dl_aggregateId = ci_aggregateId inp, dl_payload = ci_payload inp, dl_errorMessage = take 1000 msg\<rparr>"
  obtain s1 where d: "cp_appendDeadLetter port ?d s = (Inr (), s1)" "ok s1" "attempts c k s1 = attempts c k s"
      "dead c k s1 = Suc (dead c k s)"
    using append_dead [OF assms(1), of ?d] by auto
  obtain s2 where u: "cp_upsertCheckpoint port c k (ci_eventType inp) (ci_aggregateId inp) CS_dead_lettered s1 = (Inr (), s2)"
      "ok s2" "attempts c k s2 = attempts c k s1" "dead c k s2 = dead c k s1" "\<not> cp_hasSucceeded port c k s2"
    using checkpoint [OF d(2), of c k "ci_eventType inp" "ci_aggregateId inp" CS_dead_lettered] by auto
  obtain r t where o: "optionally onDead (\<lambda>m. m) s2 = (r, t)" by (cases "optionally onDead (\<lambda>m. m) s2")
  have "same_books c k s2 t"
  proof (cases onDead)
    case None
    with o show ?thesis by (simp add: same_books_def)
  next
    case (Some m)
    with o q show ?thesis by (auto dest: quietD)
  qed
  moreover have "give_up port inp k msg onDead s = (r, t)"
    using d(1) u(1) o c by (simp add: give_up_def and_then_def)
  ultimately show ?thesis using that [of r t] d u by (simp add: same_books_def)
qed

text \<open>
  The run ends after at most \<open>maxAttempts\<close> attempts: failures numbered consecutively, then one success
  with its checkpoint, or failures up to the last attempt, one dead letter and no success.
\<close>

definition failures :: "int \<Rightarrow> int \<Rightarrow> (attempt_status \<times> int) list" where
  "failures a b = map (Pair AS_failed) [a..b]"

lemma run_from_outcome:
  assumes "ok s" and "quiet c k handler" and "\<And>m. onDead = Some m \<Longrightarrow> quiet c k m"
    and "c = ci_consumerName inp" and "\<not> cp_hasSucceeded port c k s" and "n \<le> ci_maxAttempts inp"
  shows "\<exists>r t. run_from port inp k handler onDead n s = (r, t) \<and> ok t \<and>
    ((\<exists>j. n \<le> j \<and> j \<le> ci_maxAttempts inp \<and> attempts c k t = attempts c k s @ failures n (j - 1) @ [(AS_succeeded, j)] \<and>
        dead c k t = dead c k s \<and> cp_hasSucceeded port c k t \<and> r = Inr ()) \<or>
     (attempts c k t = attempts c k s @ failures n (ci_maxAttempts inp) \<and>
        dead c k t = Suc (dead c k s) \<and> \<not> cp_hasSucceeded port c k t))"
  using assms
proof (induction "nat (ci_maxAttempts inp - n)" arbitrary: n s rule: less_induct)
  case less
  note prems = less.prems
  obtain started s1 where n1: "cp_now port s = (Inr started, s1)" "same_books c k s s1" by (rule now_same)
  have ok1: "ok s1" using prems(1) n1(2) by (simp add: same_books_def)
  show ?case
  proof (cases rule: try_once_outcome [OF ok1 prems(2,4), of started n])
    case (1 t)
    then have "run_from port inp k handler onDead n s = (Inr (), t)"
      using prems(6) n1(1) by (simp add: run_from.simps and_then_def attempt_def)
    moreover have "failures n (n - 1) = []" by (simp add: failures_def)
    ultimately show ?thesis using 1 n1(2) prems(6) by (auto simp: same_books_def intro!: exI [of _ n])
  next
    case (2 err s2)
    have ok2: "ok s2" using ok1 2(2) by (simp add: same_books_def)
    obtain s3 where f: "record_failure port inp k (error_message err) started n s2 = (Inr (), s3)" "ok s3"
        "attempts c k s3 = attempts c k s2 @ [(AS_failed, n)]" "dead c k s3 = dead c k s2"
        "cp_hasSucceeded port c k s3 = cp_hasSucceeded port c k s2"
      by (rule record_failure_outcome [OF ok2 prems(4)])
    have books: "attempts c k s3 = attempts c k s @ [(AS_failed, n)]" "dead c k s3 = dead c k s"
        "\<not> cp_hasSucceeded port c k s3"
      using f 2(2) n1(2) prems(5) by (simp_all add: same_books_def)
    show ?thesis
    proof (cases "ci_maxAttempts inp \<le> n")
      case True
      obtain r t where g: "give_up port inp k (error_message err) onDead s3 = (r, t)" "ok t"
          "attempts c k t = attempts c k s3" "dead c k t = Suc (dead c k s3)" "\<not> cp_hasSucceeded port c k t"
        by (rule give_up_outcome [OF f(2) prems(4,3)])
      have "run_from port inp k handler onDead n s = (r, t)"
        using True prems(6) n1(1) 2(1) f(1) g(1) by (simp add: run_from.simps and_then_def attempt_def)
      moreover have "failures n (ci_maxAttempts inp) = [(AS_failed, n)]"
        using True prems(6) by (simp add: failures_def)
      ultimately show ?thesis using g books by auto
    next
      case False
      obtain s4 where sl: "(if 0 < retry_delay inp n then cp_sleep port (retry_delay inp n) else ret ()) s3 = (Inr (), s4)"
          "same_books c k s3 s4"
        using sleep_quiet [of "retry_delay inp n" s3 c k] that
        by (cases "0 < retry_delay inp n") (auto simp: same_books_def)
      have run: "run_from port inp k handler onDead n s = run_from port inp k handler onDead (n + 1) s4"
        using False prems(6) n1(1) 2(1) f(1) sl(1) by (simp add: run_from.simps [of _ _ _ _ _ n] and_then_def attempt_def Let_def)
      have s4: "ok s4" "attempts c k s4 = attempts c k s @ [(AS_failed, n)]" "dead c k s4 = dead c k s"
          "\<not> cp_hasSucceeded port c k s4"
        using sl(2) f(2) books by (simp_all add: same_books_def)
      have "failures n j = (AS_failed, n) # failures (n + 1) j" if "n \<le> j" for j
        using that by (simp add: failures_def upto_rec1)
      moreover note less.hyps [of "n + 1" s4, OF _ s4(1) prems(2,3,4) s4(4)]
      ultimately show ?thesis unfolding run using False s4(2,3) by fastforce
    qed
  qed
qed

lemma succeeded_is_skipped:
  "cp_hasSucceeded port (ci_consumerName inp) (buildEventKey (cp_sha256 port) (ci_eventType inp) (ci_payload inp)) s
    \<Longrightarrow> run_consumer port inp handler onDead s = (Inr (), s)"
  by (simp add: run_consumer_def and_then_def Let_def)

lemma run_consumer_is_run_from:
  "\<not> cp_hasSucceeded port (ci_consumerName inp) (buildEventKey (cp_sha256 port) (ci_eventType inp) (ci_payload inp)) s
    \<Longrightarrow> run_consumer port inp handler onDead s
      = run_from port inp (buildEventKey (cp_sha256 port) (ci_eventType inp) (ci_payload inp)) handler onDead 1 s"
  by (simp add: run_consumer_def and_then_def Let_def)

end

end
