(* ===== verification/EventBus.thy ===== *)
theory EventBus
  imports Platform
begin

text \<open>
  \<open>EventBus\<close> (\<open>src/events/event-bus.ts\<close>), the event publisher of the application: handlers per event
  type, with \<open>*\<close> for all types.
\<close>

record domain_event =
  de_type :: string
  de_payload :: "(string \<times> jsval) list"
  de_occurredAt :: string

type_synonym 's handler = "domain_event \<Rightarrow> ('s, unit) act"

type_synonym 's event_bus = "'s handler list jsmap"

definition getHandlers :: "string \<Rightarrow> 's event_bus \<Rightarrow> 's handler list" where
  "getHandlers ty bus =
     coalesce (map_get bus ty) [] @ (if ty = ''*'' then [] else coalesce (map_get bus ''*'') [])"

definition subscribe :: "string \<Rightarrow> 's handler \<Rightarrow> 's event_bus \<Rightarrow> 's event_bus" where
  "subscribe ty handler bus = map_set ty (coalesce (map_get bus ty) [] @ [handler]) bus"

text \<open>The handlers are awaited one after another; the first throw ends the publication.\<close>

definition publishAsync :: "('s, string) act \<Rightarrow> 's event_bus \<Rightarrow> string \<Rightarrow> (string \<times> jsval) list \<Rightarrow> ('s, unit) act" where
  "publishAsync nowIso bus ty payload =
     and_then nowIso (\<lambda>occurredAt.
       for_each (\<lambda>handler. handler \<lparr>de_type = ty, de_payload = payload, de_occurredAt = occurredAt\<rparr>)
         (getHandlers ty bus))"

text \<open>
  \<open>publish\<close> starts the handlers without waiting for them; here each runs to its end before the next,
  and an error of one is nobody's.
\<close>

definition publish :: "('s, string) act \<Rightarrow> 's event_bus \<Rightarrow> string \<Rightarrow> (string \<times> jsval) list \<Rightarrow> 's \<Rightarrow> 's" where
  "publish nowIso bus ty payload s =
     snd (and_then nowIso (\<lambda>occurredAt.
       for_each (\<lambda>handler. and_then (attempt (handler \<lparr>de_type = ty, de_payload = payload, de_occurredAt = occurredAt\<rparr>))
           (\<lambda>_. ret ()))
         (getHandlers ty bus)) s)"

lemma getHandlers_subscribe:
  "getHandlers ty (subscribe ty' h bus) =
     (if ty' = ty \<and> ty \<noteq> ''*'' then coalesce (map_get bus ty) [] @ [h] @ coalesce (map_get bus ''*'') []
      else if ty' = ty \<or> ty' = ''*'' then getHandlers ty bus @ [h] else getHandlers ty bus)"
  by (auto simp: getHandlers_def subscribe_def)

lemma getHandlers_Nil [simp]: "getHandlers ty [] = []"
  by (simp add: getHandlers_def)

text \<open>What every handler keeps, the publication keeps.\<close>

context run_relation
begin

lemma for_each_set: "(\<And>x. x \<in> set xs \<Longrightarrow> keeps R (f x)) \<Longrightarrow> keeps R (for_each f xs)"
  by (induction xs) (simp_all add: keep_ret keep_bind)

lemma keep_publishAsync:
  "keeps R nowIso \<Longrightarrow> (\<And>h e. h \<in> set (getHandlers ty bus) \<Longrightarrow> keeps R (h e)) \<Longrightarrow>
     keeps R (publishAsync nowIso bus ty p)"
  unfolding publishAsync_def by (intro keep_bind for_each_set)

lemma keep_publish:
  "keeps R nowIso \<Longrightarrow> (\<And>h e. h \<in> set (getHandlers ty bus) \<Longrightarrow> keeps R (h e)) \<Longrightarrow>
     R s (publish nowIso bus ty p s)"
  unfolding publish_def by (rule keepsD, intro keep_bind for_each_set keep_attempt keep_ret)

end

end
