(* ===== verification/OutboxWorker.thy ===== *)
theory OutboxWorker
  imports Platform
begin

text \<open>
  \<open>OutboxPublisherWorker\<close> (\<open>src/application/services/outbox-publisher-worker.ts\<close>): one cycle recovers
  stale events, claims a batch and publishes each event, rescheduling or dead-lettering what fails.
  What it needs of the ledger and the publisher is the record \<open>outbox_port\<close>, with the laws of the
  locale \<open>outbox_store\<close>.
\<close>

record 's outbox_port =
  op_now :: "('s, int) act"
  op_recoverStale :: "int \<Rightarrow> ('s, nat) act"
  op_claim :: "int \<Rightarrow> ('s, outbox_event list) act"
  op_publish :: "string \<Rightarrow> payload \<Rightarrow> ('s, unit) act"
  op_markPublished :: "string \<Rightarrow> ('s, unit) act"
  op_reschedule :: "string \<Rightarrow> string \<Rightarrow> string \<Rightarrow> ('s, unit) act"
  op_deadLetter :: "string \<Rightarrow> string \<Rightarrow> ('s, unit) act"

text \<open>The options with the defaults of the getters filled in, and the stale timeout of the environment.\<close>

record outbox_options =
  oo_batchSize :: int
  oo_retryBaseDelayMs :: int
  oo_retryMaxDelayMs :: int
  oo_maxAttempts :: int
  oo_processingStaleTimeoutSec :: int

definition outbox_options :: "int option \<Rightarrow> int option \<Rightarrow> int option \<Rightarrow> int option \<Rightarrow> int \<Rightarrow> outbox_options" where
  "outbox_options batchSize retryBaseDelayMs retryMaxDelayMs maxAttempts staleTimeoutSec =
     \<lparr>oo_batchSize = coalesce batchSize 100, oo_retryBaseDelayMs = coalesce retryBaseDelayMs 30000,
      oo_retryMaxDelayMs = coalesce retryMaxDelayMs 300000, oo_maxAttempts = coalesce maxAttempts 10,
      oo_processingStaleTimeoutSec = staleTimeoutSec\<rparr>"

definition outbox_retry_delay :: "outbox_options \<Rightarrow> int \<Rightarrow> int" where
  "outbox_retry_delay opts attempts =
     min (oo_retryMaxDelayMs opts) (oo_retryBaseDelayMs opts * 2 ^ nat (max (attempts - 1) 0))"

definition handle_publish_failure :: "'s outbox_port \<Rightarrow> outbox_options \<Rightarrow> outbox_event \<Rightarrow> js_error \<Rightarrow> ('s, unit) act" where
  "handle_publish_failure port opts e err =
     (if oo_maxAttempts opts \<le> ob_attempts e
      then op_deadLetter port (ob_outboxEventId e) (error_message err)
      else
        and_then (op_now port) (\<lambda>now.
          op_reschedule port (ob_outboxEventId e) (error_message err)
            (toISOString (now + outbox_retry_delay opts (ob_attempts e)))))"

definition publish_event_once :: "'s outbox_port \<Rightarrow> outbox_options \<Rightarrow> outbox_event \<Rightarrow> ('s, unit) act" where
  "publish_event_once port opts e =
     catching
       (and_then (op_publish port (ob_eventType e) (ob_payload e)) (\<lambda>_.
        op_markPublished port (ob_outboxEventId e)))
       (handle_publish_failure port opts e)"

definition outbox_cycle :: "'s outbox_port \<Rightarrow> outbox_options \<Rightarrow> ('s, unit) act" where
  "outbox_cycle port opts =
     and_then (op_recoverStale port (oo_processingStaleTimeoutSec opts)) (\<lambda>_.
     and_then (op_claim port (oo_batchSize opts)) (\<lambda>events.
       for_each (publish_event_once port opts) events))"

text \<open>\<open>runCycle\<close> with the \<open>running\<close> flag: errors are logged, the flag is reset in the \<open>finally\<close>.\<close>

definition runCycle :: "'s outbox_port \<Rightarrow> outbox_options \<Rightarrow> (bool \<times> 's, unit) act" where
  "runCycle port opts st =
     (let (running, s) = st in
      if running then (Inr (), st)
      else (Inr (), (False, snd (outbox_cycle port opts s))))"

section \<open>The contract of an outbox\<close>

text \<open>
  \<open>event\<close> looks an event up, \<open>ok\<close> is the store's own invariant.  A claim returns distinct stored
  events that are in processing; each of the three marks writes the event it names and no other;
  publishing may add events but leaves the stored ones alone.
\<close>

locale outbox_store =
  fixes port :: "'s outbox_port"
    and ok :: "'s \<Rightarrow> bool"
    and event :: "string \<Rightarrow> 's \<Rightarrow> outbox_event option"
  assumes now_keeps: "\<exists>n t. op_now port s = (Inr n, t) \<and> event i t = event i s"
    and recover_keeps: "ok s \<Longrightarrow> op_recoverStale port n s = (rn, t) \<Longrightarrow> ok t"
    and claim: "ok s \<Longrightarrow> \<exists>es t. op_claim port n s = (Inr es, t) \<and> distinct (map ob_outboxEventId es) \<and>
      (\<forall>e \<in> set es. event (ob_outboxEventId e) t = Some e \<and> ob_status e = OB_processing)"
    and publish_keeps: "event i s = Some e \<Longrightarrow> event i (snd (op_publish port ty p s)) = Some e"
    and mark: "event j s = Some e \<Longrightarrow> \<exists>now t. op_markPublished port j s = (Inr (), t) \<and>
      event j t = Some (publish_event now e) \<and> (i \<noteq> j \<longrightarrow> event i t = event i s)"
    and reschedule: "event j s = Some e \<Longrightarrow> \<exists>t. op_reschedule port j msg av s = (Inr (), t) \<and>
      event j t = Some (reschedule_event msg av e) \<and> (i \<noteq> j \<longrightarrow> event i t = event i s)"
    and dead_letter: "event j s = Some e \<Longrightarrow> \<exists>now t. op_deadLetter port j msg s = (Inr (), t) \<and>
      event j t = Some (dead_letter_event msg now e) \<and> (i \<noteq> j \<longrightarrow> event i t = event i s)"
begin

text \<open>What a cycle makes of a claimed event: published, or rescheduled, or dead-lettered at the limit.\<close>

definition settled :: "outbox_options \<Rightarrow> outbox_event \<Rightarrow> outbox_event \<Rightarrow> bool" where
  "settled opts e e' =
     ((\<exists>now. e' = publish_event now e) \<or>
      (ob_attempts e < oo_maxAttempts opts \<and>
         (\<exists>msg now. e' = reschedule_event msg (toISOString (now + outbox_retry_delay opts (ob_attempts e))) e)) \<or>
      (oo_maxAttempts opts \<le> ob_attempts e \<and> (\<exists>msg now. e' = dead_letter_event msg now e)))"

lemma settledI:
  "settled opts e (publish_event now e)"
  "ob_attempts e < oo_maxAttempts opts \<Longrightarrow>
     settled opts e (reschedule_event msg (toISOString (now' + outbox_retry_delay opts (ob_attempts e))) e)"
  "oo_maxAttempts opts \<le> ob_attempts e \<Longrightarrow> settled opts e (dead_letter_event msg now e)"
  unfolding settled_def by blast+

lemma failure_settles:
  assumes "event (ob_outboxEventId e) s = Some e"
  shows "\<exists>t e'. handle_publish_failure port opts e err s = (Inr (), t) \<and>
    event (ob_outboxEventId e) t = Some e' \<and> settled opts e e' \<and>
    (i \<noteq> ob_outboxEventId e \<longrightarrow> event i t = event i s)"
proof (cases "oo_maxAttempts opts \<le> ob_attempts e")
  case True
  obtain now t where t: "op_deadLetter port (ob_outboxEventId e) (error_message err) s = (Inr (), t)"
      "event (ob_outboxEventId e) t = Some (dead_letter_event (error_message err) now e)"
      "i \<noteq> ob_outboxEventId e \<longrightarrow> event i t = event i s"
    using dead_letter [OF assms, of "error_message err" i] by blast
  have "handle_publish_failure port opts e err s = (Inr (), t)"
    using True t(1) by (simp add: handle_publish_failure_def)
  then show ?thesis using t(2,3) settledI(3) [OF True] by blast
next
  case False
  obtain n s1 where n: "op_now port s = (Inr n, s1)" by (metis now_keeps)
  have same: "event x s1 = event x s" for x using now_keeps [of s x] n by auto
  let ?av = "toISOString (n + outbox_retry_delay opts (ob_attempts e))"
  obtain t where t: "op_reschedule port (ob_outboxEventId e) (error_message err) ?av s1 = (Inr (), t)"
      "event (ob_outboxEventId e) t = Some (reschedule_event (error_message err) ?av e)"
      "i \<noteq> ob_outboxEventId e \<longrightarrow> event i t = event i s"
    using reschedule [of "ob_outboxEventId e" s1 e "error_message err" ?av i] assms unfolding same by metis
  have "handle_publish_failure port opts e err s = (Inr (), t)"
    using False n t(1) by (simp add: handle_publish_failure_def and_then_def)
  moreover have "settled opts e (reschedule_event (error_message err) ?av e)" using False by (simp add: settledI)
  ultimately show ?thesis using t(2,3) by blast
qed

lemma once_settles:
  assumes "event (ob_outboxEventId e) s = Some e"
  shows "\<exists>t e'. publish_event_once port opts e s = (Inr (), t) \<and>
    event (ob_outboxEventId e) t = Some e' \<and> settled opts e e' \<and>
    (i \<noteq> ob_outboxEventId e \<longrightarrow> event i s = Some x \<longrightarrow> event i t = Some x)"
proof -
  obtain r s1 where p: "op_publish port (ob_eventType e) (ob_payload e) s = (r, s1)" by fastforce
  have keep: "event j s1 = Some y" if "event j s = Some y" for j y
    using publish_keeps [OF that, of "ob_eventType e" "ob_payload e"] p by simp
  show ?thesis
  proof (cases r)
    case (Inl err)
    then have "publish_event_once port opts e s = handle_publish_failure port opts e err s1"
      using p by (simp add: publish_event_once_def catching_def and_then_def)
    then show ?thesis using failure_settles [OF keep [OF assms], of opts err i] keep by (metis)
  next
    case (Inr u)
    obtain now t where t: "op_markPublished port (ob_outboxEventId e) s1 = (Inr (), t)"
        "event (ob_outboxEventId e) t = Some (publish_event now e)"
        "i \<noteq> ob_outboxEventId e \<longrightarrow> event i t = event i s1"
      using mark [OF keep [OF assms], of i] by blast
    then have "publish_event_once port opts e s = (Inr (), t)"
      using p Inr by (simp add: publish_event_once_def catching_def and_then_def)
    with t(2,3) keep show ?thesis using settledI(1) by (metis)
  qed
qed

lemma batch_settles:
  assumes "distinct (map ob_outboxEventId es)" and "\<forall>e \<in> set es. event (ob_outboxEventId e) s = Some e"
  shows "\<exists>t. for_each (publish_event_once port opts) es s = (Inr (), t) \<and>
    (\<forall>e \<in> set es. \<exists>e'. event (ob_outboxEventId e) t = Some e' \<and> settled opts e e') \<and>
    (\<forall>i x. i \<notin> ob_outboxEventId ` set es \<longrightarrow> event i s = Some x \<longrightarrow> event i t = Some x)"
  using assms
proof (induction es arbitrary: s)
  case (Cons e es)
  have e: "event (ob_outboxEventId e) s = Some e" using Cons.prems(2) by simp
  obtain s1 e' where s1: "publish_event_once port opts e s = (Inr (), s1)" "event (ob_outboxEventId e) s1 = Some e'"
      "settled opts e e'"
    using once_settles [OF e] by blast
  have other: "event i s1 = Some x" if "event i s = Some x" "i \<noteq> ob_outboxEventId e" for i x
    using once_settles [OF e, of opts i x] that s1(1) by auto
  have "\<forall>d \<in> set es. event (ob_outboxEventId d) s1 = Some d"
  proof
    fix d assume d: "d \<in> set es"
    then have "event (ob_outboxEventId d) s = Some d" using bspec [OF Cons.prems(2)] by simp
    moreover have "ob_outboxEventId d \<noteq> ob_outboxEventId e" using Cons.prems(1) d by (metis distinct.simps(2) image_eqI list.map(2) list.set_map)
    ultimately show "event (ob_outboxEventId d) s1 = Some d" by (rule other)
  qed
  moreover have "distinct (map ob_outboxEventId es)" using Cons.prems(1) by simp
  ultimately obtain t where t: "for_each (publish_event_once port opts) es s1 = (Inr (), t)"
      "\<forall>d \<in> set es. \<exists>d'. event (ob_outboxEventId d) t = Some d' \<and> settled opts d d'"
      "\<forall>i x. i \<notin> ob_outboxEventId ` set es \<longrightarrow> event i s1 = Some x \<longrightarrow> event i t = Some x"
    using Cons.IH [of s1] by blast
  have "for_each (publish_event_once port opts) (e # es) s = (Inr (), t)"
    using s1(1) t(1) by (simp add: and_then_def)
  moreover have "event (ob_outboxEventId e) t = Some e'"
    using t(3) s1(2) Cons.prems(1) by simp
  moreover have "event i t = Some x" if "i \<notin> ob_outboxEventId ` set (e # es)" "event i s = Some x" for i x
    using that t(3) other by simp
  ultimately show ?case using t(2) s1(3) by (auto simp del: for_each.simps)
qed simp

lemma cycle_settles:
  assumes "ok s" and "op_recoverStale port (oo_processingStaleTimeoutSec opts) s = (Inr n, s1)"
  shows "\<exists>es s2 t. op_claim port (oo_batchSize opts) s1 = (Inr es, s2) \<and> outbox_cycle port opts s = (Inr (), t) \<and>
    (\<forall>e \<in> set es. \<exists>e'. event (ob_outboxEventId e) t = Some e' \<and> settled opts e e') \<and>
    (\<forall>i x. i \<notin> ob_outboxEventId ` set es \<longrightarrow> event i s2 = Some x \<longrightarrow> event i t = Some x)"
proof -
  obtain es s2 where c: "op_claim port (oo_batchSize opts) s1 = (Inr es, s2)" "distinct (map ob_outboxEventId es)"
      "\<forall>e \<in> set es. event (ob_outboxEventId e) s2 = Some e \<and> ob_status e = OB_processing"
    using claim [OF recover_keeps [OF assms]] by blast
  obtain t where "for_each (publish_event_once port opts) es s2 = (Inr (), t)"
      "\<forall>e \<in> set es. \<exists>e'. event (ob_outboxEventId e) t = Some e' \<and> settled opts e e'"
      "\<forall>i x. i \<notin> ob_outboxEventId ` set es \<longrightarrow> event i s2 = Some x \<longrightarrow> event i t = Some x"
    using batch_settles [OF c(2)] c(3) by blast
  then show ?thesis using assms(2) c(1) by (auto simp: outbox_cycle_def and_then_def)
qed

lemma settled_status:
  "settled opts e e' \<Longrightarrow> ob_status e' \<noteq> OB_processing \<and> ob_attempts e' = ob_attempts e \<and>
     (ob_status e' = OB_dead_lettered \<longrightarrow> oo_maxAttempts opts \<le> ob_attempts e) \<and>
     (ob_status e' = OB_pending \<longrightarrow> ob_attempts e < oo_maxAttempts opts)"
  by (auto simp: settled_def publish_event_def reschedule_event_def dead_letter_event_def)

end

end
