(* ===== verification/Wiring.thy ===== *)
theory Wiring
  imports WithdrawDispatch ConsumerRunner EventBus OutboxWorker
begin

text \<open>
  The connections \<open>src/container/create-app-dependencies.ts\<close> makes: the event bus as the publisher of
  the services, the consumer that passes withdrawal events on to Foxya, and the ledger as the store of
  the consumer runner and of the outbox worker.  Here the contracts of those components are discharged
  on the model of the code.
\<close>

section \<open>The ledger as a consumer store\<close>

definition ledger_consumer_port :: "'w app \<Rightarrow> 'w platform consumer_port" where
  "ledger_consumer_port app =
     \<lparr>cp_sha256 = app_sha256 app,
      cp_now = now_ms app,
      cp_sleep = (\<lambda>ms. on_world (modify (app_sleep app ms))),
      cp_hasSucceeded = (\<lambda>consumerName eventKey s. hasSucceededEventConsumerCheckpoint consumerName eventKey (pf_ledger s)),
      cp_appendAttempt = (\<lambda>inp. on_ledger app (\<lambda>nowIso. modify (appendEventConsumerAttempt (app_cfg app) inp nowIso))),
      cp_appendDeadLetter = (\<lambda>inp. on_ledger app (\<lambda>nowIso. modify (appendEventConsumerDeadLetter (app_cfg app) inp nowIso))),
      cp_upsertCheckpoint = (\<lambda>consumerName eventKey eventType aggregateId lastStatus.
        on_ledger app (\<lambda>nowIso. modify (upsertEventConsumerCheckpoint consumerName eventKey eventType aggregateId lastStatus nowIso)))\<rparr>"

lemma on_ledger_modify:
  "on_ledger app (\<lambda>now. modify (f now)) s =
     (let now = toISOString (fst (app_clock app (pf_world s)))
      in (Inr (), s\<lparr>pf_world := snd (app_clock app (pf_world s)), pf_ledger := f now (pf_ledger s)\<rparr>))"
  by (simp add: on_ledger_def and_then_def run_now_iso_eq zoom_def Let_def)

definition ids_fresh :: "'w app \<Rightarrow> 'w platform \<Rightarrow> bool" where
  "ids_fresh app s = (consumer_ids_ok (app_cfg app) (pf_ledger s) \<and> inj (uuid (app_cfg app)))"

interpretation cs: consumer_store "ledger_consumer_port app" "ids_fresh app"
    "\<lambda>c k s. attempts_of c k (pf_ledger s)" "\<lambda>c k s. length (dead_letters_of c k (pf_ledger s))" for app :: "'w app"
proof
  fix s :: "'w platform" and c k a d ms ty ag st
  show "\<exists>n t. cp_now (ledger_consumer_port app) s = (Inr n, t) \<and> (ids_fresh app s \<longrightarrow> ids_fresh app t) \<and>
      attempts_of c k (pf_ledger t) = attempts_of c k (pf_ledger s) \<and>
      length (dead_letters_of c k (pf_ledger t)) = length (dead_letters_of c k (pf_ledger s)) \<and>
      cp_hasSucceeded (ledger_consumer_port app) c k t = cp_hasSucceeded (ledger_consumer_port app) c k s"
    by (simp add: ledger_consumer_port_def run_clock ids_fresh_def)
  show "\<exists>t. cp_sleep (ledger_consumer_port app) ms s = (Inr (), t) \<and> (ids_fresh app s \<longrightarrow> ids_fresh app t) \<and>
      attempts_of c k (pf_ledger t) = attempts_of c k (pf_ledger s) \<and>
      length (dead_letters_of c k (pf_ledger t)) = length (dead_letters_of c k (pf_ledger s)) \<and>
      cp_hasSucceeded (ledger_consumer_port app) c k t = cp_hasSucceeded (ledger_consumer_port app) c k s"
    by (simp add: ledger_consumer_port_def on_world_def zoom_def ids_fresh_def)
  assume ok: "ids_fresh app s"
  then show "\<exists>t. cp_appendAttempt (ledger_consumer_port app) a s = (Inr (), t) \<and> ids_fresh app t \<and>
      attempts_of (at_consumerName a) (at_eventKey a) (pf_ledger t)
        = attempts_of (at_consumerName a) (at_eventKey a) (pf_ledger s) @ [(at_status a, at_attemptNumber a)] \<and>
      length (dead_letters_of (at_consumerName a) (at_eventKey a) (pf_ledger t))
        = length (dead_letters_of (at_consumerName a) (at_eventKey a) (pf_ledger s)) \<and>
      cp_hasSucceeded (ledger_consumer_port app) (at_consumerName a) (at_eventKey a) t
        = cp_hasSucceeded (ledger_consumer_port app) (at_consumerName a) (at_eventKey a) s"
    by (simp add: ledger_consumer_port_def on_ledger_modify Let_def ids_fresh_def attempts_of_append)
  from ok show "\<exists>t. cp_appendDeadLetter (ledger_consumer_port app) d s = (Inr (), t) \<and> ids_fresh app t \<and>
      attempts_of (dl_consumerName d) (dl_eventKey d) (pf_ledger t)
        = attempts_of (dl_consumerName d) (dl_eventKey d) (pf_ledger s) \<and>
      length (dead_letters_of (dl_consumerName d) (dl_eventKey d) (pf_ledger t))
        = Suc (length (dead_letters_of (dl_consumerName d) (dl_eventKey d) (pf_ledger s))) \<and>
      cp_hasSucceeded (ledger_consumer_port app) (dl_consumerName d) (dl_eventKey d) t
        = cp_hasSucceeded (ledger_consumer_port app) (dl_consumerName d) (dl_eventKey d) s"
    by (simp add: ledger_consumer_port_def on_ledger_modify Let_def ids_fresh_def length_dead_letters_append)
  from ok show "\<exists>t. cp_upsertCheckpoint (ledger_consumer_port app) c k ty ag st s = (Inr (), t) \<and> ids_fresh app t \<and>
      attempts_of c k (pf_ledger t) = attempts_of c k (pf_ledger s) \<and>
      length (dead_letters_of c k (pf_ledger t)) = length (dead_letters_of c k (pf_ledger s)) \<and>
      cp_hasSucceeded (ledger_consumer_port app) c k t = (st = CS_succeeded)"
    by (simp add: ledger_consumer_port_def on_ledger_modify Let_def ids_fresh_def)
qed

section \<open>The subscription to withdrawal events\<close>

definition string_field :: "payload \<Rightarrow> string \<Rightarrow> string option" where
  "string_field p k = (case field_of p k of JStr s \<Rightarrow> Some s | _ \<Rightarrow> None)"

definition withdrawal_consumer_input :: "domain_event \<Rightarrow> consumer_input" where
  "withdrawal_consumer_input event =
     \<lparr>ci_consumerName = ''foxya_withdrawal_sync'', ci_eventType = de_type event, ci_payload = de_payload event,
      ci_aggregateId = string_field (de_payload event) ''withdrawalId'', ci_maxAttempts = 3,
      ci_retryBaseDelayMs = 200, ci_retryMaxDelayMs = 1000\<rparr>"

definition withdrawal_subscriber :: "'w app \<Rightarrow> 'w platform handler" where
  "withdrawal_subscriber app event =
     run_consumer (ledger_consumer_port app) (withdrawal_consumer_input event)
       (consumeWithdrawalStateChanged app (de_payload event) False)
       (Some (case string_field (de_payload event) ''withdrawalId'' of
                Some withdrawalId \<Rightarrow> on_queue (enqueueExternalSync withdrawalId)
              | None \<Rightarrow> ret ()))"

text \<open>
  The settlement events of offline pay have a second subscriber; the in-memory ledger never publishes
  one, and it is not modelled.
\<close>

definition app_bus :: "'w app \<Rightarrow> 'w platform event_bus" where
  "app_bus app = subscribe ''withdrawal.state.changed'' (withdrawal_subscriber app) []"

definition wire :: "'w app \<Rightarrow> 'w app" where
  "wire app = app\<lparr>app_publishAsync := Some (publishAsync (now_iso app) (app_bus app)),
                  app_publish := publish (now_iso app) (app_bus app)\<rparr>"

lemma wire_sel [simp]:
  "app_cfg (wire app) = app_cfg app" "app_publishAsync (wire app) = Some (publishAsync (now_iso app) (app_bus app))"
  "app_publish (wire app) = publish (now_iso app) (app_bus app)" "app_clock (wire app) = app_clock app"
  "app_guard (wire app) = app_guard app" "app_syncWithdrawal (wire app) = app_syncWithdrawal app"
  "app_signer (wire app) = app_signer app" "app_isTestUser (wire app) = app_isTestUser app"
  by (simp_all add: wire_def)

lemma app_bus_handlers:
  "getHandlers ty (app_bus app) = (if ty = ''withdrawal.state.changed'' then [withdrawal_subscriber app] else [])"
  by (simp add: app_bus_def getHandlers_def subscribe_def)

text \<open>Consuming an event does not publish, so the bus and the service do not call each other forever.\<close>

lemma publish_other: "ty \<noteq> ''withdrawal.state.changed'' \<Longrightarrow> publish (now_iso app) (app_bus app) ty p s
    = s\<lparr>pf_world := snd (app_clock app (pf_world s))\<rparr>"
  by (simp add: publish_def app_bus_handlers and_then_def run_now_iso_eq)

text \<open>What every part of a run of a consumer keeps, the run keeps.\<close>

context run_relation
begin

lemma keep_run_from:
  assumes port: "keeps R (cp_now port)" "\<And>ms. keeps R (cp_sleep port ms)" "\<And>a. keeps R (cp_appendAttempt port a)"
    "\<And>d. keeps R (cp_appendDeadLetter port d)" "\<And>c k ty ag st. keeps R (cp_upsertCheckpoint port c k ty ag st)"
    and m: "keeps R handler" "\<And>m. onDead = Some m \<Longrightarrow> keeps R m"
  shows "keeps R (run_from port inp k handler onDead n)"
proof (induction "nat (ci_maxAttempts inp + 1 - n)" arbitrary: n rule: less_induct)
  case less
  have "keeps R (run_from port inp k handler onDead (n + 1))" if "n \<le> ci_maxAttempts inp"
    using that by (intro less.hyps) simp
  moreover have "keeps R (try_once port inp k handler started n)" for started
    unfolding try_once_def by (intro keep_rules port m)
  moreover have "keeps R (record_failure port inp k msg started n)" for msg started
    unfolding record_failure_def by (intro keep_rules port)
  moreover have "keeps R (give_up port inp k msg onDead)" for msg
    unfolding give_up_def by (intro keep_rules port m)
  ultimately show ?case unfolding run_from.simps [of _ _ _ _ _ n] by (intro keep_rules port)
qed

lemma keep_run_consumer:
  assumes "keeps R (cp_now port)" "\<And>ms. keeps R (cp_sleep port ms)" "\<And>a. keeps R (cp_appendAttempt port a)"
    "\<And>d. keeps R (cp_appendDeadLetter port d)" "\<And>c k ty ag st. keeps R (cp_upsertCheckpoint port c k ty ag st)"
    and "keeps R handler" "\<And>m. onDead = Some m \<Longrightarrow> keeps R m"
  shows "keeps R (run_consumer port inp handler onDead)"
  unfolding run_consumer_def by (intro keep_rules keep_run_from assms)

end

lemma port_sel [simp]:
  "cp_now (ledger_consumer_port app) = now_ms app"
  "cp_sleep (ledger_consumer_port app) ms = on_world (modify (app_sleep app ms))"
  "cp_appendAttempt (ledger_consumer_port app) a
     = on_ledger app (\<lambda>nowIso. modify (appendEventConsumerAttempt (app_cfg app) a nowIso))"
  "cp_appendDeadLetter (ledger_consumer_port app) d
     = on_ledger app (\<lambda>nowIso. modify (appendEventConsumerDeadLetter (app_cfg app) d nowIso))"
  "cp_upsertCheckpoint (ledger_consumer_port app) c k ty ag st
     = on_ledger app (\<lambda>nowIso. modify (upsertEventConsumerCheckpoint c k ty ag st nowIso))"
  by (simp_all add: ledger_consumer_port_def)

text \<open>
  The bus satisfies the contract of the publisher for every platform relation, so the wired services
  keep every such relation.
\<close>

context platform_relation
begin

lemma run_subscriber [run_rules]: "keeps R (withdrawal_subscriber app e)"
  unfolding withdrawal_subscriber_def
  by (rule keep_run_consumer)
    (auto intro!: run_rules run_on_ledger step_consumerAttempt step_consumerDeadLetter step_consumerCheckpoint
      split: option.split)

lemma run_bus:
  "keeps R (publishAsync (now_iso app) (app_bus app) ty p)" "R s (publish (now_iso app) (app_bus app) ty p s)"
  by (rule keep_publishAsync keep_publish; auto simp: app_bus_handlers intro: run_rules split: if_splits)+

lemma wired_publisher: "publisher_relation R (wire app)"
  by unfold_locales (auto simp: R_world R_alerts R_queue R_ledger run_bus)

end

interpretation wired: publisher_relation "runs (wire app)" "wire app" for app :: "'w app"
  using pl.wired_publisher [of app] by simp

interpretation framed: publisher_relation "unchanged config_of" "wire app" for app :: "'w app"
  by (rule pc.wired_publisher)

section \<open>The ledger as an outbox\<close>

definition ledger_outbox_port :: "'w app \<Rightarrow> 'w platform outbox_port" where
  "ledger_outbox_port app =
     \<lparr>op_now = now_ms app,
      op_recoverStale = (\<lambda>timeoutSec. on_ledger app (recoverStaleProcessingOutboxEvents timeoutSec)),
      op_claim = (\<lambda>limit. on_ledger app (\<lambda>nowIso. total (claimPendingOutboxEvents limit nowIso))),
      op_publish = (\<lambda>eventType payload.
        case app_publishAsync app of
          Some async \<Rightarrow> async eventType payload
        | None \<Rightarrow> modify (app_publish app eventType payload)),
      op_markPublished = (\<lambda>outboxEventId. on_ledger app (\<lambda>nowIso. modify (markOutboxEventPublished outboxEventId nowIso))),
      op_reschedule = (\<lambda>outboxEventId err availableAt.
        on_ledger app (\<lambda>nowIso. modify (rescheduleOutboxEvent outboxEventId err availableAt))),
      op_deadLetter = (\<lambda>outboxEventId err.
        on_ledger app (\<lambda>nowIso. modify (deadLetterOutboxEvent outboxEventId err nowIso)))\<rparr>"

named_theorems outbox_quiet "methods that leave the outbox alone"

declare un.keep_rules [outbox_quiet]

abbreviation same_outbox :: "'w platform \<Rightarrow> 'w platform \<Rightarrow> bool" where
  "same_outbox \<equiv> unchanged (\<lambda>s. outboxEvents (pf_ledger s))"

lemma outbox_primitives [outbox_quiet]:
  "keeps same_outbox (on_world m)" "keeps same_outbox (now_ms app)" "keeps same_outbox (now_iso app)"
  "keeps same_outbox (on_queue f)"
  by (simp_all add: keeps_def unchanged_def on_world_def snd_zoom run_clock run_now_iso_eq on_queue_def)

lemma outbox_notify [outbox_quiet]: "keeps same_outbox (notify app a)"
  unfolding notify_def by (intro outbox_quiet) (simp add: keeps_def unchanged_def split_beta)

lemma outbox_on_ledger:
  assumes "\<And>now l. outboxEvents (snd (m now l)) = outboxEvents l"
  shows "keeps same_outbox (on_ledger app m)"
  unfolding on_ledger_def by (intro outbox_quiet) (simp add: keeps_def unchanged_def snd_zoom assms)

lemma outbox_audit [outbox_quiet]: "keeps same_outbox (audit app inp)"
  unfolding audit_def
  by (intro outbox_quiet outbox_on_ledger) (simp add: snd_total appendAuditLog_def Let_def)

lemma outbox_consume [outbox_quiet]: "keeps same_outbox (consumeWithdrawalStateChanged app c b)"
  unfolding consumeWithdrawalStateChanged_def recordExternalSyncAudit_def enqueueExternalSyncRetry_def Let_def
  by (intro outbox_quiet)

lemma outbox_subscriber: "keeps same_outbox (withdrawal_subscriber app e)"
  unfolding withdrawal_subscriber_def
  by (rule un.keep_run_consumer)
    (auto intro!: outbox_quiet outbox_on_ledger split: option.split
      simp: appendEventConsumerAttempt_def appendEventConsumerDeadLetter_def upsertEventConsumerCheckpoint_def Let_def)

lemma outbox_publishAsync: "keeps same_outbox (publishAsync (now_iso app) (app_bus app) ty p)"
  by (rule un.keep_publishAsync) (auto simp: app_bus_handlers intro: outbox_primitives outbox_subscriber split: if_splits)

lemma port_update_event:
  "map_get (outboxEvents l) j = Some e \<Longrightarrow>
     map_get (outboxEvents (update_event j f l)) i = (if i = j then Some (f e) else map_get (outboxEvents l) i)"
  by (simp add: update_event_def)

lemma claim_event_status: "ob_status (claim_event now e) = OB_processing"
  by (simp add: claim_event_def)

lemma recovered_ok:
  "recoverStaleProcessingOutboxEvents n now l = (r, l') \<Longrightarrow> outbox_ok l \<Longrightarrow> outbox_ok l'"
  by (metis outbox_ok_ops(6) snd_conv)

interpretation ox: outbox_store "ledger_outbox_port (wire app)" "\<lambda>s. outbox_ok (pf_ledger s)"
    "\<lambda>i s. map_get (outboxEvents (pf_ledger s)) i" for app :: "'w app"
proof
  fix s t :: "'w platform" and i j n rn e ty p msg av
  let ?port = "ledger_outbox_port (wire app)"
  show "\<exists>n t. op_now ?port s = (Inr n, t) \<and> map_get (outboxEvents (pf_ledger t)) i = map_get (outboxEvents (pf_ledger s)) i"
    by (simp add: ledger_outbox_port_def run_clock)
  show "outbox_ok (pf_ledger t)" if "outbox_ok (pf_ledger s)" "op_recoverStale ?port n s = (rn, t)"
    using that
    by (auto simp: ledger_outbox_port_def on_ledger_def and_then_def run_now_iso_eq zoom_def split: prod.splits
        intro: recovered_ok)
  show "map_get (outboxEvents (pf_ledger (snd (op_publish ?port ty p s)))) i = Some e"
    if "map_get (outboxEvents (pf_ledger s)) i = Some e"
    using that keepsD [OF outbox_publishAsync, of s app ty p] by (simp add: ledger_outbox_port_def unchanged_def)
  assume e: "map_get (outboxEvents (pf_ledger s)) j = Some e"
  show "\<exists>now t. op_markPublished ?port j s = (Inr (), t) \<and>
      map_get (outboxEvents (pf_ledger t)) j = Some (publish_event now e) \<and>
      (i \<noteq> j \<longrightarrow> map_get (outboxEvents (pf_ledger t)) i = map_get (outboxEvents (pf_ledger s)) i)"
    using e by (auto simp: ledger_outbox_port_def on_ledger_modify Let_def markOutboxEventPublished_def port_update_event)
  show "\<exists>t. op_reschedule ?port j msg av s = (Inr (), t) \<and>
      map_get (outboxEvents (pf_ledger t)) j = Some (reschedule_event msg av e) \<and>
      (i \<noteq> j \<longrightarrow> map_get (outboxEvents (pf_ledger t)) i = map_get (outboxEvents (pf_ledger s)) i)"
    using e by (auto simp: ledger_outbox_port_def on_ledger_modify Let_def rescheduleOutboxEvent_def port_update_event)
  show "\<exists>now t. op_deadLetter ?port j msg s = (Inr (), t) \<and>
      map_get (outboxEvents (pf_ledger t)) j = Some (dead_letter_event msg now e) \<and>
      (i \<noteq> j \<longrightarrow> map_get (outboxEvents (pf_ledger t)) i = map_get (outboxEvents (pf_ledger s)) i)"
    using e by (auto simp: ledger_outbox_port_def on_ledger_modify Let_def deadLetterOutboxEvent_def port_update_event)
next
  fix s :: "'w platform" and n
  assume ok: "outbox_ok (pf_ledger s)"
  let ?now = "toISOString (fst (app_clock app (pf_world s)))"
  obtain es l where c: "claimPendingOutboxEvents n ?now (pf_ledger s) = (es, l)" by fastforce
  have run: "op_claim (ledger_outbox_port (wire app)) n s
      = (Inr es, s\<lparr>pf_world := snd (app_clock app (pf_world s)), pf_ledger := l\<rparr>)"
    using c by (simp add: ledger_outbox_port_def on_ledger_def and_then_def run_now_iso_eq zoom_def total_def)
  have stored: "map_get (outboxEvents l) (ob_outboxEventId e) = Some e \<and> ob_status e = OB_processing" if "e \<in> set es" for e
  proof (rule claimed_event [OF ok c that])
    fix e0
    assume "e = claim_event ?now e0" and got: "map_get (outboxEvents l) (ob_outboxEventId e) = Some e"
    then have "ob_status e = OB_processing" by (simp only: claim_event_status)
    with got show ?thesis by (rule conjI)
  qed
  have "\<forall>e \<in> set es. map_get (outboxEvents l) (ob_outboxEventId e) = Some e \<and> ob_status e = OB_processing"
    using stored by (rule ballI)
  moreover have "pf_ledger (s\<lparr>pf_world := snd (app_clock app (pf_world s)), pf_ledger := l\<rparr>) = l" by simp
  ultimately have "\<forall>e \<in> set es. map_get (outboxEvents (pf_ledger (s\<lparr>pf_world := snd (app_clock app (pf_world s)), pf_ledger := l\<rparr>)))
      (ob_outboxEventId e) = Some e \<and> ob_status e = OB_processing"
    by (simp only:)
  with run claimed_ids_distinct [OF ok c]
  show "\<exists>es t. op_claim (ledger_outbox_port (wire app)) n s = (Inr es, t) \<and> distinct (map ob_outboxEventId es) \<and>
      (\<forall>e \<in> set es. map_get (outboxEvents (pf_ledger t)) (ob_outboxEventId e) = Some e \<and> ob_status e = OB_processing)"
    by (intro exI conjI)
qed

end
