(* ===== verification/AccountServices.thy ===== *)
theory AccountServices
  imports Wiring
begin

text \<open>
  \<open>DepositService\<close> (\<open>src/application/services/deposit-service.ts\<close>) and \<open>WalletService\<close>
  (\<open>src/application/services/wallet-service.ts\<close>) on the platform.
\<close>

section \<open>Deposits\<close>

definition tracked_addresses :: "string list \<Rightarrow> string list" where
  "tracked_addresses trackedWalletAddresses = filter truthy_str (map trim trackedWalletAddresses)"

record deposit_request =
  dq_userId :: "string option"
  dq_walletAddress :: "string option"
  dq_amountKori :: js_number
  dq_txHash :: string
  dq_toAddress :: string
  dq_blockNumber :: int

record deposit_process_result =
  pr_accepted :: bool
  pr_duplicated :: bool
  pr_deposit :: "deposit option"
  pr_reason :: "string option"

definition processDeposit :: "'w app \<Rightarrow> string list \<Rightarrow> deposit_request
    \<Rightarrow> ('w platform, deposit_process_result) act" where
  "processDeposit app trackedWalletAddresses inp =
     (let normalizedToAddress = trim (dq_toAddress inp) in
      if normalizedToAddress \<notin> set (tracked_addresses trackedWalletAddresses)
      then ret \<lparr>pr_accepted = False, pr_duplicated = False, pr_deposit = None,
                pr_reason = Some ''UNTRACKED_ADDRESS''\<rparr>
      else
        and_then (inspect_ledger (resolveUserId (dq_userId inp) (dq_walletAddress inp))) (\<lambda>userId.
          if \<not> truthy_str userId
          then throw (DomainError 400 ''VALIDATION_ERROR'' ''userId or walletAddress is required'')
          else
            and_then (lift_result (parseKoriAmount (dq_amountKori inp))) (\<lambda>amount.
            and_then (on_ledger app (applyDeposit (app_cfg app)
                \<lparr>di_userId = userId, di_amount = amount, di_txHash = dq_txHash inp,
                 di_toAddress = Some normalizedToAddress, di_walletAddress = dq_walletAddress inp,
                 di_blockNumber = dq_blockNumber inp\<rparr>)) (\<lambda>result.
            ret \<lparr>pr_accepted = True, pr_duplicated = dr_duplicated result,
                 pr_deposit = Some (dr_deposit result), pr_reason = None\<rparr>))))"

section \<open>Wallets\<close>

definition getBalance :: "'w app \<Rightarrow> string option \<Rightarrow> string option \<Rightarrow> ('w platform, account) act" where
  "getBalance app userId walletAddress =
     (if truthy walletAddress then on_ledger app (getAccountByWalletAddress (the walletAddress))
      else if truthy userId then on_ledger app (getAccount (the userId))
      else throw (DomainError 400 ''VALIDATION_ERROR'' ''userId or walletAddress is required''))"

definition serviceBindWalletAddress :: "'w app \<Rightarrow> string \<Rightarrow> string \<Rightarrow> ('w platform, wallet_binding) act" where
  "serviceBindWalletAddress app userId walletAddress = on_ledger app (bindWalletAddress userId walletAddress)"

definition serviceGetWalletBinding :: "string option \<Rightarrow> string option \<Rightarrow> ('w platform, wallet_binding option) act" where
  "serviceGetWalletBinding userId walletAddress = inspect_ledger (getWalletBinding userId walletAddress)"

datatype timeline_type = TL_deposit | TL_withdrawal | TL_internal_transfer_in | TL_internal_transfer_out

record timeline_entry =
  te_timelineId :: string
  te_entryType :: timeline_type
  te_amount :: int
  te_status :: string
  te_createdAt :: string
  te_txHash :: "string option"
  te_blockNumber :: "int option"
  te_counterpartyUserId :: "string option"
  te_toAddress :: "string option"
  te_depositId :: "string option"
  te_withdrawalId :: "string option"
  te_ledgerTxId :: "string option"
  te_displayStatus :: "display_status option"

fun transaction_status_name :: "transaction_status \<Rightarrow> string" where
  "transaction_status_name TS_pending = ''pending''"
| "transaction_status_name TS_confirmed = ''confirmed''"
| "transaction_status_name TS_failed = ''failed''"

definition deposit_entry :: "deposit \<Rightarrow> timeline_entry" where
  "deposit_entry d =
     \<lparr>te_timelineId = ''deposit:'' @ dep_depositId d, te_entryType = TL_deposit, te_amount = dep_amount d,
      te_status = deposit_status_name (dep_status d), te_createdAt = dep_createdAt d,
      te_txHash = Some (dep_txHash d), te_blockNumber = Some (dep_blockNumber d), te_counterpartyUserId = None,
      te_toAddress = None, te_depositId = Some (dep_depositId d), te_withdrawalId = None,
      te_ledgerTxId = None, te_displayStatus = None\<rparr>"

definition withdrawal_entry :: "withdrawal \<Rightarrow> timeline_entry" where
  "withdrawal_entry w =
     \<lparr>te_timelineId = ''withdrawal:'' @ wd_withdrawalId w, te_entryType = TL_withdrawal,
      te_amount = wd_amount w, te_status = mapWithdrawalStatusToLedgerContract (wd_status w),
      te_createdAt = wd_createdAt w, te_txHash = wd_txHash w, te_blockNumber = None,
      te_counterpartyUserId = None, te_toAddress = Some (wd_toAddress w), te_depositId = None,
      te_withdrawalId = Some (wd_withdrawalId w), te_ledgerTxId = Some (wd_ledgerTxId w),
      te_displayStatus = Some (mapWithdrawalDisplayStatus (wd_status w) (wd_approvalCount w))\<rparr>"

definition transfer_entry :: "ledger_transaction \<Rightarrow> timeline_entry" where
  "transfer_entry t =
     \<lparr>te_timelineId = ''transaction:'' @ tx_txId t,
      te_entryType = (if tx_type t = TT_internal_transfer_in then TL_internal_transfer_in
                      else TL_internal_transfer_out),
      te_amount = tx_amount t, te_status = transaction_status_name (tx_status t),
      te_createdAt = tx_createdAt t, te_txHash = tx_blockTx t, te_blockNumber = None,
      te_counterpartyUserId = tx_relatedUserId t, te_toAddress = None, te_depositId = None,
      te_withdrawalId = None, te_ledgerTxId = Some (tx_txId t), te_displayStatus = None\<rparr>"

definition timeline :: "string \<Rightarrow> int \<Rightarrow> ledger \<Rightarrow> timeline_entry list" where
  "timeline userId limit s =
     (let fetchLimit = min (limit * 2) 200
      in slice0 limit (sort_desc te_createdAt
           (map deposit_entry (listDepositsByUser userId fetchLimit s) @
            map withdrawal_entry (listWithdrawalsByUser userId fetchLimit s) @
            map transfer_entry (listTransactionsByUser userId
              (Some [TT_internal_transfer_in, TT_internal_transfer_out]) fetchLimit s))))"

definition getTimeline :: "string option \<Rightarrow> string option \<Rightarrow> int option \<Rightarrow> ('w platform, timeline_entry list) act" where
  "getTimeline userId walletAddress limit =
     and_then (inspect_ledger (resolveUserId userId walletAddress)) (\<lambda>u.
       ask_ledger (timeline u (coalesce limit 50)))"

record transfer_request =
  tq_fromUserId :: "string option"
  tq_fromWalletAddress :: "string option"
  tq_toUserId :: "string option"
  tq_toWalletAddress :: "string option"
  tq_amountKori :: js_number
  tq_idempotencyKey :: string

text \<open>
  The event carries the amount as a fraction of KORI, which is no value of \<open>jsval\<close>; it is left out of
  the payload here.  Nothing in the application subscribes to the event.
\<close>

definition serviceTransfer :: "'w app \<Rightarrow> transfer_request \<Rightarrow> ('w platform, transfer_result) act" where
  "serviceTransfer app inp =
     and_then (inspect_ledger (resolveUserId (tq_fromUserId inp) (tq_fromWalletAddress inp))) (\<lambda>fromUserId.
     and_then (inspect_ledger (resolveUserId (tq_toUserId inp) (tq_toWalletAddress inp))) (\<lambda>toUserId.
     and_then (lift_result (parseKoriAmount (tq_amountKori inp))) (\<lambda>amount.
     and_then (on_ledger app (transfer (app_cfg app) fromUserId toUserId amount (tq_idempotencyKey inp))) (\<lambda>result.
     and_then (when_do (\<not> tr_duplicated result)
        (modify (app_publish app ''wallet.transfered''
          [(''fromUserId'', JStr fromUserId), (''fromWalletAddress'', opt_str (tq_fromWalletAddress inp)),
           (''toUserId'', JStr toUserId), (''toWalletAddress'', opt_str (tq_toWalletAddress inp)),
           (''idempotencyKey'', JStr (tq_idempotencyKey inp))]))) (\<lambda>_.
     ret result)))))"

section \<open>The relations these services keep\<close>

context publisher_relation
begin

lemma run_processDeposit [run_rules]: "keeps R (processDeposit app tracked inp)"
  unfolding processDeposit_def Let_def
  by (intro run_rules parse_bind run_on_ledger) (simp add: step_applyDeposit)

lemma run_getBalance [run_rules]: "keeps R (getBalance app u a)"
  unfolding getBalance_def
  by (intro run_rules run_on_ledger) (rule step_getAccountByWalletAddress step_getAccount)+

lemma run_bind [run_rules]: "u \<noteq> '''' \<Longrightarrow> keeps R (serviceBindWalletAddress app u a)"
  unfolding serviceBindWalletAddress_def by (intro run_on_ledger) (rule step_bindWalletAddress)

lemma run_serviceTransfer [run_rules]: "keeps R (serviceTransfer app inp)"
  unfolding serviceTransfer_def
  by (intro run_rules parse_bind run_on_ledger run_publish) (simp add: step_transfer)

end

text \<open>The timeline is sorted, newest first, and holds at most \<open>limit\<close> entries, all of them the user's.\<close>

lemma sorted_slice0: "sorted (rev (map f xs)) \<Longrightarrow> sorted (rev (map f (slice0 n xs)))"
proof -
  assume s: "sorted (rev (map f xs))"
  obtain m where m: "slice0 n xs = take m xs" using slice0_is_take by blast
  have "map f xs = map f (take m xs) @ map f (drop m xs)" by (simp flip: map_append)
  with s show ?thesis unfolding m by (simp add: sorted_append)
qed

lemma timeline_sorted: "sorted (rev (map te_createdAt (timeline u n s)))"
  unfolding timeline_def Let_def by (intro sorted_slice0 sorted_sort_desc)

lemma timeline_bound: "0 \<le> n \<Longrightarrow> int (length (timeline u n s)) \<le> n"
  unfolding timeline_def Let_def by (rule length_slice0_le)

end
