(* ===== verification/QueueDrain.thy ===== *)
theory QueueDrain
  imports Wiring
begin

text \<open>
  The queue of the wired application always drains.  A dispatch may add a reconciliation and external
  syncs, a reconciliation may add external syncs (through the dead letters of the consumer), an
  external sync adds nothing: the multiset of the jobs' ranks decreases with every job.
\<close>

section \<open>What a method adds to the queue\<close>

fun job_rank :: "queue_job \<Rightarrow> nat" where
  "job_rank (QJ_dispatch _ _) = 2"
| "job_rank (QJ_reconcile _ _) = 1"
| "job_rank (QJ_external_sync _ _) = 0"

definition adds_below :: "nat \<Rightarrow> 'w platform \<Rightarrow> 'w platform \<Rightarrow> bool" where
  "adds_below n s t =
     (\<exists>js. jq_jobs (pf_queue t) = jq_jobs (pf_queue s) @ js \<and> (\<forall>j \<in> set js. job_rank j < n))"

interpretation ab: run_relation "adds_below n" for n
proof
  show "adds_below n s s" for s :: "'a platform" by (simp add: adds_below_def)
  show "adds_below n s u" if "adds_below n s t" "adds_below n t u" for s t u :: "'a platform"
    using that by (auto simp: adds_below_def)
qed

named_theorems queue_rules "methods that add only jobs of low rank"

declare ab.keep_rules [queue_rules]

lemma adds_same: "pf_queue t = pf_queue s \<Longrightarrow> adds_below n s t"
  by (simp add: adds_below_def)

lemma adds_mono: "keeps (adds_below m) f \<Longrightarrow> m \<le> n \<Longrightarrow> keeps (adds_below n) f"
  by (force simp: keeps_def adds_below_def)

lemma adds_primitives [queue_rules]:
  "keeps (adds_below n) (on_world m)" "keeps (adds_below n) (now_ms app)" "keeps (adds_below n) (now_iso app)"
  "keeps (adds_below n) (lift_result r)" "keeps (adds_below n) (ask_ledger f)"
  by (simp_all add: keeps_def adds_same run_clock run_now_iso_eq lift_result_def ask_ledger_def)

lemma adds_on_ledger [queue_rules]: "keeps (adds_below n) (on_ledger app m)"
  unfolding on_ledger_def by (intro queue_rules) (simp add: keeps_def snd_zoom adds_same)

lemma adds_notify [queue_rules]: "keeps (adds_below n) (notify app a)"
  unfolding notify_def by (intro queue_rules) (simp add: keeps_def adds_same split_beta)

lemma adds_audit [queue_rules]: "keeps (adds_below n) (audit app inp)"
  unfolding audit_def by (intro queue_rules)

lemma adds_enqueue:
  "0 < n \<Longrightarrow> keeps (adds_below n) (on_queue (enqueueExternalSync i))"
  "1 < n \<Longrightarrow> keeps (adds_below n) (on_queue (enqueueReconcile r))"
  by (simp_all add: keeps_def adds_below_def on_queue_def enqueueExternalSync_def enqueueReconcile_def)

section \<open>Consumers, publication and the handlers of the queue\<close>

lemma adds_recordExternalSyncAudit [queue_rules]: "keeps (adds_below n) (recordExternalSyncAudit app i a m)"
  unfolding recordExternalSyncAudit_def by (intro queue_rules)

lemma adds_consume: "keeps (adds_below n) (consumeWithdrawalStateChanged app c False)"
  unfolding consumeWithdrawalStateChanged_def Let_def run_when_do by (intro queue_rules)

lemma adds_subscriber: "0 < n \<Longrightarrow> keeps (adds_below n) (withdrawal_subscriber app e)"
  unfolding withdrawal_subscriber_def
  by (rule ab.keep_run_consumer)
    (auto intro!: queue_rules adds_consume adds_enqueue split: option.split)

lemma adds_publish: "0 < n \<Longrightarrow> keeps (adds_below n) (publishWithdrawalStateChange (wire app) w t)"
  unfolding publishWithdrawalStateChange_def
  by (simp, intro queue_rules, rule ab.keep_publishAsync)
    (auto simp: app_bus_handlers intro: adds_primitives adds_subscriber)

lemma adds_publish_now: "0 < n \<Longrightarrow> keeps (adds_below n) (publish_now (wire app) w)"
  unfolding publish_now_def by (intro queue_rules adds_publish)

lemma adds_reconcileBroadcasted: "0 < n \<Longrightarrow> keeps (adds_below n) (reconcileBroadcasted (wire app))"
proof -
  assume n: "0 < n"
  have "keeps (adds_below n) (confirm (wire app) i f)" "keeps (adds_below n) (fail (wire app) i r)" for i f r
    unfolding confirm_def fail_def by (intro queue_rules adds_publish_now n)+
  then have "keeps (adds_below n) (reconcile_one (wire app) w acc)" for w acc
    unfolding reconcile_one_def by (intro queue_rules) (auto split: receipt_status.split intro!: queue_rules)
  then show ?thesis unfolding reconcileBroadcasted_def by (intro queue_rules)
qed

lemma adds_inspect [queue_rules]: "keeps (adds_below n) (inspect f)"
  by (rule queue_rules)

lemma adds_getHotWalletReadiness [queue_rules]: "keeps (adds_below n) (getHotWalletReadiness app)"
  unfolding getHotWalletReadiness_def Let_def by (intro queue_rules)

lemma adds_assertBroadcastAllowed [queue_rules]: "keeps (adds_below n) (assertBroadcastAllowed app a k)"
  unfolding assertBroadcastAllowed_def assertPolicies_def assertHotWalletReady_def by (intro queue_rules)

lemma adds_networkAllowed [queue_rules]: "keeps (adds_below n) (assertUserWithdrawalNetworkAllowed app u)"
  unfolding assertUserWithdrawalNetworkAllowed_def by (intro queue_rules)

lemma adds_broadcast: "0 < n \<Longrightarrow> keeps (adds_below n) (broadcast (wire app) i)"
  unfolding broadcast_def record_broadcast_def by (intro queue_rules adds_publish_now)

lemma adds_handleAttemptFailure [queue_rules]: "keeps (adds_below n) (handleAttemptFailure app i k e)"
  unfolding handleAttemptFailure_def Let_def by (intro queue_rules)

lemma adds_processDispatch: "0 < n \<Longrightarrow> keeps (adds_below n) (processDispatch (wire app) i k)"
  unfolding processDispatch_def ensureHotWalletResources_def by (intro queue_rules adds_broadcast)

lemma adds_processReconcile: "0 < n \<Longrightarrow> keeps (adds_below n) (processReconcile (wire app) r k)"
  unfolding processReconcile_def reconcile_checked_def by (intro queue_rules adds_reconcileBroadcasted)

lemma adds_processExternalSyncRetry: "keeps (adds_below n) (processExternalSyncRetry (wire app) i)"
  unfolding processExternalSyncRetry_def syncExternalWithdrawalState_def
  by (intro queue_rules adds_consume)

lemma adds_run_job: "keeps (adds_below (job_rank j)) (run_job (wire app) j)"
proof (cases j)
  case (QJ_dispatch i k)
  then show ?thesis
    by (simp add: run_job_def) (intro queue_rules adds_processDispatch adds_enqueue; simp)
next
  case (QJ_reconcile r k)
  then show ?thesis by (simp add: run_job_def adds_processReconcile)
next
  case (QJ_external_sync i k)
  then show ?thesis by (simp add: run_job_def adds_processExternalSyncRetry)
qed

text \<open>A job that succeeds has added only jobs of lower rank.\<close>

lemma process_job_adds:
  assumes "process_job (wire app) j s = (Inr u, t)"
  shows "adds_below (job_rank j) s t"
proof -
  have "run_job (wire app) j s = (Inr u, t)"
    using assms by (auto simp: process_job_def catching_def and_then_succeeds split: prod.splits sum.splits)
  then show ?thesis using keepsD [OF adds_run_job [of j app], of s] by simp
qed

section \<open>Termination\<close>

definition queue_ranks :: "'w platform \<Rightarrow> nat multiset" where
  "queue_ranks s = mset (map job_rank (jq_jobs (pf_queue s)))"

lemma drain_step_smaller:
  assumes "jq_jobs (pf_queue s) = j # js" and "process_job (wire app) j (without_first s) = (Inr u, t)"
  shows "(queue_ranks t, queue_ranks s) \<in> mult less_than"
proof -
  obtain new where new: "jq_jobs (pf_queue t) = js @ new" "\<forall>i \<in> set new. job_rank i < job_rank j"
    using process_job_adds [OF assms(2)] assms(1) by (auto simp: adds_below_def without_first_def)
  have "(mset (map job_rank js) + mset (map job_rank new), mset (map job_rank js) + {#job_rank j#}) \<in> mult less_than"
    by (rule one_step_implies_mult) (use new(2) in auto)
  moreover have "queue_ranks t = mset (map job_rank js) + mset (map job_rank new)"
    by (simp only: queue_ranks_def new(1) map_append mset_append)
  moreover have "queue_ranks s = mset (map job_rank js) + {#job_rank j#}"
    by (simp add: queue_ranks_def assms(1))
  ultimately show ?thesis by simp
qed

lemma drain_returns: "\<exists>y. drain (wire app) s = Some y"
proof (induction "queue_ranks s" arbitrary: s rule: wf_induct_rule [OF wf_mult [OF wf_less_than]])
  case 1
  show ?case
  proof (cases "jq_jobs (pf_queue s)")
    case Nil
    then show ?thesis by (simp add: drain.simps)
  next
    case (Cons j js)
    obtain r t where p: "process_job (wire app) j (without_first s) = (r, t)" by fastforce
    show ?thesis
    proof (cases r)
      case (Inl e)
      with Cons p show ?thesis by (subst drain.simps) (simp add: Let_def)
    next
      case (Inr u)
      have "\<exists>y. drain (wire app) t = Some y"
        using 1 drain_step_smaller [OF Cons] p Inr by blast
      with Cons p Inr show ?thesis by (subst drain.simps) (simp add: Let_def)
    qed
  qed
qed

text \<open>A drain that returns without an error has emptied the queue.\<close>

lemma drain_empties:
  fixes app :: "'w app"
  assumes "drain app s = Some y"
  shows "fst y = Inr () \<longrightarrow> jq_jobs (pf_queue (snd y)) = []"
proof (rule drain.raw_induct [of "\<lambda>a s y. fst y = Inr () \<longrightarrow> jq_jobs (pf_queue (snd y)) = []", OF _ assms], intro impI)
  fix drain' and a :: "'w app" and s :: "'w platform" and y
  assume IH: "\<And>a s y. drain' a s = Some y \<Longrightarrow> fst y = Inr () \<longrightarrow> jq_jobs (pf_queue (snd y)) = []"
    and eq: "(if jq_jobs (pf_queue s) = [] then Some (Inr (), s)
      else let result = process_job a (hd (jq_jobs (pf_queue s))) (without_first s)
           in if fails (fst result) then Some result else drain' a (snd result)) = Some y"
    and y: "fst y = Inr ()"
  show "jq_jobs (pf_queue (snd y)) = []"
  proof (cases "jq_jobs (pf_queue s) = []")
    case True
    with eq show ?thesis by auto
  next
    case False
    with eq y have "drain' a (snd (process_job a (hd (jq_jobs (pf_queue s))) (without_first s))) = Some y"
      by (auto simp: Let_def split: if_splits)
    with IH y show ?thesis by blast
  qed
qed

end
