(* ===== verification/WalletChain.thy ===== *)
theory WalletChain
  imports Wiring
begin

text \<open>
  What the background services on virtual wallets share: the methods of \<open>TronGateway\<close>
  (\<open>src/application/ports/tron-gateway.ts\<close>) they call, the conversion of TRX to sun, the mark methods
  of the wallet repository with the clock, and the contract \<open>wallet_relation\<close>: a platform relation that
  every mark of a wallet keeps.
\<close>

section \<open>The gateway\<close>

record broadcast_request =
  tr_toAddress :: string
  tr_amount :: int
  tr_network :: network
  tr_from :: "(string \<times> string) option"

datatype resource_type = RT_bandwidth | RT_energy

fun resource_type_name :: "resource_type \<Rightarrow> string" where
  "resource_type_name RT_bandwidth = ''BANDWIDTH''"
| "resource_type_name RT_energy = ''ENERGY''"

record delegation_request =
  dg_receiverAddress :: string
  dg_amountSun :: int
  dg_resource :: resource_type
  dg_network :: network
  dg_fromAddress :: string

record 'w tron_gateway =
  tg_broadcastTransfer :: "broadcast_request \<Rightarrow> ('w, string) act"
  tg_broadcastNativeTransfer :: "broadcast_request \<Rightarrow> ('w, string) act"
  tg_delegateResource :: "delegation_request \<Rightarrow> ('w, string) act"
  tg_undelegateResource :: "delegation_request \<Rightarrow> ('w, string) act"
  tg_getReceiptDetails :: "string \<Rightarrow> ('w, tron_receipt) act"
  tg_getAccountResources :: "string \<Rightarrow> network \<Rightarrow> ('w, account_resources) act"
  tg_getCanDelegatedMaxSize :: "string \<Rightarrow> resource_type \<Rightarrow> network \<Rightarrow> ('w, int) act"
  tg_getDelegatedResource :: "string \<Rightarrow> string \<Rightarrow> resource_type \<Rightarrow> network \<Rightarrow> ('w, int) act"

definition TRX_SUN :: int where
  "TRX_SUN = 1000000"

text \<open>\<open>BigInt(Math.round(trx * Number(TRX_SUN)))\<close>; \<open>BigInt\<close> refuses what is not an integer.\<close>

definition trx_to_sun :: "js_number \<Rightarrow> js_error + int" where
  "trx_to_sun trx =
     (case js_mul trx (JsFin TRX_SUN 0) of
        JsFin m e \<Rightarrow> Inr (math_round m e)
      | JsInf _ \<Rightarrow> Inl (RangeError ''The number Infinity cannot be converted to a BigInt because it is not an integer'')
      | JsNaN \<Rightarrow> Inl (RangeError ''The number NaN cannot be converted to a BigInt because it is not an integer''))"

section \<open>A cycle of a background service\<close>

text \<open>A cycle is skipped for a reason or returns its report.\<close>

datatype 'a cycle_result = Cycle_skipped string | Cycle_ran 'a

definition on_wallets_at :: "'w app \<Rightarrow> (string \<Rightarrow> (wallet_repo, 'a) act) \<Rightarrow> ('w platform, 'a) act" where
  "on_wallets_at app m = and_then (now_iso app) (\<lambda>nowIso. on_wallets (m nowIso))"

definition listed_by_activation :: "activation_status \<Rightarrow> int \<Rightarrow> ('w platform, virtual_wallet list) act" where
  "listed_by_activation status limit = ask (\<lambda>s. listVirtualWalletsByActivationStatus status limit (pf_wallets s))"

section \<open>Relations kept by every mark\<close>

text \<open>The marks of the activation and resource services on a virtual wallet.\<close>

inductive wallet_mark :: "wallet_repo \<Rightarrow> wallet_repo \<Rightarrow> bool" where
  mark_granted: "wallet_mark r (snd (markActivationGranted i h now r))"
| mark_reclaim_pending: "wallet_mark r (snd (markActivationReclaimPending i h r))"
| mark_reclaimed: "wallet_mark r (snd (markActivationReclaimed i h now r))"
| mark_failed: "wallet_mark r (snd (markActivationFailed i msg r))"
| mark_delegate_pending: "wallet_mark r (snd (markResourceDelegatePending i r))"
| mark_delegated: "wallet_mark r (snd (markResourceDelegated i now r))"
| mark_release_pending: "wallet_mark r (snd (markResourceReleasePending i r))"
| mark_released: "wallet_mark r (snd (markResourceReleased i now r))"
| mark_resource_failed: "wallet_mark r (snd (markResourceFailed i msg r))"
| mark_retired: "wallet_mark r (snd (retireVirtualWallet i rep now r))"
| mark_disabled: "wallet_mark r (snd (disableVirtualWallet i now r))"

locale wallet_relation = platform_relation R app
  for R :: "'w platform \<Rightarrow> 'w platform \<Rightarrow> bool" and app :: "'w app" +
  assumes R_mark: "wallet_mark (pf_wallets s) r \<Longrightarrow> R s (s\<lparr>pf_wallets := r\<rparr>)"
begin

lemma run_wallet_mark:
  assumes "\<And>r. wallet_mark r (snd (m r))"
  shows "keeps R (on_wallets m)"
  by (simp add: keeps_def on_wallets_def snd_zoom R_mark assms)

lemma run_marks [run_rules]:
  "keeps R (on_wallets_at app (markActivationGranted i h))"
  "keeps R (on_wallets (markActivationReclaimPending i h))"
  "keeps R (on_wallets_at app (markActivationReclaimed i h))"
  "keeps R (on_wallets (markActivationFailed i msg))"
  "keeps R (on_wallets (markResourceDelegatePending i))"
  "keeps R (on_wallets_at app (markResourceDelegated i))"
  "keeps R (on_wallets (markResourceReleasePending i))"
  "keeps R (on_wallets_at app (markResourceReleased i))"
  "keeps R (on_wallets (markResourceFailed i msg))"
  unfolding on_wallets_at_def by (intro run_rules run_wallet_mark wallet_mark.intros)+

lemma run_listed [run_rules]: "keeps R (listed_by_activation st n)"
  unfolding listed_by_activation_def by (rule run_rules)

end

text \<open>The ledger does not see the marks.\<close>

interpretation wl: wallet_relation "runs app" app for app :: "'w app"
  by unfold_locales simp

section \<open>Outcomes\<close>

text \<open>
  \<open>yields P m s\<close>: run in \<open>s\<close>, the method \<open>m\<close> returns or throws an outcome and leaves a state that
  satisfy \<open>P\<close>.  The rules \<open>wp\<close> push \<open>P\<close> backwards through a method, so that an effect is computed by
  the simplifier.
\<close>

definition yields :: "(js_error + 'a \<Rightarrow> 's \<Rightarrow> bool) \<Rightarrow> ('s, 'a) act \<Rightarrow> 's \<Rightarrow> bool" where
  "yields P m s = (case m s of (r, t) \<Rightarrow> P r t)"

named_theorems wp "outcomes of methods, computed backwards"

lemma yieldsI: "m s = (r, t) \<Longrightarrow> P r t \<Longrightarrow> yields P m s"
  by (simp add: yields_def)

lemma yieldsD: "yields P m s \<Longrightarrow> m s = (r, t) \<Longrightarrow> P r t"
  by (simp add: yields_def)

lemma yieldsE:
  assumes "yields P m s"
  obtains r t where "m s = (r, t)" "P r t"
  using assms by (auto simp: yields_def split: prod.splits)

lemma yields_mono: "yields P m s \<Longrightarrow> (\<And>r t. P r t \<Longrightarrow> Q r t) \<Longrightarrow> yields Q m s"
  by (auto simp: yields_def split: prod.splits)

lemma yields_basic [wp]:
  "yields P (ret x) s = P (Inr x) s"
  "yields P (throw e) s = P (Inl e) s"
  "yields P (ask f) s = P (Inr (f s)) s"
  "yields P (inspect h) s = P (h s) s"
  "yields P (lift_result r) s = P r s"
  by (simp_all add: yields_def lift_result_def)

lemma yields_modify [wp]: "yields P (modify g) s = P (Inr ()) (g s)"
  by (simp add: yields_def)

lemma yields_bind [wp]:
  "yields P (and_then m f) s = yields (\<lambda>r t. case r of Inl e \<Rightarrow> P (Inl e) t | Inr x \<Rightarrow> yields P (f x) t) m s"
  by (simp add: yields_def and_then_def split: prod.split sum.split)

lemma yields_catch [wp]:
  "yields P (catching m h) s = yields (\<lambda>r t. case r of Inl e \<Rightarrow> yields P (h e) t | Inr x \<Rightarrow> P (Inr x) t) m s"
  by (simp add: yields_def catching_def split: prod.split sum.split)

lemma yields_if [wp]: "yields P (if b then m else n) s = (if b then yields P m s else yields P n s)"
  by simp

lemma yields_optionally [wp]:
  "yields P (optionally p f) s = (case p of None \<Rightarrow> P (Inr ()) s | Some x \<Rightarrow> yields P (f x) s)"
  by (simp add: yields_def optionally_def split: option.split)

lemma yields_on_world [wp]:
  "yields P (on_world m) s = P (fst (m (pf_world s))) (s\<lparr>pf_world := snd (m (pf_world s))\<rparr>)"
  by (simp add: yields_def on_world_def zoom_def split_beta)

definition alerted :: "'w app \<Rightarrow> alert \<Rightarrow> 'w platform \<Rightarrow> 'w platform" where
  "alerted app a s = snd (notify app a s)"

lemma alerted_frame [simp]:
  "pf_wallets (alerted app a s) = pf_wallets s" "pf_ledger (alerted app a s) = pf_ledger s"
  "pf_queue (alerted app a s) = pf_queue s" "pf_policies (alerted app a s) = pf_policies s"
  by (simp_all add: alerted_def notify_def and_then_def run_clock split_beta)

lemma yields_notify [wp]: "yields P (notify app a) s = P (Inr ()) (alerted app a s)"
  by (simp add: yields_def alerted_def notify_def and_then_def run_clock)

definition clock_iso :: "'w app \<Rightarrow> 'w platform \<Rightarrow> string" where
  "clock_iso app s = toISOString (fst (app_clock app (pf_world s)))"

definition ticked :: "'w app \<Rightarrow> 'w platform \<Rightarrow> 'w platform" where
  "ticked app s = s\<lparr>pf_world := snd (app_clock app (pf_world s))\<rparr>"

lemma ticked_frame [simp]:
  "pf_wallets (ticked app s) = pf_wallets s" "pf_ledger (ticked app s) = pf_ledger s"
  "pf_queue (ticked app s) = pf_queue s" "pf_policies (ticked app s) = pf_policies s"
  by (simp_all add: ticked_def)

lemma yields_now_iso [wp]: "yields P (now_iso app) s = P (Inr (clock_iso app s)) (ticked app s)"
  by (simp add: yields_def run_now_iso_eq clock_iso_def ticked_def)

lemma yields_now_ms [wp]: "yields P (now_ms app) s = P (Inr (fst (app_clock app (pf_world s)))) (ticked app s)"
  by (simp add: yields_def run_clock ticked_def)

lemma yields_listed [wp]:
  "yields P (listed_by_activation st n) s = P (Inr (listVirtualWalletsByActivationStatus st n (pf_wallets s))) s"
  by (simp add: listed_by_activation_def wp)

text \<open>A mark of a wallet that is stored.\<close>

lemma yields_update_wallet:
  assumes "map_get (walletById (pf_wallets s)) i = Some b"
  shows "yields P (on_wallets (update_wallet i f)) s
      = P (Inr (toPublicBinding (f b))) (s\<lparr>pf_wallets := write_wallet i (f b) (pf_wallets s)\<rparr>)"
    and "yields P (on_wallets_at app (\<lambda>nowIso. update_wallet i (h nowIso))) s
      = P (Inr (toPublicBinding (h (clock_iso app s) b)))
          ((ticked app s)\<lparr>pf_wallets := write_wallet i (h (clock_iso app s) b) (pf_wallets s)\<rparr>)"
  using assms
  by (simp_all add: on_wallets_at_def yields_bind yields_now_iso)
    (simp_all add: yields_def on_wallets_def zoom_def update_wallet_def requireBinding_def)

text \<open>Loops: an invariant over the items already handled, for loops that must return and for loops that may throw.\<close>

lemma yields_fold:
  assumes "Inv [] acc s"
    and "\<And>hd x tl acc s. xs = hd @ x # tl \<Longrightarrow> Inv hd acc s \<Longrightarrow>
      yields (\<lambda>r t. \<exists>acc'. r = Inr acc' \<and> Inv (hd @ [x]) acc' t) (f x acc) s"
  shows "yields (\<lambda>r t. \<exists>acc'. r = Inr acc' \<and> Inv xs acc' t) (fold_act f xs acc) s"
proof -
  have "yields (\<lambda>r t. \<exists>acc'. r = Inr acc' \<and> Inv xs acc' t) (fold_act f tl acc) s"
    if "xs = hd @ tl" "Inv hd acc s" for hd tl acc s
    using that
  proof (induction tl arbitrary: hd acc s)
    case (Cons x tl)
    have "yields (\<lambda>r t. \<exists>acc'. r = Inr acc' \<and> Inv (hd @ [x]) acc' t) (f x acc) s"
      using assms(2) [OF Cons.prems] .
    moreover have "yields (\<lambda>r t. \<exists>acc'. r = Inr acc' \<and> Inv xs acc' t) (fold_act f tl acc') t"
      if "Inv (hd @ [x]) acc' t" for acc' t
      using Cons.IH [of "hd @ [x]" acc' t] Cons.prems(1) that by simp
    ultimately show ?case by (auto simp: wp elim: yields_mono)
  qed (simp add: wp)
  from this [of "[]" xs acc s] assms(1) show ?thesis by simp
qed

lemma yields_fold_partial:
  assumes "Inv [] acc s"
    and "\<And>hd x tl acc s. xs = hd @ x # tl \<Longrightarrow> Inv hd acc s \<Longrightarrow>
      yields (\<lambda>r t. \<forall>acc'. r = Inr acc' \<longrightarrow> Inv (hd @ [x]) acc' t) (f x acc) s"
  shows "yields (\<lambda>r t. \<forall>acc'. r = Inr acc' \<longrightarrow> Inv xs acc' t) (fold_act f xs acc) s"
proof -
  have "yields (\<lambda>r t. \<forall>acc'. r = Inr acc' \<longrightarrow> Inv xs acc' t) (fold_act f tl acc) s"
    if "xs = hd @ tl" "Inv hd acc s" for hd tl acc s
    using that
  proof (induction tl arbitrary: hd acc s)
    case (Cons x tl)
    have "yields (\<lambda>r t. \<forall>acc'. r = Inr acc' \<longrightarrow> Inv (hd @ [x]) acc' t) (f x acc) s"
      using assms(2) [OF Cons.prems] .
    moreover have "yields (\<lambda>r t. \<forall>acc'. r = Inr acc' \<longrightarrow> Inv xs acc' t) (fold_act f tl acc') t"
      if "Inv (hd @ [x]) acc' t" for acc' t
      using Cons.IH [of "hd @ [x]" acc' t] Cons.prems(1) that by simp
    ultimately show ?case by (auto simp: wp elim!: yields_mono split: sum.split)
  qed (simp add: wp)
  from this [of "[]" xs acc s] assms(1) show ?thesis by simp
qed

end
