(* ===== verification/Activation.thy ===== *)
theory Activation
  imports WalletChain
begin

text \<open>
  Activation of virtual wallets: \<open>ActivationGrantService\<close>
  (\<open>src/application/services/activation-grant-service.ts\<close>) sends a new wallet the TRX it needs to
  become active on the chain, \<open>ActivationReclaimService\<close>
  (\<open>src/application/services/activation-reclaim-service.ts\<close>) takes it back once the wallet has
  bandwidth.  A cycle of either sorts the wallets it picks into the lists of its report; the section
  \<open>Cycles\<close> proves that the lists tell the truth about the repository.
\<close>

section \<open>ActivationGrantService\<close>

record grant_options =
  ga_enabled :: bool
  ga_cycleLimit :: int
  ga_amountTrx :: js_number

type_synonym grant_report = "string list \<times> string list"

text \<open>The sync client is called without \<open>await\<close>; only its rejection is seen, by an alert.\<close>

definition grant_sync :: "'w app \<Rightarrow> (virtual_wallet \<Rightarrow> ('w, unit) act) option \<Rightarrow> virtual_wallet
    \<Rightarrow> ('w platform, unit) act" where
  "grant_sync app syncClient binding =
     optionally syncClient (\<lambda>sync.
       catching (on_world (sync binding)) (\<lambda>e.
         notify app (notifyExternalMonitorFailure
           (''wallet verification sync failed for '' @ vw_walletAddress binding @ '': '' @ error_message e))))"

definition grant_one :: "'w app \<Rightarrow> 'w tron_gateway \<Rightarrow> (virtual_wallet \<Rightarrow> ('w, unit) act) option \<Rightarrow> grant_options
    \<Rightarrow> virtual_wallet \<Rightarrow> grant_report \<Rightarrow> ('w platform, grant_report) act" where
  "grant_one app gateway syncClient opts binding report =
     (let (granted, failed) = report; i = vw_virtualWalletId binding in
      catching
        (and_then (lift_result (trx_to_sun (ga_amountTrx opts))) (\<lambda>amount.
         and_then (on_world (tg_broadcastNativeTransfer gateway
            \<lparr>tr_toAddress = vw_walletAddress binding, tr_amount = amount, tr_network = vw_network binding,
             tr_from = None\<rparr>)) (\<lambda>txHash.
         and_then (on_wallets_at app (markActivationGranted i (Some txHash))) (\<lambda>_.
         and_then (grant_sync app syncClient binding) (\<lambda>_.
         ret (granted @ [i], failed))))))
        (\<lambda>e.
         and_then (on_wallets (markActivationFailed i (error_message e))) (\<lambda>_.
         and_then (notify app (notifyActivationGrantFailure (vw_userId binding) (vw_walletAddress binding) (error_message e))) (\<lambda>_.
         ret (granted, failed @ [i])))))"

definition grant_cycle :: "'w app \<Rightarrow> 'w tron_gateway \<Rightarrow> (virtual_wallet \<Rightarrow> ('w, unit) act) option \<Rightarrow> grant_options
    \<Rightarrow> ('w platform, grant_report cycle_result) act" where
  "grant_cycle app gateway syncClient opts =
     (if \<not> ga_enabled opts then ret (Cycle_skipped ''activation grant disabled'')
      else
        and_then (listed_by_activation VA_pending_trx_grant (ga_cycleLimit opts)) (\<lambda>bindings.
        and_then (fold_act (grant_one app gateway syncClient opts) bindings ([], [])) (\<lambda>report.
        ret (Cycle_ran report))))"

section \<open>ActivationReclaimService\<close>

record reclaim_options =
  rg_enabled :: bool
  rg_cycleLimit :: int
  rg_amountTrx :: js_number
  rg_minAvailableBandwidth :: int

record reclaim_report =
  rl_reclaimed :: "string list"
  rl_waiting :: "string list"
  rl_failed :: "string list"

definition reclaim_transfer :: "'w app \<Rightarrow> 'w tron_gateway \<Rightarrow> int \<Rightarrow> virtual_wallet \<Rightarrow> ('w platform, unit) act" where
  "reclaim_transfer app gateway reclaimAmountSun binding =
     and_then (ask (\<lambda>s. getWalletSignerByAddress (vw_walletAddress binding) (vw_currencyId binding)
        (Some (vw_network binding)) (pf_wallets s))) (\<lambda>signer.
       if \<not> truthy (map_option ws_privateKey signer)
       then throw (DomainError 500 ''VIRTUAL_WALLET_SIGNER_NOT_FOUND''
              ''virtual wallet signer is required for activation reclaim'')
       else
         and_then (on_wallets (markActivationReclaimPending (vw_virtualWalletId binding) None)) (\<lambda>_.
         and_then (on_world (tg_broadcastNativeTransfer gateway
            \<lparr>tr_toAddress = vw_sweepTargetAddress binding, tr_amount = reclaimAmountSun,
             tr_network = vw_network binding,
             tr_from = Some (ws_address (the signer), ws_privateKey (the signer))\<rparr>)) (\<lambda>txHash.
         and_then (on_wallets_at app (markActivationReclaimed (vw_virtualWalletId binding) (Some txHash))) (\<lambda>_.
         ret ()))))"

definition reclaim_one :: "'w app \<Rightarrow> 'w tron_gateway \<Rightarrow> reclaim_options \<Rightarrow> int \<Rightarrow> virtual_wallet \<Rightarrow> reclaim_report
    \<Rightarrow> ('w platform, reclaim_report) act" where
  "reclaim_one app gateway opts reclaimAmountSun binding report =
     (let i = vw_virtualWalletId binding in
      and_then (on_world (tg_getAccountResources gateway (vw_walletAddress binding) (vw_network binding))) (\<lambda>resources.
        let availableBandwidth = max 0 (ar_bandwidthLimit resources - ar_bandwidthUsed resources) in
        if availableBandwidth < rg_minAvailableBandwidth opts \<or> ar_trxBalanceSun resources < reclaimAmountSun
        then
          and_then (notify app (notifyActivationReclaimWaiting (vw_userId binding) (vw_walletAddress binding)
             availableBandwidth (json_int (ar_trxBalanceSun resources)) (rg_minAvailableBandwidth opts)
             (json_int reclaimAmountSun))) (\<lambda>_.
          ret (report\<lparr>rl_waiting := rl_waiting report @ [i]\<rparr>))
        else
          catching
            (and_then (reclaim_transfer app gateway reclaimAmountSun binding) (\<lambda>_.
             ret (report\<lparr>rl_reclaimed := rl_reclaimed report @ [i]\<rparr>)))
            (\<lambda>e.
             and_then (on_wallets (markActivationFailed i (error_message e))) (\<lambda>_.
             and_then (notify app (notifyActivationReclaimFailure (vw_userId binding) (vw_walletAddress binding)
                (error_message e))) (\<lambda>_.
             ret (report\<lparr>rl_failed := rl_failed report @ [i]\<rparr>))))))"

definition reclaim_cycle :: "'w app \<Rightarrow> 'w tron_gateway \<Rightarrow> reclaim_options
    \<Rightarrow> ('w platform, reclaim_report cycle_result) act" where
  "reclaim_cycle app gateway opts =
     (if \<not> rg_enabled opts then ret (Cycle_skipped ''activation reclaim disabled'')
      else
        and_then (listed_by_activation VA_trx_granted (rg_cycleLimit opts)) (\<lambda>bindings.
        and_then (lift_result (trx_to_sun (rg_amountTrx opts))) (\<lambda>reclaimAmountSun.
        and_then (fold_act (reclaim_one app gateway opts reclaimAmountSun) bindings
           \<lparr>rl_reclaimed = [], rl_waiting = [], rl_failed = []\<rparr>) (\<lambda>report.
        ret (Cycle_ran report)))))"

context wallet_relation
begin

lemma run_grant_cycle [run_rules]: "keeps R (grant_cycle app gateway syncClient opts)"
  unfolding grant_cycle_def grant_one_def grant_sync_def Let_def by (intro run_rules)

lemma run_reclaim_cycle [run_rules]: "keeps R (reclaim_cycle app gateway opts)"
  unfolding reclaim_cycle_def reclaim_one_def reclaim_transfer_def Let_def by (intro run_rules)

end

section \<open>What one wallet goes through\<close>

definition was_granted :: "stored_wallet \<Rightarrow> bool" where
  "was_granted b = (vw_activationStatus b = VA_trx_granted \<and> vw_activationGrantTxHash b \<noteq> None \<and> vw_activationLastError b = None)"

definition was_reclaimed :: "stored_wallet \<Rightarrow> bool" where
  "was_reclaimed b = (vw_activationStatus b = VA_reclaimed \<and> vw_activationReclaimTxHash b \<noteq> None \<and> vw_activationLastError b = None)"

definition activation_failed :: "stored_wallet \<Rightarrow> bool" where
  "activation_failed b = (vw_activationStatus b = VA_failed \<and> vw_activationLastError b \<noteq> None)"

lemma activation_marks:
  "markActivationGranted i h = (\<lambda>nowIso. update_wallet i (\<lambda>b. b\<lparr>vw_activationStatus := VA_trx_granted,
     vw_activationGrantTxHash := h, vw_activationGrantedAt := Some nowIso, vw_activationLastError := None\<rparr>))"
  "markActivationReclaimed i h = (\<lambda>nowIso. update_wallet i (\<lambda>b. b\<lparr>vw_activationStatus := VA_reclaimed,
     vw_activationReclaimTxHash := h, vw_activationReclaimedAt := Some nowIso, vw_activationLastError := None\<rparr>))"
  "markActivationReclaimPending i h = update_wallet i (\<lambda>b. b\<lparr>vw_activationStatus := VA_reclaim_pending,
     vw_activationReclaimTxHash := h, vw_activationLastError := None\<rparr>)"
  "markActivationFailed i msg = update_wallet i (\<lambda>b. b\<lparr>vw_activationStatus := VA_failed, vw_activationLastError := Some msg\<rparr>)"
  by (simp_all add: fun_eq_iff markActivationGranted_def markActivationReclaimPending_def markActivationReclaimed_def
      markActivationFailed_def)

lemmas wallet_outcomes = wallet_follows_def same_wallet_def was_granted_def was_reclaimed_def activation_failed_def

lemma yields_grant_sync:
  assumes "\<And>t. pf_wallets t = pf_wallets s \<Longrightarrow> P (Inr ()) t"
  shows "yields P (grant_sync app syncClient x) s"
  by (simp add: grant_sync_def wp assms split: option.split sum.split)

text \<open>The only wallet that changes is \<open>i\<close>, and it becomes \<open>c\<close>.\<close>

definition only_wallet :: "string \<Rightarrow> stored_wallet \<Rightarrow> 'w platform \<Rightarrow> 'w platform \<Rightarrow> bool" where
  "only_wallet i c s t = (\<forall>j. map_get (walletById (pf_wallets t)) j
     = (if j = i then Some c else map_get (walletById (pf_wallets s)) j))"

lemma grant_one_effect:
  assumes "map_get (walletById (pf_wallets s)) (vw_virtualWalletId x) = Some b"
  shows "yields (\<lambda>r t. \<exists>report c. r = Inr report \<and> only_wallet (vw_virtualWalletId x) c s t \<and> wallet_follows b c \<and>
      (report = (g @ [vw_virtualWalletId x], f) \<and> was_granted c \<or>
       report = (g, f @ [vw_virtualWalletId x]) \<and> activation_failed c))
    (grant_one app gateway syncClient opts x (g, f)) s"
  using assms
  by (auto simp: grant_one_def Let_def wp activation_marks yields_update_wallet only_wallet_def wallet_outcomes
      intro!: yields_grant_sync split: sum.split)

lemma reclaim_one_effect:
  assumes "map_get (walletById (pf_wallets s)) (vw_virtualWalletId x) = Some b"
  shows "yields (\<lambda>r t. \<forall>report'. r = Inr report' \<longrightarrow>
      report' = report\<lparr>rl_waiting := rl_waiting report @ [vw_virtualWalletId x]\<rparr> \<and> pf_wallets t = pf_wallets s \<or>
      (\<exists>c. only_wallet (vw_virtualWalletId x) c s t \<and> wallet_follows b c \<and>
        (report' = report\<lparr>rl_reclaimed := rl_reclaimed report @ [vw_virtualWalletId x]\<rparr> \<and> was_reclaimed c \<or>
         report' = report\<lparr>rl_failed := rl_failed report @ [vw_virtualWalletId x]\<rparr> \<and> activation_failed c)))
    (reclaim_one app gateway opts amount x report) s"
  using assms
  by (auto simp: reclaim_one_def reclaim_transfer_def Let_def wp activation_marks yields_update_wallet only_wallet_def
      wallet_outcomes split: sum.split)

section \<open>Cycles\<close>

text \<open>The ids of the listed wallets are distinct and stored.\<close>

lemma listed_stored:
  assumes "repo_ok newId r" and "x \<in> set (listVirtualWalletsByActivationStatus st n r)"
  shows "\<exists>b. map_get (walletById r) (vw_virtualWalletId x) = Some b \<and> vw_status b = VW_active \<and>
    vw_activationStatus b = st \<and> x = toPublicBinding b"
  using assms(2) address_values_stored(1) [OF assms(1)]
  by (auto simp: listVirtualWalletsByActivationStatus_def slice0_def toPublicBinding_def dest!: in_set_takeD in_set_dropD split: if_splits)

lemma listed_distinct:
  assumes "repo_ok newId r"
  shows "distinct (map vw_virtualWalletId (listVirtualWalletsByActivationStatus st n r))"
proof -
  let ?xs = "sort_asc vw_createdAt (filter (\<lambda>b. vw_status b = VW_active \<and> vw_activationStatus b = st) (address_values r))"
  have "distinct (map vw_virtualWalletId ?xs)"
    unfolding distinct_sort_asc by (rule distinct_map_filter [OF address_values_stored(2) [OF assms]])
  then have "distinct (map vw_virtualWalletId (slice0 n ?xs))"
    by (auto simp: slice0_def take_map [symmetric])
  then show ?thesis by (simp add: listVirtualWalletsByActivationStatus_def o_def toPublicBinding_def)
qed

text \<open>The next wallet of a listing: it has not been handled, and it is stored.\<close>

lemma listed_next:
  assumes "repo_ok newId r" and "listVirtualWalletsByActivationStatus st n r = hs @ x # ts"
  shows "vw_virtualWalletId x \<notin> set (map vw_virtualWalletId hs)"
    and "\<exists>b. map_get (walletById r) (vw_virtualWalletId x) = Some b"
  using listed_distinct [OF assms(1), of st n] listed_stored [OF assms(1), of x st n] assms(2) by auto

text \<open>
  A column of a report: its wallets have had the outcome \<open>Q\<close>.  The wallets outside \<open>A\<close> are as they were.
\<close>

definition column :: "(stored_wallet \<Rightarrow> bool) \<Rightarrow> string list \<Rightarrow> 'w platform \<Rightarrow> bool" where
  "column Q l t = (\<forall>i \<in> set l. \<exists>c. map_get (walletById (pf_wallets t)) i = Some c \<and> Q c)"

definition others_same :: "string set \<Rightarrow> 'w platform \<Rightarrow> 'w platform \<Rightarrow> bool" where
  "others_same A s t = (\<forall>i. i \<notin> A \<longrightarrow> map_get (walletById (pf_wallets t)) i = map_get (walletById (pf_wallets s)) i)"

lemma column_step:
  assumes "column Q l t" and "only_wallet i c t u" and "i \<notin> set l"
  shows "column Q l u" and "Q c \<Longrightarrow> column Q (l @ [i]) u"
  using assms by (auto simp: column_def only_wallet_def)

lemma column_same: "column Q l t \<Longrightarrow> pf_wallets u = pf_wallets t \<Longrightarrow> column Q l u"
  by (simp add: column_def)

lemma column_Nil: "column Q [] t"
  by (simp add: column_def)

lemma others_same_step: "others_same A s t \<Longrightarrow> only_wallet i c t u \<Longrightarrow> others_same (insert i A) s u"
  by (auto simp: others_same_def only_wallet_def)

lemma others_same_refl: "others_same A s s"
  by (simp add: others_same_def)

lemma others_sameD:
  "others_same A s t \<Longrightarrow> i \<notin> A \<Longrightarrow> map_get (walletById (pf_wallets t)) i = map_get (walletById (pf_wallets s)) i"
  by (simp add: others_same_def)

text \<open>
  A grant cycle never throws; it sorts the wallets it picked into granted and failed ones, and the
  repository says the same of each.
\<close>

definition grants_sorted :: "'w platform \<Rightarrow> virtual_wallet list \<Rightarrow> grant_report \<Rightarrow> 'w platform \<Rightarrow> bool" where
  "grants_sorted s handled report t =
     (distinct (fst report @ snd report) \<and> set (fst report @ snd report) = set (map vw_virtualWalletId handled) \<and>
      column was_granted (fst report) t \<and> column activation_failed (snd report) t \<and>
      others_same (set (map vw_virtualWalletId handled)) s t)"

lemma grant_cycle_effect:
  assumes ok: "repo_ok newId (pf_wallets s)" and on: "ga_enabled opts"
  shows "\<exists>report t. grant_cycle app gateway syncClient opts s = (Inr (Cycle_ran report), t) \<and>
    grants_sorted s (listVirtualWalletsByActivationStatus VA_pending_trx_grant (ga_cycleLimit opts) (pf_wallets s)) report t"
proof -
  let ?xs = "listVirtualWalletsByActivationStatus VA_pending_trx_grant (ga_cycleLimit opts) (pf_wallets s)"
  have "yields (\<lambda>r t. \<exists>report. r = Inr report \<and> grants_sorted s ?xs report t)
      (fold_act (grant_one app gateway syncClient opts) ?xs ([], [])) s"
  proof (rule yields_fold [where Inv = "grants_sorted s"])
    show "grants_sorted s [] ([], []) s" by (simp add: grants_sorted_def column_Nil others_same_refl)
    fix hs x ts report and t :: "'a platform"
    assume xs: "?xs = hs @ x # ts" and inv: "grants_sorted s hs report t"
    let ?i = "vw_virtualWalletId x"
    note new = listed_next(1) [OF ok xs]
    have fresh: "?i \<notin> set (fst report)" "?i \<notin> set (snd report)" using inv new unfolding grants_sorted_def by auto
    obtain b where b: "map_get (walletById (pf_wallets t)) ?i = Some b"
      using inv new listed_next(2) [OF ok xs] others_sameD unfolding grants_sorted_def by metis
    show "yields (\<lambda>r u. \<exists>report'. r = Inr report' \<and> grants_sorted s (hs @ [x]) report' u)
        (grant_one app gateway syncClient opts x report) t"
    proof (cases report, simp only:, rule yields_mono [OF grant_one_effect [OF b]], elim exE conjE)
      fix g f r u report' c
      assume report: "report = (g, f)" and r: "r = Inr report'" and step: "only_wallet ?i c t u"
        and out: "report' = (g @ [?i], f) \<and> was_granted c \<or> report' = (g, f @ [?i]) \<and> activation_failed c"
      have "column was_granted g t" "column activation_failed f t" "others_same (set (map vw_virtualWalletId hs)) s t"
        using inv by (simp_all add: grants_sorted_def report)
      note columns = column_step [OF this(1) step] column_step [OF this(2) step] others_same_step [OF this(3) step]
      have "set (fst report' @ snd report') = insert ?i (set (g @ f))" "distinct (fst report' @ snd report')"
        using out inv fresh by (auto simp: grants_sorted_def report)
      moreover have "set (g @ f) = set (map vw_virtualWalletId hs)" using inv by (simp add: grants_sorted_def report)
      ultimately show "\<exists>report'. r = Inr report' \<and> grants_sorted s (hs @ [x]) report' u"
        using out columns fresh r by (intro exI [of _ report']) (auto simp: grants_sorted_def report)
    qed
  qed
  then obtain report t where "fold_act (grant_one app gateway syncClient opts) ?xs ([], []) s = (Inr report, t)"
    and I: "grants_sorted s ?xs report t" by (auto elim!: yieldsE)
  then have "grant_cycle app gateway syncClient opts s = (Inr (Cycle_ran report), t)"
    by (simp add: grant_cycle_def on listed_by_activation_def and_then_def)
  with I show ?thesis by blast
qed

text \<open>
  A reclaim cycle can throw, when the resources of a wallet cannot be read; when it returns, its report
  is true in the same sense, and a waiting wallet is untouched.
\<close>

definition reclaims_sorted :: "'w platform \<Rightarrow> virtual_wallet list \<Rightarrow> reclaim_report \<Rightarrow> 'w platform \<Rightarrow> bool" where
  "reclaims_sorted s handled report t =
     (distinct (rl_reclaimed report @ rl_waiting report @ rl_failed report) \<and>
      set (rl_reclaimed report @ rl_waiting report @ rl_failed report) = set (map vw_virtualWalletId handled) \<and>
      column was_reclaimed (rl_reclaimed report) t \<and> column activation_failed (rl_failed report) t \<and>
      others_same (set (rl_reclaimed report) \<union> set (rl_failed report)) s t)"

lemma reclaim_cycle_effect:
  assumes ok: "repo_ok newId (pf_wallets s)" and run: "reclaim_cycle app gateway opts s = (Inr (Cycle_ran report), t)"
  shows "reclaims_sorted s (listVirtualWalletsByActivationStatus VA_trx_granted (rg_cycleLimit opts) (pf_wallets s)) report t"
proof -
  let ?xs = "listVirtualWalletsByActivationStatus VA_trx_granted (rg_cycleLimit opts) (pf_wallets s)"
  have loop: "yields (\<lambda>r t. \<forall>rep. r = Inr rep \<longrightarrow> reclaims_sorted s ?xs rep t)
      (fold_act (reclaim_one app gateway opts amount) ?xs \<lparr>rl_reclaimed = [], rl_waiting = [], rl_failed = []\<rparr>) s" for amount
  proof (rule yields_fold_partial [where Inv = "reclaims_sorted s"])
    show "reclaims_sorted s [] \<lparr>rl_reclaimed = [], rl_waiting = [], rl_failed = []\<rparr> s"
      by (simp add: reclaims_sorted_def column_Nil others_same_refl)
    fix hs x ts rep and t :: "'a platform"
    assume xs: "?xs = hs @ x # ts" and inv: "reclaims_sorted s hs rep t"
    let ?i = "vw_virtualWalletId x"
    have fresh: "?i \<notin> set (rl_reclaimed rep)" "?i \<notin> set (rl_waiting rep)" "?i \<notin> set (rl_failed rep)"
      using inv listed_next(1) [OF ok xs] unfolding reclaims_sorted_def by auto
    obtain b where b: "map_get (walletById (pf_wallets t)) ?i = Some b"
      using inv fresh listed_next(2) [OF ok xs] others_sameD unfolding reclaims_sorted_def by (metis Un_iff)
    have cols: "column was_reclaimed (rl_reclaimed rep) t" "column activation_failed (rl_failed rep) t"
      "others_same (set (rl_reclaimed rep) \<union> set (rl_failed rep)) s t"
      and sets: "set (rl_reclaimed rep @ rl_waiting rep @ rl_failed rep) = set (map vw_virtualWalletId hs)"
      and dist: "distinct (rl_reclaimed rep @ rl_waiting rep @ rl_failed rep)"
      using inv by (simp_all add: reclaims_sorted_def)
    show "yields (\<lambda>r u. \<forall>rep'. r = Inr rep' \<longrightarrow> reclaims_sorted s (hs @ [x]) rep' u) (reclaim_one app gateway opts amount x rep) t"
    proof (rule yields_mono [OF reclaim_one_effect [OF b]], intro allI impI, elim allE, erule (1) impE, elim disjE exE conjE)
      fix rep' and u :: "'a platform"
      assume "rep' = rep\<lparr>rl_waiting := rl_waiting rep @ [?i]\<rparr>" "pf_wallets u = pf_wallets t"
      then show "reclaims_sorted s (hs @ [x]) rep' u"
        using column_same [OF cols(1)] column_same [OF cols(2)] cols(3) sets dist fresh
        by (auto simp: reclaims_sorted_def others_same_def)
    next
      fix rep' c and u :: "'a platform"
      assume "rep' = rep\<lparr>rl_reclaimed := rl_reclaimed rep @ [?i]\<rparr>" "was_reclaimed c" "only_wallet ?i c t u"
      then show "reclaims_sorted s (hs @ [x]) rep' u"
        using column_step [OF cols(1)] column_step [OF cols(2)] others_same_step [OF cols(3)] sets dist fresh
        by (auto simp: reclaims_sorted_def)
    next
      fix rep' c and u :: "'a platform"
      assume "rep' = rep\<lparr>rl_failed := rl_failed rep @ [?i]\<rparr>" "activation_failed c" "only_wallet ?i c t u"
      then show "reclaims_sorted s (hs @ [x]) rep' u"
        using column_step [OF cols(1)] column_step [OF cols(2)] others_same_step [OF cols(3)] sets dist fresh
        by (auto simp: reclaims_sorted_def)
    qed
  qed
  obtain amount where "fold_act (reclaim_one app gateway opts amount) ?xs \<lparr>rl_reclaimed = [], rl_waiting = [], rl_failed = []\<rparr> s
      = (Inr report, t)"
    using run by (auto simp: reclaim_cycle_def listed_by_activation_def and_then_succeeds lift_result_def split: if_splits)
  from yieldsD [OF loop this] show ?thesis by simp
qed

end
