(* ===== verification/ResourceDelegation.thy ===== *)
theory ResourceDelegation
  imports Activation
begin

text \<open>
  \<open>ResourceDelegationService\<close> (\<open>src/application/services/resource-delegation-service.ts\<close>): a cycle
  lends energy and bandwidth of the hot wallet to the source wallets of queued sweeps and takes them
  back from wallets whose sweeps are settled.
\<close>

record delegation_options =
  do_enabled :: bool
  do_cycleLimit :: int
  do_bandwidthAmountSun :: int
  do_energyAmountSun :: int
  do_hotWalletAddress :: string

datatype delegation_outcome = DO_delegated | DO_released | DO_waiting | DO_failed | DO_skipped

record delegation_report =
  dr_delegated :: "string list"
  dr_released :: "string list"
  dr_waiting :: "string list"
  dr_failed :: "string list"

definition delegation_items :: "delegation_options \<Rightarrow> (resource_type \<times> int) list" where
  "delegation_items opts =
     (if 0 < do_bandwidthAmountSun opts then [(RT_bandwidth, do_bandwidthAmountSun opts)] else []) @
     (if 0 < do_energyAmountSun opts then [(RT_energy, do_energyAmountSun opts)] else [])"

text \<open>The first resource of which less can be delegated than is needed, with what is needed and available.\<close>

primrec first_lacking :: "'w tron_gateway \<Rightarrow> string \<Rightarrow> network \<Rightarrow> (resource_type \<times> int) list
    \<Rightarrow> ('w platform, (resource_type \<times> int \<times> int) option) act" where
  "first_lacking gateway hot network [] = ret None"
| "first_lacking gateway hot network (item # items) =
     and_then (on_world (tg_getCanDelegatedMaxSize gateway hot (fst item) network)) (\<lambda>delegatable.
       if delegatable < snd item then ret (Some (fst item, snd item, delegatable))
       else first_lacking gateway hot network items)"

definition delegate_binding :: "'w app \<Rightarrow> 'w tron_gateway \<Rightarrow> delegation_options \<Rightarrow> virtual_wallet
    \<Rightarrow> ('w platform, delegation_outcome) act" where
  "delegate_binding app gateway opts b =
     (let i = vw_virtualWalletId b; items = delegation_items opts in
      and_then (on_wallets (markResourceDelegatePending i)) (\<lambda>_.
      and_then (first_lacking gateway (do_hotWalletAddress opts) (vw_network b) items) (\<lambda>lacking.
        case lacking of
          Some (resource, required, available) \<Rightarrow>
            and_then (on_wallets (markResourceFailed i
               (resource_type_name resource @ '' delegatable stake is below required amount''))) (\<lambda>_.
            and_then (notify app (notifyResourceDelegationWaiting (vw_userId b) (vw_walletAddress b)
               (resource_type_name resource) (json_int required) (json_int available))) (\<lambda>_.
            ret DO_waiting))
        | None \<Rightarrow>
            and_then (for_each (\<lambda>(resource, amountSun).
               and_then (on_world (tg_delegateResource gateway
                 \<lparr>dg_receiverAddress = vw_walletAddress b, dg_amountSun = amountSun, dg_resource = resource,
                  dg_network = vw_network b, dg_fromAddress = do_hotWalletAddress opts\<rparr>)) (\<lambda>_. ret ())) items) (\<lambda>_.
            and_then (on_wallets_at app (markResourceDelegated i)) (\<lambda>_.
            ret DO_delegated)))))"

definition delegateForAddress :: "'w app \<Rightarrow> 'w tron_gateway \<Rightarrow> delegation_options \<Rightarrow> string
    \<Rightarrow> ('w platform, delegation_outcome) act" where
  "delegateForAddress app gateway opts sourceAddress =
     and_then (inspect (\<lambda>s. getVirtualWallet None (Some sourceAddress) (pf_wallets s))) (\<lambda>binding.
       case binding of
         None \<Rightarrow> ret DO_skipped
       | Some b \<Rightarrow>
           if vw_status b \<noteq> VW_active \<or> vw_activationStatus b \<noteq> VA_reclaimed then ret DO_skipped
           else if vw_resourceStatus b = VR_delegated \<or> vw_resourceStatus b = VR_release_pending then ret DO_skipped
           else
             catching (delegate_binding app gateway opts b) (\<lambda>e.
               and_then (on_wallets (markResourceFailed (vw_virtualWalletId b) (error_message e))) (\<lambda>_.
               and_then (notify app (notifyResourceDelegationFailure (vw_userId b) (vw_walletAddress b) (error_message e))) (\<lambda>_.
               ret DO_failed))))"

definition release_binding :: "'w app \<Rightarrow> 'w tron_gateway \<Rightarrow> delegation_options \<Rightarrow> virtual_wallet
    \<Rightarrow> ('w platform, delegation_outcome) act" where
  "release_binding app gateway opts b =
     and_then (on_wallets (markResourceReleasePending (vw_virtualWalletId b))) (\<lambda>_.
     and_then (for_each (\<lambda>resource.
        and_then (on_world (tg_getDelegatedResource gateway (do_hotWalletAddress opts) (vw_walletAddress b)
           resource (vw_network b))) (\<lambda>delegatedAmount.
          if delegatedAmount \<le> 0 then ret ()
          else
            and_then (on_world (tg_undelegateResource gateway
              \<lparr>dg_receiverAddress = vw_walletAddress b, dg_amountSun = delegatedAmount, dg_resource = resource,
               dg_network = vw_network b, dg_fromAddress = do_hotWalletAddress opts\<rparr>)) (\<lambda>_. ret ())))
        [RT_bandwidth, RT_energy]) (\<lambda>_.
     and_then (on_wallets_at app (markResourceReleased (vw_virtualWalletId b))) (\<lambda>_.
     ret DO_released)))"

definition releaseForAddress :: "'w app \<Rightarrow> 'w tron_gateway \<Rightarrow> delegation_options \<Rightarrow> string
    \<Rightarrow> ('w platform, delegation_outcome) act" where
  "releaseForAddress app gateway opts sourceAddress =
     and_then (inspect (\<lambda>s. getVirtualWallet None (Some sourceAddress) (pf_wallets s))) (\<lambda>binding.
       case binding of
         None \<Rightarrow> ret DO_skipped
       | Some b \<Rightarrow>
           if vw_status b \<noteq> VW_active then ret DO_skipped
           else if vw_resourceStatus b \<noteq> VR_delegated \<and> vw_resourceStatus b \<noteq> VR_release_pending then ret DO_skipped
           else
             catching (release_binding app gateway opts b) (\<lambda>e.
               and_then (on_wallets (markResourceFailed (vw_virtualWalletId b) (error_message e))) (\<lambda>_.
               and_then (notify app (notifyResourceReleaseFailure (vw_userId b) (vw_walletAddress b) (error_message e))) (\<lambda>_.
               ret DO_failed))))"

text \<open>\<open>[...new Set(addresses.filter(Boolean))]\<close>.\<close>

definition uniqueAddresses :: "string list \<Rightarrow> string list" where
  "uniqueAddresses addresses = rev (remdups (rev (filter truthy_str addresses)))"

definition delegate_and_report :: "'w app \<Rightarrow> 'w tron_gateway \<Rightarrow> delegation_options \<Rightarrow> string \<Rightarrow> delegation_report
    \<Rightarrow> ('w platform, delegation_report) act" where
  "delegate_and_report app gateway opts a report =
     and_then (delegateForAddress app gateway opts a) (\<lambda>result.
       ret (if result = DO_delegated then report\<lparr>dr_delegated := dr_delegated report @ [a]\<rparr>
            else if result = DO_waiting then report\<lparr>dr_waiting := dr_waiting report @ [a]\<rparr>
            else if result = DO_failed then report\<lparr>dr_failed := dr_failed report @ [a]\<rparr>
            else report))"

definition release_and_report :: "'w app \<Rightarrow> 'w tron_gateway \<Rightarrow> delegation_options \<Rightarrow> string set \<Rightarrow> string
    \<Rightarrow> delegation_report \<Rightarrow> ('w platform, delegation_report) act" where
  "release_and_report app gateway opts activeSourceAddresses a report =
     (if a \<in> activeSourceAddresses then ret report
      else
        and_then (releaseForAddress app gateway opts a) (\<lambda>result.
          ret (if result = DO_released then report\<lparr>dr_released := dr_released report @ [a]\<rparr>
               else if result = DO_failed then report\<lparr>dr_failed := dr_failed report @ [a]\<rparr>
               else report)))"

definition delegation_cycle :: "'w app \<Rightarrow> 'w tron_gateway \<Rightarrow> delegation_options
    \<Rightarrow> ('w platform, delegation_report cycle_result) act" where
  "delegation_cycle app gateway opts =
     (if \<not> do_enabled opts then ret (Cycle_skipped ''resource delegation disabled'')
      else
        and_then (ask_ledger (listSweepRecordsByStatuses [SW_queued] (do_cycleLimit opts))) (\<lambda>queuedSweeps.
        and_then (ask_ledger (listSweepRecordsByStatuses [SW_confirmed, SW_failed] (do_cycleLimit opts))) (\<lambda>settledSweeps.
        and_then (ask_ledger (listSweepRecordsByStatuses [SW_queued, SW_broadcasted] (do_cycleLimit opts * 5))) (\<lambda>activeSweeps.
        and_then (fold_act (delegate_and_report app gateway opts)
           (uniqueAddresses (map sw_sourceAddress queuedSweeps))
           \<lparr>dr_delegated = [], dr_released = [], dr_waiting = [], dr_failed = []\<rparr>) (\<lambda>report.
        and_then (fold_act (release_and_report app gateway opts (set (map sw_sourceAddress activeSweeps)))
           (uniqueAddresses (map sw_sourceAddress settledSweeps)) report) (\<lambda>report.
        ret (Cycle_ran report)))))))"

section \<open>Relations\<close>

context platform_relation
begin

lemma run_first_lacking [run_rules]: "keeps R (first_lacking gateway hot net items)"
  by (induction items; unfold first_lacking.simps; intro run_rules)

end

context wallet_relation
begin

lemma run_delegation_cycle [run_rules]: "keeps R (delegation_cycle app gateway opts)"
  unfolding delegation_cycle_def delegate_and_report_def release_and_report_def delegateForAddress_def releaseForAddress_def
    delegate_binding_def release_binding_def Let_def
  by (intro run_rules run_wallet_mark)

end

section \<open>What one address goes through\<close>

lemma resource_marks:
  "markResourceDelegatePending i = update_wallet i (\<lambda>b. b\<lparr>vw_resourceStatus := VR_delegate_pending, vw_resourceLastError := None\<rparr>)"
  "markResourceDelegated i = (\<lambda>nowIso. update_wallet i (\<lambda>b. b\<lparr>vw_resourceStatus := VR_delegated,
     vw_resourceDelegatedAt := Some nowIso, vw_resourceLastError := None\<rparr>))"
  "markResourceReleasePending i = update_wallet i (\<lambda>b. b\<lparr>vw_resourceStatus := VR_release_pending, vw_resourceLastError := None\<rparr>)"
  "markResourceReleased i = (\<lambda>nowIso. update_wallet i (\<lambda>b. b\<lparr>vw_resourceStatus := VR_released,
     vw_resourceReleasedAt := Some nowIso, vw_resourceLastError := None\<rparr>))"
  "markResourceFailed i msg = update_wallet i (\<lambda>b. b\<lparr>vw_resourceStatus := VR_failed, vw_resourceLastError := Some msg\<rparr>)"
  by (simp_all add: fun_eq_iff markResourceDelegatePending_def markResourceDelegated_def markResourceReleasePending_def
      markResourceReleased_def markResourceFailed_def)

text \<open>A method that leaves the wallets alone has only its result to offer.\<close>

lemma yields_unchanged:
  assumes "keeps (unchanged config_of) m" and "\<And>r t. pf_wallets t = pf_wallets s \<Longrightarrow> P r t"
  shows "yields P m s"
  using keepsD [OF assms(1), of s] assms(2) by (auto simp: yields_def unchanged_def config_of_def split: prod.split)

definition resource_outcome :: "delegation_outcome \<Rightarrow> stored_wallet \<Rightarrow> bool" where
  "resource_outcome res c =
     (case res of
        DO_delegated \<Rightarrow> vw_resourceStatus c = VR_delegated \<and> vw_resourceLastError c = None
      | DO_released \<Rightarrow> vw_resourceStatus c = VR_released \<and> vw_resourceLastError c = None
      | DO_waiting \<Rightarrow> vw_resourceStatus c = VR_failed \<and> vw_resourceLastError c \<noteq> None
      | DO_failed \<Rightarrow> vw_resourceStatus c = VR_failed \<and> vw_resourceLastError c \<noteq> None
      | DO_skipped \<Rightarrow> False)"

text \<open>
  The calls of one binding end with a mark that fits their outcome, or throw with the wallet still
  stored; the catch then marks it as failed.
\<close>

definition bound_run :: "string \<Rightarrow> stored_wallet \<Rightarrow> 'w platform \<Rightarrow> js_error + delegation_outcome \<Rightarrow> 'w platform \<Rightarrow> bool" where
  "bound_run i b s r t = (\<exists>c. only_wallet i c s t \<and> wallet_follows b c \<and> (\<forall>res. r = Inr res \<longrightarrow> resource_outcome res c))"

lemmas resource_simps = bound_run_def only_wallet_def wallet_follows_def same_wallet_def resource_outcome_def

lemma delegate_binding_effect:
  assumes "map_get (walletById (pf_wallets s)) (vw_virtualWalletId x) = Some b"
  shows "yields (bound_run (vw_virtualWalletId x) b s) (delegate_binding app gateway opts x) s"
proof -
  let ?i = "vw_virtualWalletId x"
  let ?c = "b\<lparr>vw_resourceStatus := VR_delegate_pending, vw_resourceLastError := None\<rparr>"
  have pending: "map_get (walletById (pf_wallets t)) ?i = Some ?c"
    if "pf_wallets t = write_wallet ?i ?c (pf_wallets s)" for t :: "'a platform"
    using that by simp
  show ?thesis
    unfolding delegate_binding_def Let_def yields_bind resource_marks yields_update_wallet(1) [OF assms] sum.case
  proof (rule yields_unchanged, goal_cases)
    case 1
    then show ?case by (rule pc.run_first_lacking)
  next
    case (2 r t)
    note st = pending [of t]
    have delegated: "yields (bound_run ?i b s)
        (and_then (for_each (\<lambda>(resource, amountSun).
               and_then (on_world (tg_delegateResource gateway
                 \<lparr>dg_receiverAddress = vw_walletAddress x, dg_amountSun = amountSun, dg_resource = resource,
                  dg_network = vw_network x, dg_fromAddress = do_hotWalletAddress opts\<rparr>)) (\<lambda>_. ret ())) (delegation_items opts)) (\<lambda>_.
            and_then (on_wallets_at app (markResourceDelegated ?i)) (\<lambda>_. ret DO_delegated))) t"
      unfolding yields_bind
    proof (rule yields_unchanged, goal_cases)
      case 1
      show ?case by (intro run_rules)
    next
      case (2 r u)
      then show ?case
        using st \<open>pf_wallets t = _\<close>
        by (auto simp: resource_marks yields_update_wallet [of u ?i ?c] wp resource_simps split: sum.split)
    qed
    show ?case
      using 2 st delegated
      by (auto simp: wp yields_update_wallet resource_simps resource_marks split: sum.split option.split)
  qed
qed

lemma release_binding_effect:
  assumes "map_get (walletById (pf_wallets s)) (vw_virtualWalletId x) = Some b"
  shows "yields (bound_run (vw_virtualWalletId x) b s) (release_binding app gateway opts x) s"
proof -
  let ?i = "vw_virtualWalletId x"
  let ?c = "b\<lparr>vw_resourceStatus := VR_release_pending, vw_resourceLastError := None\<rparr>"
  show ?thesis
    unfolding release_binding_def Let_def yields_bind resource_marks yields_update_wallet(1) [OF assms] sum.case
  proof (rule yields_unchanged, goal_cases)
    case 1
    show ?case by (intro run_rules)
  next
    case (2 r t)
    then have "map_get (walletById (pf_wallets t)) ?i = Some ?c" by simp
    with 2 show ?case
      by (auto simp: wp yields_update_wallet [of t ?i ?c] resource_simps split: sum.split)
  qed
qed

text \<open>The catch of both: the wallet fails with the error.\<close>

lemma failure_outcome:
  assumes "bound_run i b s (Inl e) t"
  shows "yields (\<lambda>r u. r = Inr DO_failed \<and> bound_run i b s r u)
    (and_then (on_wallets (markResourceFailed i msg)) (\<lambda>_. and_then (notify app a) (\<lambda>_. ret DO_failed))) t"
proof -
  obtain c where c: "only_wallet i c s t" "wallet_follows b c" using assms by (auto simp: bound_run_def)
  then have st: "map_get (walletById (pf_wallets t)) i = Some c" by (simp add: only_wallet_def)
  let ?d = "c\<lparr>vw_resourceStatus := VR_failed, vw_resourceLastError := Some msg\<rparr>"
  have "only_wallet i ?d s (alerted app a (t\<lparr>pf_wallets := write_wallet i ?d (pf_wallets t)\<rparr>))"
    using c(1) by (simp add: only_wallet_def)
  moreover have "wallet_follows b ?d" using c(2) by (simp add: wallet_follows_def same_wallet_def)
  moreover have "resource_outcome DO_failed ?d" by (simp add: resource_outcome_def)
  ultimately show ?thesis
    unfolding yields_bind resource_marks yields_update_wallet(1) [OF st] sum.case yields_notify yields_basic bound_run_def
    by blast
qed

text \<open>
  At an address: nothing happens to a wallet that is not eligible; otherwise exactly the wallet at the
  address changes, and it shows the outcome.  Nothing is thrown.
\<close>

definition address_run :: "string \<Rightarrow> (stored_wallet \<Rightarrow> bool) \<Rightarrow> 'w platform \<Rightarrow> js_error + delegation_outcome \<Rightarrow> 'w platform \<Rightarrow> bool" where
  "address_run a eligible s r t =
     (\<exists>res. r = Inr res \<and>
       (if res = DO_skipped then pf_wallets t = pf_wallets s
        else \<exists>b c. wallet_at (pf_wallets s) (map_get (walletByAddress (pf_wallets s)) a) = Some b \<and> eligible b \<and>
          only_wallet (vw_virtualWalletId b) c s t \<and> wallet_follows b c \<and> resource_outcome res c))"

lemma stored_at:
  assumes "repo_ok newId r" and "wallet_at r (map_get (walletByAddress r) a) = Some b"
  shows "map_get (walletById r) (vw_virtualWalletId b) = Some b" and "vw_walletAddress b = a"
  using assms(2) repo_okD(1,5) [OF assms(1)] by (fastforce simp: wallet_at_def bind_eq_Some_conv)+

lemma toPublic_sel [simp]:
  "vw_virtualWalletId (toPublicBinding b) = vw_virtualWalletId b" "vw_status (toPublicBinding b) = vw_status b"
  "vw_activationStatus (toPublicBinding b) = vw_activationStatus b" "vw_resourceStatus (toPublicBinding b) = vw_resourceStatus b"
  by (simp_all add: toPublicBinding_def)

definition may_borrow :: "stored_wallet \<Rightarrow> bool" where
  "may_borrow b = (vw_status b = VW_active \<and> vw_activationStatus b = VA_reclaimed \<and>
     vw_resourceStatus b \<noteq> VR_delegated \<and> vw_resourceStatus b \<noteq> VR_release_pending)"

definition may_release :: "stored_wallet \<Rightarrow> bool" where
  "may_release b = (vw_status b = VW_active \<and> (vw_resourceStatus b = VR_delegated \<or> vw_resourceStatus b = VR_release_pending))"

lemma resource_outcome_not_skipped: "resource_outcome res c \<Longrightarrow> res \<noteq> DO_skipped"
  by (auto simp: resource_outcome_def)

lemma address_run_bound:
  assumes a: "wallet_at (pf_wallets s) (map_get (walletByAddress (pf_wallets s)) a) = Some b"
    and el: "eligible b" and m: "yields (bound_run (vw_virtualWalletId b) b s) m s"
  shows "yields (address_run a eligible s)
    (catching m (\<lambda>e. and_then (on_wallets (markResourceFailed (vw_virtualWalletId b) (msg e)))
       (\<lambda>_. and_then (notify app (al e)) (\<lambda>_. ret DO_failed)))) s"
proof -
  have done': "address_run a eligible s (Inr res) t" if "bound_run (vw_virtualWalletId b) b s (Inr res) t" for res t
    using that a el resource_outcome_not_skipped by (auto simp: address_run_def bound_run_def)
  show ?thesis
    unfolding yields_catch
  proof (rule yields_mono [OF m])
    fix r t
    assume r: "bound_run (vw_virtualWalletId b) b s r t"
    show "case r of Inl e \<Rightarrow> yields (address_run a eligible s) (and_then (on_wallets (markResourceFailed (vw_virtualWalletId b) (msg e)))
       (\<lambda>_. and_then (notify app (al e)) (\<lambda>_. ret DO_failed))) t | Inr x \<Rightarrow> address_run a eligible s (Inr x) t"
      using r done' by (cases r) (auto intro: yields_mono [OF failure_outcome])
  qed
qed

lemma delegateForAddress_effect:
  assumes ok: "repo_ok newId (pf_wallets s)" and a: "truthy_str a"
  shows "yields (address_run a may_borrow s) (delegateForAddress app gateway opts a) s"
proof (cases "wallet_at (pf_wallets s) (map_get (walletByAddress (pf_wallets s)) a)")
  case None
  then show ?thesis using a
    by (simp add: delegateForAddress_def wp getVirtualWallet_def address_run_def truthy_def)
next
  case (Some b)
  note st = stored_at(1) [OF ok Some]
  show ?thesis
  proof (cases "may_borrow b")
    case True
    from delegate_binding_effect [of s "toPublicBinding b" b app gateway opts] st
    have "yields (bound_run (vw_virtualWalletId b) b s) (delegate_binding app gateway opts (toPublicBinding b)) s" by simp
    from address_run_bound [where eligible = may_borrow, OF Some True this, of error_message app]
    show ?thesis using Some a True
      by (simp add: delegateForAddress_def yields_bind yields_basic getVirtualWallet_def truthy_def may_borrow_def)
  next
    case False
    then show ?thesis using Some a
      by (auto simp: delegateForAddress_def wp getVirtualWallet_def address_run_def truthy_def may_borrow_def)
  qed
qed

lemma releaseForAddress_effect:
  assumes ok: "repo_ok newId (pf_wallets s)" and a: "truthy_str a"
  shows "yields (address_run a may_release s) (releaseForAddress app gateway opts a) s"
proof (cases "wallet_at (pf_wallets s) (map_get (walletByAddress (pf_wallets s)) a)")
  case None
  then show ?thesis using a
    by (simp add: releaseForAddress_def wp getVirtualWallet_def address_run_def truthy_def)
next
  case (Some b)
  note st = stored_at(1) [OF ok Some]
  show ?thesis
  proof (cases "may_release b")
    case True
    from release_binding_effect [of s "toPublicBinding b" b app gateway opts] st
    have "yields (bound_run (vw_virtualWalletId b) b s) (release_binding app gateway opts (toPublicBinding b)) s" by simp
    from address_run_bound [where eligible = may_release, OF Some True this, of error_message app]
    show ?thesis using Some a True
      by (auto simp: releaseForAddress_def yields_bind yields_basic getVirtualWallet_def truthy_def may_release_def)
  next
    case False
    then show ?thesis using Some a
      by (auto simp: releaseForAddress_def wp getVirtualWallet_def address_run_def truthy_def may_release_def)
  qed
qed

end
