(* ===== verification/PlatformMachine.thy ===== *)
theory PlatformMachine
  imports AccountServices QueueDrain Activation ResourceDelegation
begin

text \<open>
  The application as a state machine: any sequence of service calls, queue drains, outbox cycles,
  activation and resource cycles, operator actions and changes of the outside world, each run to its end.  Reachable platforms have a
  reachable ledger, so every property of the ledger holds of the application; their wallet repository
  and address policies satisfy their invariants.
\<close>

section \<open>Steps\<close>

definition with_wallets :: "(wallet_repo, 'a) act \<Rightarrow> 'w platform \<Rightarrow> 'w platform" where
  "with_wallets m s = snd (on_wallets m s)"

inductive platform_step :: "'w app \<Rightarrow> 'w platform \<Rightarrow> 'w platform \<Rightarrow> bool" for app where
  pf_request: "platform_step app s (snd (request (wire app) inp s))"
| pf_confirmExternalAuth: "platform_step app s (snd (confirmExternalAuth (wire app) i p q a s))"
| pf_approve: "platform_step app s (snd (approve (wire app) i ainp s))"
| pf_broadcast: "platform_step app s (snd (broadcast (wire app) i s))"
| pf_submitOffline: "platform_step app s (snd (submitOfflineBroadcast (wire app) i h n a s))"
| pf_confirm: "platform_step app s (snd (confirm (wire app) i fee s))"
| pf_fail: "platform_step app s (snd (fail (wire app) i reason s))"
| pf_reconcile: "platform_step app s (snd (reconcileBroadcasted (wire app) s))"
| pf_upsertPolicy: "platform_step app s (snd (serviceUpsertAddressPolicy (wire app) ad ty rsn by' s))"
| pf_deletePolicy: "platform_step app s (snd (serviceDeleteAddressPolicy (wire app) ad ty s))"
| pf_drain: "drain (wire app) s = Some y \<Longrightarrow> platform_step app s (snd y)"
| pf_withdrawQueue: "platform_step app s (snd (processWithdrawQueue (wire app) s))"
| pf_retryPending: "platform_step app s (snd (retryPending (wire app) sec s))"
| pf_outbox: "platform_step app s (snd (outbox_cycle (ledger_outbox_port (wire app)) opts s))"
| pf_processDeposit: "platform_step app s (snd (processDeposit (wire app) tracked dinp s))"
| pf_getBalance: "platform_step app s (snd (getBalance (wire app) u ad' s))"
| pf_bind: "u' \<noteq> '''' \<Longrightarrow> platform_step app s (snd (serviceBindWalletAddress (wire app) u' ad s))"
| pf_transfer: "platform_step app s (snd (serviceTransfer (wire app) tinp s))"
| pf_issue: "u' \<noteq> '''' \<Longrightarrow> platform_step app s (snd (issue (wire app) ports u' c net k s))"
| pf_reissue: "u' \<noteq> '''' \<Longrightarrow> platform_step app s (snd (reissue (wire app) ports u' c net k s))"
| pf_grant: "platform_step app s (snd (grant_cycle (wire app) gateway syncClient gopts s))"
| pf_reclaim: "platform_step app s (snd (reclaim_cycle (wire app) gateway ropts s))"
| pf_delegation: "platform_step app s (snd (delegation_cycle (wire app) gateway dopts s))"
| pf_mark: "wallet_mark (pf_wallets s) r \<Longrightarrow> platform_step app s (s\<lparr>pf_wallets := r\<rparr>)"
| pf_profile: "platform_step app s (s\<lparr>pf_contract := setRuntimeContractProfile prof addr (pf_contract s)\<rparr>)"
| pf_ledger_step: "ledger_step (app_cfg app) (pf_ledger s) l \<Longrightarrow> platform_step app s (s\<lparr>pf_ledger := l\<rparr>)"
| pf_outside: "platform_step app s (s\<lparr>pf_world := w\<rparr>)"

definition platform_steps :: "'w app \<Rightarrow> 'w platform \<Rightarrow> 'w platform \<Rightarrow> bool" where
  "platform_steps app = (platform_step app)\<^sup>*\<^sup>*"

definition initial_platform :: "'w app \<Rightarrow> 'w \<Rightarrow> 'w platform" where
  "initial_platform app w =
     \<lparr>pf_ledger = empty_ledger, pf_wallets = empty_wallet_repo, pf_policies = [], pf_alerts = [],
      pf_queue = \<lparr>jq_jobs = [], jq_failedJobs = []\<rparr>, pf_contract = initial_contract_state (app_contract app),
      pf_world = w\<rparr>"

section \<open>The outbox worker keeps platform relations\<close>

context publisher_relation
begin

lemma run_outbox_cycle [run_rules]: "keeps R (outbox_cycle (ledger_outbox_port app) opts)"
proof -
  have port: "keeps R (op_now (ledger_outbox_port app))" "keeps R (op_recoverStale (ledger_outbox_port app) n)"
    "keeps R (op_claim (ledger_outbox_port app) n)" "keeps R (op_publish (ledger_outbox_port app) ty p)"
    "keeps R (op_markPublished (ledger_outbox_port app) i)" "keeps R (op_reschedule (ledger_outbox_port app) i e t)"
    "keeps R (op_deadLetter (ledger_outbox_port app) i e)" for n ty p i e t
    unfolding ledger_outbox_port_def outbox_port.simps
    by (intro run_rules run_on_ledger run_publish publishAsync_runs;
        simp add: snd_total step_recoverOutbox step_claimOutbox step_publishedOutbox step_rescheduleOutbox
          step_deadLetterOutbox)+
  show ?thesis
    unfolding outbox_cycle_def publish_event_once_def handle_publish_failure_def
    by (intro run_rules port)
qed

end

section \<open>The ledger of a reachable platform\<close>

lemma platform_step_ledger:
  assumes "platform_step app s t"
  shows "ledger_steps (app_cfg app) (pf_ledger s) (pf_ledger t)"
proof -
  have *: "keeps (runs (wire app)) m \<Longrightarrow> runs app s (snd (m s))" for m :: "('a platform, 'b) act" and s
    by (drule keepsD) simp
  have "runs app s t"
    using assms
  proof cases
    case pf_upsertPolicy
    then show ?thesis
      by (simp add: serviceUpsertAddressPolicy_def and_then_def run_now_iso_eq zoom_def total_def split_beta)
  next
    case pf_deletePolicy
    then show ?thesis by (simp add: serviceDeleteAddressPolicy_def snd_zoom)
  next
    case (pf_drain y)
    then show ?thesis using wired.run_drain by fastforce
  next
    case (pf_issue u' ports c net k)
    then show ?thesis using * [OF run_issueInternal [of u' "wire app"]] by (simp add: issue_def)
  next
    case (pf_reissue u' ports c net k)
    then show ?thesis using * [OF run_issueInternal [of u' "wire app"]] by (simp add: reissue_def)
  qed (simp_all add: ledger_step_runs *
      [OF wired.run_request] * [OF wired.run_confirmExternalAuth] * [OF wired.run_approve] * [OF wired.run_broadcast]
      * [OF wired.run_submitOfflineBroadcast] * [OF wired.run_confirm] * [OF wired.run_fail]
      * [OF wired.run_reconcileBroadcasted] * [OF wired.run_processWithdrawQueue] * [OF wired.run_retryPending]
      * [OF wired.run_outbox_cycle] * [OF wired.run_processDeposit] * [OF wired.run_getBalance]
      * [OF wired.run_bind] * [OF wired.run_serviceTransfer] * [OF wl.run_grant_cycle] * [OF wl.run_reclaim_cycle]
      * [OF wl.run_delegation_cycle])
  then show ?thesis by (simp add: ledger_runs_def through_def)
qed

section \<open>Wallets and policies of a reachable platform\<close>

text \<open>
  The wallet repository keeps its invariant and its wallets only evolve along their life cycle; the
  policies stay stored under their keys.  Another platform relation, so the services keep it.
\<close>

definition config_sound :: "(nat \<Rightarrow> string) \<Rightarrow> 'w platform \<Rightarrow> 'w platform \<Rightarrow> bool" where
  "config_sound newId s t =
     ((repo_ok newId (pf_wallets s) \<longrightarrow>
         repo_ok newId (pf_wallets t) \<and> wallets_evolve (pf_wallets s) (pf_wallets t)) \<and>
      (policies_ok (pf_policies s) \<longrightarrow> policies_ok (pf_policies t)))"

lemma config_sound_same: "pf_wallets t = pf_wallets s \<Longrightarrow> pf_policies t = pf_policies s \<Longrightarrow> config_sound newId s t"
  by (simp add: config_sound_def)

interpretation so: platform_relation "config_sound newId" app for newId and app :: "'w app"
proof
  show "config_sound newId s u" if "config_sound newId s t" "config_sound newId t u" for s t u :: "'w platform"
    using that unfolding config_sound_def by (blast intro: wallets_evolve_trans)
qed (simp_all add: config_sound_same)

interpretation sound: publisher_relation "config_sound newId" "wire app" for newId and app :: "'w app"
  by (rule so.wired_publisher)

lemma sound_wallets:
  "(repo_ok newId (pf_wallets s) \<Longrightarrow> repo_ok newId r \<and> wallets_evolve (pf_wallets s) r) \<Longrightarrow>
     config_sound newId s (s\<lparr>pf_wallets := r\<rparr>)"
  by (simp add: config_sound_def)

lemma wallet_mark_sound:
  assumes "wallet_mark r r'" and "repo_ok newId r"
  shows "repo_ok newId r' \<and> wallets_evolve r r'"
  using assms
  by cases (simp_all add: markActivationGranted_def markActivationReclaimPending_def markActivationReclaimed_def
      markActivationFailed_def markResourceDelegatePending_def markResourceDelegated_def
      markResourceReleasePending_def markResourceReleased_def markResourceFailed_def retireVirtualWallet_def
      disableVirtualWallet_def repo_ok_update evolve_update wallet_follows_def same_wallet_def)

interpretation sw: wallet_relation "config_sound newId" app for newId and app :: "'w app"
  by unfold_locales (auto intro: sound_wallets dest: wallet_mark_sound)

lemma sound_issueInternal:
  assumes "inj (app_walletId app)"
  shows "keeps (config_sound (app_walletId app)) (issueInternal app ports u c net k again)"
proof -
  have "keeps (config_sound (app_walletId app)) (on_wallets_and_ledger app (m (app_walletId app) inp))"
    if "m = issueVirtualWallet \<or> m = reissueVirtualWallet" for m inp
    unfolding on_wallets_and_ledger_def
    using that repo_ok_issue [OF _ assms] repo_ok_reissue [OF _ assms] evolve_issue [OF _ assms] evolve_reissue [OF _ assms]
    by (intro run_rules) (auto simp: keeps_def snd_zoom config_sound_def split_beta)
  then show ?thesis
    unfolding issueInternal_def Let_def by (intro run_rules) auto
qed

lemma wire_walletId [simp]: "app_walletId (wire app) = app_walletId app"
  by (simp add: wire_def)

lemma sound_issue:
  assumes "inj (app_walletId app)"
  shows "keeps (config_sound (app_walletId app)) (issueInternal (wire app) ports u c net k again)"
  using sound_issueInternal [of "wire app"] assms by simp

lemma platform_step_sound:
  assumes "platform_step app s t" and inj: "inj (app_walletId app)"
  shows "config_sound (app_walletId app) s t"
proof -
  let ?R = "config_sound (app_walletId app)"
  have *: "keeps ?R m \<Longrightarrow> ?R s (snd (m s))" for m :: "('a platform, 'b) act" and s
    by (rule keepsD)
  show ?thesis
    using assms(1)
  proof cases
    case pf_upsertPolicy
    then show ?thesis
      using policies_ok_ops(1)
      by (simp add: serviceUpsertAddressPolicy_def and_then_def run_now_iso_eq zoom_def total_def split_beta config_sound_def)
  next
    case pf_deletePolicy
    then show ?thesis
      using policies_ok_ops(2) by (simp add: serviceDeleteAddressPolicy_def snd_zoom snd_total config_sound_def)
  next
    case (pf_drain y)
    then show ?thesis using sound.run_drain by fastforce
  next
    case (pf_issue u' ports c net k)
    then show ?thesis using * [OF sound_issue [OF inj]] by (simp add: issue_def)
  next
    case (pf_reissue u' ports c net k)
    then show ?thesis using * [OF sound_issue [OF inj]] by (simp add: reissue_def)
  next
    case (pf_mark r)
    then show ?thesis using wallet_mark_sound by (auto intro: sound_wallets)
  qed (simp_all add: config_sound_same * [OF sound.run_request] * [OF sound.run_confirmExternalAuth]
      * [OF sound.run_approve] * [OF sound.run_broadcast] * [OF sound.run_submitOfflineBroadcast]
      * [OF sound.run_confirm] * [OF sound.run_fail] * [OF sound.run_reconcileBroadcasted]
      * [OF sound.run_processWithdrawQueue] * [OF sound.run_retryPending] * [OF sound.run_outbox_cycle]
      * [OF sound.run_processDeposit] * [OF sound.run_getBalance] * [OF sound.run_bind] * [OF sound.run_serviceTransfer]
      * [OF sw.run_grant_cycle] * [OF sw.run_reclaim_cycle] * [OF sw.run_delegation_cycle])
qed

section \<open>The invariant\<close>

definition platform_ok :: "'w app \<Rightarrow> 'w platform \<Rightarrow> bool" where
  "platform_ok app s =
     (reachable_ledger (app_cfg app) (pf_ledger s) \<and> repo_ok (app_walletId app) (pf_wallets s) \<and>
      policies_ok (pf_policies s))"

text \<open>The documented behaviour of \<open>randomUUID\<close>: it does not repeat an id.\<close>

definition app_ok :: "'w app \<Rightarrow> bool" where
  "app_ok app = (uuid_ok (app_cfg app) \<and> inj (app_walletId app))"

interpretation pm: invariant_system "\<lambda>s. app_ok app \<and> (\<exists>w. s = initial_platform app w)"
    "\<lambda>s t. app_ok app \<and> platform_step app s t" "platform_ok app" for app :: "'w app"
proof
  fix s t :: "'w platform"
  show "platform_ok app s" if "app_ok app \<and> (\<exists>w. s = initial_platform app w)"
    using that by (auto simp: platform_ok_def initial_platform_def app_ok_def reachable_ledger_def repo_ok_empty policies_ok_def)
  show "platform_ok app t" if "app_ok app \<and> platform_step app s t" "platform_ok app s"
    using that platform_step_ledger [of app s t] platform_step_sound [of app s t]
    by (auto simp: platform_ok_def app_ok_def config_sound_def intro: reachable_steps)
qed

lemma platform_steps_ok:
  "platform_steps app (initial_platform app w) s \<Longrightarrow> app_ok app \<Longrightarrow> platform_ok app s"
  using pm.inv_reachable [of app "initial_platform app w" s] by (auto simp: platform_steps_def)

lemma platform_steps_ledger:
  "platform_steps app s t \<Longrightarrow> ledger_steps (app_cfg app) (pf_ledger s) (pf_ledger t)"
  unfolding platform_steps_def
  by (induction rule: rtranclp_induct)
    (use platform_step_ledger in \<open>auto simp: ledger_steps_def intro: rtranclp_trans\<close>)

lemma platform_steps_wallets:
  assumes "platform_steps app s t" and "inj (app_walletId app)" and "repo_ok (app_walletId app) (pf_wallets s)"
  shows "repo_ok (app_walletId app) (pf_wallets t) \<and> wallets_evolve (pf_wallets s) (pf_wallets t)"
  using assms(1) unfolding platform_steps_def
proof (induction rule: rtranclp_induct)
  case base
  then show ?case using assms(3) by simp
next
  case (step t u)
  then show ?case
    using platform_step_sound [OF step.hyps(2) assms(2)] by (auto simp: config_sound_def intro: wallets_evolve_trans)
qed

end
