(* ===== verification/PlatformDemo.thy ===== *)
theory PlatformDemo
  imports LedgerDemo PlatformMachine
begin

text \<open>
  A concrete application and concrete platforms: the outside world is the list of the withdrawals the
  signer has paid, the clock stands still, no notifier and no external client are configured.  The
  witnesses of the platform's properties are stated on it; its ledgers are those of \<open>LedgerDemo\<close>.
\<close>

definition demo_guard :: guard_options where
  "demo_guard =
     \<lparr>go_tronGatewayMode = GM_mock, go_signerMode = SM_hybrid, go_hotWalletAddress = ''THot'',
      go_hotWalletPrivateKey = ''key'', go_coldWithdrawMinAmount = 3000000, go_minTrxSun = 0,
      go_minBandwidth = 0, go_minEnergy = 0, go_restrictedDestinationAddresses = [''THot''],
      go_policyService = True\<rparr>"

definition demo_contract :: contract_env where
  "demo_contract =
     \<lparr>ce_tronApiUrl = ''https://api'', ce_mainnetTronApiUrl = ''https://api'', ce_testnetTronApiUrl = ''https://nile'',
      ce_koriTokenContractAddress = Some ''TKori'', ce_mainnetKoriTokenContractAddress = Some ''TKori'',
      ce_testnetKoriTokenContractAddress = Some ''TTest''\<rparr>"

definition demo_app :: "string list app" where
  "demo_app =
     \<lparr>app_cfg = demo_cfg, app_clock = (\<lambda>w. (1773317100000, w)), app_sleep = (\<lambda>ms w. w), app_sha256 = (\<lambda>m. m),
      app_notifier = None, app_walletId = (\<lambda>n. CHR ''v'' # dec n), app_contract = demo_contract,
      app_guard = demo_guard, app_fromPrivateKey = (\<lambda>_. Inr (Some ''THot'')),
      app_getAccountResources = (\<lambda>_. ret \<lparr>ar_trxBalanceSun = 5, ar_energyLimit = 5, ar_energyUsed = 0,
        ar_bandwidthLimit = 5, ar_bandwidthUsed = 0\<rparr>),
      app_getReceipt = (\<lambda>_. ret \<lparr>rc_status = RS_confirmed, rc_feeSun = 345000, rc_energyUsed = 64000,
        rc_bandwidthUsed = 345\<rparr>),
      app_broadcastTransfer = (\<lambda>_ _. ret ''0xabcdef12''),
      app_signer = Some (\<lambda>r w. (Inr ''0xabcdef12'', sr_withdrawalId r # w)),
      app_isTestUser = None, app_syncWithdrawal = None, app_lifecyclePolicy = True, app_policyService = True,
      app_signupWalletCooldownSec = 0, app_withdrawSingleLimitKori = JsFin 5 0,
      app_publishAsync = None, app_publish = (\<lambda>_ _ s. s)\<rparr>"

lemma demo_app_sel [simp]:
  "app_cfg demo_app = demo_cfg" "app_clock demo_app = (\<lambda>w. (1773317100000, w))" "app_guard demo_app = demo_guard"
  "app_isTestUser demo_app = None" "app_syncWithdrawal demo_app = None" "app_lifecyclePolicy demo_app"
  "app_walletId demo_app = (\<lambda>n. CHR ''v'' # dec n)" "app_withdrawSingleLimitKori demo_app = JsFin 5 0"
  "app_sleep demo_app ms w = w" "app_sha256 demo_app m = m" "app_publishAsync demo_app = None"
  "app_publish demo_app ty p s = s" "app_signupWalletCooldownSec demo_app = 0" "app_notifier demo_app = None"
  "app_signer demo_app = Some (\<lambda>r w. (Inr ''0xabcdef12'', sr_withdrawalId r # w))"
  by (simp_all add: demo_app_def)

lemma demo_app_ok: "app_ok demo_app"
  by (auto simp: app_ok_def demo_uuid_ok inj_def dest: dec_inject)

definition demo_platform :: "ledger \<Rightarrow> string list platform" where
  "demo_platform l = (initial_platform demo_app [])\<lparr>pf_ledger := l\<rparr>"

lemma demo_platform_sel [simp]:
  "pf_ledger (demo_platform l) = l" "pf_wallets (demo_platform l) = empty_wallet_repo"
  "pf_policies (demo_platform l) = []" "pf_queue (demo_platform l) = \<lparr>jq_jobs = [], jq_failedJobs = []\<rparr>"
  "pf_world (demo_platform l) = []"
  by (simp_all add: demo_platform_def initial_platform_def)

text \<open>A run of the ledger is a run of the platform.\<close>

lemma platform_ledger_steps:
  assumes "ledger_steps (app_cfg app) (pf_ledger s) l"
  shows "platform_steps app s (s\<lparr>pf_ledger := l\<rparr>)"
  using assms unfolding ledger_steps_def
proof (induction rule: rtranclp_induct)
  case base
  have "s\<lparr>pf_ledger := pf_ledger s\<rparr> = s" by simp
  then show ?case by (simp add: platform_steps_def)
next
  case (step l l')
  have "platform_step app (s\<lparr>pf_ledger := l\<rparr>) (s\<lparr>pf_ledger := l, pf_ledger := l'\<rparr>)"
    by (rule pf_ledger_step) (use step.hyps(2) in simp)
  with step.IH show ?case by (simp add: platform_steps_def)
qed

lemma demo_platform_steps:
  assumes "reachable_ledger demo_cfg l"
  shows "platform_steps demo_app (initial_platform demo_app []) (demo_platform l)"
  unfolding demo_platform_def
  by (rule platform_ledger_steps) (use assms in \<open>simp add: initial_platform_def reachable_ledger_def\<close>)

section \<open>A virtual wallet\<close>

definition demo_issue :: issue_input where
  "demo_issue = \<lparr>ii_userId = ''alice'', ii_currencyId = 1, ii_network = mainnet, ii_walletAddress = ''TAlice'',
     ii_privateKey = ''pk'', ii_encryptedPrivateKey = ''enc:pk'', ii_sweepTargetAddress = ''THot'',
     ii_idempotencyKey = ''issue-1''\<rparr>"

definition demo_ports :: "string list wallet_ports" where
  "demo_ports = \<lparr>wp_generateAccount = ret (''TAlice'', ''pk''), wp_encrypt = (\<lambda>k. ''enc:'' @ k),
     wp_hotWalletAddress = ''THot'', wp_syncVirtualWallet = None\<rparr>"

definition demo_wallet :: stored_wallet where
  "demo_wallet = new_wallet demo_issue ''v0'' demo_now"

lemma demo_time: "toISOString 1773317100000 = demo_now"
  by code_simp

lemma demo_unbound: "walletBindingsByUserId demo_deposited = []" "userIdByWalletAddress demo_deposited = []"
  by code_simp+

lemma demo_issue_result:
  "issueVirtualWallet (app_walletId demo_app) demo_issue demo_now (demo_deposited, empty_wallet_repo)
    = (Inr \<lparr>vi_binding = toPublicBinding demo_wallet, vi_duplicated = False\<rparr>,
       snd (bindWalletAddress ''alice'' ''TAlice'' demo_now demo_deposited), add_wallet demo_wallet empty_wallet_repo)"
proof -
  have "fst (bindWalletAddress ''alice'' ''TAlice'' demo_now demo_deposited) = Inr
      \<lparr>wb_userId = ''alice'', wb_walletAddress = ''TAlice'', wb_createdAt = demo_now\<rparr>"
    by (simp add: bindWalletAddress_def demo_unbound Let_def)
  then show ?thesis
    by (simp add: issueVirtualWallet_def demo_unbound empty_wallet_repo_def wallet_at_def getActiveWallet_def
        wallets_of_def getWalletBinding_def demo_issue_def createWallet_def Let_def split_beta demo_wallet_def
        new_wallet_def add_wallet_def)
qed

definition demo_issued :: "string list platform" where
  "demo_issued = snd (issue (wire demo_app) demo_ports ''alice'' 1 mainnet ''issue-1'' (demo_platform demo_deposited))"

lemma demo_issued_sel:
  "pf_wallets demo_issued = add_wallet demo_wallet empty_wallet_repo"
  "pf_ledger demo_issued = snd (bindWalletAddress ''alice'' ''TAlice'' demo_now demo_deposited)"
  "pf_world demo_issued = []"
proof -
  have "\<lparr>ii_userId = ''alice'', ii_currencyId = 1, ii_network = mainnet, ii_walletAddress = ''TAlice'',
      ii_privateKey = ''pk'', ii_encryptedPrivateKey = ''enc:pk'', ii_sweepTargetAddress = ''THot'',
      ii_idempotencyKey = ''issue-1''\<rparr> = demo_issue"
    by (simp add: demo_issue_def)
  then have eq: "demo_issued = (demo_platform demo_deposited)
      \<lparr>pf_ledger := snd (bindWalletAddress ''alice'' ''TAlice'' demo_now demo_deposited),
       pf_wallets := add_wallet demo_wallet empty_wallet_repo\<rparr>"
    using demo_issue_result
    by (simp add: demo_issued_def issue_def issueInternal_def demo_ports_def on_world_def zoom_def and_then_def
        truthy_str_def on_wallets_and_ledger_def run_now_iso_eq demo_time Let_def split_beta)
  show "pf_wallets demo_issued = add_wallet demo_wallet empty_wallet_repo"
    "pf_ledger demo_issued = snd (bindWalletAddress ''alice'' ''TAlice'' demo_now demo_deposited)"
    "pf_world demo_issued = []"
    unfolding eq by simp_all
qed

lemma demo_issued_steps: "platform_steps demo_app (initial_platform demo_app []) demo_issued"
  using demo_platform_steps [OF demo_reachable(1)] unfolding platform_steps_def demo_issued_def
  by (rule rtranclp.rtrancl_into_rtrancl) (rule pf_issue, simp)

lemma demo_wallet_stored: "map_get (walletById (pf_wallets demo_issued)) ''v0'' = Some demo_wallet"
  by (simp add: demo_issued_sel add_wallet_def demo_wallet_def)

lemma demo_wallet_current: "getVirtualWallet (Some ''alice'') wa (pf_wallets demo_issued) = Inr (Some (toPublicBinding demo_wallet))"
  by (simp add: demo_issued_sel getVirtualWallet_def getCurrentWalletByUserId_def wallets_of_def wallet_at_def
      add_wallet_def demo_wallet_def empty_wallet_repo_def demo_issue_def truthy_str_def)

end
