(* ===== verification/CircuitBreakers.thy ===== *)
theory CircuitBreakers
  imports Prelude
begin

text \<open>
  The two circuit breakers: \<open>SimpleCircuitBreaker\<close> (\<open>src/application/services/simple-circuit-breaker.ts\<close>)
  and \<open>OfflinePaySettlementCircuitBreaker\<close>
  (\<open>src/application/services/offline-pay-settlement-circuit-breaker.ts\<close>).  They keep different state
  but share a contract, which is the locale \<open>circuit_breaker\<close>.  Times are in milliseconds.
\<close>

section \<open>SimpleCircuitBreaker\<close>

datatype circuit_state = CLOSED | OPEN

record simple_breaker =
  sb_name :: string
  sb_threshold :: int
  sb_cooldownMs :: int
  sb_failures :: int
  sb_openedAtMs :: "int option"

definition new_simple_breaker :: "string \<Rightarrow> int \<Rightarrow> int \<Rightarrow> simple_breaker" where
  "new_simple_breaker name threshold cooldownMs =
     \<lparr>sb_name = name, sb_threshold = threshold, sb_cooldownMs = cooldownMs, sb_failures = 0, sb_openedAtMs = None\<rparr>"

text \<open>The getter \<open>state\<close> closes an expired breaker as it reads it.\<close>

definition sb_state :: "int \<Rightarrow> simple_breaker \<Rightarrow> circuit_state \<times> simple_breaker" where
  "sb_state now b =
     (case sb_openedAtMs b of
        None \<Rightarrow> (CLOSED, b)
      | Some opened \<Rightarrow>
          if sb_cooldownMs b \<le> now - opened
          then (CLOSED, b\<lparr>sb_openedAtMs := None, sb_failures := 0\<rparr>)
          else (OPEN, b))"

definition sb_assertCallable :: "int \<Rightarrow> (simple_breaker, unit) act" where
  "sb_assertCallable now b =
     (case sb_state now b of
        (OPEN, b') \<Rightarrow> (Inl (JsError (sb_name b @ '' circuit is open'')), b')
      | (CLOSED, b') \<Rightarrow> (Inr (), b'))"

definition sb_onSuccess :: "simple_breaker \<Rightarrow> bool \<times> simple_breaker" where
  "sb_onSuccess b =
     (sb_openedAtMs b \<noteq> None \<or> 0 < sb_failures b, b\<lparr>sb_failures := 0, sb_openedAtMs := None\<rparr>)"

definition sb_onFailure :: "int \<Rightarrow> simple_breaker \<Rightarrow> bool \<times> simple_breaker" where
  "sb_onFailure now b =
     (let wasOpen = (sb_openedAtMs b \<noteq> None);
          b1 = b\<lparr>sb_failures := sb_failures b + 1\<rparr>;
          b2 = (if sb_threshold b1 \<le> sb_failures b1 then b1\<lparr>sb_openedAtMs := Some now\<rparr> else b1)
      in if wasOpen then (False, b2)
         else let (st, b3) = sb_state now b2 in (st = OPEN, b3))"

section \<open>OfflinePaySettlementCircuitBreaker\<close>

record settlement_breaker =
  ob_failureThreshold :: int
  ob_openCooldownMs :: int
  ob_consecutiveFailures :: int
  ob_openUntilMs :: "int option"

record settlement_circuit_state =
  oc_open :: bool
  oc_consecutiveFailures :: int
  oc_openUntilMs :: "int option"
  oc_cooldownRemainingMs :: int

definition new_settlement_breaker :: "int \<Rightarrow> int \<Rightarrow> settlement_breaker" where
  "new_settlement_breaker threshold cooldownMs =
     \<lparr>ob_failureThreshold = threshold, ob_openCooldownMs = cooldownMs, ob_consecutiveFailures = 0,
      ob_openUntilMs = None\<rparr>"

definition default_settlement_breaker :: settlement_breaker where
  "default_settlement_breaker = new_settlement_breaker 3 (5 * 60 * 1000)"

definition ob_isOpen :: "int \<Rightarrow> settlement_breaker \<Rightarrow> bool" where
  "ob_isOpen nowMs b = (case ob_openUntilMs b of None \<Rightarrow> False | Some u \<Rightarrow> nowMs < u)"

definition ob_canExecute :: "int \<Rightarrow> settlement_breaker \<Rightarrow> bool" where
  "ob_canExecute nowMs b = (\<not> ob_isOpen nowMs b)"

text \<open>\<open>Boolean(this.openUntilMs)\<close>: absent and 0 are falsy.\<close>

definition ob_recordSuccess :: "settlement_breaker \<Rightarrow> bool \<times> settlement_breaker" where
  "ob_recordSuccess b =
     (ob_openUntilMs b \<noteq> None \<and> ob_openUntilMs b \<noteq> Some 0,
      b\<lparr>ob_consecutiveFailures := 0, ob_openUntilMs := None\<rparr>)"

definition ob_snapshot :: "int \<Rightarrow> settlement_breaker \<Rightarrow> settlement_circuit_state" where
  "ob_snapshot nowMs b =
     \<lparr>oc_open = ob_isOpen nowMs b, oc_consecutiveFailures = ob_consecutiveFailures b,
      oc_openUntilMs = ob_openUntilMs b,
      oc_cooldownRemainingMs =
        (case ob_openUntilMs b of None \<Rightarrow> 0 | Some u \<Rightarrow> if u = 0 then 0 else max 0 (u - nowMs))\<rparr>"

definition ob_recordFailure :: "int \<Rightarrow> settlement_breaker \<Rightarrow> (bool \<times> settlement_circuit_state) \<times> settlement_breaker" where
  "ob_recordFailure nowMs b =
     (let b1 = b\<lparr>ob_consecutiveFailures := min (ob_consecutiveFailures b + 1) MAX_SAFE_INTEGER\<rparr>;
          opened = (ob_failureThreshold b1 \<le> ob_consecutiveFailures b1);
          b2 = (if opened then b1\<lparr>ob_openUntilMs := Some (nowMs + ob_openCooldownMs b1)\<rparr> else b1)
      in ((opened, ob_snapshot nowMs b2), b2))"

section \<open>The shared contract\<close>

text \<open>
  What a client of either breaker relies on: successes reset it, failures are counted up to the
  threshold, the failure that reaches the threshold blocks calls for the cooldown and no longer, and
  earlier failures block nothing.  \<open>ok\<close> is the breaker's own well-formedness.
\<close>

locale circuit_breaker =
  fixes fail :: "int \<Rightarrow> 'b \<Rightarrow> 'b"
    and succeed :: "'b \<Rightarrow> 'b"
    and callable :: "int \<Rightarrow> 'b \<Rightarrow> bool"
    and count :: "'b \<Rightarrow> int"
    and threshold :: "'b \<Rightarrow> int"
    and cooldown :: "'b \<Rightarrow> int"
    and ok :: "'b \<Rightarrow> bool"
  assumes ok_ops: "ok b \<Longrightarrow> ok (fail now b)" "ok b \<Longrightarrow> ok (succeed b)"
    and config_ops: "threshold (fail now b) = threshold b" "threshold (succeed b) = threshold b"
      "cooldown (fail now b) = cooldown b" "cooldown (succeed b) = cooldown b"
    and succeed_count: "count (succeed b) = 0"
    and succeed_callable: "callable now (succeed b)"
    and fail_count: "ok b \<Longrightarrow> count b + 1 < threshold b \<Longrightarrow> count (fail now b) = count b + 1"
    and fail_closed: "ok b \<Longrightarrow> count b + 1 < threshold b \<Longrightarrow> callable t b \<Longrightarrow> callable t (fail now b)"
    and fail_opens: "ok b \<Longrightarrow> threshold b \<le> count b + 1 \<Longrightarrow> now \<le> t \<Longrightarrow> t < now + cooldown b \<Longrightarrow>
      \<not> callable t (fail now b)"
    and fail_expires: "ok b \<Longrightarrow> threshold b \<le> count b + 1 \<Longrightarrow> now + cooldown b \<le> t \<Longrightarrow> callable t (fail now b)"
begin

lemma failures_before_threshold:
  assumes "ok b" and "count b + int (length ts) < threshold b"
  shows "ok (fold fail ts b) \<and> count (fold fail ts b) = count b + int (length ts) \<and>
    threshold (fold fail ts b) = threshold b \<and> cooldown (fold fail ts b) = cooldown b \<and>
    (\<forall>t. callable t b \<longrightarrow> callable t (fold fail ts b))"
  using assms
proof (induction ts arbitrary: b)
  case (Cons x ts)
  have "count (fail x b) = count b + 1" using Cons.prems by (intro fail_count) simp_all
  moreover have "\<forall>t. callable t b \<longrightarrow> callable t (fail x b)"
    using Cons.prems by (auto intro: fail_closed)
  moreover have "ok (fail x b)" using Cons.prems(1) by (rule ok_ops)
  ultimately show ?case using Cons.IH [of "fail x b"] Cons.prems(2) by (simp add: config_ops)
qed simp

lemma stays_closed:
  assumes "ok b" and "int (length ts) < threshold b"
  shows "callable t (fold fail ts (succeed b))"
  using failures_before_threshold [of "succeed b" ts] assms
  by (simp add: ok_ops succeed_count config_ops succeed_callable)

lemma opens_and_expires:
  assumes "ok b" and "int (length ts) + 1 = threshold b"
  shows "now \<le> t \<Longrightarrow> t < now + cooldown b \<Longrightarrow> \<not> callable t (fold fail (ts @ [now]) (succeed b))"
    and "now + cooldown b \<le> t \<Longrightarrow> callable t (fold fail (ts @ [now]) (succeed b))"
proof -
  let ?c = "fold fail ts (succeed b)"
  have c: "ok ?c" "count ?c = int (length ts)" "threshold ?c = threshold b" "cooldown ?c = cooldown b"
    using failures_before_threshold [of "succeed b" ts] assms by (simp_all add: ok_ops succeed_count config_ops)
  show "now \<le> t \<Longrightarrow> t < now + cooldown b \<Longrightarrow> \<not> callable t (fold fail (ts @ [now]) (succeed b))"
    using fail_opens [OF c(1), of now t] c assms(2) by simp
  show "now + cooldown b \<le> t \<Longrightarrow> callable t (fold fail (ts @ [now]) (succeed b))"
    using fail_expires [OF c(1), of now t] c assms(2) by simp
qed

end

section \<open>Both breakers satisfy it\<close>

definition sb_fail :: "int \<Rightarrow> simple_breaker \<Rightarrow> simple_breaker" where
  "sb_fail now b = snd (sb_onFailure now b)"

definition sb_succeed :: "simple_breaker \<Rightarrow> simple_breaker" where
  "sb_succeed b = snd (sb_onSuccess b)"

definition sb_callable :: "int \<Rightarrow> simple_breaker \<Rightarrow> bool" where
  "sb_callable now b = (\<not> fails (fst (sb_assertCallable now b)))"

definition sb_ok :: "simple_breaker \<Rightarrow> bool" where
  "sb_ok b = (0 \<le> sb_failures b \<and> 0 < sb_cooldownMs b)"

lemma sb_callable_eq: "sb_callable now b = (case sb_openedAtMs b of None \<Rightarrow> True | Some u \<Rightarrow> sb_cooldownMs b \<le> now - u)"
  by (simp add: sb_callable_def sb_assertCallable_def sb_state_def split: option.split)

lemma sb_fail_eq:
  "sb_ok b \<Longrightarrow> sb_fail now b =
     (let b1 = b\<lparr>sb_failures := sb_failures b + 1\<rparr>
      in if sb_threshold b \<le> sb_failures b + 1 then b1\<lparr>sb_openedAtMs := Some now\<rparr> else b1)"
  by (simp add: sb_fail_def sb_onFailure_def sb_state_def sb_ok_def Let_def split: option.split)

lemma sb_fail_config [simp]:
  "sb_threshold (sb_fail now b) = sb_threshold b" "sb_cooldownMs (sb_fail now b) = sb_cooldownMs b"
  by (simp_all add: sb_fail_def sb_onFailure_def sb_state_def Let_def split: option.split)

interpretation sb: circuit_breaker sb_fail sb_succeed sb_callable sb_failures sb_threshold sb_cooldownMs sb_ok
  by unfold_locales
    (auto simp: sb_fail_eq Let_def sb_succeed_def sb_onSuccess_def sb_callable_eq sb_ok_def split: option.splits)

definition ob_fail :: "int \<Rightarrow> settlement_breaker \<Rightarrow> settlement_breaker" where
  "ob_fail now b = snd (ob_recordFailure now b)"

definition ob_succeed :: "settlement_breaker \<Rightarrow> settlement_breaker" where
  "ob_succeed b = snd (ob_recordSuccess b)"

definition ob_ok :: "settlement_breaker \<Rightarrow> bool" where
  "ob_ok b = (0 \<le> ob_consecutiveFailures b \<and> ob_failureThreshold b \<le> MAX_SAFE_INTEGER)"

lemma ob_fail_eq:
  "ob_fail now b =
     (let n = min (ob_consecutiveFailures b + 1) MAX_SAFE_INTEGER; b1 = b\<lparr>ob_consecutiveFailures := n\<rparr>
      in if ob_failureThreshold b \<le> n then b1\<lparr>ob_openUntilMs := Some (now + ob_openCooldownMs b)\<rparr> else b1)"
  by (simp add: ob_fail_def ob_recordFailure_def Let_def)

interpretation ob: circuit_breaker ob_fail ob_succeed ob_canExecute ob_consecutiveFailures
    ob_failureThreshold ob_openCooldownMs ob_ok
  by unfold_locales
    (auto simp: ob_fail_eq Let_def ob_succeed_def ob_recordSuccess_def ob_canExecute_def ob_isOpen_def ob_ok_def
      MAX_SAFE_INTEGER_def)

end
