(* ===== verification/PlatformProperties.thy ===== *)
theory PlatformProperties
  imports LedgerProperties PlatformDemo CircuitBreakers
begin

text \<open>
  The properties of the services and of the composed platform: what sequences of service calls keep,
  when a withdrawal is approved, signed and paid, how the workers and consumers end, and the life of
  virtual wallets.  Witnesses apply them to the platforms of \<open>PlatformDemo\<close>.
\<close>

section \<open>Auxiliary facts\<close>

lemma on_ledger_run:
  "on_ledger app m s =
     (let now = toISOString (fst (app_clock app (pf_world s)))
      in (fst (m now (pf_ledger s)),
          s\<lparr>pf_world := snd (app_clock app (pf_world s)), pf_ledger := snd (m now (pf_ledger s))\<rparr>))"
  by (simp add: on_ledger_def and_then_def run_now_iso_eq zoom_def Let_def split_beta)

lemma on_world_run: "on_world m s = (fst (m (pf_world s)), s\<lparr>pf_world := snd (m (pf_world s))\<rparr>)"
  by (simp add: on_world_def zoom_def split_beta)

lemma getMutable_get: "getWithdrawal i s = Some w \<Longrightarrow> getMutableWithdrawal i s = Inr w"
  by (simp add: getWithdrawal_def getMutableWithdrawal_def)

text \<open>Guards and policy checks only reach into the outside world.\<close>

definition outside_only :: "'w platform \<Rightarrow> 'w platform \<Rightarrow> bool" where
  "outside_only s t = (\<exists>w. t = s\<lparr>pf_world := w\<rparr>)"

interpretation oo: run_relation "outside_only :: 'w platform \<Rightarrow> _"
proof
  show "outside_only s s" for s :: "'w platform"
    unfolding outside_only_def by (rule exI [of _ "pf_world s"]) simp
  show "outside_only s u" if "outside_only s t" "outside_only t u" for s t u :: "'w platform"
    using that by (auto simp: outside_only_def)
qed

lemma outside_rules:
  "keeps outside_only (on_world m)" "keeps outside_only (now_ms app)" "keeps outside_only (lift_result r)"
  using oo.R_refl by (auto simp: keeps_def on_world_run run_clock lift_result_def outside_only_def)

lemma outside_guards:
  "keeps outside_only (assertUserWithdrawalNetworkAllowed app u)" "keeps outside_only (assertBroadcastAllowed app a n)"
  "keeps outside_only (assertWithdrawalAllowed app v wa)"
  unfolding assertUserWithdrawalNetworkAllowed_def assertBroadcastAllowed_def assertPolicies_def
    assertHotWalletReady_def getHotWalletReadiness_def assertWithdrawalAllowed_def Let_def
  by (intro oo.keep_rules outside_rules)+

lemma outside_sel:
  "outside_only s t \<Longrightarrow> pf_ledger t = pf_ledger s \<and> pf_policies t = pf_policies s \<and> pf_queue t = pf_queue s \<and>
     pf_wallets t = pf_wallets s \<and> pf_contract t = pf_contract s"
  by (auto simp: outside_only_def)

section \<open>The services and the ledger\<close>

text \<open>C6. The application refines the ledger's machine: a service call, a queue drain, an outbox cycle or
  an operator's action on a reachable platform moves the ledger along a sequence of ledger steps (the
  projection of a platform step is a run of the abstract machine).  So the books of the application
  balance: what it owes is deposits plus credits minus completed withdrawals.\<close>

theorem services_refine_ledger:
  assumes "app_ok app" and "platform_steps app (initial_platform app w0) s" and "platform_step app s t"
  shows "ledger_steps (app_cfg app) (pf_ledger s) (pf_ledger t) \<and>
    ls_liabilityBalance (getLedgerSummary (pf_ledger t))
      = deposited (pf_ledger t) + credited (pf_ledger t) - paid_out (pf_ledger t)"
proof
  show steps: "ledger_steps (app_cfg app) (pf_ledger s) (pf_ledger t)"
    using assms(3) by (rule platform_step_ledger)
  have "reachable_ledger (app_cfg app) (pf_ledger t)"
    using platform_steps_ok [OF assms(2,1)] steps by (auto simp: platform_ok_def intro: reachable_steps)
  from ledger_invD(8) [OF reachable_inv [OF this]]
  show "ls_liabilityBalance (getLedgerSummary (pf_ledger t))
      = deposited (pf_ledger t) + credited (pf_ledger t) - paid_out (pf_ledger t)"
    by (simp add: summary_liability money_ok_def)
qed

theorem services_refine_ledger_witness:
  "ledger_steps demo_cfg demo_approved
     (pf_ledger (snd (broadcast (wire demo_app) ''u4'' (demo_platform demo_approved))))"
  using services_refine_ledger [OF demo_app_ok demo_platform_steps [OF demo_reachable(5)],
      of "snd (broadcast (wire demo_app) ''u4'' (demo_platform demo_approved))"]
  by (simp add: pf_broadcast)

section \<open>Payment\<close>

text \<open>C18. The signer is asked before the ledger: for a withdrawal that is not approved (already broadcast,
  completed, failed or still pending) but whose destination and amount pass the guards, \<open>broadcast\<close> has
  the signer pay and only then meets the ledger's status check; the caller gets a 409, the ledger is
  unchanged, and the payment is recorded nowhere.\<close>

theorem broadcast_pays_before_checking:
  assumes "getWithdrawal i (pf_ledger s) = Some w" and "wd_status w \<noteq> ADMIN_APPROVED"
    and net: "assertUserWithdrawalNetworkAllowed app (wd_userId w) s = (Inr (), s1)"
    and guard: "assertBroadcastAllowed app (wd_toAddress w) (Some (wd_amount w)) s1 = (Inr (), s2)"
    and paid: "sign_and_send app w (pf_world s2) = (Inr txHash, paid_world)"
  shows "broadcast app i s
    = (Inl (DomainError 409 ''INVALID_STATE'' ''withdrawal must be admin approved''),
       s\<lparr>pf_world := snd (app_clock app paid_world)\<rparr>)"
proof -
  obtain v where s1: "s1 = s\<lparr>pf_world := v\<rparr>"
    using keepsD [OF outside_guards(1), of s app "wd_userId w"] net by (auto simp: outside_only_def)
  obtain v' where s2: "s2 = s\<lparr>pf_world := v'\<rparr>"
    using keepsD [OF outside_guards(2), of s1 app "wd_toAddress w" "Some (wd_amount w)"] guard
    by (auto simp: outside_only_def s1)
  have "on_world (sign_and_send app w) s2 = (Inr txHash, s\<lparr>pf_world := paid_world\<rparr>)"
    using paid by (simp add: on_world_run s2)
  then show ?thesis
    using assms(1,2) net guard
    by (simp add: broadcast_def and_then_def ask_ledger_def record_broadcast_def on_ledger_run Let_def
        broadcastWithdrawal_def getMutable_get)
qed

text \<open>The demo withdrawal passes the guards of the demo application.\<close>

lemma demo_w_dest [simp]: "wd_toAddress demo_w = ''TDest''"
  by (simp add: demo_w_def demo_request_def new_withdrawal_def)

lemma demo_destination: "assertDestinationAllowed demo_guard ''TDest'' None = Inr ()"
  by (simp add: assertDestinationAllowed_def demo_guard_def)

lemma demo_guard_passes:
  "assertBroadcastAllowed demo_app ''TDest'' (Some 2000000) (demo_platform l) = (Inr (), demo_platform l)"
  by (simp add: assertBroadcastAllowed_def demo_destination and_then_def lift_result_def assertPolicies_def
      getAddressPolicies_def assertAddressAllowed_def assertHotWalletReady_def getHotWalletReadiness_def Let_def
      requiresOfflineSigning_def) (simp add: demo_guard_def)

lemma demo_signs:
  "sign_and_send demo_app w [] = (Inr ''0xabcdef12'', [wd_withdrawalId w])"
  by (simp add: sign_and_send_def)

theorem broadcast_pays_before_checking_witness:
  "broadcast demo_app ''u4'' (demo_platform demo_broadcasted)
    = (Inl (DomainError 409 ''INVALID_STATE'' ''withdrawal must be admin approved''),
       (demo_platform demo_broadcasted)\<lparr>pf_world := [''u4'']\<rparr>)"
  using broadcast_pays_before_checking [of "''u4''" "demo_platform demo_broadcasted" demo_w_broadcasted demo_app
      "demo_platform demo_broadcasted" "demo_platform demo_broadcasted" "''0xabcdef12''" "[''u4'']"]
  by (simp add: getWithdrawal_def demo_broadcasted_w demo_status assertUserWithdrawalNetworkAllowed_def
      demo_guard_passes demo_signs demo_w_broadcasted_def demo_w_approved_def demo_w_approved1_def demo_w_pending_def)

text \<open>C16. A withdrawal is paid once by the worker: as soon as the signer has returned a hash for an approved
  withdrawal, whatever becomes of the publication and the audit log, every later dispatch of it, after
  any sequence of service calls, returns without touching the platform or the signer.\<close>

theorem dispatch_pays_once:
  fixes app :: "'w app"
  assumes "reachable_ledger (app_cfg app) (pf_ledger s)"
    and "getWithdrawal i (pf_ledger s) = Some w" and "wd_status w = ADMIN_APPROVED" and "i \<noteq> ''''"
    and signed: "record_broadcast (wire app) i txHash s = (r, t)"
    and later: "platform_steps app t u"
  shows "processDispatch (wire app) i n u = (Inr (), u)"
proof -
  obtain b s1 where b: "on_ledger (wire app) (broadcastWithdrawal (app_cfg app) i txHash) s = (b, s1)"
    by fastforce
  then obtain w1 where w1: "map_get (withdrawals (pf_ledger s1)) i = Some w1" "wd_status w1 = TX_BROADCASTED"
    using assms(2,3) by (auto simp: on_ledger_run Let_def broadcastWithdrawal_def getMutable_get)
  have "runs app s s1"
    using keepsD [OF pl.run_on_ledger [of "wire app" "broadcastWithdrawal (app_cfg app) i txHash"], of s] b
    by (simp add: step_broadcast)
  then have reach: "reachable_ledger (app_cfg app) (pf_ledger s1)"
    using assms(1) by (auto simp: ledger_runs_def through_def intro: reachable_steps)
  have "runs app s1 t"
  proof (cases b)
    case (Inl e)
    with signed b show ?thesis by (simp add: record_broadcast_def and_then_def)
  next
    case (Inr x)
    with signed b have "t = snd (and_then (publish_now (wire app) x) (\<lambda>_. and_then (audit (wire app)
        (audit_entry ET_withdrawal i ''withdraw.broadcast'' AT_system ''tron-gateway'' [(''txHash'', txHash)])) (\<lambda>_. ret x)) s1)"
      by (simp add: record_broadcast_def and_then_def)
    moreover have "keeps (runs (wire app)) (and_then (publish_now (wire app) x) (\<lambda>_. and_then (audit (wire app)
        (audit_entry ET_withdrawal i ''withdraw.broadcast'' AT_system ''tron-gateway'' [(''txHash'', txHash)])) (\<lambda>_. ret x)))"
      by (intro run_rules)
    ultimately show ?thesis using keepsD by fastforce
  qed
  then have "ledger_steps (app_cfg app) (pf_ledger s1) (pf_ledger u)"
    using platform_steps_ledger [OF later]
    by (auto simp: ledger_runs_def through_def intro: ledger_steps_trans)
  from withdrawal_life [OF this reach w1(1)]
  obtain v where v: "map_get (withdrawals (pf_ledger u)) i = Some v" "status_edge\<^sup>*\<^sup>* TX_BROADCASTED (wd_status v)"
    using w1(2) by auto
  have "wd_status v \<in> {COMPLETED, FAILED, TX_BROADCASTED}"
    using v(2) by (induction rule: rtranclp_induct) auto
  then show ?thesis
    using v(1) assms(4) by (auto simp: processDispatch_def truthy_str_def and_then_def ask_ledger_def getWithdrawal_def)
qed

theorem dispatch_pays_once_witness:
  "processDispatch (wire demo_app) ''u4'' 1 (snd (record_broadcast (wire demo_app) ''u4'' ''0xabcdef12'' (demo_platform demo_approved)))
    = (Inr (), snd (record_broadcast (wire demo_app) ''u4'' ''0xabcdef12'' (demo_platform demo_approved)))"
  by (rule dispatch_pays_once [of demo_app "demo_platform demo_approved" "''u4''" demo_w_approved "''0xabcdef12''"
        "fst (record_broadcast (wire demo_app) ''u4'' ''0xabcdef12'' (demo_platform demo_approved))"
        "snd (record_broadcast (wire demo_app) ''u4'' ''0xabcdef12'' (demo_platform demo_approved))"])
    (simp_all add: demo_reachable getWithdrawal_def demo_approved_w demo_status platform_steps_def)

section \<open>Approval\<close>

definition dispatches :: "'w platform \<Rightarrow> queue_job list" where
  "dispatches s = filter (\<lambda>j. job_rank j = 2) (jq_jobs (pf_queue s))"

lemma adds_dispatches: "keeps (adds_below 1) m \<Longrightarrow> m s = (r, t) \<Longrightarrow> dispatches t = dispatches s"
  using keepsD [of "adds_below 1" m s] by (auto simp: adds_below_def dispatches_def filter_empty_conv)

lemma notify_run: "\<exists>w m. notify app a s = (Inr (), s\<lparr>pf_world := w, pf_alerts := m\<rparr>)"
proof -
  obtain m w where "send (app_notifier app) (fst (app_clock app (pf_world s))) a
      (pf_alerts s, snd (app_clock app (pf_world s))) = (m, w)" by fastforce
  then show ?thesis by (intro exI [of _ w] exI [of _ m]) (simp add: notify_def and_then_def run_clock)
qed

lemma enqueue_then_notify:
  assumes "when_do b (and_then (on_queue (enqueueDispatch i)) (\<lambda>_. notify app a)) s = (Inr (), t)"
  shows "dispatches t = dispatches s @ (if b then [QJ_dispatch i 1] else [])"
proof (cases b)
  case True
  have "notify app a (s\<lparr>pf_queue := enqueueDispatch i (pf_queue s)\<rparr>) = (Inr (), t)"
    using assms True by (simp add: on_queue_def and_then_def)
  with notify_run [of app a "s\<lparr>pf_queue := enqueueDispatch i (pf_queue s)\<rparr>"] True show ?thesis
    by (auto simp: dispatches_def enqueueDispatch_def)
qed (use assms in simp)

lemma enqueue_notify_returns:
  "when_do b (and_then (on_queue (enqueueDispatch i)) (\<lambda>_. notify app a)) s \<noteq> (Inl e, t)"
  using notify_run [of app a "s\<lparr>pf_queue := enqueueDispatch i (pf_queue s)\<rparr>"]
  by (cases b) (auto simp: on_queue_def and_then_def)

text \<open>A method that leaves the dispatch jobs alone when it throws.\<close>

definition fails_quietly :: "('w platform, 'a) act \<Rightarrow> bool" where
  "fails_quietly m = (\<forall>s e t. m s = (Inl e, t) \<longrightarrow> dispatches t = dispatches s)"

lemma fails_quietly_keeps: "keeps (adds_below 1) m \<Longrightarrow> fails_quietly m"
  unfolding fails_quietly_def by (blast intro: adds_dispatches)

lemma fails_quietly_bind:
  assumes "keeps (adds_below 1) m" and "\<And>x. fails_quietly (f x)"
  shows "fails_quietly (and_then m f)"
  unfolding fails_quietly_def and_then_fails
  using adds_dispatches [OF assms(1)] assms(2) unfolding fails_quietly_def by metis

lemma fails_quietly_option:
  "fails_quietly m \<Longrightarrow> (\<And>y. fails_quietly (f y)) \<Longrightarrow> fails_quietly (case x of None \<Rightarrow> m | Some y \<Rightarrow> f y)"
  by (cases x) simp_all

lemma fails_quietly_enqueue:
  "fails_quietly (and_then (when_do b (and_then (on_queue (enqueueDispatch i)) (\<lambda>_. notify app a))) (\<lambda>_. ret d))"
  unfolding fails_quietly_def and_then_fails by (auto simp: enqueue_notify_returns)

lemma publish_Inr: "publishWithdrawal cfg i w now r s = (Inr d, t) \<Longrightarrow> d = r"
  using publish_result [of cfg i w now r s] by simp

lemma approve_decision:
  assumes "approveWithdrawal cfg i inp now l = (Inr d, l')"
  shows "ad_finalized d \<longleftrightarrow> wd_status (ad_withdrawal d) = ADMIN_APPROVED"
    "ad_finalized d \<longleftrightarrow> wd_requiredApprovals (ad_withdrawal d) \<le> wd_approvalCount (ad_withdrawal d)"
  using assms
  by (auto simp: approveWithdrawal_def Let_def split: sum.splits if_splits dest!: publish_Inr)

text \<open>C21. An approval that returns puts exactly one dispatch job on the queue when it was the last one
  required, and none otherwise; jobs already queued for dispatch keep their places.  The decision is
  final exactly when the withdrawal has become approved and its approvals have reached the number
  required.  An approval that throws queues no dispatch.\<close>

theorem final_approval_enqueues_dispatch:
  "case approve (wire app) i inp s of
     (Inr d, t) \<Rightarrow>
       dispatches t = dispatches s @ (if ad_finalized d then [QJ_dispatch i 1] else []) \<and>
       (ad_finalized d \<longleftrightarrow> wd_status (ad_withdrawal d) = ADMIN_APPROVED) \<and>
       (ad_finalized d \<longleftrightarrow> wd_requiredApprovals (ad_withdrawal d) \<le> wd_approvalCount (ad_withdrawal d))
   | (Inl e, t) \<Rightarrow> dispatches t = dispatches s"
proof -
  let ?inp = "\<lparr>ai_adminId = coalesce (sa_adminId inp) ''admin-unknown'', ai_actorType = coalesce (sa_actorType inp) AT_admin,
    ai_reasonCode = Some (coalesce (sa_reasonCode inp) manual_review_passed), ai_note = sa_note inp\<rparr>"
  note quiet = adds_dispatches [OF adds_networkAllowed] adds_dispatches [OF adds_on_ledger]
    adds_dispatches [OF adds_publish [OF zero_less_one]] adds_dispatches [OF adds_audit]
  show ?thesis
  proof (cases "approve (wire app) i inp s")
    case (Pair r t)
    show ?thesis
    proof (cases r)
      case (Inl e)
      have "fails_quietly (approve (wire app) i inp)"
        unfolding approve_def Let_def
        by (intro fails_quietly_bind fails_quietly_option fails_quietly_enqueue fails_quietly_keeps queue_rules adds_publish) simp
      with Pair Inl show ?thesis by (simp add: fails_quietly_def)
    next
      case (Inr d)
      obtain w :: withdrawal and s1 s2 s3 s4 a where
          net: "assertUserWithdrawalNetworkAllowed (wire app) (wd_userId w) s = (Inr (), s1)" and
          led: "on_ledger (wire app) (approveWithdrawal (app_cfg app) i ?inp) s1 = (Inr d, s2)" and
          pub: "publishWithdrawalStateChange (wire app) (ad_withdrawal d) (wa_createdAt (ad_approval d)) s2 = (Inr (), s3)" and
          aud: "audit (wire app) a s3 = (Inr (), s4)" and
          job: "when_do (ad_finalized d) (and_then (on_queue (enqueueDispatch i)) (\<lambda>_.
             notify (wire app) (notifyWithdrawalApproved i (coalesce (sa_adminId inp) ''admin-unknown'')
               (wd_approvalCount (ad_withdrawal d)) (wd_requiredApprovals (ad_withdrawal d))))) s4 = (Inr (), t)"
        using Pair Inr unfolding approve_def Let_def and_then_succeeds
        by (clarsimp simp: ask_ledger_def and_then_succeeds split: option.splits)
      have "dispatches s4 = dispatches s"
        using quiet(1) [OF net] quiet(2) [OF led] quiet(3) [OF pub] quiet(4) [OF aud] by simp
      moreover have "dispatches t = dispatches s4 @ (if ad_finalized d then [QJ_dispatch i 1] else [])"
        using job by (rule enqueue_then_notify)
      moreover obtain now l l' where "approveWithdrawal (app_cfg app) i ?inp now l = (Inr d, l')"
        using led by (auto simp: on_ledger_run Let_def intro: that [OF prod_eqI])
      note approve_decision [OF this]
      ultimately show ?thesis using Pair Inr by simp
    qed
  qed
qed

section \<open>Events: the consumer and the outbox\<close>

lemma cs_same_books:
  "cs.same_books app c k s t \<longleftrightarrow>
     (ids_fresh app s \<longrightarrow> ids_fresh app t) \<and> attempts_of c k (pf_ledger t) = attempts_of c k (pf_ledger s) \<and>
     length (dead_letters_of c k (pf_ledger t)) = length (dead_letters_of c k (pf_ledger s)) \<and>
     hasSucceededEventConsumerCheckpoint c k (pf_ledger t) = hasSucceededEventConsumerCheckpoint c k (pf_ledger s)"
  unfolding cs.same_books_def by (simp add: ledger_consumer_port_def)

lemma cs_same: "pf_ledger t = pf_ledger s \<Longrightarrow> cs.same_books app c k s t"
  by (simp add: cs_same_books ids_fresh_def)

lemma audit_books:
  "attempts_of c k (snd (appendAuditLog cfg inp now l)) = attempts_of c k l"
  "dead_letters_of c k (snd (appendAuditLog cfg inp now l)) = dead_letters_of c k l"
  "hasSucceededEventConsumerCheckpoint c k (snd (appendAuditLog cfg inp now l)) = hasSucceededEventConsumerCheckpoint c k l"
  "consumer_ids_ok cfg l \<Longrightarrow> consumer_ids_ok cfg (snd (appendAuditLog cfg inp now l))"
  by (auto simp: attempts_of_def dead_letters_of_def hasSucceededEventConsumerCheckpoint_def consumer_ids_ok_def
      appendAuditLog_def Let_def lessThan_Suc)

lemma quiet_rules:
  "keeps (cs.same_books app c k) (on_world m)" "keeps (cs.same_books app c k) (on_queue f)"
  "keeps (cs.same_books app c k) (notify app a)" "keeps (cs.same_books app c k) (audit app inp)"
proof -
  show "keeps (cs.same_books app c k) (on_world m)" "keeps (cs.same_books app c k) (on_queue f)"
    by (simp_all add: keeps_def cs_same on_queue_def)
  show "keeps (cs.same_books app c k) (notify app a)"
    unfolding keeps_def
  proof
    fix s
    obtain w m where "notify app a s = (Inr (), s\<lparr>pf_world := w, pf_alerts := m\<rparr>)"
      using notify_run [of app a s] by blast
    then show "cs.same_books app c k s (snd (notify app a s))" by (simp add: cs_same)
  qed
  show "keeps (cs.same_books app c k) (audit app inp)"
    by (simp add: keeps_def audit_def and_then_def on_ledger_run Let_def cs_same_books ids_fresh_def total_def
        split_beta audit_books)
qed

lemma consume_quiet: "cs.quiet app c k (consumeWithdrawalStateChanged app p b)"
  unfolding cs.quiet_def consumeWithdrawalStateChanged_def recordExternalSyncAudit_def enqueueExternalSyncRetry_def Let_def
  by (intro cs.books.keep_rules quiet_rules)

lemma reachable_ids_fresh:
  "reachable_ledger (app_cfg app) (pf_ledger s) \<Longrightarrow> ids_fresh app s"
  using reachable_stores [of "app_cfg app" "pf_ledger s"]
  by (auto simp: ids_fresh_def stores_ok_def reachable_ledger_def uuid_ok_def)

text \<open>C28. The consumer of withdrawal events ends after at most three attempts.  Either some attempt
  succeeds after a run of recorded failures: then there is a success checkpoint, no dead letter, and a
  redelivery of the event is skipped without touching the platform.  Or the three attempts failed: then
  exactly one dead letter is written and no success recorded, so a redelivery is tried again.\<close>

theorem withdrawal_consumer_ends:
  assumes "reachable_ledger (app_cfg app) (pf_ledger s)"
    and "c = ''foxya_withdrawal_sync''" and k: "k = buildEventKey (app_sha256 app) (de_type e) (de_payload e)"
    and "\<not> hasSucceededEventConsumerCheckpoint c k (pf_ledger s)"
  shows "\<exists>r t. withdrawal_subscriber app e s = (r, t) \<and>
    ((\<exists>j. 1 \<le> j \<and> j \<le> 3 \<and>
        attempts_of c k (pf_ledger t)
          = attempts_of c k (pf_ledger s) @ map (Pair AS_failed) [1..j - 1] @ [(AS_succeeded, j)] \<and>
        length (dead_letters_of c k (pf_ledger t)) = length (dead_letters_of c k (pf_ledger s)) \<and>
        withdrawal_subscriber app e t = (Inr (), t)) \<or>
     (attempts_of c k (pf_ledger t) = attempts_of c k (pf_ledger s) @ map (Pair AS_failed) [1..3] \<and>
        length (dead_letters_of c k (pf_ledger t)) = Suc (length (dead_letters_of c k (pf_ledger s))) \<and>
        \<not> hasSucceededEventConsumerCheckpoint c k (pf_ledger t)))"
proof -
  let ?port = "ledger_consumer_port app" and ?inp = "withdrawal_consumer_input e"
  let ?handler = "consumeWithdrawalStateChanged app (de_payload e) False"
  let ?onDead = "Some (case string_field (de_payload e) ''withdrawalId'' of
      Some withdrawalId \<Rightarrow> on_queue (enqueueExternalSync withdrawalId) | None \<Rightarrow> ret ())"
  have key: "buildEventKey (cp_sha256 ?port) (ci_eventType ?inp) (ci_payload ?inp) = k"
    and sel: "ci_consumerName ?inp = c" "ci_maxAttempts ?inp = 3"
    and succ: "cp_hasSucceeded ?port a b t = hasSucceededEventConsumerCheckpoint a b (pf_ledger t)" for a b t
    by (simp_all add: assms(2,3) withdrawal_consumer_input_def ledger_consumer_port_def)
  have quiet: "cs.quiet app c k m" if "?onDead = Some m" for m
    using that by (auto simp: cs.quiet_def intro: quiet_rules cs.books.keep_ret split: option.splits)
  have start: "withdrawal_subscriber app e s = run_from ?port ?inp k ?handler ?onDead 1 s"
    unfolding withdrawal_subscriber_def
    by (subst cs.run_consumer_is_run_from; simp only: key sel succ) (use assms(4) in simp)
  obtain r t where run: "run_from ?port ?inp k ?handler ?onDead 1 s = (r, t)" and
    out: "(\<exists>j. 1 \<le> j \<and> j \<le> 3 \<and> attempts_of c k (pf_ledger t)
          = attempts_of c k (pf_ledger s) @ map (Pair AS_failed) [1..j - 1] @ [(AS_succeeded, j)] \<and>
        length (dead_letters_of c k (pf_ledger t)) = length (dead_letters_of c k (pf_ledger s)) \<and>
        hasSucceededEventConsumerCheckpoint c k (pf_ledger t) \<and> r = Inr ()) \<or>
     (attempts_of c k (pf_ledger t) = attempts_of c k (pf_ledger s) @ map (Pair AS_failed) [1..3] \<and>
        length (dead_letters_of c k (pf_ledger t)) = Suc (length (dead_letters_of c k (pf_ledger s))) \<and>
        \<not> hasSucceededEventConsumerCheckpoint c k (pf_ledger t))"
    using cs.run_from_outcome [OF reachable_ids_fresh [OF assms(1)] consume_quiet quiet sel(1) [symmetric], of ?onDead 1]
      assms(4) unfolding sel succ cs.failures_def by fastforce
  have "withdrawal_subscriber app e t = (Inr (), t)" if "hasSucceededEventConsumerCheckpoint c k (pf_ledger t)"
    unfolding withdrawal_subscriber_def
    by (rule cs.succeeded_is_skipped) (simp only: key sel succ that)
  with start run out show ?thesis by auto
qed

definition demo_event :: domain_event where
  "demo_event = \<lparr>de_type = ''withdrawal.state.changed'', de_payload = [(''withdrawalId'', JStr ''u4'')],
     de_occurredAt = demo_now\<rparr>"

lemma demo_no_consumers:
  "eventConsumerAttempts demo_deposited = []" "eventConsumerCheckpoints demo_deposited = []"
  by code_simp+

definition demo_key :: string where
  "demo_key = buildEventKey (app_sha256 demo_app) (de_type demo_event) (de_payload demo_event)"

theorem withdrawal_consumer_ends_witness:
  "\<exists>r t. withdrawal_subscriber demo_app demo_event (demo_platform demo_deposited) = (r, t) \<and>
     1 \<le> length (attempts_of ''foxya_withdrawal_sync'' demo_key (pf_ledger t)) \<and>
     length (attempts_of ''foxya_withdrawal_sync'' demo_key (pf_ledger t)) \<le> 3"
proof -
  have "attempts_of ''foxya_withdrawal_sync'' demo_key demo_deposited = []"
    "\<not> hasSucceededEventConsumerCheckpoint ''foxya_withdrawal_sync'' demo_key demo_deposited"
    by (simp_all add: attempts_of_def hasSucceededEventConsumerCheckpoint_def demo_no_consumers)
  with withdrawal_consumer_ends [of demo_app "demo_platform demo_deposited" "''foxya_withdrawal_sync''" demo_key demo_event]
  show ?thesis by (auto simp: demo_reachable demo_key_def)
qed

lemma process_job_fails:
  assumes "process_job app j s = (Inl e, t)"
  shows "\<exists>f fs. jq_failedJobs (pf_queue t) = f # fs \<and> fj_failedReason f = Some (error_message e)"
proof -
  obtain r s1 where run: "run_job app j s = (r, s1)" by fastforce
  with assms show ?thesis
    by (cases r) (auto simp: process_job_def catching_def and_then_def record_failed_def run_clock on_queue_def)
qed

lemma drain_fails:
  fixes app :: "'w app"
  assumes "drain app s = Some y"
  shows "fst y = Inl e \<longrightarrow> (\<exists>f fs. jq_failedJobs (pf_queue (snd y)) = f # fs \<and> fj_failedReason f = Some (error_message e))"
    (is "?P y")
proof (rule drain.raw_induct [of "\<lambda>a s y. ?P y", OF _ assms], intro impI)
  fix drain' and a :: "'w app" and s :: "'w platform" and y
  assume IH: "\<And>a s y. drain' a s = Some y \<Longrightarrow> ?P y" and y: "fst y = Inl e"
    and eq: "(if jq_jobs (pf_queue s) = [] then Some (Inr (), s)
      else let result = process_job a (hd (jq_jobs (pf_queue s))) (without_first s)
           in if fails (fst result) then Some result else drain' a (snd result)) = Some y"
  show "\<exists>f fs. jq_failedJobs (pf_queue (snd y)) = f # fs \<and> fj_failedReason f = Some (error_message e)"
  proof (cases "fails (fst (process_job a (hd (jq_jobs (pf_queue s))) (without_first s)))")
    case True
    with eq y have "process_job a (hd (jq_jobs (pf_queue s))) (without_first s) = (Inl e, snd y)"
      by (auto simp: Let_def intro: prod_eqI split: if_splits)
    then show ?thesis by (rule process_job_fails)
  next
    case False
    with eq y have "drain' a (snd (process_job a (hd (jq_jobs (pf_queue s))) (without_first s))) = Some y"
      by (auto simp: Let_def split: if_splits)
    with IH y show ?thesis by blast
  qed
qed

text \<open>C29. The withdrawal queue drains: on any platform, whatever the outside world answers, the loop ends,
  although dispatches queue reconciliations and failing event deliveries queue external syncs.  A drain
  that returns has emptied the queue; one that throws has put the failing job, with the error's message,
  at the head of the failed jobs.\<close>

theorem queue_drains:
  "\<exists>r t. drain (wire app) s = Some (r, t) \<and>
     (case r of
        Inr u \<Rightarrow> jq_jobs (pf_queue t) = []
      | Inl e \<Rightarrow> \<exists>f fs. jq_failedJobs (pf_queue t) = f # fs \<and> fj_failedReason f = Some (error_message e))"
proof -
  obtain r t where "drain (wire app) s = Some (r, t)" using drain_returns [of app s] by fastforce
  then show ?thesis using drain_empties [of "wire app" s] drain_fails [of "wire app" s] by (cases r) fastforce+
qed

section \<open>Risk\<close>

text \<open>A request of at least four fifths of the single limit, or to a destination that failed for the
  user within the last day, needs two approvals; and every risk score lies between 0 and 190.\<close>

theorem risky_requests_need_two_approvals:
  assumes "js_ge amountKori (js_mul singleLimitKori (fl 8 10)) \<or>
    (\<exists>w \<in> set (listWithdrawalsByUser userId 100 s). wd_toAddress w = toAddress \<and> wd_status w = FAILED \<and>
       toISOString (now - 24 * 60 * 60 * 1000) \<le> wd_createdAt w)"
  shows "ra_requiredApprovals (assessRisk singleLimitKori userId amountKori toAddress clientIp deviceId now s) = 2 \<and>
    40 \<le> ra_score (assessRisk singleLimitKori userId amountKori toAddress clientIp deviceId now s) \<and>
    ra_score (assessRisk singleLimitKori userId amountKori toAddress clientIp deviceId now s) \<le> 190"
proof -
  let ?ws = "listWithdrawalsByUser userId 100 s"
  let ?flags = "risk_flags singleLimitKori amountKori toAddress clientIp deviceId now ?ws"
  have "\<exists>f n. (f, n) \<in> set ?flags \<and> 40 \<le> n"
  proof (cases "js_ge amountKori (js_mul singleLimitKori (fl 8 10))")
    case True
    then have "(''large_amount'', 60) \<in> set ?flags" by (simp add: risk_flags_def Let_def)
    then show ?thesis by fastforce
  next
    case False
    with assms obtain w where "w \<in> set ?ws" "wd_toAddress w = toAddress" "wd_status w = FAILED"
        "toISOString (now - 24 * 60 * 60 * 1000) \<le> wd_createdAt w" by blast
    then have "filter (\<lambda>w. wd_status w = FAILED \<and> toISOString (now - 24 * 60 * 60 * 1000) \<le> wd_createdAt w)
        (filter (\<lambda>w. wd_toAddress w = toAddress) ?ws) \<noteq> []"
      by (simp only: filter_empty_conv set_filter) blast
    then have "(''failed_destination_retry'', 40) \<in> set ?flags"
      by (simp add: risk_flags_def Let_def Suc_le_eq)
    then show ?thesis by fastforce
  qed
  then have "40 \<le> ra_score (risk_of ?flags)" using risk_flag_weight_le order_trans by metis
  then show ?thesis
    using risk_score_bounds [of singleLimitKori amountKori toAddress clientIp deviceId now ?ws]
    by (simp add: assessRisk_def risk_level_iff)
qed

theorem risky_requests_need_two_approvals_witness:
  "ra_requiredApprovals (assessRisk (JsFin 5 0) ''alice'' (JsFin 4 0) ''TDest'' (Some ''10.0.0.1'') (Some ''d'') 0 demo_deposited) = 2"
proof -
  have "js_ge (JsFin 4 0) (js_mul (JsFin 5 0) (fl 8 10))" by code_simp
  then show ?thesis
    using risky_requests_need_two_approvals
      [of "JsFin 4 0" "JsFin 5 0" "''alice''" demo_deposited "''TDest''" 0 "Some ''10.0.0.1''" "Some ''d''"] by simp
qed

section \<open>The guards\<close>

lemma trc20_reads_resources:
  assumes "hot_wallet_ready app s" and "go_tronGatewayMode (app_guard app) = GM_trc20"
    and "go_signerMode (app_guard app) \<noteq> SM_offline_stub"
  shows "\<exists>r. fst (app_getAccountResources app (go_hotWalletAddress (app_guard app)) (pf_world s)) = Inr r \<and>
    hr_ready (trc20_readiness app r)"
proof -
  obtain h t where "getHotWalletReadiness app s = (Inr h, t)" "hr_ready h"
    using assms(1) by (auto simp: hot_wallet_ready_def)
  then show ?thesis
    using assms(2,3) by (auto simp: getHotWalletReadiness_def Let_def and_then_succeeds on_world_run)
qed

text \<open>Whoever signs, the guards read the same.\<close>

lemma guards_ignore_signer:
  "assertBroadcastAllowed (app\<lparr>app_signer := x\<rparr>) = assertBroadcastAllowed app"
  "assertUserWithdrawalNetworkAllowed (app\<lparr>app_signer := x\<rparr>) = assertUserWithdrawalNetworkAllowed app"
  unfolding fun_eq_iff
  by (simp_all add: assertBroadcastAllowed_def assertPolicies_def assertHotWalletReady_def
      getHotWalletReadiness_def trc20_readiness_def getSignerAddress_def assertUserWithdrawalNetworkAllowed_def
      Let_def cong: if_cong option.case_cong sum.case_cong)

text \<open>What the guards accept in the state they are evaluated in: with the TRC-20 gateway, the resources are those
  the chain answers in the world of that state.\<close>

lemma guard_passed:
  assumes "assertBroadcastAllowed app a n s = (Inr (), t)"
  shows "destination_free app s a \<and> \<not> requiresOfflineSigning (app_guard app) n \<and>
    (go_tronGatewayMode (app_guard app) = GM_trc20 \<longrightarrow>
       app_fromPrivateKey app (go_hotWalletPrivateKey (app_guard app)) = Inr (Some (go_hotWalletAddress (app_guard app))) \<and>
       (\<exists>r. fst (app_getAccountResources app (go_hotWalletAddress (app_guard app)) (pf_world s)) = Inr r \<and>
          go_minTrxSun (app_guard app) \<le> ar_trxBalanceSun r \<and>
          go_minBandwidth (app_guard app) \<le> max 0 (ar_bandwidthLimit r - ar_bandwidthUsed r) \<and>
          go_minEnergy (app_guard app) \<le> max 0 (ar_energyLimit r - ar_energyUsed r)))"
proof -
  have ok: "destination_free app s a" "\<not> requiresOfflineSigning (app_guard app) n" "hot_wallet_ready app s"
    using broadcast_allowed_iff [of app a n s] assms by auto
  moreover have "go_signerMode (app_guard app) \<noteq> SM_offline_stub"
    using ok(2) by (auto simp: requiresOfflineSigning_def)
  ultimately show ?thesis
    using trc20_reads_resources [OF ok(3)] trc20_ready healthy_signer [of app] by blast
qed

text \<open>C22. No payment without the checks, and the checks come first.  Either the run of \<open>broadcast\<close> is the
  same whoever signs, so that nobody was asked to pay; or, in the state the guards were evaluated in
  before the signer was asked, the network policy admitted the user, the destination was neither a
  managed system wallet nor blocked by a policy, the amount did not require offline signing and, with the
  TRC-20 gateway, the configured private key was the hot wallet's own and the chain answered, in the world
  of that very state, at least the minimum of TRX, bandwidth and energy.  And a broadcast that returns a
  withdrawal was of an approved one.\<close>

theorem broadcast_was_checked:
  assumes w: "getWithdrawal i (pf_ledger s) = Some w"
    and net: "assertUserWithdrawalNetworkAllowed app (wd_userId w) s = (admitted, s1)"
  shows "((\<forall>signer. broadcast (app\<lparr>app_signer := Some signer\<rparr>) i s = broadcast app i s) \<or>
      (admitted = Inr () \<and> destination_free app s1 (wd_toAddress w) \<and>
       \<not> requiresOfflineSigning (app_guard app) (Some (wd_amount w)) \<and>
       (go_tronGatewayMode (app_guard app) = GM_trc20 \<longrightarrow>
         app_fromPrivateKey app (go_hotWalletPrivateKey (app_guard app)) = Inr (Some (go_hotWalletAddress (app_guard app))) \<and>
         (\<exists>r. fst (app_getAccountResources app (go_hotWalletAddress (app_guard app)) (pf_world s1)) = Inr r \<and>
            go_minTrxSun (app_guard app) \<le> ar_trxBalanceSun r \<and>
            go_minBandwidth (app_guard app) \<le> max 0 (ar_bandwidthLimit r - ar_bandwidthUsed r) \<and>
            go_minEnergy (app_guard app) \<le> max 0 (ar_energyLimit r - ar_energyUsed r))))) \<and>
    (\<forall>v t. broadcast app i s = (Inr (Some v), t) \<longrightarrow> wd_status w = ADMIN_APPROVED)"
proof (rule conjI)
  have run: "broadcast (app\<lparr>app_signer := x\<rparr>) i s = (case admitted of Inl e \<Rightarrow> (Inl e, s1)
      | Inr _ \<Rightarrow> and_then (assertBroadcastAllowed app (wd_toAddress w) (Some (wd_amount w))) (\<lambda>_.
          and_then (on_world (sign_and_send (app\<lparr>app_signer := x\<rparr>) w)) (\<lambda>txHash.
          and_then (record_broadcast (app\<lparr>app_signer := x\<rparr>) i txHash) (\<lambda>updated. ret (Some updated)))) s1)" for x
    using w net by (simp add: broadcast_def and_then_def ask_ledger_def guards_ignore_signer split: sum.splits)
  show "(\<forall>signer. broadcast (app\<lparr>app_signer := Some signer\<rparr>) i s = broadcast app i s) \<or>
      (admitted = Inr () \<and> destination_free app s1 (wd_toAddress w) \<and>
       \<not> requiresOfflineSigning (app_guard app) (Some (wd_amount w)) \<and>
       (go_tronGatewayMode (app_guard app) = GM_trc20 \<longrightarrow>
         app_fromPrivateKey app (go_hotWalletPrivateKey (app_guard app)) = Inr (Some (go_hotWalletAddress (app_guard app))) \<and>
         (\<exists>r. fst (app_getAccountResources app (go_hotWalletAddress (app_guard app)) (pf_world s1)) = Inr r \<and>
            go_minTrxSun (app_guard app) \<le> ar_trxBalanceSun r \<and>
            go_minBandwidth (app_guard app) \<le> max 0 (ar_bandwidthLimit r - ar_bandwidthUsed r) \<and>
            go_minEnergy (app_guard app) \<le> max 0 (ar_energyLimit r - ar_energyUsed r))))"
  proof (cases admitted)
    case (Inr a)
    show ?thesis
    proof (cases "assertBroadcastAllowed app (wd_toAddress w) (Some (wd_amount w)) s1")
      case (Pair g s2)
      then show ?thesis
        using run [of "Some signer" for signer] run [of "app_signer app"] guard_passed [of app _ _ s1 s2] Inr
        by (cases g) (simp_all add: and_then_def)
    qed
  qed (use run [of "Some signer" for signer] run [of "app_signer app"] in simp)
  show "\<forall>v t. broadcast app i s = (Inr (Some v), t) \<longrightarrow> wd_status w = ADMIN_APPROVED"
  proof (intro allI impI)
    fix v t assume "broadcast app i s = (Inr (Some v), t)"
    then obtain s2 s3 h where guard: "assertBroadcastAllowed app (wd_toAddress w) (Some (wd_amount w)) s1 = (Inr (), s2)"
        and send: "on_world (sign_and_send app w) s2 = (Inr h, s3)" and led: "record_broadcast app i h s3 = (Inr v, t)"
      using w net by (auto simp: broadcast_def and_then_succeeds ask_ledger_def)
    have "pf_ledger s3 = pf_ledger s"
      using net guard send keepsD [OF outside_guards(1), of s app "wd_userId w"]
        keepsD [OF outside_guards(2), of s1 app "wd_toAddress w" "Some (wd_amount w)"]
      by (auto simp: outside_only_def on_world_run)
    then show "wd_status w = ADMIN_APPROVED"
      using led w by (auto simp: record_broadcast_def and_then_succeeds on_ledger_run Let_def broadcastWithdrawal_def
          getMutable_get split: if_splits)
  qed
qed

section \<open>Address policies\<close>

text \<open>The abstract store: which policy types an address has.\<close>

definition policy_abs :: "address_policy jsmap \<Rightarrow> string \<Rightarrow> policy_type set" where
  "policy_abs m a = ap_policyType ` set (getAddressPolicies a m)"

text \<open>The policy repository refines a map from addresses to sets of policy types: an upsert inserts the
  type at the address, a delete removes it and reports whether it was there, nothing else changes, and
  an address is refused as a destination exactly when it is blacklisted or blocked internally.\<close>

theorem policy_store_refines_sets:
  assumes "policies_ok m"
  shows "policy_abs (snd (upsertAddressPolicy a ty reason by' now m)) = (policy_abs m)(a := insert ty (policy_abs m a)) \<and>
    policy_abs (snd (deleteAddressPolicy a ty m)) = (policy_abs m)(a := policy_abs m a - {ty}) \<and>
    (fst (deleteAddressPolicy a ty m) \<longleftrightarrow> ty \<in> policy_abs m a) \<and>
    (assertAddressAllowed (getAddressPolicies b m) = Inr () \<longleftrightarrow> policy_abs m b \<inter> {PT_blacklist, PT_internal_blocked} = {})"
  using mp.types_upsert [OF assms] mp.types_remove [OF assms] policy_types [OF assms, of ty a] mp.blocked_iff [of b m]
  by (auto simp: policy_abs_def fun_eq_iff deleteAddressPolicy_def Let_def mp.blocked_def fails_def split: sum.splits)

theorem policy_store_refines_sets_witness:
  "policy_abs (snd (upsertAddressPolicy ''TBad'' PT_blacklist None ''ops'' demo_now [])) ''TBad'' = {PT_blacklist}"
  using policy_store_refines_sets [of "[]" "''TBad''" PT_blacklist None "''ops''" demo_now]
  by (simp add: policies_ok_def policy_abs_def getAddressPolicies_def)

section \<open>The event key\<close>

lemma json_pick_none:
  assumes "set ks \<inter> fst ` set fs = {}"
  shows "json_pick ks (JObj fs) = JObj []"
proof -
  have "map_of (map (\<lambda>(k, v). (k, json_pick ks v)) fs) k = None" if "k \<in> set ks" for k
    using assms that by (force simp: map_of_eq_None_iff)
  then show ?thesis by (auto simp: List.map_filter_def filter_empty_conv)
qed

lemma json_pick_last:
  "json_pick ks v = json_pick ks v' \<Longrightarrow> json_pick ks (JObj (p @ [(k, v)])) = json_pick ks (JObj (p @ [(k, v')]))"
  by simp

text \<open>The key that makes a consumer skip an event it has handled ignores nested fields: the replacer list
  given to \<open>JSON.stringify\<close> filters the properties of nested objects too.  Two events that differ only
  inside a nested object, whose fields do not happen to be named like top-level ones, get the same key,
  so the second is taken for a redelivery of the first.\<close>

theorem event_key_ignores_nested_fields:
  assumes "fst ` set fs \<inter> (fst ` set p \<union> {k}) = {}" and "fst ` set gs \<inter> (fst ` set p \<union> {k}) = {}"
  shows "buildEventKey sha256 eventType (p @ [(k, JObj fs)]) = buildEventKey sha256 eventType (p @ [(k, JObj gs)])"
proof -
  let ?ks = "sort_strings (map fst p @ [k])"
  have ks: "set ?ks = fst ` set p \<union> {k}" by (simp add: sort_strings_def)
  have "json_pick ?ks (JObj fs) = JObj []" "json_pick ?ks (JObj gs) = JObj []"
    by (rule json_pick_none; simp only: ks Int_commute assms)+
  then have "json_pick ?ks (JObj (p @ [(k, JObj fs)])) = json_pick ?ks (JObj (p @ [(k, JObj gs)]))"
    by (intro json_pick_last) (simp only:)
  then show ?thesis unfolding buildEventKey_def Let_def map_append list.map fst_conv by (simp only:)
qed

theorem event_key_ignores_nested_fields_witness:
  "buildEventKey (\<lambda>m. m) ''settled'' [(''id'', JStr ''s1''), (''detail'', JObj [(''amount'', JNum 1)])]
     = buildEventKey (\<lambda>m. m) ''settled'' [(''id'', JStr ''s1''), (''detail'', JObj [(''amount'', JNum 2)])]"
  using event_key_ignores_nested_fields [of "[(''amount'', JNum 1)]" "[(''id'', JStr ''s1'')]" "''detail''"
      "[(''amount'', JNum 2)]" "\<lambda>m. m" "''settled''"] by simp

section \<open>Virtual wallets\<close>

text \<open>C35. Every reachable platform is well formed: the address, user and idempotency indexes of the wallet
  repository only refer to stored wallets with that address, user or key, every wallet is stored under
  its own id, and every address policy is stored under its own key.\<close>

theorem reachable_platform_well_formed:
  assumes "app_ok app" and "platform_steps app (initial_platform app w0) s"
  shows "repo_ok (app_walletId app) (pf_wallets s) \<and> policies_ok (pf_policies s)"
  using platform_steps_ok [OF assms(2,1)] by (simp add: platform_ok_def)

theorem reachable_platform_well_formed_witness:
  "repo_ok (app_walletId demo_app) (pf_wallets demo_issued) \<and> policies_ok (pf_policies demo_issued)"
  by (rule reachable_platform_well_formed [OF demo_app_ok demo_issued_steps])

text \<open>C32. The life of a virtual wallet: whatever the services do, a stored wallet stays stored under its id
  with its owner, address and keys; once retired or disabled it is never active again, a disabled one
  stays disabled; and while it is active it is its owner's only active wallet in that currency.\<close>

theorem virtual_wallet_life:
  assumes "app_ok app" and "platform_steps app (initial_platform app w0) s" and "platform_steps app s t"
    and "map_get (walletById (pf_wallets s)) i = Some b"
  shows "\<exists>c. map_get (walletById (pf_wallets t)) i = Some c \<and> same_wallet b c \<and>
    (vw_status c = VW_active \<longrightarrow> vw_status b = VW_active) \<and>
    (vw_status b = VW_disabled \<longrightarrow> vw_status c = VW_disabled) \<and>
    (\<forall>j d. map_get (walletById (pf_wallets t)) j = Some d \<and> vw_status c = VW_active \<and> vw_status d = VW_active \<and>
       vw_userId d = vw_userId c \<and> vw_currencyId d = vw_currencyId c \<longrightarrow> j = i)"
proof -
  have inj: "inj (app_walletId app)" using assms(1) by (simp add: app_ok_def)
  have "repo_ok (app_walletId app) (pf_wallets s)"
    using platform_steps_ok [OF assms(2,1)] by (simp add: platform_ok_def)
  from platform_steps_wallets [OF assms(3) inj this]
  have ok: "one_active (pf_wallets t)" and "wallets_evolve (pf_wallets s) (pf_wallets t)"
    by (auto dest: repo_okD(7))
  then obtain c where "map_get (walletById (pf_wallets t)) i = Some c" "wallet_follows b c"
    using assms(4) by (auto simp: wallets_evolve_def)
  with ok show ?thesis unfolding wallet_follows_def one_active_def by (intro exI [of _ c]) blast
qed

theorem virtual_wallet_life_witness:
  "\<exists>c. map_get (walletById (pf_wallets (snd (reissue (wire demo_app) demo_ports ''alice'' 1 mainnet ''k2'' demo_issued)))) ''v0''
    = Some c \<and> same_wallet demo_wallet c"
proof -
  have "platform_steps demo_app demo_issued (snd (reissue (wire demo_app) demo_ports ''alice'' 1 mainnet ''k2'' demo_issued))"
    unfolding platform_steps_def by (rule r_into_rtranclp, rule pf_reissue) simp
  from virtual_wallet_life [OF demo_app_ok demo_issued_steps this demo_wallet_stored] show ?thesis by blast
qed

lemma binding_after_bind:
  assumes "bindWalletAddress u a now l = (Inr b, l')" and "u \<noteq> ''''"
  shows "getWalletBinding (Some u) wa l' = Inr (Some b) \<and> wb_walletAddress b = a"
  using assms by (auto simp: bindWalletAddress_def getWalletBinding_def truthy_str_def Let_def write_account_def
      split: if_splits option.splits)

lemma issue_created:
  assumes "issueVirtualWallet newId inp now (l, r) = (Inr res, (l1, r1))" and "\<not> vi_duplicated res"
  shows "createWallet newId inp None now (l, r) = (Inr res, (l1, r1))"
    "getActiveWallet (ii_userId inp) (ii_currencyId inp) r = None"
  using assms by (auto simp: issueVirtualWallet_def split: option.splits sum.splits if_splits)

lemma create_bound:
  assumes "createWallet newId inp old now (l, r) = (Inr res, (l1, r1))" and "ii_userId inp \<noteq> ''''"
  shows "\<exists>b. getWalletBinding (Some (ii_userId inp)) wa l1 = Inr (Some b) \<and> wb_walletAddress b = ii_walletAddress inp"
    "vi_binding res = toPublicBinding (new_wallet inp (newId (walletUuidCount r)) now)"
  using assms binding_after_bind [of "ii_userId inp" "ii_walletAddress inp" now l]
  by (auto simp: createWallet_def Let_def new_wallet_def split: sum.splits prod.splits)

text \<open>Issuing a virtual wallet activates it and binds its address to the user in the ledger, and that
  binding outlives the wallet: after the wallet is retired, the user's next issue (under a new key) is
  refused with a conflict that speaks of an address bound outside virtual wallet issuance, although
  issuance bound it.\<close>

theorem issue_after_retirement_is_refused:
  assumes "repo_ok newId r" and "inj newId" and "ii_userId inp \<noteq> ''''"
    and issued: "issueVirtualWallet newId inp now (l, r) = (Inr res, (l1, r1))" and new: "\<not> vi_duplicated res"
    and retired: "r2 = snd (retireVirtualWallet (vw_virtualWalletId (vi_binding res)) None later r1)"
    and again: "ii_userId inp2 = ii_userId inp" "ii_currencyId inp2 = ii_currencyId inp"
      "map_get (walletByIdempotencyKey r2) (ii_idempotencyKey inp2) = None"
  shows "vw_status (vi_binding res) = VW_active \<and>
    (\<exists>b. getWalletBinding (Some (ii_userId inp)) None l1 = Inr (Some b) \<and> wb_walletAddress b = ii_walletAddress inp) \<and>
    fst (issueVirtualWallet newId inp2 now2 (l1, r2))
      = Inl (DomainError 409 ''USER_ALREADY_HAS_BOUND_WALLET_ADDRESS''
               ''user already has a wallet address bound outside virtual wallet issuance'')"
proof -
  note created = issue_created [OF issued new]
  let ?i = "newId (walletUuidCount r)"
  let ?b = "new_wallet inp ?i now"
  have r1: "r1 = add_wallet ?b r"
    using createWallet_state [of newId inp None now l r] created(1) by (simp add: retired_for_def)
  have binding: "vi_binding res = toPublicBinding ?b" by (rule create_bound(2) [OF created(1) assms(3)])
  then have id: "vw_virtualWalletId (vi_binding res) = ?i" by (simp add: toPublicBinding_def)
  have ok1: "repo_ok newId r1" using repo_ok_issue [OF assms(1,2), of inp now l] issued by simp
  have ok2: "repo_ok newId r2"
    using ok1 unfolding retired retireVirtualWallet_def
    by (intro repo_ok_update) (simp_all add: wallet_follows_def same_wallet_def)
  have stored: "map_get (walletById r1) ?i = Some ?b" by (simp add: r1 add_wallet_def)
  have "vw_status c \<noteq> VW_active"
    if c: "map_get (walletById r2) j = Some c" "vw_userId c = ii_userId inp" "vw_currencyId c = ii_currencyId inp" for j c
  proof (cases "j = ?i")
    case True
    then show ?thesis
      using c stored by (auto simp: retired id retireVirtualWallet_def update_wallet_def requireBinding_def)
  next
    case False
    then have "map_get (walletById r1) j = Some c"
      using c stored by (auto simp: retired id retireVirtualWallet_def update_wallet_def requireBinding_def)
    with False stored c repo_okD(7) [OF ok1] show ?thesis unfolding one_active_def by fastforce
  qed
  then have none: "getActiveWallet (ii_userId inp) (ii_currencyId inp) r2 = None"
    using getActiveWallet_Some [OF ok2, of "ii_userId inp" "ii_currencyId inp"]
    by (cases "getActiveWallet (ii_userId inp) (ii_currencyId inp) r2") auto
  obtain b where b: "getWalletBinding (Some (ii_userId inp)) None l1 = Inr (Some b)" "wb_walletAddress b = ii_walletAddress inp"
    using create_bound(1) [OF created(1) assms(3)] by blast
  then have "fst (issueVirtualWallet newId inp2 now2 (l1, r2))
      = Inl (DomainError 409 ''USER_ALREADY_HAS_BOUND_WALLET_ADDRESS''
               ''user already has a wallet address bound outside virtual wallet issuance'')"
    using none again by (simp add: issueVirtualWallet_def wallet_at_def)
  with b show ?thesis by (simp add: binding toPublicBinding_def)
qed

theorem issue_after_retirement_is_refused_witness:
  "fst (issueVirtualWallet (app_walletId demo_app) (demo_issue\<lparr>ii_idempotencyKey := ''issue-2''\<rparr>) demo_now
      (snd (bindWalletAddress ''alice'' ''TAlice'' demo_now demo_deposited),
       snd (retireVirtualWallet ''v0'' None demo_now (add_wallet demo_wallet empty_wallet_repo))))
    = Inl (DomainError 409 ''USER_ALREADY_HAS_BOUND_WALLET_ADDRESS''
             ''user already has a wallet address bound outside virtual wallet issuance'')"
proof -
  have "inj (app_walletId demo_app)" using demo_app_ok by (simp add: app_ok_def)
  moreover have "vw_virtualWalletId (toPublicBinding demo_wallet) = ''v0''"
    by (simp add: toPublicBinding_def demo_wallet_def)
  moreover have "map_get (walletByIdempotencyKey (snd (retireVirtualWallet ''v0'' None demo_now
      (add_wallet demo_wallet empty_wallet_repo)))) ''issue-2'' = None"
    by (simp add: retireVirtualWallet_def update_wallet_def requireBinding_def add_wallet_def demo_wallet_def
        empty_wallet_repo_def demo_issue_def)
  ultimately show ?thesis
    using issue_after_retirement_is_refused [OF repo_ok_empty _ _ demo_issue_result, of _ demo_now
        "demo_issue\<lparr>ii_idempotencyKey := ''issue-2''\<rparr>" demo_now]
    by (simp add: demo_issue_def)
qed

text \<open>A withdrawal request of a user whose managed wallet is not active, not fully activated, or still
  in the signup cooldown is refused with 409 before anything happens: the platform is unchanged but for
  the clock.\<close>

theorem request_waits_for_activation:
  assumes "app_lifecyclePolicy app"
    and "resolveUserId (rq_userId inp) (rq_walletAddress inp) (pf_ledger s) = Inr u"
    and "getVirtualWallet (Some u) (rq_walletAddress inp) (pf_wallets s) = Inr (Some b)"
    and "vw_status b \<noteq> VW_active \<or> vw_activationStatus b \<noteq> VA_reclaimed \<or>
      (\<exists>created. date_parse (vw_createdAt b) = Some created \<and>
         fst (app_clock app (pf_world s)) < created + app_signupWalletCooldownSec app * 1000)"
  shows "\<exists>reason. request app inp s = (Inl (DomainError 409 ''WITHDRAWAL_NOT_READY'' reason),
    s\<lparr>pf_world := snd (app_clock app (pf_world s))\<rparr>)"
proof -
  have "\<not> lg_withdrawAllowed (evaluate (app_signupWalletCooldownSec app) (fst (app_clock app (pf_world s))) (Some b))"
    unfolding evaluate_allowed using assms(4) by auto
  then show ?thesis
    using assms(1-3)
    by (simp add: request_def and_then_def inspect_ledger_def assertWithdrawalAllowed_def run_clock Let_def)
qed

definition demo_service_request :: service_request where
  "demo_service_request = \<lparr>rq_userId = Some ''alice'', rq_walletAddress = None, rq_amountKori = JsFin 1 0,
     rq_toAddress = ''TDest'', rq_idempotencyKey = ''key-9'', rq_clientIp = None, rq_deviceId = None\<rparr>"

theorem request_waits_for_activation_witness:
  "\<exists>reason. request demo_app demo_service_request demo_issued
     = (Inl (DomainError 409 ''WITHDRAWAL_NOT_READY'' reason), demo_issued)"
proof -
  have world: "demo_issued\<lparr>pf_world := []\<rparr> = demo_issued"
    using demo_issued_sel(3) by simp
  have "vw_activationStatus (toPublicBinding demo_wallet) \<noteq> VA_reclaimed"
    by (simp add: toPublicBinding_def demo_wallet_def new_wallet_def)
  then have "\<exists>reason. request demo_app demo_service_request demo_issued
      = (Inl (DomainError 409 ''WITHDRAWAL_NOT_READY'' reason), demo_issued\<lparr>pf_world := []\<rparr>)"
    using request_waits_for_activation [of demo_app demo_service_request demo_issued "''alice''" "toPublicBinding demo_wallet"]
    by (simp add: demo_service_request_def resolveUserId_def truthy_str_def demo_wallet_current demo_issued_sel(3))
  then show ?thesis unfolding world .
qed

section \<open>Reconciliation\<close>

definition has_status :: "withdrawal_status \<Rightarrow> 'w platform \<Rightarrow> string \<Rightarrow> bool" where
  "has_status st s i = (\<exists>v. map_get (withdrawals (pf_ledger s)) i = Some v \<and> wd_status v = st)"

lemma final_status_stays:
  assumes "runs app s t" and "reachable_ledger (app_cfg app) (pf_ledger s)" and "has_status st s i"
    and "\<not> active_status st"
  shows "has_status st t i"
proof -
  obtain v where v: "map_get (withdrawals (pf_ledger s)) i = Some v" "wd_status v = st"
    using assms(3) by (auto simp: has_status_def)
  from withdrawal_life [OF _ assms(2) v(1), of "pf_ledger t"] assms(1,4) v(2) show ?thesis
    by (auto simp: has_status_def ledger_runs_def through_def)
qed

text \<open>A ledger method followed by its publication and audit: the final status it sets stays.\<close>

lemma announced_status:
  assumes reach: "reachable_ledger (app_cfg app) (pf_ledger s)"
    and run: "and_then (on_ledger (wire app) m) (\<lambda>x. and_then (publish_now (wire app) x) (\<lambda>_.
      and_then (audit (wire app) (a x)) (\<lambda>_. ret x))) s = (Inr w, t)"
    and step: "\<And>now l. ledger_step (app_cfg app) l (snd (m now l))"
    and sets: "\<And>now x l. m now (pf_ledger s) = (Inr x, l) \<Longrightarrow>
      \<exists>v. map_get (withdrawals l) i = Some v \<and> wd_status v = st"
    and final: "\<not> active_status st"
  shows "runs app s t \<and> has_status st t i"
proof -
  obtain x s1 where l: "on_ledger (wire app) m s = (Inr x, s1)"
      and rest: "and_then (publish_now (wire app) x) (\<lambda>_. and_then (audit (wire app) (a x)) (\<lambda>_. ret x)) s1 = (Inr w, t)"
    using run unfolding and_then_succeeds by blast
  have s1: "runs app s s1" using keepsD [OF pl.run_on_ledger [of "wire app" m], of s] l step by simp
  have "keeps (runs (wire app)) (and_then (publish_now (wire app) x) (\<lambda>_. and_then (audit (wire app) (a x)) (\<lambda>_. ret x)))"
    by (intro run_rules)
  from keepsD [OF this, of s1] rest have t: "runs app s1 t" by simp
  obtain now where "m now (pf_ledger s) = (Inr x, pf_ledger s1)"
    using l by (auto simp: on_ledger_run Let_def intro: that [OF prod_eqI])
  from sets [OF this] have "has_status st s1 i" by (auto simp: has_status_def)
  with t s1 reach final have "has_status st t i"
    by (auto simp: ledger_runs_def through_def intro: final_status_stays reachable_steps)
  with lr.R_trans [OF s1 t] show ?thesis by (rule conjI)
qed

lemma confirm_completes:
  assumes "reachable_ledger (app_cfg app) (pf_ledger s)" and "confirm (wire app) i fee s = (Inr w, t)"
  shows "runs app s t \<and> has_status COMPLETED t i"
proof (rule announced_status [OF assms(1)])
  show "and_then (on_ledger (wire app) (confirmWithdrawal (app_cfg app) i fee)) (\<lambda>x. and_then (publish_now (wire app) x) (\<lambda>_.
      and_then (audit (wire app) (audit_entry ET_withdrawal i ''withdraw.confirmed'' AT_system ''reconciliation''
        [(''txHash'', coalesce (wd_txHash x) '''')])) (\<lambda>_. ret x))) s = (Inr w, t)"
    using assms(2) by (simp add: confirm_def)
  fix now x l
  assume c: "confirmWithdrawal (app_cfg app) i fee now (pf_ledger s) = (Inr x, l)"
  then obtain v where v: "map_get (withdrawals (pf_ledger s)) i = Some v" "wd_status v = TX_BROADCASTED"
    by (auto simp: confirmWithdrawal_def getMutableWithdrawal_def split: option.splits if_splits)
  obtain s4 where e: "confirmWithdrawal (app_cfg app) i fee now (pf_ledger s)
      = publishWithdrawal (app_cfg app) i (v\<lparr>wd_status := COMPLETED, wd_confirmedAt := Some now\<rparr>) now
          (v\<lparr>wd_status := COMPLETED, wd_confirmedAt := Some now\<rparr>) s4"
    "withdrawals s4 = map_set i (v\<lparr>wd_status := COMPLETED, wd_confirmedAt := Some now\<rparr>) (withdrawals (pf_ledger s))"
    by (rule confirm_effect [OF reachable_inv [OF assms(1)] v])
  have "withdrawals l = withdrawals s4" using arg_cong [OF c, of snd] unfolding e(1) by auto
  then show "\<exists>v. map_get (withdrawals l) i = Some v \<and> wd_status v = COMPLETED" using e(2) by simp
qed (simp_all add: step_confirm)

lemma fail_fails:
  assumes "reachable_ledger (app_cfg app) (pf_ledger s)" and "fail (wire app) i reason s = (Inr w, t)"
  shows "runs app s t \<and> has_status FAILED t i"
proof (rule announced_status [OF assms(1)])
  show "and_then (on_ledger (wire app) (failWithdrawal (app_cfg app) i reason)) (\<lambda>x. and_then (publish_now (wire app) x) (\<lambda>_.
      and_then (audit (wire app) (audit_entry ET_withdrawal i ''withdraw.failed'' AT_system ''withdraw-service''
        [(''reason'', reason)])) (\<lambda>_. ret x))) s = (Inr w, t)"
    using assms(2) by (simp add: fail_def)
  fix now x l
  assume c: "failWithdrawal (app_cfg app) i reason now (pf_ledger s) = (Inr x, l)"
  then obtain v where v: "map_get (withdrawals (pf_ledger s)) i = Some v" "active_status (wd_status v)"
    by (auto simp: failWithdrawal_def getMutableWithdrawal_def split: option.splits if_splits)
  obtain s4 where e: "failWithdrawal (app_cfg app) i reason now (pf_ledger s)
      = publishWithdrawal (app_cfg app) i (v\<lparr>wd_status := FAILED, wd_failedAt := Some now, wd_failReason := Some reason\<rparr>) now
          (v\<lparr>wd_status := FAILED, wd_failedAt := Some now, wd_failReason := Some reason\<rparr>) s4"
    "withdrawals s4 = map_set i (v\<lparr>wd_status := FAILED, wd_failedAt := Some now, wd_failReason := Some reason\<rparr>)
       (withdrawals (pf_ledger s))"
    by (rule fail_effect [OF reachable_inv [OF assms(1)] v])
  have "withdrawals l = withdrawals s4" using arg_cong [OF c, of snd] unfolding e(1) by auto
  then show "\<exists>v. map_get (withdrawals l) i = Some v \<and> wd_status v = FAILED" using e(2) by simp
qed (simp_all add: step_fail)

text \<open>What one round adds to the report, and what it makes of the withdrawal.\<close>

lemma reconcile_one_adds:
  assumes "reachable_ledger (app_cfg app) (pf_ledger s)" and "reconcile_one (wire app) w acc s = (Inr res, t)"
  obtains c f p where "rr_confirmed res = rr_confirmed acc @ c" "rr_failed res = rr_failed acc @ f"
    "rr_pending res = rr_pending acc @ p"
    "c @ f @ p = (if truthy (wd_txHash w) then [wd_withdrawalId w] else [])" "runs app s t"
    "list_all (has_status COMPLETED t) c" "list_all (has_status FAILED t) f"
proof (cases "truthy (wd_txHash w)")
  case False
  with assms(2) that [of "[]" "[]" "[]"] show ?thesis by (simp add: reconcile_one_def lr.R_refl)
next
  case True
  then obtain r s1 where r: "on_world (app_getReceipt (wire app) (the (wd_txHash w))) s = (Inr r, s1)"
      and rest: "(case rc_status r of
            RS_confirmed \<Rightarrow>
              and_then (confirm (wire app) (wd_withdrawalId w)
                  (Some \<lparr>fee_txHash = the (wd_txHash w), fee_feeSun = rc_feeSun r,
                         fee_energyUsed = rc_energyUsed r, fee_bandwidthUsed = rc_bandwidthUsed r\<rparr>)) (\<lambda>_.
              ret (acc\<lparr>rr_confirmed := rr_confirmed acc @ [wd_withdrawalId w]\<rparr>))
          | RS_failed \<Rightarrow>
              and_then (fail (wire app) (wd_withdrawalId w) ''on-chain receipt reported failure'') (\<lambda>_.
              ret (acc\<lparr>rr_failed := rr_failed acc @ [wd_withdrawalId w]\<rparr>))
          | RS_pending \<Rightarrow> ret (acc\<lparr>rr_pending := rr_pending acc @ [wd_withdrawalId w]\<rparr>)) s1 = (Inr res, t)"
    using assms(2) unfolding reconcile_one_def by (auto simp: and_then_succeeds)
  have s1: "pf_ledger s1 = pf_ledger s" using r by (auto simp: on_world_run)
  then have reach: "reachable_ledger (app_cfg app) (pf_ledger s1)" and run1: "runs app s s1"
    using assms(1) by simp_all
  show ?thesis
  proof (cases "rc_status r")
    case RS_pending
    with rest run1 that [of "[]" "[]" "[wd_withdrawalId w]"] True show ?thesis by auto
  next
    case RS_confirmed
    with rest have "res = acc\<lparr>rr_confirmed := rr_confirmed acc @ [wd_withdrawalId w]\<rparr>"
      and "runs app s1 t \<and> has_status COMPLETED t (wd_withdrawalId w)"
      by (auto simp: and_then_succeeds dest: confirm_completes [OF reach])
    with that [of "[wd_withdrawalId w]" "[]" "[]"] lr.R_trans [OF run1] True show ?thesis by simp
  next
    case RS_failed
    with rest have "res = acc\<lparr>rr_failed := rr_failed acc @ [wd_withdrawalId w]\<rparr>"
      and "runs app s1 t \<and> has_status FAILED t (wd_withdrawalId w)"
      by (auto simp: and_then_succeeds dest: fail_fails [OF reach])
    with that [of "[]" "[wd_withdrawalId w]" "[]"] lr.R_trans [OF run1] True show ?thesis by simp
  qed
qed

lemma reconcile_fold:
  assumes "reachable_ledger (app_cfg app) (pf_ledger s)" and "fold_act (reconcile_one (wire app)) ws acc s = (Inr res, t)"
    and "list_all (has_status COMPLETED s) (rr_confirmed acc)" and "list_all (has_status FAILED s) (rr_failed acc)"
  shows "mset (rr_confirmed res @ rr_failed res @ rr_pending res)
      = mset (rr_confirmed acc @ rr_failed acc @ rr_pending acc)
        + mset (map wd_withdrawalId (filter (\<lambda>w. truthy (wd_txHash w)) ws)) \<and>
    list_all (has_status COMPLETED t) (rr_confirmed res) \<and> list_all (has_status FAILED t) (rr_failed res)"
  using assms
proof (induction ws arbitrary: s acc)
  case (Cons w ws)
  obtain acc1 s1 where one: "reconcile_one (wire app) w acc s = (Inr acc1, s1)"
      and rest: "fold_act (reconcile_one (wire app)) ws acc1 s1 = (Inr res, t)"
    using Cons.prems(2) by (auto simp: and_then_succeeds)
  obtain c f p where acc1: "rr_confirmed acc1 = rr_confirmed acc @ c" "rr_failed acc1 = rr_failed acc @ f"
      "rr_pending acc1 = rr_pending acc @ p" "c @ f @ p = (if truthy (wd_txHash w) then [wd_withdrawalId w] else [])"
      "runs app s s1" "list_all (has_status COMPLETED s1) c" "list_all (has_status FAILED s1) f"
    by (rule reconcile_one_adds [OF Cons.prems(1) one])
  have stay: "list_all (has_status st s) ids \<Longrightarrow> \<not> active_status st \<Longrightarrow> list_all (has_status st s1) ids" for st ids
    using final_status_stays [OF acc1(5) Cons.prems(1)] by (auto simp: list_all_iff)
  have "reachable_ledger (app_cfg app) (pf_ledger s1)"
    using Cons.prems(1) acc1(5) by (auto simp: ledger_runs_def through_def intro: reachable_steps)
  from Cons.IH [OF this rest] Cons.prems(3,4) acc1 stay
  have IH: "mset (rr_confirmed res @ rr_failed res @ rr_pending res)
      = mset (rr_confirmed acc1 @ rr_failed acc1 @ rr_pending acc1)
        + mset (map wd_withdrawalId (filter (\<lambda>w. truthy (wd_txHash w)) ws)) \<and>
    list_all (has_status COMPLETED t) (rr_confirmed res) \<and> list_all (has_status FAILED t) (rr_failed res)"
    by simp
  have "mset c + mset f + mset p = (if truthy (wd_txHash w) then {#wd_withdrawalId w#} else {#})"
    using arg_cong [OF acc1(4), of mset] by (simp add: ac_simps)
  with IH acc1(1-3) show ?case by (auto simp: ac_simps)
qed (auto simp: add.assoc)

text \<open>C30. A reconciliation that returns accounts for every broadcast withdrawal with a transaction hash exactly
  once, as confirmed, failed or pending, and tells the truth: what it reports as confirmed is completed
  in the ledger, and what it reports as failed has failed.\<close>

theorem reconciliation_reports_truthfully:
  assumes "reachable_ledger (app_cfg app) (pf_ledger s)" and "reconcileBroadcasted (wire app) s = (Inr res, t)"
  shows "mset (rr_confirmed res @ rr_failed res @ rr_pending res)
      = mset (map wd_withdrawalId (filter (\<lambda>w. truthy (wd_txHash w)) (listWithdrawalsByStatuses [TX_BROADCASTED] (pf_ledger s)))) \<and>
    list_all (has_status COMPLETED t) (rr_confirmed res) \<and> list_all (has_status FAILED t) (rr_failed res)"
proof -
  have "fold_act (reconcile_one (wire app)) (listWithdrawalsByStatuses [TX_BROADCASTED] (pf_ledger s))
      \<lparr>rr_confirmed = [], rr_failed = [], rr_pending = []\<rparr> s = (Inr res, t)"
    using assms(2) by (auto simp: reconcileBroadcasted_def and_then_succeeds ask_ledger_def)
  from reconcile_fold [OF assms(1) this] show ?thesis by simp
qed

text \<open>The demo application while the chain has not settled anything yet.\<close>

definition demo_waiting_app :: "string list app" where
  "demo_waiting_app = demo_app\<lparr>app_getReceipt := (\<lambda>_. ret \<lparr>rc_status = RS_pending, rc_feeSun = 0, rc_energyUsed = 0,
     rc_bandwidthUsed = 0\<rparr>)\<rparr>"

lemma map_only: "map_set k v [(k, u)] = [(k, v)]" "map_get [(k, u)] k = Some u"
  by (simp_all add: map_set_def map_get_def)

lemma demo_withdrawals:
  "withdrawals demo_broadcasted = [(''u4'', demo_w_broadcasted)]"
proof -
  have "withdrawals demo_deposited = []" by code_simp
  then have "withdrawals demo_requested = [(''u4'', demo_w)]"
    by (simp add: demo_requested_def request_admitted_result [OF demo_admitted] request_state_def Let_def demo_count
        demo_w_def map_set_def)
  then have "withdrawals demo_pending = [(''u4'', demo_w_pending)]"
    by (simp add: demo_pending_def confirmWithdrawalExternalAuth_def getMutableWithdrawal_def demo_requested_w
        demo_w_pending_def Let_def map_only)
  then have "withdrawals demo_approved1 = [(''u4'', demo_w_approved1)]"
    by (simp add: demo_approved1_def approveWithdrawal_def getMutableWithdrawal_def demo_pending_w
        demo_pending_approvals demo_w_approved1_def demo_w_pending_def Let_def demo_approval_def map_only)
  moreover obtain a where "map_get (approvalsByWithdrawalId demo_approved1) ''u4'' = Some [a]" "wa_adminId a = ''admin-1''"
    using demo_approved1_w(2) by auto
  ultimately have "withdrawals demo_approved = [(''u4'', demo_w_approved)]"
    by (simp add: demo_approved_def approveWithdrawal_def getMutableWithdrawal_def demo_approved1_w(1)
        demo_w_approved_def demo_w_approved1_def demo_w_pending_def Let_def demo_approval_def map_only)
  then show ?thesis
    by (simp add: demo_broadcasted_def broadcastWithdrawal_def getMutableWithdrawal_def demo_approved_w
        demo_w_broadcasted_def demo_w_approved_def Let_def map_only)
qed

lemma demo_broadcasted_list:
  "listWithdrawalsByStatuses [TX_BROADCASTED] demo_broadcasted = [demo_w_broadcasted]"
  by (simp add: listWithdrawalsByStatuses_def map_values_def demo_withdrawals demo_status)

theorem reconciliation_reports_truthfully_witness:
  "\<exists>res t. reconcileBroadcasted (wire demo_waiting_app) (demo_platform demo_broadcasted) = (Inr res, t) \<and>
     mset (rr_confirmed res @ rr_failed res @ rr_pending res) = {#''u4''#}"
proof -
  have "\<exists>res t. reconcileBroadcasted (wire demo_waiting_app) (demo_platform demo_broadcasted) = (Inr res, t)"
    by (simp add: reconcileBroadcasted_def and_then_def ask_ledger_def demo_broadcasted_list reconcile_one_def
        demo_waiting_app_def wire_def on_world_run demo_w_broadcasted_def truthy_str_def)
  then obtain res t where run: "reconcileBroadcasted (wire demo_waiting_app) (demo_platform demo_broadcasted) = (Inr res, t)"
    by blast
  have "app_cfg demo_waiting_app = demo_cfg" by (simp add: demo_waiting_app_def)
  with reconciliation_reports_truthfully [OF _ run] demo_reachable(6) run
  show ?thesis
    by (auto simp: demo_broadcasted_list demo_w_broadcasted_def demo_w_approved_def demo_w_approved1_def demo_w_pending_def
        truthy_str_def)
qed

section \<open>The outbox\<close>

text \<open>C23. A cycle of the outbox publisher returns and leaves no claimed event behind: every event it claimed ends
  up published, or pending again while its attempts are below the limit, or dead-lettered once they have
  reached it, whatever the handlers of the bus did with it.\<close>

theorem outbox_cycle_settles_claims:
  assumes "reachable_ledger (app_cfg app) (pf_ledger s)"
    and "date_parse (toISOString (fst (app_clock app (pf_world s)))) \<noteq> None"
  shows "\<exists>n s1 es s2 t.
    op_recoverStale (ledger_outbox_port (wire app)) (oo_processingStaleTimeoutSec opts) s = (Inr n, s1) \<and>
    op_claim (ledger_outbox_port (wire app)) (oo_batchSize opts) s1 = (Inr es, s2) \<and>
    outbox_cycle (ledger_outbox_port (wire app)) opts s = (Inr (), t) \<and>
    (\<forall>e \<in> set es. \<exists>e'. map_get (outboxEvents (pf_ledger t)) (ob_outboxEventId e) = Some e' \<and>
       ob_status e' \<noteq> OB_processing \<and> ob_attempts e' = ob_attempts e \<and>
       (ob_status e' = OB_dead_lettered \<longrightarrow> oo_maxAttempts opts \<le> ob_attempts e) \<and>
       (ob_status e' = OB_pending \<longrightarrow> ob_attempts e < oo_maxAttempts opts))"
proof -
  have ok: "outbox_ok (pf_ledger s)" using reachable_stores [OF assms(1)] by (simp add: stores_ok_def)
  obtain n s1 where rec: "op_recoverStale (ledger_outbox_port (wire app)) (oo_processingStaleTimeoutSec opts) s = (Inr n, s1)"
    using assms(2) by (auto simp: ledger_outbox_port_def on_ledger_run Let_def recoverStaleProcessingOutboxEvents_def)
  from ox.cycle_settles [OF ok this] obtain es s2 t where
      run: "op_claim (ledger_outbox_port (wire app)) (oo_batchSize opts) s1 = (Inr es, s2)"
        "outbox_cycle (ledger_outbox_port (wire app)) opts s = (Inr (), t)"
      and out: "\<forall>e \<in> set es. \<exists>e'. map_get (outboxEvents (pf_ledger t)) (ob_outboxEventId e) = Some e' \<and> ox.settled opts e e'"
    by blast
  have "\<exists>e'. map_get (outboxEvents (pf_ledger t)) (ob_outboxEventId e) = Some e' \<and>
       ob_status e' \<noteq> OB_processing \<and> ob_attempts e' = ob_attempts e \<and>
       (ob_status e' = OB_dead_lettered \<longrightarrow> oo_maxAttempts opts \<le> ob_attempts e) \<and>
       (ob_status e' = OB_pending \<longrightarrow> ob_attempts e < oo_maxAttempts opts)" if e: "e \<in> set es" for e
  proof -
    obtain e' where "map_get (outboxEvents (pf_ledger t)) (ob_outboxEventId e) = Some e'" "ox.settled opts e e'"
      using bspec [OF out e] by blast
    with ox.settled_status [OF this(2)] show ?thesis by (intro exI [of _ e']) simp
  qed
  with rec run show ?thesis by blast
qed

theorem outbox_cycle_settles_claims_witness:
  "\<exists>t. outbox_cycle (ledger_outbox_port (wire demo_app)) (outbox_options None None None None 60) (demo_platform demo_requested)
     = (Inr (), t)"
proof -
  have "date_parse demo_now \<noteq> None" by code_simp
  then show ?thesis
    using outbox_cycle_settles_claims [of demo_app "demo_platform demo_requested" "outbox_options None None None None 60"]
    by (auto simp: demo_time demo_reachable)
qed

section \<open>A checked broadcast\<close>

definition demo_trc_app :: "string list app" where
  "demo_trc_app = demo_app\<lparr>app_guard := demo_guard\<lparr>go_tronGatewayMode := GM_trc20\<rparr>\<rparr>"

lemma demo_trc_sel [simp]:
  "app_isTestUser demo_trc_app = None" "app_guard demo_trc_app = demo_guard\<lparr>go_tronGatewayMode := GM_trc20\<rparr>"
  "app_signer demo_trc_app = Some (\<lambda>r w. (Inr ''0xabcdef12'', sr_withdrawalId r # w))"
  "app_cfg demo_trc_app = demo_cfg" "app_clock demo_trc_app = (\<lambda>w. (1773317100000, w))"
  by (simp_all add: demo_trc_app_def)

lemma demo_broadcast_contract:
  "\<not> fails (buildWithdrawalStateChangedContract demo_cfg demo_w_broadcasted demo_now)"
  by code_simp

lemma demo_records:
  "\<exists>t. record_broadcast demo_trc_app ''u4'' ''0xabcdef12'' ((demo_platform demo_approved)\<lparr>pf_world := w\<rparr>)
    = (Inr demo_w_broadcasted, t)"
proof -
  obtain c where c: "buildWithdrawalStateChangedContract demo_cfg demo_w_broadcasted demo_now = Inr c"
    using demo_broadcast_contract by (auto simp: fails_def split: sum.splits)
  have v: "demo_w_approved\<lparr>wd_status := TX_BROADCASTED, wd_txHash := Some ''0xabcdef12'', wd_broadcastedAt := Some demo_now\<rparr>
      = demo_w_broadcasted"
    by (simp add: demo_w_broadcasted_def)
  have "fst (broadcastWithdrawal demo_cfg ''u4'' ''0xabcdef12'' demo_now demo_approved) = Inr demo_w_broadcasted"
    using c by (simp add: broadcastWithdrawal_def getMutableWithdrawal_def demo_approved_w demo_status Let_def v
        publishWithdrawal_def)
  then show ?thesis
    using c by (simp add: record_broadcast_def and_then_def on_ledger_run demo_trc_app_def demo_time Let_def
        publish_now_def run_now_iso_eq publishWithdrawalStateChange_def lift_result_def audit_def total_def split_beta)
qed

theorem broadcast_was_checked_witness:
  "\<exists>v t. broadcast demo_trc_app ''u4'' (demo_platform demo_approved) = (Inr (Some v), t) \<and>
     wd_status demo_w_approved = ADMIN_APPROVED \<and> destination_free demo_trc_app (demo_platform demo_approved) ''TDest''"
proof -
  have guard: "assertBroadcastAllowed demo_trc_app ''TDest'' (Some 2000000) (demo_platform demo_approved)
      = (Inr (), demo_platform demo_approved)"
    by (simp add: assertBroadcastAllowed_def assertDestinationAllowed_def and_then_def lift_result_def assertPolicies_def
        getAddressPolicies_def assertAddressAllowed_def assertHotWalletReady_def getHotWalletReadiness_def Let_def
        requiresOfflineSigning_def demo_trc_app_def demo_guard_def on_world_run)
      (simp add: demo_app_def trc20_readiness_def getSignerAddress_def PLACEHOLDER_PRIVATE_KEYS_def truthy_str_def Let_def)
  have w: "wd_toAddress demo_w_approved = ''TDest''" "wd_amount demo_w_approved = 2000000" "wd_withdrawalId demo_w_approved = ''u4''"
    by (simp_all add: demo_w_approved_def demo_w_approved1_def demo_w_pending_def)
  have get: "getWithdrawal ''u4'' (pf_ledger (demo_platform demo_approved)) = Some demo_w_approved"
    by (simp add: getWithdrawal_def demo_approved_w)
  have net: "assertUserWithdrawalNetworkAllowed demo_trc_app (wd_userId demo_w_approved) (demo_platform demo_approved)
      = (Inr (), demo_platform demo_approved)"
    by (simp add: assertUserWithdrawalNetworkAllowed_def)
  obtain t where "record_broadcast demo_trc_app ''u4'' ''0xabcdef12'' ((demo_platform demo_approved)\<lparr>pf_world := [''u4'']\<rparr>)
      = (Inr demo_w_broadcasted, t)"
    using demo_records by blast
  then have b: "broadcast demo_trc_app ''u4'' (demo_platform demo_approved) = (Inr (Some demo_w_broadcasted), t)"
    using get guard w
    by (simp add: broadcast_def and_then_def ask_ledger_def assertUserWithdrawalNetworkAllowed_def on_world_run
        sign_and_send_def)
  have "broadcast (demo_trc_app\<lparr>app_signer := Some (\<lambda>_. throw (JsError ''no signer''))\<rparr>) ''u4'' (demo_platform demo_approved)
      \<noteq> broadcast demo_trc_app ''u4'' (demo_platform demo_approved)"
    using get guard w net unfolding b
    by (simp add: broadcast_def and_then_def ask_ledger_def guards_ignore_signer on_world_run sign_and_send_def)
  with broadcast_was_checked [OF get net] b w show ?thesis by auto
qed

end
