(* ===== verification/PgDatabase.thy ===== *)
theory PgDatabase
  imports Effects LedgerSweeps LedgerConsumers LedgerOutbox LedgerJobs
begin

text \<open>
  The tables behind \<open>PostgresLedgerRepository\<close>
  (\<open>src/infrastructure/persistence/postgres/postgres-ledger-repository.ts\<close>), their rows
  (\<open>db-schema.ts\<close>), and transactions.

  A table whose rows the code reads by their primary key is a \<open>jsmap\<close> from that key; the others are
  lists in insertion order.  A row has the fields of the object the code maps it to, so the functions
  \<open>mapDeposit\<close>, \<open>mapTransaction\<close>, \<open>mapSweep\<close>, \<open>mapJob\<close>, \<open>mapApproval\<close> are the identity; a withdrawal's
  number of approvals is no column and is filled in by \<open>pg_mapWithdrawal\<close>.  A \<open>NUMERIC(36, 6)\<close> column
  is the integer number of its millionths: what \<open>formatKoriAmount\<close> writes and \<open>parseStoredKoriAmount\<close>
  reads back (\<open>Money\<close>).  A timestamp is its ISO string in UTC.  The query builder is read as the SQL
  it writes: \<open>where\<close> filters, \<open>executeTakeFirst\<close> takes the first row, \<open>onConflict\<close> acts on a present
  key.  Rows that an \<open>ORDER BY\<close> leaves tied come in insertion order here.

  A transaction runs alone: the advisory locks and row locks are taken as given and not modelled.  A
  throw inside one undoes its writes (but takes no random id back).
\<close>

section \<open>Rows\<close>

datatype account_type = AY_asset | AY_liability | AY_equity | AY_revenue | AY_expense

datatype entry_side = ES_debit | ES_credit

record account_row =
  ar_userId :: string
  ar_balance :: int
  ar_lockedBalance :: int
  ar_updatedAt :: string

record ledger_account =
  la_code :: string
  la_type :: account_type
  la_currency :: string
  la_createdAt :: string

record journal =
  jn_journalId :: string
  jn_journalType :: string
  jn_referenceType :: string
  jn_referenceId :: string
  jn_currencyCode :: string
  jn_description :: "string option"
  jn_createdAt :: string

record posting =
  po_postingId :: string
  po_journalId :: string
  po_code :: string
  po_side :: entry_side
  po_amount :: int
  po_createdAt :: string

datatype device_status = DV_active | DV_revoked

record offline_device =
  od_deviceId :: string
  od_userId :: string
  od_status :: device_status
  od_keyVersion :: "int option"
  od_lastSeenAt :: string
  od_syncedAt :: string
  od_createdAt :: string
  od_updatedAt :: string

record pg_db =
  db_accounts :: "account_row jsmap"
  db_bindings :: "wallet_binding jsmap"
  db_transactions :: "ledger_transaction jsmap"
  db_deposits :: "deposit jsmap"
  db_withdrawals :: "withdrawal jsmap"
  db_approvals :: "withdrawal_approval list"
  db_ledgerAccounts :: "ledger_account jsmap"
  db_journals :: "journal list"
  db_postings :: "posting list"
  db_feeReceipts :: "network_fee_receipt list"
  db_devices :: "offline_device jsmap"
  db_jobs :: "tx_job jsmap"
  db_auditLogs :: "audit_log list"
  db_sweeps :: "sweep_record jsmap"
  db_outbox :: "outbox_event jsmap"
  db_attempts :: "consumer_attempt list"
  db_deadLetters :: "consumer_dead_letter list"
  db_checkpoints :: "consumer_checkpoint list"
  db_uuids :: nat

definition empty_db :: pg_db where
  "empty_db =
     \<lparr>db_accounts = [], db_bindings = [], db_transactions = [], db_deposits = [], db_withdrawals = [],
      db_approvals = [], db_ledgerAccounts = [], db_journals = [], db_postings = [], db_feeReceipts = [],
      db_devices = [], db_jobs = [], db_auditLogs = [], db_sweeps = [], db_outbox = [], db_attempts = [],
      db_deadLetters = [], db_checkpoints = [], db_uuids = 0\<rparr>"

section \<open>Transactions\<close>

definition withTransaction :: "(pg_db, 'a) act \<Rightarrow> (pg_db, 'a) act" where
  "withTransaction work db =
     (case work db of
        (Inl e, db') \<Rightarrow> (Inl e, db\<lparr>db_uuids := db_uuids db'\<rparr>)
      | (Inr x, db') \<Rightarrow> (Inr x, db'))"

lemma withTransaction_Inr [simp]: "work db = (Inr x, db') \<Longrightarrow> withTransaction work db = (Inr x, db')"
  by (simp add: withTransaction_def)

lemma withTransaction_Inl [simp]:
  "work db = (Inl e, db') \<Longrightarrow> withTransaction work db = (Inl e, db\<lparr>db_uuids := db_uuids db'\<rparr>)"
  by (simp add: withTransaction_def)

lemma withTransaction_cases:
  obtains e db' where "work db = (Inl e, db')" "withTransaction work db = (Inl e, db\<lparr>db_uuids := db_uuids db'\<rparr>)"
  | x db' where "work db = (Inr x, db')" "withTransaction work db = (Inr x, db')"
  by (cases "work db"; cases "fst (work db)") (auto simp: withTransaction_def)

text \<open>A transaction that throws leaves every table as it was.\<close>

definition same_tables :: "pg_db \<Rightarrow> pg_db \<Rightarrow> bool" where
  "same_tables db db' = (\<exists>n. db' = db\<lparr>db_uuids := n\<rparr>)"

lemma same_tables_refl [simp]: "same_tables db db"
  unfolding same_tables_def by (rule exI [of _ "db_uuids db"]) simp

lemma rollback: "withTransaction work db = (Inl e, db') \<Longrightarrow> same_tables db db'"
  by (cases rule: withTransaction_cases [of work db]) (auto simp: same_tables_def)

definition newUuid :: "ledger_cfg \<Rightarrow> pg_db \<Rightarrow> string" where
  "newUuid cfg db = uuid cfg (db_uuids db)"

section \<open>Accounts and ledger accounts\<close>

text \<open>\<open>insert ... on conflict (user_id) do nothing\<close>.\<close>

definition pg_ensureAccount :: "string \<Rightarrow> string \<Rightarrow> pg_db \<Rightarrow> pg_db" where
  "pg_ensureAccount userId nowIso db =
     (case map_get (db_accounts db) userId of
        Some _ \<Rightarrow> db
      | None \<Rightarrow> db\<lparr>db_accounts := map_set userId
          \<lparr>ar_userId = userId, ar_balance = 0, ar_lockedBalance = 0, ar_updatedAt = nowIso\<rparr>
          (db_accounts db)\<rparr>)"

definition pg_getAccountForUpdate :: "string \<Rightarrow> pg_db \<Rightarrow> js_error + account_row" where
  "pg_getAccountForUpdate userId db =
     (case map_get (db_accounts db) userId of
        None \<Rightarrow> Inl (DomainError 500 ''STATE_CORRUPTED'' ''account not found'')
      | Some row \<Rightarrow> Inr row)"

definition pg_ensureLedgerAccount :: "string \<Rightarrow> account_type \<Rightarrow> string \<Rightarrow> string
    \<Rightarrow> ledger_account jsmap \<Rightarrow> ledger_account jsmap" where
  "pg_ensureLedgerAccount code ty currencyCode nowIso table =
     (case map_get table code of
        Some _ \<Rightarrow> table
      | None \<Rightarrow> map_set code
          \<lparr>la_code = code, la_type = ty, la_currency = currencyCode, la_createdAt = nowIso\<rparr> table)"

section \<open>Codes of ledger accounts\<close>

definition availableCode :: "string \<Rightarrow> string" where
  "availableCode userId = ''user:'' @ userId @ '':available''"

definition withdrawPendingCode :: "string \<Rightarrow> string" where
  "withdrawPendingCode userId = ''user:'' @ userId @ '':withdraw_pending''"

definition offlinePayPendingCode :: "string \<Rightarrow> string" where
  "offlinePayPendingCode userId = ''user:'' @ userId @ '':offline_pay_pending''"

named_theorems codes "codes of different ledger accounts differ"

lemma code_inj [simp, codes]:
  "availableCode u = availableCode v \<longleftrightarrow> u = v"
  "withdrawPendingCode u = withdrawPendingCode v \<longleftrightarrow> u = v"
  "offlinePayPendingCode u = offlinePayPendingCode v \<longleftrightarrow> u = v"
  by (simp_all add: availableCode_def withdrawPendingCode_def offlinePayPendingCode_def)

lemma rev_codes:
  "rev (availableCode u) = ''elbaliava:'' @ rev u @ '':resu''"
  "rev (withdrawPendingCode u) = ''gnidnep_wardhtiw:'' @ rev u @ '':resu''"
  "rev (offlinePayPendingCode u) = ''gnidnep_yap_enilffo:'' @ rev u @ '':resu''"
  by (simp_all add: availableCode_def withdrawPendingCode_def offlinePayPendingCode_def)

lemma code_neq [simp, codes]:
  "availableCode u \<noteq> withdrawPendingCode v" "withdrawPendingCode v \<noteq> availableCode u"
  "availableCode u \<noteq> offlinePayPendingCode v" "offlinePayPendingCode v \<noteq> availableCode u"
  "withdrawPendingCode u \<noteq> offlinePayPendingCode v" "offlinePayPendingCode v \<noteq> withdrawPendingCode u"
  by (simp_all flip: rev_is_rev_conv [of "availableCode u"] rev_is_rev_conv [of "withdrawPendingCode u"]
      rev_is_rev_conv [of "withdrawPendingCode v"] rev_is_rev_conv [of "offlinePayPendingCode v"] add: rev_codes)

end
