(* ===== verification/PgJournal.thy ===== *)
theory PgJournal
  imports PgDatabase
begin

text \<open>
  Double-entry bookkeeping of \<open>PostgresLedgerRepository\<close>: journals and postings, the balances
  projected from the postings, the copy of a user's balances in the accounts table, the outbox.  The
  second half says what each of these does to the projected balances.
\<close>

section \<open>Journals\<close>

record ledger_posting_input =
  lp_code :: string
  lp_type :: account_type
  lp_side :: entry_side
  lp_amount :: int

record journal_input =
  ji_journalType :: string
  ji_referenceType :: string
  ji_referenceId :: string
  ji_currencyCode :: "string option"
  ji_description :: "string option"
  ji_postings :: "ledger_posting_input list"

text \<open>The rows of the postings: the ids are drawn in the order of the list.\<close>

fun posting_rows :: "ledger_cfg \<Rightarrow> string \<Rightarrow> string \<Rightarrow> nat \<Rightarrow> ledger_posting_input list \<Rightarrow> posting list" where
  "posting_rows cfg journalId nowIso n [] = []"
| "posting_rows cfg journalId nowIso n (p # ps) =
     \<lparr>po_postingId = uuid cfg n, po_journalId = journalId, po_code = lp_code p, po_side = lp_side p,
      po_amount = lp_amount p, po_createdAt = nowIso\<rparr> # posting_rows cfg journalId nowIso (Suc n) ps"

definition pg_appendJournal :: "ledger_cfg \<Rightarrow> journal_input \<Rightarrow> string \<Rightarrow> pg_db \<Rightarrow> pg_db" where
  "pg_appendJournal cfg inp nowIso db =
     (let journalId = newUuid cfg db;
          currencyCode = coalesce (ji_currencyCode inp) ''KORI'';
          db1 = db\<lparr>db_uuids := Suc (db_uuids db),
                   db_journals := db_journals db @
                     [\<lparr>jn_journalId = journalId, jn_journalType = ji_journalType inp,
                       jn_referenceType = ji_referenceType inp, jn_referenceId = ji_referenceId inp,
                       jn_currencyCode = currencyCode, jn_description = ji_description inp,
                       jn_createdAt = nowIso\<rparr>]\<rparr>;
          db2 = db1\<lparr>db_ledgerAccounts :=
                  fold (\<lambda>p. pg_ensureLedgerAccount (lp_code p) (lp_type p) currencyCode nowIso)
                    (ji_postings inp) (db_ledgerAccounts db1)\<rparr>
      in db2\<lparr>db_uuids := db_uuids db2 + length (ji_postings inp),
             db_postings := db_postings db2 @
               posting_rows cfg journalId nowIso (db_uuids db2) (ji_postings inp)\<rparr>)"

text \<open>
  The columns a journal is written to (\<open>src/flyway/sql/V11__add_double_entry_ledger_tables.sql\<close>, with the
  widths of \<open>V25\<close> and \<open>V26\<close>): \<open>reference_id VARCHAR(64)\<close>, the two types \<open>VARCHAR(64)\<close>, \<open>ledger_account_code
  VARCHAR(128)\<close>, \<open>amount NUMERIC(36, 6)\<close>.  An insert of anything longer throws, which ends the
  transaction.  The driver's message names the column type; it is abbreviated here.
\<close>

definition journal_fits :: "journal_input \<Rightarrow> bool" where
  "journal_fits inp =
     (length (ji_referenceId inp) \<le> 64 \<and> length (ji_referenceType inp) \<le> 64 \<and> length (ji_journalType inp) \<le> 64 \<and>
      list_all (\<lambda>p. length (lp_code p) \<le> 128 \<and> \<bar>lp_amount p\<bar> < 10 ^ 36) (ji_postings inp))"

definition column_error :: js_error where
  "column_error = NamedError ''error'' ''value does not fit its column''"

text \<open>\<open>where reference_type = ... and reference_id = ...\<close>.\<close>

definition find_journal :: "string \<Rightarrow> string \<Rightarrow> pg_db \<Rightarrow> journal option" where
  "find_journal referenceType referenceId db =
     find (\<lambda>j. jn_referenceType j = referenceType \<and> jn_referenceId j = referenceId) (db_journals db)"

section \<open>Projections\<close>

text \<open>\<open>case when entry_side = 'credit' then amount when entry_side = 'debit' then -amount\<close>.\<close>

definition signed_amount :: "posting \<Rightarrow> int" where
  "signed_amount p = (case po_side p of ES_credit \<Rightarrow> po_amount p | ES_debit \<Rightarrow> - po_amount p)"

definition pg_getProjectedLedgerAccountBalance :: "string \<Rightarrow> pg_db \<Rightarrow> int" where
  "pg_getProjectedLedgerAccountBalance code db =
     sum_list (map signed_amount (filter (\<lambda>p. po_code p = code) (db_postings db)))"

record projected_balances =
  pb_balance :: int
  pb_lockedBalance :: int
  pb_updatedAt :: "string option"
  pb_hasPostings :: bool

fun max_of :: "string list \<Rightarrow> string option" where
  "max_of [] = None"
| "max_of (x # xs) = Some (fold max xs x)"

definition pg_getProjectedUserBalances :: "string \<Rightarrow> pg_db \<Rightarrow> projected_balances" where
  "pg_getProjectedUserBalances userId db =
     (let rows = filter (\<lambda>p. po_code p \<in> {availableCode userId, withdrawPendingCode userId,
                   offlinePayPendingCode userId}) (db_postings db)
      in \<lparr>pb_balance = sum_list (map (\<lambda>p. if po_code p = availableCode userId then signed_amount p else 0) rows),
          pb_lockedBalance = sum_list (map (\<lambda>p.
             if po_code p = withdrawPendingCode userId \<or> po_code p = offlinePayPendingCode userId
             then signed_amount p else 0) rows),
          pb_updatedAt = max_of (map po_createdAt rows),
          pb_hasPostings = (rows \<noteq> [])\<rparr>)"

text \<open>SQL's \<open>like\<close>: \<open>%\<close> stands for any string, \<open>_\<close> for any character, a backslash quotes.\<close>

fun sql_like :: "string \<Rightarrow> string \<Rightarrow> bool" where
  "sql_like [] s = (s = [])"
| "sql_like (c # ps) s =
     (if c = CHR ''%'' then
        (case s of [] \<Rightarrow> sql_like ps [] | d # s' \<Rightarrow> sql_like ps s \<or> sql_like (c # ps) s')
      else if c = CHR ''_'' then (case s of [] \<Rightarrow> False | d # s' \<Rightarrow> sql_like ps s')
      else if c = CHR 0x5C then
        (case ps of [] \<Rightarrow> False | q # qs \<Rightarrow> (case s of [] \<Rightarrow> False | d # s' \<Rightarrow> d = q \<and> sql_like qs s'))
      else (case s of [] \<Rightarrow> False | d # s' \<Rightarrow> d = c \<and> sql_like ps s'))"

definition pg_hasOfflinePayLedgerFootprint :: "string \<Rightarrow> pg_db \<Rightarrow> bool" where
  "pg_hasOfflinePayLedgerFootprint userId db =
     list_ex (\<lambda>la. sql_like (''user:'' @ userId @ '':available'') (la_code la) \<or>
                   sql_like (''user:'' @ userId @ '':offline_pay_pending'') (la_code la) \<or>
                   sql_like (''user:'' @ userId @ '':withdraw_pending'') (la_code la))
       (map_values (db_ledgerAccounts db))"

record projected_summary =
  pu_availableBalance :: int
  pu_lockedBalance :: int
  pu_hasPostings :: bool

definition pg_getProjectedLedgerSummary :: "pg_db \<Rightarrow> projected_summary" where
  "pg_getProjectedLedgerSummary db =
     \<lparr>pu_availableBalance = sum_list (map (\<lambda>p.
         if sql_like ''user:%:available'' (po_code p) then signed_amount p else 0) (db_postings db)),
      pu_lockedBalance = sum_list (map (\<lambda>p.
         if sql_like ''user:%:withdraw_pending'' (po_code p) then signed_amount p
         else if sql_like ''user:%:offline_pay_pending'' (po_code p) then signed_amount p else 0) (db_postings db)),
      pu_hasPostings = (db_postings db \<noteq> [])\<rparr>"

definition sync_user :: "string \<Rightarrow> string \<Rightarrow> pg_db \<Rightarrow> pg_db" where
  "sync_user nowIso userId db =
     (let projected = pg_getProjectedUserBalances userId db in
      if \<not> pb_hasPostings projected then db
      else case map_get (db_accounts db) userId of
        None \<Rightarrow> db
      | Some row \<Rightarrow> db\<lparr>db_accounts := map_set userId
          (row\<lparr>ar_balance := pb_balance projected, ar_lockedBalance := pb_lockedBalance projected,
               ar_updatedAt := coalesce (pb_updatedAt projected) nowIso\<rparr>) (db_accounts db)\<rparr>)"

text \<open>\<open>new Set(userIds)\<close> keeps the first of equal elements; as syncing a user twice is syncing
  once, the model runs through the list with repetitions removed.\<close>

definition pg_syncUserAccountProjection :: "string list \<Rightarrow> string \<Rightarrow> pg_db \<Rightarrow> pg_db" where
  "pg_syncUserAccountProjection userIds nowIso db = fold (sync_user nowIso) (rev (remdups (rev userIds))) db"

definition pg_enqueueOutboxEvent :: "ledger_cfg \<Rightarrow> string \<Rightarrow> string \<Rightarrow> string \<Rightarrow> (string \<times> jsval) list
    \<Rightarrow> string \<Rightarrow> pg_db \<Rightarrow> pg_db" where
  "pg_enqueueOutboxEvent cfg eventType aggregateType aggregateId payload occurredAt db =
     (let outboxEventId = newUuid cfg db
      in db\<lparr>db_uuids := Suc (db_uuids db),
            db_outbox := map_set outboxEventId
              \<lparr>ob_outboxEventId = outboxEventId, ob_eventType = eventType,
               ob_aggregateType = aggregateType, ob_aggregateId = aggregateId,
               ob_payload = payload, ob_status = OB_pending, ob_attempts = 0,
               ob_availableAt = occurredAt, ob_createdAt = occurredAt,
               ob_processingStartedAt = None, ob_publishedAt = None, ob_deadLetteredAt = None,
               ob_deadLetterAcknowledgedAt = None, ob_deadLetterAcknowledgedBy = None,
               ob_deadLetterNote = None, ob_deadLetterCategory = None, ob_incidentRef = None,
               ob_lastError = None\<rparr>
              (db_outbox db)\<rparr>)"

section \<open>Balances\<close>

text \<open>The net balance of an account in a list of postings, to which every projection reduces.\<close>

primrec net :: "string \<Rightarrow> posting list \<Rightarrow> int" where
  "net code [] = 0"
| "net code (p # ps) = (if po_code p = code then signed_amount p else 0) + net code ps"

lemma net_append [simp]: "net code (ps @ qs) = net code ps + net code qs"
  by (induction ps) auto

lemma net_filter: "net code ps = sum_list (map signed_amount (filter (\<lambda>p. po_code p = code) ps))"
  by (induction ps) auto

lemma account_projection [simp]: "pg_getProjectedLedgerAccountBalance code db = net code (db_postings db)"
  by (simp add: pg_getProjectedLedgerAccountBalance_def net_filter)

text \<open>The postings on a user's accounts.\<close>

definition touches :: "string \<Rightarrow> posting \<Rightarrow> bool" where
  "touches u p = (po_code p \<in> {availableCode u, withdrawPendingCode u, offlinePayPendingCode u})"

definition locked_net :: "string \<Rightarrow> posting list \<Rightarrow> int" where
  "locked_net u ps = net (withdrawPendingCode u) ps + net (offlinePayPendingCode u) ps"

lemma locked_net_simps [simp]: "locked_net u [] = 0" "locked_net u (ps @ qs) = locked_net u ps + locked_net u qs"
  by (simp_all add: locked_net_def)

lemma available_sum:
  "sum_list (map (\<lambda>p. if po_code p = availableCode u then signed_amount p else 0)
     (filter (\<lambda>p. po_code p \<in> {availableCode u, withdrawPendingCode u, offlinePayPendingCode u}) ps))
   = net (availableCode u) ps"
  by (induction ps) auto

lemma locked_sum:
  "sum_list (map (\<lambda>p. if po_code p = withdrawPendingCode u \<or> po_code p = offlinePayPendingCode u
       then signed_amount p else 0)
     (filter (\<lambda>p. po_code p \<in> {availableCode u, withdrawPendingCode u, offlinePayPendingCode u}) ps))
   = locked_net u ps"
  by (induction ps) (auto simp: locked_net_def)

lemma user_projection [simp]:
  "pb_balance (pg_getProjectedUserBalances u db) = net (availableCode u) (db_postings db)"
  "pb_lockedBalance (pg_getProjectedUserBalances u db) = locked_net u (db_postings db)"
  "pb_hasPostings (pg_getProjectedUserBalances u db) = list_ex (touches u) (db_postings db)"
proof -
  show "pb_balance (pg_getProjectedUserBalances u db) = net (availableCode u) (db_postings db)"
    unfolding pg_getProjectedUserBalances_def Let_def projected_balances.select_convs
    by (rule available_sum)
  show "pb_lockedBalance (pg_getProjectedUserBalances u db) = locked_net u (db_postings db)"
    unfolding pg_getProjectedUserBalances_def Let_def projected_balances.select_convs
    by (rule locked_sum)
  show "pb_hasPostings (pg_getProjectedUserBalances u db) = list_ex (touches u) (db_postings db)"
    by (auto simp: pg_getProjectedUserBalances_def Let_def touches_def list_ex_iff filter_empty_conv)
qed

lemma untouched_net:
  assumes "\<not> list_ex (touches u) ps"
  shows "net (availableCode u) ps = 0" "net (withdrawPendingCode u) ps = 0" "net (offlinePayPendingCode u) ps = 0"
  using assms by (induction ps) (auto simp: touches_def)

lemma untouched_locked: "\<not> list_ex (touches u) ps \<Longrightarrow> locked_net u ps = 0"
  by (simp add: locked_net_def untouched_net)

text \<open>What a journal adds to the balance of an account.\<close>

definition signed_input :: "ledger_posting_input \<Rightarrow> int" where
  "signed_input p = (case lp_side p of ES_credit \<Rightarrow> lp_amount p | ES_debit \<Rightarrow> - lp_amount p)"

primrec delta :: "string \<Rightarrow> ledger_posting_input list \<Rightarrow> int" where
  "delta code [] = 0"
| "delta code (p # ps) = (if lp_code p = code then signed_input p else 0) + delta code ps"

lemma net_rows [simp]: "net code (posting_rows cfg j now n ps) = delta code ps"
  by (induction ps arbitrary: n) (auto simp: signed_amount_def signed_input_def split: entry_side.splits)

lemma map_code_rows [simp]: "map po_code (posting_rows cfg j now n ps) = map lp_code ps"
  by (induction ps arbitrary: n) auto

lemma rows_journal [simp]: "p \<in> set (posting_rows cfg j now n ps) \<Longrightarrow> po_journalId p = j"
  by (induction ps arbitrary: n) auto

lemma rows_codes: "po_code ` set (posting_rows cfg j now n ps) = lp_code ` set ps"
  by (induction ps arbitrary: n) auto

section \<open>What the helpers leave alone\<close>

lemma ensureLedgerAccounts_keys [simp]:
  "map_keys (fold (\<lambda>p. pg_ensureLedgerAccount (lp_code p) (lp_type p) cu now) ps table)
     = map_keys table \<union> lp_code ` set ps"
proof (induction ps arbitrary: table)
  case (Cons p ps)
  have "map_keys (pg_ensureLedgerAccount (lp_code p) (lp_type p) cu now table) = insert (lp_code p) (map_keys table)"
    by (auto simp: pg_ensureLedgerAccount_def dest: map_get_keys split: option.split)
  with Cons show ?case by auto
qed simp

lemma appendJournal_sel [simp]:
  "db_accounts (pg_appendJournal cfg inp now db) = db_accounts db"
  "db_withdrawals (pg_appendJournal cfg inp now db) = db_withdrawals db"
  "db_transactions (pg_appendJournal cfg inp now db) = db_transactions db"
  "db_deposits (pg_appendJournal cfg inp now db) = db_deposits db"
  "db_approvals (pg_appendJournal cfg inp now db) = db_approvals db"
  "db_devices (pg_appendJournal cfg inp now db) = db_devices db"
  "db_bindings (pg_appendJournal cfg inp now db) = db_bindings db"
  "db_feeReceipts (pg_appendJournal cfg inp now db) = db_feeReceipts db"
  "db_outbox (pg_appendJournal cfg inp now db) = db_outbox db"
  "db_sweeps (pg_appendJournal cfg inp now db) = db_sweeps db"
  "db_jobs (pg_appendJournal cfg inp now db) = db_jobs db"
  "db_uuids (pg_appendJournal cfg inp now db) = Suc (db_uuids db + length (ji_postings inp))"
  "db_postings (pg_appendJournal cfg inp now db)
     = db_postings db @ posting_rows cfg (newUuid cfg db) now (Suc (db_uuids db)) (ji_postings inp)"
  "db_journals (pg_appendJournal cfg inp now db) = db_journals db @
     [\<lparr>jn_journalId = newUuid cfg db, jn_journalType = ji_journalType inp,
       jn_referenceType = ji_referenceType inp, jn_referenceId = ji_referenceId inp,
       jn_currencyCode = coalesce (ji_currencyCode inp) ''KORI'', jn_description = ji_description inp,
       jn_createdAt = now\<rparr>]"
  "map_keys (db_ledgerAccounts (pg_appendJournal cfg inp now db))
     = map_keys (db_ledgerAccounts db) \<union> lp_code ` set (ji_postings inp)"
  by (simp_all add: pg_appendJournal_def Let_def)

lemma enqueueOutboxEvent_sel [simp]:
  "db_accounts (pg_enqueueOutboxEvent cfg et aty aid p t db) = db_accounts db"
  "db_withdrawals (pg_enqueueOutboxEvent cfg et aty aid p t db) = db_withdrawals db"
  "db_transactions (pg_enqueueOutboxEvent cfg et aty aid p t db) = db_transactions db"
  "db_deposits (pg_enqueueOutboxEvent cfg et aty aid p t db) = db_deposits db"
  "db_approvals (pg_enqueueOutboxEvent cfg et aty aid p t db) = db_approvals db"
  "db_devices (pg_enqueueOutboxEvent cfg et aty aid p t db) = db_devices db"
  "db_bindings (pg_enqueueOutboxEvent cfg et aty aid p t db) = db_bindings db"
  "db_postings (pg_enqueueOutboxEvent cfg et aty aid p t db) = db_postings db"
  "db_journals (pg_enqueueOutboxEvent cfg et aty aid p t db) = db_journals db"
  "db_ledgerAccounts (pg_enqueueOutboxEvent cfg et aty aid p t db) = db_ledgerAccounts db"
  "db_uuids (pg_enqueueOutboxEvent cfg et aty aid p t db) = Suc (db_uuids db)"
  by (simp_all add: pg_enqueueOutboxEvent_def Let_def)

lemma ensureAccount_sel [simp]:
  "db_withdrawals (pg_ensureAccount u now db) = db_withdrawals db"
  "db_transactions (pg_ensureAccount u now db) = db_transactions db"
  "db_deposits (pg_ensureAccount u now db) = db_deposits db"
  "db_approvals (pg_ensureAccount u now db) = db_approvals db"
  "db_devices (pg_ensureAccount u now db) = db_devices db"
  "db_bindings (pg_ensureAccount u now db) = db_bindings db"
  "db_postings (pg_ensureAccount u now db) = db_postings db"
  "db_journals (pg_ensureAccount u now db) = db_journals db"
  "db_ledgerAccounts (pg_ensureAccount u now db) = db_ledgerAccounts db"
  "db_uuids (pg_ensureAccount u now db) = db_uuids db"
  by (simp_all add: pg_ensureAccount_def split: option.split)

lemma sync_user_sel [simp]:
  "db_withdrawals (sync_user now u db) = db_withdrawals db"
  "db_transactions (sync_user now u db) = db_transactions db"
  "db_deposits (sync_user now u db) = db_deposits db"
  "db_approvals (sync_user now u db) = db_approvals db"
  "db_devices (sync_user now u db) = db_devices db"
  "db_bindings (sync_user now u db) = db_bindings db"
  "db_postings (sync_user now u db) = db_postings db"
  "db_journals (sync_user now u db) = db_journals db"
  "db_ledgerAccounts (sync_user now u db) = db_ledgerAccounts db"
  "db_uuids (sync_user now u db) = db_uuids db"
  by (simp_all add: sync_user_def Let_def split: option.split)

lemma fold_sync_sel [simp]:
  "db_withdrawals (fold (sync_user now) us db) = db_withdrawals db"
  "db_transactions (fold (sync_user now) us db) = db_transactions db"
  "db_deposits (fold (sync_user now) us db) = db_deposits db"
  "db_approvals (fold (sync_user now) us db) = db_approvals db"
  "db_devices (fold (sync_user now) us db) = db_devices db"
  "db_bindings (fold (sync_user now) us db) = db_bindings db"
  "db_postings (fold (sync_user now) us db) = db_postings db"
  "db_journals (fold (sync_user now) us db) = db_journals db"
  "db_ledgerAccounts (fold (sync_user now) us db) = db_ledgerAccounts db"
  "db_uuids (fold (sync_user now) us db) = db_uuids db"
  by (induction us arbitrary: db) simp_all

lemma sync_sel [simp]:
  "db_withdrawals (pg_syncUserAccountProjection us now db) = db_withdrawals db"
  "db_transactions (pg_syncUserAccountProjection us now db) = db_transactions db"
  "db_deposits (pg_syncUserAccountProjection us now db) = db_deposits db"
  "db_approvals (pg_syncUserAccountProjection us now db) = db_approvals db"
  "db_devices (pg_syncUserAccountProjection us now db) = db_devices db"
  "db_bindings (pg_syncUserAccountProjection us now db) = db_bindings db"
  "db_postings (pg_syncUserAccountProjection us now db) = db_postings db"
  "db_journals (pg_syncUserAccountProjection us now db) = db_journals db"
  "db_ledgerAccounts (pg_syncUserAccountProjection us now db) = db_ledgerAccounts db"
  "db_uuids (pg_syncUserAccountProjection us now db) = db_uuids db"
  by (simp_all add: pg_syncUserAccountProjection_def)

end
