(* ===== verification/PgAccounts.thy ===== *)
theory PgAccounts
  imports PgJournal
begin

text \<open>
  Accounts, wallet bindings, deposits, external credits and internal transfers of
  \<open>PostgresLedgerRepository\<close>.  \<open>nowIso\<close> stands for \<open>input.nowIso ?? new Date().toISOString()\<close>.
\<close>

text \<open>A posting of a journal, by side.\<close>

definition debit :: "string \<Rightarrow> account_type \<Rightarrow> int \<Rightarrow> ledger_posting_input" where
  "debit code ty amount = \<lparr>lp_code = code, lp_type = ty, lp_side = ES_debit, lp_amount = amount\<rparr>"

definition credit :: "string \<Rightarrow> account_type \<Rightarrow> int \<Rightarrow> ledger_posting_input" where
  "credit code ty amount = \<lparr>lp_code = code, lp_type = ty, lp_side = ES_credit, lp_amount = amount\<rparr>"

lemma debit_credit [simp]:
  "lp_code (debit c t a) = c" "lp_code (credit c t a) = c"
  "signed_input (debit c t a) = - a" "signed_input (credit c t a) = a"
  "lp_amount (debit c t a) = a" "lp_amount (credit c t a) = a"
  by (simp_all add: debit_def credit_def signed_input_def)

section \<open>Accounts and bindings\<close>

definition findWalletBindingByWalletAddress :: "string \<Rightarrow> pg_db \<Rightarrow> wallet_binding option" where
  "findWalletBindingByWalletAddress walletAddress db =
     find (\<lambda>b. wb_walletAddress b = walletAddress) (map_values (db_bindings db))"

definition findWalletBindingByUserId :: "string \<Rightarrow> pg_db \<Rightarrow> wallet_binding option" where
  "findWalletBindingByUserId userId db = map_get (db_bindings db) userId"

definition mapAccount :: "account_row \<Rightarrow> wallet_binding option \<Rightarrow> projected_balances \<Rightarrow> account" where
  "mapAccount row binding projected =
     \<lparr>acc_userId = ar_userId row, acc_walletAddress = map_option wb_walletAddress binding,
      acc_balance = (if pb_hasPostings projected then pb_balance projected else ar_balance row),
      acc_lockedBalance = (if pb_hasPostings projected then pb_lockedBalance projected else ar_lockedBalance row),
      acc_updatedAt = (if pb_hasPostings projected then coalesce (pb_updatedAt projected) (ar_updatedAt row)
                       else ar_updatedAt row)\<rparr>"

definition pg_getAccount :: "string \<Rightarrow> string \<Rightarrow> (pg_db, account) act" where
  "pg_getAccount userId nowIso db =
     (let db1 = pg_ensureAccount userId nowIso db in
      case map_get (db_accounts db1) userId of
        None \<Rightarrow> (Inl (DomainError 500 ''STATE_CORRUPTED'' ''account not found''), db1)
      | Some row \<Rightarrow> (Inr (mapAccount row (findWalletBindingByUserId userId db1)
                        (pg_getProjectedUserBalances userId db1)), db1))"

definition pg_getAccountByWalletAddress :: "string \<Rightarrow> string \<Rightarrow> (pg_db, account) act" where
  "pg_getAccountByWalletAddress walletAddress nowIso db =
     (case findWalletBindingByWalletAddress walletAddress db of
        None \<Rightarrow> (Inl (DomainError 404 ''WALLET_ADDRESS_NOT_FOUND'' ''wallet address is not bound to any user''), db)
      | Some binding \<Rightarrow> pg_getAccount (wb_userId binding) nowIso db)"

text \<open>\<open>insert ... on conflict (user_id) do update set wallet_address\<close>: a present binding keeps the
  time it was created at.\<close>

definition pg_bindWalletAddress :: "string \<Rightarrow> string \<Rightarrow> string \<Rightarrow> (pg_db, wallet_binding) act" where
  "pg_bindWalletAddress userId walletAddress nowIso = withTransaction (\<lambda>db.
     let db1 = pg_ensureAccount userId nowIso db;
         existingBinding = findWalletBindingByWalletAddress walletAddress db1 in
     if (case existingBinding of None \<Rightarrow> False | Some b \<Rightarrow> wb_userId b \<noteq> userId)
     then (Inl (DomainError 409 ''WALLET_ADDRESS_IN_USE'' ''wallet address is already bound to another user''), db1)
     else
       let row = (case map_get (db_bindings db1) userId of
                    None \<Rightarrow> \<lparr>wb_userId = userId, wb_walletAddress = walletAddress, wb_createdAt = nowIso\<rparr>
                  | Some b \<Rightarrow> b\<lparr>wb_walletAddress := walletAddress\<rparr>);
           db2 = db1\<lparr>db_bindings := map_set userId row (db_bindings db1)\<rparr>
       in case findWalletBindingByUserId userId db2 of
            None \<Rightarrow> (Inl (DomainError 500 ''STATE_CORRUPTED'' ''wallet binding not found after upsert''), db2)
          | Some bound \<Rightarrow> (Inr bound, db2))"

definition pg_getWalletBinding :: "string option \<Rightarrow> string option \<Rightarrow> pg_db \<Rightarrow> js_error + wallet_binding option" where
  "pg_getWalletBinding userId walletAddress db =
     (if truthy userId then Inr (findWalletBindingByUserId (the userId) db)
      else if truthy walletAddress then Inr (findWalletBindingByWalletAddress (the walletAddress) db)
      else Inl (DomainError 400 ''VALIDATION_ERROR'' ''userId or walletAddress is required''))"

definition pg_resolveUserId :: "string option \<Rightarrow> string option \<Rightarrow> pg_db \<Rightarrow> js_error + string" where
  "pg_resolveUserId userId walletAddress db =
     (if truthy userId \<and> truthy walletAddress then
        (case findWalletBindingByWalletAddress (the walletAddress) db of
           None \<Rightarrow> Inr (the userId)
         | Some b \<Rightarrow>
             if Some (wb_userId b) \<noteq> userId
             then Inl (DomainError 409 ''ACCOUNT_REFERENCE_CONFLICT''
                    ''userId and walletAddress point to different accounts'')
             else Inr (the userId))
      else if truthy userId then Inr (the userId)
      else if truthy walletAddress then
        (case findWalletBindingByWalletAddress (the walletAddress) db of
           None \<Rightarrow> Inl (DomainError 404 ''WALLET_ADDRESS_NOT_FOUND'' ''wallet address is not bound to any user'')
         | Some b \<Rightarrow> Inr (wb_userId b))
      else Inl (DomainError 400 ''VALIDATION_ERROR'' ''userId or walletAddress is required''))"

section \<open>Deposits\<close>

definition deposit_journal :: "string \<Rightarrow> deposit_input \<Rightarrow> journal_input" where
  "deposit_journal depositId inp =
     \<lparr>ji_journalType = ''deposit_confirmed'', ji_referenceType = ''deposit'', ji_referenceId = depositId,
      ji_currencyCode = None, ji_description = Some (''deposit '' @ di_txHash inp),
      ji_postings = [debit ''system:asset:deposit_clearing'' AY_asset (di_amount inp),
                     credit (availableCode (di_userId inp)) AY_liability (di_amount inp)]\<rparr>"

definition pg_applyDeposit :: "ledger_cfg \<Rightarrow> deposit_input \<Rightarrow> string \<Rightarrow> (pg_db, deposit_apply_result) act" where
  "pg_applyDeposit cfg inp nowIso = withTransaction (\<lambda>db.
     case find (\<lambda>d. dep_txHash d = di_txHash inp) (map_values (db_deposits db)) of
       Some existing \<Rightarrow> (Inr \<lparr>dr_deposit = existing, dr_duplicated = True\<rparr>, db)
     | None \<Rightarrow>
         let db1 = pg_ensureAccount (di_userId inp) nowIso db in
         case pg_getAccountForUpdate (di_userId inp) db1 of
           Inl e \<Rightarrow> (Inl e, db1)
         | Inr _ \<Rightarrow>
             if \<not> journal_fits (deposit_journal (uuid cfg (db_uuids db1 + 1)) inp)
             then (Inl column_error, db1\<lparr>db_uuids := db_uuids db1 + 2\<rparr>)
             else
             let txId = newUuid cfg db1;
                 depositId = uuid cfg (db_uuids db1 + 1);
                 dep = \<lparr>dep_depositId = depositId, dep_userId = di_userId inp, dep_txHash = di_txHash inp,
                        dep_amount = di_amount inp, dep_status = DS_CREDITED,
                        dep_blockNumber = di_blockNumber inp, dep_createdAt = nowIso\<rparr>;
                 db2 = db1\<lparr>db_uuids := db_uuids db1 + 2,
                           db_transactions := map_set txId
                             \<lparr>tx_txId = txId, tx_userId = di_userId inp, tx_type = TT_deposit,
                              tx_amount = di_amount inp, tx_status = TS_confirmed,
                              tx_blockTx = Some (di_txHash inp), tx_relatedUserId = None,
                              tx_idempotencyKey = None, tx_createdAt = nowIso\<rparr> (db_transactions db1),
                           db_deposits := map_set depositId dep (db_deposits db1)\<rparr>;
                 db3 = pg_appendJournal cfg (deposit_journal depositId inp) nowIso db2;
                 db4 = pg_syncUserAccountProjection [di_userId inp] nowIso db3
             in case buildDepositStateChangedContract cfg depositId (di_userId inp)
                       (coalesce (di_walletAddress inp) (coalesce (di_toAddress inp) ''''))
                       (di_txHash inp) (coalesce (di_toAddress inp) '''') DS_CREDITED (di_amount inp)
                       (di_blockNumber inp) nowIso of
                  Inl e \<Rightarrow> (Inl e, db4)
                | Inr payload \<Rightarrow>
                    (Inr \<lparr>dr_deposit = dep, dr_duplicated = False\<rparr>,
                     pg_enqueueOutboxEvent cfg ''deposit.state.changed'' ''deposit'' depositId payload nowIso db4))"

definition pg_completeDeposit :: "string \<Rightarrow> (pg_db, deposit) act" where
  "pg_completeDeposit depositId db =
     (case map_get (db_deposits db) depositId of
        None \<Rightarrow> (Inl (DomainError 404 ''NOT_FOUND'' ''deposit not found''), db)
      | Some existing \<Rightarrow>
          if dep_status existing = DS_COMPLETED then (Inr existing, db)
          else let row = existing\<lparr>dep_status := DS_COMPLETED\<rparr>
               in (Inr row, db\<lparr>db_deposits := map_set depositId row (db_deposits db)\<rparr>))"

definition pg_listDepositsByUser :: "string \<Rightarrow> nat \<Rightarrow> pg_db \<Rightarrow> deposit list" where
  "pg_listDepositsByUser userId limit db =
     take limit (sort_desc dep_createdAt (filter (\<lambda>d. dep_userId d = userId) (map_values (db_deposits db))))"

section \<open>External credits\<close>

record pg_credit_input = credit_input +
  ci_description :: "string option"

definition credit_journal :: "string \<Rightarrow> pg_credit_input \<Rightarrow> journal_input" where
  "credit_journal currencyCode inp =
     \<lparr>ji_journalType = ci_journalType inp, ji_referenceType = ci_referenceType inp,
      ji_referenceId = ci_referenceId inp, ji_currencyCode = Some currencyCode,
      ji_description = ci_description inp,
      ji_postings = [debit ''system:equity:foxya_balance_credit_sync'' AY_equity (ci_amount inp),
                     credit (availableCode (ci_userId inp)) AY_liability (ci_amount inp)]\<rparr>"

definition pg_applyExternalCredit :: "ledger_cfg \<Rightarrow> pg_credit_input \<Rightarrow> string \<Rightarrow> (pg_db, external_credit) act" where
  "pg_applyExternalCredit cfg inp nowIso db =
     (if ci_amount inp \<le> 0
      then (Inl (DomainError 400 ''VALIDATION_ERROR'' ''external credit amount must be positive''), db)
      else
        let currencyCode = toUpperCase (trim (ci_currencyCode inp));
            result = (\<lambda>duplicated createdAt.
              \<lparr>ec_creditId = ci_referenceId inp, ec_userId = ci_userId inp, ec_amount = ci_amount inp,
               ec_currencyCode = currencyCode, ec_journalType = ci_journalType inp,
               ec_referenceType = ci_referenceType inp, ec_referenceId = ci_referenceId inp,
               ec_duplicated = duplicated, ec_createdAt = createdAt\<rparr>)
        in if currencyCode \<noteq> ''KORI''
           then (Inl (DomainError 400 ''UNSUPPORTED_CURRENCY'' ''external credit ledger sync only supports KORI''), db)
           else withTransaction (\<lambda>db.
             case find_journal (ci_referenceType inp) (ci_referenceId inp) db of
               Some existing \<Rightarrow> (Inr (result True (jn_createdAt existing)), db)
             | None \<Rightarrow>
                 if \<not> journal_fits (credit_journal currencyCode inp) then (Inl column_error, db)
                 else
                 let db1 = pg_ensureAccount (ci_userId inp) nowIso db;
                     db2 = pg_appendJournal cfg (credit_journal currencyCode inp) nowIso db1;
                     db3 = pg_syncUserAccountProjection [ci_userId inp] nowIso db2
                 in (Inr (result False nowIso), db3)) db)"

section \<open>Internal transfers\<close>

text \<open>\<open>projected.hasPostings ? projected.balance : parseStoredKoriAmount(account.balance)\<close>, and the
  same for the locked balance.\<close>

definition availableBalance :: "string \<Rightarrow> account_row \<Rightarrow> pg_db \<Rightarrow> int" where
  "availableBalance userId row db =
     (let projected = pg_getProjectedUserBalances userId db
      in if pb_hasPostings projected then pb_balance projected else ar_balance row)"

definition lockedBalance :: "string \<Rightarrow> account_row \<Rightarrow> pg_db \<Rightarrow> int" where
  "lockedBalance userId row db =
     (let projected = pg_getProjectedUserBalances userId db
      in if pb_hasPostings projected then pb_lockedBalance projected else ar_lockedBalance row)"

definition transfer_journal :: "string \<Rightarrow> string \<Rightarrow> int \<Rightarrow> string \<Rightarrow> journal_input" where
  "transfer_journal fromUserId toUserId amount idempotencyKey =
     \<lparr>ji_journalType = ''internal_transfer'', ji_referenceType = ''transfer'', ji_referenceId = idempotencyKey,
      ji_currencyCode = None,
      ji_description = Some (''internal transfer '' @ fromUserId @ '' -> '' @ toUserId),
      ji_postings = [debit (availableCode fromUserId) AY_liability amount,
                     credit (availableCode toUserId) AY_liability amount]\<rparr>"

definition transfer_rows :: "string \<Rightarrow> pg_db \<Rightarrow> ledger_transaction list" where
  "transfer_rows idempotencyKey db =
     filter (\<lambda>t. tx_idempotencyKey t = Some idempotencyKey \<and>
                 tx_type t \<in> {TT_internal_transfer_out, TT_internal_transfer_in})
       (map_values (db_transactions db))"

definition pg_transfer :: "ledger_cfg \<Rightarrow> string \<Rightarrow> string \<Rightarrow> int \<Rightarrow> string \<Rightarrow> string \<Rightarrow> (pg_db, transfer_result) act" where
  "pg_transfer cfg fromUserId toUserId amount idempotencyKey nowIso db =
     (if fromUserId = toUserId
      then (Inl (DomainError 400 ''VALIDATION_ERROR'' ''fromUserId and toUserId must be different''), db)
      else withTransaction (\<lambda>db.
        let existingRows = transfer_rows idempotencyKey db in
        if 2 \<le> length existingRows then
          (case (find (\<lambda>t. tx_type t = TT_internal_transfer_out) existingRows,
                 find (\<lambda>t. tx_type t = TT_internal_transfer_in) existingRows) of
             (Some fromTx, Some toTx) \<Rightarrow> (Inr \<lparr>tr_fromTx = fromTx, tr_toTx = toTx, tr_duplicated = True\<rparr>, db)
           | _ \<Rightarrow> (Inl (DomainError 500 ''STATE_CORRUPTED'' ''transfer idempotency state is invalid''), db))
        else
          let db1 = pg_ensureAccount toUserId nowIso (pg_ensureAccount fromUserId nowIso db) in
          case (pg_getAccountForUpdate fromUserId db1, pg_getAccountForUpdate toUserId db1) of
            (Inl e, _) \<Rightarrow> (Inl e, db1)
          | (Inr _, Inl e) \<Rightarrow> (Inl e, db1)
          | (Inr fromAccount, Inr _) \<Rightarrow>
              if availableBalance fromUserId fromAccount db1 < amount
              then (Inl (DomainError 400 ''INSUFFICIENT_BALANCE'' ''insufficient balance for transfer''), db1)
              else if \<not> journal_fits (transfer_journal fromUserId toUserId amount idempotencyKey)
              then (Inl column_error, db1\<lparr>db_uuids := db_uuids db1 + 2\<rparr>)
              else
                let fromTxId = newUuid cfg db1;
                    toTxId = uuid cfg (db_uuids db1 + 1);
                    fromTx = \<lparr>tx_txId = fromTxId, tx_userId = fromUserId, tx_type = TT_internal_transfer_out,
                              tx_amount = amount, tx_status = TS_confirmed, tx_blockTx = None,
                              tx_relatedUserId = Some toUserId, tx_idempotencyKey = Some idempotencyKey,
                              tx_createdAt = nowIso\<rparr>;
                    toTx = \<lparr>tx_txId = toTxId, tx_userId = toUserId, tx_type = TT_internal_transfer_in,
                            tx_amount = amount, tx_status = TS_confirmed, tx_blockTx = None,
                            tx_relatedUserId = Some fromUserId, tx_idempotencyKey = Some idempotencyKey,
                            tx_createdAt = nowIso\<rparr>;
                    db2 = db1\<lparr>db_uuids := db_uuids db1 + 2,
                              db_transactions := map_set toTxId toTx (map_set fromTxId fromTx (db_transactions db1))\<rparr>;
                    db3 = pg_appendJournal cfg (transfer_journal fromUserId toUserId amount idempotencyKey) nowIso db2;
                    db4 = pg_syncUserAccountProjection [fromUserId, toUserId] nowIso db3
                in (Inr \<lparr>tr_fromTx = fromTx, tr_toTx = toTx, tr_duplicated = False\<rparr>, db4)) db)"

definition pg_listTransactionsByUser :: "string \<Rightarrow> transaction_type list option \<Rightarrow> nat option \<Rightarrow> pg_db
    \<Rightarrow> ledger_transaction list" where
  "pg_listTransactionsByUser userId types limit db =
     take (coalesce limit 50) (sort_desc tx_createdAt
       (filter (\<lambda>t. tx_userId t = userId \<and> (coalesce types [] \<noteq> [] \<longrightarrow> tx_type t \<in> set (coalesce types [])))
         (map_values (db_transactions db))))"

end
