(* ===== verification/PgWithdrawals.thy ===== *)
theory PgWithdrawals
  imports PgAccounts LedgerWithdrawals
begin

text \<open>
  The withdrawal operations of \<open>PostgresLedgerRepository\<close>.  A stored row has no number of approvals
  (its field is 0); \<open>pg_mapWithdrawal\<close> fills in the number of rows in the approvals table.
\<close>

section \<open>Rows\<close>

definition pg_mapWithdrawal :: "withdrawal \<Rightarrow> int \<Rightarrow> withdrawal" where
  "pg_mapWithdrawal row approvalCount = row\<lparr>wd_approvalCount := approvalCount\<rparr>"

definition pg_getApprovalCount :: "string \<Rightarrow> pg_db \<Rightarrow> int" where
  "pg_getApprovalCount withdrawalId db =
     int (length (filter (\<lambda>a. wa_withdrawalId a = withdrawalId) (db_approvals db)))"

definition pg_hydrateWithdrawal :: "pg_db \<Rightarrow> withdrawal \<Rightarrow> withdrawal" where
  "pg_hydrateWithdrawal db row = pg_mapWithdrawal row (pg_getApprovalCount (wd_withdrawalId row) db)"

definition pg_getWithdrawalForUpdate :: "string \<Rightarrow> pg_db \<Rightarrow> js_error + withdrawal" where
  "pg_getWithdrawalForUpdate withdrawalId db =
     (case map_get (db_withdrawals db) withdrawalId of
        None \<Rightarrow> Inl (DomainError 404 ''NOT_FOUND'' ''withdrawal not found'')
      | Some row \<Rightarrow> Inr row)"

definition pg_getDailyRequestedWithdrawalAmount :: "string \<Rightarrow> string \<Rightarrow> pg_db \<Rightarrow> int" where
  "pg_getDailyRequestedWithdrawalAmount userId nowIso db =
     sum_list (map wd_amount
       (filter (\<lambda>w. wd_userId w = userId \<and> iso_day (wd_createdAt w) = iso_day nowIso \<and>
                    wd_status w \<in> set DAILY_LIMIT_WITHDRAWAL_STATUSES)
         (map_values (db_withdrawals db))))"

definition write_row :: "string \<Rightarrow> withdrawal \<Rightarrow> pg_db \<Rightarrow> pg_db" where
  "write_row withdrawalId row db = db\<lparr>db_withdrawals := map_set withdrawalId row (db_withdrawals db)\<rparr>"

text \<open>
  The end of every withdrawal operation: the row is read again, its contract is built and put in the
  outbox.  A contract the schema rejects throws, and the transaction is undone.
\<close>

definition pg_publishWithdrawal :: "ledger_cfg \<Rightarrow> string \<Rightarrow> string \<Rightarrow> (withdrawal \<Rightarrow> 'a) \<Rightarrow> (pg_db, 'a) act" where
  "pg_publishWithdrawal cfg withdrawalId occurredAt result db =
     (case pg_getWithdrawalForUpdate withdrawalId db of
        Inl e \<Rightarrow> (Inl e, db)
      | Inr updated \<Rightarrow>
          let hydrated = pg_hydrateWithdrawal db updated in
          case buildWithdrawalStateChangedContract cfg hydrated occurredAt of
            Inl e \<Rightarrow> (Inl e, db)
          | Inr payload \<Rightarrow>
              (Inr (result hydrated),
               pg_enqueueOutboxEvent cfg ''withdrawal.state.changed'' ''withdrawal'' withdrawalId payload occurredAt db))"

section \<open>Request\<close>

definition reserve_journal :: "string \<Rightarrow> withdrawal_input \<Rightarrow> journal_input" where
  "reserve_journal withdrawalId inp =
     \<lparr>ji_journalType = ''withdraw_reserved'', ji_referenceType = ''withdrawal'', ji_referenceId = withdrawalId,
      ji_currencyCode = None, ji_description = Some (''withdraw reserve '' @ wi_userId inp),
      ji_postings = [debit (availableCode (wi_userId inp)) AY_liability (wi_amount inp),
                     credit (withdrawPendingCode (wi_userId inp)) AY_liability (wi_amount inp)]\<rparr>"

definition pg_requestWithdrawal :: "ledger_cfg \<Rightarrow> withdrawal_input \<Rightarrow> string \<Rightarrow> (pg_db, withdrawal_request_result) act" where
  "pg_requestWithdrawal cfg inp nowIso db =
     (if singleLimit cfg < wi_amount inp
      then (Inl (DomainError 400 ''LIMIT_EXCEEDED'' ''single withdrawal limit exceeded''), db)
      else withTransaction (\<lambda>db.
        case find (\<lambda>w. wd_idempotencyKey w = wi_idempotencyKey inp) (map_values (db_withdrawals db)) of
          Some existing \<Rightarrow> (Inr \<lparr>wr_withdrawal = pg_hydrateWithdrawal db existing, wr_duplicated = True\<rparr>, db)
        | None \<Rightarrow>
            let db1 = pg_ensureAccount (wi_userId inp) nowIso db in
            case pg_getAccountForUpdate (wi_userId inp) db1 of
              Inl e \<Rightarrow> (Inl e, db1)
            | Inr account \<Rightarrow>
                if availableBalance (wi_userId inp) account db1 < wi_amount inp
                then (Inl (DomainError 400 ''INSUFFICIENT_BALANCE'' ''insufficient balance for withdrawal''), db1)
                else if dailyLimit cfg < pg_getDailyRequestedWithdrawalAmount (wi_userId inp) nowIso db1 + wi_amount inp
                then (Inl (DomainError 400 ''LIMIT_EXCEEDED'' ''daily withdrawal limit exceeded''), db1)
                else if \<not> journal_fits (reserve_journal (uuid cfg (db_uuids db1 + 1)) inp)
                then (Inl column_error, db1\<lparr>db_uuids := db_uuids db1 + 2\<rparr>)
                else
                  let ledgerTxId = newUuid cfg db1;
                      withdrawalId = uuid cfg (db_uuids db1 + 1);
                      row = new_withdrawal inp withdrawalId ledgerTxId nowIso;
                      db2 = db1\<lparr>db_uuids := db_uuids db1 + 2,
                                db_transactions := map_set ledgerTxId
                                  \<lparr>tx_txId = ledgerTxId, tx_userId = wi_userId inp, tx_type = TT_withdraw,
                                   tx_amount = wi_amount inp, tx_status = TS_pending, tx_blockTx = None,
                                   tx_relatedUserId = None, tx_idempotencyKey = Some (wi_idempotencyKey inp),
                                   tx_createdAt = nowIso\<rparr> (db_transactions db1),
                                db_withdrawals := map_set withdrawalId row (db_withdrawals db1)\<rparr>;
                      db3 = pg_appendJournal cfg (reserve_journal withdrawalId inp) nowIso db2;
                      db4 = pg_syncUserAccountProjection [wi_userId inp] nowIso db3
                  in pg_publishWithdrawal cfg withdrawalId nowIso
                       (\<lambda>w. \<lparr>wr_withdrawal = w, wr_duplicated = False\<rparr>) db4) db)"

section \<open>External authentication, review, approval, broadcast\<close>

definition pg_confirmWithdrawalExternalAuth :: "ledger_cfg \<Rightarrow> string \<Rightarrow> string \<Rightarrow> string \<Rightarrow> string
    \<Rightarrow> (pg_db, withdrawal) act" where
  "pg_confirmWithdrawalExternalAuth cfg withdrawalId provider requestId nowIso = withTransaction (\<lambda>db.
     case pg_getWithdrawalForUpdate withdrawalId db of
       Inl e \<Rightarrow> (Inl e, db)
     | Inr w \<Rightarrow>
         if wd_status w = LEDGER_RESERVED then
           pg_publishWithdrawal cfg withdrawalId nowIso id (write_row withdrawalId
             (w\<lparr>wd_status := PENDING_ADMIN, wd_externalAuthProvider := Some provider,
                wd_externalAuthRequestId := Some requestId, wd_externalAuthConfirmedAt := Some nowIso\<rparr>) db)
         else if wd_externalAuthProvider w = Some provider \<and> wd_externalAuthRequestId w = Some requestId \<and>
                 truthy (wd_externalAuthConfirmedAt w)
         then (Inr (pg_hydrateWithdrawal db w), db)
         else (Inl (DomainError 409 ''INVALID_STATE''
                ''withdrawal external auth cannot be confirmed in current state''), db))"

definition pg_markWithdrawalReviewRequired :: "ledger_cfg \<Rightarrow> string \<Rightarrow> string \<Rightarrow> (pg_db, withdrawal) act" where
  "pg_markWithdrawalReviewRequired cfg withdrawalId nowIso = withTransaction (\<lambda>db.
     case pg_getWithdrawalForUpdate withdrawalId db of
       Inl e \<Rightarrow> (Inl e, db)
     | Inr w \<Rightarrow>
         if wd_status w \<noteq> PENDING_ADMIN then (Inr (pg_hydrateWithdrawal db w), db)
         else pg_publishWithdrawal cfg withdrawalId nowIso id
                (write_row withdrawalId (w\<lparr>wd_reviewRequiredAt := Some nowIso\<rparr>) db))"

definition pg_approveWithdrawal :: "ledger_cfg \<Rightarrow> string \<Rightarrow> approval_input \<Rightarrow> string \<Rightarrow> (pg_db, approval_decision) act" where
  "pg_approveWithdrawal cfg withdrawalId inp nowIso = withTransaction (\<lambda>db.
     case pg_getWithdrawalForUpdate withdrawalId db of
       Inl e \<Rightarrow> (Inl e, db)
     | Inr w \<Rightarrow>
         if wd_status w \<noteq> PENDING_ADMIN
         then (Inl (DomainError 409 ''INVALID_STATE'' ''withdrawal must be pending admin approval''), db)
         else if list_ex (\<lambda>a. wa_withdrawalId a = withdrawalId \<and> wa_adminId a = ai_adminId inp) (db_approvals db)
         then (Inl (DomainError 409 ''ALREADY_APPROVED'' ''admin already approved this withdrawal''), db)
         else
           let approval = \<lparr>wa_approvalId = newUuid cfg db, wa_withdrawalId = withdrawalId,
                  wa_adminId = ai_adminId inp, wa_actorType = ai_actorType inp,
                  wa_reasonCode = coalesce (ai_reasonCode inp) manual_review_passed,
                  wa_note = ai_note inp, wa_createdAt = nowIso\<rparr>;
               db1 = db\<lparr>db_uuids := Suc (db_uuids db), db_approvals := db_approvals db @ [approval]\<rparr>;
               finalized = (wd_requiredApprovals w \<le> pg_getApprovalCount withdrawalId db1);
               db2 = (if finalized
                      then write_row withdrawalId (w\<lparr>wd_status := ADMIN_APPROVED, wd_approvedAt := Some nowIso\<rparr>) db1
                      else db1)
           in pg_publishWithdrawal cfg withdrawalId nowIso
                (\<lambda>v. \<lparr>ad_withdrawal = v, ad_approval = approval, ad_finalized = finalized\<rparr>) db2)"

definition pg_broadcastWithdrawal :: "ledger_cfg \<Rightarrow> string \<Rightarrow> string \<Rightarrow> string \<Rightarrow> (pg_db, withdrawal) act" where
  "pg_broadcastWithdrawal cfg withdrawalId txHash nowIso = withTransaction (\<lambda>db.
     case pg_getWithdrawalForUpdate withdrawalId db of
       Inl e \<Rightarrow> (Inl e, db)
     | Inr w \<Rightarrow>
         if wd_status w \<noteq> ADMIN_APPROVED
         then (Inl (DomainError 409 ''INVALID_STATE'' ''withdrawal must be admin approved''), db)
         else pg_publishWithdrawal cfg withdrawalId nowIso id
                (write_row withdrawalId
                  (w\<lparr>wd_status := TX_BROADCASTED, wd_txHash := Some txHash, wd_broadcastedAt := Some nowIso\<rparr>) db))"

section \<open>Confirmation and failure\<close>

definition settle_journal :: "string \<Rightarrow> withdrawal \<Rightarrow> journal_input" where
  "settle_journal withdrawalId w =
     \<lparr>ji_journalType = ''withdraw_completed'', ji_referenceType = ''withdrawal'', ji_referenceId = withdrawalId,
      ji_currencyCode = Some ''KORI'',
      ji_description = Some (trim (''withdraw complete '' @ coalesce (wd_txHash w) '''')),
      ji_postings = [debit (withdrawPendingCode (wd_userId w)) AY_liability (wd_amount w),
                     credit ''system:asset:hot_wallet'' AY_asset (wd_amount w)]\<rparr>"

definition fee_journal :: "string \<Rightarrow> string \<Rightarrow> int \<Rightarrow> journal_input" where
  "fee_journal withdrawalId txHash feeSun =
     \<lparr>ji_journalType = ''withdraw_network_fee'', ji_referenceType = ''withdrawal'', ji_referenceId = withdrawalId,
      ji_currencyCode = Some ''TRX'', ji_description = Some (trim (''withdraw network fee '' @ txHash)),
      ji_postings = [debit ''system:expense:withdraw_network_fee'' AY_expense feeSun,
                     credit ''system:asset:hot_wallet_trx'' AY_asset feeSun]\<rparr>"

text \<open>\<open>on conflict (reference_type, reference_id) do nothing\<close>.\<close>

definition pg_persistNetworkFeeReceipt :: "ledger_cfg \<Rightarrow> fee_reference \<Rightarrow> string \<Rightarrow> network_fee \<Rightarrow> string \<Rightarrow> pg_db \<Rightarrow> pg_db" where
  "pg_persistNetworkFeeReceipt cfg refType refId fee nowIso db =
     (let db1 = db\<lparr>db_uuids := Suc (db_uuids db)\<rparr> in
      if list_ex (\<lambda>r. nf_referenceType r = refType \<and> nf_referenceId r = refId) (db_feeReceipts db) then db1
      else db1\<lparr>db_feeReceipts := db_feeReceipts db @
        [\<lparr>nf_feeReceiptId = newUuid cfg db, nf_referenceType = refType, nf_referenceId = refId,
          nf_txHash = fee_txHash fee, nf_feeSun = fee_feeSun fee, nf_energyUsed = fee_energyUsed fee,
          nf_bandwidthUsed = fee_bandwidthUsed fee, nf_confirmedAt = nowIso, nf_createdAt = nowIso\<rparr>]\<rparr>)"

definition post_fee :: "ledger_cfg \<Rightarrow> string \<Rightarrow> withdrawal \<Rightarrow> network_fee option \<Rightarrow> string \<Rightarrow> pg_db \<Rightarrow> pg_db" where
  "post_fee cfg withdrawalId w networkFee nowIso db =
     (case networkFee of
        None \<Rightarrow> db
      | Some fee \<Rightarrow>
          if truthy (wd_txHash w)
          then pg_appendJournal cfg (fee_journal withdrawalId (the (wd_txHash w)) (fee_feeSun fee)) nowIso
                 (pg_persistNetworkFeeReceipt cfg FR_withdrawal withdrawalId fee nowIso db)
          else db)"

text \<open>\<open>update transactions set ... where tx_id = ...\<close>.\<close>

definition update_transaction :: "string \<Rightarrow> (ledger_transaction \<Rightarrow> ledger_transaction) \<Rightarrow> pg_db \<Rightarrow> pg_db" where
  "update_transaction txId f db =
     (case map_get (db_transactions db) txId of
        None \<Rightarrow> db
      | Some tx \<Rightarrow> db\<lparr>db_transactions := map_set txId (f tx) (db_transactions db)\<rparr>)"

definition pg_confirmWithdrawal :: "ledger_cfg \<Rightarrow> string \<Rightarrow> network_fee option \<Rightarrow> string \<Rightarrow> (pg_db, withdrawal) act" where
  "pg_confirmWithdrawal cfg withdrawalId networkFee nowIso = withTransaction (\<lambda>db.
     case pg_getWithdrawalForUpdate withdrawalId db of
       Inl e \<Rightarrow> (Inl e, db)
     | Inr w \<Rightarrow>
         if wd_status w \<noteq> TX_BROADCASTED
         then (Inl (DomainError 409 ''INVALID_STATE'' ''withdrawal must be tx broadcasted''), db)
         else case pg_getAccountForUpdate (wd_userId w) db of
           Inl e \<Rightarrow> (Inl e, db)
         | Inr account \<Rightarrow>
             if lockedBalance (wd_userId w) account db < wd_amount w
             then (Inl (DomainError 500 ''STATE_CORRUPTED'' ''locked balance underflow''), db)
             else
               let db1 = update_transaction (wd_ledgerTxId w)
                           (\<lambda>tx. tx\<lparr>tx_status := TS_confirmed, tx_blockTx := wd_txHash w\<rparr>) db;
                   db2 = write_row withdrawalId (w\<lparr>wd_status := COMPLETED, wd_confirmedAt := Some nowIso\<rparr>) db1;
                   db3 = pg_appendJournal cfg (settle_journal withdrawalId w) nowIso db2;
                   db4 = post_fee cfg withdrawalId w networkFee nowIso db3;
                   db5 = pg_syncUserAccountProjection [wd_userId w] nowIso db4
               in pg_publishWithdrawal cfg withdrawalId nowIso id db5)"

definition release_journal :: "string \<Rightarrow> withdrawal \<Rightarrow> string \<Rightarrow> journal_input" where
  "release_journal withdrawalId w reason =
     \<lparr>ji_journalType = ''withdraw_released'', ji_referenceType = ''withdrawal'', ji_referenceId = withdrawalId,
      ji_currencyCode = None, ji_description = Some reason,
      ji_postings = [debit (withdrawPendingCode (wd_userId w)) AY_liability (wd_amount w),
                     credit (availableCode (wd_userId w)) AY_liability (wd_amount w)]\<rparr>"

definition pg_failWithdrawal :: "ledger_cfg \<Rightarrow> string \<Rightarrow> string \<Rightarrow> string \<Rightarrow> (pg_db, withdrawal) act" where
  "pg_failWithdrawal cfg withdrawalId reason nowIso = withTransaction (\<lambda>db.
     case pg_getWithdrawalForUpdate withdrawalId db of
       Inl e \<Rightarrow> (Inl e, db)
     | Inr w \<Rightarrow>
         if wd_status w \<notin> {LEDGER_RESERVED, PENDING_ADMIN, ADMIN_APPROVED, TX_BROADCASTED}
         then (Inl (DomainError 409 ''INVALID_STATE'' ''withdrawal cannot be failed in current state''), db)
         else case pg_getAccountForUpdate (wd_userId w) db of
           Inl e \<Rightarrow> (Inl e, db)
         | Inr account \<Rightarrow>
             if lockedBalance (wd_userId w) account db < wd_amount w
             then (Inl (DomainError 500 ''STATE_CORRUPTED'' ''locked balance underflow''), db)
             else
               let db1 = update_transaction (wd_ledgerTxId w) (\<lambda>tx. tx\<lparr>tx_status := TS_failed\<rparr>) db;
                   db2 = write_row withdrawalId
                           (w\<lparr>wd_status := FAILED, wd_failedAt := Some nowIso, wd_failReason := Some reason\<rparr>) db1;
                   db3 = pg_appendJournal cfg (release_journal withdrawalId w reason) nowIso db2;
                   db4 = pg_syncUserAccountProjection [wd_userId w] nowIso db3
               in pg_publishWithdrawal cfg withdrawalId nowIso id db4)"

section \<open>Queries\<close>

definition pg_getWithdrawal :: "string \<Rightarrow> pg_db \<Rightarrow> withdrawal option" where
  "pg_getWithdrawal withdrawalId db = map_option (pg_hydrateWithdrawal db) (map_get (db_withdrawals db) withdrawalId)"

definition pg_listWithdrawalsByUser :: "string \<Rightarrow> nat \<Rightarrow> pg_db \<Rightarrow> withdrawal list" where
  "pg_listWithdrawalsByUser userId limit db =
     map (pg_hydrateWithdrawal db) (take limit (sort_desc wd_createdAt
       (filter (\<lambda>w. wd_userId w = userId) (map_values (db_withdrawals db)))))"

definition pg_listWithdrawalsByStatuses :: "withdrawal_status list \<Rightarrow> pg_db \<Rightarrow> withdrawal list" where
  "pg_listWithdrawalsByStatuses statuses db =
     (if statuses = [] then []
      else map (pg_hydrateWithdrawal db) (sort_asc wd_createdAt
             (filter (\<lambda>w. wd_status w \<in> set statuses) (map_values (db_withdrawals db)))))"

definition pg_listPendingApprovalWithdrawals :: "pg_db \<Rightarrow> withdrawal list" where
  "pg_listPendingApprovalWithdrawals db =
     filter (\<lambda>w. wd_approvalCount w < wd_requiredApprovals w)
       (map (pg_hydrateWithdrawal db) (sort_asc wd_createdAt
         (filter (\<lambda>w. wd_status w = PENDING_ADMIN) (map_values (db_withdrawals db)))))"

definition pg_listWithdrawalApprovals :: "string \<Rightarrow> pg_db \<Rightarrow> withdrawal_approval list" where
  "pg_listWithdrawalApprovals withdrawalId db =
     sort_asc wa_createdAt (filter (\<lambda>a. wa_withdrawalId a = withdrawalId) (db_approvals db))"

text \<open>The threshold \<open>toISOString()\<close> throws on an unparsable date.\<close>

definition pg_listStuckWithdrawals :: "int \<Rightarrow> string \<Rightarrow> pg_db \<Rightarrow> js_error + withdrawal list" where
  "pg_listStuckWithdrawals timeoutSec nowIso db =
     (case date_parse nowIso of
        None \<Rightarrow> Inl (RangeError ''Invalid time value'')
      | Some now \<Rightarrow>
          Inr (map (pg_hydrateWithdrawal db) (sort_asc wd_createdAt
            (filter (\<lambda>w. wd_status w \<in> {LEDGER_RESERVED, PENDING_ADMIN, ADMIN_APPROVED, TX_BROADCASTED} \<and>
                         wd_createdAt w \<le> toISOString (now - timeoutSec * 1000))
              (map_values (db_withdrawals db))))))"

end
