(* ===== verification/PgOfflinePay.thy ===== *)
theory PgOfflinePay
  imports PgWithdrawals
begin

text \<open>
  Offline payments in \<open>PostgresLedgerRepository\<close>: collateral is locked and released, a settlement is
  finalized (the sender's collateral leaves, the receiver may be credited) or compensated, balances are
  reconciled with an external wallet, devices are recorded.
\<close>

section \<open>Inputs and results\<close>

datatype release_action = RA_release | RA_adjust

record lock_input =
  lk_userId :: string
  lk_amount :: int
  lk_deviceId :: string
  lk_assetCode :: string
  lk_referenceId :: string
  lk_policyVersion :: int

record lock_result =
  lr_lockId :: string
  lr_duplicated :: bool

record release_input =
  ri_userId :: string
  ri_amount :: int
  ri_deviceId :: string
  ri_collateralId :: string
  ri_assetCode :: string
  ri_referenceId :: string

record release_result =
  rl_releaseId :: string
  rl_duplicated :: bool

record settlement_input =
  se_settlementId :: string
  se_batchId :: string
  se_collateralId :: string
  se_proofId :: string
  se_proofFingerprint :: string
  se_userId :: string
  se_deviceId :: string
  se_receiverUserId :: "string option"
  se_receiverDeviceId :: "string option"
  se_receiverWalletSettlementRequested :: "bool option"
  se_assetCode :: string
  se_amount :: int
  se_feeAmount :: "int option"
  se_settlementStatus :: string
  se_releaseAction :: release_action
  se_conflictDetected :: bool
  se_financiallyHonored :: "bool option"
  se_newStateHash :: string
  se_previousHash :: string
  se_monotonicCounter :: int
  se_nonce :: string
  se_signature :: string

datatype ledger_outcome = LO_finalized | LO_compensated

datatype receiver_settlement_mode = RM_external_history_sync | RM_ledger_and_external_history_sync

datatype settlement_model = SM_sender_ledger_plus_receiver_history | SM_sender_ledger_plus_receiver_ledger_and_history

record settlement_result =
  sr_settlementId :: string
  sr_ledgerOutcome :: ledger_outcome
  sr_releaseAction :: release_action
  sr_duplicated :: bool
  sr_feeAmount :: int
  sr_receiverSettlementMode :: receiver_settlement_mode
  sr_settlementModel :: settlement_model
  sr_postAvailableBalance :: int
  sr_postLockedBalance :: int
  sr_postOfflinePayPendingBalance :: int

record compensation_input =
  cp_settlementId :: string
  cp_batchId :: string
  cp_collateralId :: string
  cp_proofId :: string
  cp_proofFingerprint :: string
  cp_userId :: string
  cp_deviceId :: string
  cp_assetCode :: string
  cp_amount :: int
  cp_releaseAction :: release_action
  cp_compensationReason :: string

definition release_action_name :: "release_action \<Rightarrow> string" where
  "release_action_name a = (case a of RA_release \<Rightarrow> ''RELEASE'' | RA_adjust \<Rightarrow> ''ADJUST'')"

section \<open>Fees\<close>

definition normalizeAssetCode :: "string \<Rightarrow> string" where
  "normalizeAssetCode assetCode = toUpperCase (trim assetCode)"

definition OFFLINE_PAY_SETTLEMENT_FEE_BPS_BY_ASSET :: "int jsmap" where
  "OFFLINE_PAY_SETTLEMENT_FEE_BPS_BY_ASSET = [(''KORI'', 10)]"

definition BPS_DENOMINATOR :: int where
  "BPS_DENOMINATOR = 10000"

definition getOfflinePaySettlementFeeBps :: "string \<Rightarrow> int" where
  "getOfflinePaySettlementFeeBps assetCode =
     coalesce (map_get OFFLINE_PAY_SETTLEMENT_FEE_BPS_BY_ASSET (normalizeAssetCode assetCode)) 0"

text \<open>BigInt division; its operands are positive here.\<close>

definition calculateOfflinePaySettlementFee :: "string \<Rightarrow> int \<Rightarrow> int" where
  "calculateOfflinePaySettlementFee assetCode amount =
     (let feeBps = getOfflinePaySettlementFeeBps assetCode in
      if feeBps \<le> 0 \<or> amount \<le> 0 then 0
      else (amount * feeBps + BPS_DENOMINATOR div 2) div BPS_DENOMINATOR)"

section \<open>Collateral\<close>

definition lock_journal :: "lock_input \<Rightarrow> journal_input" where
  "lock_journal inp =
     \<lparr>ji_journalType = ''offline_pay_locked'', ji_referenceType = ''offline_pay_lock'',
      ji_referenceId = lk_referenceId inp, ji_currencyCode = None,
      ji_description = Some (trim (''offline pay collateral lock '' @ lk_userId inp @ '' '' @ lk_deviceId inp)),
      ji_postings = [debit (availableCode (lk_userId inp)) AY_liability (lk_amount inp),
                     credit (offlinePayPendingCode (lk_userId inp)) AY_liability (lk_amount inp)]\<rparr>"

definition pg_lockOfflinePayCollateral :: "ledger_cfg \<Rightarrow> lock_input \<Rightarrow> string \<Rightarrow> (pg_db, lock_result) act" where
  "pg_lockOfflinePayCollateral cfg inp nowIso = withTransaction (\<lambda>db.
     case find_journal ''offline_pay_lock'' (lk_referenceId inp) db of
       Some _ \<Rightarrow> (Inr \<lparr>lr_lockId = lk_referenceId inp, lr_duplicated = True\<rparr>, db)
     | None \<Rightarrow>
         let db1 = pg_ensureAccount (lk_userId inp) nowIso db in
         case pg_getAccountForUpdate (lk_userId inp) db1 of
           Inl e \<Rightarrow> (Inl e, db1)
         | Inr account \<Rightarrow>
             if availableBalance (lk_userId inp) account db1 < lk_amount inp
             then (Inl (DomainError 400 ''INSUFFICIENT_BALANCE'' ''insufficient balance for offline pay collateral''), db1)
             else if \<not> journal_fits (lock_journal inp) then (Inl column_error, db1)
             else
               let db2 = pg_appendJournal cfg (lock_journal inp) nowIso db1;
                   db3 = pg_syncUserAccountProjection [lk_userId inp] nowIso db2;
                   db4 = pg_enqueueOutboxEvent cfg ''offline_pay.collateral.locked'' ''offline_pay_lock'' (lk_referenceId inp)
                     [(''userId'', JStr (lk_userId inp)), (''deviceId'', JStr (lk_deviceId inp)),
                      (''assetCode'', JStr (lk_assetCode inp)), (''amount'', JStr (formatKoriAmount (lk_amount inp))),
                      (''policyVersion'', JNum (lk_policyVersion inp)), (''occurredAt'', JStr nowIso)] nowIso db3
               in (Inr \<lparr>lr_lockId = lk_referenceId inp, lr_duplicated = False\<rparr>, db4))"

definition collateral_release_journal :: "release_input \<Rightarrow> journal_input" where
  "collateral_release_journal inp =
     \<lparr>ji_journalType = ''offline_pay_released'', ji_referenceType = ''offline_pay_release'',
      ji_referenceId = ri_referenceId inp, ji_currencyCode = None,
      ji_description = Some (trim (''offline pay collateral release '' @ ri_collateralId inp)),
      ji_postings = [debit (offlinePayPendingCode (ri_userId inp)) AY_liability (ri_amount inp),
                     credit (availableCode (ri_userId inp)) AY_liability (ri_amount inp)]\<rparr>"

definition pg_releaseOfflinePayCollateral :: "ledger_cfg \<Rightarrow> release_input \<Rightarrow> string \<Rightarrow> (pg_db, release_result) act" where
  "pg_releaseOfflinePayCollateral cfg inp nowIso = withTransaction (\<lambda>db.
     case find_journal ''offline_pay_release'' (ri_referenceId inp) db of
       Some _ \<Rightarrow> (Inr \<lparr>rl_releaseId = ri_referenceId inp, rl_duplicated = True\<rparr>, db)
     | None \<Rightarrow>
         let db1 = pg_ensureAccount (ri_userId inp) nowIso db in
         if pg_getProjectedLedgerAccountBalance (offlinePayPendingCode (ri_userId inp)) db1 < ri_amount inp
         then (Inl (DomainError 409 ''INSUFFICIENT_OFFLINE_PAY_PENDING'' ''offline pay pending balance underflow''), db1)
         else if \<not> journal_fits (collateral_release_journal inp) then (Inl column_error, db1)
         else
           let db2 = pg_appendJournal cfg (collateral_release_journal inp) nowIso db1;
               db3 = pg_syncUserAccountProjection [ri_userId inp] nowIso db2;
               db4 = pg_enqueueOutboxEvent cfg ''offline_pay.collateral.released'' ''offline_pay_release'' (ri_referenceId inp)
                 [(''userId'', JStr (ri_userId inp)), (''deviceId'', JStr (ri_deviceId inp)),
                  (''collateralId'', JStr (ri_collateralId inp)), (''assetCode'', JStr (ri_assetCode inp)),
                  (''amount'', JStr (formatKoriAmount (ri_amount inp))), (''occurredAt'', JStr nowIso)] nowIso db3
           in (Inr \<lparr>rl_releaseId = ri_referenceId inp, rl_duplicated = False\<rparr>, db4))"

section \<open>Devices and receivers\<close>

record device_input =
  dv_userId :: string
  dv_deviceId :: string
  dv_status :: device_status
  dv_keyVersion :: "int option"
  dv_lastSeenAt :: "string option"

definition pg_upsertOfflinePayDevice :: "device_input \<Rightarrow> string \<Rightarrow> pg_db \<Rightarrow> pg_db" where
  "pg_upsertOfflinePayDevice inp nowIso db =
     (let row = \<lparr>od_deviceId = dv_deviceId inp, od_userId = dv_userId inp, od_status = dv_status inp,
                 od_keyVersion = dv_keyVersion inp, od_lastSeenAt = coalesce (dv_lastSeenAt inp) nowIso,
                 od_syncedAt = nowIso,
                 od_createdAt = (case map_get (db_devices db) (dv_deviceId inp) of
                                   None \<Rightarrow> nowIso | Some d \<Rightarrow> od_createdAt d),
                 od_updatedAt = nowIso\<rparr>
      in db\<lparr>db_devices := map_set (dv_deviceId inp) row (db_devices db)\<rparr>)"

definition findOfflinePayReceiverUserId :: "string \<Rightarrow> string option \<Rightarrow> pg_db \<Rightarrow> string option" where
  "findOfflinePayReceiverUserId senderUserId receiverDeviceId db =
     (let normalizedDeviceId = map_option trim receiverDeviceId in
      if \<not> truthy normalizedDeviceId then None
      else case map_get (db_devices db) (the normalizedDeviceId) of
        None \<Rightarrow> None
      | Some row \<Rightarrow>
          if od_status row \<noteq> DV_active \<or> \<not> truthy_str (od_userId row) \<or> od_userId row = senderUserId then None
          else Some (od_userId row))"

definition resolveOfflinePayReceiverUserId :: "string \<Rightarrow> string option \<Rightarrow> string option \<Rightarrow> pg_db \<Rightarrow> string option" where
  "resolveOfflinePayReceiverUserId senderUserId receiverUserId receiverDeviceId db =
     (let normalized = map_option trim receiverUserId in
      if \<not> truthy normalized \<or> normalized = Some senderUserId
      then findOfflinePayReceiverUserId senderUserId receiverDeviceId db
      else normalized)"

section \<open>Settlement\<close>

definition receiver_journal :: "settlement_input \<Rightarrow> string \<Rightarrow> int \<Rightarrow> journal_input" where
  "receiver_journal inp receiverUserId amount =
     \<lparr>ji_journalType = ''offline_pay_receiver_settled'', ji_referenceType = ''offline_pay_receiver_settlement'',
      ji_referenceId = se_settlementId inp, ji_currencyCode = None,
      ji_description = Some (trim (''RECEIVER SETTLED '' @ se_settlementStatus inp)),
      ji_postings = [debit ''system:asset:offline_pay_clearing'' AY_asset amount,
                     credit (availableCode receiverUserId) AY_liability amount]\<rparr>"

definition appendOfflinePayReceiverSettlementIfNeeded :: "ledger_cfg \<Rightarrow> settlement_input \<Rightarrow> string option
    \<Rightarrow> string \<Rightarrow> int \<Rightarrow> pg_db \<Rightarrow> pg_db" where
  "appendOfflinePayReceiverSettlementIfNeeded cfg inp receiverUserId nowIso receiverCreditAmount db =
     (if \<not> truthy receiverUserId \<or>
         (se_settlementStatus inp \<noteq> ''SETTLED'' \<and> se_financiallyHonored inp \<noteq> Some True) \<or>
         se_releaseAction inp \<noteq> RA_release \<or> se_conflictDetected inp
      then db
      else case find_journal ''offline_pay_receiver_settlement'' (se_settlementId inp) db of
        Some _ \<Rightarrow> db
      | None \<Rightarrow> pg_appendJournal cfg (receiver_journal inp (the receiverUserId) receiverCreditAmount) nowIso db)"

definition settlement_postings :: "settlement_input \<Rightarrow> int \<Rightarrow> int \<Rightarrow> ledger_posting_input list" where
  "settlement_postings inp feeAmount receiverCreditAmount =
     (if se_releaseAction inp = RA_release
      then [debit (offlinePayPendingCode (se_userId inp)) AY_liability (se_amount inp),
            credit ''system:asset:offline_pay_clearing'' AY_asset receiverCreditAmount] @
           (if 0 < feeAmount then [credit ''system:revenue:offline_pay_fee'' AY_revenue feeAmount] else [])
      else [debit (offlinePayPendingCode (se_userId inp)) AY_liability (se_amount inp),
            credit (availableCode (se_userId inp)) AY_liability (se_amount inp)])"

definition settlement_journal :: "settlement_input \<Rightarrow> int \<Rightarrow> int \<Rightarrow> journal_input" where
  "settlement_journal inp feeAmount receiverCreditAmount =
     \<lparr>ji_journalType = (if se_releaseAction inp = RA_release then ''offline_pay_settled'' else ''offline_pay_released''),
      ji_referenceType = ''offline_pay_settlement'', ji_referenceId = se_settlementId inp, ji_currencyCode = None,
      ji_description = Some (trim (release_action_name (se_releaseAction inp) @ '' '' @ se_settlementStatus inp)),
      ji_postings = settlement_postings inp feeAmount receiverCreditAmount\<rparr>"

definition settlement_payload :: "settlement_input \<Rightarrow> int \<Rightarrow> string \<Rightarrow> (string \<times> jsval) list" where
  "settlement_payload inp feeAmount nowIso =
     [(''settlementId'', JStr (se_settlementId inp)), (''batchId'', JStr (se_batchId inp)),
      (''collateralId'', JStr (se_collateralId inp)), (''proofId'', JStr (se_proofId inp)),
      (''proofFingerprint'', JStr (se_proofFingerprint inp)), (''newStateHash'', JStr (se_newStateHash inp)),
      (''previousHash'', JStr (se_previousHash inp)), (''monotonicCounter'', JNum (se_monotonicCounter inp)),
      (''nonce'', JStr (se_nonce inp)), (''signature'', JStr (se_signature inp))] @
     (case se_receiverUserId inp of None \<Rightarrow> [] | Some u \<Rightarrow> [(''receiverUserId'', JStr u)]) @
     (case se_receiverDeviceId inp of None \<Rightarrow> [] | Some d \<Rightarrow> [(''receiverDeviceId'', JStr d)]) @
     [(''receiverWalletSettlementRequested'', JBool (se_receiverWalletSettlementRequested inp = Some True)),
      (''userId'', JStr (se_userId inp)), (''deviceId'', JStr (se_deviceId inp)),
      (''assetCode'', JStr (se_assetCode inp)), (''amount'', JStr (formatKoriAmount (se_amount inp))),
      (''feeAmount'', JStr (formatKoriAmount feeAmount)), (''settlementStatus'', JStr (se_settlementStatus inp)),
      (''releaseAction'', JStr (release_action_name (se_releaseAction inp))),
      (''conflictDetected'', JBool (se_conflictDetected inp)),
      (''financiallyHonored'', JBool (se_financiallyHonored inp = Some True)), (''occurredAt'', JStr nowIso)]"

definition settlement_outcome :: "ledger_outcome \<Rightarrow> string \<Rightarrow> string \<Rightarrow> release_action \<Rightarrow> bool \<Rightarrow> int \<Rightarrow> bool
    \<Rightarrow> pg_db \<Rightarrow> settlement_result" where
  "settlement_outcome outcome settlementId userId action duplicated feeAmount receiverInLedger db =
     (let projected = pg_getProjectedUserBalances userId db in
      \<lparr>sr_settlementId = settlementId, sr_ledgerOutcome = outcome, sr_releaseAction = action,
       sr_duplicated = duplicated, sr_feeAmount = feeAmount,
       sr_receiverSettlementMode = (if receiverInLedger then RM_ledger_and_external_history_sync else RM_external_history_sync),
       sr_settlementModel = (if receiverInLedger then SM_sender_ledger_plus_receiver_ledger_and_history
                             else SM_sender_ledger_plus_receiver_history),
       sr_postAvailableBalance = pb_balance projected, sr_postLockedBalance = pb_lockedBalance projected,
       sr_postOfflinePayPendingBalance = pg_getProjectedLedgerAccountBalance (offlinePayPendingCode userId) db\<rparr>)"

definition pg_finalizeOfflinePaySettlement :: "ledger_cfg \<Rightarrow> settlement_input \<Rightarrow> string
    \<Rightarrow> (pg_db, settlement_result) act" where
  "pg_finalizeOfflinePaySettlement cfg inp nowIso = withTransaction (\<lambda>db.
     let receiverUserId = resolveOfflinePayReceiverUserId (se_userId inp) (se_receiverUserId inp)
           (se_receiverDeviceId inp) db;
         requested = (se_receiverWalletSettlementRequested inp = Some True);
         receiverInLedger = (truthy receiverUserId \<and> requested);
         affectedUserIds = (if receiverInLedger then [se_userId inp, the receiverUserId] else [se_userId inp]);
         existing = find_journal ''offline_pay_settlement'' (se_settlementId inp) db;
         db1 = pg_ensureAccount (se_userId inp) nowIso db;
         db2 = (if receiverInLedger then pg_ensureAccount (the receiverUserId) nowIso db1 else db1);
         expectedFeeAmount = calculateOfflinePaySettlementFee (se_assetCode inp) (se_amount inp);
         feeAmount = (if se_releaseAction inp = RA_release then expectedFeeAmount else 0);
         receiverCreditAmount = (if feeAmount < se_amount inp then se_amount inp - feeAmount else 0)
     in case existing of
       Some _ \<Rightarrow>
         let db3 = (if requested
                    then appendOfflinePayReceiverSettlementIfNeeded cfg inp receiverUserId nowIso receiverCreditAmount db2
                    else db2);
             db4 = pg_syncUserAccountProjection affectedUserIds nowIso db3
         in (Inr (settlement_outcome LO_finalized (se_settlementId inp) (se_userId inp) (se_releaseAction inp) True
                    (coalesce (se_feeAmount inp) 0) receiverInLedger db4), db4)
     | None \<Rightarrow>
         if coalesce (se_feeAmount inp) 0 < 0
         then (Inl (DomainError 400 ''INVALID_OFFLINE_PAY_FEE'' ''offline pay settlement fee must be non-negative''), db2)
         else if se_releaseAction inp = RA_release \<and> se_feeAmount inp \<noteq> None \<and> se_feeAmount inp \<noteq> Some expectedFeeAmount
         then (Inl (DomainError 409 ''OFFLINE_PAY_FEE_MISMATCH'' ''offline pay settlement fee mismatch''), db2)
         else if pg_getProjectedLedgerAccountBalance (offlinePayPendingCode (se_userId inp)) db2 < se_amount inp
         then (Inl (DomainError 409 ''INSUFFICIENT_OFFLINE_PAY_PENDING'' ''offline pay pending balance underflow''), db2)
         else if \<not> journal_fits (settlement_journal inp feeAmount receiverCreditAmount) then (Inl column_error, db2)
         else
           let db3 = pg_appendJournal cfg (settlement_journal inp feeAmount receiverCreditAmount) nowIso db2;
               db4 = (if requested
                      then appendOfflinePayReceiverSettlementIfNeeded cfg inp receiverUserId nowIso receiverCreditAmount db3
                      else db3);
               db5 = pg_syncUserAccountProjection affectedUserIds nowIso db4;
               db6 = pg_enqueueOutboxEvent cfg ''offline_pay.settlement.finalized'' ''offline_pay_settlement''
                       (se_settlementId inp) (settlement_payload inp feeAmount nowIso) nowIso db5
           in (Inr (settlement_outcome LO_finalized (se_settlementId inp) (se_userId inp) (se_releaseAction inp) False
                      feeAmount receiverInLedger db5), db6))"

definition compensation_journal :: "compensation_input \<Rightarrow> journal_input" where
  "compensation_journal inp =
     \<lparr>ji_journalType = (if cp_releaseAction inp = RA_release then ''offline_pay_settlement_compensated''
                        else ''offline_pay_adjustment_compensated''),
      ji_referenceType = ''offline_pay_settlement_compensation'', ji_referenceId = cp_settlementId inp,
      ji_currencyCode = None, ji_description = Some (trim (''COMPENSATE '' @ cp_compensationReason inp)),
      ji_postings =
        (if cp_releaseAction inp = RA_release
         then [debit ''system:asset:offline_pay_clearing'' AY_asset (cp_amount inp),
               credit (offlinePayPendingCode (cp_userId inp)) AY_liability (cp_amount inp)]
         else [debit (availableCode (cp_userId inp)) AY_liability (cp_amount inp),
               credit (offlinePayPendingCode (cp_userId inp)) AY_liability (cp_amount inp)])\<rparr>"

definition pg_compensateOfflinePaySettlement :: "ledger_cfg \<Rightarrow> compensation_input \<Rightarrow> string
    \<Rightarrow> (pg_db, settlement_result) act" where
  "pg_compensateOfflinePaySettlement cfg inp nowIso = withTransaction (\<lambda>db.
     case find_journal ''offline_pay_settlement_compensation'' (cp_settlementId inp) db of
       Some _ \<Rightarrow> (Inr (settlement_outcome LO_compensated (cp_settlementId inp) (cp_userId inp) (cp_releaseAction inp)
                    True 0 False db), db)
     | None \<Rightarrow>
         if \<not> journal_fits (compensation_journal inp) then (Inl column_error, db)
         else
         let db1 = pg_ensureAccount (cp_userId inp) nowIso db;
             db2 = pg_appendJournal cfg (compensation_journal inp) nowIso db1;
             db3 = pg_syncUserAccountProjection [cp_userId inp] nowIso db2;
             db4 = pg_enqueueOutboxEvent cfg ''offline_pay.settlement.compensated'' ''offline_pay_settlement''
               (cp_settlementId inp)
               [(''settlementId'', JStr (cp_settlementId inp)), (''batchId'', JStr (cp_batchId inp)),
                (''collateralId'', JStr (cp_collateralId inp)), (''proofId'', JStr (cp_proofId inp)),
                (''proofFingerprint'', JStr (cp_proofFingerprint inp)), (''userId'', JStr (cp_userId inp)),
                (''deviceId'', JStr (cp_deviceId inp)), (''assetCode'', JStr (cp_assetCode inp)),
                (''amount'', JStr (formatKoriAmount (cp_amount inp))),
                (''releaseAction'', JStr (release_action_name (cp_releaseAction inp))),
                (''compensationReason'', JStr (cp_compensationReason inp)), (''occurredAt'', JStr nowIso)] nowIso db3
         in (Inr (settlement_outcome LO_compensated (cp_settlementId inp) (cp_userId inp) (cp_releaseAction inp)
                    False 0 False db3), db4))"

section \<open>Reconciliation\<close>

record balance_snapshot =
  bs_userId :: string
  bs_availableBalance :: int
  bs_lockedBalance :: int
  bs_liabilityBalance :: int
  bs_hasLedgerFootprint :: bool

definition pg_getOfflinePayUserBalanceSnapshot :: "string \<Rightarrow> pg_db \<Rightarrow> balance_snapshot" where
  "pg_getOfflinePayUserBalanceSnapshot userId db =
     (let projected = pg_getProjectedUserBalances userId db in
      \<lparr>bs_userId = userId, bs_availableBalance = pb_balance projected, bs_lockedBalance = pb_lockedBalance projected,
       bs_liabilityBalance = pb_balance projected + pb_lockedBalance projected,
       bs_hasLedgerFootprint = pb_hasPostings projected\<rparr>)"

definition pg_getOfflinePayPendingBalance :: "string \<Rightarrow> pg_db \<Rightarrow> int" where
  "pg_getOfflinePayPendingBalance userId db = pg_getProjectedLedgerAccountBalance (offlinePayPendingCode userId) db"

record reconcile_outcome =
  ro_userId :: string
  ro_previousBalance :: int
  ro_targetBalance :: int
  ro_deltaAmount :: int
  ro_adjusted :: bool

text \<open>The two postings of a reconciliation, for an account and a nonzero difference.\<close>

definition reconcile_postings :: "string \<Rightarrow> int \<Rightarrow> ledger_posting_input list" where
  "reconcile_postings code deltaAmount =
     (if 0 < deltaAmount
      then [debit ''system:asset:offline_pay_reconciliation'' AY_asset \<bar>deltaAmount\<bar>,
            credit code AY_liability \<bar>deltaAmount\<bar>]
      else [debit code AY_liability \<bar>deltaAmount\<bar>,
            credit ''system:asset:offline_pay_reconciliation'' AY_asset \<bar>deltaAmount\<bar>])"

definition user_reconcile_journal :: "string \<Rightarrow> string \<Rightarrow> int \<Rightarrow> journal_input" where
  "user_reconcile_journal userId nowIso deltaAmount =
     \<lparr>ji_journalType = ''offline_pay_wallet_reconciled'', ji_referenceType = ''offline_pay_reconciliation'',
      ji_referenceId = userId @ '':'' @ nowIso, ji_currencyCode = None,
      ji_description = Some (trim (''offline pay wallet reconciliation '' @ userId)),
      ji_postings = reconcile_postings (availableCode userId) deltaAmount\<rparr>"

definition pending_reconcile_journal :: "string \<Rightarrow> string \<Rightarrow> string \<Rightarrow> int \<Rightarrow> journal_input" where
  "pending_reconcile_journal userId canonicalBasis nowIso deltaAmount =
     \<lparr>ji_journalType = ''offline_pay_pending_reconciled'', ji_referenceType = ''offline_pay_pending_reconciliation'',
      ji_referenceId = userId @ '':'' @ nowIso, ji_currencyCode = None,
      ji_description = Some (trim (''offline pay pending reconciliation '' @ userId @ '' '' @ canonicalBasis)),
      ji_postings = reconcile_postings (offlinePayPendingCode userId) deltaAmount\<rparr>"

definition pg_reconcileOfflinePayUserBalance :: "ledger_cfg \<Rightarrow> string \<Rightarrow> int \<Rightarrow> string \<Rightarrow> (pg_db, reconcile_outcome) act" where
  "pg_reconcileOfflinePayUserBalance cfg userId targetLiabilityBalance nowIso = withTransaction (\<lambda>db.
     let db1 = pg_ensureAccount userId nowIso db in
     case pg_getAccountForUpdate userId db1 of
       Inl e \<Rightarrow> (Inl e, db1)
     | Inr _ \<Rightarrow>
         let projected = pg_getProjectedUserBalances userId db1;
             previousLiabilityBalance = pb_balance projected + pb_lockedBalance projected;
             deltaAmount = targetLiabilityBalance - previousLiabilityBalance;
             result = (\<lambda>adjusted. \<lparr>ro_userId = userId, ro_previousBalance = previousLiabilityBalance,
               ro_targetBalance = targetLiabilityBalance, ro_deltaAmount = deltaAmount, ro_adjusted = adjusted\<rparr>)
         in if deltaAmount = 0 then (Inr (result False), db1)
            else if 0 < deltaAmount \<and> pg_hasOfflinePayLedgerFootprint userId db1 then (Inr (result False), db1)
            else if \<not> journal_fits (user_reconcile_journal userId nowIso deltaAmount) then (Inl column_error, db1)
            else (Inr (result True),
              pg_syncUserAccountProjection [userId] nowIso
                (pg_appendJournal cfg (user_reconcile_journal userId nowIso deltaAmount) nowIso db1)))"

definition pg_reconcileOfflinePayPendingBalance :: "ledger_cfg \<Rightarrow> string \<Rightarrow> int \<Rightarrow> string \<Rightarrow> string
    \<Rightarrow> (pg_db, reconcile_outcome) act" where
  "pg_reconcileOfflinePayPendingBalance cfg userId targetPendingBalance canonicalBasis nowIso = withTransaction (\<lambda>db.
     let db1 = pg_ensureAccount userId nowIso db in
     case pg_getAccountForUpdate userId db1 of
       Inl e \<Rightarrow> (Inl e, db1)
     | Inr _ \<Rightarrow>
         let pendingAccountCode = offlinePayPendingCode userId;
             previousPendingBalance = pg_getProjectedLedgerAccountBalance pendingAccountCode db1;
             deltaAmount = targetPendingBalance - previousPendingBalance;
             result = \<lparr>ro_userId = userId, ro_previousBalance = previousPendingBalance,
               ro_targetBalance = targetPendingBalance, ro_deltaAmount = deltaAmount, ro_adjusted = (deltaAmount \<noteq> 0)\<rparr>
         in if deltaAmount = 0 then (Inr result, db1)
            else if \<not> journal_fits (pending_reconcile_journal userId canonicalBasis nowIso deltaAmount)
            then (Inl column_error, db1)
            else (Inr result,
              pg_syncUserAccountProjection [userId] nowIso
                (pg_appendJournal cfg (pending_reconcile_journal userId canonicalBasis nowIso deltaAmount) nowIso db1)))"

text \<open>\<open>select distinct split_part(ledger_account_code, ':', 2) ... order by user_id limit\<close>: the part
  between the first two colons of the codes of user accounts.\<close>

definition split_part2 :: "string \<Rightarrow> string" where
  "split_part2 code = takeWhile (\<lambda>c. c \<noteq> CHR '':'') (tl (dropWhile (\<lambda>c. c \<noteq> CHR '':'') code))"

definition pg_listOfflinePayReconciliationUserIds :: "nat \<Rightarrow> pg_db \<Rightarrow> string list" where
  "pg_listOfflinePayReconciliationUserIds limit db =
     filter truthy_str (take limit (sort (remdups (map (\<lambda>la. split_part2 (la_code la))
       (filter (\<lambda>la. sql_like ''user:%:available'' (la_code la) \<or>
                     sql_like ''user:%:offline_pay_pending'' (la_code la) \<or>
                     sql_like ''user:%:withdraw_pending'' (la_code la)) (map_values (db_ledgerAccounts db)))))))"

definition pg_getLedgerSummary :: "pg_db \<Rightarrow> ledger_summary" where
  "pg_getLedgerSummary db =
     (let projected = pg_getProjectedLedgerSummary db;
          availableBalance = (if pu_hasPostings projected then pu_availableBalance projected
                              else sum_vals ar_balance (db_accounts db));
          lockedBalance = (if pu_hasPostings projected then pu_lockedBalance projected
                           else sum_vals ar_lockedBalance (db_accounts db))
      in \<lparr>ls_accountCount = length (db_accounts db), ls_availableBalance = availableBalance,
          ls_lockedBalance = lockedBalance, ls_liabilityBalance = availableBalance + lockedBalance,
          ls_confirmedDepositCount = length (filter (\<lambda>d. dep_status d \<in> {DS_CREDITED, DS_COMPLETED}) (map_values (db_deposits db))),
          ls_activeWithdrawalCount = length (filter (\<lambda>w. wd_status w \<in> set ACTIVE_WITHDRAWAL_STATUSES)
            (map_values (db_withdrawals db)))\<rparr>)"

definition pg_rebuildAccountProjections :: "string \<Rightarrow> pg_db \<Rightarrow> nat \<times> pg_db" where
  "pg_rebuildAccountProjections nowIso db =
     (length (db_accounts db), fold (\<lambda>u. pg_syncUserAccountProjection [u] nowIso) (map fst (db_accounts db)) db)"

end
