(* ===== verification/PgInvariant.thy ===== *)
theory PgInvariant
  imports PgOfflinePay LedgerInvariant
begin

text \<open>
  What every operation of \<open>PostgresLedgerRepository\<close> keeps: journals balance, the accounts table shows
  the balances of the postings, the pending account of a user holds the active withdrawals.  Each part
  of the invariant comes with its law for journals, projections, account rows and other writes, and the
  operations are run through these laws.
\<close>

section \<open>Journals balance\<close>

definition journal_total :: "string \<Rightarrow> posting list \<Rightarrow> int" where
  "journal_total journalId ps = sum_list (map signed_amount (filter (\<lambda>p. po_journalId p = journalId) ps))"

text \<open>An id that has been drawn.\<close>

definition drawn :: "ledger_cfg \<Rightarrow> nat \<Rightarrow> string \<Rightarrow> bool" where
  "drawn cfg n i = (\<exists>k<n. i = uuid cfg k)"

lemma drawn_mono: "drawn cfg n i \<Longrightarrow> n \<le> m \<Longrightarrow> drawn cfg m i"
  unfolding drawn_def using less_le_trans by blast

lemma not_drawn: "uuid_ok cfg \<Longrightarrow> n \<le> m \<Longrightarrow> \<not> drawn cfg n (uuid cfg m)"
  by (auto simp: drawn_def uuid_ok_def dest: injD)

lemma drawn_uuid: "k < n \<Longrightarrow> drawn cfg n (uuid cfg k)"
  by (auto simp: drawn_def)

text \<open>The codes in use: the three accounts of a user and the accounts of the system.\<close>

definition code_ok :: "string \<Rightarrow> bool" where
  "code_ok c = ((\<exists>u. c \<in> {availableCode u, withdrawPendingCode u, offlinePayPendingCode u}) \<or> startsWith c ''system:'')"

lemma code_ok_simps [simp]:
  "code_ok (availableCode u)" "code_ok (withdrawPendingCode u)" "code_ok (offlinePayPendingCode u)"
  "code_ok (CHR ''s'' # CHR ''y'' # CHR ''s'' # CHR ''t'' # CHR ''e'' # CHR ''m'' # CHR '':'' # xs)"
  by (auto simp: code_ok_def startsWith_def)

definition books_balance :: "ledger_cfg \<Rightarrow> pg_db \<Rightarrow> bool" where
  "books_balance cfg db =
     ((\<forall>j \<in> set (db_journals db). journal_total (jn_journalId j) (db_postings db) = 0) \<and>
      (\<forall>j \<in> set (db_journals db). drawn cfg (db_uuids db) (jn_journalId j)) \<and>
      distinct (map jn_journalId (db_journals db)) \<and>
      po_journalId ` set (db_postings db) \<subseteq> jn_journalId ` set (db_journals db) \<and>
      po_code ` set (db_postings db) \<subseteq> map_keys (db_ledgerAccounts db) \<and>
      (\<forall>p \<in> set (db_postings db). code_ok (po_code p)))"

definition balanced :: "ledger_posting_input list \<Rightarrow> bool" where
  "balanced ps = (sum_list (map signed_input ps) = 0 \<and> (\<forall>p \<in> set ps. code_ok (lp_code p)))"

lemma journal_total_append [simp]:
  "journal_total j (ps @ qs) = journal_total j ps + journal_total j qs"
  by (simp add: journal_total_def)

lemma journal_total_rows: "journal_total j (posting_rows cfg j now n ps) = sum_list (map signed_input ps)"
  by (induction ps arbitrary: n)
    (auto simp: journal_total_def signed_amount_def signed_input_def split: entry_side.splits)

lemma journal_total_other: "j \<noteq> i \<Longrightarrow> journal_total j (posting_rows cfg i now n ps) = 0"
  by (simp add: journal_total_def filter_empty_conv)

lemma journal_total_absent: "j \<notin> po_journalId ` set ps \<Longrightarrow> journal_total j ps = 0"
  by (induction ps) (auto simp: journal_total_def)

lemma books_balance_journal:
  assumes "books_balance cfg db" and "uuid_ok cfg" and "balanced (ji_postings inp)"
  shows "books_balance cfg (pg_appendJournal cfg inp now db)"
proof -
  have fresh: "newUuid cfg db \<noteq> jn_journalId j" if "j \<in> set (db_journals db)" for j
    using assms(1,2) that not_drawn [of cfg "db_uuids db" "db_uuids db"]
    by (auto simp: books_balance_def newUuid_def)
  then have "newUuid cfg db \<notin> jn_journalId ` set (db_journals db)" by blast
  then have none: "journal_total (newUuid cfg db) (db_postings db) = 0"
    using assms(1) unfolding books_balance_def by (intro journal_total_absent) blast
  have rows: "po_journalId ` set (posting_rows cfg (newUuid cfg db) now n ps) \<subseteq> {newUuid cfg db}" for n ps
    by auto
  have other: "journal_total (jn_journalId j) (posting_rows cfg (newUuid cfg db) now n ps) = 0"
    if "j \<in> set (db_journals db)" for j n ps
    using fresh [OF that] by (intro journal_total_other) auto
  have d: "drawn cfg (Suc (db_uuids db + k)) (newUuid cfg db)" for k
    by (simp add: newUuid_def drawn_uuid)
  have m: "drawn cfg (db_uuids db) i \<Longrightarrow> drawn cfg (Suc (db_uuids db + k)) i" for i k
    by (erule drawn_mono) simp
  have codes: "code_ok (po_code p)" if "p \<in> set (posting_rows cfg (newUuid cfg db) now n (ji_postings inp))" for p n
    using that assms(3) rows_codes [of cfg "newUuid cfg db" now n "ji_postings inp"] unfolding balanced_def by force
  show ?thesis
    using assms(1,3) fresh none rows [of "Suc (db_uuids db)" "ji_postings inp"] d m codes
    unfolding books_balance_def
    by (auto simp: journal_total_rows other balanced_def simp flip: rows_codes [of cfg "newUuid cfg db" now "Suc (db_uuids db)"])
qed

text \<open>Writes to other tables, and taking ids, keep the books.\<close>

lemma books_balance_cong:
  assumes "books_balance cfg db" and "db_journals db' = db_journals db" and "db_postings db' = db_postings db"
    and "db_ledgerAccounts db' = db_ledgerAccounts db" and "db_uuids db \<le> db_uuids db'"
  shows "books_balance cfg db'"
  using assms drawn_mono [OF _ assms(5)] unfolding books_balance_def by simp

section \<open>The accounts table shows the postings\<close>

definition shown :: "pg_db \<Rightarrow> string \<Rightarrow> bool" where
  "shown db u =
     (case map_get (db_accounts db) u of
        None \<Rightarrow> \<not> list_ex (touches u) (db_postings db)
      | Some row \<Rightarrow> ar_balance row = net (availableCode u) (db_postings db) \<and>
                    ar_lockedBalance row = locked_net u (db_postings db))"

definition has_account :: "pg_db \<Rightarrow> string \<Rightarrow> bool" where
  "has_account db u = (map_get (db_accounts db) u \<noteq> None)"

definition posts_on :: "string \<Rightarrow> ledger_posting_input list \<Rightarrow> bool" where
  "posts_on u ps = list_ex (\<lambda>p. lp_code p \<in> {availableCode u, withdrawPendingCode u, offlinePayPendingCode u}) ps"

lemma touches_rows [simp]: "list_ex (touches u) (posting_rows cfg j now n ps) = posts_on u ps"
  by (induction ps arbitrary: n) (auto simp: touches_def posts_on_def)

lemma not_posts_on:
  assumes "\<not> posts_on u ps"
  shows "delta (availableCode u) ps = 0" "delta (withdrawPendingCode u) ps = 0" "delta (offlinePayPendingCode u) ps = 0"
  using assms by (induction ps) (auto simp: posts_on_def)

lemma shown_ensureAccount: "shown db v \<Longrightarrow> shown (pg_ensureAccount u now db) v"
  by (auto simp: shown_def pg_ensureAccount_def untouched_net untouched_locked split: option.splits)

lemma has_account_ensure [simp]: "has_account (pg_ensureAccount u now db) v \<longleftrightarrow> v = u \<or> has_account db v"
  by (auto simp: has_account_def pg_ensureAccount_def split: option.split)

lemma shown_journal: "shown db u \<Longrightarrow> \<not> posts_on u (ji_postings inp) \<Longrightarrow> shown (pg_appendJournal cfg inp now db) u"
  by (auto simp: shown_def locked_net_def not_posts_on split: option.splits)

lemma shown_cong:
  "shown db u \<Longrightarrow> db_accounts db' = db_accounts db \<Longrightarrow> db_postings db' = db_postings db \<Longrightarrow> shown db' u"
  by (simp add: shown_def split: option.splits)

lemma get_sync_user:
  "map_get (db_accounts (sync_user now u db)) v =
     (if v = u \<and> list_ex (touches u) (db_postings db)
      then map_option (\<lambda>row. row\<lparr>ar_balance := net (availableCode u) (db_postings db),
             ar_lockedBalance := locked_net u (db_postings db),
             ar_updatedAt := coalesce (pb_updatedAt (pg_getProjectedUserBalances u db)) now\<rparr>)
             (map_get (db_accounts db) u)
      else map_get (db_accounts db) v)"
  by (auto simp: sync_user_def Let_def split: option.split)

lemma has_account_sync_user [simp]: "has_account (sync_user now u db) v = has_account db v"
  by (auto simp: has_account_def get_sync_user)

lemma shown_sync_user: "shown db v \<Longrightarrow> shown (sync_user now u db) v"
  by (auto simp: shown_def get_sync_user split: option.splits)

lemma shown_sync_user_self:
  assumes "has_account db u" and "list_ex (touches u) (db_postings db) \<or> shown db u"
  shows "shown (sync_user now u db) u"
  using assms by (cases "map_get (db_accounts db) u")
    (auto simp: shown_def get_sync_user has_account_def)

lemma shown_fold_sync:
  "shown db v \<Longrightarrow> shown (fold (sync_user now) us db) v"
  "v \<in> set us \<Longrightarrow> has_account db v \<Longrightarrow> list_ex (touches v) (db_postings db) \<Longrightarrow> shown (fold (sync_user now) us db) v"
proof (induction us arbitrary: db)
  case (Cons u us)
  { case 1 then show ?case using Cons.IH(1) shown_sync_user by simp }
  { case 2 then show ?case
      using Cons.IH shown_sync_user_self [of db v now] by (cases "v = u") auto }
qed simp_all

lemma set_distinct_users [simp]: "set (rev (remdups (rev us))) = set us"
  by simp

lemma shown_sync:
  "shown db v \<Longrightarrow> shown (pg_syncUserAccountProjection us now db) v"
  "v \<in> set us \<Longrightarrow> has_account db v \<Longrightarrow> list_ex (touches v) (db_postings db)
    \<Longrightarrow> shown (pg_syncUserAccountProjection us now db) v"
  unfolding pg_syncUserAccountProjection_def
  by (rule shown_fold_sync(1), assumption) (rule shown_fold_sync(2), simp_all)

lemma has_account_fold_sync [simp]: "has_account (fold (sync_user now) us db) v = has_account db v"
  by (induction us arbitrary: db) simp_all

lemma has_account_sync [simp]: "has_account (pg_syncUserAccountProjection us now db) v = has_account db v"
  by (simp add: pg_syncUserAccountProjection_def)

lemma has_account_journal [simp]: "has_account (pg_appendJournal cfg inp now db) v = has_account db v"
  by (simp add: has_account_def)

text \<open>A journal whose users are synced afterwards.\<close>

lemma shown_post:
  assumes "shown db v" and "\<And>u. posts_on u (ji_postings inp) \<Longrightarrow> u \<in> set us" and "\<And>u. u \<in> set us \<Longrightarrow> has_account db u"
  shows "shown (pg_syncUserAccountProjection us now (pg_appendJournal cfg inp now db)) v"
proof (cases "posts_on v (ji_postings inp)")
  case True
  with assms show ?thesis by (intro shown_sync(2)) auto
next
  case False
  with assms(1) show ?thesis by (intro shown_sync(1) shown_journal)
qed

section \<open>Rows\<close>

definition pending_of :: "string \<Rightarrow> pg_db \<Rightarrow> int" where
  "pending_of u db = sum_vals (\<lambda>w. if wd_userId w = u \<and> active_status (wd_status w) then wd_amount w else 0) (db_withdrawals db)"

definition rows_ok :: "ledger_cfg \<Rightarrow> pg_db \<Rightarrow> bool" where
  "rows_ok cfg db =
     (map_wf (db_withdrawals db) \<and>
      (\<forall>i w. map_get (db_withdrawals db) i = Some w \<longrightarrow>
         wd_withdrawalId w = i \<and> drawn cfg (db_uuids db) i \<and> has_account db (wd_userId w) \<and>
         (approved_status (wd_status w) \<longrightarrow> wd_requiredApprovals w \<le> pg_getApprovalCount i db)) \<and>
      (\<forall>a \<in> set (db_approvals db). map_get (db_withdrawals db) (wa_withdrawalId a) \<noteq> None) \<and>
      distinct (map (\<lambda>a. (wa_withdrawalId a, wa_adminId a)) (db_approvals db)))"

definition pg_inv :: "ledger_cfg \<Rightarrow> pg_db \<Rightarrow> bool" where
  "pg_inv cfg db =
     (books_balance cfg db \<and> (\<forall>u. shown db u) \<and>
      (\<forall>u. net (withdrawPendingCode u) (db_postings db) = pending_of u db) \<and> rows_ok cfg db)"

lemma pg_invI:
  assumes "books_balance cfg db" and "\<And>u. shown db u"
    and "\<And>u. net (withdrawPendingCode u) (db_postings db) = pending_of u db" and "rows_ok cfg db"
  shows "pg_inv cfg db"
  unfolding pg_inv_def using assms by (intro conjI allI)

lemma pg_invD:
  "pg_inv cfg db \<Longrightarrow> books_balance cfg db" "pg_inv cfg db \<Longrightarrow> shown db u"
  "pg_inv cfg db \<Longrightarrow> net (withdrawPendingCode u) (db_postings db) = pending_of u db" "pg_inv cfg db \<Longrightarrow> rows_ok cfg db"
  by (simp_all add: pg_inv_def)

text \<open>A write that leaves the money tables alone and takes ids.\<close>

definition same_money :: "pg_db \<Rightarrow> pg_db \<Rightarrow> bool" where
  "same_money db db' =
     (db_accounts db' = db_accounts db \<and> db_withdrawals db' = db_withdrawals db \<and>
      db_approvals db' = db_approvals db \<and> db_ledgerAccounts db' = db_ledgerAccounts db \<and>
      db_journals db' = db_journals db \<and> db_postings db' = db_postings db \<and> db_uuids db \<le> db_uuids db')"

lemma same_money_refl [simp]: "same_money db db"
  by (simp add: same_money_def)

lemma same_money_trans: "same_money a b \<Longrightarrow> same_money b c \<Longrightarrow> same_money a c"
  by (simp add: same_money_def)

lemma rows_ok_same_money: "rows_ok cfg db \<Longrightarrow> same_money db db' \<Longrightarrow> rows_ok cfg db'"
  unfolding rows_ok_def same_money_def has_account_def pg_getApprovalCount_def
  by simp (blast intro: drawn_mono)

lemma pg_inv_same_money:
  assumes "pg_inv cfg db" and "same_money db db'"
  shows "pg_inv cfg db'"
proof (rule pg_invI)
  have eq: "db_postings db' = db_postings db" "db_accounts db' = db_accounts db" "db_withdrawals db' = db_withdrawals db"
    using assms(2) by (simp_all add: same_money_def)
  show "books_balance cfg db'"
    using assms(2) by (intro books_balance_cong [OF pg_invD(1) [OF assms(1)]]) (simp_all add: same_money_def)
  show "shown db' u" for u
    by (rule shown_cong [OF pg_invD(2) [OF assms(1)] eq(2,1)])
  show "net (withdrawPendingCode u) (db_postings db') = pending_of u db'" for u
    using pg_invD(3) [OF assms(1), of u] eq by (simp add: pending_of_def)
  show "rows_ok cfg db'" by (rule rows_ok_same_money [OF pg_invD(4) [OF assms(1)] assms(2)])
qed

lemma same_money_uuids [simp]: "db_uuids db \<le> n \<Longrightarrow> same_money db (db\<lparr>db_uuids := n\<rparr>)"
  by (simp add: same_money_def)

lemma same_money_enqueue [simp]: "same_money db (pg_enqueueOutboxEvent cfg et aty aid p t db)"
  by (simp add: same_money_def)

text \<open>Creating an empty account row keeps everything.\<close>

lemma ensure_accounts_mono: "has_account db u \<Longrightarrow> has_account (pg_ensureAccount v now db) u"
  by simp

lemma pg_inv_ensure:
  assumes "pg_inv cfg db"
  shows "pg_inv cfg (pg_ensureAccount u now db)"
proof (rule pg_invI)
  show "books_balance cfg (pg_ensureAccount u now db)"
    by (rule books_balance_cong [OF pg_invD(1) [OF assms]]) simp_all
  show "shown (pg_ensureAccount u now db) v" for v
    using pg_invD(2) [OF assms] by (rule shown_ensureAccount)
  show "net (withdrawPendingCode v) (db_postings (pg_ensureAccount u now db)) = pending_of v (pg_ensureAccount u now db)" for v
    using pg_invD(3) [OF assms] by (simp add: pending_of_def)
  show "rows_ok cfg (pg_ensureAccount u now db)"
    using pg_invD(4) [OF assms] by (auto simp: rows_ok_def pg_getApprovalCount_def)
qed

section \<open>Transactions\<close>

definition ends_well :: "ledger_cfg \<Rightarrow> pg_db \<Rightarrow> (js_error + 'a) \<times> pg_db \<Rightarrow> bool" where
  "ends_well cfg db res = (db_uuids db \<le> db_uuids (snd res) \<and> (fails (fst res) \<or> pg_inv cfg (snd res)))"

lemma ends_well_simps [simp]:
  "ends_well cfg db (Inl e, db') \<longleftrightarrow> db_uuids db \<le> db_uuids db'"
  "ends_well cfg db (Inr x, db') \<longleftrightarrow> db_uuids db \<le> db_uuids db' \<and> pg_inv cfg db'"
  by (simp_all add: ends_well_def)

lemma pg_inv_transaction:
  assumes "pg_inv cfg db" and "ends_well cfg db (work db)"
  shows "pg_inv cfg (snd (withTransaction work db))"
  by (cases rule: withTransaction_cases [of work db])
    (use assms in \<open>auto intro: pg_inv_same_money\<close>)

lemma ends_well_publish:
  assumes "pg_inv cfg db'" and "db_uuids db \<le> db_uuids db'"
  shows "ends_well cfg db (pg_publishWithdrawal c i now f db')"
  using assms
  by (auto simp: pg_publishWithdrawal_def Let_def intro: pg_inv_same_money split: sum.split)

text \<open>
  One or more journals and then a sync of the users they touch.  The pending balances must change as
  the withdrawal rows do.
\<close>

lemma pg_inv_posted:
  assumes "books_balance cfg db" and "\<And>v. v \<notin> set us \<Longrightarrow> shown db v"
    and "\<And>u. u \<in> set us \<Longrightarrow> has_account db u \<and> (list_ex (touches u) (db_postings db) \<or> shown db u)"
    and "\<And>u. net (withdrawPendingCode u) (db_postings db) = pending_of u db" and "rows_ok cfg db"
  shows "pg_inv cfg (pg_syncUserAccountProjection us now db)"
proof (rule pg_invI)
  show "books_balance cfg (pg_syncUserAccountProjection us now db)"
    by (rule books_balance_cong [OF assms(1)]) simp_all
  show "shown (pg_syncUserAccountProjection us now db) v" for v
    using assms(2,3) shown_sync by (cases "v \<in> set us") blast+
  show "rows_ok cfg (pg_syncUserAccountProjection us now db)"
    using assms(5) by (simp add: rows_ok_def pg_getApprovalCount_def)
  show "net (withdrawPendingCode u) (db_postings (pg_syncUserAccountProjection us now db))
      = pending_of u (pg_syncUserAccountProjection us now db)" for u
    using assms(4) by (simp add: pending_of_def)
qed

text \<open>A journal that leaves the pending withdrawals alone, on a good database.\<close>

lemma pg_inv_post:
  assumes "pg_inv cfg db" and "uuid_ok cfg" and "balanced (ji_postings inp)"
    and "\<And>u. posts_on u (ji_postings inp) \<longleftrightarrow> u \<in> set us" and "\<And>u. u \<in> set us \<Longrightarrow> has_account db u"
    and "\<And>u. delta (withdrawPendingCode u) (ji_postings inp) = 0"
  shows "pg_inv cfg (pg_syncUserAccountProjection us now (pg_appendJournal cfg inp now db))"
proof (rule pg_inv_posted)
  show "books_balance cfg (pg_appendJournal cfg inp now db)"
    by (rule books_balance_journal [OF pg_invD(1) [OF assms(1)] assms(2,3)])
  show "shown (pg_appendJournal cfg inp now db) v" if "v \<notin> set us" for v
    using pg_invD(2) [OF assms(1)] assms(4) that by (intro shown_journal) auto
  show "has_account (pg_appendJournal cfg inp now db) u \<and> (list_ex (touches u) (db_postings (pg_appendJournal cfg inp now db))
      \<or> shown (pg_appendJournal cfg inp now db) u)" if "u \<in> set us" for u
    using assms(4,5) that by auto
  show "net (withdrawPendingCode u) (db_postings (pg_appendJournal cfg inp now db)) = pending_of u (pg_appendJournal cfg inp now db)" for u
    using pg_invD(3) [OF assms(1)] assms(6) by (simp add: pending_of_def)
  show "rows_ok cfg (pg_appendJournal cfg inp now db)"
    using pg_invD(4) [OF assms(1)] drawn_mono
    by (fastforce simp: rows_ok_def pg_getApprovalCount_def)
qed

end
