(* ===== verification/PgOperations.thy ===== *)
theory PgOperations
  imports PgInvariant
begin

text \<open>Every operation of the Postgres ledger that writes to the books keeps the invariant of
  \<open>PgInvariant\<close>, whatever the amounts it is given.\<close>

section \<open>Automation\<close>

named_theorems journal_defs "the journals the operations write"

declare deposit_journal_def [journal_defs] credit_journal_def [journal_defs] transfer_journal_def [journal_defs]
  reserve_journal_def [journal_defs] settle_journal_def [journal_defs] release_journal_def [journal_defs]
  fee_journal_def [journal_defs] lock_journal_def [journal_defs] collateral_release_journal_def [journal_defs]
  receiver_journal_def [journal_defs] settlement_journal_def [journal_defs] settlement_postings_def [journal_defs]
  compensation_journal_def [journal_defs] reconcile_postings_def [journal_defs]

lemma system_codes [simp]:
  "availableCode u \<noteq> CHR ''s'' # xs" "withdrawPendingCode u \<noteq> CHR ''s'' # xs" "offlinePayPendingCode u \<noteq> CHR ''s'' # xs"
  "CHR ''s'' # xs \<noteq> availableCode u" "CHR ''s'' # xs \<noteq> withdrawPendingCode u" "CHR ''s'' # xs \<noteq> offlinePayPendingCode u"
  by (simp_all add: availableCode_def withdrawPendingCode_def offlinePayPendingCode_def)

lemma posts_on_simps [simp]:
  "\<not> posts_on u []"
  "posts_on u (p # ps) \<longleftrightarrow> lp_code p = availableCode u \<or> lp_code p = withdrawPendingCode u \<or>
     lp_code p = offlinePayPendingCode u \<or> posts_on u ps"
  by (auto simp: posts_on_def)

lemma balanced_simps [simp]:
  "balanced ps \<longleftrightarrow> sum_list (map signed_input ps) = 0 \<and> (\<forall>p \<in> set ps. code_ok (lp_code p))"
  by (simp add: balanced_def)

lemma has_account_update [simp]:
  "has_account (db\<lparr>db_uuids := n\<rparr>) u = has_account db u"
  "has_account (db\<lparr>db_transactions := t\<rparr>) u = has_account db u"
  "has_account (db\<lparr>db_deposits := d\<rparr>) u = has_account db u"
  "has_account (db\<lparr>db_withdrawals := w\<rparr>) u = has_account db u"
  "has_account (db\<lparr>db_approvals := a\<rparr>) u = has_account db u"
  "has_account (db\<lparr>db_feeReceipts := f\<rparr>) u = has_account db u"
  by (simp_all add: has_account_def)

lemma get_ensured [simp]: "pg_getAccountForUpdate u (pg_ensureAccount u now db) \<noteq> Inl e"
  by (auto simp: pg_getAccountForUpdate_def pg_ensureAccount_def split: option.splits)

lemma inv_enqueue [intro]: "pg_inv cfg db \<Longrightarrow> pg_inv cfg (pg_enqueueOutboxEvent c et aty aid p t db)"
  by (rule pg_inv_same_money [OF _ same_money_enqueue])

section \<open>Accounts, deposits, credits, transfers\<close>

lemma pg_inv_getAccount: "pg_inv cfg db \<Longrightarrow> pg_inv cfg (snd (pg_getAccount u now db))"
  by (auto simp: pg_getAccount_def Let_def pg_inv_ensure split: option.split)

lemma pg_inv_getAccountByWalletAddress:
  "pg_inv cfg db \<Longrightarrow> pg_inv cfg (snd (pg_getAccountByWalletAddress a now db))"
  by (auto simp: pg_getAccountByWalletAddress_def pg_inv_getAccount split: option.split)

lemma pg_inv_bindWalletAddress:
  assumes "pg_inv cfg db"
  shows "pg_inv cfg (snd (pg_bindWalletAddress u a now db))"
  unfolding pg_bindWalletAddress_def
  by (rule pg_inv_transaction [OF assms])
    (auto simp: Let_def same_money_def intro: pg_inv_same_money [OF pg_inv_ensure [OF assms]] split: option.split)

lemma pg_inv_applyDeposit:
  assumes "pg_inv cfg db" and "uuid_ok cfg"
  shows "pg_inv cfg (snd (pg_applyDeposit cfg inp now db))"
proof -
  let ?db1 = "pg_ensureAccount (di_userId inp) now db"
  have "pg_inv cfg (pg_syncUserAccountProjection [di_userId inp] now (pg_appendJournal cfg (deposit_journal i inp) now
      (?db1\<lparr>db_uuids := db_uuids db + 2, db_transactions := ts, db_deposits := ds\<rparr>)))" for i ts ds
    by (rule pg_inv_post) (use assms in \<open>auto simp: journal_defs same_money_def
      intro: pg_inv_same_money [OF pg_inv_ensure]\<close>)
  then show ?thesis
    unfolding pg_applyDeposit_def
    by (intro pg_inv_transaction [OF assms(1)])
      (auto simp: Let_def assms(1) split: option.split sum.split)
qed

lemma pg_inv_completeDeposit:
  assumes "pg_inv cfg db"
  shows "pg_inv cfg (snd (pg_completeDeposit i db))"
  using assms by (auto simp: pg_completeDeposit_def Let_def same_money_def intro: pg_inv_same_money split: option.split)

lemma pg_inv_applyExternalCredit:
  assumes "pg_inv cfg db" and "uuid_ok cfg"
  shows "pg_inv cfg (snd (pg_applyExternalCredit cfg inp now db))"
proof -
  have "pg_inv cfg (pg_syncUserAccountProjection [ci_userId inp] now (pg_appendJournal cfg (credit_journal c inp) now
      (pg_ensureAccount (ci_userId inp) now db)))" for c
    by (rule pg_inv_post) (use assms in \<open>auto simp: journal_defs pg_inv_ensure\<close>)
  then show ?thesis
    using assms(1) unfolding pg_applyExternalCredit_def
    by (auto simp: Let_def intro!: pg_inv_transaction split: option.split)
qed

lemma pg_inv_transfer:
  assumes "pg_inv cfg db" and "uuid_ok cfg"
  shows "pg_inv cfg (snd (pg_transfer cfg f g amount key now db))"
proof -
  let ?db1 = "pg_ensureAccount g now (pg_ensureAccount f now db)"
  have "pg_inv cfg (pg_syncUserAccountProjection [f, g] now (pg_appendJournal cfg (transfer_journal f g amount key) now
      (?db1\<lparr>db_uuids := db_uuids db + 2, db_transactions := ts\<rparr>)))" for ts
    by (rule pg_inv_post) (use assms in \<open>auto simp: journal_defs same_money_def
      intro: pg_inv_same_money [OF pg_inv_ensure [OF pg_inv_ensure]]\<close>)
  then show ?thesis
    using assms(1) unfolding pg_transfer_def
    by (auto simp: Let_def intro!: pg_inv_transaction split: option.split sum.split)
qed

section \<open>Withdrawals\<close>

lemma write_row_sel [simp]:
  "db_accounts (write_row i w db) = db_accounts db" "db_postings (write_row i w db) = db_postings db"
  "db_journals (write_row i w db) = db_journals db" "db_approvals (write_row i w db) = db_approvals db"
  "db_ledgerAccounts (write_row i w db) = db_ledgerAccounts db" "db_uuids (write_row i w db) = db_uuids db"
  "db_transactions (write_row i w db) = db_transactions db" "db_deposits (write_row i w db) = db_deposits db"
  "db_withdrawals (write_row i w db) = map_set i w (db_withdrawals db)"
  "has_account (write_row i w db) u = has_account db u"
  by (simp_all add: write_row_def has_account_def)

lemma pending_write_row:
  "pending_of u (write_row i w' db) = pending_of u db
     - val_or0 (\<lambda>w. if wd_userId w = u \<and> active_status (wd_status w) then wd_amount w else 0) (map_get (db_withdrawals db) i)
     + (if wd_userId w' = u \<and> active_status (wd_status w') then wd_amount w' else 0)"
  by (simp add: pending_of_def sum_vals_set)

text \<open>A new value of a row: same identity and user, approved only with enough approvals.\<close>

definition row_update :: "pg_db \<Rightarrow> string \<Rightarrow> withdrawal \<Rightarrow> withdrawal \<Rightarrow> bool" where
  "row_update db i w w' =
     (map_get (db_withdrawals db) i = Some w \<and> wd_withdrawalId w' = wd_withdrawalId w \<and> wd_userId w' = wd_userId w \<and>
      wd_amount w' = wd_amount w \<and> wd_requiredApprovals w' = wd_requiredApprovals w \<and>
      (approved_status (wd_status w') \<longrightarrow> approved_status (wd_status w) \<or>
         wd_requiredApprovals w \<le> pg_getApprovalCount i db))"

lemma rows_ok_write:
  assumes "rows_ok cfg db" and "row_update db i w w'"
  shows "rows_ok cfg (write_row i w' db)"
  using assms unfolding rows_ok_def row_update_def by (auto simp: pg_getApprovalCount_def)

lemma shown_write_row: "shown (write_row i w db) u = shown db u"
  by (simp add: shown_def split: option.split)

lemma books_write_row: "books_balance cfg db \<Longrightarrow> books_balance cfg (write_row i w db)"
  by (erule books_balance_cong) simp_all

lemma pg_inv_write_row:
  assumes "pg_inv cfg db" and "row_update db i w w'" and "active_status (wd_status w') = active_status (wd_status w)"
  shows "pg_inv cfg (write_row i w' db)"
proof (rule pg_invI)
  show "net (withdrawPendingCode u) (db_postings (write_row i w' db)) = pending_of u (write_row i w' db)" for u
    using pg_invD(3) [OF assms(1), of u] assms(2,3) by (simp add: pending_write_row row_update_def)
qed (use assms pg_invD in \<open>auto simp: shown_write_row intro: books_write_row rows_ok_write\<close>)

lemma update_transaction_money [simp]: "same_money db (update_transaction i f db)"
  by (auto simp: update_transaction_def same_money_def split: option.split)

lemma update_transaction_sel [simp]:
  "db_accounts (update_transaction i f db) = db_accounts db" "db_postings (update_transaction i f db) = db_postings db"
  "db_withdrawals (update_transaction i f db) = db_withdrawals db" "db_approvals (update_transaction i f db) = db_approvals db"
  "db_uuids (update_transaction i f db) = db_uuids db" "has_account (update_transaction i f db) u = has_account db u"
  by (simp_all add: update_transaction_def has_account_def split: option.split)

lemma ends_well_write_publish:
  assumes "pg_inv cfg db" and "row_update db i w w'" and "active_status (wd_status w') = active_status (wd_status w)"
  shows "ends_well cfg db (pg_publishWithdrawal c i now f (write_row i w' db))"
  by (rule ends_well_publish [OF pg_inv_write_row [OF assms]]) simp

lemma getWithdrawalForUpdate_Inr [simp]:
  "pg_getWithdrawalForUpdate i db = Inr w \<longleftrightarrow> map_get (db_withdrawals db) i = Some w"
  by (simp add: pg_getWithdrawalForUpdate_def split: option.split)

lemma pg_inv_externalAuth:
  assumes "pg_inv cfg db"
  shows "pg_inv cfg (snd (pg_confirmWithdrawalExternalAuth cfg i p r now db))"
  unfolding pg_confirmWithdrawalExternalAuth_def
  by (rule pg_inv_transaction [OF assms])
    (auto simp: assms row_update_def active_status_def ACTIVE_WITHDRAWAL_STATUSES_def approved_status_def
      intro!: ends_well_write_publish [OF assms] split: sum.split)

lemma pg_inv_review:
  assumes "pg_inv cfg db"
  shows "pg_inv cfg (snd (pg_markWithdrawalReviewRequired cfg i now db))"
  unfolding pg_markWithdrawalReviewRequired_def
  by (rule pg_inv_transaction [OF assms])
    (auto simp: assms row_update_def intro!: ends_well_write_publish [OF assms] split: sum.split)

lemma pg_inv_broadcast:
  assumes "pg_inv cfg db"
  shows "pg_inv cfg (snd (pg_broadcastWithdrawal cfg i h now db))"
  unfolding pg_broadcastWithdrawal_def
  by (rule pg_inv_transaction [OF assms])
    (auto simp: assms row_update_def active_status_def ACTIVE_WITHDRAWAL_STATUSES_def approved_status_def
      intro!: ends_well_write_publish [OF assms] split: sum.split)

lemma pg_inv_approval:
  assumes inv: "pg_inv cfg db" and w: "map_get (db_withdrawals db) (wa_withdrawalId a) = Some w"
    and new: "\<not> list_ex (\<lambda>b. wa_withdrawalId b = wa_withdrawalId a \<and> wa_adminId b = wa_adminId a) (db_approvals db)"
  shows "pg_inv cfg (db\<lparr>db_uuids := Suc (db_uuids db), db_approvals := db_approvals db @ [a]\<rparr>)" (is "pg_inv cfg ?db")
proof (rule pg_invI)
  show "books_balance cfg ?db" by (rule books_balance_cong [OF pg_invD(1) [OF inv]]) simp_all
  show "shown ?db u" for u by (rule shown_cong [OF pg_invD(2) [OF inv]]) simp_all
  show "net (withdrawPendingCode u) (db_postings ?db) = pending_of u ?db" for u
    using pg_invD(3) [OF inv, of u] by (simp add: pending_of_def)
  have count: "pg_getApprovalCount i db \<le> pg_getApprovalCount i ?db" for i
    by (simp add: pg_getApprovalCount_def)
  show "rows_ok cfg ?db"
    using pg_invD(4) [OF inv] w new order_trans [OF _ count] drawn_mono [of cfg "db_uuids db" _ "Suc (db_uuids db)"]
    unfolding rows_ok_def by (auto simp: list_ex_iff)
qed

lemma pg_inv_approve:
  assumes "pg_inv cfg db"
  shows "pg_inv cfg (snd (pg_approveWithdrawal cfg i inp now db))"
proof -
  let ?a = "\<lparr>wa_approvalId = newUuid cfg db, wa_withdrawalId = i, wa_adminId = ai_adminId inp,
      wa_actorType = ai_actorType inp, wa_reasonCode = coalesce (ai_reasonCode inp) manual_review_passed,
      wa_note = ai_note inp, wa_createdAt = now\<rparr>"
  let ?db = "db\<lparr>db_uuids := Suc (db_uuids db), db_approvals := db_approvals db @ [?a]\<rparr>"
  have inv: "pg_inv cfg ?db" if "map_get (db_withdrawals db) i = Some w"
      "\<not> list_ex (\<lambda>b. wa_withdrawalId b = i \<and> wa_adminId b = ai_adminId inp) (db_approvals db)" for w
    using pg_inv_approval [OF assms, of ?a w] that by simp
  have fin: "pg_inv cfg (write_row i (w\<lparr>wd_status := ADMIN_APPROVED, wd_approvedAt := Some now\<rparr>) ?db)"
    if "map_get (db_withdrawals db) i = Some w" "wd_status w = PENDING_ADMIN"
      "\<not> list_ex (\<lambda>b. wa_withdrawalId b = i \<and> wa_adminId b = ai_adminId inp) (db_approvals db)"
      "wd_requiredApprovals w \<le> pg_getApprovalCount i ?db" for w
    by (rule pg_inv_write_row [OF inv [OF that(1,3)]])
      (use that in \<open>auto simp: row_update_def active_status_def ACTIVE_WITHDRAWAL_STATUSES_def\<close>)
  show ?thesis
    unfolding pg_approveWithdrawal_def
    by (rule pg_inv_transaction [OF assms])
      (auto simp: Let_def intro!: ends_well_publish inv fin split: sum.split)
qed

text \<open>A row and the journal that moves its amount, then the sync of its user.\<close>

lemma pg_inv_row_journal:
  assumes inv: "pg_inv cfg db" and uuid: "uuid_ok cfg" and rows: "rows_ok cfg (write_row i w' db)"
    and acc: "has_account db (wd_userId w')"
    and bal: "balanced (ji_postings inp)" and posts: "\<And>u. posts_on u (ji_postings inp) \<longleftrightarrow> u = wd_userId w'"
    and pend: "\<And>u. pending_of u (write_row i w' db) = pending_of u db + delta (withdrawPendingCode u) (ji_postings inp)"
    and fee: "post = (\<lambda>d. d) \<or>
      (\<exists>h n r f. post = (\<lambda>d. pg_appendJournal cfg (fee_journal i h n) now (pg_persistNetworkFeeReceipt cfg r i f now d)))"
  shows "pg_inv cfg (pg_syncUserAccountProjection [wd_userId w'] now
    (post (pg_appendJournal cfg inp now (write_row i w' db))))"
proof -
  let ?db = "pg_appendJournal cfg inp now (write_row i w' db)"
  have books: "books_balance cfg ?db"
    by (rule books_balance_journal [OF books_write_row [OF pg_invD(1) [OF inv]] uuid bal])
  have rows_mono: "rows_ok cfg d'" if "rows_ok cfg d" "db_withdrawals d' = db_withdrawals d" "db_approvals d' = db_approvals d"
      "\<And>u. has_account d' u = has_account d u" "db_uuids d \<le> db_uuids d'" for d d'
    using that drawn_mono [OF _ that(5)] unfolding rows_ok_def pg_getApprovalCount_def by simp
  have rows': "rows_ok cfg ?db" by (rule rows_mono [OF rows]) simp_all
  have shown: "shown ?db v" if "v \<noteq> wd_userId w'" for v
    using pg_invD(2) [OF inv, of v] posts that by (intro shown_journal) (simp_all add: shown_write_row)
  have touched: "list_ex (touches (wd_userId w')) (db_postings ?db)" using posts by simp
  have net: "net (withdrawPendingCode u) (db_postings ?db) = pending_of u ?db" for u
    using pg_invD(3) [OF inv, of u] pend [of u] by (simp add: pending_of_def)
  from fee show ?thesis
  proof (elim disjE exE)
    assume "post = (\<lambda>d. d)"
    then show ?thesis
      using pg_inv_posted [where us = "[wd_userId w']" and now = now, OF books _ _ net rows'] shown acc touched by auto
  next
    fix h n r f
    let ?db1 = "pg_persistNetworkFeeReceipt cfg r i f now ?db"
    let ?db2 = "pg_appendJournal cfg (fee_journal i h n) now ?db1"
    assume post: "post = (\<lambda>d. pg_appendJournal cfg (fee_journal i h n) now (pg_persistNetworkFeeReceipt cfg r i f now d))"
    have fee_sel: "db_accounts ?db1 = db_accounts ?db" "db_postings ?db1 = db_postings ?db" "db_journals ?db1 = db_journals ?db"
        "db_withdrawals ?db1 = db_withdrawals ?db" "db_approvals ?db1 = db_approvals ?db"
        "db_ledgerAccounts ?db1 = db_ledgerAccounts ?db" "db_uuids ?db1 = Suc (db_uuids ?db)"
      by (simp_all add: pg_persistNetworkFeeReceipt_def Let_def)
    have "books_balance cfg ?db1" by (rule books_balance_cong [OF books]) (simp_all add: fee_sel)
    then have books2: "books_balance cfg ?db2"
      by (rule books_balance_journal [OF _ uuid]) (simp add: journal_defs)
    have rows2: "rows_ok cfg ?db2"
      by (rule rows_mono [OF rows']) (simp_all add: fee_sel has_account_def)
    have shown2: "shown ?db2 v" if "v \<noteq> wd_userId w'" for v
      by (rule shown_journal) (use shown_cong [OF shown [OF that] fee_sel(1,2)] in \<open>simp_all add: journal_defs\<close>)
    have net2: "net (withdrawPendingCode u) (db_postings ?db2) = pending_of u ?db2" for u
      using net [of u] fee_sel(2,4) by (simp add: pending_of_def journal_defs)
    have acc2: "has_account ?db2 (wd_userId w')" using acc fee_sel(1) by (simp add: has_account_def)
    show ?thesis
      unfolding post
      using pg_inv_posted [where us = "[wd_userId w']" and now = now, OF books2 _ _ net2 rows2] shown2 acc2 touched fee_sel(2)
      by auto
  qed
qed

lemma find_none: "find P (map_values m) = None \<Longrightarrow> map_get m i = Some w \<Longrightarrow> \<not> P w"
  by (auto simp: find_None_iff dest: map_get_values map_values_get)

lemma pg_inv_request:
  assumes "pg_inv cfg db" and "uuid_ok cfg"
  shows "pg_inv cfg (snd (pg_requestWithdrawal cfg inp now db))"
proof -
  let ?u = "wi_userId inp"
  let ?db1 = "pg_ensureAccount ?u now db"
  let ?i = "uuid cfg (db_uuids ?db1 + 1)"
  let ?w = "new_withdrawal inp ?i (newUuid cfg ?db1) now"
  let ?db2 = "\<lambda>ts. ?db1\<lparr>db_uuids := db_uuids ?db1 + 2, db_transactions := ts\<rparr>"
  have inv2: "pg_inv cfg (?db2 ts)" for ts
    by (rule pg_inv_same_money [OF pg_inv_ensure [OF assms(1)]]) (simp add: same_money_def)
  have new: "map_get (db_withdrawals db) ?i = None"
  proof (rule ccontr)
    assume "map_get (db_withdrawals db) ?i \<noteq> None"
    then have "drawn cfg (db_uuids db) ?i" using pg_invD(4) [OF assms(1)] by (auto simp: rows_ok_def)
    then show False using not_drawn [OF assms(2), of "db_uuids db" "db_uuids ?db1 + 1"] by simp
  qed
  have uw: "wd_userId ?w = ?u" "wd_status ?w = LEDGER_RESERVED" "wd_amount ?w = wi_amount inp" "wd_withdrawalId ?w = ?i"
    by (simp_all add: new_withdrawal_def)
  have rows: "rows_ok cfg (write_row ?i ?w (?db2 ts))" for ts
  proof -
    have "drawn cfg (Suc (Suc (db_uuids db))) ?i" by (simp add: drawn_uuid)
    then show ?thesis
      using pg_invD(4) [OF inv2 [of ts]] uw new unfolding rows_ok_def
      by (auto simp: pg_getApprovalCount_def approved_status_def)
  qed
  have "pg_inv cfg (pg_syncUserAccountProjection [?u] now (pg_appendJournal cfg (reserve_journal ?i inp) now
      (write_row ?i ?w (?db2 ts))))" for ts
  proof -
    have "balanced (ji_postings (reserve_journal ?i inp))" "posts_on u (ji_postings (reserve_journal ?i inp)) \<longleftrightarrow> u = ?u" for u
      by (auto simp: journal_defs)
    moreover have "pending_of u (write_row ?i ?w (?db2 ts)) = pending_of u (?db2 ts)
        + delta (withdrawPendingCode u) (ji_postings (reserve_journal ?i inp))" for u
      using uw new by (simp add: journal_defs pending_write_row active_status_def ACTIVE_WITHDRAWAL_STATUSES_def)
    ultimately show ?thesis
      using pg_inv_row_journal [OF inv2 [of ts] assms(2) rows [of ts], where post = "\<lambda>d. d"
          and inp = "reserve_journal ?i inp" and now = now] uw(1) by simp
  qed
  then have post: "pg_inv cfg (pg_syncUserAccountProjection [?u] now (pg_appendJournal cfg (reserve_journal ?i inp) now
      (?db1\<lparr>db_uuids := db_uuids ?db1 + 2, db_transactions := ts, db_withdrawals := map_set ?i ?w (db_withdrawals ?db1)\<rparr>)))" for ts
    by (simp add: write_row_def)
  show ?thesis
    using assms(1) post unfolding pg_requestWithdrawal_def
    by (auto simp: Let_def intro!: pg_inv_transaction ends_well_publish split: option.split sum.split)
qed

lemma post_fee_cases:
  "(\<lambda>d. post_fee cfg i w fee now d) = (\<lambda>d. d) \<or>
   (\<exists>h n r f. (\<lambda>d. post_fee cfg i w fee now d)
     = (\<lambda>d. pg_appendJournal cfg (fee_journal i h n) now (pg_persistNetworkFeeReceipt cfg r i f now d)))"
proof (cases "fee \<noteq> None \<and> truthy (wd_txHash w)")
  case True
  then obtain f where "fee = Some f" by auto
  with True have "(\<lambda>d. post_fee cfg i w fee now d)
      = (\<lambda>d. pg_appendJournal cfg (fee_journal i (the (wd_txHash w)) (fee_feeSun f)) now
          (pg_persistNetworkFeeReceipt cfg FR_withdrawal i f now d))"
    by (simp add: post_fee_def fun_eq_iff)
  then show ?thesis by blast
next
  case False
  then have "(\<lambda>d. post_fee cfg i w fee now d) = (\<lambda>d. d)"
    by (auto simp: post_fee_def fun_eq_iff split: option.split)
  then show ?thesis ..
qed

lemma pg_inv_settled_row:
  assumes inv: "pg_inv cfg db" and uuid: "uuid_ok cfg" and upd: "row_update db i w w'"
    and act: "active_status (wd_status w)" "\<not> active_status (wd_status w')"
    and bal: "balanced (ji_postings inp)" and posts: "\<And>u. posts_on u (ji_postings inp) \<longleftrightarrow> u = wd_userId w"
    and pend: "\<And>u. delta (withdrawPendingCode u) (ji_postings inp) = (if u = wd_userId w then - wd_amount w else 0)"
  shows "pg_inv cfg (pg_syncUserAccountProjection [wd_userId w] now
    (post_fee cfg i v fee now (pg_appendJournal cfg inp now (write_row i w' db))))"
proof -
  have w: "map_get (db_withdrawals db) i = Some w" "wd_userId w' = wd_userId w" "wd_amount w' = wd_amount w"
    using upd by (simp_all add: row_update_def)
  have acc: "has_account db (wd_userId w)"
    using pg_invD(4) [OF inv] w(1) by (auto simp: rows_ok_def)
  have pend': "pending_of u (write_row i w' db) = pending_of u db + delta (withdrawPendingCode u) (ji_postings inp)" for u
    using w act pend by (simp add: pending_write_row)
  show ?thesis
    by (rule pg_inv_row_journal [OF inv uuid rows_ok_write [OF pg_invD(4) [OF inv] upd], of inp, unfolded w(2),
      OF acc bal posts pend' post_fee_cases])
qed

lemma row_update_other_table:
  "row_update (update_transaction t f db) i w w' = row_update db i w w'"
  by (simp add: row_update_def pg_getApprovalCount_def)

lemma post_fee_uuids: "db_uuids db \<le> db_uuids (post_fee cfg i w fee now db)"
  by (auto simp: post_fee_def pg_persistNetworkFeeReceipt_def Let_def split: option.split)

lemma pg_inv_confirm:
  assumes "pg_inv cfg db" and "uuid_ok cfg"
  shows "pg_inv cfg (snd (pg_confirmWithdrawal cfg i fee now db))"
proof -
  have "pg_inv cfg (pg_syncUserAccountProjection [wd_userId w] now (post_fee cfg i w fee now
      (pg_appendJournal cfg (settle_journal i w) now (write_row i (w\<lparr>wd_status := COMPLETED, wd_confirmedAt := Some now\<rparr>)
        (update_transaction t f db)))))"
    if "map_get (db_withdrawals db) i = Some w" "wd_status w = TX_BROADCASTED" for w t f
    by (rule pg_inv_settled_row [OF pg_inv_same_money [OF assms(1) update_transaction_money] assms(2)])
      (use that in \<open>auto simp: row_update_other_table row_update_def approved_status_def active_status_def
        ACTIVE_WITHDRAWAL_STATUSES_def journal_defs\<close>)
  moreover have "db_uuids db \<le> db_uuids (post_fee cfg i w fee now
      (pg_appendJournal cfg (settle_journal i w) now (write_row i w' (update_transaction t f db))))" for w w' t f
    by (rule order_trans [OF _ post_fee_uuids]) simp
  ultimately show ?thesis
    unfolding pg_confirmWithdrawal_def
    by (intro pg_inv_transaction [OF assms(1)])
      (auto simp: Let_def intro!: ends_well_publish split: sum.split)
qed

lemma pg_inv_fail:
  assumes "pg_inv cfg db" and "uuid_ok cfg"
  shows "pg_inv cfg (snd (pg_failWithdrawal cfg i reason now db))"
proof -
  have "pg_inv cfg (pg_syncUserAccountProjection [wd_userId w] now (post_fee cfg i w None now
      (pg_appendJournal cfg (release_journal i w reason) now
        (write_row i (w\<lparr>wd_status := FAILED, wd_failedAt := Some now, wd_failReason := Some reason\<rparr>)
        (update_transaction t f db)))))"
    if "map_get (db_withdrawals db) i = Some w" "wd_status w \<in> {LEDGER_RESERVED, PENDING_ADMIN, ADMIN_APPROVED, TX_BROADCASTED}"
    for w t f
    by (rule pg_inv_settled_row [OF pg_inv_same_money [OF assms(1) update_transaction_money] assms(2)])
      (use that in \<open>auto simp: row_update_other_table row_update_def approved_status_def active_status_def
        ACTIVE_WITHDRAWAL_STATUSES_def journal_defs\<close>)
  then show ?thesis
    unfolding pg_failWithdrawal_def
    by (intro pg_inv_transaction [OF assms(1)])
      (auto simp: Let_def post_fee_def intro!: ends_well_publish split: sum.split)
qed

section \<open>Offline payments\<close>

lemma pg_inv_lock:
  assumes "pg_inv cfg db" and "uuid_ok cfg"
  shows "pg_inv cfg (snd (pg_lockOfflinePayCollateral cfg inp now db))"
proof -
  have "pg_inv cfg (pg_syncUserAccountProjection [lk_userId inp] now (pg_appendJournal cfg (lock_journal inp) now
      (pg_ensureAccount (lk_userId inp) now db)))"
    by (rule pg_inv_post) (use assms in \<open>auto simp: journal_defs pg_inv_ensure\<close>)
  then show ?thesis
    using assms(1) unfolding pg_lockOfflinePayCollateral_def
    by (auto simp: Let_def intro!: pg_inv_transaction split: option.split sum.split)
qed

lemma pg_inv_release:
  assumes "pg_inv cfg db" and "uuid_ok cfg"
  shows "pg_inv cfg (snd (pg_releaseOfflinePayCollateral cfg inp now db))"
proof -
  have "pg_inv cfg (pg_syncUserAccountProjection [ri_userId inp] now (pg_appendJournal cfg (collateral_release_journal inp) now
      (pg_ensureAccount (ri_userId inp) now db)))"
    by (rule pg_inv_post) (use assms in \<open>auto simp: journal_defs pg_inv_ensure\<close>)
  then show ?thesis
    using assms(1) unfolding pg_releaseOfflinePayCollateral_def
    by (auto simp: Let_def intro!: pg_inv_transaction split: option.split sum.split)
qed

lemma pg_inv_compensate:
  assumes "pg_inv cfg db" and "uuid_ok cfg"
  shows "pg_inv cfg (snd (pg_compensateOfflinePaySettlement cfg inp now db))"
proof -
  have "pg_inv cfg (pg_syncUserAccountProjection [cp_userId inp] now (pg_appendJournal cfg (compensation_journal inp) now
      (pg_ensureAccount (cp_userId inp) now db)))"
    by (rule pg_inv_post) (use assms in \<open>auto simp: journal_defs pg_inv_ensure\<close>)
  then show ?thesis
    using assms(1) unfolding pg_compensateOfflinePaySettlement_def
    by (auto simp: Let_def intro!: pg_inv_transaction split: option.split sum.split)
qed

lemma pg_inv_reconcileUser:
  assumes "pg_inv cfg db" and "uuid_ok cfg"
  shows "pg_inv cfg (snd (pg_reconcileOfflinePayUserBalance cfg u target now db))"
proof -
  have "pg_inv cfg (pg_syncUserAccountProjection [u] now (pg_appendJournal cfg
      (user_reconcile_journal u now d) now (pg_ensureAccount u now db)))" for d
    by (rule pg_inv_post) (use assms in \<open>auto simp: user_reconcile_journal_def journal_defs pg_inv_ensure\<close>)
  then show ?thesis
    using assms(1) unfolding pg_reconcileOfflinePayUserBalance_def
    by (auto simp: Let_def pg_inv_ensure intro!: pg_inv_transaction split: sum.split)
qed

lemma pg_inv_reconcilePending:
  assumes "pg_inv cfg db" and "uuid_ok cfg"
  shows "pg_inv cfg (snd (pg_reconcileOfflinePayPendingBalance cfg u target basis now db))"
proof -
  have "pg_inv cfg (pg_syncUserAccountProjection [u] now (pg_appendJournal cfg
      (pending_reconcile_journal u basis now d) now (pg_ensureAccount u now db)))" for d
    by (rule pg_inv_post) (use assms in \<open>auto simp: pending_reconcile_journal_def journal_defs pg_inv_ensure\<close>)
  then show ?thesis
    using assms(1) unfolding pg_reconcileOfflinePayPendingBalance_def
    by (auto simp: Let_def pg_inv_ensure intro!: pg_inv_transaction split: sum.split)
qed

text \<open>Between a journal and the sync of the users \<open>us\<close> that it touches.\<close>

definition open_inv :: "ledger_cfg \<Rightarrow> string set \<Rightarrow> pg_db \<Rightarrow> bool" where
  "open_inv cfg us db =
     (books_balance cfg db \<and> (\<forall>v. v \<notin> us \<longrightarrow> shown db v) \<and>
      (\<forall>u \<in> us. has_account db u \<and> (list_ex (touches u) (db_postings db) \<or> shown db u)) \<and>
      (\<forall>u. net (withdrawPendingCode u) (db_postings db) = pending_of u db) \<and> rows_ok cfg db)"

lemma open_inv_start: "pg_inv cfg db \<Longrightarrow> (\<And>u. u \<in> us \<Longrightarrow> has_account db u) \<Longrightarrow> open_inv cfg us db"
  by (simp add: pg_inv_def open_inv_def)

lemma open_inv_sync: "open_inv cfg (set us) db \<Longrightarrow> pg_inv cfg (pg_syncUserAccountProjection us now db)"
  unfolding open_inv_def by (intro pg_inv_posted) auto

lemma open_inv_journal:
  assumes "open_inv cfg us db" and "uuid_ok cfg" and "balanced (ji_postings inp)"
    and "\<And>u. posts_on u (ji_postings inp) \<Longrightarrow> u \<in> us" and "\<And>u. delta (withdrawPendingCode u) (ji_postings inp) = 0"
  shows "open_inv cfg us (pg_appendJournal cfg inp now db)"
proof -
  let ?db = "pg_appendJournal cfg inp now db"
  have old: "books_balance cfg db" "\<And>v. v \<notin> us \<Longrightarrow> shown db v" "rows_ok cfg db"
      "\<And>u. u \<in> us \<Longrightarrow> has_account db u \<and> (list_ex (touches u) (db_postings db) \<or> shown db u)"
      "\<And>u. net (withdrawPendingCode u) (db_postings db) = pending_of u db"
    using assms(1) by (auto simp: open_inv_def)
  have "books_balance cfg ?db" by (rule books_balance_journal [OF old(1) assms(2,3)])
  moreover have "shown ?db v" if "v \<notin> us" for v
    using old(2) [OF that] assms(4) that by (intro shown_journal) auto
  moreover have "has_account ?db u \<and> (list_ex (touches u) (db_postings ?db) \<or> shown ?db u)" if "u \<in> us" for u
    using old(4) [OF that] shown_journal [of db u inp cfg now] by auto
  moreover have "net (withdrawPendingCode u) (db_postings ?db) = pending_of u ?db" for u
    using old(5) [of u] assms(5) by (simp add: pending_of_def)
  moreover have "rows_ok cfg ?db"
    using old(3) drawn_mono by (fastforce simp: rows_ok_def pg_getApprovalCount_def)
  ultimately show ?thesis by (simp add: open_inv_def)
qed

lemma open_inv_receiver:
  assumes "open_inv cfg us db" and "uuid_ok cfg" and "truthy r \<Longrightarrow> the r \<in> us"
  shows "open_inv cfg us (appendOfflinePayReceiverSettlementIfNeeded cfg inp r now a db)"
  unfolding appendOfflinePayReceiverSettlementIfNeeded_def
  using assms(1,3)
  by (auto simp: journal_defs intro!: open_inv_journal [OF assms(1,2)] split: option.splits)

lemma receiver_uuids: "db_uuids db \<le> db_uuids (appendOfflinePayReceiverSettlementIfNeeded cfg inp r now a db)"
  by (auto simp: appendOfflinePayReceiverSettlementIfNeeded_def split: option.split)

lemma fee_split:
  "0 \<le> amount \<Longrightarrow> 0 \<le> calculateOfflinePaySettlementFee c amount \<and> calculateOfflinePaySettlementFee c amount \<le> amount"
proof -
  assume "0 \<le> amount"
  moreover have "getOfflinePaySettlementFeeBps c \<in> {0, 10}"
    by (simp add: getOfflinePaySettlementFeeBps_def OFFLINE_PAY_SETTLEMENT_FEE_BPS_BY_ASSET_def map_get_def)
  ultimately show ?thesis
    by (auto simp: calculateOfflinePaySettlementFee_def Let_def BPS_DENOMINATOR_def)
qed

lemma settlement_balanced:
  assumes "fee = (if se_releaseAction inp = RA_release then calculateOfflinePaySettlementFee (se_assetCode inp) (se_amount inp) else 0)"
    and "0 \<le> se_amount inp"
  shows "balanced (ji_postings (settlement_journal inp fee (if fee < se_amount inp then se_amount inp - fee else 0)))"
  using fee_split [of "se_amount inp" "se_assetCode inp"] assms by (auto simp: journal_defs)

lemma pg_inv_finalize:
  assumes "pg_inv cfg db" and "uuid_ok cfg" and "0 \<le> se_amount inp"
  shows "pg_inv cfg (snd (pg_finalizeOfflinePaySettlement cfg inp now db))"
proof -
  define r where "r = resolveOfflinePayReceiverUserId (se_userId inp) (se_receiverUserId inp) (se_receiverDeviceId inp) db"
  define req where "req = (se_receiverWalletSettlementRequested inp = Some True)"
  define us where "us = (if truthy r \<and> req then [se_userId inp, the r] else [se_userId inp])"
  define db2 where "db2 = (if truthy r \<and> req then pg_ensureAccount (the r) now (pg_ensureAccount (se_userId inp) now db)
    else pg_ensureAccount (se_userId inp) now db)"
  define fee where "fee = (if se_releaseAction inp = RA_release
    then calculateOfflinePaySettlementFee (se_assetCode inp) (se_amount inp) else 0)"
  define receives where "receives = (if fee < se_amount inp then se_amount inp - fee else 0)"
  define receive where "receive = (\<lambda>d. if req then appendOfflinePayReceiverSettlementIfNeeded cfg inp r now receives d else d)"
  have inv2: "pg_inv cfg db2" using assms(1) by (auto simp: db2_def intro: pg_inv_ensure)
  have open2: "open_inv cfg (set us) db2"
    by (rule open_inv_start [OF inv2]) (auto simp: us_def db2_def split: if_splits)
  have receiver: "open_inv cfg (set us) (receive d)" if "open_inv cfg (set us) d" for d
    using open_inv_receiver [OF that assms(2), of r] that by (auto simp: receive_def us_def)
  have dup: "pg_inv cfg (pg_syncUserAccountProjection us now (receive db2))"
    by (rule open_inv_sync [OF receiver [OF open2]])
  have "balanced (ji_postings (settlement_journal inp fee receives))"
    unfolding receives_def by (rule settlement_balanced [OF fee_def assms(3)])
  then have "open_inv cfg (set us) (pg_appendJournal cfg (settlement_journal inp fee receives) now db2)"
    by (rule open_inv_journal [OF open2 assms(2)])
      (auto simp: settlement_journal_def settlement_postings_def us_def split: if_splits)
  then have fresh: "pg_inv cfg (pg_syncUserAccountProjection us now
      (receive (pg_appendJournal cfg (settlement_journal inp fee receives) now db2)))"
    by (intro open_inv_sync receiver)
  have uuids: "db_uuids d \<le> db_uuids (receive d)" for d
    by (simp add: receive_def receiver_uuids)
  have uuids2: "db_uuids db2 = db_uuids db" by (simp add: db2_def)
  have "db_uuids db \<le> db_uuids (receive (pg_appendJournal cfg (settlement_journal inp fee receives) now db2))"
    by (rule order_trans [OF _ uuids]) (simp add: uuids2)
  with dup fresh uuids [of db2] uuids2
  have "ends_well cfg db (case find_journal ''offline_pay_settlement'' (se_settlementId inp) db of
       Some _ \<Rightarrow> (Inr x, pg_syncUserAccountProjection us now (receive db2))
     | None \<Rightarrow> if b1 then (Inl e1, db2) else if b2 then (Inl e2, db2) else if b3 then (Inl e3, db2)
         else if b4 then (Inl e4, db2) else (Inr y, pg_enqueueOutboxEvent cfg et aty aid p t (pg_syncUserAccountProjection us now
                (receive (pg_appendJournal cfg (settlement_journal inp fee receives) now db2)))))"
    for x y b1 b2 b3 b4 e1 e2 e3 e4 et aty aid p t
    by (simp add: inv_enqueue split: option.split)
  then show ?thesis
    unfolding pg_finalizeOfflinePaySettlement_def
    by (intro pg_inv_transaction [OF assms(1)])
      (simp only: Let_def r_def req_def us_def db2_def fee_def receives_def receive_def)
qed

end
