(* ===== verification/PgQueues.thy ===== *)
theory PgQueues
  imports PgWithdrawals LedgerSweeps LedgerOutbox LedgerConsumers
begin

text \<open>
  The tables of \<open>PostgresLedgerRepository\<close> that carry no money: jobs, the audit log, sweeps with their
  fee receipts, the outbox, the bookkeeping of event consumers.  The updates of a single row or event
  are those of the in-memory ledger where the two classes write the same fields.
\<close>

section \<open>Jobs and audit log\<close>

definition pg_enqueueJob :: "ledger_cfg \<Rightarrow> job_type \<Rightarrow> (string \<times> string) list \<Rightarrow> string \<Rightarrow> pg_db \<Rightarrow> tx_job \<times> pg_db" where
  "pg_enqueueJob cfg ty payload nowIso db =
     (let row = \<lparr>job_jobId = newUuid cfg db, job_type = ty, job_payload = payload,
                 job_status = JS_pending, job_retryCount = 0, job_createdAt = nowIso\<rparr>
      in (row, db\<lparr>db_uuids := Suc (db_uuids db), db_jobs := map_set (job_jobId row) row (db_jobs db)\<rparr>))"

definition pg_claimPendingJobs :: "job_type list \<Rightarrow> int \<Rightarrow> pg_db \<Rightarrow> tx_job list \<times> pg_db" where
  "pg_claimPendingJobs types limit db =
     (if types = [] \<or> limit \<le> 0 then ([], db)
      else
        let rows = take (nat limit) (sort_asc (\<lambda>e. job_createdAt (snd e))
              (filter (\<lambda>e. job_status (snd e) = JS_pending \<and> job_type (snd e) \<in> set types) (db_jobs db)));
            run = (\<lambda>job. job\<lparr>job_status := JS_running\<rparr>)
        in (map (\<lambda>e. run (snd e)) rows, db\<lparr>db_jobs := write_entries (map fst rows) run (db_jobs db)\<rparr>))"

definition update_job :: "string \<Rightarrow> (tx_job \<Rightarrow> tx_job) \<Rightarrow> pg_db \<Rightarrow> tx_job option \<times> pg_db" where
  "update_job jobId f db =
     (case map_get (db_jobs db) jobId of
        None \<Rightarrow> (None, db)
      | Some job \<Rightarrow> (Some (f job), db\<lparr>db_jobs := map_set jobId (f job) (db_jobs db)\<rparr>))"

definition pg_markJobDone :: "string \<Rightarrow> pg_db \<Rightarrow> pg_db" where
  "pg_markJobDone jobId db = snd (update_job jobId (\<lambda>job. job\<lparr>job_status := JS_done\<rparr>) db)"

definition pg_markJobFailed :: "string \<Rightarrow> pg_db \<Rightarrow> pg_db" where
  "pg_markJobFailed jobId db = snd (update_job jobId (\<lambda>job. job\<lparr>job_status := JS_failed\<rparr>) db)"

definition pg_retryJob :: "string \<Rightarrow> pg_db \<Rightarrow> tx_job option \<times> pg_db" where
  "pg_retryJob jobId db =
     update_job jobId (\<lambda>job. job\<lparr>job_status := JS_pending, job_retryCount := job_retryCount job + 1\<rparr>) db"

definition pg_appendAuditLog :: "ledger_cfg \<Rightarrow> audit_input \<Rightarrow> string \<Rightarrow> pg_db \<Rightarrow> audit_log \<times> pg_db" where
  "pg_appendAuditLog cfg inp nowIso db =
     (let row = \<lparr>al_auditId = newUuid cfg db, al_entityType = au_entityType inp,
                 al_entityId = au_entityId inp, al_action = au_action inp, al_actorType = au_actorType inp,
                 al_actorId = au_actorId inp, al_metadata = au_metadata inp, al_createdAt = nowIso\<rparr>
      in (row, db\<lparr>db_uuids := Suc (db_uuids db), db_auditLogs := db_auditLogs db @ [row]\<rparr>))"

definition pg_listAuditLogs :: "audit_query \<Rightarrow> pg_db \<Rightarrow> audit_log list" where
  "pg_listAuditLogs q db =
     take (nat (coalesce (aq_limit q) 100)) (sort_desc al_createdAt
       (filter (\<lambda>l. matches (aq_entityType q) (al_entityType l) \<and> matches_str (aq_entityId q) (al_entityId l) \<and>
                    matches_str (aq_actorId q) (al_actorId l) \<and> matches_str (aq_action q) (al_action l) \<and>
                    (truthy (aq_createdFrom q) \<longrightarrow> the (aq_createdFrom q) \<le> al_createdAt l) \<and>
                    (truthy (aq_createdTo q) \<longrightarrow> al_createdAt l \<le> the (aq_createdTo q)))
         (db_auditLogs db)))"

section \<open>Sweeps\<close>

definition pg_findSweepByExternalRef :: "string \<Rightarrow> pg_db \<Rightarrow> sweep_record option" where
  "pg_findSweepByExternalRef externalRef db =
     find (\<lambda>w. sw_externalRef w = Some externalRef) (map_values (db_sweeps db))"

definition new_sweep :: "sweep_input \<Rightarrow> string \<Rightarrow> string \<Rightarrow> sweep_record" where
  "new_sweep inp sweepId nowIso =
     \<lparr>sw_sweepId = sweepId, sw_sourceWalletCode = si_sourceWalletCode inp,
      sw_sourceAddress = si_sourceAddress inp, sw_targetAddress = si_targetAddress inp,
      sw_currencyId = si_currencyId inp, sw_network = si_network inp, sw_amount = si_amount inp,
      sw_status = SW_planned, sw_externalRef = si_externalRef inp, sw_txHash = None,
      sw_note = si_note inp, sw_attemptCount = 0, sw_createdAt = nowIso, sw_queuedAt = None,
      sw_lastAttemptAt = None, sw_broadcastedAt = None, sw_confirmedAt = None\<rparr>"

definition pg_createSweepRecord :: "ledger_cfg \<Rightarrow> sweep_input \<Rightarrow> string \<Rightarrow> pg_db \<Rightarrow> sweep_record \<times> pg_db" where
  "pg_createSweepRecord cfg inp nowIso db =
     (case (if truthy (si_externalRef inp) then pg_findSweepByExternalRef (the (si_externalRef inp)) db else None) of
        Some duplicated \<Rightarrow> (duplicated, db)
      | None \<Rightarrow>
          let row = new_sweep inp (newUuid cfg db) nowIso
          in (row, db\<lparr>db_uuids := Suc (db_uuids db), db_sweeps := map_set (sw_sweepId row) row (db_sweeps db)\<rparr>))"

definition pg_listSweepRecords :: "nat \<Rightarrow> pg_db \<Rightarrow> sweep_record list" where
  "pg_listSweepRecords limit db = take limit (sort_desc sw_createdAt (map_values (db_sweeps db)))"

definition pg_listSweepRecordsByStatuses :: "sweep_status list \<Rightarrow> nat \<Rightarrow> pg_db \<Rightarrow> sweep_record list" where
  "pg_listSweepRecordsByStatuses statuses limit db =
     take limit (sort_desc sw_createdAt (filter (\<lambda>w. sw_status w \<in> set statuses) (map_values (db_sweeps db))))"

text \<open>The shape of the five updates: read the row, check its status, write it.\<close>

definition update_sweep_row :: "string \<Rightarrow> sweep_status set \<Rightarrow> string \<Rightarrow> (sweep_record \<Rightarrow> sweep_record)
    \<Rightarrow> (pg_db, sweep_record) act" where
  "update_sweep_row sweepId accepted msg f db =
     (case map_get (db_sweeps db) sweepId of
        None \<Rightarrow> (Inl (DomainError 404 ''NOT_FOUND'' ''sweep not found''), db)
      | Some existing \<Rightarrow>
          if sw_status existing \<notin> accepted then (Inl (DomainError 409 ''INVALID_STATE'' msg), db)
          else (Inr (f existing), db\<lparr>db_sweeps := map_set sweepId (f existing) (db_sweeps db)\<rparr>))"

definition pg_markSweepQueued :: "string \<Rightarrow> string option \<Rightarrow> string \<Rightarrow> (pg_db, sweep_record) act" where
  "pg_markSweepQueued sweepId note nowIso =
     update_sweep_row sweepId {SW_planned} ''sweep must be planned''
       (\<lambda>w. w\<lparr>sw_status := SW_queued, sw_note := coalesce_opt note (sw_note w),
              sw_queuedAt := coalesce_opt (sw_queuedAt w) (Some nowIso)\<rparr>)"

definition pg_recordSweepAttempt :: "string \<Rightarrow> string option \<Rightarrow> string \<Rightarrow> (pg_db, sweep_record) act" where
  "pg_recordSweepAttempt sweepId note nowIso =
     update_sweep_row sweepId {SW_queued} ''sweep must be queued''
       (\<lambda>w. w\<lparr>sw_attemptCount := sw_attemptCount w + 1, sw_lastAttemptAt := Some nowIso,
              sw_note := coalesce_opt note (sw_note w)\<rparr>)"

definition pg_markSweepBroadcasted :: "string \<Rightarrow> string \<Rightarrow> string option \<Rightarrow> string \<Rightarrow> (pg_db, sweep_record) act" where
  "pg_markSweepBroadcasted sweepId txHash note nowIso =
     update_sweep_row sweepId {SW_planned, SW_queued} ''sweep must be planned or queued''
       (\<lambda>w. w\<lparr>sw_status := SW_broadcasted, sw_txHash := Some txHash,
              sw_note := coalesce_opt note (sw_note w), sw_broadcastedAt := Some nowIso\<rparr>)"

definition sweep_fee_journal :: "string \<Rightarrow> string \<Rightarrow> int \<Rightarrow> journal_input" where
  "sweep_fee_journal sweepId txHash feeSun =
     \<lparr>ji_journalType = ''sweep_network_fee'', ji_referenceType = ''sweep'', ji_referenceId = sweepId,
      ji_currencyCode = Some ''TRX'', ji_description = Some (trim (''sweep network fee '' @ txHash)),
      ji_postings = [debit ''system:expense:sweep_network_fee'' AY_expense feeSun,
                     credit ''system:asset:sweep_source_trx'' AY_asset feeSun]\<rparr>"

definition pg_confirmSweep :: "ledger_cfg \<Rightarrow> string \<Rightarrow> sweep_confirmation option \<Rightarrow> string \<Rightarrow> (pg_db, sweep_record) act" where
  "pg_confirmSweep cfg sweepId payload nowIso db =
     (case update_sweep_row sweepId {SW_planned, SW_broadcasted} ''sweep must be planned or broadcasted''
             (\<lambda>w. w\<lparr>sw_status := SW_confirmed,
                    sw_note := coalesce_opt (Option.bind payload sf_note) (sw_note w),
                    sw_confirmedAt := Some nowIso\<rparr>) db of
        (Inl e, db') \<Rightarrow> (Inl e, db')
      | (Inr row, db') \<Rightarrow>
          (Inr row,
           case Option.bind payload sf_networkFee of
             Some fee \<Rightarrow>
               if truthy (sw_txHash row)
               then pg_appendJournal cfg (sweep_fee_journal sweepId (the (sw_txHash row)) (fee_feeSun fee)) nowIso
                      (pg_persistNetworkFeeReceipt cfg FR_sweep sweepId fee nowIso db')
               else db'
           | None \<Rightarrow> db'))"

definition pg_failSweep :: "string \<Rightarrow> string \<Rightarrow> string \<Rightarrow> (pg_db, sweep_record) act" where
  "pg_failSweep sweepId reason nowIso =
     update_sweep_row sweepId {SW_planned, SW_queued, SW_broadcasted} ''sweep must be planned, queued or broadcasted''
       (\<lambda>w. w\<lparr>sw_status := SW_failed, sw_note := Some reason, sw_confirmedAt := Some nowIso\<rparr>)"

section \<open>Network fees\<close>

definition pg_listNetworkFeeReceipts :: "fee_reference option \<Rightarrow> string option \<Rightarrow> nat option \<Rightarrow> pg_db
    \<Rightarrow> network_fee_receipt list" where
  "pg_listNetworkFeeReceipts refType refId limit db =
     take (coalesce limit 100) (sort_desc nf_createdAt
       (filter (\<lambda>r. matches refType (nf_referenceType r) \<and> matches_str refId (nf_referenceId r)) (db_feeReceipts db)))"

text \<open>\<open>BigInt(text)\<close> of a decimal numeral; anything else is a \<open>SyntaxError\<close>.\<close>

definition BigInt_of :: "string \<Rightarrow> js_error + int" where
  "BigInt_of s =
     (let digits = (if startsWith s ''-'' then tl s else s) in
      if digits = [] \<or> \<not> list_all is_digit digits
      then Inl (NamedError ''SyntaxError'' (''Cannot convert '' @ s @ '' to a BigInt''))
      else Inr (if startsWith s ''-'' then - digits_val digits else digits_val digits))"

text \<open>A row of one of the two grouped queries: the text of a sum and a count.\<close>

record fee_group =
  fg_snapshotDate :: string
  fg_referenceType :: fee_reference
  fg_feeSun :: string
  fg_feeCount :: int

definition group_days :: "nat \<Rightarrow> ('a \<Rightarrow> string \<times> fee_reference) \<Rightarrow> 'a list \<Rightarrow> (string \<times> fee_reference) list" where
  "group_days limit key rows = take limit (sort_desc fst (remdups (map key rows)))"

text \<open>\<open>fee_sun\<close> is a \<open>BIGINT\<close> column, its sum is an integer; the \<open>amount\<close> of a posting has six
  decimals, and so has the text of its sum.\<close>

definition actual_fee_rows :: "nat \<Rightarrow> pg_db \<Rightarrow> fee_group list" where
  "actual_fee_rows dayLimit db =
     (let key = (\<lambda>r. (iso_day (nf_confirmedAt r), nf_referenceType r)) in
      map (\<lambda>k. let rows = filter (\<lambda>r. key r = k) (db_feeReceipts db)
               in \<lparr>fg_snapshotDate = fst k, fg_referenceType = snd k,
                   fg_feeSun = json_int (sum_list (map nf_feeSun rows)), fg_feeCount = int (length rows)\<rparr>)
        (group_days (dayLimit * 2) key (db_feeReceipts db)))"

definition fee_lines :: "pg_db \<Rightarrow> (journal \<times> posting) list" where
  "fee_lines db =
     filter (\<lambda>(j, p). po_journalId p = jn_journalId j \<and> jn_currencyCode j = ''TRX'' \<and>
         jn_journalType j \<in> {''withdraw_network_fee'', ''sweep_network_fee''} \<and> po_side p = ES_debit \<and>
         po_code p \<in> {''system:expense:withdraw_network_fee'', ''system:expense:sweep_network_fee''})
       (List.product (db_journals db) (db_postings db))"

definition ledger_fee_rows :: "nat \<Rightarrow> pg_db \<Rightarrow> fee_group list" where
  "ledger_fee_rows dayLimit db =
     (let key = (\<lambda>(j, p). (iso_day (jn_createdAt j),
                    if jn_journalType j = ''withdraw_network_fee'' then FR_withdrawal else FR_sweep)) in
      map (\<lambda>k. let rows = filter (\<lambda>x. key x = k) (fee_lines db)
               in \<lparr>fg_snapshotDate = fst k, fg_referenceType = snd k,
                   fg_feeSun = formatKoriAmount (sum_list (map (po_amount \<circ> snd) rows)),
                   fg_feeCount = int (length (remdups (map (jn_journalId \<circ> fst) rows)))\<rparr>)
        (group_days (dayLimit * 2) key (fee_lines db)))"

definition add_actual_row :: "fee_group \<Rightarrow> network_fee_snapshot jsmap \<Rightarrow> js_error + network_fee_snapshot jsmap" where
  "add_actual_row row m =
     (case BigInt_of (fg_feeSun row) of
        Inl e \<Rightarrow> Inl e
      | Inr feeSun \<Rightarrow>
          let x = ensureSnapshot (fg_snapshotDate row) m
          in Inr (map_set (fg_snapshotDate row)
               (on_reference (fg_referenceType row)
                  (\<lambda>b. b\<lparr>fr_actualFeeSun := fr_actualFeeSun b + feeSun,
                         fr_actualFeeCount := fr_actualFeeCount b + fg_feeCount row\<rparr>)
                  (x\<lparr>fs_actualFeeSun := fs_actualFeeSun x + feeSun,
                     fs_actualFeeCount := fs_actualFeeCount x + fg_feeCount row\<rparr>)) m))"

definition add_ledger_row :: "fee_group \<Rightarrow> network_fee_snapshot jsmap \<Rightarrow> js_error + network_fee_snapshot jsmap" where
  "add_ledger_row row m =
     (case BigInt_of (fg_feeSun row) of
        Inl e \<Rightarrow> Inl e
      | Inr feeSun \<Rightarrow>
          let x = ensureSnapshot (fg_snapshotDate row) m
          in Inr (map_set (fg_snapshotDate row)
               (on_reference (fg_referenceType row)
                  (\<lambda>b. b\<lparr>fr_ledgerFeeSun := fr_ledgerFeeSun b + feeSun,
                         fr_ledgerFeeCount := fr_ledgerFeeCount b + fg_feeCount row\<rparr>)
                  (x\<lparr>fs_ledgerFeeSun := fs_ledgerFeeSun x + feeSun,
                     fs_ledgerFeeCount := fs_ledgerFeeCount x + fg_feeCount row\<rparr>)) m))"

primrec fold_rows :: "(fee_group \<Rightarrow> 'm \<Rightarrow> js_error + 'm) \<Rightarrow> fee_group list \<Rightarrow> 'm \<Rightarrow> js_error + 'm" where
  "fold_rows f [] m = Inr m"
| "fold_rows f (r # rs) m = (case f r m of Inl e \<Rightarrow> Inl e | Inr m' \<Rightarrow> fold_rows f rs m')"

definition pg_listNetworkFeeDailySnapshots :: "nat option \<Rightarrow> pg_db \<Rightarrow> js_error + network_fee_snapshot list" where
  "pg_listNetworkFeeDailySnapshots days db =
     (let dayLimit = coalesce days 7 in
      case fold_rows add_actual_row (actual_fee_rows dayLimit db) [] of
        Inl e \<Rightarrow> Inl e
      | Inr actual \<Rightarrow>
          (case fold_rows add_ledger_row (ledger_fee_rows dayLimit db) actual of
             Inl e \<Rightarrow> Inl e
           | Inr both \<Rightarrow>
               Inr (take dayLimit (sort_desc fs_snapshotDate
                 (map (\<lambda>x. x\<lparr>fs_gapFeeSun := fs_actualFeeSun x - fs_ledgerFeeSun x\<rparr>) (map_values both))))))"

end
