(* ===== verification/PgOutbox.thy ===== *)
theory PgOutbox
  imports PgQueues
begin

text \<open>
  The outbox and the bookkeeping of event consumers in \<open>PostgresLedgerRepository\<close>.  The changes of one
  event are those of \<open>LedgerOutbox\<close> where the two classes write the same columns; an error text is cut
  to 1,000 characters here.  A \<open>limit\<close> is a natural number, as PostgreSQL refuses a negative one.
\<close>

section \<open>Outbox\<close>

definition pg_claimPendingOutboxEvents :: "nat \<Rightarrow> string \<Rightarrow> pg_db \<Rightarrow> outbox_event list \<times> pg_db" where
  "pg_claimPendingOutboxEvents limit nowIso db =
     (let rows = take limit (sort_asc (\<lambda>x. ob_createdAt (snd x))
            (filter (\<lambda>x. ob_status (snd x) = OB_pending \<and> ob_availableAt (snd x) \<le> nowIso) (db_outbox db)))
      in (map (\<lambda>x. claim_event nowIso (snd x)) rows,
          db\<lparr>db_outbox := write_entries (map fst rows) (claim_event nowIso) (db_outbox db)\<rparr>))"

text \<open>\<open>update outbox_events set ... where outbox_event_id = ...\<close>.\<close>

definition update_outbox_row :: "string \<Rightarrow> (outbox_event \<Rightarrow> outbox_event) \<Rightarrow> pg_db \<Rightarrow> pg_db" where
  "update_outbox_row outboxEventId f db =
     (case map_get (db_outbox db) outboxEventId of
        None \<Rightarrow> db
      | Some e \<Rightarrow> db\<lparr>db_outbox := map_set outboxEventId (f e) (db_outbox db)\<rparr>)"

definition pg_markOutboxEventPublished :: "string \<Rightarrow> string \<Rightarrow> pg_db \<Rightarrow> pg_db" where
  "pg_markOutboxEventPublished outboxEventId nowIso = update_outbox_row outboxEventId (publish_event nowIso)"

definition pg_rescheduleOutboxEvent :: "string \<Rightarrow> string \<Rightarrow> string \<Rightarrow> pg_db \<Rightarrow> pg_db" where
  "pg_rescheduleOutboxEvent outboxEventId err availableAt =
     update_outbox_row outboxEventId
       (\<lambda>e. (reschedule_event (take 1000 err) availableAt e)\<lparr>ob_deadLetteredAt := None\<rparr>)"

definition pg_deadLetterOutboxEvent :: "string \<Rightarrow> string \<Rightarrow> string \<Rightarrow> pg_db \<Rightarrow> pg_db" where
  "pg_deadLetterOutboxEvent outboxEventId err deadLetteredAt =
     update_outbox_row outboxEventId (dead_letter_event (take 1000 err) deadLetteredAt)"

definition pg_listOutboxEvents :: "outbox_status option \<Rightarrow> nat option \<Rightarrow> pg_db \<Rightarrow> outbox_event list" where
  "pg_listOutboxEvents status limit db =
     take (coalesce limit 100) (sort_desc ob_createdAt
       (filter (\<lambda>e. matches status (ob_status e)) (map_values (db_outbox db))))"

fun min_of :: "string list \<Rightarrow> string option" where
  "min_of [] = None"
| "min_of (x # xs) = Some (fold min xs x)"

text \<open>The rows of the query grouped by status; a status without events has no row, and its fields
  keep their initial values.\<close>

definition pg_getOutboxEventSummary :: "pg_db \<Rightarrow> outbox_summary" where
  "pg_getOutboxEventSummary db =
     (let events = map_values (db_outbox db);
          rows = (\<lambda>st. filter (\<lambda>e. ob_status e = st) events);
          acked = (\<lambda>es. length (filter (\<lambda>e. ob_deadLetterAcknowledgedAt e \<noteq> None) es))
      in \<lparr>os_pendingCount = length (rows OB_pending),
          os_processingCount = length (rows OB_processing),
          os_publishedCount = length (rows OB_published),
          os_deadLetteredCount = length (rows OB_dead_lettered),
          os_deadLetterAcknowledgedCount = acked (rows OB_dead_lettered),
          os_deadLetterUnacknowledgedCount = length (rows OB_dead_lettered) - acked (rows OB_dead_lettered),
          os_oldestPendingCreatedAt = min_of (map ob_createdAt (rows OB_pending)),
          os_oldestDeadLetteredAt = min_of (List.map_filter ob_deadLetteredAt (rows OB_dead_lettered))\<rparr>)"

text \<open>\<open>if (input.outboxEventIds?.length)\<close> and \<open>input.limit ?? (input.outboxEventIds?.length ?? 100)\<close>:
  an empty list of ids selects every event, but with the limit 0.\<close>

definition row_limit :: "nat option \<Rightarrow> string list option \<Rightarrow> nat" where
  "row_limit limit ids = coalesce limit (coalesce (map_option length ids) 100)"

definition id_selected :: "string list option \<Rightarrow> string \<Rightarrow> bool" where
  "id_selected ids i = (case ids of None \<Rightarrow> True | Some xs \<Rightarrow> xs = [] \<or> i \<in> set xs)"

text \<open>The shape of the bulk updates: select rows, update those selected, count them.\<close>

definition update_outbox_rows :: "(string \<times> outbox_event) list \<Rightarrow> (outbox_event \<Rightarrow> outbox_event) \<Rightarrow> pg_db
    \<Rightarrow> nat \<times> pg_db" where
  "update_outbox_rows rows f db =
     (if rows = [] then (0, db)
      else (length rows, db\<lparr>db_outbox := write_entries (map fst rows) f (db_outbox db)\<rparr>))"

definition pg_replayOutboxEvents :: "string list option \<Rightarrow> outbox_status option \<Rightarrow> nat option \<Rightarrow> string \<Rightarrow> pg_db
    \<Rightarrow> nat \<times> pg_db" where
  "pg_replayOutboxEvents ids status limit nowIso db =
     update_outbox_rows
       (take (row_limit limit ids) (sort_asc (\<lambda>x. ob_createdAt (snd x))
         (filter (\<lambda>x. matches status (ob_status (snd x)) \<and> id_selected ids (fst x)) (db_outbox db))))
       (replay_event nowIso) db"

definition pg_acknowledgeDeadLetterOutboxEvents :: "acknowledge_input \<Rightarrow> string \<Rightarrow> pg_db \<Rightarrow> nat \<times> pg_db" where
  "pg_acknowledgeDeadLetterOutboxEvents inp nowIso db =
     update_outbox_rows
       (take (row_limit (map_option nat (ak_limit inp)) (ak_outboxEventIds inp)) (sort_asc (\<lambda>x. ob_createdAt (snd x))
         (filter (\<lambda>x. ob_status (snd x) = OB_dead_lettered \<and> ob_deadLetterAcknowledgedAt (snd x) = None \<and>
                      id_selected (ak_outboxEventIds inp) (fst x)) (db_outbox db))))
       (acknowledge_event inp nowIso) db"

text \<open>The threshold \<open>toISOString()\<close> throws on an unparsable date.\<close>

definition pg_recoverStaleProcessingOutboxEvents :: "int \<Rightarrow> string \<Rightarrow> (pg_db, nat) act" where
  "pg_recoverStaleProcessingOutboxEvents timeoutSec nowIso db =
     (case date_parse nowIso of
        None \<Rightarrow> (Inl (RangeError ''Invalid time value''), db)
      | Some now \<Rightarrow>
          (case update_outbox_rows
                  (filter (\<lambda>x. ob_status (snd x) = OB_processing \<and>
                     (case ob_processingStartedAt (snd x) of None \<Rightarrow> False
                      | Some t \<Rightarrow> t \<le> toISOString (now - timeoutSec * 1000))) (db_outbox db))
                  (recover_event nowIso) db of
             (n, db') \<Rightarrow> (Inr n, db')))"

section \<open>Event consumers\<close>

definition pg_appendEventConsumerAttempt :: "ledger_cfg \<Rightarrow> attempt_input \<Rightarrow> string \<Rightarrow> pg_db \<Rightarrow> consumer_attempt \<times> pg_db" where
  "pg_appendEventConsumerAttempt cfg inp nowIso db =
     (let row = \<lparr>ca_attemptId = newUuid cfg db, ca_eventKey = at_eventKey inp,
            ca_eventType = at_eventType inp, ca_consumerName = at_consumerName inp,
            ca_status = at_status inp, ca_attemptNumber = at_attemptNumber inp,
            ca_aggregateId = at_aggregateId inp, ca_errorMessage = at_errorMessage inp,
            ca_durationMs = at_durationMs inp, ca_createdAt = nowIso\<rparr>
      in (row, db\<lparr>db_uuids := Suc (db_uuids db), db_attempts := db_attempts db @ [row]\<rparr>))"

definition pg_appendEventConsumerDeadLetter :: "ledger_cfg \<Rightarrow> dead_letter_input \<Rightarrow> string \<Rightarrow> pg_db
    \<Rightarrow> consumer_dead_letter \<times> pg_db" where
  "pg_appendEventConsumerDeadLetter cfg inp nowIso db =
     (let row = \<lparr>cd_deadLetterId = newUuid cfg db, cd_eventKey = dl_eventKey inp,
            cd_eventType = dl_eventType inp, cd_consumerName = dl_consumerName inp,
            cd_aggregateId = dl_aggregateId inp, cd_payload = dl_payload inp,
            cd_errorMessage = dl_errorMessage inp, cd_failedAt = nowIso\<rparr>
      in (row, db\<lparr>db_uuids := Suc (db_uuids db), db_deadLetters := db_deadLetters db @ [row]\<rparr>))"

definition pg_listEventConsumerAttempts :: "string option \<Rightarrow> string option \<Rightarrow> attempt_status option \<Rightarrow> nat option
    \<Rightarrow> pg_db \<Rightarrow> consumer_attempt list" where
  "pg_listEventConsumerAttempts consumerName eventType status limit db =
     take (coalesce limit 100) (sort_desc ca_createdAt
       (filter (\<lambda>x. matches_str consumerName (ca_consumerName x) \<and> matches_str eventType (ca_eventType x) \<and>
                    matches status (ca_status x)) (db_attempts db)))"

definition pg_listEventConsumerDeadLetters :: "string option \<Rightarrow> string option \<Rightarrow> nat option \<Rightarrow> pg_db
    \<Rightarrow> consumer_dead_letter list" where
  "pg_listEventConsumerDeadLetters consumerName eventType limit db =
     take (coalesce limit 100) (sort_desc cd_failedAt
       (filter (\<lambda>x. matches_str consumerName (cd_consumerName x) \<and> matches_str eventType (cd_eventType x))
         (db_deadLetters db)))"

definition checkpoint_for :: "string \<Rightarrow> string \<Rightarrow> consumer_checkpoint \<Rightarrow> bool" where
  "checkpoint_for consumerName eventKey c = (cc_consumerName c = consumerName \<and> cc_eventKey c = eventKey)"

definition pg_hasSucceededEventConsumerCheckpoint :: "string \<Rightarrow> string \<Rightarrow> pg_db \<Rightarrow> bool" where
  "pg_hasSucceededEventConsumerCheckpoint consumerName eventKey db =
     (map_option cc_lastStatus (find (checkpoint_for consumerName eventKey) (db_checkpoints db)) = Some CS_succeeded)"

text \<open>The primary key is the pair of the consumer's name and the event's key.\<close>

definition pg_upsertEventConsumerCheckpoint :: "string \<Rightarrow> string \<Rightarrow> string \<Rightarrow> string option \<Rightarrow> checkpoint_status
    \<Rightarrow> string \<Rightarrow> pg_db \<Rightarrow> pg_db" where
  "pg_upsertEventConsumerCheckpoint consumerName eventKey eventType aggregateId lastStatus nowIso db =
     (if list_ex (checkpoint_for consumerName eventKey) (db_checkpoints db)
      then db\<lparr>db_checkpoints := map (\<lambda>c. if checkpoint_for consumerName eventKey c
             then c\<lparr>cc_eventType := eventType, cc_aggregateId := aggregateId, cc_lastStatus := lastStatus,
                    cc_lastProcessedAt := nowIso\<rparr> else c) (db_checkpoints db)\<rparr>
      else db\<lparr>db_checkpoints := db_checkpoints db @
             [\<lparr>cc_consumerName = consumerName, cc_eventKey = eventKey, cc_eventType = eventType,
               cc_aggregateId = aggregateId, cc_lastStatus = lastStatus, cc_firstProcessedAt = nowIso,
               cc_lastProcessedAt = nowIso\<rparr>]\<rparr>)"

end
