(* ===== verification/PgMachine.thy ===== *)
theory PgMachine
  imports PgOperations PgOutbox
begin

text \<open>
  The Postgres ledger as a state machine: one rule per method of \<open>PostgresLedgerRepository\<close> that
  writes, each a transaction of its own.  The amount of a finalized settlement is non-negative, as
  \<open>parseKoriAmount\<close> guarantees; nothing is asked of the other amounts.  Every reachable database
  satisfies \<open>pg_inv\<close>.
\<close>

section \<open>The tables without money\<close>

lemma same_money_update_outbox_row [simp]: "same_money db (update_outbox_row i f db)"
  by (simp add: update_outbox_row_def same_money_def split: option.split)

lemma same_money_update_outbox_rows [simp]: "same_money db (snd (update_outbox_rows rs f db))"
  by (simp add: update_outbox_rows_def same_money_def)

lemma same_money_update_job [simp]: "same_money db (snd (update_job i f db))"
  by (simp add: update_job_def same_money_def split: option.split)

lemma same_money_update_sweep_row [simp]: "same_money db (snd (update_sweep_row i a m f db))"
  by (simp add: update_sweep_row_def same_money_def split: option.split)

lemma same_money_queues:
  "same_money db (snd (pg_enqueueJob cfg ty p now db))"
  "same_money db (snd (pg_claimPendingJobs tys n db))"
  "same_money db (pg_markJobDone i db)"
  "same_money db (pg_markJobFailed i db)"
  "same_money db (snd (pg_retryJob i db))"
  "same_money db (snd (pg_appendAuditLog cfg au now db))"
  by (simp_all add: pg_enqueueJob_def pg_claimPendingJobs_def pg_markJobDone_def pg_markJobFailed_def
      pg_retryJob_def pg_appendAuditLog_def Let_def) (simp_all add: same_money_def)

lemma same_money_sweeps:
  "same_money db (snd (pg_createSweepRecord cfg si now db))"
  "same_money db (snd (pg_markSweepQueued i note now db))"
  "same_money db (snd (pg_recordSweepAttempt i note now db))"
  "same_money db (snd (pg_markSweepBroadcasted i h note now db))"
  "same_money db (snd (pg_failSweep i reason now db))"
  by (simp_all add: pg_markSweepQueued_def pg_recordSweepAttempt_def pg_markSweepBroadcasted_def pg_failSweep_def)
    (simp_all add: pg_createSweepRecord_def Let_def same_money_def split: option.split)

lemma same_money_outbox:
  "same_money db (snd (pg_claimPendingOutboxEvents m now db))"
  "same_money db (pg_markOutboxEventPublished i now db)"
  "same_money db (pg_rescheduleOutboxEvent i err av db)"
  "same_money db (pg_deadLetterOutboxEvent i err av db)"
  "same_money db (snd (pg_replayOutboxEvents ids st lm now db))"
  "same_money db (snd (pg_acknowledgeDeadLetterOutboxEvents ak now db))"
  by (simp_all add: pg_markOutboxEventPublished_def pg_rescheduleOutboxEvent_def pg_deadLetterOutboxEvent_def
      pg_replayOutboxEvents_def pg_acknowledgeDeadLetterOutboxEvents_def)
    (simp add: pg_claimPendingOutboxEvents_def Let_def same_money_def)

lemma same_money_recover: "same_money db (snd (pg_recoverStaleProcessingOutboxEvents tmo now db))"
proof -
  have "same_money db (snd (case update_outbox_rows rs f db of (n, db') \<Rightarrow> (Inr n :: js_error + nat, db')))" for rs f
    using same_money_update_outbox_rows [of db rs f] by (cases "update_outbox_rows rs f db") simp
  then show ?thesis
    unfolding pg_recoverStaleProcessingOutboxEvents_def by (cases "date_parse now") simp_all
qed

lemma same_money_consumers:
  "same_money db (snd (pg_appendEventConsumerAttempt cfg atin now db))"
  "same_money db (snd (pg_appendEventConsumerDeadLetter cfg dlin now db))"
  "same_money db (pg_upsertEventConsumerCheckpoint c k et ag cst now db)"
  by (simp_all add: pg_appendEventConsumerAttempt_def pg_appendEventConsumerDeadLetter_def
      pg_upsertEventConsumerCheckpoint_def Let_def same_money_def)

lemma same_money_device: "same_money db (pg_upsertOfflinePayDevice dvin now db)"
  by (simp add: pg_upsertOfflinePayDevice_def Let_def same_money_def)

lemmas money_untouched = same_money_queues same_money_sweeps same_money_outbox same_money_recover
  same_money_consumers same_money_device

section \<open>Sweep fees and the rebuilding of the accounts table\<close>

lemma same_money_fee_receipt: "same_money db (pg_persistNetworkFeeReceipt cfg r i fee now db)"
  by (simp add: pg_persistNetworkFeeReceipt_def Let_def same_money_def)

lemma sync_nobody [simp]: "pg_syncUserAccountProjection [] now db = db"
  by (simp add: pg_syncUserAccountProjection_def)

lemma pg_inv_system_journal:
  assumes "pg_inv cfg db" and "uuid_ok cfg" and "balanced (ji_postings inp)" and "\<And>u. \<not> posts_on u (ji_postings inp)"
  shows "pg_inv cfg (pg_appendJournal cfg inp now db)"
  using pg_inv_post [of cfg db inp "[]" now] assms by (simp add: not_posts_on)

text \<open>A confirmed sweep is an update of its row and, with a fee, a receipt and a journal.\<close>

lemma confirmSweep_keeps:
  assumes "\<And>a m f. P (snd (update_sweep_row i a m f db))"
    and "\<And>d h n fee. P d \<Longrightarrow> P (pg_appendJournal cfg (sweep_fee_journal i h n) now (pg_persistNetworkFeeReceipt cfg FR_sweep i fee now d))"
  shows "P (snd (pg_confirmSweep cfg i payload now db))"
proof -
  obtain r db1 where upd: "update_sweep_row i {SW_planned, SW_broadcasted} ''sweep must be planned or broadcasted''
             (\<lambda>w. w\<lparr>sw_status := SW_confirmed, sw_note := coalesce_opt (Option.bind payload sf_note) (sw_note w),
                    sw_confirmedAt := Some now\<rparr>) db = (r, db1)" (is "?upd = _")
    by (cases ?upd)
  have "P (snd ?upd)" by (rule assms(1))
  then have "P db1" unfolding upd snd_conv .
  with assms(2) show ?thesis
    unfolding pg_confirmSweep_def upd
    by (cases r; cases "Option.bind payload sf_networkFee") simp_all
qed

lemma pg_inv_confirmSweep:
  assumes "pg_inv cfg db" and "uuid_ok cfg"
  shows "pg_inv cfg (snd (pg_confirmSweep cfg i payload now db))"
proof (rule confirmSweep_keeps)
  show "pg_inv cfg (snd (update_sweep_row i a m f db))" for a m f
    by (rule pg_inv_same_money [OF assms(1) same_money_update_sweep_row])
  show "pg_inv cfg (pg_appendJournal cfg (sweep_fee_journal i h n) now (pg_persistNetworkFeeReceipt cfg FR_sweep i fee now d))"
    if "pg_inv cfg d" for d h n fee
    by (rule pg_inv_system_journal [OF pg_inv_same_money [OF that same_money_fee_receipt] assms(2)])
      (simp_all add: sweep_fee_journal_def)
qed

lemma shown_sync_shown: "(\<And>u. shown db u) \<Longrightarrow> shown (pg_syncUserAccountProjection us now db) v"
  by (rule shown_sync(1)) blast

lemma pg_inv_sync:
  assumes "pg_inv cfg db"
  shows "pg_inv cfg (pg_syncUserAccountProjection us now db)"
proof (rule pg_invI)
  show "books_balance cfg (pg_syncUserAccountProjection us now db)"
    by (rule books_balance_cong [OF pg_invD(1) [OF assms]]) simp_all
  show "shown (pg_syncUserAccountProjection us now db) u" for u
    using pg_invD(2) [OF assms] by (rule shown_sync_shown)
  show "net (withdrawPendingCode u) (db_postings (pg_syncUserAccountProjection us now db))
      = pending_of u (pg_syncUserAccountProjection us now db)" for u
    using pg_invD(3) [OF assms] by (simp add: pending_of_def)
  show "rows_ok cfg (pg_syncUserAccountProjection us now db)"
    using pg_invD(4) [OF assms] by (simp add: rows_ok_def pg_getApprovalCount_def)
qed

lemma pg_inv_fold_sync: "pg_inv cfg db \<Longrightarrow> pg_inv cfg (fold (\<lambda>u. pg_syncUserAccountProjection [u] now) us db)"
  by (induction us arbitrary: db) (simp_all add: pg_inv_sync)

lemma pg_inv_rebuild: "pg_inv cfg db \<Longrightarrow> pg_inv cfg (snd (pg_rebuildAccountProjections now db))"
  by (simp add: pg_rebuildAccountProjections_def pg_inv_fold_sync)

section \<open>The machine\<close>

inductive pg_step :: "ledger_cfg \<Rightarrow> pg_db \<Rightarrow> pg_db \<Rightarrow> bool" for cfg where
  pstep_getAccount: "pg_step cfg db (snd (pg_getAccount u now db))"
| pstep_getAccountByWalletAddress: "pg_step cfg db (snd (pg_getAccountByWalletAddress a now db))"
| pstep_bindWalletAddress: "pg_step cfg db (snd (pg_bindWalletAddress u a now db))"
| pstep_applyDeposit: "pg_step cfg db (snd (pg_applyDeposit cfg dinp now db))"
| pstep_completeDeposit: "pg_step cfg db (snd (pg_completeDeposit i db))"
| pstep_applyExternalCredit: "pg_step cfg db (snd (pg_applyExternalCredit cfg cinp now db))"
| pstep_transfer: "pg_step cfg db (snd (pg_transfer cfg f g amount key now db))"
| pstep_request: "pg_step cfg db (snd (pg_requestWithdrawal cfg winp now db))"
| pstep_externalAuth: "pg_step cfg db (snd (pg_confirmWithdrawalExternalAuth cfg i p r now db))"
| pstep_review: "pg_step cfg db (snd (pg_markWithdrawalReviewRequired cfg i now db))"
| pstep_approve: "pg_step cfg db (snd (pg_approveWithdrawal cfg i ainp now db))"
| pstep_broadcast: "pg_step cfg db (snd (pg_broadcastWithdrawal cfg i h now db))"
| pstep_confirm: "pg_step cfg db (snd (pg_confirmWithdrawal cfg i fee now db))"
| pstep_fail: "pg_step cfg db (snd (pg_failWithdrawal cfg i reason now db))"
| pstep_lock: "pg_step cfg db (snd (pg_lockOfflinePayCollateral cfg lkinp now db))"
| pstep_release: "pg_step cfg db (snd (pg_releaseOfflinePayCollateral cfg riinp now db))"
| pstep_device: "pg_step cfg db (pg_upsertOfflinePayDevice dvinp now db)"
| pstep_finalize: "0 \<le> se_amount seinp \<Longrightarrow> pg_step cfg db (snd (pg_finalizeOfflinePaySettlement cfg seinp now db))"
| pstep_compensate: "pg_step cfg db (snd (pg_compensateOfflinePaySettlement cfg cpinp now db))"
| pstep_reconcileUser: "pg_step cfg db (snd (pg_reconcileOfflinePayUserBalance cfg u target now db))"
| pstep_reconcilePending: "pg_step cfg db (snd (pg_reconcileOfflinePayPendingBalance cfg u target basis now db))"
| pstep_rebuild: "pg_step cfg db (snd (pg_rebuildAccountProjections now db))"
| pstep_enqueueJob: "pg_step cfg db (snd (pg_enqueueJob cfg ty p' now db))"
| pstep_claimPendingJobs: "pg_step cfg db (snd (pg_claimPendingJobs tys n db))"
| pstep_markJobDone: "pg_step cfg db (pg_markJobDone i db)"
| pstep_markJobFailed: "pg_step cfg db (pg_markJobFailed i db)"
| pstep_retryJob: "pg_step cfg db (snd (pg_retryJob i db))"
| pstep_appendAuditLog: "pg_step cfg db (snd (pg_appendAuditLog cfg auinp now db))"
| pstep_createSweepRecord: "pg_step cfg db (snd (pg_createSweepRecord cfg sinp now db))"
| pstep_markSweepQueued: "pg_step cfg db (snd (pg_markSweepQueued i note now db))"
| pstep_recordSweepAttempt: "pg_step cfg db (snd (pg_recordSweepAttempt i note now db))"
| pstep_markSweepBroadcasted: "pg_step cfg db (snd (pg_markSweepBroadcasted i h note now db))"
| pstep_confirmSweep: "pg_step cfg db (snd (pg_confirmSweep cfg i sc now db))"
| pstep_failSweep: "pg_step cfg db (snd (pg_failSweep i reason now db))"
| pstep_claimOutbox: "pg_step cfg db (snd (pg_claimPendingOutboxEvents m now db))"
| pstep_publishedOutbox: "pg_step cfg db (pg_markOutboxEventPublished i now db)"
| pstep_rescheduleOutbox: "pg_step cfg db (pg_rescheduleOutboxEvent i err av db)"
| pstep_deadLetterOutbox: "pg_step cfg db (pg_deadLetterOutboxEvent i err av db)"
| pstep_replayOutbox: "pg_step cfg db (snd (pg_replayOutboxEvents ids st lm now db))"
| pstep_recoverOutbox: "pg_step cfg db (snd (pg_recoverStaleProcessingOutboxEvents tmo now db))"
| pstep_acknowledgeOutbox: "pg_step cfg db (snd (pg_acknowledgeDeadLetterOutboxEvents akinp now db))"
| pstep_consumerAttempt: "pg_step cfg db (snd (pg_appendEventConsumerAttempt cfg atinp now db))"
| pstep_consumerDeadLetter: "pg_step cfg db (snd (pg_appendEventConsumerDeadLetter cfg dlinp now db))"
| pstep_consumerCheckpoint: "pg_step cfg db (pg_upsertEventConsumerCheckpoint c k et ag cst now db)"

lemmas pg_inv_operations = pg_inv_getAccount pg_inv_getAccountByWalletAddress pg_inv_bindWalletAddress
  pg_inv_applyDeposit pg_inv_completeDeposit pg_inv_applyExternalCredit pg_inv_transfer pg_inv_request
  pg_inv_externalAuth pg_inv_review pg_inv_approve pg_inv_broadcast pg_inv_confirm pg_inv_fail pg_inv_lock
  pg_inv_release pg_inv_finalize pg_inv_compensate pg_inv_reconcileUser pg_inv_reconcilePending
  pg_inv_rebuild pg_inv_confirmSweep

lemma pg_inv_step:
  assumes "pg_step cfg db db'" and "uuid_ok cfg" and "pg_inv cfg db"
  shows "pg_inv cfg db'"
  using assms by cases (blast intro: pg_inv_operations money_untouched pg_inv_same_money)+

lemma pg_inv_empty: "pg_inv cfg empty_db"
  by (simp add: pg_inv_def books_balance_def shown_def rows_ok_def pending_of_def empty_db_def
      sum_vals_def map_wf_def map_get_def)

interpretation pm: invariant_system "\<lambda>db. db = empty_db"
    "\<lambda>db db'. uuid_ok cfg \<and> pg_step cfg db db'" "pg_inv cfg" for cfg
  by unfold_locales (auto intro: pg_inv_empty pg_inv_step)

definition pg_steps :: "ledger_cfg \<Rightarrow> pg_db \<Rightarrow> pg_db \<Rightarrow> bool" where
  "pg_steps cfg = (pg_step cfg)\<^sup>*\<^sup>*"

definition reachable_db :: "ledger_cfg \<Rightarrow> pg_db \<Rightarrow> bool" where
  "reachable_db cfg db = (uuid_ok cfg \<and> pg_steps cfg empty_db db)"

lemma reachable_db_inv: "reachable_db cfg db \<Longrightarrow> pg_inv cfg db"
  using pm.inv_reachable [OF refl, of cfg db] by (auto simp: reachable_db_def pg_steps_def)

lemma reachable_db_empty: "uuid_ok cfg \<Longrightarrow> reachable_db cfg empty_db"
  by (simp add: reachable_db_def pg_steps_def)

lemma reachable_db_step: "reachable_db cfg db \<Longrightarrow> pg_step cfg db db' \<Longrightarrow> reachable_db cfg db'"
  by (auto simp: reachable_db_def pg_steps_def intro: rtranclp.rtrancl_into_rtrancl)

lemma reachable_db_uuid: "reachable_db cfg db \<Longrightarrow> uuid_ok cfg"
  by (simp add: reachable_db_def)

end
