(* ===== verification/AccountBook.thy ===== *)
theory AccountBook
  imports PgMachine LedgerProperties
begin

text \<open>
  What a ledger owes to its users, as an abstract book of available and reserved amounts, and the
  contract \<open>account_book\<close> between the book and an implementation of the operations that both
  \<open>InMemoryLedger\<close> and \<open>PostgresLedgerRepository\<close> offer (\<open>LedgerRepository\<close> in
  \<open>application/ports/ledger-repository.ts\<close>): an operation that succeeds makes one entry in the book, or
  none when it was a repetition.  Both classes satisfy the contract.
\<close>

section \<open>The book\<close>

type_synonym book = "string \<Rightarrow> int \<times> int"

datatype book_entry =
    Credit string int
  | Move string string int
  | Reserve string int
  | Settle string int
  | Refund string int

fun enter :: "book_entry \<Rightarrow> book \<Rightarrow> book" where
  "enter (Credit u a) b = b(u := (fst (b u) + a, snd (b u)))"
| "enter (Move f g a) b =
     (let b' = b(f := (fst (b f) - a, snd (b f))) in b'(g := (fst (b' g) + a, snd (b' g))))"
| "enter (Reserve u a) b = b(u := (fst (b u) - a, snd (b u) + a))"
| "enter (Settle u a) b = b(u := (fst (b u), snd (b u) - a))"
| "enter (Refund u a) b = b(u := (fst (b u) + a, snd (b u) - a))"

text \<open>The decision about a transfer under a new idempotency key.\<close>

definition transfer_decision :: "string \<Rightarrow> string \<Rightarrow> int \<Rightarrow> book \<Rightarrow> js_error option" where
  "transfer_decision f g amount b =
     (if f = g then Some (DomainError 400 ''VALIDATION_ERROR'' ''fromUserId and toUserId must be different'')
      else if fst (b f) < amount
      then Some (DomainError 400 ''INSUFFICIENT_BALANCE'' ''insufficient balance for transfer'')
      else None)"

definition refusal :: "js_error + 'a \<Rightarrow> js_error option" where
  "refusal r = (case r of Inl e \<Rightarrow> Some e | Inr _ \<Rightarrow> None)"

lemma refusal_simps [simp]: "refusal (Inl e) = Some e" "refusal (Inr x) = None"
  by (simp_all add: refusal_def)

section \<open>The contract\<close>

locale account_book =
  fixes good :: "'s \<Rightarrow> bool"
    and view :: "'s \<Rightarrow> book"
    and known :: "string \<Rightarrow> 's \<Rightarrow> bool"
    and fits :: "string \<Rightarrow> string \<Rightarrow> int \<Rightarrow> string \<Rightarrow> bool"
    and deposit :: "deposit_input \<Rightarrow> string \<Rightarrow> ('s, deposit_apply_result) act"
    and move :: "string \<Rightarrow> string \<Rightarrow> int \<Rightarrow> string \<Rightarrow> string \<Rightarrow> ('s, transfer_result) act"
    and request :: "withdrawal_input \<Rightarrow> string \<Rightarrow> ('s, withdrawal_request_result) act"
    and settle :: "string \<Rightarrow> network_fee option \<Rightarrow> string \<Rightarrow> ('s, withdrawal) act"
    and abandon :: "string \<Rightarrow> string \<Rightarrow> string \<Rightarrow> ('s, withdrawal) act"
  assumes deposit_enters: "good s \<Longrightarrow> deposit inp now s = (Inr d, t)
      \<Longrightarrow> view t = (if dr_duplicated d then view s else enter (Credit (di_userId inp) (di_amount inp)) (view s))"
    and move_enters: "good s \<Longrightarrow> move f g a key now s = (Inr r, t)
      \<Longrightarrow> view t = (if tr_duplicated r then view s else enter (Move f g a) (view s))"
    and move_decides: "good s \<Longrightarrow> \<not> known key s \<Longrightarrow> fits f g a key \<Longrightarrow> refusal (fst (move f g a key now s)) = transfer_decision f g a (view s)"
    and request_enters: "good s \<Longrightarrow> request winp now s = (Inr q, t)
      \<Longrightarrow> view t = (if wr_duplicated q then view s else enter (Reserve (wi_userId winp) (wi_amount winp)) (view s))"
    and settle_enters: "good s \<Longrightarrow> settle i fee now s = (Inr w, t) \<Longrightarrow> view t = enter (Settle (wd_userId w) (wd_amount w)) (view s)"
    and abandon_enters: "good s \<Longrightarrow> abandon i reason now s = (Inr w, t)
      \<Longrightarrow> view t = enter (Refund (wd_userId w) (wd_amount w)) (view s)"
begin

text \<open>The total a user is owed changes only by credits, transfers and settlements.\<close>

lemma request_keeps_total:
  assumes "good s" and "request winp now s = (Inr q, t)"
  shows "fst (view t u) + snd (view t u) = fst (view s u) + snd (view s u)"
  using request_enters [OF assms] by auto

lemma abandon_keeps_total:
  assumes "good s" and "abandon i reason now s = (Inr w, t)"
  shows "fst (view t u) + snd (view t u) = fst (view s u) + snd (view s u)"
  using abandon_enters [OF assms] by auto

end

section \<open>The in-memory ledger\<close>

definition memory_book :: "ledger \<Rightarrow> book" where
  "memory_book s = (\<lambda>u. (balance_of s u, locked_of s u))"

lemma memory_book_cong: "accounts t = accounts s \<Longrightarrow> memory_book t = memory_book s"
  by (simp add: memory_book_def balance_of_def locked_of_def)

lemma memory_book_same_core: "same_core s t \<Longrightarrow> memory_book t = memory_book s"
  by (simp add: memory_book_def balances_same_core)

lemma memory_book_write:
  "accounts t = map_set u a (accounts s)
   \<Longrightarrow> memory_book t = (memory_book s)(u := (acc_balance a, acc_lockedBalance a))"
  by (auto simp: memory_book_def balance_of_def locked_of_def)

lemma publish_accounts: "publishWithdrawal cfg i w now r s = (q, t) \<Longrightarrow> accounts t = accounts s"
  using same_core_publish [of s cfg i w now r] by (simp add: same_core_def core_def)

lemma enqueue_accounts [simp]: "accounts (enqueueOutboxEvent cfg et aty aid p n s) = accounts s"
  using same_core_enqueue [of s cfg et aty aid p n] by (simp add: same_core_def core_def)

lemma memory_deposit:
  assumes "applyDeposit cfg inp now s = (Inr r, t)"
  shows "memory_book t = (if dr_duplicated r then memory_book s
     else enter (Credit (di_userId inp) (di_amount inp)) (memory_book s))"
proof (cases "map_get (depositsByTxHash s) (di_txHash inp)")
  case None
  with assms have "accounts t = map_set (di_userId inp) ((account_for (di_userId inp) now s)
       \<lparr>acc_balance := balance_of s (di_userId inp) + di_amount inp, acc_updatedAt := now\<rparr>) (accounts s)
     \<and> \<not> dr_duplicated r"
    by (auto simp: applyDeposit_def Let_def getMutableAccount_write split: sum.splits)
  then show ?thesis by (auto simp: memory_book_write) (auto simp: memory_book_def)
next
  case (Some d)
  with assms show ?thesis by (auto simp: applyDeposit_def)
qed

lemma memory_transfer:
  assumes "transfer cfg f g a key now s = (Inr r, t)"
  shows "memory_book t = (if tr_duplicated r then memory_book s else enter (Move f g a) (memory_book s))"
proof (cases "map_get (transferByIdempotencyKey s) key")
  case None
  with assms have ok: "f \<noteq> g" "a \<le> balance_of s f"
    by (auto simp: transfer_def getMutableAccount_write Let_def split: if_splits)
  with None have "t = transfer_state cfg f g a key now s" and "\<not> tr_duplicated r"
    using transfer_ok_state(1) [of s key f g a cfg now] assms
    by (auto simp: transfer_def getMutableAccount_write Let_def)
  moreover have "memory_book (transfer_state cfg f g a key now s) = enter (Move f g a) (memory_book s)"
    using ok(1) by (intro ext) (simp add: memory_book_def transfer_state_def balance_of_def locked_of_def
        write_account_def account_for_def createEmptyAccount_def coalesce_def val_or0_def split: option.split)
  ultimately show ?thesis by simp
next
  case (Some x)
  with assms show ?thesis by (auto simp: transfer_def split: option.splits)
qed

lemma memory_transfer_decision:
  assumes "map_get (transferByIdempotencyKey s) key = None"
  shows "refusal (fst (transfer cfg f g a key now s)) = transfer_decision f g a (memory_book s)"
  using assms by (simp add: transfer_def getMutableAccount_write Let_def transfer_decision_def memory_book_def)

lemma memory_request:
  assumes "requestWithdrawal cfg inp now s = (Inr q, t)"
  shows "memory_book t = (if wr_duplicated q then memory_book s
     else enter (Reserve (wi_userId inp) (wi_amount inp)) (memory_book s))"
proof (cases "request_admitted cfg inp now s")
  case True
  with assms request_admitted_result [OF this] have pub: "publishWithdrawal cfg (uuid cfg (uuidCount s + 1))
      (new_withdrawal inp (uuid cfg (uuidCount s + 1)) (uuid cfg (uuidCount s)) now) now
      \<lparr>wr_withdrawal = new_withdrawal inp (uuid cfg (uuidCount s + 1)) (uuid cfg (uuidCount s)) now, wr_duplicated = False\<rparr>
      (request_state cfg inp now s) = (Inr q, t)" by (simp add: Let_def)
  then have "\<not> wr_duplicated q" by (auto simp: publishWithdrawal_def split: sum.splits)
  moreover have "accounts t = map_set (wi_userId inp) ((account_for (wi_userId inp) now s)
       \<lparr>acc_balance := balance_of s (wi_userId inp) - wi_amount inp,
        acc_lockedBalance := locked_of s (wi_userId inp) + wi_amount inp, acc_updatedAt := now\<rparr>) (accounts s)"
    using publish_accounts [OF pub] by (simp add: request_state_def Let_def)
  ultimately show ?thesis by (auto simp: memory_book_write) (auto simp: memory_book_def)
next
  case False
  with assms have "wr_duplicated q" and "t = s"
    by (auto simp: requestWithdrawal_def request_admitted_def getMutableAccount_write Let_def
        split: option.splits if_splits)
  then show ?thesis by simp
qed

lemma memory_settle:
  assumes "ledger_inv cfg s" and "confirmWithdrawal cfg i fee now s = (Inr w, t)"
  shows "memory_book t = enter (Settle (wd_userId w) (wd_amount w)) (memory_book s)"
proof -
  from assms(2) obtain v where v: "map_get (withdrawals s) i = Some v" "wd_status v = TX_BROADCASTED"
    by (auto simp: confirmWithdrawal_def getMutableWithdrawal_def split: option.splits if_splits)
  obtain s4 where eff: "confirmWithdrawal cfg i fee now s
      = publishWithdrawal cfg i (v\<lparr>wd_status := COMPLETED, wd_confirmedAt := Some now\<rparr>) now
          (v\<lparr>wd_status := COMPLETED, wd_confirmedAt := Some now\<rparr>) s4"
    "accounts s4 = map_set (wd_userId v) ((account_for (wd_userId v) now s)
       \<lparr>acc_lockedBalance := locked_of s (wd_userId v) - wd_amount v, acc_updatedAt := now\<rparr>) (accounts s)"
    by (rule confirm_effect [OF assms(1) v])
  from eff(1) assms(2) have "w = v\<lparr>wd_status := COMPLETED, wd_confirmedAt := Some now\<rparr>" and "accounts t = accounts s4"
    by (auto simp: publishWithdrawal_def split: sum.splits)
  with eff(2) have "wd_userId w = wd_userId v" "wd_amount w = wd_amount v"
    "memory_book t = (memory_book s)(wd_userId v := (balance_of s (wd_userId v), locked_of s (wd_userId v) - wd_amount v))"
    by (simp_all add: memory_book_write)
  then show ?thesis by (simp add: memory_book_def)
qed

lemma memory_abandon:
  assumes "ledger_inv cfg s" and "failWithdrawal cfg i reason now s = (Inr w, t)"
  shows "memory_book t = enter (Refund (wd_userId w) (wd_amount w)) (memory_book s)"
proof -
  from assms(2) obtain v where v: "map_get (withdrawals s) i = Some v" "active_status (wd_status v)"
    by (auto simp: failWithdrawal_def getMutableWithdrawal_def split: option.splits if_splits)
  obtain s4 where eff: "failWithdrawal cfg i reason now s
      = publishWithdrawal cfg i (v\<lparr>wd_status := FAILED, wd_failedAt := Some now, wd_failReason := Some reason\<rparr>) now
          (v\<lparr>wd_status := FAILED, wd_failedAt := Some now, wd_failReason := Some reason\<rparr>) s4"
    "accounts s4 = map_set (wd_userId v) ((account_for (wd_userId v) now s)
       \<lparr>acc_lockedBalance := locked_of s (wd_userId v) - wd_amount v,
        acc_balance := balance_of s (wd_userId v) + wd_amount v, acc_updatedAt := now\<rparr>) (accounts s)"
    by (rule fail_effect [OF assms(1) v])
  from eff(1) assms(2) have "w = v\<lparr>wd_status := FAILED, wd_failedAt := Some now, wd_failReason := Some reason\<rparr>"
      and "accounts t = accounts s4"
    by (auto simp: publishWithdrawal_def split: sum.splits)
  with eff(2) have "wd_userId w = wd_userId v" "wd_amount w = wd_amount v"
    "memory_book t = (memory_book s)(wd_userId v := (balance_of s (wd_userId v) + wd_amount v, locked_of s (wd_userId v) - wd_amount v))"
    by (simp_all add: memory_book_write)
  then show ?thesis by (simp add: memory_book_def)
qed

interpretation mb: account_book "ledger_inv cfg" memory_book "\<lambda>key s. map_get (transferByIdempotencyKey s) key \<noteq> None" "\<lambda>_ _ _ _. True"
    "applyDeposit cfg" "transfer cfg" "requestWithdrawal cfg" "confirmWithdrawal cfg" "failWithdrawal cfg" for cfg
  by unfold_locales (rule memory_deposit memory_transfer memory_transfer_decision memory_request
    memory_settle memory_abandon; (assumption | simp))+

section \<open>The Postgres ledger\<close>

text \<open>What \<open>getAccount\<close> answers in a database whose accounts table shows the postings.\<close>

definition pg_book :: "pg_db \<Rightarrow> book" where
  "pg_book db = (\<lambda>u. (net (availableCode u) (db_postings db), locked_net u (db_postings db)))"

lemma pg_book_cong: "db_postings db' = db_postings db \<Longrightarrow> pg_book db' = pg_book db"
  by (simp add: pg_book_def)

lemma pg_book_sel [simp]:
  "pg_book (pg_syncUserAccountProjection us now db) = pg_book db"
  "pg_book (pg_enqueueOutboxEvent cfg et aty aid p n db) = pg_book db"
  "pg_book (pg_ensureAccount u now db) = pg_book db"
  "pg_book (db\<lparr>db_uuids := n'\<rparr>) = pg_book db"
  by (simp_all add: pg_book_def)

lemma pg_book_journal:
  "pg_book (pg_appendJournal cfg inp now db) =
     (\<lambda>u. (fst (pg_book db u) + delta (availableCode u) (ji_postings inp),
          snd (pg_book db u) + delta (withdrawPendingCode u) (ji_postings inp) + delta (offlinePayPendingCode u) (ji_postings inp)))"
  by (simp add: pg_book_def locked_net_def fun_eq_iff)

lemma withTransaction_InrD: "withTransaction work db = (Inr x, db') \<Longrightarrow> work db = (Inr x, db')"
  by (cases rule: withTransaction_cases [of work db]) simp_all

lemma shown_available:
  assumes "\<And>u. shown db u" and "map_get (db_accounts db) u = Some row"
  shows "availableBalance u row db = fst (pg_book db u)" "lockedBalance u row db = snd (pg_book db u)"
  using assms(1) [of u] assms(2)
  by (auto simp: shown_def availableBalance_def lockedBalance_def Let_def pg_book_def)

lemma ensured_account:
  assumes "pg_inv cfg db" and "pg_getAccountForUpdate u db = Inr row"
  shows "availableBalance u row db = fst (pg_book db u)" "lockedBalance u row db = snd (pg_book db u)"
  using assms shown_available [OF pg_invD(2) [OF assms(1)]]
  by (auto simp: pg_getAccountForUpdate_def split: option.splits)

lemma pg_deposit:
  assumes "pg_applyDeposit cfg inp now db = (Inr r, db')"
  shows "pg_book db' = (if dr_duplicated r then pg_book db
     else enter (Credit (di_userId inp) (di_amount inp)) (pg_book db))"
proof (cases "find (\<lambda>d. dep_txHash d = di_txHash inp) (map_values (db_deposits db))")
  case None
  with assms have "\<not> dr_duplicated r" and "\<forall>c. net c (db_postings db') = net c (db_postings db)
      + delta c (ji_postings (deposit_journal '''' inp))"
    by (auto simp: pg_applyDeposit_def Let_def journal_defs simp del: posting_rows.simps dest!: withTransaction_InrD split: sum.splits if_splits)
  then show ?thesis
    by (auto simp: pg_book_def fun_eq_iff journal_defs locked_net_def)
next
  case (Some d)
  with assms show ?thesis by (auto simp: pg_applyDeposit_def dest!: withTransaction_InrD)
qed

lemma present_account: "has_account db u \<Longrightarrow> \<exists>row. pg_getAccountForUpdate u db = Inr row"
  by (auto simp: has_account_def pg_getAccountForUpdate_def)

lemma pg_transfer_fresh:
  assumes "pg_inv cfg db" and "length (transfer_rows key db) < 2" and "f \<noteq> g"
  shows "(fst (pg_book db f) < a \<longrightarrow> fst (pg_transfer cfg f g a key now db)
       = Inl (DomainError 400 ''INSUFFICIENT_BALANCE'' ''insufficient balance for transfer'')) \<and>
     (\<not> fst (pg_book db f) < a \<longrightarrow> \<not> journal_fits (transfer_journal f g a key) \<longrightarrow> fst (pg_transfer cfg f g a key now db) = Inl column_error) \<and>
     (\<not> fst (pg_book db f) < a \<longrightarrow> journal_fits (transfer_journal f g a key) \<longrightarrow> (\<exists>r db'. pg_transfer cfg f g a key now db = (Inr r, db') \<and> \<not> tr_duplicated r \<and>
       pg_book db' = enter (Move f g a) (pg_book db)))"
proof -
  let ?db1 = "pg_ensureAccount g now (pg_ensureAccount f now db)"
  have inv: "pg_inv cfg ?db1" by (intro pg_inv_ensure assms(1))
  obtain x y where rows: "pg_getAccountForUpdate f ?db1 = Inr x" "pg_getAccountForUpdate g ?db1 = Inr y"
    using present_account [of ?db1 f] present_account [of ?db1 g] by auto
  have av: "availableBalance f x ?db1 = fst (pg_book db f)"
    using ensured_account(1) [OF inv rows(1)] by simp
  have moved: "pg_book (pg_appendJournal cfg (transfer_journal f g a key) now (?db1\<lparr>db_uuids := n, db_transactions := ts\<rparr>))
      = enter (Move f g a) (pg_book db)" for n ts
    using assms(3) by (auto simp: pg_book_def fun_eq_iff journal_defs locked_net_def Let_def simp del: posting_rows.simps)
  show ?thesis
    using assms(2,3) rows av moved by (simp add: pg_transfer_def withTransaction_def Let_def)
qed


lemma pg_move_decides:
  assumes "pg_inv cfg db" and "length (transfer_rows key db) < 2" and "journal_fits (transfer_journal f g a key)"
  shows "refusal (fst (pg_transfer cfg f g a key now db)) = transfer_decision f g a (pg_book db)"
proof (cases "f = g")
  case True
  then show ?thesis by (simp add: pg_transfer_def transfer_decision_def)
next
  case False
  with pg_transfer_fresh [OF assms(1,2) False, of a now] assms(3) show ?thesis
    by (auto simp: transfer_decision_def)
qed

lemma pg_move:
  assumes "pg_inv cfg db" and "pg_transfer cfg f g a key now db = (Inr r, db')"
  shows "pg_book db' = (if tr_duplicated r then pg_book db else enter (Move f g a) (pg_book db))"
proof (cases "2 \<le> length (transfer_rows key db)")
  case True
  with assms(2) show ?thesis
    by (auto simp: pg_transfer_def Let_def dest!: withTransaction_InrD split: if_splits option.splits)
next
  case False
  moreover from assms(2) have "f \<noteq> g" by (auto simp: pg_transfer_def)
  ultimately show ?thesis
    using pg_transfer_fresh [OF assms(1), of key f g a now] assms(2) by (cases "journal_fits (transfer_journal f g a key)"; cases "fst (pg_book db f) < a") auto
qed

text \<open>The end of a withdrawal operation: the row written, hydrated, and no posting.\<close>

lemma book_publish_Inr:
  assumes "pg_publishWithdrawal cfg i now f db = (Inr r, db')"
  shows "(\<exists>w. map_get (db_withdrawals db) i = Some w \<and> r = f (pg_hydrateWithdrawal db w)) \<and>
    db_postings db' = db_postings db"
  using assms by (auto simp: pg_publishWithdrawal_def pg_getWithdrawalForUpdate_def Let_def split: option.splits sum.splits)

lemma hydrate_sel [simp]:
  "wd_userId (pg_hydrateWithdrawal db w) = wd_userId w" "wd_amount (pg_hydrateWithdrawal db w) = wd_amount w"
  "wd_status (pg_hydrateWithdrawal db w) = wd_status w" "wd_withdrawalId (pg_hydrateWithdrawal db w) = wd_withdrawalId w"
  by (simp_all add: pg_hydrateWithdrawal_def pg_mapWithdrawal_def)

lemma pg_request:
  assumes "pg_requestWithdrawal cfg inp now db = (Inr q, db')"
  shows "pg_book db' = (if wr_duplicated q then pg_book db
     else enter (Reserve (wi_userId inp) (wi_amount inp)) (pg_book db))"
proof (cases "find (\<lambda>w. wd_idempotencyKey w = wi_idempotencyKey inp) (map_values (db_withdrawals db))")
  case None
  with assms have "\<not> wr_duplicated q" and "\<forall>c. net c (db_postings db') = net c (db_postings db)
      + delta c (ji_postings (reserve_journal '''' inp))"
    by (auto simp: pg_requestWithdrawal_def Let_def journal_defs simp del: posting_rows.simps
        dest!: withTransaction_InrD book_publish_Inr split: sum.splits if_splits)
  then show ?thesis
    by (auto simp: pg_book_def fun_eq_iff journal_defs locked_net_def)
next
  case (Some d)
  with assms show ?thesis by (auto simp: pg_requestWithdrawal_def dest!: withTransaction_InrD split: if_splits)
qed

lemma post_fee_money:
  "net (availableCode u) (db_postings (post_fee cfg i w fee now db)) = net (availableCode u) (db_postings db)"
  "locked_net u (db_postings (post_fee cfg i w fee now db)) = locked_net u (db_postings db)"
  by (auto simp: post_fee_def pg_persistNetworkFeeReceipt_def Let_def fee_journal_def locked_net_def
      simp del: posting_rows.simps split: option.split)

lemma pg_settle:
  assumes "pg_confirmWithdrawal cfg i fee now db = (Inr w, db')"
  shows "pg_book db' = enter (Settle (wd_userId w) (wd_amount w)) (pg_book db)"
proof -
  from assms obtain v where v: "map_get (db_withdrawals db) i = Some v"
    by (auto simp: pg_confirmWithdrawal_def pg_getWithdrawalForUpdate_def dest!: withTransaction_InrD split: option.splits)
  let ?v = "v\<lparr>wd_status := COMPLETED, wd_confirmedAt := Some now\<rparr>"
  let ?db4 = "post_fee cfg i v fee now (pg_appendJournal cfg (settle_journal i v) now (write_row i ?v
      (update_transaction (wd_ledgerTxId v) (\<lambda>tx. tx\<lparr>tx_status := TS_confirmed, tx_blockTx := wd_txHash v\<rparr>) db)))"
  have pub: "pg_publishWithdrawal cfg i now id (pg_syncUserAccountProjection [wd_userId v] now ?db4) = (Inr w, db')"
    using withTransaction_InrD [OF assms [unfolded pg_confirmWithdrawal_def]] v
    by (auto simp: pg_getWithdrawalForUpdate_def Let_def split: sum.splits if_splits)
  have row: "map_get (db_withdrawals ?db4) i = Some ?v"
    by (auto simp: post_fee_def pg_persistNetworkFeeReceipt_def Let_def split: option.split)
  from book_publish_Inr [OF pub] row have "wd_userId w = wd_userId v" "wd_amount w = wd_amount v"
      "db_postings db' = db_postings ?db4" by auto
  moreover have "pg_book ?db4 = enter (Settle (wd_userId v) (wd_amount v)) (pg_book db)"
    by (auto simp: pg_book_def fun_eq_iff post_fee_money) (simp_all add: journal_defs locked_net_def del: posting_rows.simps)
  ultimately show ?thesis using pg_book_cong [of db' ?db4] by simp
qed


lemma pg_abandon:
  assumes "pg_failWithdrawal cfg i reason now db = (Inr w, db')"
  shows "pg_book db' = enter (Refund (wd_userId w) (wd_amount w)) (pg_book db)"
proof -
  from assms obtain v where v: "map_get (db_withdrawals db) i = Some v"
    by (auto simp: pg_failWithdrawal_def pg_getWithdrawalForUpdate_def dest!: withTransaction_InrD split: option.splits)
  let ?v = "v\<lparr>wd_status := FAILED, wd_failedAt := Some now, wd_failReason := Some reason\<rparr>"
  let ?db3 = "pg_appendJournal cfg (release_journal i v reason) now (write_row i ?v
      (update_transaction (wd_ledgerTxId v) (\<lambda>tx. tx\<lparr>tx_status := TS_failed\<rparr>) db))"
  have pub: "pg_publishWithdrawal cfg i now id (pg_syncUserAccountProjection [wd_userId v] now ?db3) = (Inr w, db')"
    using withTransaction_InrD [OF assms [unfolded pg_failWithdrawal_def]] v
    by (auto simp: pg_getWithdrawalForUpdate_def Let_def split: sum.splits if_splits)
  have row: "map_get (db_withdrawals ?db3) i = Some ?v" by simp
  from book_publish_Inr [OF pub] row have "wd_userId w = wd_userId v" "wd_amount w = wd_amount v"
      "db_postings db' = db_postings ?db3" by auto
  moreover have "pg_book ?db3 = enter (Refund (wd_userId v) (wd_amount v)) (pg_book db)"
    by (auto simp: pg_book_def fun_eq_iff) (simp_all add: journal_defs locked_net_def del: posting_rows.simps)
  ultimately show ?thesis using pg_book_cong [of db' ?db3] by simp
qed

interpretation pb: account_book "pg_inv cfg" pg_book "\<lambda>key db. 2 \<le> length (transfer_rows key db)"
    "\<lambda>f g a key. journal_fits (transfer_journal f g a key)" "pg_applyDeposit cfg" "pg_transfer cfg" "pg_requestWithdrawal cfg" "pg_confirmWithdrawal cfg" "pg_failWithdrawal cfg" for cfg
  by unfold_locales (rule pg_deposit pg_move pg_move_decides pg_request pg_settle pg_abandon; (assumption | simp))+

end
