(* ===== verification/LedgersInStep.thy ===== *)
theory LedgersInStep
  imports AccountBook
begin

text \<open>
  The two ledgers side by side: an in-memory ledger and a Postgres ledger that serve the same calls.
  Both meet the contract \<open>account_book\<close>, and they remember the same idempotency keys of transfers, so they
  decide every transfer alike.
\<close>

section \<open>The transfers a database knows\<close>

text \<open>The legs of a transfer: the transactions stored under its key, by id.\<close>

definition legs :: "string \<Rightarrow> pg_db \<Rightarrow> (string \<times> transaction_type) set" where
  "legs key db = {(i, tx_type t) | i t. map_get (db_transactions db) i = Some t \<and>
     tx_idempotencyKey t = Some key \<and> tx_type t \<in> {TT_internal_transfer_out, TT_internal_transfer_in}}"

definition both_legs :: "string \<Rightarrow> pg_db \<Rightarrow> bool" where
  "both_legs key db = ((\<exists>i. (i, TT_internal_transfer_out) \<in> legs key db) \<and> (\<exists>i. (i, TT_internal_transfer_in) \<in> legs key db))"

definition tx_ids_ok :: "ledger_cfg \<Rightarrow> pg_db \<Rightarrow> bool" where
  "tx_ids_ok cfg db = (map_wf (db_transactions db) \<and>
     (\<forall>i. map_get (db_transactions db) i \<noteq> None \<longrightarrow> drawn cfg (db_uuids db) i))"

lemma legs_iff:
  "(i, ty) \<in> legs key db \<longleftrightarrow> ty \<in> {TT_internal_transfer_out, TT_internal_transfer_in} \<and>
     (case map_get (db_transactions db) i of None \<Rightarrow> False | Some t \<Rightarrow> tx_idempotencyKey t = Some key \<and> tx_type t = ty)"
  by (auto simp: legs_def split: option.splits)

lemma legs_eqI:
  assumes "\<And>i ty. (i, ty) \<in> legs key db' \<longleftrightarrow> (i, ty) \<in> legs key db"
  shows "legs key db' = legs key db"
  using assms by (intro set_eqI) (metis surj_pair)

lemma legs_cong: "db_transactions db' = db_transactions db \<Longrightarrow> legs key db' = legs key db"
  by (simp add: legs_def)

lemma rows_empty:
  assumes "tx_ids_ok cfg db" and "legs key db = {}"
  shows "transfer_rows key db = []"
proof -
  have "\<not> (tx_idempotencyKey t = Some key \<and> tx_type t \<in> {TT_internal_transfer_out, TT_internal_transfer_in})"
    if t: "t \<in> set (map_values (db_transactions db))" for t
  proof -
    obtain i where "map_get (db_transactions db) i = Some t"
      using map_get_values [OF conjunct1 [OF assms(1) [unfolded tx_ids_ok_def]] t] by blast
    then show ?thesis using assms(2) by (auto simp: legs_def)
  qed
  then show ?thesis unfolding transfer_rows_def by (simp add: filter_empty_conv)
qed

lemma two_members: "x \<in> set xs \<Longrightarrow> y \<in> set xs \<Longrightarrow> x \<noteq> y \<Longrightarrow> 2 \<le> length xs"
  by (cases xs; cases "tl xs") auto

lemma rows_found:
  assumes "both_legs key db"
  shows "2 \<le> length (transfer_rows key db)"
    and "\<exists>t. find (\<lambda>t. tx_type t = TT_internal_transfer_out) (transfer_rows key db) = Some t"
    and "\<exists>t. find (\<lambda>t. tx_type t = TT_internal_transfer_in) (transfer_rows key db) = Some t"
proof -
  obtain i j t u where t: "map_get (db_transactions db) i = Some t" "tx_idempotencyKey t = Some key" "tx_type t = TT_internal_transfer_out"
    and u: "map_get (db_transactions db) j = Some u" "tx_idempotencyKey u = Some key" "tx_type u = TT_internal_transfer_in"
    using assms by (auto simp: both_legs_def legs_def)
  then have m: "t \<in> set (transfer_rows key db)" "u \<in> set (transfer_rows key db)"
    using map_values_get by (auto simp: transfer_rows_def)
  with t(3) u(3) show "2 \<le> length (transfer_rows key db)" by (intro two_members [of t _ u]) auto
  show "\<exists>t. find (\<lambda>t. tx_type t = TT_internal_transfer_out) (transfer_rows key db) = Some t"
    using m(1) t(3) by (cases "find (\<lambda>t. tx_type t = TT_internal_transfer_out) (transfer_rows key db)") (auto simp: find_None_iff)
  show "\<exists>t. find (\<lambda>t. tx_type t = TT_internal_transfer_in) (transfer_rows key db) = Some t"
    using m(2) u(3) by (cases "find (\<lambda>t. tx_type t = TT_internal_transfer_in) (transfer_rows key db)") (auto simp: find_None_iff)
qed

section \<open>What the other operations do to them\<close>

text \<open>An operation leaves the legs alone and its new transactions have drawn ids.\<close>

definition legs_kept :: "ledger_cfg \<Rightarrow> pg_db \<Rightarrow> pg_db \<Rightarrow> bool" where
  "legs_kept cfg db db' = (tx_ids_ok cfg db \<longrightarrow> tx_ids_ok cfg db' \<and> (\<forall>key. legs key db' = legs key db))"

lemma legs_kept_same:
  assumes "db_transactions db' = db_transactions db" and "db_uuids db \<le> db_uuids db'"
  shows "legs_kept cfg db db'"
  using assms drawn_mono by (auto simp: legs_kept_def tx_ids_ok_def legs_cong [of db' db])

lemma legs_kept_new:
  assumes "uuid_ok cfg" and "db_transactions db' = map_set (uuid cfg n) t (db_transactions db)"
    and "db_uuids db \<le> n" and "n < db_uuids db'"
    and "tx_type t \<notin> {TT_internal_transfer_out, TT_internal_transfer_in} \<or> tx_idempotencyKey t = None"
  shows "legs_kept cfg db db'"
  unfolding legs_kept_def
proof (intro impI conjI allI)
  assume ok: "tx_ids_ok cfg db"
  have "map_get (db_transactions db) (uuid cfg n) = None"
    using ok not_drawn [OF assms(1,3)] by (auto simp: tx_ids_ok_def)
  then have "(i, ty) \<in> legs key db' \<longleftrightarrow> (i, ty) \<in> legs key db" for key i ty
    unfolding legs_iff assms(2) using assms(5) by (cases "i = uuid cfg n") auto
  then show "legs key db' = legs key db" for key by (rule legs_eqI)
  have "drawn cfg (db_uuids db') i" if "drawn cfg (db_uuids db) i" for i
    by (rule drawn_mono [OF that]) (use assms(3,4) in simp)
  then show "tx_ids_ok cfg db'"
    using ok assms(2,4) drawn_uuid by (auto simp: tx_ids_ok_def)
qed

lemma legs_update_transaction:
  assumes "\<And>t. tx_type (f t) = tx_type t \<and> tx_idempotencyKey (f t) = tx_idempotencyKey t"
  shows "legs key (update_transaction i f db) = legs key db"
    and "map_wf (db_transactions db) \<Longrightarrow> map_wf (db_transactions (update_transaction i f db))"
    and "map_get (db_transactions (update_transaction i f db)) j \<noteq> None \<longleftrightarrow> map_get (db_transactions db) j \<noteq> None"
proof -
  have "(j, ty) \<in> legs key (update_transaction i f db) \<longleftrightarrow> (j, ty) \<in> legs key db" for j ty
    unfolding legs_iff update_transaction_def using assms by (cases "map_get (db_transactions db) i"; cases "j = i") simp_all
  then show "legs key (update_transaction i f db) = legs key db" by (rule legs_eqI)
  show "map_wf (db_transactions db) \<Longrightarrow> map_wf (db_transactions (update_transaction i f db))"
    by (simp add: update_transaction_def split: option.split)
  show "map_get (db_transactions (update_transaction i f db)) j \<noteq> None \<longleftrightarrow> map_get (db_transactions db) j \<noteq> None"
    by (cases "map_get (db_transactions db) i"; cases "j = i") (simp_all add: update_transaction_def)
qed

lemma legs_kept_update:
  assumes "\<And>t. tx_type (f t) = tx_type t \<and> tx_idempotencyKey (f t) = tx_idempotencyKey t"
    and "db_transactions db' = db_transactions (update_transaction i f db)" and "db_uuids db \<le> db_uuids db'"
  shows "legs_kept cfg db db'"
  unfolding legs_kept_def tx_ids_ok_def assms(2) legs_cong [of db' "update_transaction i f db", OF assms(2)]
    legs_update_transaction(1,3) [OF assms(1)]
  using legs_update_transaction(2) [OF assms(1)] drawn_mono [OF _ assms(3)] by blast


lemma publish_transactions:
  assumes "pg_publishWithdrawal cfg i now f db = (Inr r, db')"
  shows "db_transactions db' = db_transactions db" and "db_uuids db \<le> db_uuids db'"
  using assms by (auto simp: pg_publishWithdrawal_def Let_def split: sum.splits)

lemma legs_kept_deposit:
  assumes "pg_applyDeposit cfg inp now db = (Inr r, db')" and "uuid_ok cfg"
  shows "legs_kept cfg db db'"
proof (cases "find (\<lambda>d. dep_txHash d = di_txHash inp) (map_values (db_deposits db))")
  case None
  with withTransaction_InrD [OF assms(1) [unfolded pg_applyDeposit_def]] show ?thesis
    by (auto simp: Let_def newUuid_def intro!: legs_kept_new [OF assms(2)] split: sum.splits if_splits)
next
  case (Some d)
  with withTransaction_InrD [OF assms(1) [unfolded pg_applyDeposit_def]] show ?thesis
    by (simp add: legs_kept_same)
qed

lemma legs_kept_request:
  assumes "pg_requestWithdrawal cfg inp now db = (Inr r, db')" and "uuid_ok cfg"
  shows "legs_kept cfg db db'"
proof -
  have t: "\<not> singleLimit cfg < wi_amount inp" using assms(1) by (auto simp: pg_requestWithdrawal_def)
  note run = withTransaction_InrD [OF assms(1) [unfolded pg_requestWithdrawal_def if_not_P [OF t]]]
  show ?thesis
  proof (cases "find (\<lambda>w. wd_idempotencyKey w = wi_idempotencyKey inp) (map_values (db_withdrawals db))")
    case None
    with run show ?thesis
      by (auto simp: Let_def newUuid_def dest: publish_transactions
          intro!: legs_kept_new [OF assms(2) trans [OF publish_transactions(1)]] split: sum.splits if_splits)
  next
    case (Some d)
    with run show ?thesis by (simp add: legs_kept_same)
  qed
qed

lemma post_fee_transactions:
  "db_transactions (post_fee cfg i w fee now db) = db_transactions db" "db_uuids db \<le> db_uuids (post_fee cfg i w fee now db)"
  by (simp_all add: post_fee_def pg_persistNetworkFeeReceipt_def Let_def split: option.split)

lemma update_transaction_uuids [simp]: "db_uuids (update_transaction i f db) = db_uuids db"
  by (simp add: update_transaction_def split: option.split)

lemma legs_kept_confirm:
  assumes "pg_confirmWithdrawal cfg i fee now db = (Inr w, db')"
  shows "legs_kept cfg db db'"
proof -
  from assms obtain v where v: "map_get (db_withdrawals db) i = Some v"
    by (auto simp: pg_confirmWithdrawal_def pg_getWithdrawalForUpdate_def dest!: withTransaction_InrD split: option.splits)
  let ?f = "\<lambda>tx. tx\<lparr>tx_status := TS_confirmed, tx_blockTx := wd_txHash v\<rparr>"
  let ?db3 = "pg_appendJournal cfg (settle_journal i v) now (write_row i (v\<lparr>wd_status := COMPLETED, wd_confirmedAt := Some now\<rparr>)
      (update_transaction (wd_ledgerTxId v) ?f db))"
  have pub: "pg_publishWithdrawal cfg i now id (pg_syncUserAccountProjection [wd_userId v] now (post_fee cfg i v fee now ?db3)) = (Inr w, db')"
    using withTransaction_InrD [OF assms [unfolded pg_confirmWithdrawal_def]] v
    by (auto simp: pg_getWithdrawalForUpdate_def Let_def split: sum.splits if_splits)
  show ?thesis
    by (rule legs_kept_update [where f = ?f and i = "wd_ledgerTxId v"])
      (use publish_transactions [OF pub] post_fee_transactions [where cfg = cfg and i = i and w = v and fee = fee and now = now and db = ?db3] in \<open>simp_all add: write_row_def\<close>)
qed

lemma legs_kept_fail:
  assumes "pg_failWithdrawal cfg i reason now db = (Inr w, db')"
  shows "legs_kept cfg db db'"
proof -
  from assms obtain v where v: "map_get (db_withdrawals db) i = Some v"
    by (auto simp: pg_failWithdrawal_def pg_getWithdrawalForUpdate_def dest!: withTransaction_InrD split: option.splits)
  let ?f = "\<lambda>tx. tx\<lparr>tx_status := TS_failed\<rparr>"
  let ?db3 = "pg_appendJournal cfg (release_journal i v reason) now (write_row i
      (v\<lparr>wd_status := FAILED, wd_failedAt := Some now, wd_failReason := Some reason\<rparr>)
      (update_transaction (wd_ledgerTxId v) ?f db))"
  have pub: "pg_publishWithdrawal cfg i now id (pg_syncUserAccountProjection [wd_userId v] now ?db3) = (Inr w, db')"
    using withTransaction_InrD [OF assms [unfolded pg_failWithdrawal_def]] v
    by (auto simp: pg_getWithdrawalForUpdate_def Let_def split: sum.splits if_splits)
  show ?thesis
    by (rule legs_kept_update [where f = ?f and i = "wd_ledgerTxId v"])
      (use publish_transactions [OF pub] in \<open>simp_all add: write_row_def\<close>)
qed

section \<open>The keys of the in-memory ledger\<close>

abbreviation keys_of :: "ledger \<Rightarrow> transfer_idempotency jsmap" where
  "keys_of s \<equiv> transferByIdempotencyKey s"

lemma publish_keys: "publishWithdrawal cfg i w now r s = (q, t) \<Longrightarrow> keys_of t = keys_of s"
  using same_core_publish [of s cfg i w now r] by (simp add: same_core_def core_def)

lemma enqueue_keys [simp]: "keys_of (enqueueOutboxEvent cfg et aty aid p n s) = keys_of s"
  using same_core_enqueue [of s cfg et aty aid p n] by (simp add: same_core_def core_def)

lemma keys_kept:
  "applyDeposit cfg dinp now s = (r, t) \<Longrightarrow> keys_of t = keys_of s"
  "requestWithdrawal cfg winp now s = (q, t) \<Longrightarrow> keys_of t = keys_of s"
  "confirmWithdrawal cfg i fee now s = (w, t) \<Longrightarrow> keys_of t = keys_of s"
  "failWithdrawal cfg i reason now s = (w, t) \<Longrightarrow> keys_of t = keys_of s"
proof -
  show "applyDeposit cfg dinp now s = (r, t) \<Longrightarrow> keys_of t = keys_of s"
    by (auto simp: applyDeposit_def Let_def getMutableAccount_write write_account_def split: option.splits sum.splits)
  show "requestWithdrawal cfg winp now s = (q, t) \<Longrightarrow> keys_of t = keys_of s"
    by (auto simp: requestWithdrawal_def Let_def getMutableAccount_write write_account_def dest!: publish_keys split: option.splits if_splits)
  show "confirmWithdrawal cfg i fee now s = (w, t) \<Longrightarrow> keys_of t = keys_of s"
    by (auto simp: confirmWithdrawal_def getMutableWithdrawal_def Let_def getMutableAccount_write write_account_def
        write_withdrawal_def record_fee_def dest!: publish_keys split: option.splits if_splits)
  show "failWithdrawal cfg i reason now s = (w, t) \<Longrightarrow> keys_of t = keys_of s"
    by (auto simp: failWithdrawal_def getMutableWithdrawal_def Let_def getMutableAccount_write write_account_def
        write_withdrawal_def dest!: publish_keys split: option.splits if_splits)
qed

section \<open>Two ledgers in step\<close>

text \<open>
  A pair is in step when each call that one of them booked was booked by the other, in the same order,
  each with its own clock; withdrawals are matched by what they are (user and amount), as the two
  classes draw different ids.  Between two calls either may take steps of its own that change no balance
  and book no transfer.
\<close>

inductive in_step :: "ledger_cfg \<Rightarrow> ledger \<Rightarrow> pg_db \<Rightarrow> bool" for cfg where
  start: "in_step cfg empty_ledger empty_db"
| memory_alone: "in_step cfg s db \<Longrightarrow> ledger_step cfg s t \<Longrightarrow> memory_book t = memory_book s
    \<Longrightarrow> keys_of t = keys_of s \<Longrightarrow> in_step cfg t db"
| postgres_alone: "in_step cfg s db \<Longrightarrow> pg_step cfg db db' \<Longrightarrow> db_postings db' = db_postings db
    \<Longrightarrow> db_transactions db' = db_transactions db \<Longrightarrow> db_uuids db \<le> db_uuids db' \<Longrightarrow> in_step cfg s db'"
| both_deposit: "in_step cfg s db \<Longrightarrow> 0 \<le> di_amount inp \<Longrightarrow> applyDeposit cfg inp now s = (Inr r, t)
    \<Longrightarrow> pg_applyDeposit cfg inp now' db = (Inr r', db') \<Longrightarrow> dr_duplicated r = dr_duplicated r' \<Longrightarrow> in_step cfg t db'"
| both_transfer: "in_step cfg s db \<Longrightarrow> 0 \<le> a \<Longrightarrow> transfer cfg f g a key now s = (Inr q, t)
    \<Longrightarrow> pg_transfer cfg f g a key now' db = (Inr q', db') \<Longrightarrow> tr_duplicated q = tr_duplicated q' \<Longrightarrow> in_step cfg t db'"
| both_request: "in_step cfg s db \<Longrightarrow> 0 \<le> wi_amount winp \<Longrightarrow> requestWithdrawal cfg winp now s = (Inr v, t)
    \<Longrightarrow> pg_requestWithdrawal cfg winp now' db = (Inr v', db') \<Longrightarrow> wr_duplicated v = wr_duplicated v' \<Longrightarrow> in_step cfg t db'"
| both_confirm: "in_step cfg s db \<Longrightarrow> confirmWithdrawal cfg i fee now s = (Inr w, t)
    \<Longrightarrow> pg_confirmWithdrawal cfg i' fee now' db = (Inr w', db') \<Longrightarrow> wd_userId w = wd_userId w' \<Longrightarrow> wd_amount w = wd_amount w'
    \<Longrightarrow> in_step cfg t db'"
| both_fail: "in_step cfg s db \<Longrightarrow> failWithdrawal cfg i reason now s = (Inr w, t)
    \<Longrightarrow> pg_failWithdrawal cfg i' reason now' db = (Inr w', db') \<Longrightarrow> wd_userId w = wd_userId w' \<Longrightarrow> wd_amount w = wd_amount w'
    \<Longrightarrow> in_step cfg t db'"

text \<open>A key is known to both ledgers, with both legs of its transfer stored, or to neither.\<close>

definition same_keys :: "ledger \<Rightarrow> pg_db \<Rightarrow> bool" where
  "same_keys s db = (\<forall>key. if map_get (keys_of s) key = None then legs key db = {} else both_legs key db)"

lemma same_keysD:
  "same_keys s db \<Longrightarrow> map_get (keys_of s) key = None \<Longrightarrow> legs key db = {}"
  "same_keys s db \<Longrightarrow> map_get (keys_of s) key \<noteq> None \<Longrightarrow> both_legs key db"
  by (auto simp: same_keys_def split: if_splits)

lemma both_legs_cong: "legs key db' = legs key db \<Longrightarrow> both_legs key db' = both_legs key db"
  by (simp add: both_legs_def)

lemma same_keys_kept:
  assumes "same_keys s db" and "tx_ids_ok cfg db" and "keys_of t = keys_of s" and "legs_kept cfg db db'"
  shows "same_keys t db' \<and> tx_ids_ok cfg db'"
proof -
  have "tx_ids_ok cfg db'" and legs: "\<And>key. legs key db' = legs key db"
    using assms(2,4) by (simp_all add: legs_kept_def)
  then show ?thesis using assms(1,3) both_legs_cong [OF legs] by (simp add: same_keys_def)
qed

section \<open>Transfers\<close>

text \<open>A repeated transfer, in both.\<close>

lemma memory_repeats:
  assumes "ledger_inv cfg s" and "map_get (keys_of s) key \<noteq> None"
  shows "\<exists>q. transfer cfg f g a key now s = (Inr q, s) \<and> tr_duplicated q"
proof -
  obtain k where k: "map_get (keys_of s) key = Some k" using assms(2) by auto
  moreover have "map_get (transactions s) (ti_fromTxId k) \<noteq> None \<and> map_get (transactions s) (ti_toTxId k) \<noteq> None"
    using ledger_invD(4) [OF assms(1)] k unfolding index_ok_def by blast
  ultimately show ?thesis by (auto simp: transfer_def)
qed

lemma pg_repeats:
  assumes "both_legs key db" and "f \<noteq> g"
  shows "\<exists>q. pg_transfer cfg f g a key now db = (Inr q, db) \<and> tr_duplicated q"
  using rows_found [OF assms(1)] assms(2) by (auto simp: pg_transfer_def withTransaction_def Let_def)

text \<open>A new transfer, in both: the key and its legs are there afterwards, the other keys are as before.\<close>

lemma memory_books:
  assumes "transfer cfg f g a key now s = (Inr q, t)" and "map_get (keys_of s) key = None"
  shows "map_get (keys_of t) k = None \<longleftrightarrow> map_get (keys_of s) k = None \<and> k \<noteq> key"
proof -
  from assms have ok: "f \<noteq> g" "a \<le> balance_of s f"
    by (auto simp: transfer_def getMutableAccount_write Let_def split: if_splits)
  have "t = transfer_state cfg f g a key now s"
    using transfer_ok_state(1) [OF assms(2) ok, of cfg now] assms(1) by simp
  then show ?thesis by (simp add: transfer_state_def)
qed

lemma pg_books:
  assumes "pg_transfer cfg f g a key now db = (Inr q, db')" and "\<not> tr_duplicated q" and "tx_ids_ok cfg db" and "uuid_ok cfg"
  shows "tx_ids_ok cfg db' \<and> both_legs key db' \<and> (\<forall>k. k \<noteq> key \<longrightarrow> legs k db' = legs k db)"
proof -
  let ?n = "db_uuids db"
  from assms(1) have ne: "f \<noteq> g" by (auto simp: pg_transfer_def)
  define x where "x = \<lparr>tx_txId = uuid cfg ?n, tx_userId = f, tx_type = TT_internal_transfer_out, tx_amount = a,
      tx_status = TS_confirmed, tx_blockTx = None, tx_relatedUserId = Some g, tx_idempotencyKey = Some key, tx_createdAt = now\<rparr>"
  define y where "y = \<lparr>tx_txId = uuid cfg (?n + 1), tx_userId = g, tx_type = TT_internal_transfer_in, tx_amount = a,
      tx_status = TS_confirmed, tx_blockTx = None, tx_relatedUserId = Some f, tx_idempotencyKey = Some key, tx_createdAt = now\<rparr>"
  have x: "tx_type x = TT_internal_transfer_out" "tx_idempotencyKey x = Some key"
    and y: "tx_type y = TT_internal_transfer_in" "tx_idempotencyKey y = Some key" by (simp_all add: x_def y_def)
  have "db_transactions db' = map_set (uuid cfg (?n + 1)) y (map_set (uuid cfg ?n) x (db_transactions db)) \<and> ?n + 2 \<le> db_uuids db'"
    using assms(1,2) unfolding x_def y_def
    by (auto simp: pg_transfer_def newUuid_def Let_def dest!: withTransaction_InrD split: if_splits option.splits sum.splits)
  then have tx: "db_transactions db' = map_set (uuid cfg (?n + 1)) y (map_set (uuid cfg ?n) x (db_transactions db))"
    and n: "?n + 2 \<le> db_uuids db'" by blast+
  have new: "uuid cfg (?n + 1) \<noteq> uuid cfg ?n" using assms(4) by (auto simp: uuid_ok_def dest: injD)
  have fresh: "map_get (db_transactions db) (uuid cfg ?n) = None" "map_get (db_transactions db) (uuid cfg (?n + 1)) = None"
    using assms(3) not_drawn [OF assms(4), of ?n] by (auto simp: tx_ids_ok_def)
  have "(uuid cfg ?n, TT_internal_transfer_out) \<in> legs key db'" "(uuid cfg (?n + 1), TT_internal_transfer_in) \<in> legs key db'"
    using new x y by (simp_all add: legs_iff tx)
  then have "both_legs key db'" unfolding both_legs_def by blast
  moreover have "legs k db' = legs k db" if "k \<noteq> key" for k
  proof (rule legs_eqI)
    show "(i, ty) \<in> legs k db' \<longleftrightarrow> (i, ty) \<in> legs k db" for i ty
      unfolding legs_iff tx using that x y fresh by (cases "i = uuid cfg ?n"; cases "i = uuid cfg (?n + 1)") simp_all
  qed
  moreover have "drawn cfg (db_uuids db') i" if "drawn cfg ?n i" for i
    by (rule drawn_mono [OF that]) (use n in simp)
  then have "tx_ids_ok cfg db'"
    using assms(3) n drawn_uuid by (auto simp: tx_ids_ok_def tx)
  ultimately show ?thesis by blast
qed

lemma transfer_keeps_keys:
  assumes "ledger_inv cfg s" and "same_keys s db" and "tx_ids_ok cfg db" and "uuid_ok cfg"
    and m: "transfer cfg f g a key now s = (Inr q, t)" and p: "pg_transfer cfg f g a key now' db = (Inr q', db')"
  shows "same_keys t db' \<and> tx_ids_ok cfg db'"
proof (cases "map_get (keys_of s) key = None")
  case True
  have ne: "f \<noteq> g" using p by (auto simp: pg_transfer_def)
  have "\<not> tr_duplicated q'"
    using p rows_empty [OF assms(3) same_keysD(1) [OF assms(2) True]] ne
    by (auto simp: pg_transfer_def Let_def dest!: withTransaction_InrD split: if_splits sum.splits)
  from pg_books [OF p this assms(3,4)]
  have tx: "tx_ids_ok cfg db'" "both_legs key db'" and other: "\<And>k. k \<noteq> key \<Longrightarrow> legs k db' = legs k db" by blast+
  have "if map_get (keys_of t) k = None then legs k db' = {} else both_legs k db'" for k
    using memory_books [OF m True, of k] tx(2) other [of k] both_legs_cong [OF other, of k] same_keysD [OF assms(2), of k]
    by (cases "k = key") auto
  then show ?thesis using tx(1) by (simp add: same_keys_def)
next
  case False
  have "f \<noteq> g" using p by (auto simp: pg_transfer_def)
  from pg_repeats [OF same_keysD(2) [OF assms(2) False] this, of cfg a now'] p have "db' = db" by simp
  moreover from memory_repeats [OF assms(1) False, of f g a now] m have "t = s" by simp
  ultimately show ?thesis using assms(2,3) by simp
qed

section \<open>The pair's invariant\<close>

lemma same_keys_empty: "same_keys empty_ledger empty_db \<and> tx_ids_ok cfg empty_db"
  by (simp add: same_keys_def legs_def tx_ids_ok_def empty_ledger_def empty_db_def map_get_def map_wf_def)

lemma in_step_invariant:
  assumes "in_step cfg s db" and "uuid_ok cfg"
  shows "ledger_inv cfg s \<and> pg_inv cfg db \<and> memory_book s = pg_book db \<and> same_keys s db \<and> tx_ids_ok cfg db"
  using assms
proof (induction rule: in_step.induct)
  case start
  have "memory_book empty_ledger = pg_book empty_db"
    by (simp add: memory_book_def pg_book_def empty_ledger_def empty_db_def balance_of_def locked_of_def map_get_def)
  then show ?case using ledger_inv_empty pg_inv_empty same_keys_empty by blast
next
  case (memory_alone s db t)
  then show ?case using ledger_inv_step [of cfg s t] by (simp add: same_keys_def)
next
  case (postgres_alone s db db')
  have "legs_kept cfg db db'" by (rule legs_kept_same [OF postgres_alone(4,5)])
  with postgres_alone show ?case
    using pg_inv_step [of cfg db db'] pg_book_cong [of db' db] same_keys_kept [OF _ _ refl, of s db cfg db'] by simp
next
  case (both_deposit s db inp now r t now' r' db')
  then show ?case
    using mb.deposit_enters [of cfg s inp now r t] pb.deposit_enters [of cfg db inp now' r' db']
      ledger_inv_step [OF step_applyDeposit, of inp cfg s now] pg_inv_applyDeposit [of cfg db inp now']
      same_keys_kept [OF _ _ keys_kept(1) [OF both_deposit(3)] legs_kept_deposit [OF both_deposit(4)]] by simp
next
  case (both_transfer s db a f g key now q t now' q' db')
  then show ?case
    using mb.move_enters [of cfg s f g a key now q t] pb.move_enters [of cfg db f g a key now' q' db']
      ledger_inv_transfer [of cfg s a f g key now] pg_inv_transfer [of cfg db f g a key now']
      transfer_keeps_keys [OF _ _ _ _ both_transfer(3,4)] by simp
next
  case (both_request s db winp now v t now' v' db')
  then show ?case
    using mb.request_enters [of cfg s winp now v t] pb.request_enters [of cfg db winp now' v' db']
      ledger_inv_request [of cfg s winp now] pg_inv_request [of cfg db winp now']
      same_keys_kept [OF _ _ keys_kept(2) [OF both_request(3)] legs_kept_request [OF both_request(4)]] by simp
next
  case (both_confirm s db i fee now w t i' now' w' db')
  then show ?case
    using mb.settle_enters [of cfg s i fee now w t] pb.settle_enters [of cfg db i' fee now' w' db']
      ledger_inv_confirm [of cfg s i fee now] pg_inv_confirm [of cfg db i' fee now']
      same_keys_kept [OF _ _ keys_kept(3) [OF both_confirm(2)] legs_kept_confirm [OF both_confirm(3)]] by simp
next
  case (both_fail s db i reason now w t i' now' w' db')
  then show ?case
    using mb.abandon_enters [of cfg s i reason now w t] pb.abandon_enters [of cfg db i' reason now' w' db']
      ledger_inv_fail [of cfg s i reason now] pg_inv_fail [of cfg db i' reason now']
      same_keys_kept [OF _ _ keys_kept(4) [OF both_fail(2)] legs_kept_fail [OF both_fail(3)]] by simp
qed

section \<open>The simulation\<close>

text \<open>A refused transfer changes no balance and no key in either ledger.\<close>

lemma memory_refuses:
  assumes "ledger_inv cfg s" and "transfer cfg f g a key now s = (Inl e, t)"
  shows "memory_book t = memory_book s \<and> keys_of t = keys_of s"
proof -
  have "map_get (keys_of s) key = None"
  proof (rule ccontr)
    assume "map_get (keys_of s) key \<noteq> None"
    from memory_repeats [OF assms(1) this, of f g a now] assms(2) show False by simp
  qed
  then have "f = g \<or> balance_of s f < a"
    using transfer_ok_state(2) [of s key f g a cfg now] assms(2) by (fastforce simp: not_less)
  then have "t = s \<or> t = write_account g (account_for g now s) (write_account f (account_for f now s) s)"
    using transfer_other_state [of s key f g a cfg now] assms(2) by simp
  moreover have "memory_book (write_account u (account_for u now s) x) = (memory_book x)(u := memory_book s u)" for u x
    by (auto simp: memory_book_def)
  moreover have "keys_of (write_account u b x) = keys_of x" for u b x by (simp add: write_account_def)
  ultimately show ?thesis by (elim disjE) simp_all
qed

lemma pg_refuses:
  assumes "pg_transfer cfg f g a key now db = (Inl e, db')"
  shows "db_postings db' = db_postings db \<and> db_transactions db' = db_transactions db \<and> db_uuids db \<le> db_uuids db'"
proof (cases "f = g")
  case True
  then show ?thesis using assms by (simp add: pg_transfer_def)
next
  case False
  then show ?thesis
    using assms
    by (auto simp: pg_transfer_def withTransaction_def Let_def split: if_splits option.splits sum.splits)
qed

lemma transfer_simulated:
  assumes "in_step cfg s db" and "uuid_ok cfg" and "0 \<le> a"
    and new: "f = g \<Longrightarrow> map_get (keys_of s) key = None" and fits: "journal_fits (transfer_journal f g a key)"
  shows "map_sum id tr_duplicated (fst (transfer cfg f g a key now s)) = map_sum id tr_duplicated (fst (pg_transfer cfg f g a key now' db)) \<and>
    in_step cfg (snd (transfer cfg f g a key now s)) (snd (pg_transfer cfg f g a key now' db))"
proof -
  have inv: "ledger_inv cfg s" "pg_inv cfg db" "memory_book s = pg_book db" "same_keys s db" "tx_ids_ok cfg db"
    using in_step_invariant [OF assms(1,2)] by blast+
  obtain m t where m: "transfer cfg f g a key now s = (m, t)" by (cases "transfer cfg f g a key now s")
  obtain p db' where p: "pg_transfer cfg f g a key now' db = (p, db')" by (cases "pg_transfer cfg f g a key now' db")
  have alike: "map_sum id tr_duplicated m = map_sum id tr_duplicated p"
  proof (cases "map_get (keys_of s) key = None")
    case False
    with new have "f \<noteq> g" by blast
    from memory_repeats [OF inv(1) False, of f g a now] pg_repeats [OF same_keysD(2) [OF inv(4) False] this, of cfg a now']
    show ?thesis using m p by auto
  next
    case True
    have rows: "transfer_rows key db = []" by (rule rows_empty [OF inv(5) same_keysD(1) [OF inv(4) True]])
    have "refusal m = refusal p"
      using mb.move_decides [of cfg s key f g a now] pb.move_decides [OF inv(2) _ fits, of now'] inv True rows m p by simp
    moreover have "\<not> tr_duplicated q" if "m = Inr q" for q
      using m that True by (auto simp: transfer_def getMutableAccount_write Let_def split: if_splits)
    moreover have "\<not> tr_duplicated q" if "p = Inr q" for q
      using p that rows by (auto simp: pg_transfer_def Let_def dest!: withTransaction_InrD split: if_splits sum.splits)
    ultimately show ?thesis by (cases m; cases p) simp_all
  qed
  moreover have "in_step cfg t db'"
  proof (cases m)
    case (Inl e)
    with alike obtain e' where "p = Inl e'" by (cases p) simp_all
    have "ledger_step cfg s (snd (transfer cfg f g a key now s))" by (rule step_transfer [OF assms(3)])
    then have step: "ledger_step cfg s t" using m by simp
    have "in_step cfg t db"
      using memory_refuses [OF inv(1) m [unfolded Inl]] by (intro memory_alone [OF assms(1) step]) simp_all
    moreover have "pg_step cfg db db'" using pstep_transfer [of cfg db f g a key now'] p by simp
    ultimately show ?thesis
      using pg_refuses [OF p [unfolded \<open>p = Inl e'\<close>]] by (intro postgres_alone [of cfg t db db']) simp_all
  next
    case (Inr q)
    with alike obtain q' where q': "p = Inr q'" "tr_duplicated q = tr_duplicated q'" by (cases p) simp_all
    show ?thesis by (rule both_transfer [OF assms(1,3) m [unfolded Inr] p [unfolded q'(1)] q'(2)])
  qed
  ultimately show ?thesis using m p by simp
qed

end
