(* ===== verification/PgSafety.thy ===== *)
theory PgSafety
  imports LedgersInStep
begin

text \<open>
  Nobody is overdrawn: while collateral is not compensated and no balance is reconciled to less than what
  is locked, no operation of the Postgres ledger makes an available balance or an offline-pay collateral
  negative.  Also the exact effect of a settlement on the accounts.
\<close>

section \<open>What an operation posts\<close>

definition posts :: "pg_db \<Rightarrow> pg_db \<Rightarrow> ledger_posting_input list \<Rightarrow> bool" where
  "posts db db' ps = (\<forall>c. net c (db_postings db') = net c (db_postings db) + delta c ps)"

lemma posts_nothing [simp]: "db_postings db' = db_postings db \<Longrightarrow> posts db db' []"
  by (simp add: posts_def)

lemma posts_journal: "db_postings d = db_postings db \<Longrightarrow> posts db (pg_appendJournal cfg inp now d) (ji_postings inp)"
  by (simp add: posts_def)

lemma posts_later: "posts db d ps \<Longrightarrow> db_postings db' = db_postings d \<Longrightarrow> posts db db' ps"
  by (simp add: posts_def)

definition covered :: "pg_db \<Rightarrow> bool" where
  "covered db = (\<forall>u. 0 \<le> net (availableCode u) (db_postings db) \<and> 0 \<le> net (offlinePayPendingCode u) (db_postings db))"

definition amounts_ok :: "pg_db \<Rightarrow> bool" where
  "amounts_ok db = (\<forall>i w. map_get (db_withdrawals db) i = Some w \<longrightarrow> 0 \<le> wd_amount w)"

lemma covered_posts:
  assumes "covered db" and "posts db db' ps"
    and "\<And>u. 0 \<le> net (availableCode u) (db_postings db) + delta (availableCode u) ps"
    and "\<And>u. 0 \<le> net (offlinePayPendingCode u) (db_postings db) + delta (offlinePayPendingCode u) ps"
  shows "covered db'"
  using assms by (simp add: covered_def posts_def)

lemma covered_same: "covered db \<Longrightarrow> db_postings db' = db_postings db \<Longrightarrow> covered db'"
  by (simp add: covered_def)

lemma amounts_same: "amounts_ok db \<Longrightarrow> db_withdrawals db' = db_withdrawals db \<Longrightarrow> amounts_ok db'"
  by (simp add: amounts_ok_def)

lemma amounts_set:
  "amounts_ok db \<Longrightarrow> db_withdrawals db' = map_set i w (db_withdrawals db) \<Longrightarrow> 0 \<le> wd_amount w \<Longrightarrow> amounts_ok db'"
  by (simp add: amounts_ok_def)

definition funded :: "pg_db \<Rightarrow> bool" where
  "funded db = (covered db \<and> amounts_ok db)"

lemma funded_same:
  "funded db \<Longrightarrow> db_postings db' = db_postings db \<Longrightarrow> db_withdrawals db' = db_withdrawals db \<Longrightarrow> funded db'"
  by (simp add: funded_def covered_def amounts_ok_def)

text \<open>A transaction keeps it when its work does, where it does not throw.\<close>

lemma funded_transaction:
  assumes "funded db" and "\<And>x d. work db = (Inr x, d) \<Longrightarrow> funded d"
  shows "funded (snd (withTransaction work db))"
  by (cases rule: withTransaction_cases [of work db]) (use assms in \<open>auto intro: funded_same\<close>)

section \<open>Operations on accounts\<close>

lemma funded_sel [simp]:
  "funded (pg_syncUserAccountProjection us now db) = funded db"
  "funded (pg_enqueueOutboxEvent cfg et aty aid p n db) = funded db"
  "funded (pg_ensureAccount u now db) = funded db"
  "funded (db\<lparr>db_uuids := k\<rparr>) = funded db"
  "funded (db\<lparr>db_transactions := ts\<rparr>) = funded db"
  "funded (db\<lparr>db_deposits := ds\<rparr>) = funded db"
  "funded (db\<lparr>db_approvals := as\<rparr>) = funded db"
  "funded (db\<lparr>db_feeReceipts := fs\<rparr>) = funded db"
  "funded (update_transaction i f db) = funded db"
  "funded (pg_persistNetworkFeeReceipt cfg r i fee now db) = funded db"
  by (simp_all add: funded_def covered_def amounts_ok_def pg_persistNetworkFeeReceipt_def Let_def)

lemma funded_write_row: "funded db \<Longrightarrow> 0 \<le> wd_amount w \<Longrightarrow> funded (write_row i w db)"
  by (simp add: funded_def covered_def amounts_ok_def)

lemma funded_set_withdrawal: "funded db \<Longrightarrow> 0 \<le> wd_amount w \<Longrightarrow> funded (db\<lparr>db_withdrawals := map_set i w (db_withdrawals db)\<rparr>)"
  by (simp add: funded_def covered_def amounts_ok_def)

text \<open>A journal is harmless when what it takes from an account is there.\<close>

definition harmless :: "pg_db \<Rightarrow> ledger_posting_input list \<Rightarrow> bool" where
  "harmless db ps =
     (\<forall>u. 0 \<le> net (availableCode u) (db_postings db) + delta (availableCode u) ps \<and>
          0 \<le> net (offlinePayPendingCode u) (db_postings db) + delta (offlinePayPendingCode u) ps)"

lemma funded_append:
  "funded db \<Longrightarrow> harmless db (ji_postings inp) \<Longrightarrow> funded (pg_appendJournal cfg inp now db)"
  by (simp add: funded_def covered_def amounts_ok_def harmless_def)

lemma harmless_cong: "db_postings db' = db_postings db \<Longrightarrow> harmless db' ps = harmless db ps"
  by (simp add: harmless_def)

lemma fundedD: "funded db \<Longrightarrow> 0 \<le> net (availableCode u) (db_postings db)"
  "funded db \<Longrightarrow> 0 \<le> net (offlinePayPendingCode u) (db_postings db)"
  "funded db \<Longrightarrow> map_get (db_withdrawals db) i = Some w \<Longrightarrow> 0 \<le> wd_amount w"
  by (simp_all add: funded_def covered_def amounts_ok_def)

lemma harmless_gain:
  assumes "funded db" and "\<And>u. 0 \<le> delta (availableCode u) ps" and "\<And>u. 0 \<le> delta (offlinePayPendingCode u) ps"
  shows "harmless db ps"
  unfolding harmless_def using assms(2,3) fundedD(1,2) [OF assms(1)] by (simp add: add_nonneg_nonneg)

lemma funded_deposit:
  assumes "funded db" and "0 \<le> di_amount inp"
  shows "funded (snd (pg_applyDeposit cfg inp now db))"
  unfolding pg_applyDeposit_def
  by (rule funded_transaction [OF assms(1)])
    (auto simp: Let_def assms deposit_journal_def intro!: funded_append harmless_gain split: option.splits sum.splits if_splits)

lemma funded_credit:
  assumes "funded db"
  shows "funded (snd (pg_applyExternalCredit cfg inp now db))"
  unfolding pg_applyExternalCredit_def
  by (auto simp: Let_def assms credit_journal_def intro!: funded_transaction [OF assms] funded_append harmless_gain
      split: option.splits if_splits)

lemma funded_transfer:
  assumes "funded db" and "pg_inv cfg db" and "0 \<le> amount"
  shows "funded (snd (pg_transfer cfg f g amount key now db))"
proof -
  let ?db1 = "pg_ensureAccount g now (pg_ensureAccount f now db)"
  have inv: "pg_inv cfg ?db1" by (intro pg_inv_ensure assms(2))
  have "harmless d (ji_postings (transfer_journal f g amount key))"
    if "pg_getAccountForUpdate f ?db1 = Inr x" "\<not> availableBalance f x ?db1 < amount" "db_postings d = db_postings db" for x d
    using ensured_account(1) [OF inv that(1)] that(2,3) assms(3) fundedD [OF assms(1)]
    by (auto simp: harmless_def transfer_journal_def pg_book_def)
  then show ?thesis
    unfolding pg_transfer_def
    by (auto simp: Let_def assms(1) intro!: funded_transaction [OF assms(1)] funded_append split: option.splits sum.splits if_splits)
qed

section \<open>Withdrawals\<close>

lemma publish_funded: "pg_publishWithdrawal cfg i now f db = (Inr r, db') \<Longrightarrow> funded db \<Longrightarrow> funded db'"
  by (auto simp: pg_publishWithdrawal_def Let_def split: sum.splits)

lemma funded_publish [simp]: "funded (snd (pg_publishWithdrawal cfg i now f db)) = funded db"
  by (auto simp: pg_publishWithdrawal_def Let_def split: sum.splits)

lemma funded_request:
  assumes "funded db" and "pg_inv cfg db" and "0 \<le> wi_amount inp"
  shows "funded (snd (pg_requestWithdrawal cfg inp now db))"
proof -
  let ?u = "wi_userId inp"
  let ?db1 = "pg_ensureAccount ?u now db"
  have inv: "pg_inv cfg ?db1" by (intro pg_inv_ensure assms(2))
  have "harmless d (ji_postings (reserve_journal i inp))"
    if "pg_getAccountForUpdate ?u ?db1 = Inr x" "\<not> availableBalance ?u x ?db1 < wi_amount inp" "db_postings d = db_postings db" for x d i
    using ensured_account(1) [OF inv that(1)] that(2,3) assms(3) fundedD [OF assms(1)]
    by (auto simp: harmless_def reserve_journal_def pg_book_def)
  moreover have "funded (db\<lparr>db_uuids := k, db_transactions := ts, db_withdrawals := map_set i w (db_withdrawals db)\<rparr>)"
    if "0 \<le> wd_amount w" for k ts i w
    using assms(1) that by (simp add: funded_def covered_def amounts_ok_def)
  moreover have "funded (?db1\<lparr>db_uuids := k, db_transactions := ts, db_withdrawals := map_set i w (db_withdrawals db)\<rparr>)"
    if "0 \<le> wd_amount w" for k ts i w
    using assms(1) that by (simp add: funded_def covered_def amounts_ok_def)
  ultimately show ?thesis
    using assms(1,3) unfolding pg_requestWithdrawal_def
    by (auto simp: Let_def dest!: publish_funded intro!: funded_transaction [OF assms(1)] funded_append
        split: option.splits sum.splits if_splits)
qed

lemma funded_status:
  assumes "funded db"
  shows "funded (snd (pg_confirmWithdrawalExternalAuth cfg i p r now db))"
    and "funded (snd (pg_markWithdrawalReviewRequired cfg i now db))"
    and "funded (snd (pg_broadcastWithdrawal cfg i h now db))"
    and "funded (snd (pg_approveWithdrawal cfg i ainp now db))"
proof -
  note row = funded_write_row and amount = fundedD(3) [OF assms]
  show "funded (snd (pg_confirmWithdrawalExternalAuth cfg i p r now db))"
    unfolding pg_confirmWithdrawalExternalAuth_def
    by (rule funded_transaction [OF assms])
      (auto simp: assms dest: amount intro!: row elim!: publish_funded split: sum.splits if_splits)
  show "funded (snd (pg_markWithdrawalReviewRequired cfg i now db))"
    unfolding pg_markWithdrawalReviewRequired_def
    by (rule funded_transaction [OF assms])
      (auto simp: assms dest: amount intro!: row elim!: publish_funded split: sum.splits if_splits)
  show "funded (snd (pg_broadcastWithdrawal cfg i h now db))"
    unfolding pg_broadcastWithdrawal_def
    by (rule funded_transaction [OF assms])
      (auto simp: assms dest: amount intro!: row elim!: publish_funded split: sum.splits if_splits)
  show "funded (snd (pg_approveWithdrawal cfg i ainp now db))"
    unfolding pg_approveWithdrawal_def
    by (rule funded_transaction [OF assms])
      (auto simp: Let_def assms dest: amount intro!: row elim!: publish_funded split: sum.splits if_splits)
qed

lemma funded_fee: "funded db \<Longrightarrow> funded (post_fee cfg i w fee now db)"
  by (auto simp: post_fee_def fee_journal_def intro!: funded_append harmless_gain split: option.split)

lemma funded_confirm:
  assumes "funded db"
  shows "funded (snd (pg_confirmWithdrawal cfg i fee now db))"
  unfolding pg_confirmWithdrawal_def
  by (rule funded_transaction [OF assms])
    (auto simp: Let_def assms settle_journal_def intro!: funded_append harmless_gain funded_fee funded_write_row elim!: publish_funded split: sum.splits if_splits;
      erule fundedD(3) [OF assms])

lemma funded_fail:
  assumes "funded db"
  shows "funded (snd (pg_failWithdrawal cfg i reason now db))"
  unfolding pg_failWithdrawal_def
  by (rule funded_transaction [OF assms])
    (auto simp: Let_def assms release_journal_def intro!: funded_append harmless_gain funded_write_row elim!: publish_funded split: sum.splits if_splits;
      erule fundedD(3) [OF assms])

section \<open>Offline payments\<close>

lemma funded_lock:
  assumes "funded db" and "pg_inv cfg db" and "0 \<le> lk_amount inp"
  shows "funded (snd (pg_lockOfflinePayCollateral cfg inp now db))"
proof -
  let ?db1 = "pg_ensureAccount (lk_userId inp) now db"
  have inv: "pg_inv cfg ?db1" by (rule pg_inv_ensure [OF assms(2)])
  have "harmless ?db1 (ji_postings (lock_journal inp))"
    if "pg_getAccountForUpdate (lk_userId inp) ?db1 = Inr x" "\<not> availableBalance (lk_userId inp) x ?db1 < lk_amount inp" for x
    using ensured_account(1) [OF inv that(1)] that(2) assms(3) fundedD [OF assms(1)]
    by (auto simp: harmless_def lock_journal_def pg_book_def)
  then show ?thesis
    unfolding pg_lockOfflinePayCollateral_def
    by (auto simp: Let_def assms(1) intro!: funded_transaction [OF assms(1)] funded_append split: option.splits sum.splits if_splits)
qed

lemma funded_release:
  assumes "funded db" and "0 \<le> ri_amount inp"
  shows "funded (snd (pg_releaseOfflinePayCollateral cfg inp now db))"
proof -
  have "harmless (pg_ensureAccount (ri_userId inp) now db) (ji_postings (collateral_release_journal inp))"
    if "ri_amount inp \<le> net (offlinePayPendingCode (ri_userId inp)) (db_postings db)"
    using that assms(2) fundedD [OF assms(1)] by (auto simp: harmless_def collateral_release_journal_def)
  then show ?thesis
    unfolding pg_releaseOfflinePayCollateral_def
    by (auto simp: Let_def assms(1) not_less intro!: funded_transaction [OF assms(1)] funded_append split: option.splits if_splits)
qed

text \<open>The parts of a settlement.\<close>

definition settlement_fee :: "settlement_input \<Rightarrow> int" where
  "settlement_fee inp =
     (if se_releaseAction inp = RA_release then calculateOfflinePaySettlementFee (se_assetCode inp) (se_amount inp) else 0)"

definition receiver_amount :: "settlement_input \<Rightarrow> int" where
  "receiver_amount inp = (if settlement_fee inp < se_amount inp then se_amount inp - settlement_fee inp else 0)"

lemma receiver_amount_nonneg [simp]: "0 \<le> receiver_amount inp"
  by (simp add: receiver_amount_def)

lemma funded_receiver:
  assumes "funded db" and "0 \<le> amount"
  shows "funded (appendOfflinePayReceiverSettlementIfNeeded cfg inp r now amount db)"
  using assms
  by (auto simp: appendOfflinePayReceiverSettlementIfNeeded_def receiver_journal_def
      intro!: funded_append harmless_gain split: option.split)

lemma funded_finalize:
  assumes "funded db" and "0 \<le> se_amount inp"
  shows "funded (snd (pg_finalizeOfflinePaySettlement cfg inp now db))"
proof -
  define r where "r = resolveOfflinePayReceiverUserId (se_userId inp) (se_receiverUserId inp) (se_receiverDeviceId inp) db"
  define req where "req = (se_receiverWalletSettlementRequested inp = Some True)"
  define us where "us = (if truthy r \<and> req then [se_userId inp, the r] else [se_userId inp])"
  define db1 where "db1 = pg_ensureAccount (se_userId inp) now db"
  define db2 where "db2 = (if truthy r \<and> req then pg_ensureAccount (the r) now db1 else db1)"
  define fee where "fee = settlement_fee inp"
  define receives where "receives = receiver_amount inp"
  define receive where "receive = (\<lambda>d. if req then appendOfflinePayReceiverSettlementIfNeeded cfg inp r now receives d else d)"
  have f2: "funded db2" using assms(1) by (simp add: db2_def db1_def)
  have receiver: "funded (receive d)" if "funded d" for d
    using that by (simp add: receive_def receives_def funded_receiver)
  have "harmless db2 (ji_postings (settlement_journal inp fee receives))"
    if "se_amount inp \<le> net (offlinePayPendingCode (se_userId inp)) (db_postings db2)"
    using that assms(2) fundedD [OF f2] by (auto simp: harmless_def settlement_journal_def settlement_postings_def)
  then have fresh: "funded (pg_appendJournal cfg (settlement_journal inp fee receives) now db2)"
    if "\<not> pg_getProjectedLedgerAccountBalance (offlinePayPendingCode (se_userId inp)) db2 < se_amount inp"
    using that by (intro funded_append f2) simp
  have "funded (snd (withTransaction (\<lambda>_. case find_journal ''offline_pay_settlement'' (se_settlementId inp) db of
       Some _ \<Rightarrow> (Inr x, pg_syncUserAccountProjection us now (receive db2))
     | None \<Rightarrow> if b1 then (Inl e1, db2) else if b2 then (Inl e2, db2)
         else if pg_getProjectedLedgerAccountBalance (offlinePayPendingCode (se_userId inp)) db2 < se_amount inp then (Inl e3, db2)
         else if b4 then (Inl e4, db2) else (Inr y, pg_enqueueOutboxEvent cfg et aty aid p t (pg_syncUserAccountProjection us now
                (receive (pg_appendJournal cfg (settlement_journal inp fee receives) now db2))))) db))"
    for x y b1 b2 b4 e1 e2 e3 e4 et aty aid p t
    by (rule funded_transaction [OF assms(1)])
      (auto simp: receiver fresh f2 simp del: account_projection split: option.splits if_splits)
  then show ?thesis
    unfolding pg_finalizeOfflinePaySettlement_def
    by (simp only: withTransaction_def Let_def r_def req_def us_def db1_def db2_def fee_def receives_def receive_def
        settlement_fee_def receiver_amount_def)
qed

section \<open>Reconciliations\<close>

text \<open>A reconciliation to a target that covers what is locked leaves nobody below zero.\<close>

lemma funded_reconcileUser:
  assumes "funded db" and "pb_lockedBalance (pg_getProjectedUserBalances u db) \<le> target"
  shows "funded (snd (pg_reconcileOfflinePayUserBalance cfg u target now db))"
proof -
  let ?db1 = "pg_ensureAccount u now db"
  let ?p = "pg_getProjectedUserBalances u ?db1"
  have "harmless ?db1 (ji_postings (user_reconcile_journal u now (target - (pb_balance ?p + pb_lockedBalance ?p))))"
    using assms(2) fundedD [OF assms(1)]
    by (auto simp: harmless_def user_reconcile_journal_def reconcile_postings_def)
  then show ?thesis
    unfolding pg_reconcileOfflinePayUserBalance_def
    by (auto simp: Let_def assms(1) intro!: funded_transaction [OF assms(1)] funded_append split: sum.splits if_splits)
qed

lemma funded_reconcilePending:
  assumes "funded db" and "0 \<le> target"
  shows "funded (snd (pg_reconcileOfflinePayPendingBalance cfg u target basis now db))"
proof -
  let ?db1 = "pg_ensureAccount u now db"
  have "harmless ?db1 (ji_postings (pending_reconcile_journal u basis now
      (target - pg_getProjectedLedgerAccountBalance (offlinePayPendingCode u) ?db1)))"
    using assms(2) fundedD [OF assms(1)]
    by (auto simp: harmless_def pending_reconcile_journal_def reconcile_postings_def)
  then show ?thesis
    unfolding pg_reconcileOfflinePayPendingBalance_def
    by (auto simp: Let_def assms(1) intro!: funded_transaction [OF assms(1)] funded_append split: sum.splits if_splits)
qed

section \<open>The machine without overrides\<close>

text \<open>
  The steps of the Postgres ledger except compensations, with non-negative amounts: what
  \<open>parseKoriAmount\<close> makes of the amounts in requests.  A reconciliation may only set a balance that
  covers what the user has locked, and a collateral that is not negative.
\<close>

inductive careful_step :: "ledger_cfg \<Rightarrow> pg_db \<Rightarrow> pg_db \<Rightarrow> bool" for cfg where
  careful_quiet: "pg_step cfg db db' \<Longrightarrow> db_postings db' = db_postings db \<Longrightarrow> db_withdrawals db' = db_withdrawals db
    \<Longrightarrow> careful_step cfg db db'"
| careful_deposit: "0 \<le> di_amount dinp \<Longrightarrow> careful_step cfg db (snd (pg_applyDeposit cfg dinp now db))"
| careful_credit: "careful_step cfg db (snd (pg_applyExternalCredit cfg cinp now db))"
| careful_transfer: "0 \<le> amount \<Longrightarrow> careful_step cfg db (snd (pg_transfer cfg f g amount key now db))"
| careful_request: "0 \<le> wi_amount winp \<Longrightarrow> careful_step cfg db (snd (pg_requestWithdrawal cfg winp now db))"
| careful_auth: "careful_step cfg db (snd (pg_confirmWithdrawalExternalAuth cfg i p r now db))"
| careful_review: "careful_step cfg db (snd (pg_markWithdrawalReviewRequired cfg i now db))"
| careful_approve: "careful_step cfg db (snd (pg_approveWithdrawal cfg i ainp now db))"
| careful_broadcast: "careful_step cfg db (snd (pg_broadcastWithdrawal cfg i h now db))"
| careful_confirm: "careful_step cfg db (snd (pg_confirmWithdrawal cfg i fee now db))"
| careful_fail: "careful_step cfg db (snd (pg_failWithdrawal cfg i reason now db))"
| careful_lock: "0 \<le> lk_amount lkinp \<Longrightarrow> careful_step cfg db (snd (pg_lockOfflinePayCollateral cfg lkinp now db))"
| careful_release: "0 \<le> ri_amount riinp \<Longrightarrow> careful_step cfg db (snd (pg_releaseOfflinePayCollateral cfg riinp now db))"
| careful_finalize: "0 \<le> se_amount seinp \<Longrightarrow> careful_step cfg db (snd (pg_finalizeOfflinePaySettlement cfg seinp now db))"
| careful_reconcileUser: "pb_lockedBalance (pg_getProjectedUserBalances u db) \<le> target
    \<Longrightarrow> careful_step cfg db (snd (pg_reconcileOfflinePayUserBalance cfg u target now db))"
| careful_reconcilePending: "0 \<le> target
    \<Longrightarrow> careful_step cfg db (snd (pg_reconcileOfflinePayPendingBalance cfg u target basis now db))"
| careful_sweep: "careful_step cfg db (snd (pg_confirmSweep cfg i sc now db))"

lemma careful_is_step: "careful_step cfg db db' \<Longrightarrow> pg_step cfg db db'"
  by (induction rule: careful_step.induct) (blast intro: pg_step.intros)+

lemma funded_confirmSweep:
  assumes "funded db"
  shows "funded (snd (pg_confirmSweep cfg i payload now db))"
proof (rule confirmSweep_keeps)
  show "funded (snd (update_sweep_row i a m f db))" for a m f
    using assms by (auto simp: update_sweep_row_def funded_def covered_def amounts_ok_def split: option.split)
  show "funded (pg_appendJournal cfg (sweep_fee_journal i h n) now (pg_persistNetworkFeeReceipt cfg FR_sweep i fee now d))"
    if "funded d" for d h n fee
    using that by (auto simp: sweep_fee_journal_def intro!: funded_append harmless_gain)
qed

lemmas funded_operations = funded_deposit funded_credit funded_transfer funded_request funded_status funded_confirm
  funded_fail funded_lock funded_release funded_finalize funded_reconcileUser funded_reconcilePending funded_confirmSweep

lemma funded_step:
  assumes "careful_step cfg db db'" and "pg_inv cfg db" and "funded db"
  shows "funded db'"
  using assms by (cases rule: careful_step.cases) (auto intro: funded_operations funded_same)

interpretation cm: invariant_system "\<lambda>db. db = empty_db"
    "\<lambda>db db'. uuid_ok cfg \<and> careful_step cfg db db'" "\<lambda>db. pg_inv cfg db \<and> funded db" for cfg
proof unfold_locales
  show "pg_inv cfg db \<and> funded db" if "db = empty_db" for db
    using that pg_inv_empty by (simp add: funded_def covered_def amounts_ok_def empty_db_def map_get_def)
  show "pg_inv cfg db' \<and> funded db'" if "uuid_ok cfg \<and> careful_step cfg db db'" "pg_inv cfg db \<and> funded db" for db db'
    using that funded_step pg_inv_step [OF careful_is_step] by blast
qed

definition careful_db :: "ledger_cfg \<Rightarrow> pg_db \<Rightarrow> bool" where
  "careful_db cfg db = (uuid_ok cfg \<and> (careful_step cfg)\<^sup>*\<^sup>* empty_db db)"

lemma careful_db_funded: "careful_db cfg db \<Longrightarrow> pg_inv cfg db \<and> funded db"
  using cm.inv_reachable [OF refl, of cfg db] by (auto simp: careful_db_def)

lemma careful_db_empty: "uuid_ok cfg \<Longrightarrow> careful_db cfg empty_db"
  by (simp add: careful_db_def)

lemma careful_db_step: "careful_db cfg db \<Longrightarrow> careful_step cfg db db' \<Longrightarrow> careful_db cfg db'"
  by (auto simp: careful_db_def intro: rtranclp.rtrancl_into_rtrancl)

section \<open>The effect of a settlement\<close>

text \<open>The receiver's journal is written when the settlement asks for it, is final and undisputed, and
  has not been written before.\<close>

definition receiver_wanted :: "settlement_input \<Rightarrow> string option \<Rightarrow> bool" where
  "receiver_wanted inp r =
     (se_receiverWalletSettlementRequested inp = Some True \<and> truthy r \<and>
      (se_settlementStatus inp = ''SETTLED'' \<or> se_financiallyHonored inp = Some True) \<and>
      se_releaseAction inp = RA_release \<and> \<not> se_conflictDetected inp)"

definition receiver_due :: "settlement_input \<Rightarrow> pg_db \<Rightarrow> string option" where
  "receiver_due inp db =
     (let r = resolveOfflinePayReceiverUserId (se_userId inp) (se_receiverUserId inp) (se_receiverDeviceId inp) db in
      if receiver_wanted inp r \<and> find_journal ''offline_pay_receiver_settlement'' (se_settlementId inp) db = None
      then r else None)"

lemma receiver_step:
  "(if se_receiverWalletSettlementRequested inp = Some True
    then appendOfflinePayReceiverSettlementIfNeeded cfg inp r now a d else d)
   = (if receiver_wanted inp r \<and> find_journal ''offline_pay_receiver_settlement'' (se_settlementId inp) d = None
      then pg_appendJournal cfg (receiver_journal inp (the r) a) now d else d)"
  by (auto simp: receiver_wanted_def appendOfflinePayReceiverSettlementIfNeeded_def split: option.split)

lemma wanted_some: "receiver_wanted inp r \<Longrightarrow> r = Some (the r)"
  by (auto simp: receiver_wanted_def truthy_def split: option.splits)

definition receiver_postings :: "settlement_input \<Rightarrow> pg_db \<Rightarrow> ledger_posting_input list" where
  "receiver_postings inp db =
     (case receiver_due inp db of None \<Rightarrow> []
      | Some r \<Rightarrow> ji_postings (receiver_journal inp r (receiver_amount inp)))"

lemma find_snoc_other: "\<not> P x \<Longrightarrow> find P (xs @ [x]) = find P xs"
  by (induction xs) auto

lemma find_journal_append_other:
  "jn_referenceType j \<noteq> t \<Longrightarrow> db_journals d = db_journals db @ [j] \<Longrightarrow> find_journal t i d = find_journal t i db"
  by (simp add: find_journal_def find_snoc_other)

lemma receiver_due_posts:
  assumes "find_journal ''offline_pay_receiver_settlement'' (se_settlementId inp) d
      = find_journal ''offline_pay_receiver_settlement'' (se_settlementId inp) db"
    and "r = resolveOfflinePayReceiverUserId (se_userId inp) (se_receiverUserId inp) (se_receiverDeviceId inp) db"
  shows "posts d (if se_receiverWalletSettlementRequested inp = Some True
       then appendOfflinePayReceiverSettlementIfNeeded cfg inp r now (receiver_amount inp) d else d) (receiver_postings inp db)"
  unfolding receiver_step receiver_postings_def receiver_due_def Let_def assms(2) [symmetric]
  using assms(1) wanted_some [of inp r] posts_journal [of d d cfg _ now]
  by (cases r) (auto simp: posts_nothing)

lemma delta_append [simp]: "delta c (ps @ qs) = delta c ps + delta c qs"
  by (induction ps) auto

lemma posts_trans: "posts a b ps \<Longrightarrow> posts b c qs \<Longrightarrow> posts a c (ps @ qs)"
  by (simp add: posts_def)

lemma find_journal_new:
  "jn_referenceType j = t \<Longrightarrow> jn_referenceId j = i \<Longrightarrow> db_journals d = db_journals db @ [j] \<Longrightarrow> find_journal t i d \<noteq> None"
  by (auto simp: find_journal_def find_None_iff)

lemma find_journal_kept:
  "find_journal t i db \<noteq> None \<Longrightarrow> db_journals d = db_journals db @ js \<Longrightarrow> find_journal t i d \<noteq> None"
  by (auto simp: find_journal_def find_None_iff find_Some_iff)

lemma resolve_cong:
  assumes "db_devices d = db_devices db"
  shows "resolveOfflinePayReceiverUserId s u v d = resolveOfflinePayReceiverUserId s u v db"
proof -
  have "findOfflinePayReceiverUserId s v d = findOfflinePayReceiverUserId s v db"
    by (simp only: findOfflinePayReceiverUserId_def assms)
  then show ?thesis by (simp only: resolveOfflinePayReceiverUserId_def)
qed

lemma find_journal_cong: "db_journals d = db_journals db \<Longrightarrow> find_journal t i d = find_journal t i db"
  by (simp add: find_journal_def)

lemma receiver_due_cong:
  "db_journals d = db_journals db \<Longrightarrow> db_devices d = db_devices db \<Longrightarrow> receiver_due inp d = receiver_due inp db"
  by (simp add: receiver_due_def Let_def resolve_cong [of d db] find_journal_cong [of d db])

text \<open>After the receiver's step nothing is due to the receiver.\<close>

lemma receiver_settled:
  fixes cfg now a d
  assumes "r = resolveOfflinePayReceiverUserId (se_userId inp) (se_receiverUserId inp) (se_receiverDeviceId inp) d"
  defines "d' \<equiv> (if se_receiverWalletSettlementRequested inp = Some True
       then appendOfflinePayReceiverSettlementIfNeeded cfg inp r now a d else d)"
  shows "receiver_due inp d' = None" and "db_devices d' = db_devices d" and "\<exists>js. db_journals d' = db_journals d @ js"
proof -
  note d' = d'_def [unfolded receiver_step]
  show dev: "db_devices d' = db_devices d" by (simp add: d')
  show "\<exists>js. db_journals d' = db_journals d @ js" by (simp add: d')
  show "receiver_due inp d' = None"
  proof (cases "receiver_wanted inp r \<and> find_journal ''offline_pay_receiver_settlement'' (se_settlementId inp) d = None")
    case True
    then have "d' = pg_appendJournal cfg (receiver_journal inp (the r) a) now d" by (simp add: d')
    then have "find_journal ''offline_pay_receiver_settlement'' (se_settlementId inp) d' \<noteq> None"
      by (simp only:) (rule find_journal_new [OF _ _ appendJournal_sel(14)], simp_all add: receiver_journal_def)
    then show ?thesis by (auto simp: receiver_due_def Let_def)
  next
    case False
    then have "d' = d" unfolding d' by (rule if_not_P)
    with False assms(1) show ?thesis by (auto simp: receiver_due_def Let_def)
  qed
qed

lemma finalize_settled:
  "find_journal ''offline_pay_settlement'' (se_settlementId inp) db \<noteq> None
   \<Longrightarrow> \<exists>r db'. pg_finalizeOfflinePaySettlement cfg inp now db = (Inr r, db')"
  unfolding pg_finalizeOfflinePaySettlement_def withTransaction_def Let_def by (elim not_None_eq [THEN iffD1, THEN exE]) simp

lemma settlement_effect:
  assumes "pg_finalizeOfflinePaySettlement cfg inp now db = (Inr r, db')"
  shows "sr_duplicated r \<longleftrightarrow> find_journal ''offline_pay_settlement'' (se_settlementId inp) db \<noteq> None"
    and "posts db db' (if sr_duplicated r then receiver_postings inp db
       else settlement_postings inp (settlement_fee inp) (receiver_amount inp) @ receiver_postings inp db)"
    and "\<not> sr_duplicated r \<Longrightarrow> se_amount inp \<le> pg_getOfflinePayPendingBalance (se_userId inp) db \<and> sr_feeAmount r = settlement_fee inp"
    and "find_journal ''offline_pay_settlement'' (se_settlementId inp) db' \<noteq> None \<and> receiver_due inp db' = None"
proof -
  define u where "u = resolveOfflinePayReceiverUserId (se_userId inp) (se_receiverUserId inp) (se_receiverDeviceId inp) db"
  define req where "req = (se_receiverWalletSettlementRequested inp = Some True)"
  define us where "us = (if truthy u \<and> req then [se_userId inp, the u] else [se_userId inp])"
  define db1 where "db1 = pg_ensureAccount (se_userId inp) now db"
  define db2 where "db2 = (if truthy u \<and> req then pg_ensureAccount (the u) now db1 else db1)"
  define fee where "fee = settlement_fee inp"
  define receives where "receives = receiver_amount inp"
  define receive where "receive = (\<lambda>d. if req then appendOfflinePayReceiverSettlementIfNeeded cfg inp u now receives d else d)"
  define db3 where "db3 = pg_appendJournal cfg (settlement_journal inp fee receives) now db2"
  have p2: "db_postings db2 = db_postings db" "db_journals db2 = db_journals db" by (simp_all add: db2_def db1_def)
  then have j: "find_journal ''offline_pay_receiver_settlement'' i db2 = find_journal ''offline_pay_receiver_settlement'' i db" for i
    by (simp add: find_journal_def)
  moreover have "find_journal ''offline_pay_receiver_settlement'' i db3 = find_journal ''offline_pay_receiver_settlement'' i db2" for i
    unfolding db3_def by (rule find_journal_append_other [OF _ appendJournal_sel(14)]) (simp add: settlement_journal_def)
  ultimately have rec: "posts db2 (receive db2) (receiver_postings inp db)" "posts db3 (receive db3) (receiver_postings inp db)"
    unfolding receive_def receives_def req_def by (intro receiver_due_posts u_def; simp)+
  have main: "posts db db3 (settlement_postings inp fee receives)"
    using posts_journal [OF p2(1), of cfg "settlement_journal inp fee receives" now]
    by (simp add: db3_def settlement_journal_def)
  have "(case find_journal ''offline_pay_settlement'' (se_settlementId inp) db of
       Some _ \<Rightarrow> (Inr (settlement_outcome LO_finalized (se_settlementId inp) (se_userId inp) (se_releaseAction inp) True
                    (coalesce (se_feeAmount inp) 0) (truthy u \<and> req) (pg_syncUserAccountProjection us now (receive db2))),
                  pg_syncUserAccountProjection us now (receive db2))
     | None \<Rightarrow>
         if coalesce (se_feeAmount inp) 0 < 0
         then (Inl (DomainError 400 ''INVALID_OFFLINE_PAY_FEE'' ''offline pay settlement fee must be non-negative''), db2)
         else if se_releaseAction inp = RA_release \<and> se_feeAmount inp \<noteq> None
           \<and> se_feeAmount inp \<noteq> Some (calculateOfflinePaySettlementFee (se_assetCode inp) (se_amount inp))
         then (Inl (DomainError 409 ''OFFLINE_PAY_FEE_MISMATCH'' ''offline pay settlement fee mismatch''), db2)
         else if pg_getProjectedLedgerAccountBalance (offlinePayPendingCode (se_userId inp)) db2 < se_amount inp
         then (Inl (DomainError 409 ''INSUFFICIENT_OFFLINE_PAY_PENDING'' ''offline pay pending balance underflow''), db2)
         else if \<not> journal_fits (settlement_journal inp fee receives) then (Inl column_error, db2)
         else (Inr (settlement_outcome LO_finalized (se_settlementId inp) (se_userId inp) (se_releaseAction inp) False
                      fee (truthy u \<and> req) (pg_syncUserAccountProjection us now (receive db3))),
               pg_enqueueOutboxEvent cfg ''offline_pay.settlement.finalized'' ''offline_pay_settlement'' (se_settlementId inp)
                 (settlement_payload inp fee now) now (pg_syncUserAccountProjection us now (receive db3)))) = (Inr r, db')"
    using withTransaction_InrD [OF assms [unfolded pg_finalizeOfflinePaySettlement_def]]
    by (simp only: Let_def u_def req_def us_def db1_def db2_def db3_def fee_def receives_def receive_def
        settlement_fee_def receiver_amount_def)
  then have cases: "(\<exists>x. find_journal ''offline_pay_settlement'' (se_settlementId inp) db = Some x \<and> sr_duplicated r \<and>
        db_postings db' = db_postings (receive db2) \<and> db_journals db' = db_journals (receive db2) \<and>
        db_devices db' = db_devices (receive db2)) \<or>
     (find_journal ''offline_pay_settlement'' (se_settlementId inp) db = None \<and> \<not> sr_duplicated r \<and>
        db_postings db' = db_postings (receive db3) \<and> db_journals db' = db_journals (receive db3) \<and>
        db_devices db' = db_devices (receive db3) \<and> sr_feeAmount r = fee \<and>
        se_amount inp \<le> net (offlinePayPendingCode (se_userId inp)) (db_postings db2))"
    by (auto simp: settlement_outcome_def Let_def split: option.splits if_splits)
  show "sr_duplicated r \<longleftrightarrow> find_journal ''offline_pay_settlement'' (se_settlementId inp) db \<noteq> None"
    using cases by auto
  show "posts db db' (if sr_duplicated r then receiver_postings inp db
       else settlement_postings inp (settlement_fee inp) (receiver_amount inp) @ receiver_postings inp db)"
    using cases rec(1) posts_trans [OF main rec(2)] p2(1) by (auto simp: fee_def receives_def posts_def)
  show "\<not> sr_duplicated r \<Longrightarrow> se_amount inp \<le> pg_getOfflinePayPendingBalance (se_userId inp) db \<and> sr_feeAmount r = settlement_fee inp"
    using cases p2(1) by (auto simp: fee_def pg_getOfflinePayPendingBalance_def)
  have dev: "db_devices db2 = db_devices db" "db_devices db3 = db_devices db" by (simp_all add: db3_def db2_def db1_def)
  have fin: "receiver_due inp (receive d) = None" "\<exists>js. db_journals (receive d) = db_journals d @ js"
    if "db_devices d = db_devices db" for d
    using receiver_settled(1,3) [of u inp d cfg now receives] that resolve_cong [of d db]
    by (simp_all add: receive_def req_def u_def)
  have new: "find_journal ''offline_pay_settlement'' (se_settlementId inp) db3 \<noteq> None"
    unfolding db3_def by (rule find_journal_new [OF _ _ appendJournal_sel(14)]) (simp_all add: settlement_journal_def)
  from cases show "find_journal ''offline_pay_settlement'' (se_settlementId inp) db' \<noteq> None \<and> receiver_due inp db' = None"
  proof (elim disjE exE conjE)
    fix x assume "find_journal ''offline_pay_settlement'' (se_settlementId inp) db = Some x"
      and eq: "db_journals db' = db_journals (receive db2)" "db_devices db' = db_devices (receive db2)"
    then have "find_journal ''offline_pay_settlement'' (se_settlementId inp) db2 \<noteq> None" using p2(2) by (simp add: find_journal_def)
    then show ?thesis
      using fin [OF dev(1)] eq receiver_due_cong [OF eq] find_journal_kept [of _ _ db2 db'] by auto
  next
    assume eq: "db_journals db' = db_journals (receive db3)" "db_devices db' = db_devices (receive db3)"
    then show ?thesis
      using fin [OF dev(2)] receiver_due_cong [OF eq] find_journal_kept [OF new, of db'] by auto
  qed
qed

text \<open>The receiver is never the sender.\<close>

lemma receiver_is_other: "receiver_due inp db = Some u \<Longrightarrow> u \<noteq> se_userId inp"
  by (auto simp: receiver_due_def receiver_wanted_def Let_def resolveOfflinePayReceiverUserId_def
      findOfflinePayReceiverUserId_def truthy_def split: option.splits if_splits)

end
