(* ===== verification/PgDemo.thy ===== *)
theory PgDemo
  imports PgSafety
begin

text \<open>
  A concrete run of the Postgres ledger: alice is credited and a receiver's device is registered, alice
  locks collateral, a settlement pays it to bob; or alice, once credited, requests a withdrawal that two
  administrators approve.  The witnesses of the properties are stated on these databases.
\<close>

definition pg_credit :: pg_credit_input where
  "pg_credit =
     \<lparr>ci_userId = ''alice'', ci_amount = 5000000, ci_currencyCode = ''kori'', ci_journalType = ''external_credit'',
      ci_referenceType = ''foxya'', ci_referenceId = ''ref-1'', ci_description = None\<rparr>"

definition pg_device :: device_input where
  "pg_device =
     \<lparr>dv_userId = ''bob'', dv_deviceId = ''phone'', dv_status = DV_active, dv_keyVersion = None, dv_lastSeenAt = None\<rparr>"

definition pg_lock :: lock_input where
  "pg_lock =
     \<lparr>lk_userId = ''alice'', lk_amount = 2000000, lk_deviceId = ''card'', lk_assetCode = ''KORI'',
      lk_referenceId = ''lock-1'', lk_policyVersion = 1\<rparr>"

definition pg_settlement :: settlement_input where
  "pg_settlement =
     \<lparr>se_settlementId = ''set-1'', se_batchId = ''batch'', se_collateralId = ''lock-1'', se_proofId = ''proof'',
      se_proofFingerprint = ''fp'', se_userId = ''alice'', se_deviceId = ''card'', se_receiverUserId = None,
      se_receiverDeviceId = Some ''phone'', se_receiverWalletSettlementRequested = Some True, se_assetCode = ''KORI'',
      se_amount = 1000000, se_feeAmount = None, se_settlementStatus = ''SETTLED'', se_releaseAction = RA_release,
      se_conflictDetected = False, se_financiallyHonored = None, se_newStateHash = ''h1'', se_previousHash = ''h0'',
      se_monotonicCounter = 1, se_nonce = ''n'', se_signature = ''s''\<rparr>"

definition pg_compensation :: "release_action \<Rightarrow> compensation_input" where
  "pg_compensation action =
     \<lparr>cp_settlementId = ''set-1'', cp_batchId = ''batch'', cp_collateralId = ''lock-1'', cp_proofId = ''proof'',
      cp_proofFingerprint = ''fp'', cp_userId = ''alice'', cp_deviceId = ''card'', cp_assetCode = ''KORI'',
      cp_amount = 1000000, cp_releaseAction = action, cp_compensationReason = ''dispute''\<rparr>"

definition pg_credited :: pg_db where
  "pg_credited = snd (pg_applyExternalCredit demo_cfg pg_credit demo_now empty_db)"

definition pg_registered :: pg_db where
  "pg_registered = pg_upsertOfflinePayDevice pg_device demo_now pg_credited"

definition pg_locked :: pg_db where
  "pg_locked = snd (pg_lockOfflinePayCollateral demo_cfg pg_lock demo_now pg_registered)"

definition pg_settled :: pg_db where
  "pg_settled = snd (pg_finalizeOfflinePaySettlement demo_cfg pg_settlement demo_now pg_locked)"

definition pg_requested :: pg_db where
  "pg_requested = snd (pg_requestWithdrawal demo_cfg (demo_request 2000000 ''key-1'') demo_now pg_credited)"

definition pg_approved :: pg_db where
  "pg_approved =
     snd (pg_approveWithdrawal demo_cfg ''u4'' (demo_approval ''admin-2'') demo_now
       (snd (pg_approveWithdrawal demo_cfg ''u4'' (demo_approval ''admin-1'') demo_now
         (snd (pg_confirmWithdrawalExternalAuth demo_cfg ''u4'' ''otp'' ''req-1'' demo_now pg_requested)))))"

lemma pg_demo_amounts [simp]:
  "0 \<le> lk_amount pg_lock" "0 \<le> se_amount pg_settlement" "0 \<le> wi_amount (demo_request 2000000 ''key-1'')"
  by (simp_all add: pg_lock_def pg_settlement_def demo_request_def)

lemma pg_demo_careful:
  "careful_db demo_cfg pg_credited" "careful_db demo_cfg pg_registered" "careful_db demo_cfg pg_locked"
  "careful_db demo_cfg pg_settled" "careful_db demo_cfg pg_requested"
proof -
  show c: "careful_db demo_cfg pg_credited"
    unfolding pg_credited_def by (rule careful_db_step [OF careful_db_empty [OF demo_uuid_ok] careful_credit])
  show r: "careful_db demo_cfg pg_registered"
    unfolding pg_registered_def
    by (rule careful_db_step [OF c careful_quiet [OF pstep_device]]) (simp_all add: pg_upsertOfflinePayDevice_def Let_def)
  show l: "careful_db demo_cfg pg_locked"
    unfolding pg_locked_def by (rule careful_db_step [OF r careful_lock]) simp
  show "careful_db demo_cfg pg_settled"
    unfolding pg_settled_def by (rule careful_db_step [OF l careful_finalize]) simp
  show "careful_db demo_cfg pg_requested"
    unfolding pg_requested_def by (rule careful_db_step [OF c careful_request]) simp
qed

lemma careful_reachable: "careful_db cfg db \<Longrightarrow> reachable_db cfg db"
proof -
  assume "careful_db cfg db"
  then have "uuid_ok cfg" and "(careful_step cfg)\<^sup>*\<^sup>* empty_db db" by (auto simp: careful_db_def)
  then show "reachable_db cfg db"
    using mono_rtranclp [of "careful_step cfg" "pg_step cfg" empty_db db] careful_is_step
    by (auto simp: reachable_db_def pg_steps_def)
qed

lemma pg_demo_reachable:
  "reachable_db demo_cfg pg_locked" "reachable_db demo_cfg pg_settled" "reachable_db demo_cfg pg_requested"
  "reachable_db demo_cfg pg_approved"
proof -
  show "reachable_db demo_cfg pg_locked" "reachable_db demo_cfg pg_settled" "reachable_db demo_cfg pg_requested"
    using pg_demo_careful careful_reachable by blast+
  then show "reachable_db demo_cfg pg_approved"
    unfolding pg_approved_def by (intro reachable_db_step [OF _ pstep_approve] reachable_db_step [OF _ pstep_externalAuth])
qed

text \<open>What the witnesses read off the settled database.\<close>

definition pg_probe :: "pg_db \<Rightarrow> bool \<times> int \<times> int \<times> int" where
  "pg_probe db =
     (find_journal ''offline_pay_settlement_compensation'' ''set-1'' db = None,
      pg_getOfflinePayPendingBalance ''alice'' db,
      pg_getProjectedLedgerAccountBalance (availableCode ''bob'') db,
      pg_getProjectedLedgerAccountBalance ''system:revenue:offline_pay_fee'' db)"

lemma pg_probed: "pg_probe pg_settled = (True, 1000000, 999000, 1000)"
  by code_simp

text \<open>A sweep that has been broadcast, and its fee.\<close>

definition pg_sweep :: sweep_input where
  "pg_sweep =
     \<lparr>si_sourceWalletCode = ''virtual'', si_sourceAddress = ''TSource'', si_targetAddress = ''THot'',
      si_currencyId = None, si_network = None, si_amount = 10, si_externalRef = None, si_note = None\<rparr>"

definition pg_swept :: pg_db where
  "pg_swept =
     snd (pg_markSweepBroadcasted ''u0'' ''0xsweep01'' None demo_now
       (snd (pg_createSweepRecord demo_cfg pg_sweep demo_now empty_db)))"

definition pg_sweep_fee :: sweep_confirmation where
  "pg_sweep_fee =
     \<lparr>sf_note = None,
      sf_networkFee = Some \<lparr>fee_txHash = ''0xsweep01'', fee_feeSun = 345000, fee_energyUsed = 64000, fee_bandwidthUsed = 345\<rparr>\<rparr>"

text \<open>The deposit of \<open>LedgerDemo\<close> booked by both ledgers.\<close>

definition pg_deposited :: pg_db where
  "pg_deposited = snd (pg_applyDeposit demo_cfg demo_deposit demo_now empty_db)"

lemma deposit_accepted:
  "(case fst (applyDeposit demo_cfg demo_deposit demo_now empty_ledger) of Inl e \<Rightarrow> False | Inr r \<Rightarrow> \<not> dr_duplicated r)"
  "(case fst (pg_applyDeposit demo_cfg demo_deposit demo_now empty_db) of Inl e \<Rightarrow> False | Inr r \<Rightarrow> \<not> dr_duplicated r)"
  by code_simp+

lemma demo_in_step: "in_step demo_cfg demo_deposited pg_deposited"
proof -
  obtain r where r: "applyDeposit demo_cfg demo_deposit demo_now empty_ledger = (Inr r, demo_deposited)" "\<not> dr_duplicated r"
    using deposit_accepted(1) by (cases "applyDeposit demo_cfg demo_deposit demo_now empty_ledger") (auto simp: demo_deposited_def split: sum.splits)
  obtain q where q: "pg_applyDeposit demo_cfg demo_deposit demo_now empty_db = (Inr q, pg_deposited)" "\<not> dr_duplicated q"
    using deposit_accepted(2) by (cases "pg_applyDeposit demo_cfg demo_deposit demo_now empty_db") (auto simp: pg_deposited_def split: sum.splits)
  have "0 \<le> di_amount demo_deposit" by (simp add: demo_deposit_def)
  then show ?thesis by (rule both_deposit [OF in_step.start _ r(1) q(1)]) (simp add: r(2) q(2))
qed

end
