(* ===== verification/PgSummary.thy ===== *)
theory PgSummary
  imports PgMachine
begin

text \<open>
  The \<open>LIKE\<close> patterns of \<open>PostgresLedgerRepository\<close> on the codes it writes, and the ledger summary:
  the sums over matching postings are the sums over the users of the accounts table.
\<close>

section \<open>Patterns\<close>

lemma like_any: "sql_like (CHR ''%'' # ps) s \<longleftrightarrow> (\<exists>m t. s = m @ t \<and> sql_like ps t)"
proof (induction s)
  case (Cons d s)
  have "sql_like (CHR ''%'' # ps) (d # s) \<longleftrightarrow> sql_like ps (d # s) \<or> sql_like (CHR ''%'' # ps) s" by simp
  also have "\<dots> \<longleftrightarrow> (\<exists>m t. d # s = m @ t \<and> sql_like ps t)"
    unfolding Cons.IH by (metis append_Cons append_Nil append_eq_Cons_conv)
  finally show ?case .
qed simp

text \<open>A literal text matches itself; each underscore matches any character.\<close>

definition literal :: "string \<Rightarrow> bool" where
  "literal ps = (\<forall>c \<in> set ps. c \<noteq> CHR ''%'' \<and> c \<noteq> CHR ''_'' \<and> c \<noteq> CHR 0x5C)"

lemma like_literal: "literal ps \<Longrightarrow> sql_like (ps @ qs) s \<longleftrightarrow> (\<exists>t. s = ps @ t \<and> sql_like qs t)"
proof (induction ps arbitrary: s)
  case (Cons c ps)
  then show ?case by (cases s) (auto simp: literal_def)
qed simp

lemma like_one: "sql_like (CHR ''_'' # ps) s \<longleftrightarrow> (\<exists>c t. s = c # t \<and> sql_like ps t)"
  by (cases s) auto

lemma like_user_code:
  assumes "literal suffix"
  shows "sql_like (''user:%'' @ suffix @ ps) s \<longleftrightarrow> (\<exists>m t. s = ''user:'' @ m @ suffix @ t \<and> sql_like ps t)"
proof -
  have "literal ''user:''" by (simp add: literal_def)
  from like_literal [OF this, of "CHR ''%'' # suffix @ ps" s]
  show ?thesis by (simp add: like_any like_literal [OF assms] del: sql_like.simps(2)) blast
qed

lemma like_available: "sql_like ''user:%:available'' s \<longleftrightarrow> (\<exists>m. s = availableCode m)"
  using like_user_code [of "'':available''" "[]" s] by (simp add: literal_def availableCode_def)

text \<open>The pending patterns contain underscores, so they match more than the codes of accounts; but no
  code in use is among the others.\<close>

lemma like_pending_shape:
  "sql_like ''user:%:withdraw_pending'' s \<longleftrightarrow> (\<exists>m c. s = ''user:'' @ m @ '':withdraw'' @ c # ''pending'')"
  "sql_like ''user:%:offline_pay_pending'' s \<longleftrightarrow> (\<exists>m c d. s = ''user:'' @ m @ '':offline'' @ c # ''pay'' @ d # ''pending'')"
proof -
  have l: "literal '':withdraw''" "literal ''pending''" "literal '':offline''" "literal ''pay''"
    by (simp_all add: literal_def)
  have p: "sql_like ''pending'' t \<longleftrightarrow> t = ''pending''" for t
    using like_literal [OF l(2), of "[]" t] by simp
  have o: "sql_like ''pay_pending'' t \<longleftrightarrow> (\<exists>d. t = ''pay'' @ d # ''pending'')" for t
    using like_literal [OF l(4), of "''_pending''" t] like_one [of "''pending''"] p by auto
  have "sql_like (''user:%'' @ '':withdraw'' @ ''_pending'') s \<longleftrightarrow> (\<exists>m c. s = ''user:'' @ m @ '':withdraw'' @ c # ''pending'')"
    unfolding like_user_code [OF l(1)] like_one p by blast
  then show "sql_like ''user:%:withdraw_pending'' s \<longleftrightarrow> (\<exists>m c. s = ''user:'' @ m @ '':withdraw'' @ c # ''pending'')"
    by (simp only: append_Cons append_Nil)
  have "sql_like (''user:%'' @ '':offline'' @ ''_pay_pending'') s
      \<longleftrightarrow> (\<exists>m c d. s = ''user:'' @ m @ '':offline'' @ c # ''pay'' @ d # ''pending'')"
    unfolding like_user_code [OF l(3)] like_one o by blast
  then show "sql_like ''user:%:offline_pay_pending'' s \<longleftrightarrow> (\<exists>m c d. s = ''user:'' @ m @ '':offline'' @ c # ''pay'' @ d # ''pending'')"
    by (simp only: append_Cons append_Nil)
qed

lemma user_code_shapes:
  "availableCode u \<noteq> ''user:'' @ m @ '':withdraw'' @ c # ''pending''"
  "offlinePayPendingCode u \<noteq> ''user:'' @ m @ '':withdraw'' @ c # ''pending''"
  "availableCode u \<noteq> ''user:'' @ m @ '':offline'' @ c # ''pay'' @ d # ''pending''"
  "withdrawPendingCode u \<noteq> ''user:'' @ m @ '':offline'' @ c # ''pay'' @ d # ''pending''"
  by (rule notI, drule arg_cong [of _ _ rev], simp add: rev_codes)+

lemma pending_code_shapes:
  "withdrawPendingCode u = ''user:'' @ m @ '':withdraw'' @ c # ''pending'' \<Longrightarrow> m = u \<and> c = CHR ''_''"
  "offlinePayPendingCode u = ''user:'' @ m @ '':offline'' @ c # ''pay'' @ d # ''pending'' \<Longrightarrow> m = u \<and> c = CHR ''_'' \<and> d = CHR ''_''"
  by (drule arg_cong [of _ _ rev], auto simp: rev_codes)+

lemma like_pending:
  assumes "code_ok s"
  shows "sql_like ''user:%:withdraw_pending'' s \<longleftrightarrow> (\<exists>m. s = withdrawPendingCode m)"
    and "sql_like ''user:%:offline_pay_pending'' s \<longleftrightarrow> (\<exists>m. s = offlinePayPendingCode m)"
proof -
  have u: "\<not> startsWith (''user:'' @ t) ''system:''" for t by (simp add: startsWith_def)
  have cases: "(\<exists>v. s = availableCode v) \<or> (\<exists>v. s = withdrawPendingCode v) \<or> (\<exists>v. s = offlinePayPendingCode v) \<or> startsWith s ''system:''"
    using assms by (auto simp: code_ok_def)
  show "sql_like ''user:%:withdraw_pending'' s \<longleftrightarrow> (\<exists>m. s = withdrawPendingCode m)"
  proof
    assume "sql_like ''user:%:withdraw_pending'' s"
    then obtain m c where "s = ''user:'' @ m @ '':withdraw'' @ c # ''pending''" unfolding like_pending_shape by blast
    then show "\<exists>m. s = withdrawPendingCode m" using cases u user_code_shapes(1,2) by metis
  qed (unfold like_pending_shape, auto simp: withdrawPendingCode_def)
  show "sql_like ''user:%:offline_pay_pending'' s \<longleftrightarrow> (\<exists>m. s = offlinePayPendingCode m)"
  proof
    assume "sql_like ''user:%:offline_pay_pending'' s"
    then obtain m c d where "s = ''user:'' @ m @ '':offline'' @ c # ''pay'' @ d # ''pending''" unfolding like_pending_shape by blast
    then show "\<exists>m. s = offlinePayPendingCode m" using cases u user_code_shapes(3,4) by metis
  qed (unfold like_pending_shape, auto simp: offlinePayPendingCode_def)
qed

section \<open>The summary\<close>

text \<open>A sum over the postings on the accounts of one kind is the sum over the users.\<close>

lemma sum_by_user:
  assumes "finite U" and "inj code"
    and "\<And>p u. p \<in> set ps \<Longrightarrow> po_code p = code u \<Longrightarrow> u \<in> U"
  shows "sum_list (map (\<lambda>p. if \<exists>u. po_code p = code u then signed_amount p else 0) ps) = (\<Sum>u\<in>U. net (code u) ps)"
  using assms(3)
proof (induction ps)
  case (Cons p ps)
  have "(\<Sum>u\<in>U. net (code u) (p # ps)) = (\<Sum>u\<in>U. if po_code p = code u then signed_amount p else 0) + (\<Sum>u\<in>U. net (code u) ps)"
    by (simp add: sum.distrib)
  moreover have "(\<Sum>u\<in>U. if po_code p = code u then signed_amount p else 0) = (if \<exists>u. po_code p = code u then signed_amount p else 0)"
  proof (cases "\<exists>u. po_code p = code u")
    case True
    then obtain u where u: "po_code p = code u" by blast
    then have "u \<in> U" by (intro Cons.prems [of p]) simp_all
    moreover have "(\<Sum>v\<in>U. if po_code p = code v then signed_amount p else 0) = (\<Sum>v\<in>U. if v = u then signed_amount p else 0)"
      using u assms(2) by (intro sum.cong) (auto dest: injD)
    ultimately show ?thesis using True assms(1) by simp
  qed simp
  moreover have "sum_list (map (\<lambda>p. if \<exists>u. po_code p = code u then signed_amount p else 0) ps) = (\<Sum>u\<in>U. net (code u) ps)"
    by (rule Cons.IH, rule Cons.prems) simp_all
  ultimately show ?case by simp
qed simp

lemma user_codes_inj: "inj availableCode" "inj withdrawPendingCode" "inj offlinePayPendingCode"
  by (simp_all add: inj_def)

lemma finite_map_keys [simp]: "finite (map_keys m)"
  by (simp add: map_keys_def)

lemma touched_has_account:
  assumes "pg_inv cfg db" and "p \<in> set (db_postings db)" and "touches u p"
  shows "u \<in> map_keys (db_accounts db)"
  using pg_invD(2) [OF assms(1), of u] assms(2,3)
  by (auto simp: shown_def map_keys_get list_ex_iff split: option.splits)

lemma summary_available:
  assumes "pg_inv cfg db"
  shows "pu_availableBalance (pg_getProjectedLedgerSummary db)
    = (\<Sum>u\<in>map_keys (db_accounts db). net (availableCode u) (db_postings db))"
  unfolding pg_getProjectedLedgerSummary_def projected_summary.select_convs like_available
  by (rule sum_by_user [OF finite_map_keys user_codes_inj(1)], rule touched_has_account [OF assms])
    (auto simp: touches_def)

lemma summary_locked:
  assumes "pg_inv cfg db"
  shows "pu_lockedBalance (pg_getProjectedLedgerSummary db) = (\<Sum>u\<in>map_keys (db_accounts db). locked_net u (db_postings db))"
proof -
  let ?ps = "db_postings db" and ?U = "map_keys (db_accounts db)"
  have code: "code_ok (po_code p)" if "p \<in> set ?ps" for p
    using pg_invD(1) [OF assms] that unfolding books_balance_def by blast
  have "pu_lockedBalance (pg_getProjectedLedgerSummary db)
      = sum_list (map (\<lambda>p. (if \<exists>u. po_code p = withdrawPendingCode u then signed_amount p else 0)
          + (if \<exists>u. po_code p = offlinePayPendingCode u then signed_amount p else 0)) ?ps)"
    unfolding pg_getProjectedLedgerSummary_def projected_summary.select_convs
    by (intro arg_cong [of _ _ sum_list] map_cong refl) (auto simp: like_pending [OF code] simp del: sql_like.simps)
  also have "\<dots> = (\<Sum>u\<in>?U. net (withdrawPendingCode u) ?ps) + (\<Sum>u\<in>?U. net (offlinePayPendingCode u) ?ps)"
    unfolding sum_list_addf
    by (intro arg_cong2 [of _ _ _ _ "(+)"] sum_by_user [OF finite_map_keys] user_codes_inj touched_has_account [OF assms])
      (auto simp: touches_def)
  finally show ?thesis by (simp add: locked_net_def sum.distrib)
qed

end
