(* ===== verification/PgProperties.thy ===== *)
theory PgProperties
  imports PgDemo PgSummary
begin

text \<open>
  The properties of the Postgres ledger, over every database that its operations reach from the empty
  one, and of the two ledgers side by side.  A witness applies a property to the run of \<open>PgDemo\<close>.
\<close>

abbreviation bal :: "string \<Rightarrow> pg_db \<Rightarrow> int" where
  "bal \<equiv> pg_getProjectedLedgerAccountBalance"

abbreviation feeAccount :: string where
  "feeAccount \<equiv> ''system:revenue:offline_pay_fee''"

abbreviation clearingAccount :: string where
  "clearingAccount \<equiv> ''system:asset:offline_pay_clearing''"

section \<open>Books\<close>

lemma debits_and_credits:
  "sum_list (map signed_amount (filter Q ps))
     = sum_list (map po_amount (filter (\<lambda>p. Q p \<and> po_side p = ES_credit) ps))
       - sum_list (map po_amount (filter (\<lambda>p. Q p \<and> po_side p = ES_debit) ps))"
  by (induction ps) (auto simp: signed_amount_def split: entry_side.splits)

lemma books_balanceD:
  assumes "books_balance cfg db"
  shows "j \<in> set (db_journals db) \<Longrightarrow> journal_total (jn_journalId j) (db_postings db) = 0"
    and "inj_on jn_journalId (set (db_journals db))"
    and "p \<in> set (db_postings db) \<Longrightarrow> po_journalId p \<in> jn_journalId ` set (db_journals db)"
    and "p \<in> set (db_postings db) \<Longrightarrow> po_code p \<in> map_keys (db_ledgerAccounts db)"
  using assms unfolding books_balance_def distinct_map by (elim conjE; blast)+

text \<open>C1. In every reachable database each journal is balanced: its debits are its credits.  Every posting
  belongs to exactly one journal and to an opened ledger account.\<close>

theorem journals_balance:
  assumes "reachable_db cfg db"
  shows "(\<forall>j \<in> set (db_journals db).
      sum_list (map po_amount (filter (\<lambda>p. po_journalId p = jn_journalId j \<and> po_side p = ES_debit) (db_postings db)))
      = sum_list (map po_amount (filter (\<lambda>p. po_journalId p = jn_journalId j \<and> po_side p = ES_credit) (db_postings db)))) \<and>
    (\<forall>p \<in> set (db_postings db). \<exists>!j. j \<in> set (db_journals db) \<and> jn_journalId j = po_journalId p) \<and>
    (\<forall>p \<in> set (db_postings db). map_get (db_ledgerAccounts db) (po_code p) \<noteq> None)"
proof (intro conjI ballI)
  note B = books_balanceD [OF pg_invD(1) [OF reachable_db_inv [OF assms]]]
  fix j assume "j \<in> set (db_journals db)"
  then have "sum_list (map signed_amount (filter (\<lambda>p. po_journalId p = jn_journalId j) (db_postings db))) = 0"
    using B(1) by (simp add: journal_total_def)
  then show "sum_list (map po_amount (filter (\<lambda>p. po_journalId p = jn_journalId j \<and> po_side p = ES_debit) (db_postings db)))
      = sum_list (map po_amount (filter (\<lambda>p. po_journalId p = jn_journalId j \<and> po_side p = ES_credit) (db_postings db)))"
    unfolding debits_and_credits by simp
next
  note B = books_balanceD [OF pg_invD(1) [OF reachable_db_inv [OF assms]]]
  fix p assume p: "p \<in> set (db_postings db)"
  from B(3) [OF p] obtain j where j: "j \<in> set (db_journals db)" "jn_journalId j = po_journalId p" by (metis imageE)
  with B(2) show "\<exists>!j. j \<in> set (db_journals db) \<and> jn_journalId j = po_journalId p"
    by (intro ex1I [of _ j]) (simp_all add: inj_on_def)
  show "map_get (db_ledgerAccounts db) (po_code p) \<noteq> None" using B(4) [OF p] by (simp add: map_keys_get)
qed

theorem journals_balance_witness:
  "sum_list (map po_amount (filter (\<lambda>p. po_journalId p = jn_journalId (hd (db_journals pg_settled)) \<and> po_side p = ES_debit)
       (db_postings pg_settled)))
   = sum_list (map po_amount (filter (\<lambda>p. po_journalId p = jn_journalId (hd (db_journals pg_settled)) \<and> po_side p = ES_credit)
       (db_postings pg_settled)))"
proof -
  note J = journals_balance [OF pg_demo_reachable(2)]
  have "bal (availableCode ''bob'') pg_settled = 999000" using pg_probed by (simp only: pg_probe_def prod.inject)
  then have "db_postings pg_settled \<noteq> []" by auto
  with J have "db_journals pg_settled \<noteq> []" by (metis empty_iff hd_in_set list.set(1))
  then have "hd (db_journals pg_settled) \<in> set (db_journals pg_settled)" by simp
  with J show ?thesis by blast
qed

text \<open>C8. In every reachable database the accounts table shows the postings: a row's balance is the
  balance of the user's available account, its locked balance that of the two pending accounts, and a
  user without a row has no postings.  The pending withdrawals account of a user holds exactly the
  amounts of the user's active withdrawals.\<close>

theorem accounts_show_the_books:
  assumes "reachable_db cfg db"
  shows "(\<forall>row. map_get (db_accounts db) u = Some row \<longrightarrow>
      ar_balance row = pg_getProjectedLedgerAccountBalance (availableCode u) db \<and>
      ar_lockedBalance row = pg_getProjectedLedgerAccountBalance (withdrawPendingCode u) db
        + pg_getOfflinePayPendingBalance u db) \<and>
    (map_get (db_accounts db) u = None \<longrightarrow> \<not> pb_hasPostings (pg_getProjectedUserBalances u db)) \<and>
    pg_getProjectedLedgerAccountBalance (withdrawPendingCode u) db
      = sum_list (map wd_amount (filter (\<lambda>w. wd_userId w = u \<and> wd_status w \<in> set ACTIVE_WITHDRAWAL_STATUSES)
          (map_values (db_withdrawals db))))"
proof -
  note I = pg_invD [OF reachable_db_inv [OF assms]]
  have "pending_of u db = sum_list (map wd_amount (filter (\<lambda>w. wd_userId w = u \<and>
      wd_status w \<in> set ACTIVE_WITHDRAWAL_STATUSES) (map_values (db_withdrawals db))))"
    unfolding pending_of_def sum_vals_filter active_status_def ..
  with I(2,3) [of u] show ?thesis
    by (auto simp: shown_def locked_net_def pg_getOfflinePayPendingBalance_def split: option.splits)
qed

theorem accounts_show_the_books_witness:
  "pg_getProjectedLedgerAccountBalance (withdrawPendingCode ''alice'') pg_requested
     = sum_list (map wd_amount (filter (\<lambda>w. wd_userId w = ''alice'' \<and> wd_status w \<in> set ACTIVE_WITHDRAWAL_STATUSES)
         (map_values (db_withdrawals pg_requested))))"
  using accounts_show_the_books [OF pg_demo_reachable(3)] by blast

text \<open>C9. Once anything has been posted, the ledger summary of a reachable database is the accounts table in
  total: the available (locked) balance is the sum of the rows' balances (locked balances), although it
  is computed with \<open>LIKE\<close> patterns whose underscores match any character.\<close>

theorem summary_is_the_accounts_table:
  assumes "reachable_db cfg db" and "db_postings db \<noteq> []"
  shows "ls_availableBalance (pg_getLedgerSummary db)
      = (\<Sum>u\<in>map_keys (db_accounts db). ar_balance (the (map_get (db_accounts db) u))) \<and>
    ls_lockedBalance (pg_getLedgerSummary db)
      = (\<Sum>u\<in>map_keys (db_accounts db). ar_lockedBalance (the (map_get (db_accounts db) u)))"
proof -
  note inv = reachable_db_inv [OF assms(1)]
  have row: "ar_balance (the (map_get (db_accounts db) u)) = net (availableCode u) (db_postings db)"
    "ar_lockedBalance (the (map_get (db_accounts db) u)) = locked_net u (db_postings db)" if "u \<in> map_keys (db_accounts db)" for u
    using pg_invD(2) [OF inv, of u] that by (auto simp: shown_def map_keys_get)
  have "pu_hasPostings (pg_getProjectedLedgerSummary db)" using assms(2) by (simp add: pg_getProjectedLedgerSummary_def)
  then show ?thesis
    by (simp add: pg_getLedgerSummary_def Let_def summary_available [OF inv] summary_locked [OF inv] row)
qed

theorem summary_is_the_accounts_table_witness:
  "ls_lockedBalance (pg_getLedgerSummary pg_settled)
     = (\<Sum>u\<in>map_keys (db_accounts pg_settled). ar_lockedBalance (the (map_get (db_accounts pg_settled) u)))"
proof -
  have "bal (availableCode ''bob'') pg_settled = 999000" using pg_probed by (simp only: pg_probe_def prod.inject)
  then have "db_postings pg_settled \<noteq> []" by auto
  with summary_is_the_accounts_table [OF pg_demo_reachable(2)] show ?thesis by blast
qed

section \<open>Safety\<close>

text \<open>C14. A withdrawal that is approved, broadcast or completed has been approved by at least the required
  number of distinct administrators, and the number of approvals it is shown with is the number of
  stored approvals.\<close>

theorem pg_approved_by_distinct_admins:
  assumes "reachable_db cfg db" and "pg_getWithdrawal i db = Some w"
  shows "distinct (map wa_adminId (pg_listWithdrawalApprovals i db)) \<and>
    wd_approvalCount w = int (length (pg_listWithdrawalApprovals i db)) \<and>
    (wd_status w \<in> {ADMIN_APPROVED, TX_BROADCASTED, COMPLETED} \<longrightarrow>
       wd_requiredApprovals w \<le> int (length (pg_listWithdrawalApprovals i db)))"
proof -
  note R = pg_invD(4) [OF reachable_db_inv [OF assms(1)], unfolded rows_ok_def]
  obtain v where v: "map_get (db_withdrawals db) i = Some v" "w = pg_hydrateWithdrawal db v"
    using assms(2) by (auto simp: pg_getWithdrawal_def)
  with R have i: "wd_withdrawalId v = i" by blast
  let ?as = "filter (\<lambda>a. wa_withdrawalId a = i) (db_approvals db)"
  have "distinct (map (\<lambda>a. (wa_withdrawalId a, wa_adminId a)) ?as)"
    using R by (metis distinct_map_filter)
  moreover have "map (\<lambda>a. (wa_withdrawalId a, wa_adminId a)) ?as = map (Pair i) (map wa_adminId ?as)" by simp
  ultimately have "distinct (map (Pair i) (map wa_adminId ?as))" by (simp only:)
  then have d: "distinct (map wa_adminId ?as)" unfolding distinct_map [of "Pair i"] by (rule conjunct1)
  have len: "length (pg_listWithdrawalApprovals i db) = length ?as"
    by (simp add: pg_listWithdrawalApprovals_def sort_asc_def)
  have "mset (pg_listWithdrawalApprovals i db) = mset ?as"
    by (simp add: pg_listWithdrawalApprovals_def sort_asc_def)
  then have "mset (map wa_adminId (pg_listWithdrawalApprovals i db)) = mset (map wa_adminId ?as)" by simp
  with d have "distinct (map wa_adminId (pg_listWithdrawalApprovals i db))"
    by (metis mset_eq_imp_distinct_iff)
  moreover have "wd_approvalCount w = pg_getApprovalCount i db" "wd_requiredApprovals w = wd_requiredApprovals v" "wd_status w = wd_status v"
    using v(2) i by (simp_all add: pg_hydrateWithdrawal_def pg_mapWithdrawal_def)
  moreover have "wd_status v \<in> {ADMIN_APPROVED, TX_BROADCASTED, COMPLETED} \<longrightarrow> wd_requiredApprovals v \<le> pg_getApprovalCount i db"
    using R v(1) by (auto simp: approved_status_def)
  ultimately show ?thesis by (simp add: pg_getApprovalCount_def len)
qed

theorem pg_approved_by_distinct_admins_witness:
  "map_option wd_status (pg_getWithdrawal ''u4'' pg_approved) = Some ADMIN_APPROVED \<and>
   2 \<le> length (pg_listWithdrawalApprovals ''u4'' pg_approved)"
proof -
  have "map_option (\<lambda>w. (wd_status w, wd_requiredApprovals w)) (pg_getWithdrawal ''u4'' pg_approved) = Some (ADMIN_APPROVED, 2)"
    by code_simp
  then obtain w where "pg_getWithdrawal ''u4'' pg_approved = Some w" "wd_status w = ADMIN_APPROVED" "wd_requiredApprovals w = 2"
    by auto
  with pg_approved_by_distinct_admins [OF pg_demo_reachable(4) this(1)] show ?thesis by simp
qed

text \<open>C3. Nobody is overdrawn. In every database reached without compensations, and with reconciliations only
  to targets that are not negative and cover what the user has locked, every available balance and every
  collateral is non-negative, whatever deposits, transfers, withdrawals, locks, releases and settlements
  of non-negative amounts were asked for; so the accounts table shows no negative number either.\<close>

theorem nobody_is_overdrawn:
  assumes "careful_db cfg db"
  shows "0 \<le> pg_getProjectedLedgerAccountBalance (availableCode u) db \<and> 0 \<le> pg_getOfflinePayPendingBalance u db \<and>
    (\<forall>row. map_get (db_accounts db) u = Some row \<longrightarrow> 0 \<le> ar_balance row \<and> 0 \<le> ar_lockedBalance row)"
proof -
  note I = conjunct1 [OF careful_db_funded [OF assms]] and F = conjunct2 [OF careful_db_funded [OF assms]]
  have "0 \<le> wd_amount w" if "w \<in> set (map_values (db_withdrawals db))" for w
    using map_get_values [OF _ that] pg_invD(4) [OF I] fundedD(3) [OF F] by (auto simp: rows_ok_def)
  then have "0 \<le> pending_of u db"
    unfolding pending_of_def by (intro sum_vals_nonneg) simp
  with pg_invD(2,3) [OF I, of u] fundedD(1,2) [OF F, of u] show ?thesis
    by (auto simp: shown_def locked_net_def pg_getOfflinePayPendingBalance_def split: option.splits)
qed

theorem nobody_is_overdrawn_witness:
  "0 \<le> pg_getProjectedLedgerAccountBalance (availableCode ''alice'') pg_settled \<and>
   0 \<le> pg_getOfflinePayPendingBalance ''alice'' pg_settled"
  using nobody_is_overdrawn [OF pg_demo_careful(4)] by blast


section \<open>Settlements\<close>

text \<open>C4. A new settlement takes exactly its amount from the sender's collateral, which covers it.  When it
  releases the collateral, the fee (ten basis points of a KORI amount, rounded half up, never more than
  the amount) goes to the fee account and the rest to the receiver, if one is due, and to the clearing
  account otherwise; when it adjusts, the amount returns to the sender's available balance.  No other
  user's balance moves.\<close>

theorem settlement_moves_the_amount:
  assumes "pg_finalizeOfflinePaySettlement cfg inp now db = (Inr r, db')" and "\<not> sr_duplicated r" and "0 \<le> se_amount inp"
  shows "se_amount inp \<le> pg_getOfflinePayPendingBalance (se_userId inp) db \<and>
    pg_getOfflinePayPendingBalance (se_userId inp) db' = pg_getOfflinePayPendingBalance (se_userId inp) db - se_amount inp \<and>
    0 \<le> sr_feeAmount r \<and> sr_feeAmount r \<le> se_amount inp \<and>
    bal feeAccount db' = bal feeAccount db + sr_feeAmount r \<and>
    (se_releaseAction inp = RA_release \<longrightarrow>
      sr_feeAmount r = calculateOfflinePaySettlementFee (se_assetCode inp) (se_amount inp) \<and>
      (case receiver_due inp db of
         Some u \<Rightarrow> u \<noteq> se_userId inp \<and> bal clearingAccount db' = bal clearingAccount db \<and>
           bal (availableCode u) db' = bal (availableCode u) db + (se_amount inp - sr_feeAmount r)
       | None \<Rightarrow> bal clearingAccount db' = bal clearingAccount db + (se_amount inp - sr_feeAmount r))) \<and>
    (se_releaseAction inp = RA_adjust \<longrightarrow> sr_feeAmount r = 0 \<and>
      bal (availableCode (se_userId inp)) db' = bal (availableCode (se_userId inp)) db + se_amount inp) \<and>
    (\<forall>u. u \<noteq> se_userId inp \<and> receiver_due inp db \<noteq> Some u \<longrightarrow>
      bal (availableCode u) db' = bal (availableCode u) db \<and>
      pg_getOfflinePayPendingBalance u db' = pg_getOfflinePayPendingBalance u db)"
proof -
  note eff = settlement_effect [OF assms(1)]
  have ps: "net c (db_postings db') = net c (db_postings db)
      + delta c (settlement_postings inp (settlement_fee inp) (receiver_amount inp)) + delta c (receiver_postings inp db)" for c
    using eff(2) assms(2) by (simp add: posts_def)
  have fee: "sr_feeAmount r = settlement_fee inp" "se_amount inp \<le> pg_getOfflinePayPendingBalance (se_userId inp) db"
    using eff(3) assms(2) by auto
  have range: "0 \<le> settlement_fee inp" "settlement_fee inp \<le> se_amount inp"
    using fee_split [OF assms(3), of "se_assetCode inp"] assms(3) by (auto simp: settlement_fee_def)
  then have rest: "receiver_amount inp = se_amount inp - settlement_fee inp" by (simp add: receiver_amount_def)
  have due: "se_releaseAction inp = RA_adjust \<Longrightarrow> receiver_due inp db = None"
    by (simp add: receiver_due_def receiver_wanted_def Let_def)
  show ?thesis
  proof (cases "se_releaseAction inp")
    case RA_release
    then show ?thesis
      using fee range receiver_is_other [of inp db]
      by (cases "receiver_due inp db")
        (auto simp: ps rest pg_getOfflinePayPendingBalance_def settlement_postings_def receiver_postings_def receiver_journal_def
          settlement_fee_def)
  next
    case RA_adjust
    then show ?thesis
      using fee range due
      by (auto simp: ps pg_getOfflinePayPendingBalance_def settlement_postings_def receiver_postings_def settlement_fee_def)
  qed
qed

lemma settled_result:
  obtains r where "pg_finalizeOfflinePaySettlement demo_cfg pg_settlement demo_now pg_locked = (Inr r, pg_settled)"
    "\<not> sr_duplicated r" "sr_feeAmount r = 1000"
proof -
  have "(case fst (pg_finalizeOfflinePaySettlement demo_cfg pg_settlement demo_now pg_locked) of
      Inl e \<Rightarrow> False | Inr r \<Rightarrow> \<not> sr_duplicated r \<and> sr_feeAmount r = 1000)"
    by code_simp
  then obtain r where "fst (pg_finalizeOfflinePaySettlement demo_cfg pg_settlement demo_now pg_locked) = Inr r"
      "\<not> sr_duplicated r" "sr_feeAmount r = 1000"
    by (auto split: sum.splits)
  then show ?thesis by (intro that [of r]) (simp_all add: pg_settled_def prod_eq_iff)
qed

theorem settlement_moves_the_amount_witness:
  "pg_getOfflinePayPendingBalance ''alice'' pg_settled = pg_getOfflinePayPendingBalance ''alice'' pg_locked - 1000000"
proof -
  obtain r where "pg_finalizeOfflinePaySettlement demo_cfg pg_settlement demo_now pg_locked = (Inr r, pg_settled)"
    "\<not> sr_duplicated r" "sr_feeAmount r = 1000" by (rule settled_result)
  from settlement_moves_the_amount [OF this(1,2) pg_demo_amounts(2)] show ?thesis
    by (simp add: pg_settlement_def)
qed

text \<open>C13. Settling again moves nothing: a second call with the same settlement right after a successful
  one, at any time, is answered as a duplicate and changes no balance, so a settlement pays once even when
  the answer to the first call was lost.\<close>

theorem settlement_pays_once:
  assumes "pg_finalizeOfflinePaySettlement cfg inp now db = (Inr r, db')"
  shows "\<exists>r' db''. pg_finalizeOfflinePaySettlement cfg inp now' db' = (Inr r', db'') \<and> sr_duplicated r' \<and>
    (\<forall>code. bal code db'' = bal code db')"
proof -
  note settled = settlement_effect(4) [OF assms]
  then obtain r' db'' where again: "pg_finalizeOfflinePaySettlement cfg inp now' db' = (Inr r', db'')"
    using finalize_settled [of inp db' cfg now'] by blast
  moreover have "sr_duplicated r'" using settlement_effect(1) [OF again] settled by blast
  moreover have "posts db' db'' []"
    using settlement_effect(2) [OF again] settled \<open>sr_duplicated r'\<close> by (simp add: receiver_postings_def)
  ultimately show ?thesis by (auto simp: posts_def)
qed

theorem settlement_pays_once_witness:
  "\<exists>r' db''. pg_finalizeOfflinePaySettlement demo_cfg pg_settlement ''2026-03-13T00:00:00.000Z'' pg_settled = (Inr r', db'') \<and>
     sr_duplicated r' \<and> bal (availableCode ''bob'') db'' = bal (availableCode ''bob'') pg_settled"
proof -
  obtain r where "pg_finalizeOfflinePaySettlement demo_cfg pg_settlement demo_now pg_locked = (Inr r, pg_settled)"
    by (rule settled_result)
  from settlement_pays_once [OF this, of "''2026-03-13T00:00:00.000Z''"] show ?thesis by blast
qed

section \<open>Errors\<close>

lemma compensation_effect:
  assumes "find_journal ''offline_pay_settlement_compensation'' (cp_settlementId inp) db = None"
    and "journal_fits (compensation_journal inp)"
  shows "\<exists>r db'. pg_compensateOfflinePaySettlement cfg inp now db = (Inr r, db') \<and>
    posts db db' (ji_postings (compensation_journal inp))"
  unfolding pg_compensateOfflinePaySettlement_def withTransaction_def Let_def
  by (simp add: assms posts_def)

text \<open>C36. A compensation is not checked against the settlement it names. Under a new settlement id (and with
  values that fit their columns) it always succeeds, in any database: it restores the full amount to the
  sender's collateral, taken from the clearing account or, for an adjustment, from the sender's available
  balance, whether or not such a settlement exists and although the receiver and the fee account keep what
  the settlement paid them.  The account it is taken from is not checked: where it holds less, it ends
  below zero.\<close>

theorem compensation_is_unchecked:
  assumes "find_journal ''offline_pay_settlement_compensation'' (cp_settlementId inp) db = None"
    and "journal_fits (compensation_journal inp)"
  shows "\<exists>r db'. pg_compensateOfflinePaySettlement cfg inp now db = (Inr r, db') \<and>
    pg_getOfflinePayPendingBalance (cp_userId inp) db' = pg_getOfflinePayPendingBalance (cp_userId inp) db + cp_amount inp \<and>
    bal (availableCode (cp_userId inp)) db' = bal (availableCode (cp_userId inp)) db
      - (if cp_releaseAction inp = RA_adjust then cp_amount inp else 0) \<and>
    bal clearingAccount db' = bal clearingAccount db
      - (if cp_releaseAction inp = RA_release then cp_amount inp else 0) \<and>
    bal feeAccount db' = bal feeAccount db \<and>
    (\<forall>u. u \<noteq> cp_userId inp \<longrightarrow> bal (availableCode u) db' = bal (availableCode u) db) \<and>
    (cp_releaseAction inp = RA_adjust \<and> bal (availableCode (cp_userId inp)) db < cp_amount inp \<longrightarrow>
       bal (availableCode (cp_userId inp)) db' < 0) \<and>
    (cp_releaseAction inp = RA_release \<and> bal clearingAccount db < cp_amount inp \<longrightarrow> bal clearingAccount db' < 0)"
proof -
  obtain r db' where op: "pg_compensateOfflinePaySettlement cfg inp now db = (Inr r, db')"
    and "posts db db' (ji_postings (compensation_journal inp))"
    using compensation_effect [OF assms] by blast
  then show ?thesis
    by (intro exI [of _ r] exI [of _ db'] conjI [OF op])
      (cases "cp_releaseAction inp"; simp add: posts_def compensation_journal_def pg_getOfflinePayPendingBalance_def)
qed

text \<open>Here: after the settlement of the run bob keeps his 0.999 KORI and the fee account its 0.001, and
  alice gets her 1 KORI back; and an adjustment in the empty ledger leaves alice with minus 1 KORI.\<close>

theorem compensation_is_unchecked_witness:
  "(\<exists>r db'. pg_compensateOfflinePaySettlement demo_cfg (pg_compensation RA_release) demo_now pg_settled = (Inr r, db') \<and>
     pg_getOfflinePayPendingBalance ''alice'' db' = 2000000 \<and> bal (availableCode ''bob'') db' = 999000 \<and>
     bal feeAccount db' = 1000) \<and>
   (\<exists>r db'. pg_compensateOfflinePaySettlement demo_cfg (pg_compensation RA_adjust) demo_now empty_db = (Inr r, db') \<and>
     bal (availableCode ''alice'') db' = - 1000000)"
  (is "?released \<and> ?adjusted")
proof -
  have v: "find_journal ''offline_pay_settlement_compensation'' ''set-1'' pg_settled = None"
    "pg_getOfflinePayPendingBalance ''alice'' pg_settled = 1000000" "bal (availableCode ''bob'') pg_settled = 999000"
    "bal feeAccount pg_settled = 1000"
    using pg_probed by (simp_all only: pg_probe_def prod.inject option.map_disc_iff)
  have e: "find_journal ''offline_pay_settlement_compensation'' ''set-1'' empty_db = None \<and> bal (availableCode ''alice'') empty_db = 0"
    by code_simp
  have i: "cp_settlementId (pg_compensation a) = ''set-1''" "cp_userId (pg_compensation a) = ''alice''"
    "cp_amount (pg_compensation a) = 1000000" "cp_releaseAction (pg_compensation a) = a" for a
    by (simp_all add: pg_compensation_def)
  have fits: "journal_fits (compensation_journal (pg_compensation RA_release))"
    "journal_fits (compensation_journal (pg_compensation RA_adjust))"
    by code_simp+
  obtain r db' where release:
    "pg_compensateOfflinePaySettlement demo_cfg (pg_compensation RA_release) demo_now pg_settled = (Inr r, db')"
    "pg_getOfflinePayPendingBalance ''alice'' db' = 2000000" "bal feeAccount db' = 1000"
    "\<forall>u. u \<noteq> ''alice'' \<longrightarrow> bal (availableCode u) db' = bal (availableCode u) pg_settled"
    using compensation_is_unchecked [OF v(1) [folded i(1) [of RA_release]] fits(1), of demo_cfg demo_now]
    unfolding i v by auto
  have "bal (availableCode ''bob'') db' = 999000"
    using release(4) [rule_format, of "''bob''"] v(3) by simp
  with release(1-3) have "?released"
    by blast
  moreover obtain r' db'' where
    "pg_compensateOfflinePaySettlement demo_cfg (pg_compensation RA_adjust) demo_now empty_db = (Inr r', db'')"
    "bal (availableCode ''alice'') db'' = - 1000000"
    using compensation_is_unchecked [OF e [THEN conjunct1, folded i(1) [of RA_adjust]] fits(2), of demo_cfg demo_now]
    unfolding i e [THEN conjunct2] by auto
  ultimately show ?thesis by blast
qed

text \<open>An operation that takes a throw for an answer leaves the tables alone.\<close>

definition atomic :: "(pg_db, 'a) act \<Rightarrow> bool" where
  "atomic op = (\<forall>db e db'. op db = (Inl e, db') \<longrightarrow> same_tables db db')"

lemma atomic_withTransaction: "atomic (withTransaction work)"
  unfolding atomic_def using rollback by blast

lemma atomic_guarded: "atomic work \<Longrightarrow> atomic (\<lambda>db. if c then (Inl e, db) else work db)"
  by (simp add: atomic_def)

lemma atomic_operations:
  "atomic (pg_bindWalletAddress u a now)" "atomic (pg_applyDeposit cfg dinp now)"
  "atomic (pg_applyExternalCredit cfg cinp now)" "atomic (pg_transfer cfg f g amount key now)"
  "atomic (pg_requestWithdrawal cfg winp now)" "atomic (pg_confirmWithdrawalExternalAuth cfg i p q now)"
  "atomic (pg_markWithdrawalReviewRequired cfg i now)" "atomic (pg_approveWithdrawal cfg i ainp now)"
  "atomic (pg_broadcastWithdrawal cfg i h now)" "atomic (pg_confirmWithdrawal cfg i fee now)"
  "atomic (pg_failWithdrawal cfg i reason now)" "atomic (pg_lockOfflinePayCollateral cfg lkinp now)"
  "atomic (pg_releaseOfflinePayCollateral cfg riinp now)" "atomic (pg_finalizeOfflinePaySettlement cfg seinp now)"
  "atomic (pg_compensateOfflinePaySettlement cfg cpinp now)"
  unfolding pg_bindWalletAddress_def pg_applyDeposit_def pg_confirmWithdrawalExternalAuth_def
    pg_markWithdrawalReviewRequired_def pg_approveWithdrawal_def pg_broadcastWithdrawal_def pg_confirmWithdrawal_def
    pg_failWithdrawal_def pg_lockOfflinePayCollateral_def pg_releaseOfflinePayCollateral_def
    pg_finalizeOfflinePaySettlement_def pg_compensateOfflinePaySettlement_def
    pg_applyExternalCredit_def [abs_def] pg_transfer_def [abs_def] pg_requestWithdrawal_def [abs_def] Let_def
  by (intro atomic_guarded atomic_withTransaction)+


text \<open>The operations of the Postgres ledger are atomic: whichever of them throws, at whichever point,
  every table is as it was before the call.\<close>

theorem thrown_operations_change_nothing:
  "atomic (pg_bindWalletAddress u a now) \<and> atomic (pg_applyDeposit cfg dinp now) \<and>
   atomic (pg_applyExternalCredit cfg cinp now) \<and> atomic (pg_transfer cfg f g amount key now) \<and>
   atomic (pg_requestWithdrawal cfg winp now) \<and> atomic (pg_confirmWithdrawalExternalAuth cfg i p q now) \<and>
   atomic (pg_markWithdrawalReviewRequired cfg i now) \<and> atomic (pg_approveWithdrawal cfg i ainp now) \<and>
   atomic (pg_broadcastWithdrawal cfg i h now) \<and> atomic (pg_confirmWithdrawal cfg i fee now) \<and>
   atomic (pg_failWithdrawal cfg i reason now) \<and> atomic (pg_lockOfflinePayCollateral cfg lkinp now) \<and>
   atomic (pg_releaseOfflinePayCollateral cfg riinp now) \<and> atomic (pg_finalizeOfflinePaySettlement cfg seinp now) \<and>
   atomic (pg_compensateOfflinePaySettlement cfg cpinp now)"
  by (intro conjI atomic_operations)

lemma dot_no_digit: "\<not> is_digit (CHR ''.'')"
  by code_simp

lemma BigInt_of_dot:
  assumes "CHR ''.'' \<in> set s"
  shows "\<exists>msg. BigInt_of s = Inl (NamedError ''SyntaxError'' msg)"
proof -
  have "\<not> list_all is_digit t" if "CHR ''.'' \<in> set t" for t
    using that dot_no_digit by (auto simp: list_all_iff)
  moreover have "CHR ''.'' \<in> set (tl s)" if "startsWith s ''-''"
    using assms that by (cases s) (auto simp: startsWith_def)
  ultimately show ?thesis using assms by (auto simp: BigInt_of_def Let_def)
qed

lemma BigInt_of_decimal: "\<exists>msg. BigInt_of (formatKoriAmount units) = Inl (NamedError ''SyntaxError'' msg)"
  by (rule BigInt_of_dot) (simp add: formatKoriAmount_def Let_def)

lemma BigInt_of_error: "BigInt_of s = Inl e \<Longrightarrow> \<exists>msg. e = NamedError ''SyntaxError'' msg"
  by (auto simp: BigInt_of_def Let_def split: if_splits)

lemma fold_rows_error:
  assumes "\<And>r m e. f r m = Inl e \<Longrightarrow> Q e"
  shows "fold_rows f rs m = Inl e \<Longrightarrow> Q e"
proof (induction rs arbitrary: m)
  case (Cons r rs)
  then show ?case using assms by (cases "f r m") auto
qed simp

lemma fold_rows_stops:
  assumes "r \<in> set rs" and "\<And>m. \<exists>e. f r m = Inl e"
  shows "\<exists>e. fold_rows f rs m = Inl e"
  using assms(1)
proof (induction rs arbitrary: m)
  case (Cons q rs)
  then show ?case using assms(2) [of m] by (cases "f q m") auto
qed simp

lemma add_row_error:
  "add_actual_row row m = Inl e \<Longrightarrow> \<exists>msg. e = NamedError ''SyntaxError'' msg"
  "add_ledger_row row m = Inl e \<Longrightarrow> \<exists>msg. e = NamedError ''SyntaxError'' msg"
  using BigInt_of_error by (auto simp: add_actual_row_def add_ledger_row_def Let_def split: sum.splits)

text \<open>C37. The fee report of the Postgres ledger throws as soon as a network fee has been posted: the sum of
  the postings is a decimal number with six places, and \<open>BigInt\<close> refuses its text.\<close>

theorem fee_snapshots_throw:
  assumes "fee_lines db \<noteq> []" and "0 < coalesce days 7"
  shows "\<exists>msg. pg_listNetworkFeeDailySnapshots days db = Inl (NamedError ''SyntaxError'' msg)"
proof -
  let ?key = "\<lambda>(j, p). (iso_day (jn_createdAt j), if jn_journalType j = ''withdraw_network_fee'' then FR_withdrawal else FR_sweep)"
  have "sort_desc fst xs \<noteq> []" if "xs \<noteq> []" for xs :: "(string \<times> fee_reference) list"
    using that by (metis set_sort_desc set_empty)
  from this [of "remdups (map ?key (fee_lines db))"]
  have "group_days (coalesce days 7 * 2) ?key (fee_lines db) \<noteq> []"
    using assms by (simp add: group_days_def)
  then have "ledger_fee_rows (coalesce days 7) db \<noteq> []" by (simp add: ledger_fee_rows_def Let_def)
  then obtain row where row: "row \<in> set (ledger_fee_rows (coalesce days 7) db)" by (meson list.set_sel(1))
  then have sum: "\<exists>units. fg_feeSun row = formatKoriAmount units" by (auto simp: ledger_fee_rows_def Let_def)
  have "\<exists>e. add_ledger_row row m = Inl e" for m
  proof -
    from sum BigInt_of_decimal obtain msg where "BigInt_of (fg_feeSun row) = Inl (NamedError ''SyntaxError'' msg)" by metis
    then show ?thesis by (simp add: add_ledger_row_def)
  qed
  then have stop: "\<exists>e. fold_rows add_ledger_row (ledger_fee_rows (coalesce days 7) db) m = Inl e" for m
    by (rule fold_rows_stops [OF row])
  show ?thesis
  proof (cases "fold_rows add_actual_row (actual_fee_rows (coalesce days 7) db) []")
    case (Inl e)
    then have "\<exists>msg. e = NamedError ''SyntaxError'' msg" 
      by (rule fold_rows_error [where Q = "\<lambda>e. \<exists>msg. e = NamedError ''SyntaxError'' msg", rotated]) (rule add_row_error(1))
    with Inl show ?thesis by (auto simp: pg_listNetworkFeeDailySnapshots_def)
  next
    case (Inr m)
    obtain e where e: "fold_rows add_ledger_row (ledger_fee_rows (coalesce days 7) db) m = Inl e" using stop by blast
    then have "\<exists>msg. e = NamedError ''SyntaxError'' msg" 
      by (rule fold_rows_error [where Q = "\<lambda>e. \<exists>msg. e = NamedError ''SyntaxError'' msg", rotated]) (rule add_row_error(2))
    with Inr e show ?thesis by (auto simp: pg_listNetworkFeeDailySnapshots_def)
  qed
qed

theorem fee_snapshots_throw_witness:
  "\<exists>msg. pg_listNetworkFeeDailySnapshots None
     (snd (pg_confirmSweep demo_cfg ''u0'' (Some pg_sweep_fee) demo_now pg_swept)) = Inl (NamedError ''SyntaxError'' msg)"
  by (rule fee_snapshots_throw) (code_simp, simp)

section \<open>The two ledgers\<close>



end
