(* ===== verification/LedgerDeposits.thy ===== *)
theory LedgerDeposits
  imports LedgerMachine
begin

text \<open>
  The deposits of the ledger over time: a deposit stays stored under its transaction hash with its
  owner and its amount, a completed one stays completed, and no two deposits share an id.  The
  background services rely on it when they decide that a transfer has been credited.
\<close>

section \<open>Steps that leave the deposits alone\<close>

definition same_deposits :: "ledger \<Rightarrow> ledger \<Rightarrow> bool" where
  "same_deposits s t = (depositsByTxHash t = depositsByTxHash s \<and> uuidCount s \<le> uuidCount t)"

lemma same_deposits_core: "same_core s t \<Longrightarrow> same_deposits s t"
  by (simp add: same_core_def core_def same_deposits_def)

lemma write_deposits [simp]:
  "uuidCount (write_account u a s) = uuidCount s"
  "uuidCount (write_withdrawal i w s) = uuidCount s"
  "depositsByTxHash (record_fee k rt ri fee now s) = depositsByTxHash s"
  "uuidCount (record_fee k rt ri fee now s) = uuidCount s"
  by (simp_all add: record_fee_def write_account_def write_withdrawal_def)

lemma enqueue_deposits [simp]:
  "depositsByTxHash (enqueueOutboxEvent cfg et aty ai p now s) = depositsByTxHash s"
  "uuidCount s \<le> uuidCount (enqueueOutboxEvent cfg et aty ai p now s)"
  using same_core_enqueue [of s cfg et aty ai p now] by (simp_all add: same_core_def core_def)

lemma publish_deposits [simp]:
  "depositsByTxHash (snd (publishWithdrawal cfg i w now r s)) = depositsByTxHash s"
  "uuidCount s \<le> uuidCount (snd (publishWithdrawal cfg i w now r s))"
  using same_core_publish [of s cfg i w now r] by (simp_all add: same_core_def core_def)

lemma publish_deposits_le: "n \<le> uuidCount s \<Longrightarrow> n \<le> uuidCount (snd (publishWithdrawal cfg i w now r s))"
  by (rule le_trans [OF _ publish_deposits(2)])

lemma same_deposits_accounts:
  "same_deposits s (snd (getAccount u now s))"
  "same_deposits s (snd (getAccountByWalletAddress a now s))"
  "same_deposits s (snd (bindWalletAddress u a now s))"
  "same_deposits s (snd (applyExternalCredit cinp now s))"
  "same_deposits s (snd (transfer cfg f g amount key now s))"
proof -
  show "same_deposits s (snd (transfer cfg f g amount key now s))"
  proof (cases "map_get (transferByIdempotencyKey s) key \<noteq> None \<or> f = g \<or> balance_of s f < amount")
    case True
    from transfer_other_state [OF this, of cfg now] show ?thesis by (auto simp: same_deposits_def)
  next
    case False
    then show ?thesis by (simp add: transfer_ok_state same_deposits_def transfer_state_def)
  qed
qed (simp_all add: getAccountByWalletAddress_def getAccount_def bindWalletAddress_def applyExternalCredit_def
      getMutableAccount_write Let_def same_deposits_def split: sum.split option.split)

lemma same_deposits_withdrawals:
  "same_deposits s (snd (requestWithdrawal cfg winp now s))"
  "same_deposits s (snd (confirmWithdrawalExternalAuth cfg i p r now s))"
  "same_deposits s (snd (markWithdrawalReviewRequired i now s))"
  "same_deposits s (snd (approveWithdrawal cfg i ainp now s))"
  "same_deposits s (snd (broadcastWithdrawal cfg i h now s))"
  "same_deposits s (snd (confirmWithdrawal cfg i fee now s))"
  "same_deposits s (snd (failWithdrawal cfg i reason now s))"
  by (auto simp: requestWithdrawal_def wd_ops same_deposits_def split: option.split intro!: publish_deposits_le)

section \<open>Deposits are kept\<close>

definition same_deposit :: "deposit \<Rightarrow> deposit \<Rightarrow> bool" where
  "same_deposit d e = (e\<lparr>dep_status := dep_status d\<rparr> = d \<and> (dep_status d = DS_COMPLETED \<longrightarrow> dep_status e = DS_COMPLETED))"

definition deposits_kept :: "ledger \<Rightarrow> ledger \<Rightarrow> bool" where
  "deposits_kept s t = (\<forall>h d. map_get (depositsByTxHash s) h = Some d \<longrightarrow>
     (\<exists>e. map_get (depositsByTxHash t) h = Some e \<and> same_deposit d e))"

lemma same_deposit_refl [simp]: "same_deposit d d"
  by (simp add: same_deposit_def)

lemma same_deposit_trans: "same_deposit d e \<Longrightarrow> same_deposit e f \<Longrightarrow> same_deposit d f"
  by (cases d; cases e; cases f; simp add: same_deposit_def)

lemma same_depositD:
  assumes "same_deposit d e"
  shows "dep_depositId e = dep_depositId d" "dep_userId e = dep_userId d" "dep_amount e = dep_amount d"
    "dep_txHash e = dep_txHash d" "dep_status d = DS_COMPLETED \<Longrightarrow> dep_status e = DS_COMPLETED"
  using assms by (cases d; cases e; simp add: same_deposit_def)+

lemma deposits_kept_same: "same_deposits s t \<Longrightarrow> deposits_kept s t"
  by (simp add: deposits_kept_def same_deposits_def)

lemma deposits_kept_refl [simp]: "deposits_kept s s"
  by (simp add: deposits_kept_def)

lemma deposits_kept_trans:
  assumes "deposits_kept s t" and "deposits_kept t u"
  shows "deposits_kept s u"
  using assms unfolding deposits_kept_def by (blast intro: same_deposit_trans)

section \<open>Ids\<close>

text \<open>The ids of the deposits come from \<open>randomUUID\<close>, and no two deposits share one.\<close>

definition deposit_ids_ok :: "ledger_cfg \<Rightarrow> ledger \<Rightarrow> bool" where
  "deposit_ids_ok cfg s =
     (map_wf (depositsByTxHash s) \<and>
      (\<forall>h d. map_get (depositsByTxHash s) h = Some d \<longrightarrow> dep_depositId d \<in> uuid cfg ` {..<uuidCount s}) \<and>
      (\<forall>h k d e. map_get (depositsByTxHash s) h = Some d \<longrightarrow> map_get (depositsByTxHash s) k = Some e \<longrightarrow>
         dep_depositId d = dep_depositId e \<longrightarrow> h = k))"

lemma deposit_ids_okD:
  assumes "deposit_ids_ok cfg s"
  shows "map_wf (depositsByTxHash s)"
    and "map_get (depositsByTxHash s) h = Some d \<Longrightarrow> dep_depositId d \<in> uuid cfg ` {..<uuidCount s}"
    and "map_get (depositsByTxHash s) h = Some d \<Longrightarrow> map_get (depositsByTxHash s) k = Some e \<Longrightarrow>
      dep_depositId d = dep_depositId e \<Longrightarrow> h = k"
  using assms unfolding deposit_ids_ok_def by blast+

lemma deposit_ids_same: "deposit_ids_ok cfg s \<Longrightarrow> same_deposits s t \<Longrightarrow> deposit_ids_ok cfg t"
  by (fastforce simp: deposit_ids_ok_def same_deposits_def)

lemma deposit_ids_empty: "deposit_ids_ok cfg empty_ledger"
  by (simp add: deposit_ids_ok_def empty_ledger_def)

text \<open>The deposit an id names is the one found by it.\<close>

lemma find_deposit_stored:
  assumes ok: "deposit_ids_ok cfg s" and d: "map_get (depositsByTxHash s) h = Some d"
  shows "find_deposit (dep_depositId d) s = Some (h, d)"
proof -
  have "find_deposit (dep_depositId d) s \<noteq> None"
    using map_of_SomeD [OF d [unfolded map_get_def]] by (auto simp: find_deposit_def find_None_iff)
  then obtain k e where k: "find_deposit (dep_depositId d) s = Some (k, e)" by auto
  note f = find_deposit_get [OF deposit_ids_okD(1) [OF ok] k]
  have "k = h" using deposit_ids_okD(3) [OF ok d f(1)] f(2) by simp
  with k d f show ?thesis by simp
qed

text \<open>What applying and completing a deposit do to the deposits.\<close>

lemma applyDeposit_deposits:
  "depositsByTxHash (snd (applyDeposit cfg inp now s))
     = (case map_get (depositsByTxHash s) (di_txHash inp) of
          Some _ \<Rightarrow> depositsByTxHash s
        | None \<Rightarrow> map_set (di_txHash inp)
            \<lparr>dep_depositId = uuid cfg (uuidCount s + 1), dep_userId = di_userId inp, dep_txHash = di_txHash inp,
             dep_amount = di_amount inp, dep_status = DS_CREDITED, dep_blockNumber = di_blockNumber inp,
             dep_createdAt = now\<rparr> (depositsByTxHash s))"
  by (simp add: applyDeposit_def getMutableAccount_write Let_def split: option.split sum.split)

lemma applyDeposit_uuid:
  "map_get (depositsByTxHash s) (di_txHash inp) = None \<Longrightarrow> uuidCount s + 2 \<le> uuidCount (snd (applyDeposit cfg inp now s))"
  by (simp add: applyDeposit_def getMutableAccount_write Let_def enqueueOutboxEvent_def split: sum.split)

lemma completeDeposit_deposits:
  assumes "deposit_ids_ok cfg s" and "map_get (depositsByTxHash s) h = Some d"
  shows "completeDeposit (dep_depositId d) s
    = (Inr (d\<lparr>dep_status := DS_COMPLETED\<rparr>),
       s\<lparr>depositsByTxHash := map_set h (d\<lparr>dep_status := DS_COMPLETED\<rparr>) (depositsByTxHash s)\<rparr>)"
proof -
  have "d\<lparr>dep_status := DS_COMPLETED\<rparr> = d" if "dep_status d = DS_COMPLETED"
    using that by (cases d) simp
  then show ?thesis
    using find_deposit_stored [OF assms] assms(2) by (simp add: completeDeposit_def Let_def)
qed

lemma completeDeposit_cases:
  assumes "map_wf (depositsByTxHash s)"
  shows "snd (completeDeposit i s) = s \<or> (\<exists>h d. map_get (depositsByTxHash s) h = Some d \<and>
    snd (completeDeposit i s) = s\<lparr>depositsByTxHash := map_set h (d\<lparr>dep_status := DS_COMPLETED\<rparr>) (depositsByTxHash s)\<rparr>)"
  using find_deposit_get(1) [OF assms, of i]
  by (fastforce simp: completeDeposit_def Let_def split: option.split prod.split)

lemma deposits_kept_complete: "map_wf (depositsByTxHash s) \<Longrightarrow> deposits_kept s (snd (completeDeposit i s))"
  using completeDeposit_cases [of s i] by (auto simp: deposits_kept_def same_deposit_def)

lemma deposits_kept_apply: "deposits_kept s (snd (applyDeposit cfg inp now s))"
  by (auto simp: deposits_kept_def applyDeposit_deposits split: option.split)

lemma deposit_ids_complete:
  assumes "deposit_ids_ok cfg s"
  shows "deposit_ids_ok cfg (snd (completeDeposit i s))"
  using completeDeposit_cases [OF deposit_ids_okD(1) [OF assms], of i]
proof
  assume "\<exists>h d. map_get (depositsByTxHash s) h = Some d \<and>
    snd (completeDeposit i s) = s\<lparr>depositsByTxHash := map_set h (d\<lparr>dep_status := DS_COMPLETED\<rparr>) (depositsByTxHash s)\<rparr>"
  then obtain h d where h: "map_get (depositsByTxHash s) h = Some d"
    and t: "snd (completeDeposit i s) = s\<lparr>depositsByTxHash := map_set h (d\<lparr>dep_status := DS_COMPLETED\<rparr>) (depositsByTxHash s)\<rparr>" by blast
  show ?thesis
    using assms h unfolding deposit_ids_ok_def t by (auto split: if_splits)
qed (use assms in simp)

lemma deposit_ids_apply:
  assumes ok: "deposit_ids_ok cfg s" and u: "uuid_ok cfg"
  shows "deposit_ids_ok cfg (snd (applyDeposit cfg inp now s))"
proof (cases "map_get (depositsByTxHash s) (di_txHash inp)")
  case (Some d)
  then show ?thesis using ok by (simp add: applyDeposit_def)
next
  case None
  have inj: "inj (uuid cfg)" using u by (simp add: uuid_ok_def)
  have new: "uuid cfg (uuidCount s + 1) \<notin> uuid cfg ` {..<uuidCount s}" using inj by (auto dest: injD)
  have le: "{..<uuidCount s} \<subseteq> {..<uuidCount (snd (applyDeposit cfg inp now s))}"
    "uuidCount s + 1 \<in> {..<uuidCount (snd (applyDeposit cfg inp now s))}"
    using applyDeposit_uuid [OF None, of cfg now] by auto
  have old: "dep_depositId d \<noteq> uuid cfg (uuidCount s + 1)" if "map_get (depositsByTxHash s) h = Some d" for h d
    using deposit_ids_okD(2) [OF ok that] new by auto
  let ?D = "depositsByTxHash (snd (applyDeposit cfg inp now s))"
  have get: "map_get ?D h = Some d \<Longrightarrow> h = di_txHash inp \<and> dep_depositId d = uuid cfg (uuidCount s + 1) \<or>
      h \<noteq> di_txHash inp \<and> map_get (depositsByTxHash s) h = Some d" for h d
    by (auto simp: applyDeposit_deposits None split: if_splits)
  show ?thesis
    unfolding deposit_ids_ok_def
  proof (intro conjI allI impI)
    show "map_wf ?D" using deposit_ids_okD(1) [OF ok] by (simp add: applyDeposit_deposits None)
    show "dep_depositId d \<in> uuid cfg ` {..<uuidCount (snd (applyDeposit cfg inp now s))}" if "map_get ?D h = Some d" for h d
      using get [OF that] image_mono [OF le(1), of "uuid cfg"] imageI [OF le(2), of "uuid cfg"] deposit_ids_okD(2) [OF ok, of h d]
      by (elim disjE conjE) auto
    show "h = k" if "map_get ?D h = Some d" "map_get ?D k = Some e" "dep_depositId d = dep_depositId e" for h k d e
      using get [OF that(1)] get [OF that(2)] that(3) old deposit_ids_okD(3) [OF ok] by metis
  qed
qed

section \<open>Steps\<close>

lemma deposit_step:
  assumes "ledger_step cfg s t"
  shows "same_deposits s t \<or> (\<exists>inp now. t = snd (applyDeposit cfg inp now s)) \<or> (\<exists>i. t = snd (completeDeposit i s))"
  using assms by cases (blast intro: same_deposits_accounts same_deposits_withdrawals same_deposits_core core_steps)+

lemma deposits_step:
  assumes step: "ledger_step cfg s t" and u: "uuid_ok cfg" and ok: "deposit_ids_ok cfg s"
  shows "deposits_kept s t" and "deposit_ids_ok cfg t"
  using deposit_step [OF step] deposits_kept_same deposits_kept_apply deposits_kept_complete [OF deposit_ids_okD(1) [OF ok]]
    deposit_ids_same [OF ok] deposit_ids_apply [OF ok u] deposit_ids_complete [OF ok]
  by blast+

lemma deposits_steps:
  assumes "ledger_steps cfg s t" and u: "uuid_ok cfg" and ok: "deposit_ids_ok cfg s"
  shows "deposits_kept s t \<and> deposit_ids_ok cfg t"
  using assms(1) unfolding ledger_steps_def
proof (induction rule: rtranclp_induct)
  case (step t v)
  then show ?case using deposits_step [OF step.hyps(2) u] deposits_kept_trans by blast
qed (simp add: ok)

lemma reachable_deposit_ids: "reachable_ledger cfg s \<Longrightarrow> deposit_ids_ok cfg s"
  using deposits_steps [OF _ _ deposit_ids_empty] by (simp add: reachable_ledger_def)

lemma reachable_deposits_kept: "reachable_ledger cfg s \<Longrightarrow> ledger_steps cfg s t \<Longrightarrow> deposits_kept s t"
  using deposits_steps reachable_deposit_ids reachable_uuid by blast

section \<open>A deposit that is credited\<close>

text \<open>The deposit stored under a transaction hash is completed.\<close>

definition credited_at :: "string \<Rightarrow> ledger \<Rightarrow> bool" where
  "credited_at h s = (\<exists>d. map_get (depositsByTxHash s) h = Some d \<and> dep_status d = DS_COMPLETED)"

lemma credited_at_kept: "deposits_kept s t \<Longrightarrow> credited_at h s \<Longrightarrow> credited_at h t"
  unfolding deposits_kept_def credited_at_def by (metis same_depositD(5))

end
