(* ===== verification/NumberText.thy ===== *)
theory NumberText
  imports Money
begin

text \<open>
  JavaScript's \<open>Number(text)\<close>, which the offline-pay and deposit services apply to amounts: white space
  around the literal is ignored, the empty text is 0, a decimal literal is the nearest double, a literal
  with the prefix \<open>0x\<close>, \<open>0o\<close> or \<open>0b\<close> is an integer, and everything else is \<open>NaN\<close>.
\<close>

definition lower_char :: "char \<Rightarrow> char" where
  "lower_char c = (if CHR ''A'' \<le> c \<and> c \<le> CHR ''Z'' then char_of (of_char c + 32 :: nat) else c)"

text \<open>The value of a digit in a base up to 16.\<close>

definition radix_digit :: "int \<Rightarrow> char \<Rightarrow> int option" where
  "radix_digit base c =
     (let l = lower_char c;
          d = (if is_digit l then digit_val l
               else if CHR ''a'' \<le> l \<and> l \<le> CHR ''f'' then int (of_char l) - 87 else 16)
      in if d < base then Some d else None)"

fun radix_value :: "int \<Rightarrow> int \<Rightarrow> string \<Rightarrow> int option" where
  "radix_value base acc [] = Some acc"
| "radix_value base acc (c # cs) =
     (case radix_digit base c of None \<Rightarrow> None | Some d \<Rightarrow> radix_value base (acc * base + d) cs)"

definition radix_literal :: "string \<Rightarrow> js_number option" where
  "radix_literal t =
     (let base = (if length t < 3 \<or> t ! 0 \<noteq> CHR ''0'' then 0
                  else if lower_char (t ! 1) = CHR ''x'' then 16
                  else if lower_char (t ! 1) = CHR ''o'' then 8
                  else if lower_char (t ! 1) = CHR ''b'' then 2 else 0)
      in if base = 0 then None else map_option (\<lambda>n. fl n 1) (radix_value base 0 (drop 2 t)))"

text \<open>A sign and the rest; \<open>True\<close> for minus.\<close>

definition signed_rest :: "string \<Rightarrow> bool \<times> string" where
  "signed_rest t =
     (if startsWith t ''-'' then (True, drop 1 t) else if startsWith t ''+'' then (False, drop 1 t) else (False, t))"

definition exponent_of :: "string \<Rightarrow> int option" where
  "exponent_of r =
     (if r = [] then Some 0
      else if lower_char (hd r) \<noteq> CHR ''e'' then None
      else let (neg, ds) = signed_rest (tl r)
           in if ds = [] \<or> \<not> list_all is_digit ds then None
              else Some (if neg then - digits_val ds else digits_val ds))"

definition unsigned_literal :: "string \<Rightarrow> js_number option" where
  "unsigned_literal u =
     (if u = ''Infinity'' then Some (JsInf False)
      else
        let ds = takeWhile is_digit u; r = dropWhile is_digit u;
            fs = (if startsWith r ''.'' then takeWhile is_digit (drop 1 r) else []);
            r' = (if startsWith r ''.'' then dropWhile is_digit (drop 1 r) else r)
        in if ds = [] \<and> fs = [] then None
           else case exponent_of r' of
             None \<Rightarrow> None
           | Some e \<Rightarrow>
               let n = digits_val (ds @ fs); k = e - int (length fs)
               in Some (if 0 \<le> k then fl (n * 10 ^ nat k) 1 else fl n (10 ^ nat (- k))))"

definition js_Number :: "string \<Rightarrow> js_number" where
  "js_Number text_value =
     (let t = trim text_value in
      if t = [] then JsFin 0 0
      else case radix_literal t of
        Some n \<Rightarrow> n
      | None \<Rightarrow>
          let (neg, u) = signed_rest t
          in case unsigned_literal u of
               None \<Rightarrow> JsNaN
             | Some n \<Rightarrow> if neg then js_neg n else n)"

lemma js_Number_examples:
  "js_Number ''12.500000'' = fl 125 10" "js_Number '''' = JsFin 0 0" "js_Number '' 0x10 '' = fl 16 1"
  "js_Number ''1,5'' = JsNaN" "js_Number ''-Infinity'' = JsInf True" "js_Number ''1e3'' = fl 1000 1"
  by code_simp+

section \<open>Rendered amounts\<close>

lemma digits_val_append: "digits_val (a @ b) = digits_val a * 10 ^ length b + digits_val b"
  by (induction b rule: rev_induct)
    (simp_all add: append_assoc [symmetric] digits_val_snoc algebra_simps del: append_assoc, simp add: digits_val_def)

lemma digit_range: "is_digit c \<Longrightarrow> CHR ''0'' \<le> c \<and> c \<le> CHR ''9''"
  by (simp add: is_digit_def)

lemma digit_no_letter:
  assumes "is_digit c"
  shows "c \<noteq> CHR ''+''" "c \<noteq> CHR ''I''" "lower_char c = c"
proof -
  have "of_char c \<le> (57::nat)" using assms by (simp add: is_digit_def less_eq_char_def)
  moreover have "48 \<le> (of_char c :: nat)" using assms by (simp add: is_digit_def less_eq_char_def)
  ultimately show "c \<noteq> CHR ''+''" "c \<noteq> CHR ''I''" "lower_char c = c"
    by (auto simp: lower_char_def less_eq_char_def)
qed

lemma dec_leading_zero: "dec n = CHR ''0'' # ds \<Longrightarrow> ds = []"
proof (induction n arbitrary: ds rule: dec.induct)
  case (1 n)
  show ?case
  proof (cases "n < 10")
    case True
    with 1 show ?thesis by (simp add: dec.simps [of n])
  next
    case False
    then have split: "dec n = dec (n div 10) @ [digit_char (n mod 10)]" by (simp add: dec.simps [of n])
    then obtain ds' where "dec (n div 10) = CHR ''0'' # ds'" using "1.prems" dec_nonempty [of "n div 10"]
      by (metis Cons_eq_append_conv)
    with "1.IH" [OF False] have "dec (n div 10) = ''0''" by blast
    then have "int (n div 10) = 0" using digits_val_dec [of "n div 10"] by (simp add: digits_val_def)
    with False show ?thesis by simp
  qed
qed

lemma js_Number_decimal:
  assumes "list_all is_digit ds" "ds \<noteq> []" "list_all is_digit fr" "fr \<noteq> []"
    and "\<And>ds'. ds = CHR ''0'' # ds' \<Longrightarrow> ds' = []"
  shows "js_Number (ds @ ''.'' @ fr) = fl (digits_val ds * 10 ^ length fr + digits_val fr) (10 ^ length fr)"
proof -
  let ?t = "ds @ ''.'' @ fr"
  obtain d ds' where d: "ds = d # ds'" using assms(2) by (cases ds) auto
  with assms(1) have dd: "is_digit d" by simp
  have "is_digit (last fr)" using assms(3,4) by (simp add: list_all_iff)
  then have trim: "trim ?t = ?t" using dd assms(4) by (intro trim_id) (auto simp: d dest: digit_not_special)
  have "lower_char (CHR ''.'') = CHR ''.''" by code_simp
  then have "radix_literal ?t = None"
    using assms(5) by (cases "d = CHR ''0''") (auto simp: radix_literal_def d Let_def)
  moreover have "signed_rest ?t = (False, ?t)"
    using dd digit_no_letter(1) by (auto simp: signed_rest_def startsWith_def d dest: digit_not_special)
  moreover have "unsigned_literal ?t = Some (fl (digits_val (ds @ fr)) (10 ^ length fr))"
  proof -
    have "?t \<noteq> ''Infinity''" using digit_no_letter(2) [OF dd] by (simp add: d)
    moreover have "takeWhile is_digit ?t = ds" "dropWhile is_digit ?t = ''.'' @ fr"
      using takeWhile_digits [OF assms(1), of fr] dropWhile_digits [OF assms(1), of fr] by simp_all
    ultimately show ?thesis using assms(2,3,4) by (simp add: takeWhile_eq_all_conv [THEN iffD2] list_all_iff unsigned_literal_def Let_def startsWith_def exponent_of_def)
  qed
  moreover have "?t \<noteq> []" by simp
  ultimately show ?thesis unfolding js_Number_def Let_def trim by (simp add: digits_val_append)
qed

lemma js_Number_format:
  assumes "0 \<le> units"
  shows "js_Number (formatKoriAmount units) = fl units KORI_SCALE"
proof -
  let ?fr = "padStart0 6 (dec (nat (units mod KORI_SCALE)))" and ?ds = "dec (nat (units div KORI_SCALE))"
  have "nat (units mod KORI_SCALE) < 1000000" by (simp add: KORI_SCALE_def nat_less_iff)
  note fr = padStart0_dec [OF this]
  have "formatKoriAmount units = ?ds @ ''.'' @ ?fr"
    using assms by (simp add: formatKoriAmount_def Let_def KORI_DECIMALS_def)
  moreover have "?fr \<noteq> []" using fr(1) by auto
  ultimately have "js_Number (formatKoriAmount units) = fl (digits_val ?ds * 10 ^ 6 + digits_val ?fr) (10 ^ 6)"
    using js_Number_decimal [OF dec_digits dec_nonempty fr(2) _ dec_leading_zero] fr(1) by simp
  moreover have "digits_val ?ds = units div KORI_SCALE"
    using assms by (simp add: digits_val_dec KORI_SCALE_def pos_imp_zdiv_nonneg_iff)
  moreover have "digits_val ?fr = units mod KORI_SCALE" unfolding fr(3) by (simp add: KORI_SCALE_def)
  moreover have "units div KORI_SCALE * 10 ^ 6 + units mod KORI_SCALE = units" by (simp add: KORI_SCALE_def)
  ultimately show ?thesis by (simp add: KORI_SCALE_def)
qed

text \<open>The amounts that the services exchange as text with six decimals are read back exactly below 8192 KORI.\<close>

lemma parse_rendered_amount:
  assumes "0 < units" and "units < 8192 * KORI_SCALE"
  shows "parseKoriAmount (js_Number (formatKoriAmount units)) = Inr units"
  using assms by (simp add: js_Number_format parse_decimal_amount)

end
