(* ===== verification/Station.thy ===== *)
theory Station
  imports ResourceDelegation NumberText "HOL-Library.Product_Lexorder"
begin

text \<open>
  What the deposit monitor and the sweep bot share: the types of the monitor
  (\<open>src/domain/deposit-monitor/types.ts\<close>), its in-memory repository
  (\<open>src/infrastructure/persistence/in-memory-deposit-monitor-repository.ts\<close>), the Foxya client as a port
  (\<open>src/application/ports/external-deposit-client.ts\<close>), and the \<open>station\<close> the services run on: the
  platform with the repository of the monitor and the private state of the two services beside it.
\<close>

section \<open>The repository\<close>

datatype external_status = EX_discovered | EX_registered | EX_completed

record monitor_cursor =
  mc_scannerKey :: string
  mc_network :: network
  mc_contractAddress :: string
  mc_cursorTimestampMs :: int
  mc_lastScannedBlockNumber :: "int option"
  mc_lastSeenEventBlockNumber :: "int option"
  mc_lastSeenTxHash :: "string option"
  mc_lastError :: "string option"
  mc_updatedAt :: string

record external_event =
  ee_eventKey :: string
  ee_depositId :: string
  ee_userId :: string
  ee_currencyId :: int
  ee_network :: string
  ee_fromAddress :: "string option"
  ee_toAddress :: string
  ee_txHash :: string
  ee_eventIndex :: int
  ee_blockNumber :: int
  ee_blockTimestampMs :: int
  ee_amountRaw :: string
  ee_amountDecimal :: string
  ee_status :: external_status
  ee_foxyaRegisteredAt :: "string option"
  ee_foxyaCompletedAt :: "string option"
  ee_lastError :: "string option"
  ee_createdAt :: string
  ee_updatedAt :: string

record monitor_repo =
  dm_cursors :: "monitor_cursor jsmap"
  dm_events :: "external_event jsmap"

definition getCursor :: "string \<Rightarrow> monitor_repo \<Rightarrow> monitor_cursor option" where
  "getCursor scannerKey r = map_get (dm_cursors r) scannerKey"

text \<open>\<open>updatedAt\<close> is always left out by the service, so it is the time of the call.\<close>

definition saveCursor :: "monitor_cursor \<Rightarrow> string \<Rightarrow> monitor_repo \<Rightarrow> monitor_cursor \<times> monitor_repo" where
  "saveCursor c nowIso r =
     (let cursor = c\<lparr>mc_updatedAt := nowIso\<rparr>
      in (cursor, r\<lparr>dm_cursors := map_set (mc_scannerKey c) cursor (dm_cursors r)\<rparr>))"

definition recordDiscoveredEvent :: "external_event \<Rightarrow> string \<Rightarrow> monitor_repo \<Rightarrow> external_event \<times> monitor_repo" where
  "recordDiscoveredEvent e nowIso r =
     (case map_get (dm_events r) (ee_eventKey e) of
        Some existing \<Rightarrow> (existing, r)
      | None \<Rightarrow>
          let event = e\<lparr>ee_createdAt := nowIso, ee_updatedAt := nowIso\<rparr>
          in (event, r\<lparr>dm_events := map_set (ee_eventKey e) event (dm_events r)\<rparr>))"

definition markEventStatus :: "string \<Rightarrow> external_status \<Rightarrow> string option \<Rightarrow> string option \<Rightarrow> string
    \<Rightarrow> (monitor_repo, external_event) act" where
  "markEventStatus eventKey status registeredAt completedAt nowIso r =
     (case map_get (dm_events r) eventKey of
        None \<Rightarrow> (Inl (JsError (''deposit monitor event not found: '' @ eventKey)), r)
      | Some existing \<Rightarrow>
          let updated = existing\<lparr>ee_status := status,
                ee_foxyaRegisteredAt := coalesce_opt registeredAt (ee_foxyaRegisteredAt existing),
                ee_foxyaCompletedAt := coalesce_opt completedAt (ee_foxyaCompletedAt existing),
                ee_lastError := None, ee_updatedAt := nowIso\<rparr>
          in (Inr updated, r\<lparr>dm_events := map_set eventKey updated (dm_events r)\<rparr>))"

text \<open>Newest first, by block time and then by the time of the last update.\<close>

definition recent_first :: "external_event list \<Rightarrow> external_event list" where
  "recent_first es = sort_desc (\<lambda>e. (ee_blockTimestampMs e, ee_updatedAt e)) es"

definition listRecentEvents :: "int \<Rightarrow> monitor_repo \<Rightarrow> external_event list" where
  "listRecentEvents limit r = slice0 limit (recent_first (map_values (dm_events r)))"

definition listEventsByStatus :: "external_status \<Rightarrow> int \<Rightarrow> monitor_repo \<Rightarrow> external_event list" where
  "listEventsByStatus status limit r =
     slice0 limit (recent_first (filter (\<lambda>e. ee_status e = status) (map_values (dm_events r))))"

definition countEventsByStatus :: "monitor_repo \<Rightarrow> external_status \<Rightarrow> int" where
  "countEventsByStatus r status = int (length (filter (\<lambda>e. ee_status e = status) (map_values (dm_events r))))"

section \<open>Ports and state\<close>

record chain_event =
  ce_txHash :: string
  ce_eventIndex :: int
  ce_blockNumber :: int
  ce_blockTimestampMs :: int
  ce_fromAddress :: "string option"
  ce_toAddress :: "string option"
  ce_amountRaw :: string

record transfer_page =
  tp_events :: "chain_event list"
  tp_nextFingerprint :: "string option"

record register_request =
  er_depositId :: string
  er_userId :: string
  er_currencyId :: int
  er_amount :: string
  er_network :: string
  er_senderAddress :: "string option"
  er_toAddress :: string
  er_logIndex :: int
  er_blockNumber :: int
  er_txHash :: string

record foxya_deposit =
  fd_sweepStatus :: "string option"
  fd_sweepTxHash :: "string option"
  fd_sweepErrorMessage :: "string option"

record 'w deposit_client =
  dc_listWatchAddresses :: "('w, watch_address list) act"
  dc_registerDeposit :: "register_request \<Rightarrow> ('w, unit) act"
  dc_completeDeposit :: "string \<Rightarrow> ('w, unit) act"
  dc_getDeposit :: "string \<Rightarrow> ('w, foxya_deposit option) act"
  dc_submitSweep :: "string \<Rightarrow> string \<Rightarrow> ('w, unit) act"
  dc_failSweep :: "string \<Rightarrow> string \<Rightarrow> ('w, unit) act"

text \<open>
  The local variables of a cycle that its loop changes.  \<open>savedCursorTimestampMs\<close> and its two companions
  always equal \<open>lastSeenTimestamp\<close>, \<open>lastSeenBlockNumber\<close> and \<open>lastSeenTxHash\<close> once the cursor is read, so
  one copy serves both.
\<close>

record scan_state =
  sc_scannedEvents :: int
  sc_matchedEvents :: int
  sc_registeredCount :: int
  sc_completedCount :: int
  sc_skippedCount :: int
  sc_lastSeenTimestamp :: int
  sc_lastSeenBlockNumber :: "int option"
  sc_lastSeenTxHash :: "string option"

text \<open>The state of the sweep bot: whether a cycle is running, and what it reports of the last one.\<close>

record sweep_result =
  ws_scanned :: int
  ws_planned :: int
  ws_queued :: int
  ws_broadcasted :: int
  ws_confirmed :: int
  ws_failed :: int
  ws_skipped :: int

record sweep_bot_status =
  wb_enabled :: bool
  wb_configured :: bool
  wb_lastRunAt :: "string option"
  wb_lastError :: "string option"
  wb_lastResult :: "sweep_result option"

record sweep_bot =
  bot_running :: bool
  bot_status :: sweep_bot_status

record 'w station =
  st_platform :: "'w platform"
  st_monitor :: monitor_repo
  st_ids :: nat
  st_running :: bool
  st_scan :: scan_state
  st_sweep :: sweep_bot

definition on_platform :: "('w platform, 'a) act \<Rightarrow> ('w station, 'a) act" where
  "on_platform m = zoom st_platform (\<lambda>p s. s\<lparr>st_platform := p\<rparr>) m"

definition on_monitor :: "'w app \<Rightarrow> (string \<Rightarrow> (monitor_repo, 'a) act) \<Rightarrow> ('w station, 'a) act" where
  "on_monitor app m =
     and_then (on_platform (now_iso app)) (\<lambda>nowIso. zoom st_monitor (\<lambda>r s. s\<lparr>st_monitor := r\<rparr>) (m nowIso))"

definition on_scan :: "(scan_state \<Rightarrow> scan_state) \<Rightarrow> ('w station, unit) act" where
  "on_scan f = modify (\<lambda>s. s\<lparr>st_scan := f (st_scan s)\<rparr>)"

definition outside :: "('w, 'a) act \<Rightarrow> ('w station, 'a) act" where
  "outside m = on_platform (on_world m)"

end
