(* ===== verification/DepositMonitor.thy ===== *)
theory DepositMonitor
  imports Station
begin

text \<open>
  \<open>DepositMonitorService\<close> (\<open>src/application/services/deposit-monitor-service.ts\<close>): it reads the token
  transfers to watched addresses from the chain, registers them with Foxya and, once they have enough
  confirmations, credits them in the ledger.  The chain reader and the Foxya client are ports.
\<close>

section \<open>Settings\<close>

text \<open>The settings of \<open>env\<close> that the monitor reads, and its ports.\<close>

record 'w monitor_config =
  cf_enabled :: bool
  cf_network :: network
  cf_contractAddress :: string
  cf_startTimestampMs :: "int option"
  cf_lookbackMs :: int
  cf_pageLimit :: int
  cf_confirmations :: int
  cf_currencyIds :: "int list"
  cf_client :: "'w deposit_client option"
  cf_getCurrentBlockNumber :: "network \<Rightarrow> ('w, int) act"
  cf_listTransfers :: "network \<Rightarrow> string \<Rightarrow> int \<Rightarrow> string option \<Rightarrow> int \<Rightarrow> ('w, transfer_page) act"
  cf_lifecyclePolicy :: bool
  cf_alerts :: bool
  cf_newId :: "nat \<Rightarrow> string"

section \<open>Amounts and addresses\<close>

text \<open>\<open>rawAmount.replace(/^0+(\d)/, '$1')\<close>: leading zeros go, but a digit stays.\<close>

definition strip_zeros :: "string \<Rightarrow> string" where
  "strip_zeros raw =
     (let rest = dropWhile (\<lambda>c. c = CHR ''0'') raw; zeros = length raw - length rest in
      if zeros = 0 then raw
      else if rest \<noteq> [] \<and> is_digit (hd rest) then rest
      else if 2 \<le> zeros then CHR ''0'' # rest else raw)"

definition formatRawAmount :: "string \<Rightarrow> string" where
  "formatRawAmount rawAmount =
     (let padded = padStart0 7 (strip_zeros rawAmount);
          whole = take (length padded - 6) padded;
          fractional = rev (dropWhile (\<lambda>c. c = CHR ''0'') (rev (drop (length padded - 6) padded)))
      in if fractional \<noteq> [] then whole @ ''.'' @ fractional else whole)"

definition filterWatchAddresses :: "int list \<Rightarrow> watch_address list \<Rightarrow> watch_address list" where
  "filterWatchAddresses currencyIds addresses =
     map (\<lambda>a. a\<lparr>wt_address := trim (wt_address a)\<rparr>)
       (filter (\<lambda>a. currencyIds \<noteq> [] \<longrightarrow> wt_currencyId a \<in> set currencyIds)
         (filter (\<lambda>a. toUpperCase (wt_network a) = ''TRON'') addresses))"

definition filterAdhocWatchAddresses :: "string list \<Rightarrow> watch_address list \<Rightarrow> watch_address list" where
  "filterAdhocWatchAddresses addressFilter addresses =
     (if addressFilter = [] then addresses else filter (\<lambda>a. wt_address a \<in> set addressFilter) addresses)"

section \<open>One event\<close>

definition monitor_alert :: "'w app \<Rightarrow> 'w monitor_config \<Rightarrow> alert \<Rightarrow> ('w station, unit) act" where
  "monitor_alert app cf a = when_do (cf_alerts cf) (on_platform (notify app a))"

definition credit_event :: "'w app \<Rightarrow> 'w deposit_client \<Rightarrow> external_event \<Rightarrow> ('w station, bool) act" where
  "credit_event app client event =
     and_then (lift_result (parseKoriAmount (js_Number (ee_amountDecimal event)))) (\<lambda>amount.
     and_then (on_platform (on_ledger app (applyDeposit (app_cfg app)
        \<lparr>di_userId = ee_userId event, di_amount = amount, di_txHash = ee_txHash event,
         di_toAddress = Some (ee_toAddress event), di_walletAddress = Some (ee_toAddress event),
         di_blockNumber = ee_blockNumber event\<rparr>))) (\<lambda>applied.
     and_then (on_platform (on_ledger app (\<lambda>nowIso. completeDeposit (dep_depositId (dr_deposit applied))))) (\<lambda>_.
     and_then (outside (dc_completeDeposit client (ee_depositId event))) (\<lambda>_.
     and_then (on_platform (now_iso app)) (\<lambda>completedAt.
     and_then (on_monitor app (markEventStatus (ee_eventKey event) EX_completed None (Some completedAt))) (\<lambda>_.
     ret True))))))"

definition completeIfEligible :: "'w app \<Rightarrow> 'w monitor_config \<Rightarrow> external_event \<Rightarrow> int \<Rightarrow> ('w station, bool) act" where
  "completeIfEligible app cf event currentBlockNumber =
     (case cf_client cf of
        None \<Rightarrow> ret False
      | Some client \<Rightarrow>
          if currentBlockNumber - ee_blockNumber event + 1 < cf_confirmations cf \<or> truthy (ee_foxyaCompletedAt event)
          then ret False
          else if \<not> cf_lifecyclePolicy cf then credit_event app client event
          else
            and_then (on_platform (canCreditDeposit app (Some (ee_userId event)) (Some (ee_toAddress event)))) (\<lambda>(_, gate).
              if lg_depositAllowed gate then credit_event app client event
              else
                and_then (monitor_alert app cf (notifyWalletLifecycleGateBlocked (ee_userId event)
                   (Some (ee_toAddress event)) ''deposit'' (lg_reason gate))) (\<lambda>_.
                ret False)))"

definition complete_and_count :: "'w app \<Rightarrow> 'w monitor_config \<Rightarrow> external_event \<Rightarrow> int \<Rightarrow> ('w station, unit) act" where
  "complete_and_count app cf event currentBlockNumber =
     and_then (completeIfEligible app cf event currentBlockNumber) (\<lambda>completed.
       when_do completed (on_scan (\<lambda>c. c\<lparr>sc_completedCount := sc_completedCount c + 1\<rparr>)))"

definition discovered_event :: "'w monitor_config \<Rightarrow> chain_event \<Rightarrow> string \<Rightarrow> watch_address \<Rightarrow> string \<Rightarrow> external_event" where
  "discovered_event cf ev toAddress target depositId =
     \<lparr>ee_eventKey = join_with '':'' [network_name (cf_network cf), json_int (wt_currencyId target), ce_txHash ev,
        json_int (ce_eventIndex ev)],
      ee_depositId = depositId, ee_userId = wt_userId target, ee_currencyId = wt_currencyId target,
      ee_network = wt_network target, ee_fromAddress = ce_fromAddress ev, ee_toAddress = toAddress,
      ee_txHash = ce_txHash ev, ee_eventIndex = ce_eventIndex ev, ee_blockNumber = ce_blockNumber ev,
      ee_blockTimestampMs = ce_blockTimestampMs ev, ee_amountRaw = ce_amountRaw ev,
      ee_amountDecimal = formatRawAmount (ce_amountRaw ev), ee_status = EX_discovered,
      ee_foxyaRegisteredAt = None, ee_foxyaCompletedAt = None, ee_lastError = None, ee_createdAt = '''',
      ee_updatedAt = ''''\<rparr>"

definition process_target :: "'w app \<Rightarrow> 'w monitor_config \<Rightarrow> 'w deposit_client \<Rightarrow> int \<Rightarrow> chain_event \<Rightarrow> string \<Rightarrow> watch_address
    \<Rightarrow> ('w station, unit) act" where
  "process_target app cf client currentBlockNumber ev toAddress target =
     and_then (ask (\<lambda>s. cf_newId cf (st_ids s))) (\<lambda>depositId.
     and_then (modify (\<lambda>s. s\<lparr>st_ids := Suc (st_ids s)\<rparr>)) (\<lambda>_.
     and_then (on_monitor app (\<lambda>nowIso. total (recordDiscoveredEvent
        (discovered_event cf ev toAddress target depositId) nowIso))) (\<lambda>event.
       if truthy (ee_foxyaRegisteredAt event) then complete_and_count app cf event currentBlockNumber
       else
         and_then (outside (dc_registerDeposit client
            \<lparr>er_depositId = ee_depositId event, er_userId = ee_userId event, er_currencyId = ee_currencyId event,
             er_amount = ee_amountDecimal event, er_network = ee_network event,
             er_senderAddress = ee_fromAddress event, er_toAddress = ee_toAddress event,
             er_logIndex = ee_eventIndex event, er_blockNumber = ee_blockNumber event,
             er_txHash = ee_txHash event\<rparr>)) (\<lambda>_.
         and_then (on_platform (now_iso app)) (\<lambda>registeredAt.
         and_then (on_monitor app (markEventStatus (ee_eventKey event) EX_registered (Some registeredAt) None)) (\<lambda>_.
         and_then (on_scan (\<lambda>c. c\<lparr>sc_registeredCount := sc_registeredCount c + 1\<rparr>)) (\<lambda>_.
         complete_and_count app cf (event\<lparr>ee_foxyaRegisteredAt := Some registeredAt\<rparr>) currentBlockNumber)))))))"

definition process_chain_event :: "'w app \<Rightarrow> 'w monitor_config \<Rightarrow> 'w deposit_client \<Rightarrow> int \<Rightarrow> watch_address list \<Rightarrow> string list
    \<Rightarrow> chain_event \<Rightarrow> ('w station, unit) act" where
  "process_chain_event app cf client currentBlockNumber watchAddresses txHashFilter ev =
     (let skip = on_scan (\<lambda>c. c\<lparr>sc_skippedCount := sc_skippedCount c + 1\<rparr>) in
      if txHashFilter \<noteq> [] \<and> ce_txHash ev \<notin> set txHashFilter then skip
      else
        and_then (on_scan (\<lambda>c. c\<lparr>sc_lastSeenTimestamp := max (sc_lastSeenTimestamp c) (ce_blockTimestampMs ev),
            sc_lastSeenBlockNumber := Some (max (coalesce (sc_lastSeenBlockNumber c) 0) (ce_blockNumber ev)),
            sc_lastSeenTxHash := Some (ce_txHash ev)\<rparr>)) (\<lambda>_.
          if \<not> truthy (ce_toAddress ev) then skip
          else
            let targets = filter (\<lambda>a. wt_address a = the (ce_toAddress ev)) watchAddresses in
            if targets = [] then skip
            else
              and_then (on_scan (\<lambda>c. c\<lparr>sc_matchedEvents := sc_matchedEvents c + 1\<rparr>)) (\<lambda>_.
              for_each (process_target app cf client currentBlockNumber ev (the (ce_toAddress ev))) targets)))"

section \<open>A cycle\<close>

text \<open>
  One page of transfers; the result is the fingerprint of the next page, or \<open>None\<close> when the loop ends:
  with an empty page, or with one that has no next fingerprint.
\<close>

definition scan_page :: "'w app \<Rightarrow> 'w monitor_config \<Rightarrow> 'w deposit_client \<Rightarrow> int \<Rightarrow> watch_address list \<Rightarrow> string list
    \<Rightarrow> int \<Rightarrow> string option \<Rightarrow> ('w station, string option) act" where
  "scan_page app cf client currentBlockNumber watchAddresses txHashFilter minBlockTimestamp fingerprint =
     and_then (outside (cf_listTransfers cf (cf_network cf) (cf_contractAddress cf) minBlockTimestamp fingerprint
        (cf_pageLimit cf))) (\<lambda>page.
       if tp_events page = [] then ret None
       else
         and_then (on_scan (\<lambda>c. c\<lparr>sc_scannedEvents := sc_scannedEvents c + int (length (tp_events page))\<rparr>)) (\<lambda>_.
         and_then (for_each (process_chain_event app cf client currentBlockNumber watchAddresses txHashFilter)
            (tp_events page)) (\<lambda>_.
         ret (if truthy (tp_nextFingerprint page) then tp_nextFingerprint page else None))))"

text \<open>The chain reader decides when the loop ends, so it is a partial function: \<open>None\<close> is a loop that never ends.\<close>

partial_function (option) scan_pages :: "'w app \<Rightarrow> 'w monitor_config \<Rightarrow> 'w deposit_client \<Rightarrow> int \<Rightarrow> watch_address list
    \<Rightarrow> string list \<Rightarrow> int \<Rightarrow> string option \<Rightarrow> 'w station \<Rightarrow> ((js_error + unit) \<times> 'w station) option" where
  "scan_pages app cf client currentBlockNumber watchAddresses txHashFilter minBlockTimestamp fingerprint s =
     (case scan_page app cf client currentBlockNumber watchAddresses txHashFilter minBlockTimestamp fingerprint s of
        (Inl e, t) \<Rightarrow> Some (Inl e, t)
      | (Inr None, t) \<Rightarrow> Some (Inr (), t)
      | (Inr (Some next_page), t) \<Rightarrow>
          scan_pages app cf client currentBlockNumber watchAddresses txHashFilter minBlockTimestamp (Some next_page) t)"

record monitor_report =
  mr_scannedEvents :: int
  mr_watchedAddresses :: int
  mr_matchedEvents :: int
  mr_registeredCount :: int
  mr_completedCount :: int
  mr_skippedCount :: int
  mr_currentBlockNumber :: int
  mr_cursorTimestampMs :: int

record cycle_options =
  co_overrideStartTimestampMs :: "int option"
  co_addressFilter :: "string list"
  co_txHashFilter :: "string list"
  co_persistCursor :: bool

definition SCANNER_KEY :: string where
  "SCANNER_KEY = ''tron-kori-monitor''"

definition scan_start :: "int \<Rightarrow> monitor_cursor option \<Rightarrow> scan_state" where
  "scan_start startTimestampMs cursor =
     \<lparr>sc_scannedEvents = 0, sc_matchedEvents = 0, sc_registeredCount = 0, sc_completedCount = 0, sc_skippedCount = 0,
      sc_lastSeenTimestamp = startTimestampMs,
      sc_lastSeenBlockNumber = Option.bind cursor mc_lastSeenEventBlockNumber,
      sc_lastSeenTxHash = Option.bind cursor mc_lastSeenTxHash\<rparr>"

definition cursor_now :: "'w monitor_config \<Rightarrow> int option \<Rightarrow> string option \<Rightarrow> scan_state \<Rightarrow> monitor_cursor" where
  "cursor_now cf scanned err c =
     \<lparr>mc_scannerKey = SCANNER_KEY, mc_network = cf_network cf, mc_contractAddress = cf_contractAddress cf,
      mc_cursorTimestampMs = sc_lastSeenTimestamp c, mc_lastScannedBlockNumber = scanned,
      mc_lastSeenEventBlockNumber = sc_lastSeenBlockNumber c, mc_lastSeenTxHash = sc_lastSeenTxHash c,
      mc_lastError = err, mc_updatedAt = ''''\<rparr>"

text \<open>The part before the loop: the addresses to watch, the current block and the start of the scan.\<close>

definition prepare_scan :: "'w app \<Rightarrow> 'w monitor_config \<Rightarrow> 'w deposit_client \<Rightarrow> cycle_options
    \<Rightarrow> ('w station, watch_address list \<times> int \<times> int) act" where
  "prepare_scan app cf client opts =
     and_then (on_platform (now_ms app)) (\<lambda>nowMs.
     and_then (on_scan (\<lambda>_. scan_start (coalesce (cf_startTimestampMs cf) (nowMs - cf_lookbackMs cf)) None)) (\<lambda>_.
     and_then (outside (dc_listWatchAddresses client)) (\<lambda>addresses.
     and_then (outside (cf_getCurrentBlockNumber cf (cf_network cf))) (\<lambda>currentBlockNumber.
     and_then (ask (\<lambda>s. getCursor SCANNER_KEY (st_monitor s))) (\<lambda>cursor.
     and_then (on_platform (now_ms app)) (\<lambda>nowMs.
       let startTimestampMs = coalesce (co_overrideStartTimestampMs opts)
             (coalesce (map_option mc_cursorTimestampMs cursor)
               (coalesce (cf_startTimestampMs cf) (nowMs - cf_lookbackMs cf)))
       in and_then (on_scan (\<lambda>_. scan_start startTimestampMs cursor)) (\<lambda>_.
          ret (filterAdhocWatchAddresses (co_addressFilter opts)
                 (filterWatchAddresses (cf_currencyIds cf) addresses),
               currentBlockNumber, max 0 (startTimestampMs - cf_lookbackMs cf)))))))))"

definition finish_scan :: "'w app \<Rightarrow> 'w monitor_config \<Rightarrow> cycle_options \<Rightarrow> watch_address list \<Rightarrow> int
    \<Rightarrow> ('w station, monitor_report) act" where
  "finish_scan app cf opts watchAddresses currentBlockNumber =
     and_then (ask st_scan) (\<lambda>c.
     and_then (if co_persistCursor opts
       then and_then (on_monitor app (\<lambda>nowIso. total (saveCursor (cursor_now cf (Some currentBlockNumber) None c) nowIso)))
              (\<lambda>_. ret ())
       else and_then (on_platform (now_iso app)) (\<lambda>_. ret ())) (\<lambda>_.
     ret \<lparr>mr_scannedEvents = sc_scannedEvents c, mr_watchedAddresses = int (length watchAddresses),
          mr_matchedEvents = sc_matchedEvents c, mr_registeredCount = sc_registeredCount c,
          mr_completedCount = sc_completedCount c, mr_skippedCount = sc_skippedCount c,
          mr_currentBlockNumber = currentBlockNumber, mr_cursorTimestampMs = sc_lastSeenTimestamp c\<rparr>))"

text \<open>The \<open>catch\<close>: the cursor is saved with the error, and the error is thrown again.\<close>

definition abort_scan :: "'w app \<Rightarrow> 'w monitor_config \<Rightarrow> js_error \<Rightarrow> ('w station, 'a) act" where
  "abort_scan app cf e =
     and_then (ask st_scan) (\<lambda>c.
     and_then (on_monitor app (\<lambda>nowIso. total (saveCursor (cursor_now cf None (Some (error_message e)) c) nowIso))) (\<lambda>_.
     throw e))"

definition not_running :: "'w station \<Rightarrow> 'w station" where
  "not_running s = s\<lparr>st_running := False\<rparr>"

definition runCycleInternal :: "'w app \<Rightarrow> 'w monitor_config \<Rightarrow> cycle_options \<Rightarrow> 'w station
    \<Rightarrow> ((js_error + monitor_report cycle_result) \<times> 'w station) option" where
  "runCycleInternal app cf opts s =
     (if \<not> cf_enabled cf then Some (Inr (Cycle_skipped ''deposit monitor disabled''), s)
      else case cf_client cf of
        None \<Rightarrow> Some (Inr (Cycle_skipped ''foxya internal api is not configured''), s)
      | Some client \<Rightarrow>
          if st_running s then Some (Inr (Cycle_skipped ''deposit monitor already running''), s)
          else
            map_option (\<lambda>(r, t). (map_sum id Cycle_ran r, not_running t))
              (case prepare_scan app cf client opts (s\<lparr>st_running := True\<rparr>) of
                 (Inl e, s1) \<Rightarrow> Some (abort_scan app cf e s1)
               | (Inr (watchAddresses, currentBlockNumber, minBlockTimestamp), s1) \<Rightarrow>
                   (case scan_pages app cf client currentBlockNumber watchAddresses (co_txHashFilter opts)
                           minBlockTimestamp None s1 of
                      None \<Rightarrow> None
                    | Some (Inl e, s2) \<Rightarrow> Some (abort_scan app cf e s2)
                    | Some (Inr _, s2) \<Rightarrow>
                        Some (catching (finish_scan app cf opts watchAddresses currentBlockNumber) (abort_scan app cf) s2))))"

definition runMonitorCycle :: "'w app \<Rightarrow> 'w monitor_config \<Rightarrow> 'w station \<Rightarrow> ((js_error + monitor_report cycle_result) \<times> 'w station) option" where
  "runMonitorCycle app cf = runCycleInternal app cf
     \<lparr>co_overrideStartTimestampMs = None, co_addressFilter = [], co_txHashFilter = [], co_persistCursor = True\<rparr>"

definition reconcileDeposits :: "'w app \<Rightarrow> 'w monitor_config \<Rightarrow> int option \<Rightarrow> string list \<Rightarrow> string list \<Rightarrow> 'w station
    \<Rightarrow> ((js_error + monitor_report cycle_result) \<times> 'w station) option" where
  "reconcileDeposits app cf lookbackMs addresses txHashes s =
     (case on_platform (now_ms app) s of
        (Inl e, s1) \<Rightarrow> Some (Inl e, s1)
      | (Inr nowMs, s1) \<Rightarrow> runCycleInternal app cf
          \<lparr>co_overrideStartTimestampMs = Some (nowMs - coalesce lookbackMs (cf_lookbackMs cf)),
           co_addressFilter = filter truthy_str (map trim addresses),
           co_txHashFilter = filter truthy_str (map trim txHashes), co_persistCursor = False\<rparr> s1)"

section \<open>Status\<close>

record monitor_status =
  ms_enabled :: bool
  ms_network :: network
  ms_contractAddress :: string
  ms_requiredConfirmations :: int
  ms_startTimestampMs :: "int option"
  ms_currencyFilterIds :: "int list"
  ms_cursor :: "monitor_cursor option"
  ms_recentEvents :: "external_event list"
  ms_counts :: "external_status \<Rightarrow> int"

text \<open>\<open>foxyaIntegrationEnabled\<close> and \<open>pollIntervalSec\<close> repeat settings that no other method reads; they are left out.\<close>

definition getMonitorStatus :: "'w monitor_config \<Rightarrow> ('w station, monitor_status) act" where
  "getMonitorStatus cf = ask (\<lambda>s.
     \<lparr>ms_enabled = cf_enabled cf, ms_network = cf_network cf, ms_contractAddress = cf_contractAddress cf,
      ms_requiredConfirmations = cf_confirmations cf, ms_startTimestampMs = cf_startTimestampMs cf,
      ms_currencyFilterIds = cf_currencyIds cf, ms_cursor = getCursor SCANNER_KEY (st_monitor s),
      ms_recentEvents = listRecentEvents 20 (st_monitor s), ms_counts = countEventsByStatus (st_monitor s)\<rparr>)"

end
