(* ===== verification/SweepBot.thy ===== *)
theory SweepBot
  imports Station
begin

text \<open>
  \<open>SweepBotService\<close> (\<open>src/application/services/sweep-bot-service.ts\<close>): it plans a sweep for every deposit
  the monitor has completed, queues it, sends the tokens from the address of the user to the hot wallet
  and waits for the receipt.  The Foxya client, the repository of the signers and the gateway are ports.
\<close>

section \<open>Numbers\<close>

definition js_less :: "js_number \<Rightarrow> js_number \<Rightarrow> bool" where
  "js_less a b = (js_ge b a \<and> \<not> js_ge a b)"

text \<open>\<open>Number(trxBalanceSun) / 1_000_000\<close>: both steps round.\<close>

definition sun_to_trx :: "int \<Rightarrow> js_number" where
  "sun_to_trx sun =
     (case fl sun 1 of JsFin m e \<Rightarrow> fl (m * pow2i e) (pow2i (- e) * 1000000) | x \<Rightarrow> x)"

text \<open>\<open>x.toFixed(6)\<close>: the nearest millionth, a tie away from zero, for numbers below \<open>1e21\<close>.\<close>

definition toFixed6 :: "js_number \<Rightarrow> string" where
  "toFixed6 x =
     (case x of
        JsNaN \<Rightarrow> ''NaN''
      | JsInf neg \<Rightarrow> (if neg then ''-Infinity'' else ''Infinity'')
      | JsFin m e \<Rightarrow>
          let n = (2 * \<bar>m\<bar> * pow2i e * 1000000 + pow2i (- e)) div (2 * pow2i (- e));
              ds = padStart0 7 (dec (nat n))
          in (if m < 0 then ''-'' else '''') @ take (length ds - 6) ds @ ''.'' @ drop (length ds - 6) ds)"

section \<open>Settings and stages\<close>

record 'w sweep_config =
  sb_active :: bool
  sb_cycleLimit :: int
  sb_hotWalletAddress :: string
  sb_minTrx :: js_number
  sb_minEnergy :: int
  sb_queueTimeoutSec :: int
  sb_maxRetryCount :: int
  sb_client :: "'w deposit_client option"
  sb_signers :: "(string \<Rightarrow> int \<Rightarrow> ('w, (string \<times> string) option) act) option"
  sb_gateway :: "'w tron_gateway"

datatype sweep_stage = SS_planned | SS_queued | SS_broadcasted | SS_confirmed | SS_failed | SS_skipped

text \<open>A loop counts the sweeps that reached its stage, those that failed and the others.\<close>

type_synonym tally = "int \<times> int \<times> int"

fun count_stage :: "sweep_stage \<Rightarrow> sweep_stage \<Rightarrow> tally \<Rightarrow> tally" where
  "count_stage goal result (reached, failed, skipped) =
     (if result = goal then (reached + 1, failed, skipped)
      else if result = SS_failed then (reached, failed + 1, skipped)
      else (reached, failed, skipped + 1))"

definition ledger_call :: "'w app \<Rightarrow> (string \<Rightarrow> (ledger, 'a) act) \<Rightarrow> ('w station, 'a) act" where
  "ledger_call app m = on_platform (on_ledger app m)"

definition ledger_read :: "(ledger \<Rightarrow> 'a) \<Rightarrow> ('w station, 'a) act" where
  "ledger_read f = on_platform (ask_ledger f)"

definition sweep_ref :: "string \<Rightarrow> string" where
  "sweep_ref depositId = ''foxya-deposit:'' @ depositId"

definition parseDepositId :: "string option \<Rightarrow> string option" where
  "parseDepositId externalRef =
     (case externalRef of
        None \<Rightarrow> None
      | Some r \<Rightarrow> if startsWith r ''foxya-deposit:'' then Some (drop (length ''foxya-deposit:'') r) else None)"

section \<open>Planning\<close>

definition planned_sweep :: "'w app \<Rightarrow> 'w sweep_config \<Rightarrow> external_event \<Rightarrow> string \<Rightarrow> ('w station, sweep_record) act" where
  "planned_sweep app cf event note =
     and_then (lift_result (parseStoredKoriAmount (ee_amountDecimal event))) (\<lambda>amount.
     ledger_call app (\<lambda>nowIso. total (createSweepRecord (app_cfg app)
       \<lparr>si_sourceWalletCode = ''foxya-user'', si_sourceAddress = ee_toAddress event,
        si_targetAddress = sb_hotWalletAddress cf, si_currencyId = Some (ee_currencyId event),
        si_network = Some (if map lower_char (ee_network event) = ''testnet'' then testnet else mainnet),
        si_amount = amount, si_externalRef = Some (sweep_ref (ee_depositId event)), si_note = Some note\<rparr> nowIso)))"

definition plan_deposit :: "'w app \<Rightarrow> 'w sweep_config \<Rightarrow> external_event \<Rightarrow> foxya_deposit \<Rightarrow> sweep_record option
    \<Rightarrow> ('w station, sweep_stage) act" where
  "plan_deposit app cf event deposit sweep =
     (let status = map_option toUpperCase (fd_sweepStatus deposit) in
      if status = Some ''FAILED''
      then
        and_then (optionally sweep (\<lambda>w.
          when_do (sw_status w \<noteq> SW_failed)
            (and_then (ledger_call app (failSweep (sw_sweepId w)
               (coalesce (fd_sweepErrorMessage deposit) ''foxya marked sweep failed''))) (\<lambda>_. ret ())))) (\<lambda>_.
        ret SS_failed)
      else if sweep = None \<and> status = Some ''SUBMITTED'' \<and> truthy (fd_sweepTxHash deposit)
      then
        and_then (planned_sweep app cf event ''imported from foxya sweep submission'') (\<lambda>w.
        and_then (ledger_call app (markSweepBroadcasted (sw_sweepId w) (the (fd_sweepTxHash deposit))
           (Some ''imported foxya tx hash''))) (\<lambda>_.
        ret SS_skipped))
      else
        case sweep of
          Some w \<Rightarrow> ret (if sw_status w = SW_failed then SS_failed else SS_skipped)
        | None \<Rightarrow>
            and_then (planned_sweep app cf event (''planned auto sweep for foxya deposit '' @ ee_depositId event)) (\<lambda>_.
            ret SS_planned))"

definition planEvent :: "'w app \<Rightarrow> 'w sweep_config \<Rightarrow> 'w deposit_client \<Rightarrow> external_event
    \<Rightarrow> ('w station, sweep_stage) act" where
  "planEvent app cf client event =
     and_then (outside (dc_getDeposit client (ee_depositId event))) (\<lambda>found.
       case found of
         None \<Rightarrow> ret SS_skipped
       | Some deposit \<Rightarrow>
           and_then (ledger_read (findSweepByExternalRef (sweep_ref (ee_depositId event)))) (\<lambda>sweep.
           plan_deposit app cf event deposit sweep))"

definition planSweepsFromCompletedDeposits :: "'w app \<Rightarrow> 'w sweep_config \<Rightarrow> 'w deposit_client
    \<Rightarrow> ('w station, int \<times> tally) act" where
  "planSweepsFromCompletedDeposits app cf client =
     and_then (ask (\<lambda>s. listEventsByStatus EX_completed (sb_cycleLimit cf) (st_monitor s))) (\<lambda>events.
     and_then (fold_act (\<lambda>event c. and_then (planEvent app cf client event) (\<lambda>r. ret (count_stage SS_planned r c)))
        events (0, 0, 0)) (\<lambda>c.
     ret (int (length events), c)))"

section \<open>Queueing\<close>

definition queue_sweep :: "'w app \<Rightarrow> sweep_record \<Rightarrow> ('w station, sweep_stage) act" where
  "queue_sweep app sweep =
     (if parseDepositId (sw_externalRef sweep) = None then ret SS_skipped
      else
        and_then (ledger_call app (markSweepQueued (sw_sweepId sweep) (Some ''queued by sweep bot''))) (\<lambda>_.
        and_then (ledger_call app (\<lambda>nowIso. total (enqueueJob (app_cfg app) sweep_plan
           [(''sweepId'', sw_sweepId sweep), (''stage'', ''executor'')] nowIso))) (\<lambda>_.
        ret SS_queued)))"

definition queuePlannedSweeps :: "'w app \<Rightarrow> 'w sweep_config \<Rightarrow> ('w station, tally) act" where
  "queuePlannedSweeps app cf =
     and_then (ledger_read (listSweepRecordsByStatuses [SW_planned] (sb_cycleLimit cf))) (\<lambda>sweeps.
       fold_act (\<lambda>sweep c. and_then (queue_sweep app sweep) (\<lambda>r. ret (count_stage SS_queued r c))) sweeps (0, 0, 0))"

section \<open>Executing\<close>

text \<open>The address lacks resources: an alert, and the sweep fails when it has waited or tried too long.\<close>

definition resource_low :: "'w app \<Rightarrow> 'w sweep_config \<Rightarrow> 'w deposit_client \<Rightarrow> string \<Rightarrow> sweep_record \<Rightarrow> string
    \<Rightarrow> int \<Rightarrow> int \<Rightarrow> int option \<Rightarrow> ('w station, sweep_stage) act" where
  "resource_low app cf client depositId attempted trx availableEnergy availableBandwidth queueAgeSec =
     and_then (on_platform (notify app (notifySweepResourceLow depositId (sw_sourceAddress attempted)
        (coalesce (sw_network attempted) mainnet) trx availableEnergy availableBandwidth (sw_attemptCount attempted)))) (\<lambda>_.
       if (\<exists>age \<in> set_option queueAgeSec. sb_queueTimeoutSec cf \<le> age) \<or> sb_maxRetryCount cf \<le> sw_attemptCount attempted
       then
         let reason = ''sweep resource low timeout: trx='' @ trx @ '', energy='' @ json_int availableEnergy @
               '', bandwidth='' @ json_int availableBandwidth
         in
           and_then (ledger_call app (failSweep (sw_sweepId attempted) reason)) (\<lambda>_.
           and_then (outside (dc_failSweep client depositId reason)) (\<lambda>_.
           and_then (on_platform (notify app (notifySweepQueueTimeout depositId (sw_sourceAddress attempted)
              (sw_queuedAt attempted) (sw_attemptCount attempted) (sb_queueTimeoutSec cf)))) (\<lambda>_.
           ret SS_failed)))
       else ret SS_skipped)"

definition send_sweep :: "'w app \<Rightarrow> 'w sweep_config \<Rightarrow> 'w deposit_client \<Rightarrow> string \<Rightarrow> sweep_record \<Rightarrow> string \<times> string
    \<Rightarrow> ('w station, sweep_stage) act" where
  "send_sweep app cf client depositId sweep signer =
     catching
       (and_then (outside (tg_broadcastTransfer (sb_gateway cf)
          \<lparr>tr_toAddress = sw_targetAddress sweep, tr_amount = sw_amount sweep,
           tr_network = coalesce (sw_network sweep) mainnet, tr_from = Some signer\<rparr>)) (\<lambda>txHash.
        and_then (outside (dc_submitSweep client depositId txHash)) (\<lambda>_.
        and_then (ledger_call app (markSweepBroadcasted (sw_sweepId sweep) txHash (Some ''broadcasted by sweep executor''))) (\<lambda>_.
        ret SS_broadcasted))))
       (\<lambda>e.
        and_then (ledger_call app (failSweep (sw_sweepId sweep) (error_message e))) (\<lambda>_.
        and_then (outside (dc_failSweep client depositId (error_message e))) (\<lambda>_.
        and_then (on_platform (notify app (notifySweepFailure depositId (sw_sourceAddress sweep) (error_message e)))) (\<lambda>_.
        ret SS_failed))))"

text \<open>
  \<open>Math.floor((Date.now() - queuedAt) / 1000)\<close>; a time that does not parse is \<open>NaN\<close>, here \<open>None\<close>, and
  no queue time is 0.
\<close>

definition queue_age :: "sweep_record \<Rightarrow> int \<Rightarrow> int option" where
  "queue_age attempted nowMs =
     (if truthy (sw_queuedAt attempted)
      then map_option (\<lambda>q. (nowMs - q) div 1000) (date_parse (the (sw_queuedAt attempted)))
      else Some 0)"

definition attempt_sweep :: "'w app \<Rightarrow> 'w sweep_config \<Rightarrow> 'w deposit_client \<Rightarrow> string \<Rightarrow> sweep_record \<Rightarrow> string \<times> string
    \<Rightarrow> ('w station, sweep_stage) act" where
  "attempt_sweep app cf client depositId sweep signer =
     and_then (ledger_call app (recordSweepAttempt (sw_sweepId sweep) (Some ''attempted by sweep executor''))) (\<lambda>attempted.
     and_then (outside (tg_getAccountResources (sb_gateway cf) (fst signer) (coalesce (sw_network sweep) mainnet))) (\<lambda>resources.
       let availableEnergy = max (ar_energyLimit resources - ar_energyUsed resources) 0;
           availableBandwidth = max (ar_bandwidthLimit resources - ar_bandwidthUsed resources) 0;
           trxBalance = sun_to_trx (ar_trxBalanceSun resources)
       in
         and_then (if truthy (sw_queuedAt attempted) then on_platform (now_ms app) else ret 0) (\<lambda>nowMs.
           if js_less trxBalance (sb_minTrx cf) \<or> availableEnergy < sb_minEnergy cf \<or> availableBandwidth \<le> 0
           then resource_low app cf client depositId attempted (toFixed6 trxBalance) availableEnergy availableBandwidth
                  (queue_age attempted nowMs)
           else send_sweep app cf client depositId sweep signer)))"

definition sign_and_attempt :: "'w app \<Rightarrow> 'w sweep_config \<Rightarrow> 'w deposit_client
    \<Rightarrow> (string \<Rightarrow> int \<Rightarrow> ('w, (string \<times> string) option) act) \<Rightarrow> string \<Rightarrow> sweep_record \<Rightarrow> ('w station, sweep_stage) act" where
  "sign_and_attempt app cf client signers depositId sweep =
     and_then (outside (signers (sw_sourceAddress sweep) (coalesce (sw_currencyId sweep) 0))) (\<lambda>signer.
       if \<not> truthy (map_option snd signer) then ret SS_skipped
       else attempt_sweep app cf client depositId sweep (the signer))"

definition executeSweep :: "'w app \<Rightarrow> 'w sweep_config \<Rightarrow> 'w deposit_client
    \<Rightarrow> (string \<Rightarrow> int \<Rightarrow> ('w, (string \<times> string) option) act) \<Rightarrow> sweep_record \<Rightarrow> ('w station, sweep_stage) act" where
  "executeSweep app cf client signers sweep =
     (let depositId = parseDepositId (sw_externalRef sweep) in
      if \<not> truthy depositId then ret SS_skipped
      else
        and_then (outside (dc_getDeposit client (the depositId))) (\<lambda>deposit.
          if deposit = None then ret SS_skipped
          else sign_and_attempt app cf client signers (the depositId) sweep))"

definition executeQueuedSweeps :: "'w app \<Rightarrow> 'w sweep_config \<Rightarrow> 'w deposit_client
    \<Rightarrow> (string \<Rightarrow> int \<Rightarrow> ('w, (string \<times> string) option) act) \<Rightarrow> ('w station, tally) act" where
  "executeQueuedSweeps app cf client signers =
     and_then (ledger_read (listSweepRecordsByStatuses [SW_queued] (sb_cycleLimit cf))) (\<lambda>sweeps.
       fold_act (\<lambda>sweep c. and_then (executeSweep app cf client signers sweep) (\<lambda>r. ret (count_stage SS_broadcasted r c)))
         sweeps (0, 0, 0))"

section \<open>Confirming\<close>

definition confirm_sweep :: "'w app \<Rightarrow> 'w sweep_config \<Rightarrow> 'w deposit_client \<Rightarrow> sweep_record \<Rightarrow> ('w station, sweep_stage) act" where
  "confirm_sweep app cf client sweep =
     (let depositId = parseDepositId (sw_externalRef sweep); reason = ''on-chain receipt reported failure'' in
      if \<not> truthy (sw_txHash sweep) \<or> \<not> truthy depositId then ret SS_skipped
      else
        and_then (outside (tg_getReceiptDetails (sb_gateway cf) (the (sw_txHash sweep)))) (\<lambda>receipt.
          if rc_status receipt = RS_confirmed
          then
            and_then (ledger_call app (confirmSweep (sw_sweepId sweep) (Some
               \<lparr>sf_note = Some ''confirmed by sweep confirmer'',
                sf_networkFee = Some \<lparr>fee_txHash = the (sw_txHash sweep), fee_feeSun = rc_feeSun receipt,
                  fee_energyUsed = rc_energyUsed receipt, fee_bandwidthUsed = rc_bandwidthUsed receipt\<rparr>\<rparr>))) (\<lambda>_.
            ret SS_confirmed)
          else if rc_status receipt = RS_failed
          then
            and_then (ledger_call app (failSweep (sw_sweepId sweep) reason)) (\<lambda>_.
            and_then (outside (dc_failSweep client (the depositId) reason)) (\<lambda>_.
            and_then (on_platform (notify app (notifySweepFailure (the depositId) (sw_sourceAddress sweep) reason))) (\<lambda>_.
            ret SS_failed)))
          else ret SS_skipped))"

definition confirmBroadcastedSweeps :: "'w app \<Rightarrow> 'w sweep_config \<Rightarrow> 'w deposit_client \<Rightarrow> ('w station, tally) act" where
  "confirmBroadcastedSweeps app cf client =
     and_then (ledger_read (listSweepRecordsByStatuses [SW_broadcasted] (sb_cycleLimit cf))) (\<lambda>sweeps.
       fold_act (\<lambda>sweep c. and_then (confirm_sweep app cf client sweep) (\<lambda>r. ret (count_stage SS_confirmed r c)))
         sweeps (0, 0, 0))"

section \<open>A cycle\<close>

definition on_bot :: "(sweep_bot \<Rightarrow> sweep_bot) \<Rightarrow> ('w station, unit) act" where
  "on_bot f = modify (\<lambda>s. s\<lparr>st_sweep := f (st_sweep s)\<rparr>)"

definition initial_sweep_bot :: "'w sweep_config \<Rightarrow> sweep_bot" where
  "initial_sweep_bot cf =
     \<lparr>bot_running = False,
      bot_status = \<lparr>wb_enabled = sb_active cf, wb_configured = (sb_client cf \<noteq> None \<and> sb_signers cf \<noteq> None),
        wb_lastRunAt = None, wb_lastError = None, wb_lastResult = None\<rparr>\<rparr>"

definition getSweepBotStatus :: "'w station \<Rightarrow> sweep_bot_status" where
  "getSweepBotStatus s = bot_status (st_sweep s)"

definition sweep_stages :: "'w app \<Rightarrow> 'w sweep_config \<Rightarrow> 'w deposit_client
    \<Rightarrow> (string \<Rightarrow> int \<Rightarrow> ('w, (string \<times> string) option) act) \<Rightarrow> ('w station, sweep_result) act" where
  "sweep_stages app cf client signers =
     and_then (planSweepsFromCompletedDeposits app cf client) (\<lambda>(scanned, planned, planFailed, planSkipped).
     and_then (queuePlannedSweeps app cf) (\<lambda>(queued, _, queueSkipped).
     and_then (executeQueuedSweeps app cf client signers) (\<lambda>(broadcasted, executeFailed, executeSkipped).
     and_then (confirmBroadcastedSweeps app cf client) (\<lambda>(confirmed, confirmFailed, confirmSkipped).
     ret \<lparr>ws_scanned = scanned, ws_planned = planned, ws_queued = queued, ws_broadcasted = broadcasted,
          ws_confirmed = confirmed, ws_failed = planFailed + executeFailed + confirmFailed,
          ws_skipped = planSkipped + queueSkipped + executeSkipped + confirmSkipped\<rparr>))))"

definition sweep_cycle :: "'w app \<Rightarrow> 'w sweep_config \<Rightarrow> ('w station, sweep_result cycle_result) act" where
  "sweep_cycle app cf =
     (if \<not> sb_active cf then ret (Cycle_skipped ''sweep bot disabled'')
      else case (sb_client cf, sb_signers cf) of
        (Some client, Some signers) \<Rightarrow>
          and_then (ask st_sweep) (\<lambda>bot.
            if bot_running bot then ret (Cycle_skipped ''sweep bot already running'')
            else
              and_then (on_bot (\<lambda>b. b\<lparr>bot_running := True\<rparr>)) (\<lambda>_.
              and_then (attempt
                (catching
                  (and_then (sweep_stages app cf client signers) (\<lambda>result.
                   and_then (on_platform (now_iso app)) (\<lambda>lastRunAt.
                   and_then (on_bot (\<lambda>b. b\<lparr>bot_status := \<lparr>wb_enabled = sb_active cf, wb_configured = True,
                      wb_lastRunAt = Some lastRunAt, wb_lastError = None, wb_lastResult = Some result\<rparr>\<rparr>)) (\<lambda>_.
                   ret (Cycle_ran result)))))
                  (\<lambda>e.
                   and_then (on_platform (now_iso app)) (\<lambda>lastRunAt.
                   and_then (on_bot (\<lambda>b. b\<lparr>bot_status := (bot_status b)\<lparr>wb_enabled := sb_active cf, wb_configured := True,
                      wb_lastRunAt := Some lastRunAt, wb_lastError := Some (error_message e)\<rparr>\<rparr>)) (\<lambda>_.
                   throw e))))) (\<lambda>outcome.
              and_then (on_bot (\<lambda>b. b\<lparr>bot_running := False\<rparr>)) (\<lambda>_.
              lift_result outcome))))
      | _ \<Rightarrow> ret (Cycle_skipped ''foxya sweep dependencies are not configured''))"

end
