(* ===== verification/StationMachine.thy ===== *)
theory StationMachine
  imports PlatformMachine LedgerDeposits DepositMonitor SweepBot
begin

text \<open>
  The deposit monitor and the sweep bot beside the application: what their cycles do to the platform
  (the locale \<open>station_relation\<close>), the invariant of the events the monitor keeps, and the station as a
  state machine.
\<close>

section \<open>Moves of the platform\<close>

text \<open>What every service of the application does to the platform, as one relation.\<close>

definition platform_moves :: "'w app \<Rightarrow> 'w platform \<Rightarrow> 'w platform \<Rightarrow> bool" where
  "platform_moves app s t = (runs app s t \<and> config_sound (app_walletId app) s t)"

interpretation mv: wallet_relation "platform_moves app" app for app :: "'w app"
proof
  show "platform_moves app s u" if "platform_moves app s t" "platform_moves app t u" for s t u
    using that lr.R_trans [of "app_cfg app" pf_ledger s t u] so.R_trans [of "app_walletId app" s t u]
    unfolding platform_moves_def by blast
qed (simp_all add: platform_moves_def lr.R_refl config_sound_same ledger_step_runs sw.R_mark)

lemma platform_moves_ok:
  assumes "platform_moves app s t" and "platform_ok app s"
  shows "platform_ok app t" and "ledger_steps (app_cfg app) (pf_ledger s) (pf_ledger t)"
    and "deposits_kept (pf_ledger s) (pf_ledger t)"
proof -
  show steps: "ledger_steps (app_cfg app) (pf_ledger s) (pf_ledger t)"
    using assms(1) by (simp add: platform_moves_def ledger_runs_def through_def)
  then show "platform_ok app t"
    using assms by (auto simp: platform_ok_def platform_moves_def config_sound_def intro: reachable_steps)
  show "deposits_kept (pf_ledger s) (pf_ledger t)"
    using reachable_deposits_kept [OF _ steps] assms(2) by (simp add: platform_ok_def)
qed

section \<open>Outcomes on a station\<close>

lemma yields_on_platform [wp]:
  "yields P (on_platform m) s = yields (\<lambda>r p. P r (s\<lparr>st_platform := p\<rparr>)) m (st_platform s)"
  by (simp add: yields_def on_platform_def zoom_def split: prod.split)

lemma yields_on_ledger [wp]:
  "yields P (on_ledger app m) s
    = yields (\<lambda>r l. P r ((ticked app s)\<lparr>pf_ledger := l\<rparr>)) (m (clock_iso app s)) (pf_ledger s)"
  by (simp add: on_ledger_def yields_bind yields_now_iso) (simp add: yields_def zoom_def split: prod.split)

lemma yields_on_monitor [wp]:
  "yields P (on_monitor app m) s
    = yields (\<lambda>r d. P r (s\<lparr>st_platform := ticked app (st_platform s), st_monitor := d\<rparr>))
        (m (clock_iso app (st_platform s))) (st_monitor s)"
  by (simp add: on_monitor_def yields_bind yields_on_platform yields_now_iso) (simp add: yields_def zoom_def split: prod.split)

lemma yields_on_scan [wp]: "yields P (on_scan f) s = P (Inr ()) (s\<lparr>st_scan := f (st_scan s)\<rparr>)"
  by (simp add: on_scan_def wp)

lemma yields_outside [wp]:
  "yields P (outside m) s = P (fst (m (pf_world (st_platform s))))
     (s\<lparr>st_platform := (st_platform s)\<lparr>pf_world := snd (m (pf_world (st_platform s)))\<rparr>\<rparr>)"
  by (simp add: outside_def wp)

lemma yields_when_do [wp]: "yields P (when_do b m) s = (if b then yields P m s else P (Inr ()) s)"
  by (simp add: wp)

lemma yields_total [wp]: "yields P (total f) s = P (Inr (fst (f s))) (snd (f s))"
  by (simp add: yields_def total_def split_beta)

lemma yields_attempt [wp]: "yields P (attempt m) s = yields (\<lambda>r t. P (Inr r) t) m s"
  by (simp add: yields_def attempt_def split_beta)

lemma yields_keeps: "keeps R m \<longleftrightarrow> (\<forall>s. yields (\<lambda>r t. R s t) m s)"
  by (simp add: keeps_def yields_def split_beta)

text \<open>A method that moves the platform has only its result and a moved platform to offer.\<close>

lemma yields_moves:
  assumes "keeps (platform_moves app) m"
    and "\<And>r p. platform_moves app (st_platform s) p \<Longrightarrow> P r (s\<lparr>st_platform := p\<rparr>)"
  shows "yields P (on_platform m) s"
  using keepsD [OF assms(1), of "st_platform s"] assms(2) by (simp add: yields_on_platform) (simp add: yields_def split_beta)

section \<open>Events\<close>

fun event_rank :: "external_status \<Rightarrow> nat" where
  "event_rank EX_discovered = 0"
| "event_rank EX_registered = 1"
| "event_rank EX_completed = 2"

text \<open>A later version of an event: who was paid how much by which transfer is fixed, its status only rises.\<close>

definition event_follows :: "external_event \<Rightarrow> external_event \<Rightarrow> bool" where
  "event_follows e f =
     (f\<lparr>ee_status := ee_status e, ee_foxyaRegisteredAt := ee_foxyaRegisteredAt e,
        ee_foxyaCompletedAt := ee_foxyaCompletedAt e, ee_lastError := ee_lastError e, ee_updatedAt := ee_updatedAt e\<rparr> = e \<and>
      event_rank (ee_status e) \<le> event_rank (ee_status f))"

definition event_ok :: "ledger \<Rightarrow> string \<Rightarrow> external_event \<Rightarrow> bool" where
  "event_ok l k e =
     (ee_eventKey e = k \<and>
      (truthy (ee_foxyaRegisteredAt e) \<longleftrightarrow> ee_status e \<noteq> EX_discovered) \<and>
      (truthy (ee_foxyaCompletedAt e) \<longleftrightarrow> ee_status e = EX_completed) \<and>
      (ee_status e = EX_completed \<longrightarrow> credited_at (ee_txHash e) l))"

definition stored_event :: "'w station \<Rightarrow> string \<Rightarrow> external_event option" where
  "stored_event s k = map_get (dm_events (st_monitor s)) k"

definition station_ok :: "'w app \<Rightarrow> 'w station \<Rightarrow> bool" where
  "station_ok app s =
     (platform_ok app (st_platform s) \<and>
      (\<forall>k e. stored_event s k = Some e \<longrightarrow> event_ok (pf_ledger (st_platform s)) k e))"

definition events_kept :: "'w station \<Rightarrow> 'w station \<Rightarrow> bool" where
  "events_kept s t = (\<forall>k e. stored_event s k = Some e \<longrightarrow> (\<exists>f. stored_event t k = Some f \<and> event_follows e f))"

definition station_moves :: "'w app \<Rightarrow> 'w station \<Rightarrow> 'w station \<Rightarrow> bool" where
  "station_moves app s t =
     (station_ok app s \<longrightarrow>
        platform_moves app (st_platform s) (st_platform t) \<and> station_ok app t \<and> events_kept s t)"

lemma event_follows_refl [simp]: "event_follows e e"
  by (simp add: event_follows_def)

lemma event_follows_trans: "event_follows e f \<Longrightarrow> event_follows f g \<Longrightarrow> event_follows e g"
  by (cases e; cases f; cases g; simp add: event_follows_def)

lemma event_followsD:
  assumes "event_follows e f"
  shows "ee_eventKey f = ee_eventKey e" "ee_depositId f = ee_depositId e" "ee_userId f = ee_userId e"
    "ee_txHash f = ee_txHash e" "ee_toAddress f = ee_toAddress e" "ee_amountDecimal f = ee_amountDecimal e"
    "ee_blockNumber f = ee_blockNumber e" "ee_amountRaw f = ee_amountRaw e"
    "event_rank (ee_status e) \<le> event_rank (ee_status f)"
  using assms by (cases e; cases f; simp add: event_follows_def)+

lemma events_kept_refl [simp]: "events_kept s s"
  by (simp add: events_kept_def)

lemma events_kept_trans:
  assumes "events_kept s t" and "events_kept t u"
  shows "events_kept s u"
  using assms unfolding events_kept_def by (blast intro: event_follows_trans)

lemma event_ok_kept: "event_ok l k e \<Longrightarrow> deposits_kept l m \<Longrightarrow> event_ok m k e"
  by (auto simp: event_ok_def intro: credited_at_kept)

lemma stored_event_sel [simp]:
  "stored_event (s\<lparr>st_platform := p\<rparr>) k = stored_event s k"
  "stored_event (s\<lparr>st_scan := c\<rparr>) k = stored_event s k"
  "stored_event (s\<lparr>st_ids := n\<rparr>) k = stored_event s k"
  "stored_event (s\<lparr>st_running := b\<rparr>) k = stored_event s k"
  "stored_event (s\<lparr>st_sweep := w\<rparr>) k = stored_event s k"
  "stored_event (s\<lparr>st_monitor := d\<rparr>) k = map_get (dm_events d) k"
  by (simp_all add: stored_event_def)

interpretation sm: run_relation "station_moves app" for app :: "'w app"
proof
  show "station_moves app s s" for s by (simp add: station_moves_def mv.R_refl)
  show "station_moves app s u" if "station_moves app s t" "station_moves app t u" for s t u
    using that mv.R_trans events_kept_trans unfolding station_moves_def by blast
qed

text \<open>A move of the platform alone, and of the private state of the services.\<close>

lemma station_moves_platform:
  assumes "platform_moves app (st_platform s) p"
  shows "station_moves app s (s\<lparr>st_platform := p\<rparr>)"
proof -
  have "station_ok app (s\<lparr>st_platform := p\<rparr>)" if "station_ok app s"
    using that platform_moves_ok(1,3) [OF assms] by (auto simp: station_ok_def intro: event_ok_kept)
  then show ?thesis using assms by (simp add: station_moves_def events_kept_def)
qed

lemma station_moves_private [simp]:
  "station_moves app s (s\<lparr>st_scan := c\<rparr>)" "station_moves app s (s\<lparr>st_ids := n\<rparr>)"
  "station_moves app s (s\<lparr>st_running := b\<rparr>)" "station_moves app s (s\<lparr>st_sweep := w\<rparr>)"
  by (simp_all add: station_moves_def mv.R_refl station_ok_def events_kept_def)

lemma station_movesI:
  "(station_ok app s \<Longrightarrow> platform_moves app (st_platform s) (st_platform t) \<and> station_ok app t \<and> events_kept s t) \<Longrightarrow>
     station_moves app s t"
  by (simp add: station_moves_def)

lemma station_okD:
  assumes "station_ok app s"
  shows "platform_ok app (st_platform s)" and "stored_event s k = Some e \<Longrightarrow> event_ok (pf_ledger (st_platform s)) k e"
  using assms by (simp_all add: station_ok_def)

section \<open>The monitor\<close>

text \<open>Writing one event: it must follow the stored one and fit the ledger.\<close>

lemma station_moves_write:
  assumes p: "platform_moves app (st_platform s) p"
    and ok: "station_ok app s \<Longrightarrow> event_ok (pf_ledger p) k f"
    and old: "\<And>e. station_ok app s \<Longrightarrow> stored_event s k = Some e \<Longrightarrow> event_follows e f"
  shows "station_moves app s (s\<lparr>st_platform := p, st_monitor := (st_monitor s)\<lparr>dm_events := map_set k f (dm_events (st_monitor s))\<rparr>\<rparr>)"
    (is "station_moves app s ?t")
proof (rule station_movesI, intro conjI)
  assume s: "station_ok app s"
  note pm = platform_moves_ok [OF p station_okD(1) [OF s]]
  have st: "stored_event ?t j = (if j = k then Some f else stored_event s j)" for j
    by (simp add: stored_event_def)
  show "platform_moves app (st_platform s) (st_platform ?t)" using p by simp
  show "station_ok app ?t"
    unfolding station_ok_def st using pm(1) ok [OF s] station_okD(2) [OF s] event_ok_kept [OF _ pm(3)] by simp
  show "events_kept s ?t"
    unfolding events_kept_def st using old [OF s] by simp
qed

lemma mv_ticked: "platform_moves app p (ticked app p)"
  by (simp add: ticked_def mv.R_world)

lemma record_event_effect:
  assumes "ee_status e = EX_discovered" "ee_foxyaRegisteredAt e = None" "ee_foxyaCompletedAt e = None"
  shows "yields (\<lambda>r t. \<exists>f. r = Inr f \<and> station_moves app s t \<and> stored_event t (ee_eventKey e) = Some f)
    (on_monitor app (\<lambda>nowIso. total (recordDiscoveredEvent e nowIso))) s"
proof (cases "stored_event s (ee_eventKey e)")
  case (Some f)
  moreover have "station_moves app s (s\<lparr>st_platform := ticked app (st_platform s)\<rparr>)"
    by (rule station_moves_platform [OF mv_ticked])
  ultimately show ?thesis
    by (simp add: wp recordDiscoveredEvent_def stored_event_def)
next
  case None
  let ?f = "e\<lparr>ee_createdAt := clock_iso app (st_platform s), ee_updatedAt := clock_iso app (st_platform s)\<rparr>"
  have "event_ok l (ee_eventKey e) ?f" for l using assms by (simp add: event_ok_def truthy_def)
  with None have "station_moves app s (s\<lparr>st_platform := ticked app (st_platform s),
      st_monitor := (st_monitor s)\<lparr>dm_events := map_set (ee_eventKey e) ?f (dm_events (st_monitor s))\<rparr>\<rparr>)"
    by (intro station_moves_write [OF mv_ticked]) auto
  with None show ?thesis
    by (simp add: wp recordDiscoveredEvent_def stored_event_def Let_def)
qed

lemma markEventStatus_eq:
  assumes "map_get (dm_events d) k = Some e"
  shows "markEventStatus k st reg fin now d
    = (Inr (e\<lparr>ee_status := st, ee_foxyaRegisteredAt := coalesce_opt reg (ee_foxyaRegisteredAt e),
         ee_foxyaCompletedAt := coalesce_opt fin (ee_foxyaCompletedAt e), ee_lastError := None, ee_updatedAt := now\<rparr>),
       d\<lparr>dm_events := map_set k (e\<lparr>ee_status := st, ee_foxyaRegisteredAt := coalesce_opt reg (ee_foxyaRegisteredAt e),
         ee_foxyaCompletedAt := coalesce_opt fin (ee_foxyaCompletedAt e), ee_lastError := None, ee_updatedAt := now\<rparr>) (dm_events d)\<rparr>)"
  using assms by (simp add: markEventStatus_def Let_def)

lemma mark_event_effect:
  assumes k: "stored_event s k = Some e"
    and new: "\<And>now. f now = e\<lparr>ee_status := st, ee_foxyaRegisteredAt := coalesce_opt reg (ee_foxyaRegisteredAt e),
        ee_foxyaCompletedAt := coalesce_opt fin (ee_foxyaCompletedAt e), ee_lastError := None, ee_updatedAt := now\<rparr>"
    and ok: "\<And>now. station_ok app s \<Longrightarrow> event_ok (pf_ledger (st_platform s)) k (f now) \<and> event_follows e (f now)"
  shows "yields (\<lambda>r t. station_moves app s t \<and> (\<exists>now. r = Inr (f now) \<and> stored_event t k = Some (f now)) \<and>
      pf_ledger (st_platform t) = pf_ledger (st_platform s))
    (on_monitor app (markEventStatus k st reg fin)) s"
proof -
  let ?f = "f (clock_iso app (st_platform s))"
  have "station_moves app s (s\<lparr>st_platform := ticked app (st_platform s),
      st_monitor := (st_monitor s)\<lparr>dm_events := map_set k ?f (dm_events (st_monitor s))\<rparr>\<rparr>)"
    using k ok by (intro station_moves_write [OF mv_ticked]) auto
  with k show ?thesis
    unfolding yields_on_monitor
    by (intro yieldsI [OF markEventStatus_eq]) (auto simp: stored_event_def new)
qed

lemma clock_iso_nonempty [simp]: "clock_iso app p \<noteq> []"
  by (simp add: clock_iso_def toISOString_def Let_def split_beta)

text \<open>
  Crediting an event: the deposit is completed in the ledger before the event is, so an event is never
  completed for a transfer that the ledger does not know.
\<close>

definition completed_event :: "external_event \<Rightarrow> string \<Rightarrow> string \<Rightarrow> external_event" where
  "completed_event f completedAt now = f\<lparr>ee_status := EX_completed, ee_foxyaRegisteredAt := ee_foxyaRegisteredAt f,
     ee_foxyaCompletedAt := Some completedAt, ee_lastError := None, ee_updatedAt := now\<rparr>"

lemma completed_event_ok:
  assumes "event_ok l k f" and "truthy (ee_foxyaRegisteredAt f)" and "credited_at (ee_txHash f) l" and "truthy (Some c)"
  shows "event_ok l k (completed_event f c now) \<and> event_follows f (completed_event f c now)"
proof -
  have "event_follows f (completed_event f c now)" if "ee_status f \<noteq> EX_discovered"
    using that by (cases f; cases "ee_status f") (simp_all add: event_follows_def completed_event_def)
  then show ?thesis using assms by (auto simp: event_ok_def completed_event_def)
qed

lemma station_moves_ok: "station_moves app s t \<Longrightarrow> station_ok app s \<Longrightarrow> station_ok app t"
  by (simp add: station_moves_def)

lemma finish_event_effect:
  assumes ok: "station_ok app s" and f: "stored_event s k = Some f" "truthy (ee_foxyaRegisteredAt f)"
    and c: "credited_at (ee_txHash f) (pf_ledger (st_platform s))"
  shows "yields (\<lambda>r t. station_moves app s t)
    (and_then (outside m) (\<lambda>_. and_then (on_platform (now_iso app)) (\<lambda>completedAt.
     and_then (on_monitor app (markEventStatus k EX_completed None (Some completedAt))) (\<lambda>_. ret True)))) s"
proof -
  let ?w = "(st_platform s)\<lparr>pf_world := snd (m (pf_world (st_platform s)))\<rparr>"
  let ?t = "s\<lparr>st_platform := ticked app ?w\<rparr>"
  let ?c = "clock_iso app ?w"
  have w: "station_moves app s (s\<lparr>st_platform := ?w\<rparr>)" and t: "station_moves app s ?t"
    by (rule station_moves_platform, rule mv.R_world)
       (rule station_moves_platform, rule mv.R_trans [OF mv.R_world mv_ticked])
  have fok: "event_ok (pf_ledger (st_platform ?t)) k f"
    using station_okD(2) [OF ok f(1)] by simp
  have "yields (\<lambda>r u. station_moves app ?t u \<and> (\<exists>now. r = Inr (completed_event f ?c now) \<and>
        stored_event u k = Some (completed_event f ?c now)) \<and> pf_ledger (st_platform u) = pf_ledger (st_platform ?t))
      (on_monitor app (markEventStatus k EX_completed None (Some ?c))) ?t"
  proof (rule mark_event_effect)
    show "stored_event ?t k = Some f" using f by simp
    show "event_ok (pf_ledger (st_platform ?t)) k (completed_event f ?c now) \<and> event_follows f (completed_event f ?c now)" for now
      by (rule completed_event_ok [OF fok f(2)]) (use c in simp_all)
  qed (simp add: completed_event_def coalesce_opt_def)
  then have "yields (\<lambda>r u. station_moves app s u) (on_monitor app (markEventStatus k EX_completed None (Some ?c))) ?t"
    by (rule yields_mono) (use sm.R_trans [OF t] in blast)
  then have "yields (\<lambda>r u. station_moves app s u) (and_then (on_monitor app (markEventStatus k EX_completed None (Some ?c))) (\<lambda>_. ret True)) ?t"
    unfolding yields_bind by (rule yields_mono) (simp add: yields_basic split: sum.split)
  then show ?thesis
    using w by (simp add: yields_bind yields_outside yields_on_platform yields_now_iso split: sum.split)
qed

lemma applyDeposit_stored:
  assumes "applyDeposit cfg inp now l = (Inr x, m)"
  shows "map_get (depositsByTxHash m) (di_txHash inp) = Some (dr_deposit x)"
  using assms
  by (auto simp: applyDeposit_def getMutableAccount_write Let_def split: option.splits sum.splits prod.splits)

lemma station_moves_ledger:
  assumes "\<And>now l. ledger_step (app_cfg app) l (snd (m now l))"
  shows "yields (\<lambda>r t. station_moves app s t) (on_platform (on_ledger app m)) s"
  by (rule yields_moves [OF mv.run_on_ledger]) (auto intro: assms station_moves_platform)

lemma run_on_ledger_eq:
  assumes "m (clock_iso app p) (pf_ledger p) = (r, l)"
  shows "on_ledger app m p = (r, (ticked app p)\<lparr>pf_ledger := l\<rparr>)"
  using assms by (simp add: on_ledger_def and_then_def run_now_iso_eq zoom_def clock_iso_def ticked_def)

text \<open>The two ledger calls: when they return, the transfer is credited.\<close>

lemma credit_ledger_effect:
  assumes ok: "station_ok app s" and amt: "0 \<le> di_amount inp"
  shows "yields (\<lambda>r t. station_moves app s t \<and> st_monitor t = st_monitor s \<and>
      (\<forall>d. r = Inr d \<longrightarrow> credited_at (di_txHash inp) (pf_ledger (st_platform t))))
    (and_then (on_platform (on_ledger app (applyDeposit (app_cfg app) inp))) (\<lambda>applied.
       on_platform (on_ledger app (\<lambda>now. completeDeposit (dep_depositId (dr_deposit applied)))))) s"
proof -
  let ?p = "st_platform s" and ?cfg = "app_cfg app"
  obtain r l where a: "applyDeposit ?cfg inp (clock_iso app ?p) (pf_ledger ?p) = (r, l)" by fastforce
  let ?q = "(ticked app ?p)\<lparr>pf_ledger := l\<rparr>"
  have step: "ledger_step ?cfg (pf_ledger (ticked app ?p)) l"
    using step_applyDeposit [OF amt, of ?cfg "pf_ledger ?p" "clock_iso app ?p"] by (simp add: a)
  have q: "platform_moves app ?p ?q" by (rule mv.R_trans [OF mv_ticked mv.R_ledger [OF step]])
  show ?thesis
  proof (cases r)
    case (Inl e)
    then show ?thesis
      using station_moves_platform [OF q] by (simp add: yields_bind yields_on_platform) (simp add: yields_def run_on_ledger_eq a)
  next
    case (Inr x)
    let ?d = "dr_deposit x"
    have "reachable_ledger ?cfg l"
      using platform_moves_ok(1) [OF q station_okD(1) [OF ok]] by (simp add: platform_ok_def)
    note c = completeDeposit_deposits [OF reachable_deposit_ids [OF this] applyDeposit_stored [OF a [unfolded Inr]]]
    let ?u = "(ticked app ?q)\<lparr>pf_ledger := snd (completeDeposit (dep_depositId ?d) l)\<rparr>"
    have "ledger_step ?cfg (pf_ledger (ticked app ?q)) (snd (completeDeposit (dep_depositId ?d) l))"
      using step_completeDeposit [of ?cfg l] by simp
    then have "platform_moves app ?p ?u"
      by (intro mv.R_trans [OF mv.R_trans [OF q mv_ticked] mv.R_ledger])
    note u = station_moves_platform [OF this]
    have run1: "on_ledger app (applyDeposit ?cfg inp) ?p = (Inr x, ?q)"
      by (rule run_on_ledger_eq) (simp add: a Inr)
    have run2: "on_ledger app (\<lambda>now. completeDeposit (dep_depositId ?d)) ?q = (Inr (?d\<lparr>dep_status := DS_COMPLETED\<rparr>), ?u)"
      by (rule run_on_ledger_eq) (simp add: c)
    have "credited_at (di_txHash inp) (pf_ledger ?u)" by (simp add: c credited_at_def)
    with u show ?thesis
      by (simp add: yields_def on_platform_def zoom_def and_then_def run1 run2)
  qed
qed

lemma credit_event_alt:
  "credit_event app client e =
     and_then (lift_result (parseKoriAmount (js_Number (ee_amountDecimal e)))) (\<lambda>amount.
     and_then (and_then (on_platform (on_ledger app (applyDeposit (app_cfg app)
        \<lparr>di_userId = ee_userId e, di_amount = amount, di_txHash = ee_txHash e, di_toAddress = Some (ee_toAddress e),
         di_walletAddress = Some (ee_toAddress e), di_blockNumber = ee_blockNumber e\<rparr>))) (\<lambda>applied.
       on_platform (on_ledger app (\<lambda>nowIso. completeDeposit (dep_depositId (dr_deposit applied)))))) (\<lambda>_.
     and_then (outside (dc_completeDeposit client (ee_depositId e))) (\<lambda>_.
     and_then (on_platform (now_iso app)) (\<lambda>completedAt.
     and_then (on_monitor app (markEventStatus (ee_eventKey e) EX_completed None (Some completedAt))) (\<lambda>_.
     ret True)))))"
  by (simp add: credit_event_def fun_eq_iff and_then_def split: prod.split sum.split)

lemma credit_event_effect:
  assumes f: "stored_event s (ee_eventKey e) = Some f" "ee_txHash f = ee_txHash e" "truthy (ee_foxyaRegisteredAt f)"
    and ok: "station_ok app s"
  shows "yields (\<lambda>r t. station_moves app s t) (credit_event app client e) s"
proof (cases "parseKoriAmount (js_Number (ee_amountDecimal e))")
  case (Inl err)
  then show ?thesis by (simp add: credit_event_def wp sm.R_refl)
next
  case (Inr amount)
  let ?inp = "\<lparr>di_userId = ee_userId e, di_amount = amount, di_txHash = ee_txHash e, di_toAddress = Some (ee_toAddress e),
     di_walletAddress = Some (ee_toAddress e), di_blockNumber = ee_blockNumber e\<rparr>"
  have amt: "0 \<le> di_amount ?inp" using parseKoriAmount_nonneg [OF Inr] by simp
  show ?thesis
    unfolding credit_event_alt Inr
    apply (simp only: yields_bind [of _ "lift_result _"] yields_basic sum.case)
    apply (subst yields_bind)
  proof (rule yields_mono [OF credit_ledger_effect [OF ok amt]], elim conjE)
    fix r t
    assume t: "station_moves app s t" "st_monitor t = st_monitor s"
      and c: "\<forall>d. r = Inr d \<longrightarrow> credited_at (di_txHash ?inp) (pf_ledger (st_platform t))"
    show "case r of Inl err \<Rightarrow> station_moves app s t
      | Inr x \<Rightarrow> yields (\<lambda>r t. station_moves app s t)
          (and_then (outside (dc_completeDeposit client (ee_depositId e))) (\<lambda>_.
           and_then (on_platform (now_iso app)) (\<lambda>completedAt.
           and_then (on_monitor app (markEventStatus (ee_eventKey e) EX_completed None (Some completedAt))) (\<lambda>_.
           ret True)))) t"
    proof (cases r)
      case (Inr d)
      have "yields (\<lambda>r u. station_moves app t u)
          (and_then (outside (dc_completeDeposit client (ee_depositId e))) (\<lambda>_.
           and_then (on_platform (now_iso app)) (\<lambda>completedAt.
           and_then (on_monitor app (markEventStatus (ee_eventKey e) EX_completed None (Some completedAt))) (\<lambda>_.
           ret True)))) t"
        by (rule finish_event_effect [where f = f]) (use t c Inr f in \<open>simp_all add: stored_event_def station_moves_ok [OF _ ok]\<close>)
      then show ?thesis unfolding Inr sum.case by (rule yields_mono) (rule sm.R_trans [OF t(1)])
    qed (use t in simp)
  qed
qed

lemma moves_on: "station_moves app s t \<Longrightarrow> yields (\<lambda>r u. station_moves app t u) m t \<Longrightarrow> yields (\<lambda>r u. station_moves app s u) m t"
  by (erule yields_mono) (rule sm.R_trans)

lemma monitor_alert_keeps: "keeps (station_moves app) (monitor_alert app cf a)"
proof -
  have "keeps (platform_moves app) (notify app a)" by (rule mv.run_notify)
  then have "yields (\<lambda>r t. station_moves app s t) (on_platform (notify app a)) s" for s
    by (rule yields_moves) (rule station_moves_platform)
  then show ?thesis
    unfolding monitor_alert_def by (intro sm.keep_when) (simp add: yields_keeps)
qed

lemma completeIfEligible_effect:
  assumes f: "stored_event s (ee_eventKey e) = Some f" "ee_txHash f = ee_txHash e" "truthy (ee_foxyaRegisteredAt f)"
    and ok: "station_ok app s"
  shows "yields (\<lambda>r t. station_moves app s t) (completeIfEligible app cf e n) s"
proof (cases "cf_client cf")
  case None
  then show ?thesis by (simp add: completeIfEligible_def wp sm.R_refl)
next
  case (Some client)
  note credit = credit_event_effect [where e = e and f = f and client = client and app = app]
  have gated: "yields (\<lambda>r t. station_moves app s t)
      (and_then (on_platform (canCreditDeposit app (Some (ee_userId e)) (Some (ee_toAddress e)))) (\<lambda>(_, gate).
         if lg_depositAllowed gate then credit_event app client e
         else and_then (monitor_alert app cf (notifyWalletLifecycleGateBlocked (ee_userId e) (Some (ee_toAddress e)) ''deposit''
                (lg_reason gate))) (\<lambda>_. ret False))) s"
    unfolding yields_bind
  proof (rule yields_moves [OF mv.run_canCreditDeposit])
    fix r p
    assume p: "platform_moves app (st_platform s) p"
    let ?t = "s\<lparr>st_platform := p\<rparr>"
    note t = station_moves_platform [OF p]
    have a: "yields (\<lambda>r u. station_moves app s u) (credit_event app client e) ?t"
      by (rule moves_on [OF t credit]) (use f t ok station_moves_ok in auto)
    have b: "yields (\<lambda>r u. station_moves app s u) (and_then (monitor_alert app cf al) (\<lambda>_. ret False)) ?t" for al
      using monitor_alert_keeps [of app cf al, unfolded yields_keeps, rule_format, of ?t, THEN moves_on [OF t]]
      unfolding yields_bind by (rule yields_mono) (simp add: yields_basic split: sum.split)
    show "case r of Inl err \<Rightarrow> station_moves app s ?t
      | Inr x \<Rightarrow> yields (\<lambda>r t. station_moves app s t) (case x of (uu, gate) \<Rightarrow>
          if lg_depositAllowed gate then credit_event app client e
          else and_then (monitor_alert app cf (notifyWalletLifecycleGateBlocked (ee_userId e) (Some (ee_toAddress e)) ''deposit''
                 (lg_reason gate))) (\<lambda>_. ret False)) ?t"
      using t a b by (auto split: sum.split)
  qed
  show ?thesis
    using Some gated credit [OF f ok] by (simp add: completeIfEligible_def sm.R_refl yields_basic)
qed

lemma complete_and_count_effect:
  assumes "stored_event s (ee_eventKey e) = Some f" "ee_txHash f = ee_txHash e" "truthy (ee_foxyaRegisteredAt f)"
    and "station_ok app s"
  shows "yields (\<lambda>r t. station_moves app s t) (complete_and_count app cf e n) s"
  unfolding complete_and_count_def yields_bind
  by (rule yields_mono [OF completeIfEligible_effect [OF assms]])
    (auto simp: yields_when_do yields_on_scan split: sum.split intro: sm.R_trans [OF _ station_moves_private(1)])

definition registered_event :: "external_event \<Rightarrow> string \<Rightarrow> string \<Rightarrow> external_event" where
  "registered_event e registeredAt now = e\<lparr>ee_status := EX_registered, ee_foxyaRegisteredAt := Some registeredAt,
     ee_foxyaCompletedAt := ee_foxyaCompletedAt e, ee_lastError := None, ee_updatedAt := now\<rparr>"

lemma registered_event_ok:
  assumes "event_ok l k e" and "\<not> truthy (ee_foxyaRegisteredAt e)" and "a \<noteq> []"
  shows "event_ok l k (registered_event e a now) \<and> event_follows e (registered_event e a now)"
proof -
  have "ee_status e = EX_discovered" using assms by (simp add: event_ok_def)
  then show ?thesis using assms
    by (cases e) (auto simp: event_ok_def registered_event_def event_follows_def)
qed

text \<open>The registration of a stored event and what follows it.\<close>

lemma register_effect:
  assumes e: "stored_event s (ee_eventKey e) = Some e" "\<not> truthy (ee_foxyaRegisteredAt e)" and ok: "station_ok app s"
  shows "yields (\<lambda>r t. station_moves app s t)
    (and_then (outside m) (\<lambda>_.
     and_then (on_platform (now_iso app)) (\<lambda>registeredAt.
     and_then (on_monitor app (markEventStatus (ee_eventKey e) EX_registered (Some registeredAt) None)) (\<lambda>_.
     and_then (on_scan g) (\<lambda>_.
     complete_and_count app cf (e\<lparr>ee_foxyaRegisteredAt := Some registeredAt\<rparr>) n))))) s"
proof -
  let ?w = "(st_platform s)\<lparr>pf_world := snd (m (pf_world (st_platform s)))\<rparr>"
  let ?t = "s\<lparr>st_platform := ticked app ?w\<rparr>" and ?k = "ee_eventKey e"
  let ?r = "clock_iso app ?w"
  have w: "station_moves app s (s\<lparr>st_platform := ?w\<rparr>)" and t: "station_moves app s ?t"
    by (rule station_moves_platform, rule mv.R_world)
       (rule station_moves_platform, rule mv.R_trans [OF mv.R_world mv_ticked])
  have eok: "event_ok (pf_ledger (st_platform ?t)) ?k e"
    using station_okD(2) [OF ok e(1)] by simp
  have mark: "yields (\<lambda>r u. station_moves app ?t u \<and> (\<exists>now. r = Inr (registered_event e ?r now) \<and>
        stored_event u ?k = Some (registered_event e ?r now)) \<and> pf_ledger (st_platform u) = pf_ledger (st_platform ?t))
      (on_monitor app (markEventStatus ?k EX_registered (Some ?r) None)) ?t"
  proof (rule mark_event_effect)
    show "stored_event ?t ?k = Some e" using e by simp
    show "event_ok (pf_ledger (st_platform ?t)) ?k (registered_event e ?r now) \<and> event_follows e (registered_event e ?r now)" for now
      by (rule registered_event_ok [OF eok e(2)]) simp
  qed (simp add: registered_event_def coalesce_opt_def)
  have "yields (\<lambda>r u. station_moves app s u)
      (and_then (on_monitor app (markEventStatus ?k EX_registered (Some ?r) None)) (\<lambda>_.
       and_then (on_scan g) (\<lambda>_. complete_and_count app cf (e\<lparr>ee_foxyaRegisteredAt := Some ?r\<rparr>) n))) ?t"
    unfolding yields_bind
  proof (rule yields_mono [OF mark], elim conjE exE)
    fix r u now
    assume u: "station_moves app ?t u" "stored_event u ?k = Some (registered_event e ?r now)"
      and r: "r = Inr (registered_event e ?r now)"
    let ?v = "u\<lparr>st_scan := g (st_scan u)\<rparr>"
    have v: "station_moves app s ?v" by (rule sm.R_trans [OF sm.R_trans [OF t u(1)] station_moves_private(1)])
    have "yields (\<lambda>r z. station_moves app ?v z) (complete_and_count app cf (e\<lparr>ee_foxyaRegisteredAt := Some ?r\<rparr>) n) ?v"
      by (rule complete_and_count_effect [where f = "registered_event e ?r now"]) (use u station_moves_ok [OF v ok] in \<open>simp_all add: registered_event_def\<close>)
    from moves_on [OF v this]
    show "case r of Inl err \<Rightarrow> station_moves app s u
      | Inr x \<Rightarrow> yields (\<lambda>r t. case r of Inl err \<Rightarrow> station_moves app s t
          | Inr x \<Rightarrow> yields (\<lambda>r u. station_moves app s u) (complete_and_count app cf (e\<lparr>ee_foxyaRegisteredAt := Some ?r\<rparr>) n) t)
          (on_scan g) u"
      by (simp add: r yields_on_scan)
  qed
  then show ?thesis
    using w by (simp add: yields_bind yields_outside yields_on_platform yields_now_iso split: sum.split)
qed

lemma station_moves_not_ok: "\<not> station_ok app s \<Longrightarrow> station_moves app s t"
  by (simp add: station_moves_def)

lemma yields_True: "(\<And>r t. P r t) \<Longrightarrow> yields P m s"
  by (simp add: yields_def split_beta)

lemma process_target_keeps: "keeps (station_moves app) (process_target app cf client n ev to target)"
  unfolding yields_keeps
proof
  fix s
  show "yields (\<lambda>r t. station_moves app s t) (process_target app cf client n ev to target) s"
  proof (cases "station_ok app s")
    case False
    then show ?thesis by (intro yields_True station_moves_not_ok)
  next
    case ok: True
    let ?s1 = "s\<lparr>st_ids := Suc (st_ids s)\<rparr>"
    let ?e = "discovered_event cf ev to target (cf_newId cf (st_ids s))"
    have s1: "station_moves app s ?s1" by simp
    have "yields (\<lambda>r t. \<exists>f. r = Inr f \<and> station_moves app ?s1 t \<and> stored_event t (ee_eventKey ?e) = Some f)
        (on_monitor app (\<lambda>nowIso. total (recordDiscoveredEvent ?e nowIso))) ?s1"
      by (rule record_event_effect) (simp_all add: discovered_event_def)
    note rec = this
    show ?thesis
      unfolding process_target_def
      apply (simp only: yields_bind [of _ "ask _"] yields_bind [of _ "modify _"] yields_basic yields_modify sum.case)
      apply (subst yields_bind)
    proof (rule yields_mono [OF rec], elim exE conjE)
      fix r t f
      assume r: "r = Inr f" and t1: "station_moves app ?s1 t" and f: "stored_event t (ee_eventKey ?e) = Some f"
      have t: "station_moves app s t" by (rule sm.R_trans [OF s1 t1])
      note tok = station_moves_ok [OF t ok]
      have key: "ee_eventKey f = ee_eventKey ?e" using station_okD(2) [OF tok f] by (simp add: event_ok_def)
      then have st: "stored_event t (ee_eventKey f) = Some f" using f by simp
      show "case r of Inl err \<Rightarrow> station_moves app s t
        | Inr event \<Rightarrow> yields (\<lambda>r t. station_moves app s t)
            (if truthy (ee_foxyaRegisteredAt event) then complete_and_count app cf event n
             else and_then (outside (dc_registerDeposit client
              \<lparr>er_depositId = ee_depositId event, er_userId = ee_userId event, er_currencyId = ee_currencyId event,
               er_amount = ee_amountDecimal event, er_network = ee_network event,
               er_senderAddress = ee_fromAddress event, er_toAddress = ee_toAddress event,
               er_logIndex = ee_eventIndex event, er_blockNumber = ee_blockNumber event,
               er_txHash = ee_txHash event\<rparr>)) (\<lambda>_.
             and_then (on_platform (now_iso app)) (\<lambda>registeredAt.
             and_then (on_monitor app (markEventStatus (ee_eventKey event) EX_registered (Some registeredAt) None)) (\<lambda>_.
             and_then (on_scan (\<lambda>c. c\<lparr>sc_registeredCount := sc_registeredCount c + 1\<rparr>)) (\<lambda>_.
             complete_and_count app cf (event\<lparr>ee_foxyaRegisteredAt := Some registeredAt\<rparr>) n))))) t"
        unfolding r sum.case
      proof (cases "truthy (ee_foxyaRegisteredAt f)", goal_cases)
        case 1
        then show ?case by (simp only: if_True) (rule moves_on [OF t complete_and_count_effect [OF st refl _ tok]])
      next
        case 2
        then show ?case by (simp only: if_False) (rule moves_on [OF t register_effect [OF st _ tok]])
      qed
    qed
  qed
qed

lemma private_keeps:
  "keeps (station_moves app) (on_scan f)" "keeps (station_moves app) (on_bot g)"
  by (simp_all add: yields_keeps yields_on_scan on_bot_def yields_basic yields_modify)

lemma outside_keeps: "keeps (station_moves app) (outside m)"
  by (auto simp: yields_keeps yields_outside intro: station_moves_platform mv.R_world)

lemma on_platform_keeps: "keeps (platform_moves app) m \<Longrightarrow> keeps (station_moves app) (on_platform m)"
  by (auto simp: yields_keeps intro: yields_moves [of app m, unfolded yields_keeps] station_moves_platform)

lemma chain_event_keeps: "keeps (station_moves app) (process_chain_event app cf client n watch txs ev)"
  unfolding process_chain_event_def Let_def
  by (intro sm.keep_rules private_keeps process_target_keeps)

lemma scan_page_keeps: "keeps (station_moves app) (scan_page app cf client n watch txs ts fp)"
  unfolding scan_page_def by (intro sm.keep_rules private_keeps outside_keeps chain_event_keeps)

lemma scan_pages_moves:
  fixes app :: "'w app"
  assumes "scan_pages app cf client n watch txs ts fp s = Some y"
  shows "station_moves app s (snd y)"
proof (rule scan_pages.raw_induct [of "\<lambda>app cf client n watch txs ts fp s y. station_moves app s (snd y)", OF _ assms])
  fix scan_pages' and app :: "'w app" and cf client n watch txs ts fp s y
  assume IH: "\<And>app cf client n watch txs ts fp s y. scan_pages' app cf client n watch txs ts fp s = Some y \<Longrightarrow>
      station_moves app s (snd y)"
    and eq: "(case scan_page app cf client n watch txs ts fp s of
        (Inl e, t) \<Rightarrow> Some (Inl e, t)
      | (Inr None, t) \<Rightarrow> Some (Inr (), t)
      | (Inr (Some next_page), t) \<Rightarrow> scan_pages' app cf client n watch txs ts (Some next_page) t) = Some y"
  have "station_moves app s (snd (scan_page app cf client n watch txs ts fp s))"
    by (rule keepsD [OF scan_page_keeps])
  then show "station_moves app s (snd y)"
    using eq by (auto split: prod.splits sum.splits option.splits dest!: IH intro: sm.R_trans)
qed

lemma save_cursor_keeps: "keeps (station_moves app) (on_monitor app (\<lambda>nowIso. total (saveCursor c nowIso)))"
proof -
  have "station_moves app s (s\<lparr>st_platform := ticked app (st_platform s), st_monitor := (st_monitor s)\<lparr>dm_cursors := m\<rparr>\<rparr>)"
    (is "station_moves app s ?t") for s m
  proof -
    have "stored_event ?t k = stored_event s k" for k by (simp add: stored_event_def)
    moreover have "station_moves app s (s\<lparr>st_platform := ticked app (st_platform s)\<rparr>)"
      by (rule station_moves_platform [OF mv_ticked])
    ultimately show ?thesis by (simp add: station_moves_def station_ok_def events_kept_def)
  qed
  then show ?thesis by (simp add: yields_keeps yields_on_monitor yields_total saveCursor_def Let_def)
qed

lemma cycle_parts_keep:
  "keeps (station_moves app) (prepare_scan app cf client opts)"
  "keeps (station_moves app) (finish_scan app cf opts watch n)"
  "keeps (station_moves app) (abort_scan app cf e)"
  unfolding prepare_scan_def finish_scan_def abort_scan_def Let_def
  by (intro sm.keep_rules private_keeps outside_keeps save_cursor_keeps on_platform_keeps mv.run_now_ms mv.run_now_iso)+

lemma runCycleInternal_moves:
  assumes "runCycleInternal app cf opts s = Some y"
  shows "station_moves app s (snd y)"
proof (cases "cf_client cf")
  case None
  then show ?thesis using assms by (auto simp: runCycleInternal_def sm.R_refl split: if_splits)
next
  case (Some client)
  let ?s0 = "s\<lparr>st_running := True\<rparr>"
  have s0: "station_moves app s ?s0" by simp
  have idle: "station_moves app s t \<Longrightarrow> station_moves app s (not_running t)" for t
    unfolding not_running_def by (rule sm.R_trans [OF _ station_moves_private(3)])
  note parts = cycle_parts_keep [THEN keepsD]
  show ?thesis
  proof (cases "\<not> cf_enabled cf \<or> st_running s")
    case True
    then show ?thesis using assms Some by (auto simp: runCycleInternal_def sm.R_refl split: if_splits)
  next
    case False
    obtain r s1 where p: "prepare_scan app cf client opts ?s0 = (r, s1)" by fastforce
    have s1: "station_moves app s s1" using sm.R_trans [OF s0 keepsD [OF cycle_parts_keep(1) [of app cf client opts], of ?s0]] by (simp add: p)
    show ?thesis
    proof (cases r)
      case (Inl e)
      then have "snd y = not_running (snd (abort_scan app cf e s1 :: (js_error + monitor_report) \<times> _))"
        using assms Some False p by (auto simp: runCycleInternal_def split: prod.splits)
      then show ?thesis using idle [OF sm.R_trans [OF s1 parts(3)]] by simp
    next
      case (Inr w)
      obtain watch n ts where w: "w = (watch, n, ts)" by (cases w)
      obtain z where z: "scan_pages app cf client n watch (co_txHashFilter opts) ts None s1 = Some z"
        using assms Some False p Inr w by (auto simp: runCycleInternal_def split: option.splits)
      note s2 = sm.R_trans [OF s1 scan_pages_moves [OF z]]
      obtain q s2' where zq: "z = (q, s2')" by (cases z)
      have ends: "snd y = not_running (snd (abort_scan app cf e s2' :: (js_error + monitor_report) \<times> _))" if "q = Inl e" for e
        using assms Some False p Inr w z zq that by (auto simp: runCycleInternal_def split: prod.splits)
      have ran: "snd y = not_running (snd (catching (finish_scan app cf opts watch n) (abort_scan app cf) s2'))" if "q = Inr u" for u
        using assms Some False p Inr w z zq that by (auto simp: runCycleInternal_def split: prod.splits)
      have "keeps (station_moves app) (catching (finish_scan app cf opts watch n) (abort_scan app cf))"
        by (intro sm.keep_catch cycle_parts_keep)
      note fin = sm.R_trans [OF s2 keepsD [OF this], unfolded zq snd_conv]
      show ?thesis
      proof (cases q)
        case (Inl e)
        show ?thesis unfolding ends [OF Inl] by (rule idle, rule sm.R_trans [OF s2 [unfolded zq snd_conv] parts(3)])
      next
        case (Inr u)
        show ?thesis unfolding ran [OF Inr] by (rule idle [OF fin])
      qed
    qed
  qed
qed

lemma monitor_cycles_move:
  "runMonitorCycle app cf s = Some y \<Longrightarrow> station_moves app s (snd y)"
  "reconcileDeposits app cf lb as hs s = Some y \<Longrightarrow> station_moves app s (snd y)"
proof -
  show "runMonitorCycle app cf s = Some y \<Longrightarrow> station_moves app s (snd y)"
    by (simp add: runMonitorCycle_def runCycleInternal_moves)
  assume r: "reconcileDeposits app cf lb as hs s = Some y"
  have "keeps (station_moves app) (on_platform (now_ms app))" by (rule on_platform_keeps [OF mv.run_now_ms])
  note t = keepsD [OF this, of s]
  show "station_moves app s (snd y)"
    using r t
    by (auto simp: reconcileDeposits_def split: prod.splits sum.splits
        intro: sm.R_trans [OF _ runCycleInternal_moves])
qed

section \<open>The sweep bot\<close>

lemma ledger_call_keeps:
  "(\<And>now l. ledger_step (app_cfg app) l (snd (m now l))) \<Longrightarrow> keeps (station_moves app) (ledger_call app m)"
  unfolding ledger_call_def by (intro on_platform_keeps mv.run_on_ledger)

lemma bot_primitives_keep:
  "keeps (station_moves app) (ledger_read f)"
  "keeps (station_moves app) (on_platform (notify app a))"
  "keeps (station_moves app) (on_platform (now_iso app))"
  "keeps (station_moves app) (on_platform (now_ms app))"
  "keeps (station_moves app) (lift_result r)"
  unfolding ledger_read_def
  by (intro on_platform_keeps mv.run_ask_ledger mv.run_notify mv.run_now_iso mv.run_now_ms)+
    (simp add: keeps_def lift_result_def sm.R_refl)

lemma sweep_calls_keep:
  "keeps (station_moves app) (ledger_call app (\<lambda>now. total (createSweepRecord (app_cfg app) inp now)))"
  "keeps (station_moves app) (ledger_call app (markSweepQueued i note))"
  "keeps (station_moves app) (ledger_call app (\<lambda>now. total (enqueueJob (app_cfg app) ty p now)))"
  "keeps (station_moves app) (ledger_call app (recordSweepAttempt i note))"
  "keeps (station_moves app) (ledger_call app (markSweepBroadcasted i h note))"
  "keeps (station_moves app) (ledger_call app (confirmSweep i sc))"
  "keeps (station_moves app) (ledger_call app (failSweep i reason))"
  by (rule ledger_call_keeps;
      simp add: snd_total step_createSweepRecord step_markSweepQueued step_enqueueJob step_recordSweepAttempt
        step_markSweepBroadcasted step_confirmSweep step_failSweep)+

lemmas bot_rules = sm.keep_rules private_keeps outside_keeps bot_primitives_keep sweep_calls_keep

lemma sweep_stages_keep: "keeps (station_moves app) (sweep_stages app cf client signers)"
  unfolding sweep_stages_def planSweepsFromCompletedDeposits_def queuePlannedSweeps_def executeQueuedSweeps_def
    confirmBroadcastedSweeps_def planEvent_def plan_deposit_def planned_sweep_def queue_sweep_def executeSweep_def sign_and_attempt_def attempt_sweep_def
    resource_low_def send_sweep_def confirm_sweep_def Let_def
  by (intro bot_rules)

lemma sweep_cycle_keeps: "keeps (station_moves app) (sweep_cycle app cf)"
  unfolding sweep_cycle_def by (intro bot_rules sweep_stages_keep)

section \<open>The station as a state machine\<close>

text \<open>
  Steps of the application, cycles and reconciliations of the monitor that end, and cycles of the sweep
  bot.  The settings of a service may change between its cycles (after a restart).
\<close>

inductive station_step :: "'w app \<Rightarrow> 'w station \<Rightarrow> 'w station \<Rightarrow> bool" for app where
  ss_platform: "platform_step app (st_platform s) p \<Longrightarrow> station_step app s (s\<lparr>st_platform := p\<rparr>)"
| ss_monitor: "runMonitorCycle app cf s = Some y \<Longrightarrow> station_step app s (snd y)"
| ss_reconcile: "reconcileDeposits app cf lb as hs s = Some y \<Longrightarrow> station_step app s (snd y)"
| ss_sweep: "station_step app s (snd (sweep_cycle app scf s))"

definition station_steps :: "'w app \<Rightarrow> 'w station \<Rightarrow> 'w station \<Rightarrow> bool" where
  "station_steps app = (station_step app)\<^sup>*\<^sup>*"

definition initial_station :: "'w app \<Rightarrow> 'w \<Rightarrow> 'w station" where
  "initial_station app w =
     \<lparr>st_platform = initial_platform app w, st_monitor = \<lparr>dm_cursors = [], dm_events = []\<rparr>, st_ids = 0,
      st_running = False, st_scan = scan_start 0 None,
      st_sweep = \<lparr>bot_running = False, bot_status = \<lparr>wb_enabled = False, wb_configured = False, wb_lastRunAt = None,
        wb_lastError = None, wb_lastResult = None\<rparr>\<rparr>\<rparr>"

lemma platform_step_moves:
  assumes "platform_step app s p" and "app_ok app"
  shows "platform_moves app s p"
  using platform_step_ledger [OF assms(1)] platform_step_sound [OF assms(1)] assms(2)
  by (simp add: platform_moves_def app_ok_def ledger_runs_def through_def)

lemma station_step_moves:
  assumes "station_step app s t" and "app_ok app"
  shows "station_moves app s t"
  using assms(1)
proof cases
  case (ss_platform p)
  then show ?thesis using platform_step_moves [OF _ assms(2)] by (simp add: station_moves_platform)
next
  case (ss_sweep scf)
  then show ?thesis by (simp add: keepsD [OF sweep_cycle_keeps])
qed (use monitor_cycles_move in auto)

interpretation st: invariant_system "\<lambda>s. app_ok app \<and> (\<exists>w. s = initial_station app w)"
    "\<lambda>s t. app_ok app \<and> station_step app s t" "station_ok app" for app :: "'w app"
proof
  fix s t :: "'w station"
  show "station_ok app s" if "app_ok app \<and> (\<exists>w. s = initial_station app w)"
  proof -
    have "platform_ok app (initial_platform app w)" if "app_ok app" for w
      using platform_steps_ok [of app w "initial_platform app w"] that by (simp add: platform_steps_def)
    then show ?thesis using that by (auto simp: station_ok_def initial_station_def stored_event_def)
  qed
  show "station_ok app t" if "app_ok app \<and> station_step app s t" "station_ok app s"
    using that station_step_moves [of app s t] by (simp add: station_moves_def)
qed

lemma station_steps_ok:
  "station_steps app (initial_station app w) s \<Longrightarrow> app_ok app \<Longrightarrow> station_ok app s"
  using st.inv_reachable [of app "initial_station app w" s] by (auto simp: station_steps_def)

lemma station_steps_move:
  assumes "station_steps app s t" and "app_ok app"
  shows "station_moves app s t"
  using assms(1) unfolding station_steps_def
  by (induction rule: rtranclp_induct) (auto intro: sm.R_refl sm.R_trans station_step_moves [OF _ assms(2)])

end
