(* ===== verification/StationDemo.thy ===== *)
theory StationDemo
  imports PlatformDemo StationMachine
begin

text \<open>
  A concrete station: Foxya watches an address of alice and one of bob and accepts every call, the chain
  shows a transfer to alice, and one cycle of the monitor registers and credits it.
\<close>

definition demo_client :: "string list deposit_client" where
  "demo_client =
     \<lparr>dc_listWatchAddresses = ret
        [\<lparr>wt_userId = ''alice'', wt_currencyId = 1, wt_address = ''TAlice'', wt_network = ''TRON''\<rparr>,
         \<lparr>wt_userId = ''bob'', wt_currencyId = 1, wt_address = ''TBob'', wt_network = ''TRON''\<rparr>],
      dc_registerDeposit = (\<lambda>_. ret ()), dc_completeDeposit = (\<lambda>_. ret ()),
      dc_getDeposit = (\<lambda>_. ret (Some \<lparr>fd_sweepStatus = None, fd_sweepTxHash = None, fd_sweepErrorMessage = None\<rparr>)),
      dc_submitSweep = (\<lambda>_ _. ret ()), dc_failSweep = (\<lambda>_ _. ret ())\<rparr>"

definition demo_transfer :: "int \<Rightarrow> string \<Rightarrow> string \<Rightarrow> chain_event" where
  "demo_transfer i to amount =
     \<lparr>ce_txHash = ''0xdeposit01'', ce_eventIndex = i, ce_blockNumber = 100, ce_blockTimestampMs = 1773317000000,
      ce_fromAddress = Some ''TPayer'', ce_toAddress = Some to, ce_amountRaw = amount\<rparr>"

definition demo_monitor :: "chain_event list \<Rightarrow> string list monitor_config" where
  "demo_monitor events =
     \<lparr>cf_enabled = True, cf_network = mainnet, cf_contractAddress = ''TKori'', cf_startTimestampMs = None,
      cf_lookbackMs = 60000, cf_pageLimit = 50, cf_confirmations = 20, cf_currencyIds = [], cf_client = Some demo_client,
      cf_getCurrentBlockNumber = (\<lambda>_. ret 200),
      cf_listTransfers = (\<lambda>_ _ _ _ _. ret \<lparr>tp_events = events, tp_nextFingerprint = None\<rparr>),
      cf_lifecyclePolicy = False, cf_alerts = False, cf_newId = (\<lambda>n. CHR ''d'' # dec n)\<rparr>"

lemma demo_client_sel [simp]:
  "dc_registerDeposit demo_client q = ret ()" "dc_completeDeposit demo_client i = ret ()"
  "dc_submitSweep demo_client i h = ret ()" "dc_failSweep demo_client i e = ret ()"
  "dc_listWatchAddresses demo_client = ret
     [\<lparr>wt_userId = ''alice'', wt_currencyId = 1, wt_address = ''TAlice'', wt_network = ''TRON''\<rparr>,
      \<lparr>wt_userId = ''bob'', wt_currencyId = 1, wt_address = ''TBob'', wt_network = ''TRON''\<rparr>]"
  by (simp_all add: demo_client_def)

definition demo_alice :: watch_address where
  "demo_alice = \<lparr>wt_userId = ''alice'', wt_currencyId = 1, wt_address = ''TAlice'', wt_network = ''TRON''\<rparr>"

definition demo_input :: deposit_input where
  "demo_input = \<lparr>di_userId = ''alice'', di_amount = 5000000, di_txHash = ''0xdeposit01'', di_toAddress = Some ''TAlice'',
     di_walletAddress = Some ''TAlice'', di_blockNumber = 100\<rparr>"

definition demo_credited :: ledger where
  "demo_credited = snd (applyDeposit demo_cfg demo_input demo_now empty_ledger)"

lemma demo_credited_eval:
  "applyDeposit demo_cfg demo_input demo_now empty_ledger
    = (Inr \<lparr>dr_deposit = \<lparr>dep_depositId = ''u1'', dep_userId = ''alice'', dep_txHash = ''0xdeposit01'', dep_amount = 5000000,
          dep_status = DS_CREDITED, dep_blockNumber = 100, dep_createdAt = demo_now\<rparr>, dr_duplicated = False\<rparr>, demo_credited)"
proof -
  have "fst (applyDeposit demo_cfg demo_input demo_now empty_ledger)
    = Inr \<lparr>dr_deposit = \<lparr>dep_depositId = ''u1'', dep_userId = ''alice'', dep_txHash = ''0xdeposit01'', dep_amount = 5000000,
          dep_status = DS_CREDITED, dep_blockNumber = 100, dep_createdAt = demo_now\<rparr>, dr_duplicated = False\<rparr>"
    by code_simp
  then show ?thesis unfolding demo_credited_def by (simp add: prod_eq_iff)
qed
lemma demo_parse: "parseKoriAmount (js_Number ''5'') = Inr 5000000" "formatRawAmount ''5000000'' = ''5''"
  by code_simp+

definition demo_deposit_event :: external_event where
  "demo_deposit_event = (discovered_event (demo_monitor []) (demo_transfer 0 ''TAlice'' ''5000000'') ''TAlice'' demo_alice ''d0'')
     \<lparr>ee_createdAt := demo_now, ee_updatedAt := demo_now\<rparr>"

lemma demo_key: "ee_eventKey demo_deposit_event = ''mainnet:1:0xdeposit01:0''"
  by code_simp


definition demo_paid :: ledger where
  "demo_paid = snd (completeDeposit ''u1'' demo_credited)"

lemma demo_paid_eval: "completeDeposit ''u1'' demo_credited
    = (Inr \<lparr>dep_depositId = ''u1'', dep_userId = ''alice'', dep_txHash = ''0xdeposit01'', dep_amount = 5000000,
          dep_status = DS_COMPLETED, dep_blockNumber = 100, dep_createdAt = demo_now\<rparr>, demo_paid)"
proof -
  have "fst (completeDeposit ''u1'' demo_credited)
    = Inr \<lparr>dep_depositId = ''u1'', dep_userId = ''alice'', dep_txHash = ''0xdeposit01'', dep_amount = 5000000,
          dep_status = DS_COMPLETED, dep_blockNumber = 100, dep_createdAt = demo_now\<rparr>"
    by code_simp
  then show ?thesis unfolding demo_paid_def by (simp add: prod_eq_iff)
qed

definition demo_completed_event :: external_event where
  "demo_completed_event = demo_deposit_event\<lparr>ee_status := EX_completed, ee_foxyaRegisteredAt := Some demo_now,
     ee_foxyaCompletedAt := Some demo_now, ee_lastError := None, ee_updatedAt := demo_now\<rparr>"

definition demo_scan :: scan_state where
  "demo_scan = \<lparr>sc_scannedEvents = 1, sc_matchedEvents = 1, sc_registeredCount = 1, sc_completedCount = 1, sc_skippedCount = 0,
     sc_lastSeenTimestamp = 1773317040000, sc_lastSeenBlockNumber = Some 100, sc_lastSeenTxHash = Some ''0xdeposit01''\<rparr>"

definition demo_station :: "string list station" where
  "demo_station = (initial_station demo_app [])
     \<lparr>st_platform := demo_platform demo_paid,
      st_monitor := \<lparr>dm_cursors = [(SCANNER_KEY, (cursor_now (demo_monitor []) (Some 200) None demo_scan)\<lparr>mc_updatedAt := demo_now\<rparr>)],
        dm_events = [(''mainnet:1:0xdeposit01:0'', demo_completed_event)]\<rparr>,
      st_ids := 1, st_scan := demo_scan\<rparr>"

lemma demo_fields [simp]:
  "ee_eventKey demo_deposit_event = ''mainnet:1:0xdeposit01:0''" "ee_depositId demo_deposit_event = ''d0''" "ee_userId demo_deposit_event = ''alice''"
  "ee_txHash demo_deposit_event = ''0xdeposit01''" "ee_toAddress demo_deposit_event = ''TAlice''" "ee_amountDecimal demo_deposit_event = ''5''"
  "ee_blockNumber demo_deposit_event = 100" "ee_foxyaRegisteredAt demo_deposit_event = None" "ee_foxyaCompletedAt demo_deposit_event = None"
  by code_simp+

lemma demo_discovered:
  "(discovered_event (demo_monitor evs) (demo_transfer 0 ''TAlice'' ''5000000'') ''TAlice'' demo_alice ''d0'')
     \<lparr>ee_createdAt := demo_now, ee_updatedAt := demo_now\<rparr> = demo_deposit_event"
  by (simp add: demo_deposit_event_def discovered_event_def demo_monitor_def)

lemma demo_newId [simp]: "cf_newId (demo_monitor evs) n = CHR ''d'' # dec n" "dec 0 = ''0''"
  by (simp_all add: demo_monitor_def digit_char_def)

lemma demo_recorded:
  assumes "map_get (dm_events r) ''mainnet:1:0xdeposit01:0'' = None"
  shows "recordDiscoveredEvent (discovered_event (demo_monitor evs) (demo_transfer 0 ''TAlice'' ''5000000'') ''TAlice'' demo_alice ''d0'') demo_now r
    = (demo_deposit_event, r\<lparr>dm_events := map_set ''mainnet:1:0xdeposit01:0'' demo_deposit_event (dm_events r)\<rparr>)"
proof -
  have "ee_eventKey (discovered_event (demo_monitor evs) (demo_transfer 0 ''TAlice'' ''5000000'') ''TAlice'' demo_alice ''d0'')
      = ''mainnet:1:0xdeposit01:0''" by (simp add: discovered_event_def demo_monitor_def demo_transfer_def demo_alice_def) code_simp
  then show ?thesis using assms by (simp add: recordDiscoveredEvent_def Let_def demo_discovered)
qed

lemmas demo_calls = act_defs and_then_def run_clock on_platform_def on_monitor_def run_now_iso_eq demo_time outside_def on_world_def
  on_scan_def

lemma demo_credit:
  assumes "st_platform s = demo_platform empty_ledger" "map_get (dm_events (st_monitor s)) ''mainnet:1:0xdeposit01:0'' = Some f"
    and e: "ee_eventKey e = ''mainnet:1:0xdeposit01:0''" "ee_userId e = ''alice''"
  "ee_txHash e = ''0xdeposit01''" "ee_toAddress e = ''TAlice''" "ee_amountDecimal e = ''5''"
  "ee_blockNumber e = 100"
  shows "credit_event demo_app demo_client e s = (Inr True, s\<lparr>st_platform := demo_platform demo_paid,
    st_monitor := (st_monitor s)\<lparr>dm_events := map_set ''mainnet:1:0xdeposit01:0'' (f\<lparr>ee_status := EX_completed,
       ee_foxyaCompletedAt := Some demo_now, ee_lastError := None, ee_updatedAt := demo_now\<rparr>) (dm_events (st_monitor s))\<rparr>\<rparr>)"
  using assms demo_credited_eval demo_paid_eval
  by (simp add: credit_event_def demo_parse lift_result_def demo_calls on_ledger_def demo_input_def markEventStatus_def Let_def
      demo_platform_def initial_platform_def)

lemma demo_policy [simp]:
  "cf_client (demo_monitor evs) = Some demo_client" "cf_confirmations (demo_monitor evs) = 20" "\<not> cf_lifecyclePolicy (demo_monitor evs)"
  "cf_enabled (demo_monitor evs)" "cf_network (demo_monitor evs) = mainnet" "cf_currencyIds (demo_monitor evs) = []"
  "cf_lookbackMs (demo_monitor evs) = 60000" "cf_startTimestampMs (demo_monitor evs) = None"
  "cf_getCurrentBlockNumber (demo_monitor evs) net = ret 200"
  "cf_listTransfers (demo_monitor evs) net c ts fp n = ret \<lparr>tp_events = evs, tp_nextFingerprint = None\<rparr>"
  by (simp_all add: demo_monitor_def)

lemma demo_target:
  assumes "st_platform s = demo_platform empty_ledger" "dm_events (st_monitor s) = []" "st_ids s = 0"
  shows "process_target demo_app (demo_monitor evs) demo_client 200 (demo_transfer 0 ''TAlice'' ''5000000'') ''TAlice'' demo_alice s
    = (Inr (), s\<lparr>st_platform := demo_platform demo_paid, st_ids := 1,
        st_monitor := (st_monitor s)\<lparr>dm_events := [(''mainnet:1:0xdeposit01:0'', demo_completed_event)]\<rparr>,
        st_scan := (st_scan s)\<lparr>sc_registeredCount := sc_registeredCount (st_scan s) + 1,
          sc_completedCount := sc_completedCount (st_scan s) + 1\<rparr>\<rparr>)"
proof -
  let ?k = "''mainnet:1:0xdeposit01:0''"
  let ?r = "demo_deposit_event\<lparr>ee_status := EX_registered, ee_foxyaRegisteredAt := Some demo_now, ee_foxyaCompletedAt := None,
      ee_lastError := None, ee_updatedAt := demo_now\<rparr>"
  let ?s1 = "s\<lparr>st_ids := 1, st_monitor := (st_monitor s)\<lparr>dm_events := [(?k, ?r)]\<rparr>,
      st_scan := (st_scan s)\<lparr>sc_registeredCount := sc_registeredCount (st_scan s) + 1\<rparr>\<rparr>"
  have credit: "credit_event demo_app demo_client (demo_deposit_event\<lparr>ee_foxyaRegisteredAt := Some demo_now\<rparr>) ?s1
    = (Inr True, ?s1\<lparr>st_platform := demo_platform demo_paid, st_monitor := (st_monitor s)\<lparr>dm_events := [(?k, demo_completed_event)]\<rparr>\<rparr>)"
    by (subst demo_credit [where f = ?r]) (simp_all add: assms demo_completed_event_def map_set_def map_get_def)
  show ?thesis
    using assms credit demo_recorded [of "st_monitor s" evs]
    by (simp add: process_target_def demo_calls Let_def complete_and_count_def completeIfEligible_def markEventStatus_def
      coalesce_opt_def map_set_def map_get_def)
qed

definition demo_watched :: "watch_address list" where
  "demo_watched = [demo_alice, \<lparr>wt_userId = ''bob'', wt_currencyId = 1, wt_address = ''TBob'', wt_network = ''TRON''\<rparr>]"

lemma demo_watch:
  "filterAdhocWatchAddresses [] (filterWatchAddresses [] demo_watched) = demo_watched"
  by code_simp

definition demo_options :: cycle_options where
  "demo_options = \<lparr>co_overrideStartTimestampMs = None, co_addressFilter = [], co_txHashFilter = [], co_persistCursor = True\<rparr>"

definition demo_prepared :: "string list station" where
  "demo_prepared = (initial_station demo_app [])\<lparr>st_running := True, st_scan := scan_start 1773317040000 None\<rparr>"

lemma demo_platform_empty: "initial_platform demo_app [] = demo_platform empty_ledger"
  by (simp add: demo_platform_def initial_platform_def)

lemma demo_prepare:
  "prepare_scan demo_app (demo_monitor evs) demo_client demo_options ((initial_station demo_app [])\<lparr>st_running := True\<rparr>)
    = (Inr (demo_watched, 200, 1773316980000), demo_prepared)"
  using demo_watch
  by (simp add: prepare_scan_def demo_calls initial_station_def getCursor_def Let_def demo_options_def demo_prepared_def
      demo_watched_def demo_alice_def demo_platform_empty)

lemma demo_transfer_sel [simp]:
  "ce_txHash (demo_transfer i a n) = ''0xdeposit01''" "ce_blockNumber (demo_transfer i a n) = 100"
  "ce_blockTimestampMs (demo_transfer i a n) = 1773317000000" "ce_toAddress (demo_transfer i a n) = Some a"
  "ce_eventIndex (demo_transfer i a n) = i" "ce_amountRaw (demo_transfer i a n) = n"
  by (simp_all add: demo_transfer_def)

lemma demo_targets: "filter (\<lambda>a. wt_address a = ''TAlice'') demo_watched = [demo_alice]"
  by (simp add: demo_watched_def demo_alice_def)

lemma demo_scan_page:
  "scan_page demo_app (demo_monitor [demo_transfer 0 ''TAlice'' ''5000000'']) demo_client 200 demo_watched [] ts None demo_prepared
    = (Inr None, demo_prepared\<lparr>st_platform := demo_platform demo_paid, st_ids := 1,
        st_monitor := \<lparr>dm_cursors = [], dm_events = [(''mainnet:1:0xdeposit01:0'', demo_completed_event)]\<rparr>, st_scan := demo_scan\<rparr>)"
  by (simp add: scan_page_def demo_calls process_chain_event_def Let_def demo_targets demo_target demo_prepared_def
      initial_station_def demo_platform_empty scan_start_def demo_scan_def)

lemma demo_pages:
  "scan_pages demo_app (demo_monitor [demo_transfer 0 ''TAlice'' ''5000000'']) demo_client 200 demo_watched [] ts None demo_prepared
    = Some (Inr (), demo_prepared\<lparr>st_platform := demo_platform demo_paid, st_ids := 1,
        st_monitor := \<lparr>dm_cursors = [], dm_events = [(''mainnet:1:0xdeposit01:0'', demo_completed_event)]\<rparr>, st_scan := demo_scan\<rparr>)"
  by (subst scan_pages.simps) (simp add: demo_scan_page)

definition demo_report :: monitor_report where
  "demo_report = \<lparr>mr_scannedEvents = 1, mr_watchedAddresses = 2, mr_matchedEvents = 1, mr_registeredCount = 1,
     mr_completedCount = 1, mr_skippedCount = 0, mr_currentBlockNumber = 200, mr_cursorTimestampMs = 1773317040000\<rparr>"

lemma demo_cycle:
  "runMonitorCycle demo_app (demo_monitor [demo_transfer 0 ''TAlice'' ''5000000'']) (initial_station demo_app [])
    = Some (Inr (Cycle_ran demo_report), demo_station)"
proof -
  have idle: "\<not> st_running (initial_station demo_app [])" by (simp add: initial_station_def)
  have c: "cursor_now (demo_monitor evs) = cursor_now (demo_monitor [])" for evs
    by (simp add: fun_eq_iff cursor_now_def demo_monitor_def)
  show ?thesis
    unfolding runMonitorCycle_def demo_options_def [symmetric]
    by (simp add: runCycleInternal_def idle demo_prepare demo_pages demo_options_def [THEN arg_cong [where f = co_txHashFilter]])
      (simp add: finish_scan_def demo_calls demo_options_def saveCursor_def Let_def not_running_def demo_station_def
        demo_prepared_def initial_station_def demo_report_def demo_watched_def map_set_def
        demo_scan_def cursor_now_def [of "demo_monitor []"]
        c [of "[demo_transfer 0 ''TAlice'' ''5000000'']"])
qed

lemma demo_station_steps: "station_steps demo_app (initial_station demo_app []) demo_station"
  using ss_monitor [OF demo_cycle] by (simp add: station_steps_def r_into_rtranclp)

lemma demo_station_sel [simp]:
  "st_platform demo_station = demo_platform demo_paid" "st_ids demo_station = 1"
  "stored_event demo_station k = (if k = ''mainnet:1:0xdeposit01:0'' then Some demo_completed_event else None)"
  by (simp_all add: demo_station_def stored_event_def map_get_def)

lemma demo_paid_deposit:
  "map_get (depositsByTxHash demo_paid) ''0xdeposit01'' = Some \<lparr>dep_depositId = ''u1'', dep_userId = ''alice'',
     dep_txHash = ''0xdeposit01'', dep_amount = 5000000, dep_status = DS_COMPLETED, dep_blockNumber = 100, dep_createdAt = demo_now\<rparr>"
  by code_simp

end
