(* ===== verification/StationProperties.thy ===== *)
theory StationProperties
  imports StationDemo
begin

text \<open>
  The properties of the background services: the deposit monitor, the sweep bot, and the activation
  and resource cycles.
\<close>

section \<open>The deposit monitor\<close>

text \<open>Marks of a stored event, and the two ledger calls for a known deposit, as outcomes.\<close>

lemma yields_mark:
  "map_get (dm_events d) k = Some e \<Longrightarrow>
     yields P (markEventStatus k st reg fin now) d = (let f = e\<lparr>ee_status := st,
         ee_foxyaRegisteredAt := coalesce_opt reg (ee_foxyaRegisteredAt e),
         ee_foxyaCompletedAt := coalesce_opt fin (ee_foxyaCompletedAt e), ee_lastError := None, ee_updatedAt := now\<rparr>
       in P (Inr f) (d\<lparr>dm_events := map_set k f (dm_events d)\<rparr>))"
  by (simp add: yields_def markEventStatus_def Let_def)

lemma yields_known_deposit:
  assumes "map_get (depositsByTxHash l) (di_txHash inp) = Some d"
  shows "yields P (applyDeposit cfg inp now) l = P (Inr \<lparr>dr_deposit = d, dr_duplicated = True\<rparr>) l"
  using assms by (simp add: yields_def applyDeposit_def)

lemma yields_complete:
  assumes "deposit_ids_ok cfg l" "map_get (depositsByTxHash l) h = Some d"
  shows "yields P (completeDeposit (dep_depositId d)) l
    = P (Inr (d\<lparr>dep_status := DS_COMPLETED\<rparr>)) (l\<lparr>depositsByTxHash := map_set h (d\<lparr>dep_status := DS_COMPLETED\<rparr>) (depositsByTxHash l)\<rparr>)"
  by (simp add: yields_def completeDeposit_deposits [OF assms])

text \<open>C7. What the monitor reports as credited is credited: once it has recorded a transfer, the event stays on
  record with its owner, amount and transaction, its status only rises from discovered over registered to
  completed, and whenever it is completed the ledger holds a completed deposit for its transaction hash.
  This is so after any sequence of cycles, reconciliations, sweeps and steps of the application, errors in
  the middle of a cycle included.\<close>
theorem completed_events_are_credited:
  assumes "app_ok app" and "station_steps app (initial_station app w) s" and "station_steps app s t"
    and "stored_event s k = Some e"
  shows "\<exists>f. stored_event t k = Some f \<and> event_follows e f \<and>
    (ee_status f = EX_completed \<longrightarrow> credited_at (ee_txHash f) (pf_ledger (st_platform t)))"
proof -
  have s: "station_ok app s" by (rule station_steps_ok [OF assms(2,1)])
  have "station_moves app s t" by (rule station_steps_move [OF assms(3,1)])
  then have "station_ok app t" "events_kept s t" using s by (simp_all add: station_moves_def)
  then show ?thesis
    using assms(4) station_okD(2) [of app t k] by (fastforce simp: events_kept_def event_ok_def)
qed

theorem completed_events_are_credited_witness:
  "credited_at ''0xdeposit01'' (pf_ledger (st_platform demo_station)) \<and> ee_status demo_completed_event = EX_completed"
  using completed_events_are_credited [OF demo_app_ok demo_station_steps, of demo_station "''mainnet:1:0xdeposit01:0''" demo_completed_event]
  by (auto simp: station_steps_def demo_completed_event_def)

text \<open>C19. The ledger knows a deposit by its transaction hash alone, while the monitor records one event per log entry.
  So the second transfer of a transaction is lost: the monitor registers it with Foxya, finds the first
  deposit in the ledger, reports the event as completed, and credits nobody.\<close>
theorem second_transfer_is_not_credited:
  assumes "app_ok app" and "station_steps app (initial_station app w) s"
    and dep: "map_get (depositsByTxHash (pf_ledger (st_platform s))) (ce_txHash ev) = Some d"
    and key: "k = ee_eventKey (discovered_event cf ev to target (cf_newId cf (st_ids s)))"
    and new: "stored_event s k = None"
    and cf: "cf_client cf = Some client" "\<not> cf_lifecyclePolicy cf" "cf_confirmations cf \<le> n - ce_blockNumber ev + 1"
    and client: "\<And>q v. fst (dc_registerDeposit client q v) = Inr ()" "\<And>i v. fst (dc_completeDeposit client i v) = Inr ()"
    and amount: "parseKoriAmount (js_Number (formatRawAmount (ce_amountRaw ev))) = Inr a"
  shows "\<exists>t f. process_target app cf client n ev to target s = (Inr (), t) \<and> stored_event t k = Some f \<and>
    ee_userId f = wt_userId target \<and> ee_status f = EX_completed \<and>
    accounts (pf_ledger (st_platform t)) = accounts (pf_ledger (st_platform s))"
proof -
  let ?e = "discovered_event cf ev to target (cf_newId cf (st_ids s))"
  have d: "map_get (depositsByTxHash (pf_ledger (st_platform s))) (ee_txHash ?e) = Some d" "ee_foxyaRegisteredAt ?e = None"
    "ee_foxyaCompletedAt ?e = None" "ee_userId ?e = wt_userId target" "ee_blockNumber ?e = ce_blockNumber ev"
    "ee_amountDecimal ?e = formatRawAmount (ce_amountRaw ev)"
    using dep by (simp_all add: discovered_event_def)
  have ids: "deposit_ids_ok (app_cfg app) (pf_ledger (st_platform s))"
    using station_steps_ok [OF assms(2,1)] by (auto simp: station_ok_def platform_ok_def intro: reachable_deposit_ids)
  have "yields (\<lambda>r t. r = Inr () \<and> (\<exists>f. stored_event t k = Some f \<and> ee_userId f = wt_userId target \<and>
      ee_status f = EX_completed) \<and> accounts (pf_ledger (st_platform t)) = accounts (pf_ledger (st_platform s)))
    (process_target app cf client n ev to target) s"
    using new d cf client amount
    by (simp add: process_target_def wp recordDiscoveredEvent_def stored_event_def key Let_def yields_mark
        complete_and_count_def completeIfEligible_def credit_event_def yields_known_deposit yields_complete [OF ids d(1)])
  then show ?thesis by (auto elim!: yieldsE)
qed

definition demo_bob :: watch_address where
  "demo_bob = \<lparr>wt_userId = ''bob'', wt_currencyId = 1, wt_address = ''TBob'', wt_network = ''TRON''\<rparr>"

theorem second_transfer_is_not_credited_witness:
  "\<exists>t f. process_target demo_app (demo_monitor []) demo_client 200 (demo_transfer 1 ''TBob'' ''7000000'') ''TBob'' demo_bob
       demo_station = (Inr (), t) \<and> stored_event t ''mainnet:1:0xdeposit01:1'' = Some f \<and>
     ee_userId f = ''bob'' \<and> ee_status f = EX_completed \<and> accounts (pf_ledger (st_platform t)) = accounts demo_paid"
proof -
  let ?ev = "demo_transfer 1 ''TBob'' ''7000000''"
  have key: "''mainnet:1:0xdeposit01:1'' = ee_eventKey (discovered_event (demo_monitor []) ?ev ''TBob'' demo_bob ''d1'')"
    by code_simp
  have amount: "parseKoriAmount (js_Number (formatRawAmount (ce_amountRaw ?ev))) = Inr 7000000"
    by code_simp
  have id: "cf_newId (demo_monitor []) (st_ids demo_station) = ''d1''" by simp code_simp
  show ?thesis
    using second_transfer_is_not_credited [OF demo_app_ok demo_station_steps _ key [folded id] _ _ _ _ _ _ amount,
        where client = demo_client and n = 200] demo_paid_deposit
    by (simp add: demo_bob_def)
qed

text \<open>A list of transfers ends with the error of the first one that fails.\<close>

lemma for_each_stops:
  assumes "for_each f xs s = (Inr (), t)" and "f x t = (Inl e, u)"
  shows "for_each f (xs @ x # ys) s = (Inl e, u)"
  using assms(1)
proof (induction xs arbitrary: s)
  case Nil
  then show ?case using assms(2) by (simp add: and_then_def)
next
  case (Cons y xs)
  then obtain v where "f y s = (Inr (), v)" "for_each f xs v = (Inr (), t)"
    by (auto simp: and_then_succeeds)
  then show ?case using Cons.IH by (simp add: and_then_def)
qed

text \<open>Looking again at a registered transfer whose amount does not parse changes neither ledger nor events.\<close>

lemma misjudged_event:
  assumes "flt = [] \<or> ce_txHash ev \<in> set flt"
    and to: "ce_toAddress ev = Some to" "truthy_str to" "filter (\<lambda>a. wt_address a = to) watch = target # others"
    and key: "k = ee_eventKey (discovered_event cf ev to target i)"
    and e: "stored_event s k = Some e" "truthy (ee_foxyaRegisteredAt e)" "\<not> truthy (ee_foxyaCompletedAt e)"
    and cf: "cf_client cf = Some client" "\<not> cf_lifecyclePolicy cf" "cf_confirmations cf \<le> n - ee_blockNumber e + 1"
    and amount: "parseKoriAmount (js_Number (ee_amountDecimal e)) = Inl err"
  shows "\<exists>t. process_chain_event app cf client n watch flt ev s = (Inl err, t) \<and>
    pf_ledger (st_platform t) = pf_ledger (st_platform s) \<and> dm_events (st_monitor t) = dm_events (st_monitor s)"
proof -
  have key': "ee_eventKey (discovered_event cf ev to target j) = k" for j
    by (simp add: key discovered_event_def)
  have "yields (\<lambda>r t. r = Inl err \<and> pf_ledger (st_platform t) = pf_ledger (st_platform s) \<and>
      dm_events (st_monitor t) = dm_events (st_monitor s)) (process_chain_event app cf client n watch flt ev) s"
    using assms(1) to e cf amount
    by (auto simp add: wp process_chain_event_def Let_def truthy_def process_target_def recordDiscoveredEvent_def
        key' stored_event_def complete_and_count_def completeIfEligible_def credit_event_def)
  then show ?thesis by (auto elim!: yieldsE)
qed

text \<open>C20. An amount that \<open>parseKoriAmount\<close> misjudges, such as 16384.01, stops the monitor.  Let a page of a scan, on
  any page of the loop and with or without a filter that admits the transfer, hold a registered and
  confirmed transfer of such an amount to a watched address, and let the transfers before it on the page
  be processed without an error.  Then the scan ends there with the error: no later transfer of the page
  and no later page is looked at, and ledger and recorded events are as they were when it was reached, so
  that the transfer is still registered and not completed.  (Without the optional lifecycle policy.)\<close>
theorem misjudged_amount_stops_the_monitor:
  assumes page: "outside (cf_listTransfers cf (cf_network cf) (cf_contractAddress cf) ts fp (cf_pageLimit cf)) s = (Inr page, s1)"
      "tp_events page = earlier @ ev # later"
    and earlier: "for_each (process_chain_event app cf client n watch flt) earlier
        (s1\<lparr>st_scan := (st_scan s1)\<lparr>sc_scannedEvents := sc_scannedEvents (st_scan s1) + int (length (tp_events page))\<rparr>\<rparr>)
        = (Inr (), u)"
    and "flt = [] \<or> ce_txHash ev \<in> set flt"
    and to: "ce_toAddress ev = Some to" "truthy_str to" "filter (\<lambda>a. wt_address a = to) watch = target # others"
    and key: "k = ee_eventKey (discovered_event cf ev to target i)"
    and e: "stored_event u k = Some e" "truthy (ee_foxyaRegisteredAt e)" "\<not> truthy (ee_foxyaCompletedAt e)"
    and cf: "cf_client cf = Some client" "\<not> cf_lifecyclePolicy cf" "cf_confirmations cf \<le> n - ee_blockNumber e + 1"
    and amount: "parseKoriAmount (js_Number (ee_amountDecimal e)) = Inl err"
  shows "\<exists>t. scan_pages app cf client n watch flt ts fp s = Some (Inl err, t) \<and>
    pf_ledger (st_platform t) = pf_ledger (st_platform u) \<and> dm_events (st_monitor t) = dm_events (st_monitor u)"
proof -
  obtain t where t: "process_chain_event app cf client n watch flt ev u = (Inl err, t)"
    "pf_ledger (st_platform t) = pf_ledger (st_platform u)" "dm_events (st_monitor t) = dm_events (st_monitor u)"
    using misjudged_event [OF assms(4) to key e cf amount] by blast
  have "scan_page app cf client n watch flt ts fp s = (Inl err, t)"
    using page(1) for_each_stops [OF earlier t(1), of later]
    by (simp add: scan_page_def and_then_def on_scan_def modify_def page(2))
  then show ?thesis using t(2,3) by (simp add: scan_pages.simps)
qed

definition demo_large :: external_event where
  "demo_large = demo_deposit_event\<lparr>ee_foxyaRegisteredAt := Some demo_now, ee_amountRaw := ''16384010000'', ee_amountDecimal := ''16384.01'',
     ee_status := EX_registered\<rparr>"

text \<open>Here bob's transfer is on the page after alice's, and is not looked at.\<close>

theorem misjudged_amount_stops_the_monitor_witness:
  "\<exists>e t. scan_pages demo_app (demo_monitor [demo_transfer 2 ''TNobody'' ''1000000'', demo_transfer 0 ''TAlice'' ''16384010000'',
       demo_transfer 1 ''TBob'' ''7000000'']) demo_client 200 demo_watched [''0xdeposit01''] 0 None
     (demo_station\<lparr>st_monitor := \<lparr>dm_cursors = [], dm_events = [(''mainnet:1:0xdeposit01:0'', demo_large)]\<rparr>\<rparr>) = Some (Inl e, t) \<and>
     dm_events (st_monitor t) = [(''mainnet:1:0xdeposit01:0'', demo_large)]"
proof -
  let ?evs = "[demo_transfer 2 ''TNobody'' ''1000000'', demo_transfer 0 ''TAlice'' ''16384010000'', demo_transfer 1 ''TBob'' ''7000000'']"
  let ?cf = "demo_monitor ?evs"
  let ?s = "demo_station\<lparr>st_monitor := \<lparr>dm_cursors = [], dm_events = [(''mainnet:1:0xdeposit01:0'', demo_large)]\<rparr>\<rparr>"
  let ?page = "\<lparr>tp_events = ?evs, tp_nextFingerprint = None\<rparr>"
  have key: "''mainnet:1:0xdeposit01:0'' = ee_eventKey (discovered_event ?cf (demo_transfer 0 ''TAlice'' ''16384010000'')
      ''TAlice'' demo_alice ''d1'')"
    by code_simp
  obtain err where amount: "parseKoriAmount (js_Number (ee_amountDecimal demo_large)) = Inl err"
  proof -
    have "fails (parseKoriAmount (js_Number ''16384.01''))" by code_simp
    then show ?thesis using that by (auto simp: fails_def demo_large_def split: sum.splits)
  qed
  obtain s1 where page: "outside (cf_listTransfers ?cf (cf_network ?cf) (cf_contractAddress ?cf) 0 None (cf_pageLimit ?cf)) ?s
      = (Inr ?page, s1)" "st_monitor s1 = st_monitor ?s"
    by (simp add: demo_calls)
  have skipped: "filter (\<lambda>a. wt_address a = ''TNobody'') demo_watched = []"
    by (simp add: demo_watched_def demo_alice_def)
  obtain u where u: "for_each (process_chain_event demo_app ?cf demo_client 200 demo_watched [''0xdeposit01''])
        [demo_transfer 2 ''TNobody'' ''1000000'']
        (s1\<lparr>st_scan := (st_scan s1)\<lparr>sc_scannedEvents := sc_scannedEvents (st_scan s1) + int (length (tp_events ?page))\<rparr>\<rparr>)
        = (Inr (), u)" "st_monitor u = st_monitor ?s"
    using page(2) skipped
    by (simp add: process_chain_event_def demo_calls Let_def demo_transfer_def truthy_def truthy_str_def)
  have stored: "stored_event u ''mainnet:1:0xdeposit01:0'' = Some demo_large"
    by (simp add: stored_event_def u(2) map_get_def)
  have "\<exists>t. scan_pages demo_app ?cf demo_client 200 demo_watched [''0xdeposit01''] 0 None ?s = Some (Inl err, t) \<and>
      pf_ledger (st_platform t) = pf_ledger (st_platform u) \<and> dm_events (st_monitor t) = dm_events (st_monitor u)"
    by (rule misjudged_amount_stops_the_monitor [OF page(1) _ u(1) _ _ _ _ key stored _ _ _ _ _ amount])
      (simp_all add: demo_targets demo_large_def truthy_str_def demo_now_def demo_transfer_def)
  then show ?thesis by (auto simp: u(2))
qed

text \<open>An error before the cursor is read loses it: when the watch addresses cannot be listed, the cycle saves the
  configured start, or the present minus the lookback, over whatever cursor was stored, even in a manual
  reconciliation that must not persist one.  Transfers between the lost cursor and the new one are skipped.\<close>
theorem early_error_overwrites_cursor:
  assumes on: "cf_enabled cf" "cf_client cf = Some client" "\<not> st_running s"
    and err: "\<And>v. fst (dc_listWatchAddresses client v) = Inl e"
  shows "\<exists>t c. runCycleInternal app cf opts s = Some (Inl e, t) \<and> getCursor SCANNER_KEY (st_monitor t) = Some c \<and>
    mc_cursorTimestampMs c
      = coalesce (cf_startTimestampMs cf) (fst (app_clock app (pf_world (st_platform s))) - cf_lookbackMs cf) \<and>
    mc_lastError c = Some (error_message e)"
proof -
  let ?s = "s\<lparr>st_running := True\<rparr>"
  have "yields (\<lambda>r t. r = Inl e \<and> st_scan t = scan_start
      (coalesce (cf_startTimestampMs cf) (fst (app_clock app (pf_world (st_platform s))) - cf_lookbackMs cf)) None)
    (prepare_scan app cf client opts) ?s"
    using err by (simp add: prepare_scan_def wp)
  then obtain t where p: "prepare_scan app cf client opts ?s = (Inl e, t)" and sc: "st_scan t = scan_start
      (coalesce (cf_startTimestampMs cf) (fst (app_clock app (pf_world (st_platform s))) - cf_lookbackMs cf)) None"
    by (auto elim!: yieldsE)
  have "yields (\<lambda>r u. r = Inl e \<and> (\<exists>c. getCursor SCANNER_KEY (st_monitor u) = Some c \<and> mc_cursorTimestampMs c
        = coalesce (cf_startTimestampMs cf) (fst (app_clock app (pf_world (st_platform s))) - cf_lookbackMs cf) \<and>
      mc_lastError c = Some (error_message e))) (abort_scan app cf e :: ('a station, monitor_report) act) t"
    by (simp add: abort_scan_def wp saveCursor_def Let_def cursor_now_def sc scan_start_def getCursor_def)
  then obtain u where "(abort_scan app cf e :: ('a station, monitor_report) act) t = (Inl e, u)"
    and "\<exists>c. getCursor SCANNER_KEY (st_monitor u) = Some c \<and> mc_cursorTimestampMs c
        = coalesce (cf_startTimestampMs cf) (fst (app_clock app (pf_world (st_platform s))) - cf_lookbackMs cf) \<and>
      mc_lastError c = Some (error_message e)"
    by (auto elim!: yieldsE)
  then show ?thesis
    using on p by (simp add: runCycleInternal_def not_running_def)
qed

theorem early_error_overwrites_cursor_witness:
  "\<exists>t c. runCycleInternal demo_app ((demo_monitor [])\<lparr>cf_client := Some (demo_client\<lparr>dc_listWatchAddresses := throw (JsError ''timeout'')\<rparr>)\<rparr>)
       (demo_options\<lparr>co_persistCursor := False\<rparr>) demo_station = Some (Inl (JsError ''timeout''), t) \<and>
     getCursor SCANNER_KEY (st_monitor t) = Some c \<and> mc_cursorTimestampMs c = 1773317040000"
proof -
  have "\<not> st_running demo_station" by (simp add: demo_station_def initial_station_def)
  then show ?thesis
    using early_error_overwrites_cursor [of "(demo_monitor [])\<lparr>cf_client := Some (demo_client\<lparr>dc_listWatchAddresses := throw (JsError ''timeout'')\<rparr>)\<rparr>"
        "demo_client\<lparr>dc_listWatchAddresses := throw (JsError ''timeout'')\<rparr>" demo_station "JsError ''timeout''" demo_app
        "demo_options\<lparr>co_persistCursor := False\<rparr>"]
    by simp blast
qed

section \<open>The sweep bot\<close>

definition sweep_at :: "string \<Rightarrow> 'w station \<Rightarrow> sweep_record option" where
  "sweep_at i s = map_get (sweepRecords (pf_ledger (st_platform s))) i"

definition sweep_settled :: "string \<Rightarrow> 'w station \<Rightarrow> bool" where
  "sweep_settled i s = (\<exists>v. sweep_at i s = Some v \<and> sw_status v \<in> {SW_broadcasted, SW_failed})"

text \<open>The same settings with another way to broadcast: what does not depend on it did not broadcast.\<close>

definition with_broadcast :: "'w sweep_config \<Rightarrow> (broadcast_request \<Rightarrow> ('w, string) act) \<Rightarrow> 'w sweep_config" where
  "with_broadcast cf b = cf\<lparr>sb_gateway := (sb_gateway cf)\<lparr>tg_broadcastTransfer := b\<rparr>\<rparr>"

lemma with_broadcast_sel [simp]:
  "sb_minTrx (with_broadcast cf b) = sb_minTrx cf" "sb_minEnergy (with_broadcast cf b) = sb_minEnergy cf"
  "tg_getAccountResources (sb_gateway (with_broadcast cf b)) = tg_getAccountResources (sb_gateway cf)"
  "resource_low app (with_broadcast cf b) = resource_low app cf"
  by (simp_all add: with_broadcast_def resource_low_def fun_eq_iff)

lemma yields_update_sweep:
  "map_get (sweepRecords l) i = Some w \<Longrightarrow>
     yields P (update_sweep i acc msg f) l
       = (if sw_status w \<in> acc then P (Inr (f w)) (l\<lparr>sweepRecords := map_set i (f w) (sweepRecords l)\<rparr>)
          else P (Inl (DomainError 409 ''INVALID_STATE'' msg)) l)"
  by (simp add: yields_def update_sweep_def getMutableSweep_def)

lemmas sweep_updates = ledger_call_def recordSweepAttempt_def markSweepBroadcasted_def failSweep_def yields_update_sweep

lemma send_sweep_settles:
  assumes "sweep_at (sw_sweepId w) s = Some v" and "sw_status v = SW_queued"
  shows "yields (\<lambda>r t. sweep_settled (sw_sweepId w) t) (send_sweep app cf client d w signer) s"
  using assms by (auto simp: send_sweep_def wp sweep_at_def sweep_settled_def sweep_updates split: sum.split)

text \<open>One attempt: either nothing depends on the broadcast, or the record was queued and is sweep_settled now.\<close>

lemma attempt_sweep_once:
  assumes v: "sweep_at (sw_sweepId w) s = Some v"
  shows "(\<forall>b. attempt_sweep app (with_broadcast cf b) client d w signer s = attempt_sweep app cf client d w signer s) \<or>
    sw_status v = SW_queued \<and> sweep_settled (sw_sweepId w) (snd (attempt_sweep app cf client d w signer s))"
proof (cases "sw_status v = SW_queued")
  case False
  then have "fst (ledger_call app (recordSweepAttempt (sw_sweepId w) (Some ''attempted by sweep executor'')) s)
      = Inl (DomainError 409 ''INVALID_STATE'' ''sweep must be queued'')"
    using v by (simp add: ledger_call_def on_platform_def on_ledger_def zoom_def and_then_def run_now_iso_eq split_beta
        recordSweepAttempt_def update_sweep_def getMutableSweep_def sweep_at_def)
  then show ?thesis by (simp add: attempt_sweep_def and_then_def split_beta)
next
  case True
  have "yields (\<lambda>r t. \<exists>a u. r = Inr a \<and> sweep_at (sw_sweepId w) t = Some u \<and> sw_status u = SW_queued)
      (ledger_call app (recordSweepAttempt (sw_sweepId w) (Some ''attempted by sweep executor''))) s"
    using v True by (simp add: wp sweep_at_def sweep_updates)
  then obtain a t u where rec: "ledger_call app (recordSweepAttempt (sw_sweepId w) (Some ''attempted by sweep executor'')) s = (Inr a, t)"
    and u: "sweep_at (sw_sweepId w) t = Some u" "sw_status u = SW_queued" by (auto elim!: yieldsE)
  let ?res = "outside (tg_getAccountResources (sb_gateway cf) (fst signer) (coalesce (sw_network w) mainnet))"
  let ?clock = "if truthy (sw_queuedAt a) then on_platform (now_ms app) else ret 0"
  obtain r t2 where res: "?res t = (r, t2)" by fastforce
  then have u2: "sweep_at (sw_sweepId w) t2 = Some u"
    using u by (auto simp: outside_def on_platform_def on_world_def zoom_def sweep_at_def split: prod.splits)
  show ?thesis
  proof (cases r)
    case (Inl e)
    then show ?thesis using rec res by (simp add: attempt_sweep_def and_then_def)
  next
    case (Inr resources)
    have "yields (\<lambda>r t. (\<exists>n. r = Inr n) \<and> sweep_at (sw_sweepId w) t = Some u) ?clock t2"
      using u2 by (simp add: wp sweep_at_def)
    then obtain n t3 where clock: "?clock t2 = (Inr n, t3)" and u3: "sweep_at (sw_sweepId w) t3 = Some u"
      by (auto elim!: yieldsE)
    have "sweep_settled (sw_sweepId w) (snd (send_sweep app cf client d w signer t3))"
      using send_sweep_settles [OF u3 u(2), of app cf client d signer] by (auto elim!: yieldsE)
    then show ?thesis
      using rec res Inr clock True by (simp add: attempt_sweep_def and_then_def Let_def)
  qed
qed

lemma outside_keeps_sweeps: "sweep_at i (snd (outside m s)) = sweep_at i s"
  by (simp add: outside_def on_platform_def on_world_def snd_zoom sweep_at_def)

lemma and_then_once:
  assumes "\<And>x t. m s = (Inr x, t) \<Longrightarrow> (\<forall>b. f b x t = g x t) \<or> Q (snd (g x t))"
  shows "(\<forall>b. and_then m (f b) s = and_then m g s) \<or> Q (snd (and_then m g s))"
  using assms by (cases "m s"; cases "fst (m s)") (auto simp: and_then_def)

lemma sign_once:
  assumes "sweep_at (sw_sweepId w) s = Some v"
  shows "(\<forall>b. sign_and_attempt app (with_broadcast cf b) client signers d w s = sign_and_attempt app cf client signers d w s) \<or>
    (sw_status v = SW_queued \<and> sweep_settled (sw_sweepId w) (snd (sign_and_attempt app cf client signers d w s)))"
  unfolding sign_and_attempt_def
proof (rule and_then_once [where Q = "\<lambda>t. sw_status v = SW_queued \<and> sweep_settled (sw_sweepId w) t"])
  fix sg t
  assume "outside (signers (sw_sourceAddress w) (coalesce (sw_currencyId w) 0)) s = (Inr sg, t)"
  then have "sweep_at (sw_sweepId w) t = Some v"
    using outside_keeps_sweeps [of "sw_sweepId w" "signers (sw_sourceAddress w) (coalesce (sw_currencyId w) 0)" s] assms by simp
  from attempt_sweep_once [OF this]
  show "(\<forall>b. (if \<not> truthy (map_option snd sg) then ret SS_skipped
        else attempt_sweep app (with_broadcast cf b) client d w (the sg)) t
      = (if \<not> truthy (map_option snd sg) then ret SS_skipped else attempt_sweep app cf client d w (the sg)) t) \<or>
    sw_status v = SW_queued \<and> sweep_settled (sw_sweepId w)
      (snd ((if \<not> truthy (map_option snd sg) then ret SS_skipped else attempt_sweep app cf client d w (the sg)) t))"
    by auto
qed

text \<open>C10. A sweep is sent at most once: handling a queued sweep either does not depend on the broadcast at all (so
  nothing was sent), or the record was queued before and is broadcasted or failed afterwards, whichever call
  failed in between; and a broadcasted or failed record is never sent again, because only a queued one is.\<close>
theorem sweep_is_sent_once:
  assumes "sweep_at (sw_sweepId w) s = Some v"
  shows "(\<forall>b. executeSweep app (with_broadcast cf b) client signers w s = executeSweep app cf client signers w s) \<or>
    sw_status v = SW_queued \<and> sweep_settled (sw_sweepId w) (snd (executeSweep app cf client signers w s))"
proof (cases "truthy (parseDepositId (sw_externalRef w))")
  case True
  have "(\<forall>b. (if dep = None then ret SS_skipped else sign_and_attempt app (with_broadcast cf b) client signers d w) t
        = (if dep = None then ret SS_skipped else sign_and_attempt app cf client signers d w) t) \<or>
      sw_status v = SW_queued \<and> sweep_settled (sw_sweepId w)
        (snd ((if dep = None then ret SS_skipped else sign_and_attempt app cf client signers d w) t))"
    if "outside (dc_getDeposit client d) s = (Inr dep, t)" for d dep t
    using sign_once [of w t v app cf client signers d] outside_keeps_sweeps [of "sw_sweepId w" "dc_getDeposit client d" s]
      that assms by auto
  from and_then_once [where Q = "\<lambda>t. sw_status v = SW_queued \<and> sweep_settled (sw_sweepId w) t", OF this] True
  show ?thesis by (simp add: executeSweep_def Let_def)
qed (simp add: executeSweep_def Let_def)

definition demo_gateway :: "string list tron_gateway" where
  "demo_gateway =
     \<lparr>tg_broadcastTransfer = (\<lambda>r w. (Inr ''0xsweep001'', tr_toAddress r # w)),
      tg_broadcastNativeTransfer = (\<lambda>r w. (Inr ''0xnative01'', tr_toAddress r # w)),
      tg_delegateResource = (\<lambda>_. ret ''0xdelegate''), tg_undelegateResource = (\<lambda>_. ret ''0xundelegate''),
      tg_getReceiptDetails = (\<lambda>_. ret \<lparr>rc_status = RS_confirmed, rc_feeSun = 1, rc_energyUsed = 1, rc_bandwidthUsed = 1\<rparr>),
      tg_getAccountResources = (\<lambda>_ _. ret \<lparr>ar_trxBalanceSun = 2000000, ar_energyLimit = 100, ar_energyUsed = 0,
        ar_bandwidthLimit = 100, ar_bandwidthUsed = 0\<rparr>),
      tg_getCanDelegatedMaxSize = (\<lambda>_ _ _. ret 1000), tg_getDelegatedResource = (\<lambda>_ _ _ _. ret 0)\<rparr>"

definition demo_sweeps :: "string list sweep_config" where
  "demo_sweeps =
     \<lparr>sb_active = True, sb_cycleLimit = 10, sb_hotWalletAddress = ''THot'', sb_minTrx = JsFin 1 0, sb_minEnergy = 1,
      sb_queueTimeoutSec = 60, sb_maxRetryCount = 3, sb_client = Some demo_client,
      sb_signers = Some (\<lambda>a _. ret (Some (a, ''pk''))), sb_gateway = demo_gateway\<rparr>"

definition demo_station_sweep :: sweep_record where
  "demo_station_sweep =
     \<lparr>sw_sweepId = ''u9'', sw_sourceWalletCode = ''foxya-user'', sw_sourceAddress = ''TAlice'', sw_targetAddress = ''THot'',
      sw_currencyId = Some 1, sw_network = Some mainnet, sw_amount = 5000000, sw_status = SW_queued,
      sw_externalRef = Some ''foxya-deposit:d0'', sw_txHash = None, sw_note = None, sw_attemptCount = 0,
      sw_createdAt = demo_now, sw_queuedAt = Some demo_now, sw_lastAttemptAt = None, sw_broadcastedAt = None,
      sw_confirmedAt = None\<rparr>"

definition demo_queued :: "string list station" where
  "demo_queued = demo_station\<lparr>st_platform := demo_platform (demo_paid\<lparr>sweepRecords := [(''u9'', demo_station_sweep)]\<rparr>)\<rparr>"

lemma demo_queued_sweep: "sweep_at (sw_sweepId demo_station_sweep) demo_queued = Some demo_station_sweep" "sw_status demo_station_sweep = SW_queued"
  by (simp_all add: sweep_at_def demo_queued_def demo_station_sweep_def map_get_def)

theorem sweep_is_sent_once_witness:
  "(\<forall>b. executeSweep demo_app (with_broadcast demo_sweeps b) demo_client (\<lambda>a _. ret (Some (a, ''pk''))) demo_station_sweep demo_queued
      = executeSweep demo_app demo_sweeps demo_client (\<lambda>a _. ret (Some (a, ''pk''))) demo_station_sweep demo_queued) \<or>
   sweep_settled ''u9'' (snd (executeSweep demo_app demo_sweeps demo_client (\<lambda>a _. ret (Some (a, ''pk''))) demo_station_sweep demo_queued))"
  using sweep_is_sent_once [OF demo_queued_sweep(1), of demo_app demo_sweeps demo_client "\<lambda>a _. ret (Some (a, ''pk''))"]
  by (auto simp: demo_station_sweep_def)

text \<open>C38. When Foxya does not answer after the tokens have left, the sweep is marked as failed: the transfer has been
  broadcast, but the record ends as failed without its transaction hash, and Foxya is told that the sweep
  failed as well.\<close>
theorem sent_sweep_marked_failed:
  assumes w: "sweep_at (sw_sweepId w) s = Some v" "sw_status v = SW_queued"
    and sent: "\<And>r u. fst (tg_broadcastTransfer (sb_gateway cf) r u) = Inr h"
    and err: "\<And>u. fst (dc_submitSweep client d h u) = Inl e" "\<And>m u. fst (dc_failSweep client d m u) = Inr ()"
  shows "\<exists>t x. send_sweep app cf client d w signer s = (Inr SS_failed, t) \<and> sweep_at (sw_sweepId w) t = Some x \<and>
    sw_status x = SW_failed \<and> sw_txHash x = sw_txHash v"
proof -
  have "yields (\<lambda>r t. r = Inr SS_failed \<and> (\<exists>x. sweep_at (sw_sweepId w) t = Some x \<and> sw_status x = SW_failed \<and>
      sw_txHash x = sw_txHash v)) (send_sweep app cf client d w signer) s"
    using assms by (simp add: send_sweep_def wp sweep_at_def sweep_updates)
  then show ?thesis by (auto elim!: yieldsE)
qed

theorem sent_sweep_marked_failed_witness:
  "\<exists>t x. send_sweep demo_app demo_sweeps (demo_client\<lparr>dc_submitSweep := \<lambda>_ _. throw (JsError ''timeout'')\<rparr>) ''d0'' demo_station_sweep
       (''TAlice'', ''pk'') demo_queued = (Inr SS_failed, t) \<and>
     sweep_at (sw_sweepId demo_station_sweep) t = Some x \<and> sw_status x = SW_failed \<and> sw_txHash x = None"
  using sent_sweep_marked_failed [OF demo_queued_sweep, of demo_sweeps "''0xsweep001''"
      "demo_client\<lparr>dc_submitSweep := \<lambda>_ _. throw (JsError ''timeout'')\<rparr>" "''d0''" "JsError ''timeout''" demo_app "(''TAlice'', ''pk'')"]
  by (simp add: demo_sweeps_def demo_gateway_def) (simp add: demo_station_sweep_def)

text \<open>At most one sweep record for each deposit.\<close>

definition sweeps_unique :: "ledger \<Rightarrow> bool" where
  "sweeps_unique l = (\<forall>i j w v d. map_get (sweepRecords l) i = Some w \<longrightarrow> map_get (sweepRecords l) j = Some v \<longrightarrow>
     sw_externalRef w = Some (sweep_ref d) \<longrightarrow> sw_externalRef v = Some (sweep_ref d) \<longrightarrow> i = j)"

definition unique_kept :: "'w station \<Rightarrow> 'w station \<Rightarrow> bool" where
  "unique_kept s t = (sweeps_unique (pf_ledger (st_platform s)) \<longrightarrow> sweeps_unique (pf_ledger (st_platform t)))"

interpretation uk: run_relation unique_kept
  by unfold_locales (auto simp: unique_kept_def)

lemma unique_update:
  assumes "sweeps_unique l" and "\<And>w. sw_externalRef (f w) = sw_externalRef w"
  shows "sweeps_unique (snd (update_sweep i acc msg f l))"
  using assms(1)
  by (rule_tac update_sweep_cases [of l i acc msg f]; auto simp: sweeps_unique_def assms(2) split: if_splits)

lemma unique_ledger_call:
  "(\<And>now l. sweeps_unique l \<Longrightarrow> sweeps_unique (snd (m now l))) \<Longrightarrow> keeps unique_kept (ledger_call app m)"
  by (simp add: keeps_def unique_kept_def ledger_call_def on_platform_def on_ledger_def snd_zoom and_then_def run_now_iso_eq)

lemma unique_calls:
  "keeps unique_kept (ledger_call app (markSweepQueued i note))"
  "keeps unique_kept (ledger_call app (\<lambda>now. total (enqueueJob (app_cfg app) ty p now)))"
  "keeps unique_kept (ledger_call app (recordSweepAttempt i note))"
  "keeps unique_kept (ledger_call app (markSweepBroadcasted i h note))"
  "keeps unique_kept (ledger_call app (failSweep i reason))"
  by (rule unique_ledger_call; simp add: markSweepQueued_def recordSweepAttempt_def markSweepBroadcasted_def failSweep_def
      unique_update snd_total; simp add: enqueueJob_def sweeps_unique_def Let_def)+

lemma unique_confirm: "keeps unique_kept (ledger_call app (confirmSweep i sc))"
proof (rule unique_ledger_call)
  fix now l
  let ?f = "\<lambda>w. w\<lparr>sw_status := SW_confirmed, sw_note := coalesce_opt (Option.bind sc sf_note) (sw_note w), sw_confirmedAt := Some now\<rparr>"
  assume "sweeps_unique l"
  then have "sweeps_unique (snd (update_sweep i {SW_planned, SW_broadcasted} ''sweep must be planned or broadcasted'' ?f l))"
    by (rule unique_update) simp
  moreover have "sweeps_unique (record_fee k rt ri fee n m) = sweeps_unique m" for k rt ri fee n m
    by (simp add: sweeps_unique_def record_fee_def)
  ultimately show "sweeps_unique (snd (confirmSweep i sc now l))"
    by (auto simp: confirmSweep_def split: prod.split sum.split option.split)
qed

lemma unique_quiet:
  "keeps unique_kept (outside m)" "keeps unique_kept (ledger_read f)" "keeps unique_kept (on_platform (notify app a))"
  "keeps unique_kept (on_platform (now_iso app))" "keeps unique_kept (on_platform (now_ms app))" "keeps unique_kept (on_bot g)"
  "keeps unique_kept (lift_result r)"
  by (simp_all add: yields_keeps wp unique_kept_def ledger_read_def ask_ledger_def on_bot_def)

lemmas unique_rules = uk.keep_rules unique_quiet unique_calls unique_confirm

text \<open>A new sweep is created only when no record has its reference.\<close>

lemma planned_sweep_unique:
  assumes none: "findSweepByExternalRef (sweep_ref (ee_depositId event)) (pf_ledger (st_platform s)) = None"
  shows "yields (\<lambda>r t. unique_kept s t) (planned_sweep app cf event note) s"
proof -
  let ?l = "pf_ledger (st_platform s)" and ?ref = "sweep_ref (ee_depositId event)"
  have old: "sw_externalRef w \<noteq> Some ?ref" if "map_get (sweepRecords ?l) i = Some w" for i w
    using none map_values_get [OF that] by (auto simp: findSweepByExternalRef_def find_None_iff)
  have inj: "sweep_ref a = sweep_ref b \<Longrightarrow> a = b" for a b by (simp add: sweep_ref_def)
  have "sweeps_unique (snd (createSweepRecord (app_cfg app) inp now ?l))"
    if "sweeps_unique ?l" "si_externalRef inp = Some ?ref" for inp now
    using that old unfolding createSweepRecord_def Let_def sweeps_unique_def
    by (auto split: if_splits dest: inj)
  then show ?thesis
    by (simp add: planned_sweep_def wp ledger_call_def unique_kept_def split: sum.split)
qed

lemma yields_unique_then:
  assumes "yields (\<lambda>r t. unique_kept s t) m s" and "\<And>x. keeps unique_kept (f x)"
  shows "yields (\<lambda>r t. unique_kept s t) (and_then m f) s"
  unfolding yields_bind
  by (rule yields_mono [OF assms(1)])
    (auto split: sum.split intro!: yields_mono [OF assms(2) [unfolded yields_keeps, rule_format]] intro: uk.R_trans)

lemma plan_deposit_unique:
  assumes "sweep = findSweepByExternalRef (sweep_ref (ee_depositId event)) (pf_ledger (st_platform s))"
  shows "yields (\<lambda>r t. unique_kept s t) (plan_deposit app cf event deposit sweep) s"
proof (cases sweep)
  case (Some w)
  have "keeps unique_kept (plan_deposit app cf event deposit (Some w))"
    unfolding plan_deposit_def Let_def by (intro unique_rules) auto
  then show ?thesis by (simp add: Some yields_keeps)
next
  case None
  have "yields (\<lambda>r t. unique_kept s t) (and_then (planned_sweep app cf event n) f) s"
    if "\<And>x. keeps unique_kept (f x)" for n and f :: "sweep_record \<Rightarrow> ('a station, sweep_stage) act"
    by (rule yields_unique_then [OF planned_sweep_unique that]) (use assms None in simp)
  note create = this
  show ?thesis
  proof (cases "map_option toUpperCase (fd_sweepStatus deposit) = Some ''FAILED''")
    case True
    then show ?thesis by (simp add: plan_deposit_def None yields_def and_then_def uk.R_refl)
  next
    case False
    then show ?thesis
      unfolding plan_deposit_def Let_def None by (auto simp del: map_option_eq_Some intro!: create unique_rules)
  qed
qed

lemma planEvent_unique: "keeps unique_kept (planEvent app cf client event)"
proof -
  have "yields (\<lambda>r t. unique_kept s t) (and_then (ledger_read (findSweepByExternalRef (sweep_ref (ee_depositId event)))) (\<lambda>sweep.
      plan_deposit app cf event deposit sweep)) s" for s deposit
    by (simp add: wp ledger_read_def ask_ledger_def plan_deposit_unique)
  then have found: "keeps unique_kept (and_then (ledger_read (findSweepByExternalRef (sweep_ref (ee_depositId event)))) (\<lambda>sweep.
      plan_deposit app cf event deposit sweep))" for deposit by (simp add: yields_keeps)
  show ?thesis
    unfolding planEvent_def
    by (rule uk.keep_bind [OF unique_quiet(1)], rule uk.keep_option, rule uk.keep_ret, rule found)
qed

lemma sweep_cycle_unique: "keeps unique_kept (sweep_cycle app cf)"
  unfolding sweep_cycle_def sweep_stages_def planSweepsFromCompletedDeposits_def queuePlannedSweeps_def
    executeQueuedSweeps_def confirmBroadcastedSweeps_def queue_sweep_def executeSweep_def sign_and_attempt_def
    attempt_sweep_def resource_low_def send_sweep_def confirm_sweep_def Let_def
  by (intro unique_rules planEvent_unique)

text \<open>C11. A cycle of the sweep bot never makes a second record for a deposit, whichever of its calls fail: if no two
  records share the reference of a deposit before the cycle, none do after it.  With the previous property
  every deposit is swept at most once.\<close>
theorem one_sweep_per_deposit:
  assumes "sweeps_unique (pf_ledger (st_platform s))" and "sweep_cycle app cf s = (r, t)"
  shows "sweeps_unique (pf_ledger (st_platform t))"
  using keepsD [OF sweep_cycle_unique, of s app cf] assms by (simp add: unique_kept_def)

theorem one_sweep_per_deposit_witness:
  "sweeps_unique (pf_ledger (st_platform (snd (sweep_cycle demo_app demo_sweeps demo_queued))))"
proof -
  have "sweeps_unique (pf_ledger (st_platform demo_queued))"
    by (simp add: sweeps_unique_def demo_queued_def map_get_def)
  then show ?thesis by (rule one_sweep_per_deposit [OF _ prod.collapse [symmetric]])
qed

end
