(* ===== verification/WalletProperties.thy ===== *)
theory WalletProperties
  imports PlatformDemo
begin

text \<open>
  The properties of the services that keep the virtual wallets usable on the chain: what the reports of
  the activation cycles say, and that resources stay with the addresses that still need them.
\<close>

section \<open>Activation\<close>

text \<open>C31. The report of an activation cycle is true, whichever of its calls fail.  A grant cycle never throws; it sorts
  exactly the wallets it picked into granted and failed ones, the repository shows each granted wallet as
  granted with its transaction and each failed one as failed with an error, and no other wallet has changed.\<close>
theorem grant_report_is_true:
  assumes "app_ok app" and "platform_steps app (initial_platform app w) s" and "ga_enabled opts"
  shows "\<exists>report t. grant_cycle app gateway syncClient opts s = (Inr (Cycle_ran report), t) \<and>
    grants_sorted s (listVirtualWalletsByActivationStatus VA_pending_trx_grant (ga_cycleLimit opts) (pf_wallets s)) report t"
  using grant_cycle_effect [OF _ assms(3), of "app_walletId app" s app gateway syncClient] platform_steps_ok [OF assms(2,1)]
  by (simp add: platform_ok_def)

definition demo_grant :: grant_options where
  "demo_grant = \<lparr>ga_enabled = True, ga_cycleLimit = 10, ga_amountTrx = fl 11 10\<rparr>"

definition demo_tron :: "string list tron_gateway" where
  "demo_tron =
     \<lparr>tg_broadcastTransfer = (\<lambda>_. ret ''0xsweep001''), tg_broadcastNativeTransfer = (\<lambda>_. ret ''0xnative01''),
      tg_delegateResource = (\<lambda>_. ret ''0xdelegate''), tg_undelegateResource = (\<lambda>_. ret ''0xundelegate''),
      tg_getReceiptDetails = (\<lambda>_. ret \<lparr>rc_status = RS_confirmed, rc_feeSun = 1, rc_energyUsed = 1, rc_bandwidthUsed = 1\<rparr>),
      tg_getAccountResources = (\<lambda>_ _. ret \<lparr>ar_trxBalanceSun = 2000000, ar_energyLimit = 100, ar_energyUsed = 0,
        ar_bandwidthLimit = 600, ar_bandwidthUsed = 0\<rparr>),
      tg_getCanDelegatedMaxSize = (\<lambda>_ _ _. ret 1000), tg_getDelegatedResource = (\<lambda>_ _ _ _. ret 0)\<rparr>"

lemma demo_listed:
  "listVirtualWalletsByActivationStatus VA_pending_trx_grant 10 (pf_wallets demo_issued) = [toPublicBinding demo_wallet]"
  unfolding demo_issued_sel by code_simp

theorem grant_report_is_true_witness:
  "\<exists>report t. grant_cycle demo_app demo_tron None demo_grant demo_issued = (Inr (Cycle_ran report), t) \<and>
     set (fst report @ snd report) = {''v0''}"
  using grant_report_is_true [OF demo_app_ok demo_issued_steps, of demo_grant demo_tron None] demo_listed
  by (auto simp: demo_grant_def grants_sorted_def demo_wallet_def)

text \<open>A reclaim cycle that returns has sorted exactly the wallets it picked into reclaimed, waiting and failed ones;
  each reclaimed wallet is shown as reclaimed with its transaction, each failed one as failed, and all others
  are as they were.\<close>
theorem reclaim_report_is_true:
  assumes "app_ok app" and "platform_steps app (initial_platform app w) s"
    and "reclaim_cycle app gateway opts s = (Inr (Cycle_ran report), t)"
  shows "reclaims_sorted s (listVirtualWalletsByActivationStatus VA_trx_granted (rg_cycleLimit opts) (pf_wallets s)) report t"
  using reclaim_cycle_effect [OF _ assms(3), of "app_walletId app"] platform_steps_ok [OF assms(2,1)]
  by (simp add: platform_ok_def)

definition demo_reclaim :: reclaim_options where
  "demo_reclaim = \<lparr>rg_enabled = True, rg_cycleLimit = 10, rg_amountTrx = JsFin 1 0, rg_minAvailableBandwidth = 1000\<rparr>"

definition demo_granted :: "string list platform" where
  "demo_granted = demo_issued\<lparr>pf_wallets := snd (markActivationGranted ''v0'' (Some ''0xnative01'') demo_now (pf_wallets demo_issued))\<rparr>"

lemma demo_granted_steps: "platform_steps demo_app (initial_platform demo_app []) demo_granted"
  using demo_issued_steps unfolding platform_steps_def demo_granted_def
  by (rule rtranclp.rtrancl_into_rtrancl) (rule pf_mark, rule mark_granted)

lemma demo_granted_listed:
  "map vw_virtualWalletId (listVirtualWalletsByActivationStatus VA_trx_granted 10 (pf_wallets demo_granted)) = [''v0'']"
  unfolding demo_granted_def by (simp add: demo_issued_sel) code_simp

theorem reclaim_report_is_true_witness:
  "\<exists>report t. reclaim_cycle demo_app demo_tron demo_reclaim demo_granted = (Inr (Cycle_ran report), t) \<and>
     rl_waiting report = [''v0''] \<and> pf_wallets t = pf_wallets demo_granted"
proof -
  obtain b where b: "listVirtualWalletsByActivationStatus VA_trx_granted 10 (pf_wallets demo_granted) = [b]"
    and id: "vw_virtualWalletId b = ''v0''" using demo_granted_listed by auto
  obtain report t where run: "reclaim_cycle demo_app demo_tron demo_reclaim demo_granted = (Inr (Cycle_ran report), t)"
    and w: "rl_waiting report = [''v0'']" "pf_wallets t = pf_wallets demo_granted"
  proof -
    have trx: "trx_to_sun (JsFin 1 0) = Inr 1000000" by code_simp
    have "yields (\<lambda>r t. \<exists>report. r = Inr (Cycle_ran report) \<and> rl_waiting report = [''v0''] \<and> pf_wallets t = pf_wallets demo_granted)
        (reclaim_cycle demo_app demo_tron demo_reclaim) demo_granted"
      using b id by (simp add: reclaim_cycle_def wp demo_reclaim_def trx reclaim_one_def Let_def demo_tron_def)
    then show ?thesis using that by (auto elim!: yieldsE)
  qed
  have "reclaims_sorted demo_granted (listVirtualWalletsByActivationStatus VA_trx_granted (rg_cycleLimit demo_reclaim)
      (pf_wallets demo_granted)) report t"
    by (rule reclaim_report_is_true [OF demo_app_ok demo_granted_steps run])
  then show ?thesis using run w by blast
qed

section \<open>Resources\<close>

context wallet_relation
begin

lemma run_address [run_rules]:
  "keeps R (delegateForAddress app gateway opts a)" "keeps R (releaseForAddress app gateway opts a)"
  unfolding delegateForAddress_def releaseForAddress_def delegate_binding_def release_binding_def Let_def
  by (intro run_rules run_wallet_mark)+

end

text \<open>A wallet at the address holds delegated resources.\<close>

definition holds_resources :: "string \<Rightarrow> 'w platform \<Rightarrow> bool" where
  "holds_resources a s = (\<exists>i b. map_get (walletById (pf_wallets s)) i = Some b \<and> vw_walletAddress b = a \<and>
     vw_resourceStatus b = VR_delegated)"

definition active_sweeps :: "ledger \<Rightarrow> sweep_record list" where
  "active_sweeps l = filter (\<lambda>w. sw_status w \<in> {SW_queued, SW_broadcasted}) (map_values (sweepRecords l))"

lemma address_run_holds:
  assumes ok: "repo_ok newId (pf_wallets s)" and run: "address_run a eligible s r t" and h: "holds_resources x s"
    and el: "\<And>b. eligible b \<Longrightarrow> vw_resourceStatus b = VR_delegated \<Longrightarrow> x \<noteq> a"
  shows "holds_resources x t"
proof -
  obtain i b where b: "map_get (walletById (pf_wallets s)) i = Some b" "vw_walletAddress b = x" "vw_resourceStatus b = VR_delegated"
    using h by (auto simp: holds_resources_def)
  from run consider "pf_wallets t = pf_wallets s" | d c where
    "wallet_at (pf_wallets s) (map_get (walletByAddress (pf_wallets s)) a) = Some d" "eligible d"
    "only_wallet (vw_virtualWalletId d) c s t"
    by (auto simp: address_run_def split: if_splits)
  then show ?thesis
  proof cases
    case 1
    then show ?thesis using h by (simp add: holds_resources_def)
  next
    case (2 d c)
    note at = stored_at [OF ok 2(1)]
    have "i \<noteq> vw_virtualWalletId d"
      using at b el [OF 2(2)] by auto
    then show ?thesis using 2(3) b by (auto simp: holds_resources_def only_wallet_def)
  qed
qed

text \<open>Both loops: the repository keeps its invariant, an address with an active sweep keeps its resources, and only
  other addresses are reported as released.\<close>

definition resources_safe :: "(nat \<Rightarrow> string) \<Rightarrow> string set \<Rightarrow> 'w platform \<Rightarrow> string list \<Rightarrow> delegation_report \<Rightarrow> 'w platform \<Rightarrow> bool" where
  "resources_safe newId A s handled report t =
     (repo_ok newId (pf_wallets t) \<and> (\<forall>a \<in> A. holds_resources a s \<longrightarrow> holds_resources a t) \<and>
      set (dr_released report) \<inter> A = {})"

lemma repo_kept:
  "keeps (config_sound newId) m \<Longrightarrow> repo_ok newId (pf_wallets s) \<Longrightarrow> repo_ok newId (pf_wallets (snd (m s)))"
  by (drule keepsD [of _ _ s]) (simp add: config_sound_def)

lemma delegate_step:
  assumes safe: "resources_safe newId A s hs report t" and a: "truthy_str a"
  shows "yields (\<lambda>r u. \<exists>rep. r = Inr rep \<and> resources_safe newId A s (hs @ [a]) rep u) (delegate_and_report app gateway opts a report) t"
proof -
  have ok: "repo_ok newId (pf_wallets t)" using safe by (simp add: resources_safe_def)
  obtain r u where run: "delegateForAddress app gateway opts a t = (r, u)" by fastforce
  have ad: "address_run a may_borrow t r u" using yieldsD [OF delegateForAddress_effect [OF ok a] run] .
  then obtain res where r: "r = Inr res" by (auto simp: address_run_def)
  have "repo_ok newId (pf_wallets u)" using repo_kept [OF sw.run_address(1) ok, of app gateway opts a] run by simp
  moreover have "holds_resources x u" if "holds_resources x t" for x
    by (rule address_run_holds [OF ok ad that]) (simp add: may_borrow_def)
  ultimately show ?thesis
    using safe run by (auto simp: r delegate_and_report_def yields_def and_then_def resources_safe_def)
qed

lemma release_step:
  assumes safe: "resources_safe newId A s hs report t" and a: "truthy_str a"
  shows "yields (\<lambda>r u. \<exists>rep. r = Inr rep \<and> resources_safe newId A s (hs @ [a]) rep u) (release_and_report app gateway opts A a report) t"
proof (cases "a \<in> A")
  case True
  then show ?thesis using safe by (simp add: release_and_report_def wp resources_safe_def)
next
  case False
  have ok: "repo_ok newId (pf_wallets t)" using safe by (simp add: resources_safe_def)
  obtain r u where run: "releaseForAddress app gateway opts a t = (r, u)" by fastforce
  have ad: "address_run a may_release t r u" using yieldsD [OF releaseForAddress_effect [OF ok a] run] .
  then obtain res where r: "r = Inr res" by (auto simp: address_run_def)
  have "repo_ok newId (pf_wallets u)" using repo_kept [OF sw.run_address(2) ok, of app gateway opts a] run by simp
  moreover have "holds_resources x u" if "holds_resources x t" "x \<in> A" for x
    by (rule address_run_holds [OF ok ad that(1)]) (use that False in auto)
  ultimately show ?thesis
    using safe run False by (auto simp: r release_and_report_def yields_def and_then_def resources_safe_def)
qed

lemma unique_truthy:
  assumes "uniqueAddresses xs = hs @ a # ts"
  shows "truthy_str a"
proof -
  have "a \<in> set (uniqueAddresses xs)" by (simp add: assms)
  then show ?thesis by (auto simp: uniqueAddresses_def)
qed

text \<open>C17. Resources stay where they are needed: a delegation cycle never throws, and as long as the ledger has at most
  five times the cycle limit of sweeps in flight, no address with a queued or broadcasted sweep is reported
  as released, and each such address that held delegated resources before the cycle still holds them.\<close>
theorem resources_stay_with_active_sweeps:
  assumes "app_ok app" and "platform_steps app (initial_platform app w) s" and "do_enabled opts"
    and few: "int (length (active_sweeps (pf_ledger s))) \<le> do_cycleLimit opts * 5"
  shows "\<exists>report t. delegation_cycle app gateway opts s = (Inr (Cycle_ran report), t) \<and>
    (\<forall>v \<in> set (active_sweeps (pf_ledger s)). sw_sourceAddress v \<notin> set (dr_released report) \<and>
       (holds_resources (sw_sourceAddress v) s \<longrightarrow> holds_resources (sw_sourceAddress v) t))"
proof -
  let ?l = "pf_ledger s" and ?n = "app_walletId app"
  let ?A = "set (map sw_sourceAddress (listSweepRecordsByStatuses [SW_queued, SW_broadcasted] (do_cycleLimit opts * 5) ?l))"
  let ?empty = "\<lparr>dr_delegated = [], dr_released = [], dr_waiting = [], dr_failed = []\<rparr>"
  let ?queued = "uniqueAddresses (map sw_sourceAddress (listSweepRecordsByStatuses [SW_queued] (do_cycleLimit opts) ?l))"
  let ?done = "uniqueAddresses (map sw_sourceAddress (listSweepRecordsByStatuses [SW_confirmed, SW_failed] (do_cycleLimit opts) ?l))"
  have "repo_ok ?n (pf_wallets s)" using platform_steps_ok [OF assms(2,1)] by (simp add: platform_ok_def)
  then have "resources_safe ?n ?A s [] ?empty s" by (simp add: resources_safe_def)
  then have "yields (\<lambda>r t. \<exists>rep. r = Inr rep \<and> resources_safe ?n ?A s ?queued rep t)
      (fold_act (delegate_and_report app gateway opts) ?queued ?empty) s"
    by (rule yields_fold) (rule delegate_step, assumption, erule unique_truthy)
  then obtain rep t where d: "fold_act (delegate_and_report app gateway opts) ?queued ?empty s = (Inr rep, t)"
    and t: "resources_safe ?n ?A s ?queued rep t" by (auto elim!: yieldsE)
  have "resources_safe ?n ?A s [] rep t" using t by (simp add: resources_safe_def)
  then have "yields (\<lambda>r u. \<exists>rep. r = Inr rep \<and> resources_safe ?n ?A s ?done rep u)
      (fold_act (release_and_report app gateway opts ?A) ?done rep) t"
    by (rule yields_fold) (rule release_step, assumption, erule unique_truthy)
  then obtain rep' u where r: "fold_act (release_and_report app gateway opts ?A) ?done rep t = (Inr rep', u)"
    and u: "resources_safe ?n ?A s ?done rep' u" by (auto elim!: yieldsE)
  have "delegation_cycle app gateway opts s = (Inr (Cycle_ran rep'), u)"
    using assms(3) d r by (simp add: delegation_cycle_def ask_ledger_def and_then_def)
  moreover have "sw_sourceAddress v \<in> ?A" if "v \<in> set (active_sweeps ?l)" for v
  proof -
    have "set (listSweepRecordsByStatuses [SW_queued, SW_broadcasted] (do_cycleLimit opts * 5) ?l) = set (active_sweeps ?l)"
      using few by (simp add: listSweepRecordsByStatuses_def slice0_def active_sweeps_def)
    then show ?thesis using that by simp
  qed
  ultimately show ?thesis using u by (fastforce simp: resources_safe_def)
qed

definition demo_delegation :: delegation_options where
  "demo_delegation = \<lparr>do_enabled = True, do_cycleLimit = 10, do_bandwidthAmountSun = 5, do_energyAmountSun = 5,
     do_hotWalletAddress = ''THot''\<rparr>"

definition demo_planned :: ledger where
  "demo_planned = snd (createSweepRecord demo_cfg \<lparr>si_sourceWalletCode = ''foxya-user'', si_sourceAddress = ''TAlice'',
     si_targetAddress = ''THot'', si_currencyId = Some 1, si_network = Some mainnet, si_amount = 5000000,
     si_externalRef = Some ''foxya-deposit:d0'', si_note = None\<rparr> demo_now (pf_ledger demo_issued))"

definition demo_sweeping :: ledger where
  "demo_sweeping = snd (markSweepQueued ''u3'' None demo_now demo_planned)"

definition demo_lending :: "string list platform" where
  "demo_lending = demo_issued\<lparr>pf_ledger := demo_sweeping,
     pf_wallets := snd (markResourceDelegated ''v0'' demo_now (pf_wallets demo_issued))\<rparr>"

lemma demo_lending_steps: "platform_steps demo_app (initial_platform demo_app []) demo_lending"
proof -
  have "ledger_steps (app_cfg demo_app) (pf_ledger demo_issued) demo_sweeping"
    unfolding ledger_steps_def demo_app_sel
    by (rule rtranclp.rtrancl_into_rtrancl [OF r_into_rtranclp [of "ledger_step demo_cfg" _ demo_planned]];
        unfold demo_sweeping_def demo_planned_def; rule step_createSweepRecord step_markSweepQueued)
  from platform_ledger_steps [OF this]
  have "platform_steps demo_app (initial_platform demo_app []) (demo_issued\<lparr>pf_ledger := demo_sweeping\<rparr>)"
    using demo_issued_steps unfolding platform_steps_def by (rule rtranclp_trans [rotated])
  moreover have "platform_step demo_app (demo_issued\<lparr>pf_ledger := demo_sweeping\<rparr>) demo_lending"
    unfolding demo_lending_def by (rule pf_mark [of "demo_issued\<lparr>pf_ledger := demo_sweeping\<rparr>", simplified]) (rule mark_delegated)
  ultimately show ?thesis unfolding platform_steps_def by (rule rtranclp.rtrancl_into_rtrancl)
qed

lemma demo_sweeping_active: "map sw_sourceAddress (active_sweeps demo_sweeping) = [''TAlice'']"
  unfolding demo_sweeping_def demo_planned_def demo_issued_sel by code_simp

lemma demo_lending_holds: "holds_resources ''TAlice'' demo_lending"
proof -
  have "map_option (\<lambda>b. (vw_walletAddress b, vw_resourceStatus b))
      (map_get (walletById (snd (markResourceDelegated ''v0'' demo_now (add_wallet demo_wallet empty_wallet_repo)))) ''v0'')
    = Some (''TAlice'', VR_delegated)"
    by code_simp
  then show ?thesis by (auto simp: holds_resources_def demo_lending_def demo_issued_sel)
qed

theorem resources_stay_with_active_sweeps_witness:
  "\<exists>report t. delegation_cycle demo_app demo_tron demo_delegation demo_lending = (Inr (Cycle_ran report), t) \<and>
     ''TAlice'' \<notin> set (dr_released report) \<and> holds_resources ''TAlice'' t"
proof -
  have few: "int (length (active_sweeps (pf_ledger demo_lending))) \<le> do_cycleLimit demo_delegation * 5"
    using arg_cong [OF demo_sweeping_active, of length] by (simp add: demo_lending_def demo_delegation_def)
  have on: "do_enabled demo_delegation" by (simp add: demo_delegation_def)
  obtain v where v: "v \<in> set (active_sweeps (pf_ledger demo_lending))" "sw_sourceAddress v = ''TAlice''"
  proof -
    have "''TAlice'' \<in> set (map sw_sourceAddress (active_sweeps demo_sweeping))"
      unfolding demo_sweeping_active by (rule list.set_intros)
    then obtain v where "v \<in> set (active_sweeps demo_sweeping)" "''TAlice'' = sw_sourceAddress v"
      unfolding set_map by (rule imageE)
    then show ?thesis using that by (simp add: demo_lending_def)
  qed
  from resources_stay_with_active_sweeps [OF demo_app_ok demo_lending_steps on few, of demo_tron] v demo_lending_holds
  show ?thesis by metis
qed

end
