(* ===== verification/Spec2Isabelle.thy ===== *)
theory Spec2Isabelle
  imports LedgerProperties PlatformProperties PgProperties StationProperties WalletProperties CircuitBreakers Alerts
begin

text \<open>
  KORION coin manager: a custody ledger for the KORI token on TRON with the services around it
  (TypeScript, under \<open>src/src\<close>; paths below are relative to it).  This is a shallow embedding of its
  core: every method is a HOL function on an explicit state, and the theorems speak about those
  functions.

  \<^bold>\<open>The parts and how they interact.\<close>  The ledger holds balances, withdrawals, sweeps, deposits, jobs, an
  outbox and the books of event consumers.  It exists twice: \<open>ledger/in-memory-ledger.ts\<close> with Maps, and
  \<open>infrastructure/persistence/postgres/postgres-ledger-repository.ts\<close> with double-entry journals in
  tables.  Services call the ledger, the wallet and policy repositories, a job queue, an event bus and
  ports to the outside (the chain gateway, the signer, Foxya's HTTP clients, the notifier, the clock).
  A withdrawal is requested, approved, put on the queue, dispatched by the worker, broadcast and
  reconciled; its events go over the event bus to a consumer and over the outbox to other programs.
  The deposit monitor credits transfers it finds on the chain, the sweep bot collects them into the hot
  wallet, and the activation and resource services keep the virtual wallets usable.

  \<^bold>\<open>Conventions.\<close>  A method is an \<open>act\<close> (\<open>Prelude\<close>): state to (error or result) and new state; what it did
  before a throw stays, as in the code.  An interface is a record, a string union a datatype, a Map an
  association list in insertion order (\<open>jsmap\<close>), a \<open>bigint\<close> an \<open>int\<close>, a \<open>number\<close> with a fraction a
  binary64 value (\<open>JsNumber\<close>), an optional field an \<open>option\<close>, an ISO time its string.  Code outside
  the repository is a parameter: \<open>ledger_cfg\<close> has \<open>randomUUID\<close>, SHA-256 and HMAC; \<open>app\<close> the clock and the
  ports, each a method of an arbitrary outside world \<open>'w\<close> that may do anything there and may throw.
  Hypotheses about parameters are \<open>uuid_ok\<close> and \<open>app_ok\<close> (\<open>randomUUID\<close> does not repeat itself and issued
  wallet ids do not either); the demonstration theories instantiate them.

  \<^bold>\<open>Time and interleaving.\<close>  A method runs to its end before the next starts.  For the ledgers this is
  what \<open>withLock\<close> and the database transactions provide; for whole service calls it is an idealisation:
  the awaits inside a service are no interleaving points.  The clock is a port and may jump between
  any two reads.  The machines (\<open>ledger_step\<close>, \<open>pg_step\<close>, \<open>platform_step\<close>, \<open>station_step\<close>) put calls in
  any order, with any arguments, and with arbitrary changes of the outside world in between.

  \<^bold>\<open>The theories.\<close>
  \<^item> Shared: \<open>Prelude\<close> (results, methods, JavaScript maps and strings, \<open>invariant_system\<close>), \<open>Effects\<close>
    (state and error combinators; the locale \<open>run_relation\<close>, whose rules carry a relation between the
    states before and after through any composed method), \<open>JsDate\<close>, \<open>JsNumber\<close>, \<open>NumberText\<close>
    (\<open>Number(text)\<close>), \<open>Money\<close> (\<open>core/money.ts\<close>).
  \<^item> In-memory ledger (\<open>ledger/in-memory-ledger.ts\<close>, \<open>ledger/types.ts\<close>, \<open>contracts/ledger-contracts.ts\<close>):
    \<open>LedgerTypes\<close>, \<open>LedgerContracts\<close>, \<open>LedgerState\<close> (the record \<open>ledger\<close> has one field per private Map),
    \<open>LedgerAccounts\<close>, \<open>LedgerWithdrawals\<close>, \<open>LedgerJobs\<close>, \<open>LedgerSweeps\<close>, \<open>LedgerOutbox\<close>,
    \<open>LedgerConsumers\<close>; then \<open>LedgerInvariant\<close>, \<open>WithdrawalInvariant\<close>, \<open>LedgerMachine\<close>,
    \<open>WithdrawalTransitions\<close>, \<open>LedgerStores\<close>, \<open>LedgerBindings\<close>, \<open>LedgerReports\<close>, \<open>LedgerDeposits\<close> prove
    that every operation keeps the money, store and binding invariants and how records may evolve.
  \<^item> Postgres ledger: \<open>PgDatabase\<close> (tables and rows), \<open>PgJournal\<close> (journals, projections), \<open>PgAccounts\<close>,
    \<open>PgWithdrawals\<close>, \<open>PgOfflinePay\<close>, \<open>PgQueues\<close>, \<open>PgOutbox\<close>; \<open>PgInvariant\<close>, \<open>PgOperations\<close>, \<open>PgMachine\<close>,
    \<open>PgSafety\<close>, \<open>PgSummary\<close>.  \<open>AccountBook\<close> states the contract both ledgers meet (the locale
    \<open>account_book\<close>, interpreted on each); \<open>LedgersInStep\<close> shows that the two simulate each
    other on transfers.
  \<^item> Application (\<open>application/services\<close>): \<open>Alerts\<close>, \<open>CircuitBreakers\<close>, \<open>VirtualWallets\<close>,
    \<open>WithdrawPolicy\<close>, \<open>RuntimeSettings\<close>, \<open>Platform\<close> (the state and the ports), \<open>WithdrawGuard\<close>,
    \<open>WithdrawRisk\<close>, \<open>WithdrawService\<close>, \<open>WithdrawDispatch\<close>, \<open>QueueDrain\<close>, \<open>ConsumerRunner\<close>, \<open>EventBus\<close>,
    \<open>OutboxWorker\<close>, \<open>VirtualWalletService\<close>, \<open>AccountServices\<close>, \<open>WalletChain\<close>, \<open>Activation\<close>,
    \<open>ResourceDelegation\<close>, and \<open>Wiring\<close>, which connects them as \<open>container/create-app-dependencies.ts\<close>
    does with the in-memory providers.  \<open>PlatformMachine\<close> is the application as a machine.
  \<^item> Background services: \<open>Station\<close> (the platform with the monitor's repository and its ports),
    \<open>DepositMonitor\<close>, \<open>SweepBot\<close>, \<open>StationMachine\<close>.
  \<^item> Properties and concrete runs: \<open>LedgerProperties\<close>, \<open>PgProperties\<close>, \<open>PlatformProperties\<close>,
    \<open>StationProperties\<close>, \<open>WalletProperties\<close>; the witnesses use the runs of \<open>LedgerDemo\<close>, \<open>PgDemo\<close>,
    \<open>PlatformDemo\<close>, \<open>StationDemo\<close>.

  \<^bold>\<open>What is shown.\<close>
  Money: what a ledger owes is what came in minus what was paid out, locks are exactly the active
  withdrawals, journals balance, the accounts table shows the postings, nobody is overdrawn (without
  compensations, and with reconciliations only to targets that cover what is locked), a settlement moves exactly its amount, and both ledgers
  answer transfers alike.
  Withdrawals: limits, approvals by distinct administrators, a forward life cycle, a dispatch that pays
  once, an event consumer and an outbox that settle everything they take.  Composition: each service
  call moves the ledger along ledger steps (the relation \<open>runs\<close>, carried by the locales
  \<open>run_relation\<close>, \<open>platform_relation\<close>, \<open>publisher_relation\<close>, \<open>wallet_relation\<close>), so the ledger's
  properties hold of the application and of the background services.  Deposits: what the monitor
  reports as credited is credited; a sweep is sent at most once.  The properties of kind \<open>error\<close> state
  where the code does not do what it means to.

  \<^bold>\<open>Termination and bounds.\<close>  The queue drain and the page loop of the deposit monitor are
  \<open>partial_function (option)\<close>: \<open>queue_drains\<close> proves that a drain returns, by a rank of jobs that every
  handler lowers; the page loop follows continuation tokens of a port and may run for ever, so a cycle
  of the monitor is a step only when it returns.  All other loops are structural.  There is no fuel.

  \<^bold>\<open>Not modelled.\<close>  HTTP routes, \<open>zod\<close> request schemas, process start, environment parsing and browser
  code: input and output without decisions of the ledger.  TronWeb, BullMQ, Telegram, \<open>node:crypto\<close>
  and the HTTP and SQL clients of Foxya: code outside the repository behind the ports.  Timers: a worker
  is its cycle.  In Postgres: row locks and isolation (operations run one after the other), and the
  text of SQL (it is read as what it does to the tables).  The widths of the journal and posting
  columns are modelled where a journal is appended with values from outside (\<open>journal_fits\<close>); those of
  other columns are not.
\<close>

end
